(* ===== verification/Prelude.thy ===== *)
theory Prelude
  imports Main "HOL-Library.AList" "HOL-Library.Sublist" "HOL-Library.List_Lexorder"
    "HOL-Library.Char_ord" "HOL-Library.Word" "HOL-Library.Multiset"
begin

text \<open>
  Shared vocabulary of the development: the result type of a Go call (an ordinary
  return, an error return or a run-time panic), Go's fixed-width integers, Go maps as
  association lists with distinct keys, the facts about lists that several components
  use, and the named collections that carry the component proofs.
\<close>

section \<open>Collections\<close>

named_theorems go_simps \<open>rewriting for results, maps and strings of the modelled Go code\<close>
named_theorems inv_intros \<open>every operation keeps its component's invariant\<close>

section \<open>Results of Go calls\<close>

text \<open>
  A call either returns a value, returns a non-nil error, or panics. A panic is not
  an error value: it skips everything after it, so it is a constructor of its own.
\<close>

datatype ('e, 'a) result = Ok 'a | Err 'e | Panic

definition bind_result :: "('e, 'a) result \<Rightarrow> ('a \<Rightarrow> ('e, 'b) result) \<Rightarrow> ('e, 'b) result" where
  "bind_result r f = (case r of Ok x \<Rightarrow> f x | Err e \<Rightarrow> Err e | Panic \<Rightarrow> Panic)"

definition is_Ok :: "('e, 'a) result \<Rightarrow> bool" where
  "is_Ok r = (case r of Ok _ \<Rightarrow> True | Err _ \<Rightarrow> False | Panic \<Rightarrow> False)"

lemma bind_result_simps [simp, go_simps]:
  "bind_result (Ok x) f = f x"
  "bind_result (Err e) f = Err e"
  "bind_result Panic f = Panic"
  by (simp_all add: bind_result_def)

lemma bind_result_assoc:
  "bind_result (bind_result r f) g = bind_result r (\<lambda>x. bind_result (f x) g)"
  by (cases r) simp_all

lemma bind_result_eq_Ok [go_simps]:
  "bind_result r f = Ok y \<longleftrightarrow> (\<exists>x. r = Ok x \<and> f x = Ok y)"
  by (cases r) simp_all

lemma bind_result_eq_Panic [go_simps]:
  "bind_result r f = Panic \<longleftrightarrow> r = Panic \<or> (\<exists>x. r = Ok x \<and> f x = Panic)"
  by (cases r) simp_all

lemma is_Ok_simps [simp, go_simps]: "is_Ok (Ok x)" "\<not> is_Ok (Err e)" "\<not> is_Ok Panic"
  by (simp_all add: is_Ok_def)

lemma is_Ok_iff: "is_Ok r \<longleftrightarrow> (\<exists>x. r = Ok x)"
  by (cases r) simp_all

section \<open>Machine integers\<close>

type_synonym uint64 = "64 word"
type_synonym uint32 = "32 word"
type_synonym int64 = "64 word"
type_synonym byte = "8 word"

text \<open>\<open>time.Duration\<close> and \<open>time.Time\<close>: nanoseconds, as unbounded integers where a component
  does no arithmetic that can leave 64 bits, and with \<open>wrap64\<close> written out where it can.\<close>

type_synonym duration = int
type_synonym time = int

abbreviation nanosecond :: duration where "nanosecond \<equiv> 1"
abbreviation millisecond :: duration where "millisecond \<equiv> 1000000"
abbreviation second :: duration where "second \<equiv> 1000000000"
abbreviation minute :: duration where "minute \<equiv> 60000000000"
abbreviation hour :: duration where "hour \<equiv> 3600000000000"

definition wrap64 :: "int \<Rightarrow> int" where
  "wrap64 x = (x + 2 ^ 63) mod 2 ^ 64 - 2 ^ 63"

lemma wrap64_range: "- (2 ^ 63) \<le> wrap64 x \<and> wrap64 x < 2 ^ 63"
  by (simp add: wrap64_def)

lemma wrap64_id: "- (2 ^ 63) \<le> x \<Longrightarrow> x < 2 ^ 63 \<Longrightarrow> wrap64 x = x"
  by (simp add: wrap64_def)

lemma wrap64_sint: "wrap64 x = sint (word_of_int x :: 64 word)"
  by (simp add: wrap64_def sint_sbintrunc' signed_take_bit_eq_take_bit_shift take_bit_eq_mod)

text \<open>Go's integer division truncates towards zero.\<close>

definition go_quot :: "int \<Rightarrow> int \<Rightarrow> int" where
  "go_quot a b = sgn a * sgn b * (\<bar>a\<bar> div \<bar>b\<bar>)"

section \<open>Go maps\<close>

text \<open>
  A Go map is an association list with distinct keys. The order of the list stands for
  the unspecified iteration order of the map: results that code obtains by iterating are
  proved independent of it (usually because the code sorts).
\<close>

type_synonym ('k, 'v) gomap = "('k \<times> 'v) list"

abbreviation mget :: "('k, 'v) gomap \<Rightarrow> 'k \<Rightarrow> 'v option" where
  "mget m k \<equiv> map_of m k"

abbreviation mput :: "'k \<Rightarrow> 'v \<Rightarrow> ('k, 'v) gomap \<Rightarrow> ('k, 'v) gomap" where
  "mput k v m \<equiv> AList.update k v m"

definition mkeys :: "('k, 'v) gomap \<Rightarrow> 'k list" where
  "mkeys m = map fst m"

definition wf_map :: "('k, 'v) gomap \<Rightarrow> bool" where
  "wf_map m = distinct (map fst m)"

lemma mget_mput [simp, go_simps]: "mget (mput k v m) k' = (if k = k' then Some v else mget m k')"
  by (simp add: update_conv')

lemma wf_map_empty [simp]: "wf_map []"
  by (simp add: wf_map_def)

lemma wf_map_mput [simp, inv_intros]: "wf_map m \<Longrightarrow> wf_map (mput k v m)"
  by (simp add: wf_map_def distinct_update)

lemma set_mkeys_mput [simp]: "set (mkeys (mput k v m)) = insert k (set (mkeys m))"
  by (simp add: mkeys_def dom_map_of_conv_image_fst [symmetric] update_conv' insert_commute)

lemma set_mkeys: "set (mkeys m) = dom (mget m)"
  by (simp add: mkeys_def dom_map_of_conv_image_fst)

lemma mget_in_set: "wf_map m \<Longrightarrow> (k, v) \<in> set m \<longleftrightarrow> mget m k = Some v"
  by (simp add: wf_map_def)

text \<open>Iterating over a Go map and sorting the keys gives the same list for every order.\<close>

lemma sorted_keys_unique:
  fixes m m' :: "('k::linorder, 'v) gomap"
  assumes "wf_map m" and "wf_map m'" and "mget m = mget m'"
  shows "sort (mkeys m) = sort (mkeys m')"
proof -
  have "set (mkeys m) = set (mkeys m')"
    using assms(3) by (simp add: set_mkeys)
  then have "mset (mkeys m) = mset (mkeys m')"
    using assms(1,2) by (metis wf_map_def mkeys_def set_eq_iff_mset_eq_distinct)
  then show ?thesis
    by (metis properties_for_sort sorted_sort mset_sort)
qed

section \<open>Lists\<close>

lemma takeWhile_length_bound: "length (takeWhile P xs) \<le> length xs"
  by (rule length_takeWhile_le)

lemma find_Some_iff_nth:
  "find P xs = Some x \<longleftrightarrow> (\<exists>i<length xs. P (xs ! i) \<and> x = xs ! i \<and> (\<forall>j<i. \<not> P (xs ! j)))"
  by (auto simp: find_Some_iff)

text \<open>
  A loop \<open>for _, x := range xs\<close> whose body returns early. \<open>first_hit\<close> is the value of
  the first iteration that returns, if there is one.
\<close>

fun first_hit :: "('a \<Rightarrow> 'b option) \<Rightarrow> 'a list \<Rightarrow> 'b option" where
  "first_hit f [] = None"
| "first_hit f (x # xs) = (case f x of Some y \<Rightarrow> Some y | None \<Rightarrow> first_hit f xs)"

lemma first_hit_None: "first_hit f xs = None \<longleftrightarrow> (\<forall>x\<in>set xs. f x = None)"
  by (induction xs) (auto split: option.splits)

lemma first_hit_append:
  "first_hit f (xs @ ys) = (case first_hit f xs of Some y \<Rightarrow> Some y | None \<Rightarrow> first_hit f ys)"
  by (induction xs) (auto split: option.splits)

end
