(* ===== verification/Identity.thy ===== *)
theory Identity
  imports GoStrings
begin

text \<open>
  HTTP requests, responses and request contexts, and the package \<open>xhttp/identity\<close>: who the
  caller is and how that is carried in a Go context. A header is a Go map from canonical
  keys to value lists. A context carries at most one value for \<open>keyContext\<close>, a pointer that
  may be nil, hence the nested option.
\<close>

section \<open>Requests and responses (net/http)\<close>

type_synonym header = "(string, string list) gomap"

text \<open>\<open>textproto.CanonicalMIMEHeaderKey\<close> on keys made of token characters: upper case at the
  start and after a hyphen, lower case elsewhere.\<close>

definition upper_char :: "char \<Rightarrow> char" where
  "upper_char c = (let n = (of_char c :: nat) in if 97 \<le> n \<and> n \<le> 122 then char_of (n - 32) else c)"

fun canonical_from :: "bool \<Rightarrow> string \<Rightarrow> string" where
  "canonical_from up [] = []"
| "canonical_from up (c # cs) =
     (if up then upper_char c else lower_char c) # canonical_from (c = CHR ''-'') cs"

definition canonical_key :: "string \<Rightarrow> string" where
  "canonical_key k = canonical_from True k"

definition header_get :: "header \<Rightarrow> string \<Rightarrow> string" where
  "header_get h k = (case mget h (canonical_key k) of Some (v # _) \<Rightarrow> v | _ \<Rightarrow> [])"

definition header_set :: "header \<Rightarrow> string \<Rightarrow> string \<Rightarrow> header" where
  "header_set h k v = mput (canonical_key k) [v] h"

definition header_add :: "header \<Rightarrow> string \<Rightarrow> string \<Rightarrow> header" where
  "header_add h k v =
     (let ck = canonical_key k
      in mput ck ((case mget h ck of None \<Rightarrow> [] | Some vs \<Rightarrow> vs) @ [v]) h)"

lemma header_get_set [simp]: "header_get (header_set h k v) k = v"
  by (simp add: header_get_def header_set_def)

lemma header_get_set_other:
  "canonical_key k \<noteq> canonical_key k' \<Longrightarrow> header_get (header_set h k v) k' = header_get h k'"
  by (simp add: header_get_def header_set_def)

text \<open>A response writer as a handler sees it: what \<open>net/http\<close> keeps (headers, the status of the first
  \<open>WriteHeader\<close>, the body) and the \<open>ResponseCapture\<close> values wrapped around it, the outermost first
  (xhttp/response_capture.go). A capture passes every call on to what it wraps, so a call reaches
  all of them; it records the status of the last \<open>WriteHeader\<close> and counts the bytes of the body.\<close>

record ResponseCapture =
  statusCode :: int
  bodySize :: uint64

record response =
  rheader :: header
  rstatus :: "int option"
  rbody :: string
  captures :: "ResponseCapture list"

definition fresh_response :: response where
  "fresh_response = \<lparr>rheader = [], rstatus = None, rbody = [], captures = []\<rparr>"

definition NewResponseCapture :: ResponseCapture where
  "NewResponseCapture = \<lparr>statusCode = 200, bodySize = 0\<rparr>"

definition first_status :: "int \<Rightarrow> int option \<Rightarrow> int option" where
  "first_status sc st = (case st of None \<Rightarrow> Some sc | Some _ \<Rightarrow> st)"

definition write_header :: "int \<Rightarrow> response \<Rightarrow> response" where
  "write_header sc w =
     w\<lparr>captures := map (\<lambda>c. c\<lparr>statusCode := sc\<rparr>) (captures w), rstatus := first_status sc (rstatus w)\<rparr>"

definition write_body :: "string \<Rightarrow> response \<Rightarrow> response" where
  "write_body b w =
     w\<lparr>captures := map (\<lambda>c. c\<lparr>bodySize := bodySize c + of_nat (length b)\<rparr>) (captures w),
       rstatus := first_status 200 (rstatus w), rbody := rbody w @ b\<rparr>"

definition set_header :: "string \<Rightarrow> string \<Rightarrow> response \<Rightarrow> response" where
  "set_header k v w = w\<lparr>rheader := header_set (rheader w) k v\<rparr>"

abbreviation StatusUnauthorized :: int where "StatusUnauthorized \<equiv> 401"

section \<open>xhttp/identity/identity.go\<close>

text \<open>The application's user info is an opaque value, known by a number.\<close>

record identity =
  id_name :: string
  id_role :: string
  id_userID :: string
  id_userInfo :: "nat option"

definition GuestRoleName :: string where
  "GuestRoleName = ''guest''"

definition NewIdentity :: "string \<Rightarrow> string \<Rightarrow> string \<Rightarrow> identity" where
  "NewIdentity r n uid = \<lparr>id_name = n, id_role = r, id_userID = uid, id_userInfo = None\<rparr>"

definition NewIdentityWithUserInfo ::
  "string \<Rightarrow> string \<Rightarrow> string \<Rightarrow> nat option \<Rightarrow> identity" where
  "NewIdentityWithUserInfo r n uid info = \<lparr>id_name = n, id_role = r, id_userID = uid, id_userInfo = info\<rparr>"

definition identity_String :: "identity \<Rightarrow> string" where
  "identity_String c = (if id_role c \<noteq> id_name c then id_role c @ ''/'' @ id_name c else id_role c)"

definition guestIdentity :: identity where
  "guestIdentity = NewIdentity GuestRoleName [] []"

definition GuestIdentityForContext :: "'ctx \<Rightarrow> (string, identity) result" where
  "GuestIdentityForContext ctx = Ok (NewIdentity GuestRoleName [] [])"

section \<open>xhttp/identity/ctx.go\<close>

text \<open>The \<open>Identity\<close> interface inside a request context may be nil.\<close>

record RequestContext =
  rc_identity :: "identity option"
  correlationID :: string
  clientIP :: string

record gocontext =
  keyContext :: "RequestContext option option"

definition background :: gocontext where
  "background = \<lparr>keyContext = None\<rparr>"

text \<open>A server request. \<open>PeerCNs\<close> are the common names of the peer certificates, \<open>None\<close> without TLS.\<close>

record request =
  Method :: string
  URLPath :: string
  URLQuery :: "(string, string list) gomap"
  Header :: header
  rcontext :: gocontext
  URLHost :: string
  Host :: string
  RemoteAddr :: string
  ProtoMajor :: int
  ProtoMinor :: int
  PeerCNs :: "string list option"

definition new_request :: "string \<Rightarrow> string \<Rightarrow> header \<Rightarrow> gocontext \<Rightarrow> request" where
  "new_request meth path h ctx =
     \<lparr>Method = meth, URLPath = path, URLQuery = [], Header = h, rcontext = ctx, URLHost = [], Host = [],
      RemoteAddr = [], ProtoMajor = 1, ProtoMinor = 1, PeerCNs = None\<rparr>"

definition NewRequestContext :: "identity option \<Rightarrow> RequestContext" where
  "NewRequestContext i = \<lparr>rc_identity = i, correlationID = [], clientIP = []\<rparr>"

definition FromContext :: "gocontext \<Rightarrow> RequestContext" where
  "FromContext ctx =
     (case keyContext ctx of
        Some (Some ret) \<Rightarrow> ret
      | _ \<Rightarrow> \<lparr>rc_identity = Some guestIdentity, correlationID = [], clientIP = []\<rparr>)"

definition AddToContext :: "gocontext \<Rightarrow> RequestContext option \<Rightarrow> gocontext" where
  "AddToContext ctx rq = ctx\<lparr>keyContext := Some rq\<rparr>"

definition FromRequest :: "request \<Rightarrow> RequestContext" where
  "FromRequest r = FromContext (rcontext r)"

text \<open>\<open>extractCorrelationID\<close>: the request's own id, else the device's, else a fresh one.\<close>

definition extractCorrelationID :: "(unit \<Rightarrow> string) \<Rightarrow> request \<Rightarrow> string" where
  "extractCorrelationID mustCreate req =
     (let corID = header_get (Header req) ''X-Correlation-ID'';
          corID = (if corID = [] then header_get (Header req) ''X-Device-ID'' else corID)
      in if corID = [] then mustCreate () else corID)"

text \<open>\<open>NewAuthUnaryInterceptor\<close>: the mapper's identity, or the guest when it gives none, is
  put into the context the handler runs in. \<open>PermissionDenied\<close> carries the mapper's error,
  \<open>RoleDenied\<close> the role that \<open>authz\<close> refuses (the same gRPC code with its own message).\<close>

datatype grpc_error = PermissionDenied string | RoleDenied string | HandlerError string

definition NewAuthUnaryInterceptor ::
  "(gocontext \<Rightarrow> (string, identity option) result) \<Rightarrow> gocontext \<Rightarrow> 'req \<Rightarrow>
   (gocontext \<Rightarrow> 'req \<Rightarrow> (grpc_error, 'resp) result) \<Rightarrow> (grpc_error, 'resp) result" where
  "NewAuthUnaryInterceptor identityMapper ctx req handler =
     (case identityMapper ctx of
        Panic \<Rightarrow> Panic
      | Err e \<Rightarrow> Err (PermissionDenied (''unable to get identity: '' @ e))
      | Ok mid \<Rightarrow>
          let i = (case mid of None \<Rightarrow> guestIdentity | Some i \<Rightarrow> i);
              ctx' = AddToContext ctx (Some (NewRequestContext (Some i)))
          in handler ctx' req)"

section \<open>Facts\<close>

lemma FromContext_AddToContext [simp]: "FromContext (AddToContext ctx (Some rq)) = rq"
  by (simp add: FromContext_def AddToContext_def)

lemma FromContext_nil:
  "FromContext (AddToContext ctx None) = NewRequestContext (Some guestIdentity)"
  by (simp add: FromContext_def AddToContext_def NewRequestContext_def)

lemma role_guestIdentity [simp]: "id_role guestIdentity = GuestRoleName"
  by (simp add: guestIdentity_def NewIdentity_def)

end
