(* ===== verification/Slices.thy ===== *)
theory Slices
  imports GoStrings
begin

text \<open>
  The packages \<open>algorithms/slices\<close> and \<open>algorithms/math\<close>: comparison, search and mapping
  loops on slices, the \<open>sort.Interface\<close> of \<open>Uint64s\<close>, and the minimum and maximum
  functions. An index loop of the source is a recursion that carries the index; a slice
  that may be nil is an option. The locale \<open>sort_interface\<close> states what the standard
  library's \<open>sort.Sort\<close> relies on.
\<close>

section \<open>algorithms/slices\<close>

text \<open>The loop \<open>for idx, v := range a { if v != b[idx] { return false } }\<close> of every
  \<open>...SlicesEqual\<close>; an index out of range panics.\<close>

fun equal_loop :: "nat \<Rightarrow> 'a list \<Rightarrow> 'a list \<Rightarrow> (unit, bool) result" where
  "equal_loop idx [] b = Ok True"
| "equal_loop idx (v # vs) b =
     (if idx < length b then (if v \<noteq> b ! idx then Ok False else equal_loop (Suc idx) vs b)
      else Panic)"

definition ByteSlicesEqual :: "byte list \<Rightarrow> byte list \<Rightarrow> (unit, bool) result" where
  "ByteSlicesEqual a b = (if length a \<noteq> length b then Ok False else equal_loop 0 a b)"

definition StringSlicesEqual :: "string list \<Rightarrow> string list \<Rightarrow> (unit, bool) result" where
  "StringSlicesEqual a b = (if length a \<noteq> length b then Ok False else equal_loop 0 a b)"

fun ContainsString :: "string list \<Rightarrow> string \<Rightarrow> bool" where
  "ContainsString [] item = False"
| "ContainsString (x # xs) item = (if x = item then True else ContainsString xs item)"

fun StringContainsOneOf :: "string \<Rightarrow> string list \<Rightarrow> bool" where
  "StringContainsOneOf item [] = False"
| "StringContainsOneOf item (x # xs) =
     (if contains_sub item x then True else StringContainsOneOf item xs)"

fun ContainsStringEqualFold :: "string list \<Rightarrow> string \<Rightarrow> bool" where
  "ContainsStringEqualFold [] item = False"
| "ContainsStringEqualFold (x # xs) item =
     (if equal_fold x item then True else ContainsStringEqualFold xs item)"

text \<open>\<open>make\<close> gives \<open>n\<close> zero values and \<open>copy\<close> overwrites the first ones.\<close>

definition CloneStrings :: "string list option \<Rightarrow> string list option" where
  "CloneStrings src =
     (case src of
        None \<Rightarrow> None
      | Some s \<Rightarrow> let c = replicate (length s) [] in Some (take (length c) s @ drop (length s) c))"

fun NvlString :: "string list \<Rightarrow> string" where
  "NvlString [] = []"
| "NvlString (x # xs) = (if length x > 0 then x else NvlString xs)"

text \<open>\<open>MapStringSlice\<close> fills a slice of the same length by index.\<close>

fun map_loop :: "(string \<Rightarrow> string) \<Rightarrow> nat \<Rightarrow> string list \<Rightarrow> string list \<Rightarrow> string list" where
  "map_loop mapFn idx [] res = res"
| "map_loop mapFn idx (v # vs) res = map_loop mapFn (Suc idx) vs (res[idx := mapFn v])"

definition MapStringSlice :: "string list \<Rightarrow> (string \<Rightarrow> string) \<Rightarrow> string list" where
  "MapStringSlice items mapFn = map_loop mapFn 0 items (replicate (length items) [])"

definition Prefixed :: "string \<Rightarrow> string list \<Rightarrow> string list" where
  "Prefixed pre items = MapStringSlice items (\<lambda>s. pre @ s)"

definition Suffixed :: "string \<Rightarrow> string list \<Rightarrow> string list" where
  "Suffixed suf items = MapStringSlice items (\<lambda>s. s @ suf)"

definition Quoted :: "string list \<Rightarrow> string list" where
  "Quoted items = MapStringSlice items (\<lambda>s. [CHR 0x22] @ s @ [CHR 0x22])"

definition BoolSlicesEqual :: "bool list \<Rightarrow> bool list \<Rightarrow> (unit, bool) result" where
  "BoolSlicesEqual a b = (if length a \<noteq> length b then Ok False else equal_loop 0 a b)"

fun NvlInt :: "int64 list \<Rightarrow> int64" where
  "NvlInt [] = 0"
| "NvlInt (x # xs) = (if x \<noteq> 0 then x else NvlInt xs)"

definition Int64SlicesEqual :: "int64 list \<Rightarrow> int64 list \<Rightarrow> (unit, bool) result" where
  "Int64SlicesEqual a b = (if length a \<noteq> length b then Ok False else equal_loop 0 a b)"

fun NvlInt64 :: "int64 list \<Rightarrow> int64" where
  "NvlInt64 [] = 0"
| "NvlInt64 (x # xs) = (if x \<noteq> 0 then x else NvlInt64 xs)"

definition Uint64SlicesEqual :: "uint64 list \<Rightarrow> uint64 list \<Rightarrow> (unit, bool) result" where
  "Uint64SlicesEqual a b = (if length a \<noteq> length b then Ok False else equal_loop 0 a b)"

fun NvlUint64 :: "uint64 list \<Rightarrow> uint64" where
  "NvlUint64 [] = 0"
| "NvlUint64 (x # xs) = (if x \<noteq> 0 then x else NvlUint64 xs)"

section \<open>The sort interface\<close>

type_synonym Uint64s = "uint64 list"

definition in_range :: "'a list \<Rightarrow> int \<Rightarrow> bool" where
  "in_range a i = (0 \<le> i \<and> i < int (length a))"

definition Uint64s_Len :: "Uint64s \<Rightarrow> int" where
  "Uint64s_Len a = int (length a)"

definition Uint64s_Less :: "Uint64s \<Rightarrow> int \<Rightarrow> int \<Rightarrow> (unit, bool) result" where
  "Uint64s_Less a i j = (if in_range a i \<and> in_range a j then Ok (a ! nat i < a ! nat j) else Panic)"

definition swap_at :: "'a list \<Rightarrow> int \<Rightarrow> int \<Rightarrow> 'a list" where
  "swap_at a i j = a[nat i := a ! nat j, nat j := a ! nat i]"

definition Uint64s_Swap :: "Uint64s \<Rightarrow> int \<Rightarrow> int \<Rightarrow> (unit, Uint64s) result" where
  "Uint64s_Swap a i j = (if in_range a i \<and> in_range a j then Ok (swap_at a i j) else Panic)"

section \<open>algorithms/math\<close>

definition Max_int :: "int \<Rightarrow> int \<Rightarrow> int" where
  "Max_int a b = (if a > b then a else b)"

definition Min_int :: "int \<Rightarrow> int \<Rightarrow> int" where
  "Min_int a b = (if a < b then a else b)"

definition MaxUint64 :: "uint64 \<Rightarrow> uint64 \<Rightarrow> uint64" where
  "MaxUint64 a b = (if a > b then a else b)"

definition MinUint64 :: "uint64 \<Rightarrow> uint64 \<Rightarrow> uint64" where
  "MinUint64 a b = (if a < b then a else b)"

definition MinDuration :: "duration \<Rightarrow> duration \<Rightarrow> duration" where
  "MinDuration a b = (if a < b then a else b)"

definition MaxDuration :: "duration \<Rightarrow> duration \<Rightarrow> duration" where
  "MaxDuration a b = (if a > b then a else b)"

section \<open>What sort.Sort relies on\<close>

text \<open>
  \<open>sort.Sort\<close> drives a \<open>sort.Interface\<close> through \<open>Len\<close>, \<open>Less\<close> and \<open>Swap\<close> with indices
  below \<open>Len\<close>. Its documentation asks that \<open>Less\<close> is a strict weak order and that \<open>Swap\<close>
  exchanges two elements; the calls must not panic on such indices.
\<close>

locale sort_interface =
  fixes slen :: "'c \<Rightarrow> int"
    and sless :: "'c \<Rightarrow> int \<Rightarrow> int \<Rightarrow> (unit, bool) result"
    and sswap :: "'c \<Rightarrow> int \<Rightarrow> int \<Rightarrow> (unit, 'c) result"
    and elems :: "'c \<Rightarrow> 'a list"
    and rank :: "'a \<Rightarrow> 'b::linorder"
  assumes slen: "slen c = int (length (elems c))"
    and sless: "\<lbrakk>in_range (elems c) i; in_range (elems c) j\<rbrakk> \<Longrightarrow>
      sless c i j = Ok (rank (elems c ! nat i) < rank (elems c ! nat j))"
    and sswap: "\<lbrakk>in_range (elems c) i; in_range (elems c) j\<rbrakk> \<Longrightarrow>
      \<exists>c'. sswap c i j = Ok c' \<and> elems c' = swap_at (elems c) i j"
begin

lemma less_irrefl: "in_range (elems c) i \<Longrightarrow> sless c i i = Ok False"
  by (simp add: sless)

lemma less_trans:
  assumes "in_range (elems c) i" "in_range (elems c) j" "in_range (elems c) k"
    and "sless c i j = Ok True" "sless c j k = Ok True"
  shows "sless c i k = Ok True"
  using assms by (auto simp: sless)

lemma swap_permutes:
  assumes "in_range (elems c) i" "in_range (elems c) j" "sswap c i j = Ok c'"
  shows "mset (elems c') = mset (elems c)" and "slen c' = slen c"
proof -
  from sswap [OF assms(1,2)] assms(3) have e: "elems c' = swap_at (elems c) i j" by auto
  show "mset (elems c') = mset (elems c)"
    using assms(1,2) by (simp add: e swap_at_def in_range_def mset_swap nat_less_iff)
  show "slen c' = slen c"
    by (simp add: slen e swap_at_def)
qed

lemma swap_in_range_ok:
  "\<lbrakk>in_range (elems c) i; in_range (elems c) j\<rbrakk> \<Longrightarrow> sswap c i j \<noteq> Panic"
  using sswap by (metis result.distinct(3))

end

interpretation u64: sort_interface Uint64s_Len Uint64s_Less Uint64s_Swap "\<lambda>a. a" "\<lambda>w. w"
  by unfold_locales (simp_all add: Uint64s_Len_def Uint64s_Less_def Uint64s_Swap_def)

section \<open>Facts\<close>

lemma equal_loop_correct:
  "length a + idx = length b \<Longrightarrow> equal_loop idx a b = Ok (a = drop idx b)"
proof (induction idx a b rule: equal_loop.induct)
  case (2 idx v vs b)
  then have "drop idx b = b ! idx # drop (Suc idx) b"
    by (simp add: Cons_nth_drop_Suc)
  with 2 show ?case by auto
qed simp

lemma slices_equal_iff:
  "(if length a \<noteq> length b then Ok False else equal_loop 0 a b) = (Ok (a = b) :: (unit, bool) result)"
  using equal_loop_correct [of a 0 b] by auto

lemma ContainsString_iff: "ContainsString items item \<longleftrightarrow> item \<in> set items"
  by (induction items) auto

lemma StringContainsOneOf_iff:
  "StringContainsOneOf item items \<longleftrightarrow> (\<exists>x\<in>set items. contains_sub item x)"
  by (induction items) auto

lemma ContainsStringEqualFold_iff:
  "ContainsStringEqualFold items item \<longleftrightarrow> (\<exists>x\<in>set items. equal_fold x item)"
  by (induction items) auto

lemma map_loop_correct:
  "length items + idx \<le> length res \<Longrightarrow>
   map_loop f idx items res = take idx res @ map f items @ drop (length items + idx) res"
proof (induction items arbitrary: idx res)
  case (Cons v vs)
  then have "take (Suc idx) (res[idx := f v]) = take idx res @ [f v]"
    by (simp add: take_Suc_conv_app_nth)
  with Cons show ?case by simp
qed simp

lemma MapStringSlice_map: "MapStringSlice items f = map f items"
  by (simp add: MapStringSlice_def map_loop_correct)

lemma CloneStrings_eq: "CloneStrings src = src"
  by (simp add: CloneStrings_def split: option.splits)

lemma NvlString_first:
  "NvlString items = (case filter (\<lambda>x. x \<noteq> []) items of [] \<Rightarrow> [] | x # _ \<Rightarrow> x)"
  by (induction items) auto

text \<open>Each of the slice comparisons of \<open>algorithms/slices\<close> decides equality of the
  two slices; none of them indexes out of range, whatever the lengths.\<close>

theorem slices_equal_decides:
  "ByteSlicesEqual a b = Ok (a = b) \<and> StringSlicesEqual s t = Ok (s = t) \<and>
   BoolSlicesEqual p q = Ok (p = q) \<and> Int64SlicesEqual i j = Ok (i = j) \<and>
   Uint64SlicesEqual u v = Ok (u = v)"
  by (simp add: ByteSlicesEqual_def StringSlicesEqual_def BoolSlicesEqual_def
      Int64SlicesEqual_def Uint64SlicesEqual_def slices_equal_iff)

end
