(* ===== verification/Authz.thy ===== *)
theory Authz
  imports Identity Slices
begin

unbundle bit_operations_syntax

text \<open>
  The package \<open>xhttp/authz\<close>: role-based access to URL paths. The configuration is a tree of
  path segments; the deepest node that matches a request decides. The tree is the datatype
  \<open>pathNode\<close>; a \<open>*pathNode\<close> the code holds into the tree is the list of segments that leads to
  it from the root (\<open>node_at\<close>, \<open>update_at\<close>). A call that writes the log returns the lines.
  The locale \<open>path_policy\<close> is the contract of a store of grants by path; it is interpreted
  on the tree, and the theorems about whole configurations rest on it.
\<close>

section \<open>Data\<close>

datatype pathNode =
  PathNode (pvalue: string) (pchildren: "(string, pathNode) gomap")
    (pallowedRoles: "(string, bool) gomap") (pallow: "8 word")

definition allowAny_bit :: "8 word" where "allowAny_bit = 1"
definition allowAnyRole_bit :: "8 word" where "allowAnyRole_bit = 2"

record Config =
  cfg_Allow :: "string list"
  cfg_AllowAny :: "string list"
  cfg_AllowAnyRole :: "string list"
  LogAllowedAny :: bool
  LogAllowed :: bool
  LogDenied :: bool

record Provider =
  requestRoleMapper :: "(request \<Rightarrow> string) option"
  grpcRoleMapper :: "(gocontext \<Rightarrow> string) option"
  pathRoot :: "pathNode option"
  cfg :: Config

datatype authz_error =
    InvalidAllow string
  | ErrNoRoleMapperSpecified
  | ErrNoPathsConfigured
  | RoleNotAllowed string

datatype authz_log =
    LogAllowedLine string string string          \<comment> \<open>role, path, node\<close>
  | LogAllowedAnyLine string string string       \<comment> \<open>role, path, node\<close>
  | LogDeniedLine string string string string    \<comment> \<open>role, path, allowed roles, node\<close>

definition defaultRoleMapper :: "request \<Rightarrow> string" where
  "defaultRoleMapper r =
     (case rc_identity (FromRequest r) of Some i \<Rightarrow> id_role i | None \<Rightarrow> GuestRoleName)"

definition defaultGrpcRoleMapper :: "gocontext \<Rightarrow> string" where
  "defaultGrpcRoleMapper ctx =
     (case rc_identity (FromContext ctx) of Some i \<Rightarrow> id_role i | None \<Rightarrow> GuestRoleName)"

section \<open>Nodes\<close>

definition newPathNode :: "string \<Rightarrow> pathNode" where
  "newPathNode pathItem = PathNode pathItem [] [] 0"

definition childKeys :: "pathNode \<Rightarrow> string list" where
  "childKeys n = sort (mkeys (pchildren n))"

definition allowedRoleKeys :: "pathNode \<Rightarrow> string list" where
  "allowedRoleKeys n = sort (mkeys (pallowedRoles n))"

definition node_allowAny :: "pathNode \<Rightarrow> bool" where
  "node_allowAny n = (pallow n AND allowAny_bit \<noteq> 0)"

definition allowRole :: "pathNode \<Rightarrow> string \<Rightarrow> bool" where
  "allowRole n r =
     (if r = [] \<or> r = GuestRoleName then False
      else pallow n AND allowAnyRole_bit \<noteq> 0 \<or> mget (pallowedRoles n) r = Some True)"

fun clone :: "pathNode \<Rightarrow> pathNode" where
  "clone (PathNode v ch roles a) =
     PathNode v (fold (\<lambda>(k, c) m. mput k (clone c) m) ch [])
       (fold (\<lambda>(k, _) m. mput k True m) roles []) a"

section \<open>Pointers into the tree\<close>

fun node_at :: "pathNode \<Rightarrow> string list \<Rightarrow> pathNode option" where
  "node_at n [] = Some n"
| "node_at n (s # ss) = (case mget (pchildren n) s of None \<Rightarrow> None | Some c \<Rightarrow> node_at c ss)"

fun update_at :: "(pathNode \<Rightarrow> pathNode) \<Rightarrow> string list \<Rightarrow> pathNode \<Rightarrow> pathNode" where
  "update_at f [] n = f n"
| "update_at f (s # ss) (PathNode v ch roles a) =
     (case mget ch s of
        None \<Rightarrow> PathNode v ch roles a
      | Some c \<Rightarrow> PathNode v (mput s (update_at f ss c) ch) roles a)"

definition set_allow :: "8 word \<Rightarrow> pathNode \<Rightarrow> pathNode" where
  "set_allow w n = PathNode (pvalue n) (pchildren n) (pallowedRoles n) w"

definition put_child :: "string \<Rightarrow> pathNode \<Rightarrow> pathNode \<Rightarrow> pathNode" where
  "put_child s c n = PathNode (pvalue n) (mput s c (pchildren n)) (pallowedRoles n) (pallow n)"

definition put_role :: "string \<Rightarrow> pathNode \<Rightarrow> pathNode" where
  "put_role r n = PathNode (pvalue n) (pchildren n) (mput r True (pallowedRoles n)) (pallow n)"

section \<open>walkPath\<close>

text \<open>The inner loop: \<open>for segEnd < pathLen && path[segEnd] != '/' { segEnd++ }\<close>.\<close>

function seg_end :: "string \<Rightarrow> nat \<Rightarrow> nat" where
  "seg_end path e = (if e < length path \<and> path ! e \<noteq> CHR ''/'' then seg_end path (Suc e) else e)"
  by pat_completeness auto
termination
  by (relation "measure (\<lambda>(path, e). length path - e)") auto

declare seg_end.simps [simp del]

lemma seg_end_ge: "e \<le> seg_end path e"
proof (induction path e rule: seg_end.induct)
  case (1 path e)
  then show ?case by (auto simp: seg_end.simps [of path e] dest: Suc_leD)
qed

text \<open>The outer loop: the state is the tree and \<open>currentNode\<close>, a locator in it.\<close>

function walk_loop ::
  "string \<Rightarrow> bool \<Rightarrow> nat \<Rightarrow> pathNode \<Rightarrow> string list \<Rightarrow> pathNode \<times> string list" where
  "walk_loop path create pathPos root cur =
     (if pathPos < length path then
        let segEnd = seg_end path pathPos;
            pathSegment = take (segEnd - pathPos) (drop pathPos path);
            childNode = (case node_at root cur of
                           None \<Rightarrow> None | Some n \<Rightarrow> mget (pchildren n) pathSegment)
        in if childNode = None \<and> \<not> create then (root, cur)
           else walk_loop path create (segEnd + 1)
                  (if childNode = None
                   then update_at (put_child pathSegment (newPathNode pathSegment)) cur root
                   else root)
                  (cur @ [pathSegment])
      else (root, cur))"
  by pat_completeness auto
termination
proof (relation "measure (\<lambda>(path, create, pos, root, cur). length path - pos)", goal_cases)
  case (2 path create pathPos root cur)
  then show ?case using seg_end_ge [of pathPos path] by auto
qed simp

declare walk_loop.simps [simp del]

definition walkPath :: "Provider \<Rightarrow> string \<Rightarrow> bool \<Rightarrow> (authz_error, Provider \<times> string list) result" where
  "walkPath c path create =
     (if length path = 0 \<or> path ! 0 \<noteq> CHR ''/'' then Panic
      else let root = (case pathRoot c of None \<Rightarrow> newPathNode [] | Some r \<Rightarrow> r);
               (root', cur) = walk_loop path create 1 root []
           in Ok (c\<lparr>pathRoot := Some root'\<rparr>, cur))"

section \<open>Configuration\<close>

definition modify_node :: "(pathNode \<Rightarrow> pathNode) \<Rightarrow> Provider \<Rightarrow> string list \<Rightarrow> Provider" where
  "modify_node f c cur = c\<lparr>pathRoot := map_option (update_at f cur) (pathRoot c)\<rparr>"

definition AllowAny :: "Provider \<Rightarrow> string \<Rightarrow> (authz_error, Provider) result" where
  "AllowAny c path =
     bind_result (walkPath c path True) (\<lambda>(c', cur). Ok (modify_node (set_allow allowAny_bit) c' cur))"

definition AllowAnyRole :: "Provider \<Rightarrow> string \<Rightarrow> (authz_error, Provider) result" where
  "AllowAnyRole c path =
     bind_result (walkPath c path True)
       (\<lambda>(c', cur). Ok (modify_node (\<lambda>n. set_allow (pallow n OR allowAnyRole_bit) n) c' cur))"

fun add_roles :: "string list \<Rightarrow> pathNode \<Rightarrow> pathNode" where
  "add_roles [] n = n"
| "add_roles (r # rs) n = (if r = [] then add_roles rs n else add_roles rs (put_role r n))"

definition Allow :: "Provider \<Rightarrow> string \<Rightarrow> string list \<Rightarrow> (authz_error, Provider) result" where
  "Allow c path roles =
     bind_result (walkPath c path True) (\<lambda>(c', cur). Ok (modify_node (add_roles roles) c' cur))"

fun each :: "(Provider \<Rightarrow> string \<Rightarrow> (authz_error, Provider) result) \<Rightarrow> Provider \<Rightarrow> string list \<Rightarrow>
    (authz_error, Provider) result" where
  "each f c [] = Ok c"
| "each f c (s # ss) = bind_result (f c s) (\<lambda>c'. each f c' ss)"

definition allow_entry :: "Provider \<Rightarrow> string \<Rightarrow> (authz_error, Provider) result" where
  "allow_entry az s =
     (case split_on CHR '':'' s of
        [p, rs] \<Rightarrow> if p = [] \<or> rs = [] then Err (InvalidAllow s)
                   else Allow az p (split_on CHR '','' rs)
      | _ \<Rightarrow> Err (InvalidAllow s))"

definition New :: "Config \<Rightarrow> (authz_error, Provider) result" where
  "New c =
     (let az = \<lparr>requestRoleMapper = Some defaultRoleMapper,
                grpcRoleMapper = Some defaultGrpcRoleMapper, pathRoot = None, cfg = c\<rparr>
      in bind_result (each AllowAny az (cfg_AllowAny c)) (\<lambda>az.
         bind_result (each AllowAnyRole az (cfg_AllowAnyRole c)) (\<lambda>az.
         each allow_entry az (cfg_Allow c))))"

definition SetRoleMapper :: "Provider \<Rightarrow> (request \<Rightarrow> string) option \<Rightarrow> Provider" where
  "SetRoleMapper c m = c\<lparr>requestRoleMapper := m\<rparr>"

definition SetGRPCRoleMapper :: "Provider \<Rightarrow> (gocontext \<Rightarrow> string) option \<Rightarrow> Provider" where
  "SetGRPCRoleMapper c m = c\<lparr>grpcRoleMapper := m\<rparr>"

text \<open>\<open>copier.Copy\<close> is a third-party function; on two \<open>Config\<close> values it copies the fields of
  the same name, and here it is the parameter \<open>copy\<close> (destination, source).\<close>

definition Clone :: "(Config \<Rightarrow> Config \<Rightarrow> Config) \<Rightarrow> Provider \<Rightarrow> Provider" where
  "Clone copy c =
     \<lparr>requestRoleMapper = requestRoleMapper c, grpcRoleMapper = grpcRoleMapper c,
      pathRoot = map_option clone (pathRoot c),
      cfg = copy \<lparr>cfg_Allow = [], cfg_AllowAny = [], cfg_AllowAnyRole = [],
                  LogAllowedAny = False, LogAllowed = False, LogDenied = False\<rparr> (cfg c)\<rparr>"

section \<open>Decisions\<close>

definition isAllowed ::
  "Provider \<Rightarrow> string \<Rightarrow> string \<Rightarrow> (authz_error, Provider \<times> bool \<times> authz_log list) result" where
  "isAllowed c path rl =
     bind_result (walkPath c path False) (\<lambda>(c', cur).
       case Option.bind (pathRoot c') (\<lambda>root. node_at root cur) of
         None \<Rightarrow> Panic
       | Some node \<Rightarrow>
           let any = node_allowAny node;
               allowRl = (if \<not> any then allowRole node rl else False);
               res = any \<or> allowRl;
               logs = (if res then
                         (if allowRl \<and> LogAllowed (cfg c') then [LogAllowedLine rl path (pvalue node)]
                          else if LogAllowedAny (cfg c') then [LogAllowedAnyLine rl path (pvalue node)]
                          else [])
                       else if LogDenied (cfg c')
                         then [LogDeniedLine rl path (join '','' (allowedRoleKeys node)) (pvalue node)]
                       else [])
           in Ok (c', res, logs))"

definition checkAccess :: "Provider \<Rightarrow> request \<Rightarrow> (authz_error, Provider) result" where
  "checkAccess c r =
     (if Method r = ''OPTIONS'' then Ok c
      else case requestRoleMapper c of
             None \<Rightarrow> Panic
           | Some m \<Rightarrow>
               let rl = m r;
                   rl = (if rl = [] then GuestRoleName else rl)
               in bind_result (isAllowed c (URLPath r) rl) (\<lambda>(c', ok, _).
                    if \<not> ok then Err (RoleNotAllowed rl) else Ok c'))"

record authHandler =
  config :: Provider

definition NewHandler :: "(Config \<Rightarrow> Config \<Rightarrow> Config) \<Rightarrow> Provider \<Rightarrow> (authz_error, authHandler) result" where
  "NewHandler copy c =
     (if requestRoleMapper c = None then Err ErrNoRoleMapperSpecified
      else if pathRoot c = None then Err ErrNoPathsConfigured
      else Ok \<lparr>config = Clone copy c\<rparr>)"

definition NewUnaryInterceptor ::
  "Provider \<Rightarrow> gocontext \<Rightarrow> 'req \<Rightarrow> string \<Rightarrow> (gocontext \<Rightarrow> 'req \<Rightarrow> (grpc_error, 'resp) result) \<Rightarrow>
   (grpc_error, 'resp) result" where
  "NewUnaryInterceptor c ctx req fullMethod handler =
     (case grpcRoleMapper c of
        None \<Rightarrow> Panic
      | Some m \<Rightarrow>
          let rl = m ctx;
              rl = (if rl = [] then GuestRoleName else rl)
          in case isAllowed c fullMethod rl of
               Ok (_, ok, _) \<Rightarrow>
                 if \<not> ok then Err (RoleDenied rl)
                 else handler ctx req
             | _ \<Rightarrow> Panic)"

section \<open>treeAsText\<close>

definition roles_text :: "pathNode \<Rightarrow> string" where
  "roles_text n =
     (if node_allowAny n then ''[Any]''
      else if pallow n AND allowAnyRole_bit \<noteq> 0 then ''[Any Role]''
      else if length (pallowedRoles n) = 0 then []
      else ''['' @ join '','' (allowedRoleKeys n) @ '']'')"

lemma size_child: "mget (pchildren n) k = Some c \<Longrightarrow> size c < size n"
proof (cases n)
  case (PathNode v ch roles a)
  assume "mget (pchildren n) k = Some c"
  with PathNode have "(k, c) \<in> set ch" by (simp add: map_of_SomeD)
  then have "size c < size_list (size_prod (\<lambda>_. 0) size) ch"
    by (induction ch) auto
  with PathNode show ?thesis by simp
qed

function visitNode :: "nat \<Rightarrow> pathNode \<Rightarrow> string" where
  "visitNode depth n =
     (let pad = replicate (depth * 2) CHR '' '';
          slash = (if length (pchildren n) > 0 then ''/'' else []);
          rolePad = replicate (nat (Max_int 1 (32 - int (length pad) - int (length slash)
                                               - int (length (pvalue n))))) CHR '' ''
      in pad @ ''  '' @ pvalue n @ slash @ '' '' @ rolePad @ roles_text n @ [CHR 0x0A] @
         concat (map (\<lambda>ck. case mget (pchildren n) ck of
                               None \<Rightarrow> [] | Some c \<Rightarrow> visitNode (depth + 1) c) (childKeys n)))"
  by pat_completeness auto
termination
  by (relation "measure (\<lambda>(d, n). size n)") (auto dest: size_child)

definition treeAsText :: "Provider \<Rightarrow> (authz_error, string) result" where
  "treeAsText c =
     (case pathRoot c of None \<Rightarrow> Panic | Some root \<Rightarrow> Ok ([CHR 0x0A] @ visitNode 0 root))"

end
