(* ===== verification/AuthzPolicy.thy ===== *)
theory AuthzPolicy
  imports Authz
begin

unbundle bit_operations_syntax

text \<open>
  What the access-control tree of \<open>xhttp/authz\<close> means. \<open>path_policy\<close> is the contract of a
  store of grants by path, with the lemmas a configuration needs (a run of configuration
  calls is characterised, and its order is irrelevant); the tree is an instance. The
  loop of \<open>walkPath\<close> is proved equal to a walk over the list of segments, and the decision
  of a configured provider to the declarative policy of its configuration.
\<close>

section \<open>Segments of a path\<close>

function segs_of :: "string \<Rightarrow> string list" where
  "segs_of s =
     (if s = [] then []
      else takeWhile (\<lambda>c. c \<noteq> CHR ''/'') s # segs_of (drop 1 (dropWhile (\<lambda>c. c \<noteq> CHR ''/'') s)))"
  by pat_completeness auto
termination
proof (relation "measure length", goal_cases)
  case (2 s)
  then show ?case
    using length_dropWhile_le [of "\<lambda>c. c \<noteq> CHR ''/''" s] by (cases s) auto
qed simp

declare segs_of.simps [simp del]

definition valid_path :: "string \<Rightarrow> bool" where
  "valid_path path = (\<exists>s. path = CHR ''/'' # s)"

definition segments :: "string \<Rightarrow> string list" where
  "segments path = segs_of (tl path)"

text \<open>The segments are the pieces between slashes, without a last empty piece.\<close>

lemma segs_of_split:
  "segs_of s = (let ps = split_on CHR ''/'' s in if last ps = [] then butlast ps else ps)"
proof (induction s rule: segs_of.induct)
  case (1 s)
  show ?case
  proof (cases "CHR ''/'' \<in> set s")
    case True
    then obtain p q where s: "s = p @ CHR ''/'' # q" and p: "CHR ''/'' \<notin> set p"
      by (auto dest: split_list_first)
    then have "takeWhile (\<lambda>c. c \<noteq> CHR ''/'') s = p"
      and d: "drop 1 (dropWhile (\<lambda>c. c \<noteq> CHR ''/'') s) = q"
      by (auto simp: takeWhile_append dropWhile_append)
    with s p 1 show ?thesis
      by (simp add: segs_of.simps [of "p @ CHR ''/'' # q"] split_on_append Let_def)
  next
    case False
    then have t: "takeWhile (\<lambda>c. c \<noteq> CHR ''/'') s = s" by (auto simp: takeWhile_eq_all_conv)
    have d: "dropWhile (\<lambda>c. c \<noteq> CHR ''/'') s = []" using False by (auto simp: dropWhile_eq_Nil_conv)
    have "segs_of s = (if s = [] then [] else [s])"
      by (subst segs_of.simps) (simp only: t d, simp add: segs_of.simps)
    with False show ?thesis
      by (simp add: split_on_no_sep)
  qed
qed

section \<open>The contract of a policy store\<close>

definition granted :: "('r \<Rightarrow> bool) option \<Rightarrow> 'r \<Rightarrow> bool" where
  "granted g r = (case g of None \<Rightarrow> False | Some f \<Rightarrow> f r)"

lemma granted_simps [simp]: "granted None r = False" "granted (Some f) r = f r"
  by (simp_all add: granted_def)

locale path_policy =
  fixes step :: "'o \<Rightarrow> 's \<Rightarrow> 's"
    and target :: "'o \<Rightarrow> 'k list"
    and gives :: "'o \<Rightarrow> 'r \<Rightarrow> bool"
    and policy :: "'s \<Rightarrow> 'k list \<Rightarrow> ('r \<Rightarrow> bool) option"
  assumes policy_step:
    "policy (step c s) p =
       (if prefix p (target c) then Some (\<lambda>r. granted (policy s p) r \<or> p = target c \<and> gives c r)
        else policy s p)"
begin

lemma policy_run:
  "policy (fold step cs s) p =
     (if \<exists>c\<in>set cs. prefix p (target c)
      then Some (\<lambda>r. granted (policy s p) r \<or> (\<exists>c\<in>set cs. p = target c \<and> gives c r))
      else policy s p)"
  by (induction cs arbitrary: s) (auto simp: policy_step fun_eq_iff)

lemma order_irrelevant:
  "set cs = set cs' \<Longrightarrow> policy (fold step cs s) = policy (fold step cs' s)"
  by (auto simp: policy_run fun_eq_iff)

lemma grants_accumulate:
  "granted (policy s p) r \<Longrightarrow> granted (policy (fold step cs s) p) r"
  by (auto simp: policy_run)

end

section \<open>Longest match\<close>

definition longest_match :: "('k list \<Rightarrow> 'a option) \<Rightarrow> 'k list \<Rightarrow> 'k list" where
  "longest_match v ss = last (filter (\<lambda>p. v p \<noteq> None) (prefixes ss))"

fun deepest :: "pathNode \<Rightarrow> string list \<Rightarrow> string list" where
  "deepest n [] = []"
| "deepest n (s # ss) = (case mget (pchildren n) s of None \<Rightarrow> [] | Some c \<Rightarrow> s # deepest c ss)"

lemma node_at_deepest: "node_at n (deepest n ss) \<noteq> None"
  by (induction n ss rule: deepest.induct) (auto split: option.splits)

lemma filter_exists_prefixes:
  "filter (\<lambda>p. node_at n p \<noteq> None) (prefixes ss) \<noteq> [] \<and>
   last (filter (\<lambda>p. node_at n p \<noteq> None) (prefixes ss)) = deepest n ss"
proof (induction n ss rule: deepest.induct)
  case (2 n s ss)
  show ?case
  proof (cases "mget (pchildren n) s")
    case None
    then show ?thesis by (simp add: filter_map o_def)
  next
    case (Some c)
    have "filter (\<lambda>p. node_at n p \<noteq> None) (prefixes (s # ss)) =
        [] # map ((#) s) (filter (\<lambda>p. node_at c p \<noteq> None) (prefixes ss))"
      using Some by (simp add: filter_map o_def)
    with 2 [OF Some] Some show ?thesis by (simp add: last_map)
  qed
qed simp

section \<open>What a node decides\<close>

definition decides :: "pathNode \<Rightarrow> string \<Rightarrow> bool" where
  "decides n r = (node_allowAny n \<or> allowRole n r)"

definition view :: "pathNode \<Rightarrow> string list \<Rightarrow> (string \<Rightarrow> bool) option" where
  "view root p = map_option decides (node_at root p)"

definition named_role :: "string \<Rightarrow> bool" where
  "named_role r = (r \<noteq> [] \<and> r \<noteq> GuestRoleName)"

lemma bit_facts:
  "(1 :: 8 word) AND 1 \<noteq> 0" "((w :: 8 word) OR 2) AND 1 = w AND 1" "((w :: 8 word) OR 2) AND 2 \<noteq> 0"
proof -
  show "(1 :: 8 word) AND 1 \<noteq> 0" by simp
  show "((w :: 8 word) OR 2) AND 1 = w AND 1"
    by (rule bit_word_eqI) (auto simp: bit_simps)
  have "bit (((w :: 8 word) OR 2) AND 2) 1"
    by (simp add: bit_simps)
  then show "((w :: 8 word) OR 2) AND 2 \<noteq> 0" by auto
qed

lemma decides_new: "decides (newPathNode s) = (\<lambda>_. False)"
  by (auto simp: fun_eq_iff decides_def newPathNode_def node_allowAny_def allowRole_def)

lemma pchildren_add_roles [simp]: "pchildren (add_roles rs n) = pchildren n"
  by (induction rs n rule: add_roles.induct) (auto simp: put_role_def)

lemma pallow_add_roles [simp]: "pallow (add_roles rs n) = pallow n"
  by (induction rs n rule: add_roles.induct) (auto simp: put_role_def)

lemma roles_add_roles:
  "mget (pallowedRoles (add_roles rs n)) r =
     (if r \<in> set rs \<and> r \<noteq> [] then Some True else mget (pallowedRoles n) r)"
  by (induction rs n rule: add_roles.induct) (auto simp: put_role_def)

lemma decides_set_any: "decides (set_allow allowAny_bit n) = (\<lambda>_. True)"
  by (simp add: fun_eq_iff decides_def node_allowAny_def set_allow_def allowAny_bit_def)

lemma decides_set_any_role:
  "decides (set_allow (pallow n OR allowAnyRole_bit) n) r \<longleftrightarrow> decides n r \<or> named_role r"
  by (auto simp: decides_def node_allowAny_def allowRole_def set_allow_def allowAny_bit_def
      allowAnyRole_bit_def named_role_def bit_facts)

lemma decides_add_roles:
  "decides (add_roles rs n) r \<longleftrightarrow> decides n r \<or> named_role r \<and> r \<in> set rs"
  by (auto simp: decides_def node_allowAny_def allowRole_def named_role_def roles_add_roles)

section \<open>Updates of the tree\<close>

lemma node_at_append:
  "node_at n (xs @ ys) = (case node_at n xs of None \<Rightarrow> None | Some m \<Rightarrow> node_at m ys)"
  by (induction n xs rule: node_at.induct) (auto split: option.splits)

lemma node_at_update_below:
  "node_at (update_at f ss n) (ss @ q) =
     (case node_at n ss of None \<Rightarrow> None | Some m \<Rightarrow> node_at (f m) q)"
  by (induction f ss n rule: update_at.induct) (auto split: option.splits)

lemma view_update_elsewhere:
  "\<not> prefix ss p \<Longrightarrow> view (update_at f ss n) p = view n p"
proof (induction f ss n arbitrary: p rule: update_at.induct)
  case (2 f s ss v ch roles a)
  then show ?case
    by (cases p) (auto simp: view_def decides_def node_allowAny_def allowRole_def fun_eq_iff
        split: option.splits)
qed simp

lemma view_cong_children:
  "pchildren m = pchildren n \<Longrightarrow> p \<noteq> [] \<Longrightarrow> view m p = view n p"
  by (cases p) (simp_all add: view_def)

lemma view_update_local:
  assumes "pchildren (f m) = pchildren m" and "node_at n ss = Some m"
  shows "view (update_at f ss n) p = (if p = ss then Some (decides (f m)) else view n p)"
proof (cases "prefix ss p")
  case True
  then obtain q where q: "p = ss @ q" by (auto simp: prefix_def)
  show ?thesis
  proof (cases "q = []")
    case True
    with q assms show ?thesis by (simp add: view_def node_at_update_below [of f ss n "[]", simplified])
  next
    case False
    with q assms view_cong_children [OF assms(1) False] show ?thesis
      by (simp add: view_def node_at_update_below node_at_append [of n ss q])
  qed
next
  case False
  then show ?thesis by (auto simp: view_update_elsewhere)
qed

lemma view_new_child:
  assumes "node_at n ss = Some m" and "mget (pchildren m) s = None"
  shows "view (update_at (put_child s (newPathNode s)) ss n) p =
         (if p = ss @ [s] then Some (\<lambda>_. False) else view n p)"
proof (cases "prefix ss p")
  case True
  then obtain q where q: "p = ss @ q" by (auto simp: prefix_def)
  have "view (update_at (put_child s (newPathNode s)) ss n) p = view (put_child s (newPathNode s) m) q"
    using assms q by (simp add: view_def node_at_update_below)
  also have "\<dots> = (if q = [s] then Some (\<lambda>_. False) else view m q)"
  proof (cases q)
    case Nil
    then show ?thesis
      by (simp add: view_def put_child_def decides_def node_allowAny_def allowRole_def fun_eq_iff)
  next
    case (Cons t ts)
    then show ?thesis using assms(2)
      by (cases ts) (auto simp: view_def put_child_def newPathNode_def
          decides_new [unfolded newPathNode_def])
  qed
  finally show ?thesis using assms(1) q by (simp add: view_def node_at_append)
next
  case False
  then show ?thesis by (auto simp: view_update_elsewhere)
qed

section \<open>walkPath is a walk over the segments\<close>

lemma seg_end_eq:
  "seg_end path e = e + length (takeWhile (\<lambda>c. c \<noteq> CHR ''/'') (drop e path))"
proof (induction path e rule: seg_end.induct)
  case (1 path e)
  show ?case
  proof (cases "e < length path")
    case True
    then have "drop e path = path ! e # drop (Suc e) path" by (simp add: Cons_nth_drop_Suc)
    with 1 True show ?thesis by (simp add: seg_end.simps [of path e])
  qed (simp add: seg_end.simps [of path e])
qed

fun walk_segs :: "bool \<Rightarrow> pathNode \<Rightarrow> string list \<Rightarrow> string list \<Rightarrow> pathNode \<times> string list" where
  "walk_segs create root cur [] = (root, cur)"
| "walk_segs create root cur (s # ss) =
     (if Option.bind (node_at root cur) (\<lambda>n. mget (pchildren n) s) = None then
        if create
        then walk_segs create (update_at (put_child s (newPathNode s)) cur root) (cur @ [s]) ss
        else (root, cur)
      else walk_segs create root (cur @ [s]) ss)"

lemma segs_of_drop:
  assumes "pos < length path"
  shows "segs_of (drop pos path) =
    take (seg_end path pos - pos) (drop pos path) # segs_of (drop (seg_end path pos + 1) path)"
proof -
  have "drop pos path \<noteq> []" using assms by simp
  moreover have "take (seg_end path pos - pos) (drop pos path) =
      takeWhile (\<lambda>c. c \<noteq> CHR ''/'') (drop pos path)"
    by (simp add: seg_end_eq takeWhile_eq_take [symmetric])
  moreover have "drop (seg_end path pos + 1) path =
      drop 1 (dropWhile (\<lambda>c. c \<noteq> CHR ''/'') (drop pos path))"
    by (simp add: seg_end_eq dropWhile_eq_drop add.commute add.left_commute)
  ultimately show ?thesis by (simp add: segs_of.simps [of "drop pos path"])
qed

lemma walk_loop_segs:
  "walk_loop path create pos root cur = walk_segs create root cur (segs_of (drop pos path))"
proof (induction path create pos root cur rule: walk_loop.induct)
  case (1 path create pos root cur)
  show ?case
  proof (cases "pos < length path")
    case True
    let ?s = "take (seg_end path pos - pos) (drop pos path)"
    have b: "(case node_at root cur of None \<Rightarrow> None | Some n \<Rightarrow> mget (pchildren n) ?s) =
        Option.bind (node_at root cur) (\<lambda>n. mget (pchildren n) ?s)"
      by (cases "node_at root cur") simp_all
    show ?thesis
      using True 1 [OF True refl refl refl] unfolding b
      by (auto simp: walk_loop.simps [of path create pos root cur] b segs_of_drop [OF True] Let_def)
  next
    case False
    then show ?thesis by (simp add: walk_loop.simps [of path create pos root cur] segs_of.simps [of "[]"])
  qed
qed

lemma walk_segs_find:
  "node_at root cur = Some n \<Longrightarrow> walk_segs False root cur ss = (root, cur @ deepest n ss)"
proof (induction n ss arbitrary: cur rule: deepest.induct)
  case (2 n s ss)
  show ?case
  proof (cases "mget (pchildren n) s")
    case (Some c)
    with 2 have "node_at root (cur @ [s]) = Some c" by (simp add: node_at_append)
    with 2 Some show ?thesis by simp
  qed (use 2 in simp)
qed simp

lemma walk_segs_create:
  assumes "node_at root cur = Some n" and "walk_segs True root cur ss = (root', cur')"
  shows "cur' = cur @ ss \<and> node_at root' (cur @ ss) \<noteq> None \<and>
    (\<forall>p. view root' p = (if prefix p (cur @ ss) \<and> view root p = None then Some (\<lambda>_. False)
                         else view root p))"
  using assms
proof (induction ss arbitrary: root cur n)
  case Nil
  then have "prefix p cur \<Longrightarrow> view root p \<noteq> None" for p
    by (auto simp: prefix_def view_def node_at_append split: option.splits)
  with Nil show ?case by auto
next
  case (Cons s ss)
  show ?case
  proof (cases "mget (pchildren n) s")
    case None
    let ?r = "update_at (put_child s (newPathNode s)) cur root"
    have v: "view ?r p = (if p = cur @ [s] then Some (\<lambda>_. False) else view root p)" for p
      using view_new_child Cons.prems(1) None by blast
    have missing: "view root (cur @ [s]) = None"
      using Cons.prems(1) None by (simp add: view_def node_at_append)
    from v [of "cur @ [s]"] obtain m where m: "node_at ?r (cur @ [s]) = Some m"
      by (auto simp: view_def)
    have "walk_segs True ?r (cur @ [s]) ss = (root', cur')"
      using Cons.prems None by simp
    from Cons.IH [OF m this] v missing show ?thesis by auto
  next
    case (Some c)
    then have c: "node_at root (cur @ [s]) = Some c"
      using Cons.prems(1) by (simp add: node_at_append)
    have "walk_segs True root (cur @ [s]) ss = (root', cur')"
      using Cons.prems Some by simp
    from Cons.IH [OF c this] show ?thesis by auto
  qed
qed

section \<open>The tree implements a policy store\<close>

datatype grant = GrantAny "string list" | GrantAnyRole "string list" | GrantRoles "string list" "string list"

fun grant_target :: "grant \<Rightarrow> string list" where
  "grant_target (GrantAny ss) = ss"
| "grant_target (GrantAnyRole ss) = ss"
| "grant_target (GrantRoles ss rs) = ss"

fun grant_gives :: "grant \<Rightarrow> string \<Rightarrow> bool" where
  "grant_gives (GrantAny ss) r = True"
| "grant_gives (GrantAnyRole ss) r = named_role r"
| "grant_gives (GrantRoles ss rs) r = (named_role r \<and> r \<in> set rs)"

fun grant_node :: "grant \<Rightarrow> pathNode \<Rightarrow> pathNode" where
  "grant_node (GrantAny ss) n = set_allow allowAny_bit n"
| "grant_node (GrantAnyRole ss) n = set_allow (pallow n OR allowAnyRole_bit) n"
| "grant_node (GrantRoles ss rs) n = add_roles rs n"

definition grant_step :: "grant \<Rightarrow> pathNode \<Rightarrow> pathNode" where
  "grant_step g root =
     (let (root', cur) = walk_segs True root [] (grant_target g) in update_at (grant_node g) cur root')"

lemma pchildren_grant_node: "pchildren (grant_node g n) = pchildren n"
  by (cases g) (simp_all add: set_allow_def)

lemma decides_grant_node: "decides (grant_node g n) r \<longleftrightarrow> decides n r \<or> grant_gives g r"
  by (cases g) (simp_all add: decides_set_any decides_set_any_role decides_add_roles)

interpretation tree: path_policy grant_step grant_target grant_gives view
proof unfold_locales
  fix g :: grant and s :: pathNode and p :: "string list"
  let ?ss = "grant_target g"
  obtain root' cur where w: "walk_segs True s [] ?ss = (root', cur)" by force
  from walk_segs_create [OF _ w] have cur: "cur = ?ss"
    and ex: "node_at root' ?ss \<noteq> None"
    and v: "\<And>p. view root' p = (if prefix p ?ss \<and> view s p = None then Some (\<lambda>_. False) else view s p)"
    by auto
  from ex obtain m where m: "node_at root' ?ss = Some m" by blast
  have "view (grant_step g s) p = (if p = ?ss then Some (decides (grant_node g m)) else view root' p)"
    using view_update_local [of "grant_node g", OF pchildren_grant_node m] w cur by (simp add: grant_step_def)
  moreover have "view root' ?ss = Some (decides m)" using m by (simp add: view_def)
  ultimately show "view (grant_step g s) p =
      (if prefix p ?ss then Some (\<lambda>r. granted (view s p) r \<or> p = ?ss \<and> grant_gives g r) else view s p)"
    using v [of p] by (cases "view s p") (auto simp: decides_grant_node fun_eq_iff split: if_splits)
qed

section \<open>The configuration calls\<close>

definition root_of :: "Provider \<Rightarrow> pathNode" where
  "root_of c = (case pathRoot c of None \<Rightarrow> newPathNode [] | Some r \<Rightarrow> r)"

lemma root_of_update [simp]: "root_of (c\<lparr>pathRoot := Some r\<rparr>) = r"
  by (simp add: root_of_def)

lemma walkPath_segs:
  "walkPath c path create =
     (if valid_path path
      then case walk_segs create (root_of c) [] (segments path) of
             (root', cur) \<Rightarrow> Ok (c\<lparr>pathRoot := Some root'\<rparr>, cur)
      else Panic)"
  by (cases path) (auto simp: walkPath_def valid_path_def segments_def root_of_def walk_loop_segs
      split: option.splits)

lemma config_call:
  assumes "valid_path path" and "grant_target g = segments path" and "f = grant_node g"
  shows "bind_result (walkPath c path True) (\<lambda>(c', cur). Ok (modify_node f c' cur)) =
     Ok (c\<lparr>pathRoot := Some (grant_step g (root_of c))\<rparr>)"
  using assms
  by (auto simp: walkPath_segs modify_node_def grant_step_def split: prod.splits)

lemma AllowAny_eq:
  "AllowAny c path = (if valid_path path
     then Ok (c\<lparr>pathRoot := Some (grant_step (GrantAny (segments path)) (root_of c))\<rparr>) else Panic)"
  by (auto simp: AllowAny_def fun_eq_iff intro!: config_call) (simp add: walkPath_segs)

lemma AllowAnyRole_eq:
  "AllowAnyRole c path = (if valid_path path
     then Ok (c\<lparr>pathRoot := Some (grant_step (GrantAnyRole (segments path)) (root_of c))\<rparr>) else Panic)"
  by (auto simp: AllowAnyRole_def fun_eq_iff intro!: config_call) (simp add: walkPath_segs)

lemma Allow_eq:
  "Allow c path rs = (if valid_path path
     then Ok (c\<lparr>pathRoot := Some (grant_step (GrantRoles (segments path) rs) (root_of c))\<rparr>) else Panic)"
  by (auto simp: Allow_def fun_eq_iff intro!: config_call) (simp add: walkPath_segs)

lemma each_grants:
  assumes f: "\<And>c s c'. f c s = Ok c' \<Longrightarrow> root_of c' = grant_step (g s) (root_of c) \<and>
        cfg c' = cfg c \<and> requestRoleMapper c' = requestRoleMapper c \<and> grpcRoleMapper c' = grpcRoleMapper c"
    and "each f c ss = Ok c'"
  shows "root_of c' = fold grant_step (map g ss) (root_of c) \<and> cfg c' = cfg c \<and>
    requestRoleMapper c' = requestRoleMapper c \<and> grpcRoleMapper c' = grpcRoleMapper c"
  using assms(2)
proof (induction ss arbitrary: c)
  case (Cons s ss)
  then obtain c1 where "f c s = Ok c1" and "each f c1 ss = Ok c'"
    by (auto simp: bind_result_eq_Ok)
  with Cons.IH f show ?case by auto
qed simp

definition entry_grant :: "string \<Rightarrow> grant" where
  "entry_grant s =
     (case split_on CHR '':'' s of
        [p, rs] \<Rightarrow> GrantRoles (segments p) (split_on CHR '','' rs)
      | _ \<Rightarrow> GrantRoles [] [])"

definition cfg_grants :: "Config \<Rightarrow> grant list" where
  "cfg_grants c = map (\<lambda>s. GrantAny (segments s)) (cfg_AllowAny c) @
     map (\<lambda>s. GrantAnyRole (segments s)) (cfg_AllowAnyRole c) @ map entry_grant (cfg_Allow c)"

lemma allow_entry_grant:
  "allow_entry c s = Ok c' \<Longrightarrow>
     c' = c\<lparr>pathRoot := Some (grant_step (entry_grant s) (root_of c))\<rparr>"
  by (auto simp: allow_entry_def entry_grant_def Allow_eq split: list.splits if_splits)

lemma New_grants:
  assumes "New c = Ok az"
  shows "root_of az = fold grant_step (cfg_grants c) (newPathNode []) \<and> cfg az = c \<and>
    requestRoleMapper az = Some defaultRoleMapper \<and> grpcRoleMapper az = Some defaultGrpcRoleMapper"
proof -
  let ?az = "\<lparr>requestRoleMapper = Some defaultRoleMapper,
                grpcRoleMapper = Some defaultGrpcRoleMapper, pathRoot = None, cfg = c\<rparr>"
  from assms obtain a b where 1: "each AllowAny ?az (cfg_AllowAny c) = Ok a"
    and 2: "each AllowAnyRole a (cfg_AllowAnyRole c) = Ok b"
    and 3: "each allow_entry b (cfg_Allow c) = Ok az"
    by (auto simp: New_def bind_result_eq_Ok)
  have h1: "root_of a = fold grant_step (map (\<lambda>s. GrantAny (segments s)) (cfg_AllowAny c)) (root_of ?az) \<and>
      cfg a = cfg ?az \<and> requestRoleMapper a = requestRoleMapper ?az \<and> grpcRoleMapper a = grpcRoleMapper ?az"
    by (rule each_grants [OF _ 1]) (auto simp: AllowAny_eq split: if_splits)
  have h2: "root_of b = fold grant_step (map (\<lambda>s. GrantAnyRole (segments s)) (cfg_AllowAnyRole c)) (root_of a) \<and>
      cfg b = cfg a \<and> requestRoleMapper b = requestRoleMapper a \<and> grpcRoleMapper b = grpcRoleMapper a"
    by (rule each_grants [OF _ 2]) (auto simp: AllowAnyRole_eq split: if_splits)
  have h3: "root_of az = fold grant_step (map entry_grant (cfg_Allow c)) (root_of b) \<and>
      cfg az = cfg b \<and> requestRoleMapper az = requestRoleMapper b \<and> grpcRoleMapper az = grpcRoleMapper b"
    by (rule each_grants [OF _ 3]) (auto dest: allow_entry_grant)
  have "root_of ?az = newPathNode []" by (simp add: root_of_def)
  with h1 h2 h3 show ?thesis by (simp add: cfg_grants_def)
qed

section \<open>Decisions\<close>

definition tree_allows :: "pathNode \<Rightarrow> string list \<Rightarrow> string \<Rightarrow> bool" where
  "tree_allows root ss r = granted (view root (longest_match (view root) ss)) r"

lemma longest_match_view: "longest_match (view root) ss = deepest root ss"
  using filter_exists_prefixes [of root ss] by (simp add: longest_match_def view_def)

lemma isAllowed_valid:
  assumes "valid_path path"
  shows "\<exists>logs. isAllowed c path r =
    Ok (c\<lparr>pathRoot := Some (root_of c)\<rparr>, tree_allows (root_of c) (segments path) r, logs)"
proof -
  obtain n where n: "node_at (root_of c) (deepest (root_of c) (segments path)) = Some n"
    using node_at_deepest by blast
  have "tree_allows (root_of c) (segments path) r = decides n r"
    using n by (simp add: tree_allows_def longest_match_view view_def)
  with n show ?thesis
    using assms by (auto simp: isAllowed_def walkPath_segs walk_segs_find Let_def decides_def)
qed

lemma isAllowed_invalid: "\<not> valid_path path \<Longrightarrow> isAllowed c path r = Panic"
  by (simp add: isAllowed_def walkPath_segs)

section \<open>Well-formed trees\<close>

fun wf_node :: "pathNode \<Rightarrow> bool" where
  "wf_node (PathNode v ch roles a) =
     (wf_map ch \<and> list_all (\<lambda>(k, c). wf_node c \<and> pvalue c = k) ch \<and>
      wf_map roles \<and> list_all (\<lambda>(r, b). b \<and> r \<noteq> []) roles)"

lemma list_all_mget:
  "wf_map m \<Longrightarrow> list_all P m \<longleftrightarrow> (\<forall>k v. mget m k = Some v \<longrightarrow> P (k, v))"
  by (auto simp: list_all_iff mget_in_set [symmetric])

lemma list_all_mput: "wf_map m \<Longrightarrow> list_all P m \<Longrightarrow> P (k, v) \<Longrightarrow> list_all P (mput k v m)"
  by (auto simp: list_all_mget)

lemma wf_update_at:
  assumes "\<And>m. wf_node m \<Longrightarrow> wf_node (f m) \<and> pvalue (f m) = pvalue m"
  shows "wf_node n \<Longrightarrow> wf_node (update_at f ss n) \<and> pvalue (update_at f ss n) = pvalue n"
proof (induction ss arbitrary: n)
  case (Cons s ss)
  obtain v ch roles a where n: "n = PathNode v ch roles a" by (cases n)
  show ?case
  proof (cases "mget ch s")
    case (Some c)
    with Cons.prems n have "wf_node c" and "pvalue c = s"
      by (auto simp: list_all_mget)
    with Cons n Some show ?thesis by (auto intro!: list_all_mput)
  qed (use n Cons.prems in simp)
qed (use assms in simp)

lemma wf_put_role: "wf_node n \<Longrightarrow> r \<noteq> [] \<Longrightarrow> wf_node (put_role r n)"
  by (cases n) (auto simp: put_role_def intro!: list_all_mput)

lemma wf_add_roles: "wf_node n \<Longrightarrow> wf_node (add_roles rs n) \<and> pvalue (add_roles rs n) = pvalue n"
  by (induction rs n rule: add_roles.induct) (auto simp: wf_put_role, auto simp: put_role_def)

lemma wf_put_child: "wf_node n \<Longrightarrow> wf_node (put_child s (newPathNode s) n)"
  by (cases n) (auto simp: put_child_def newPathNode_def intro!: list_all_mput)

lemma wf_grant_node: "wf_node n \<Longrightarrow> wf_node (grant_node g n) \<and> pvalue (grant_node g n) = pvalue n"
  by (cases g; cases n) (use wf_add_roles in \<open>auto simp: set_allow_def\<close>)

lemma wf_walk_segs:
  "wf_node root \<Longrightarrow> wf_node (fst (walk_segs create root cur ss)) \<and>
     pvalue (fst (walk_segs create root cur ss)) = pvalue root"
proof (induction ss arbitrary: root cur)
  case (Cons s ss)
  have "wf_node (update_at (put_child s (newPathNode s)) cur root) \<and>
      pvalue (update_at (put_child s (newPathNode s)) cur root) = pvalue root"
    by (rule wf_update_at) (use Cons.prems wf_put_child in \<open>auto simp: put_child_def\<close>)
  with Cons show ?case by (cases create) auto
qed simp

lemma wf_grant_step: "wf_node root \<Longrightarrow> wf_node (grant_step g root) \<and> pvalue (grant_step g root) = pvalue root"
  using wf_walk_segs [of root True "[]" "grant_target g"]
    wf_update_at [of "grant_node g", OF wf_grant_node]
  by (auto simp: grant_step_def split: prod.splits)

lemma wf_fold_grants: "wf_node root \<Longrightarrow> wf_node (fold grant_step gs root)"
  by (induction gs arbitrary: root) (auto simp: wf_grant_step)

lemma pvalue_fold: "wf_node root \<Longrightarrow> pvalue (fold grant_step gs root) = pvalue root"
  by (induction gs arbitrary: root) (auto simp: wf_grant_step)

lemma fold_mput_fresh:
  "distinct (map fst ch) \<Longrightarrow> set (map fst ch) \<inter> set (map fst acc) = {} \<Longrightarrow>
   fold (\<lambda>(k, c) m. mput k (f c) m) ch acc = acc @ map (\<lambda>(k, c). (k, f c)) ch"
proof (induction ch arbitrary: acc)
  case (Cons kc ch)
  obtain k c where kc: "kc = (k, c)" by force
  have "mput k (f c) acc = acc @ [(k, f c)]"
    using Cons.prems kc by (induction acc) auto
  with Cons kc show ?case by auto
qed simp

lemma clone_wf: "wf_node n \<Longrightarrow> clone n = n"
proof (induction n rule: wf_node.induct)
  case (1 v ch roles a)
  have "map (\<lambda>(k, c). (k, clone c)) ch = ch"
    using 1 by (intro map_idI) (auto simp: list_all_iff)
  moreover have "map (\<lambda>(k, _). (k, True)) roles = roles"
    using 1 by (intro map_idI) (auto simp: list_all_iff)
  ultimately show ?case
    using 1 fold_mput_fresh [of ch "[]" clone] fold_mput_fresh [of roles "[]" "\<lambda>_. True"]
    by (simp add: wf_map_def)
qed

definition wf_provider :: "Provider \<Rightarrow> bool" where
  "wf_provider c = (case pathRoot c of None \<Rightarrow> True | Some root \<Rightarrow> wf_node root \<and> pvalue root = [])"

lemma wf_root_of: "wf_provider c \<Longrightarrow> wf_node (root_of c) \<and> pvalue (root_of c) = []"
  by (auto simp: wf_provider_def root_of_def newPathNode_def split: option.splits)

lemma wf_provider_step:
  "wf_provider c \<Longrightarrow> wf_provider (c\<lparr>pathRoot := Some (grant_step g (root_of c))\<rparr>)"
  using wf_root_of [of c] wf_grant_step [of "root_of c" g] by (simp add: wf_provider_def)

lemma Clone_decisions: "wf_provider c \<Longrightarrow> root_of (Clone copy c) = root_of c"
  by (auto simp: Clone_def root_of_def wf_provider_def clone_wf split: option.splits)

lemma wf_New: "New c = Ok az \<Longrightarrow> wf_provider az"
  using New_grants [of c az] wf_fold_grants [of "newPathNode []" "cfg_grants c"]
  by (cases "pathRoot az")
    (auto simp: wf_provider_def root_of_def newPathNode_def pvalue_fold)

section \<open>The policy of a configuration\<close>

definition cfg_policy :: "Config \<Rightarrow> string list \<Rightarrow> (string \<Rightarrow> bool) option" where
  "cfg_policy c p =
     (if p = [] \<or> (\<exists>g\<in>set (cfg_grants c). prefix p (grant_target g))
      then Some (\<lambda>r. \<exists>g\<in>set (cfg_grants c). p = grant_target g \<and> grant_gives g r)
      else None)"

definition cfg_allows :: "Config \<Rightarrow> string list \<Rightarrow> string \<Rightarrow> bool" where
  "cfg_allows c ss r = granted (cfg_policy c (longest_match (cfg_policy c) ss)) r"

lemma view_new: "view (newPathNode []) p = (if p = [] then Some (\<lambda>_. False) else None)"
  by (cases p) (simp_all add: view_def decides_new, simp add: newPathNode_def)

lemma view_New: "New c = Ok az \<Longrightarrow> view (root_of az) = cfg_policy c"
  by (rule ext) (auto simp: New_grants tree.policy_run view_new cfg_policy_def)

lemma isAllowed_New:
  assumes "New c = Ok az" and "valid_path path"
  shows "\<exists>logs. isAllowed az path r = Ok (az\<lparr>pathRoot := Some (root_of az)\<rparr>, cfg_allows c (segments path) r, logs)"
  using isAllowed_valid [OF assms(2), of az r] view_New [OF assms(1)]
  by (simp add: tree_allows_def cfg_allows_def)

lemma cfg_allows_iff:
  "cfg_allows c ss r \<longleftrightarrow>
     (\<exists>g\<in>set (cfg_grants c). grant_target g = longest_match (cfg_policy c) ss \<and> grant_gives g r)"
  by (auto simp: cfg_allows_def cfg_policy_def granted_def) metis+

definition demo_config :: Config where
  "demo_config = \<lparr>cfg_Allow = [''/foo/bar:bob,barry''], cfg_AllowAny = [''/''],
     cfg_AllowAnyRole = [''/eve''], LogAllowedAny = False, LogAllowed = False, LogDenied = True\<rparr>"

definition demo_copy :: "Config \<Rightarrow> Config \<Rightarrow> Config" where
  "demo_copy d c = c"

fun decision :: "(authz_error, Provider \<times> bool \<times> authz_log list) result \<Rightarrow> bool option" where
  "decision (Ok (_, b, _)) = Some b"
| "decision (Err e) = None"
| "decision Panic = None"

definition demo_provider :: Provider where
  "demo_provider = (case New demo_config of Ok az \<Rightarrow> az | _ \<Rightarrow> undefined)"

lemma demo_is_Ok: "is_Ok (New demo_config)"
  by code_simp

lemma New_demo: "New demo_config = Ok demo_provider"
  using demo_is_Ok by (auto simp: is_Ok_iff demo_provider_def)

text \<open>C1. A provider built by \<open>New\<close> decides exactly the declarative policy of its
  configuration: the longest configured prefix of the request's segments (a prefix of a
  configured path counts, the root always does) allows a role if some entry for exactly
  that path gives it. Every valid path gets a decision.\<close>

theorem New_refines_policy:
  assumes "New c = Ok az" and "valid_path path"
  shows "\<exists>az' logs. isAllowed az path r = Ok (az', cfg_allows c (segments path) r, logs)"
  using isAllowed_New [OF assms] by blast

theorem New_refines_policy_witness:
  "New demo_config = Ok demo_provider \<and> valid_path ''/foo/bar/x'' \<and>
   (\<exists>az' logs. isAllowed demo_provider ''/foo/bar/x'' ''bob'' =
      Ok (az', cfg_allows demo_config (segments ''/foo/bar/x'') ''bob'', logs)) \<and>
   cfg_allows demo_config (segments ''/foo/bar/x'') ''bob''"
proof -
  have v: "valid_path ''/foo/bar/x''" by (simp add: valid_path_def)
  have "cfg_allows demo_config (segments ''/foo/bar/x'') ''bob''"
    by code_simp
  then show ?thesis
    using New_demo v New_refines_policy [OF New_demo v, of "''bob''"] by blast
qed

section \<open>Sequences of configuration calls\<close>

datatype config_call = CallAllowAny string | CallAllowAnyRole string | CallAllow string "string list"

fun exec_call :: "Provider \<Rightarrow> config_call \<Rightarrow> (authz_error, Provider) result" where
  "exec_call c (CallAllowAny path) = AllowAny c path"
| "exec_call c (CallAllowAnyRole path) = AllowAnyRole c path"
| "exec_call c (CallAllow path rs) = Allow c path rs"

fun configure :: "Provider \<Rightarrow> config_call list \<Rightarrow> (authz_error, Provider) result" where
  "configure c [] = Ok c"
| "configure c (x # xs) = bind_result (exec_call c x) (\<lambda>c'. configure c' xs)"

fun call_grant :: "config_call \<Rightarrow> grant" where
  "call_grant (CallAllowAny path) = GrantAny (segments path)"
| "call_grant (CallAllowAnyRole path) = GrantAnyRole (segments path)"
| "call_grant (CallAllow path rs) = GrantRoles (segments path) rs"

lemma exec_call_grant:
  "exec_call c x = Ok c' \<Longrightarrow> c' = c\<lparr>pathRoot := Some (grant_step (call_grant x) (root_of c))\<rparr>"
  by (cases x) (auto simp: AllowAny_eq AllowAnyRole_eq Allow_eq split: if_splits)

lemma configure_grants:
  "configure c xs = Ok c' \<Longrightarrow> root_of c' = fold grant_step (map call_grant xs) (root_of c)"
  by (induction c xs rule: configure.induct)
    (auto simp: bind_result_eq_Ok dest!: exec_call_grant)

lemma wf_exec_call: "wf_provider c \<Longrightarrow> exec_call c x = Ok c' \<Longrightarrow> wf_provider c'"
  using exec_call_grant wf_provider_step by blast

lemma wf_configure: "wf_provider c \<Longrightarrow> configure c xs = Ok c' \<Longrightarrow> wf_provider c'"
  by (induction c xs rule: configure.induct) (auto simp: bind_result_eq_Ok, blast dest: wf_exec_call)

lemma configure_mapper: "configure c xs = Ok c' \<Longrightarrow> requestRoleMapper c' = requestRoleMapper c"
  by (induction c xs rule: configure.induct) (auto simp: bind_result_eq_Ok dest!: exec_call_grant)

definition fresh_provider :: Provider where
  "fresh_provider = \<lparr>requestRoleMapper = Some defaultRoleMapper, grpcRoleMapper = None,
     pathRoot = None, cfg = demo_config\<rparr>"

definition demo_calls :: "config_call list" where
  "demo_calls = [CallAllowAny ''/foo'', CallAllow ''/foo'' [''bob'']]"

definition demo_request :: request where
  "demo_request = new_request ''GET'' ''/foo/bar'' []
     (AddToContext background (Some (NewRequestContext (Some (NewIdentity ''bob'' ''b'' [])))))"

text \<open>C29. The order of configuration calls never matters: two providers that received the
  same set of calls, in any order and with any repetitions, decide every request alike
  (so \<open>AllowAny\<close> and \<open>AllowAnyRole\<close> override \<open>Allow\<close> whatever the order, and \<open>Allow\<close> is cumulative).\<close>

theorem configure_order_irrelevant:
  assumes "set xs = set ys" and "configure c xs = Ok a" and "configure c ys = Ok b"
  shows "decision (isAllowed a path r) = decision (isAllowed b path r)"
proof -
  have "view (root_of a) = view (root_of b)"
    using tree.order_irrelevant [of "map call_grant xs" "map call_grant ys"] assms
    by (simp add: configure_grants)
  then show ?thesis
    using isAllowed_valid [of path a r] isAllowed_valid [of path b r] isAllowed_invalid [of path]
    by (cases "valid_path path") (auto simp: tree_allows_def)
qed

definition demo_state :: "config_call list \<Rightarrow> Provider" where
  "demo_state xs = (case configure fresh_provider xs of Ok a \<Rightarrow> a | _ \<Rightarrow> undefined)"

lemma demo_configure: "is_Ok (configure fresh_provider xs) \<Longrightarrow> configure fresh_provider xs = Ok (demo_state xs)"
  by (auto simp: is_Ok_iff demo_state_def)

theorem configure_order_irrelevant_witness:
  "decision (isAllowed (demo_state demo_calls) ''/foo'' ''bob'') =
   decision (isAllowed (demo_state (rev demo_calls)) ''/foo'' ''bob'') \<and>
   configure fresh_provider demo_calls = Ok (demo_state demo_calls) \<and>
   configure fresh_provider (rev demo_calls) = Ok (demo_state (rev demo_calls))"
proof -
  have 1: "configure fresh_provider demo_calls = Ok (demo_state demo_calls)"
    by (rule demo_configure) code_simp
  have 2: "configure fresh_provider (rev demo_calls) = Ok (demo_state (rev demo_calls))"
    by (rule demo_configure) code_simp
  show ?thesis
    using configure_order_irrelevant [OF _ 1 2] 1 2 by simp
qed

text \<open>C28. A caller without a role, or with the guest role, is allowed only where the deepest
  match was opened with \<open>AllowAny\<close>: no \<open>Allow\<close> entry and no \<open>AllowAnyRole\<close> lets a guest in,
  not even an entry that names the guest role.\<close>

theorem guest_needs_AllowAny:
  assumes "New c = Ok az" and "valid_path path" and "r = [] \<or> r = GuestRoleName"
  shows "decision (isAllowed az path r) =
    Some (longest_match (cfg_policy c) (segments path) \<in> segments ` set (cfg_AllowAny c))"
proof -
  have nr: "\<not> named_role r" using assms(3) by (auto simp: named_role_def)
  have e: "\<not> grant_gives (entry_grant s) r" for s
    using nr by (auto simp: entry_grant_def split: list.splits)
  obtain logs where "isAllowed az path r =
      Ok (az\<lparr>pathRoot := Some (root_of az)\<rparr>, cfg_allows c (segments path) r, logs)"
    using isAllowed_New [OF assms(1,2)] by blast
  moreover have "cfg_allows c (segments path) r \<longleftrightarrow>
      longest_match (cfg_policy c) (segments path) \<in> segments ` set (cfg_AllowAny c)"
    using nr e unfolding cfg_allows_iff by (force simp: cfg_grants_def bex_Un)
  ultimately show ?thesis by simp
qed

theorem guest_needs_AllowAny_witness:
  "decision (isAllowed demo_provider ''/eve/x'' ''guest'') =
     Some (longest_match (cfg_policy demo_config) (segments ''/eve/x'') \<in>
       segments ` set (cfg_AllowAny demo_config))"
proof -
  have "valid_path ''/eve/x''" by (simp add: valid_path_def)
  moreover have "''guest'' = [] \<or> ''guest'' = GuestRoleName" by (simp add: GuestRoleName_def)
  ultimately show ?thesis by (rule guest_needs_AllowAny [OF New_demo])
qed

text \<open>Every configuration call keeps the tree well formed (distinct keys at each node,
  a child stored under its own name, only non-empty roles, all marked true), and on a
  well-formed provider the deep copy of \<open>Clone\<close> is faithful: same tree, same mappers.\<close>

theorem Clone_faithful:
  assumes "wf_provider c" and "configure c xs = Ok c'"
  shows "wf_provider c' \<and> pathRoot (Clone copy c') = pathRoot c' \<and>
    requestRoleMapper (Clone copy c') = requestRoleMapper c' \<and>
    grpcRoleMapper (Clone copy c') = grpcRoleMapper c'"
proof -
  from wf_configure [OF assms] have w: "wf_provider c'" .
  then show ?thesis
    by (cases "pathRoot c'") (auto simp: Clone_def wf_provider_def clone_wf)
qed

theorem Clone_faithful_witness:
  "wf_provider (demo_state demo_calls) \<and>
   pathRoot (Clone demo_copy (demo_state demo_calls)) = pathRoot (demo_state demo_calls)"
proof -
  have 1: "configure fresh_provider demo_calls = Ok (demo_state demo_calls)"
    by (rule demo_configure) code_simp
  have 2: "wf_provider fresh_provider" by (simp add: wf_provider_def fresh_provider_def)
  show ?thesis using Clone_faithful [OF 2 1, of demo_copy] by blast
qed

text \<open>A handler's copy of the provider decides as the provider did when \<open>NewHandler\<close> was called, and no request changes it.\<close>

lemma handler_decision:
  assumes "wf_provider c" and "requestRoleMapper c = Some m" and "NewHandler copy c = Ok ah" and "valid_path (URLPath q)"
  shows "checkAccess (config ah) q =
    (if Method q = ''OPTIONS'' \<or> tree_allows (root_of c) (segments (URLPath q)) (if m q = [] then GuestRoleName else m q)
     then Ok (config ah) else Err (RoleNotAllowed (if m q = [] then GuestRoleName else m q)))"
proof -
  have ah: "ah = \<lparr>config = Clone copy c\<rparr>" "pathRoot c \<noteq> None" using assms(3) by (auto simp: NewHandler_def split: if_splits)
  have m: "requestRoleMapper (config ah) = Some m" using assms(2) ah by (simp add: Clone_def)
  have r: "root_of (config ah) = root_of c" using ah Clone_decisions [OF assms(1)] by simp
  have "pathRoot (config ah) \<noteq> None" using ah by (auto simp: Clone_def)
  then have "pathRoot (config ah) = Some (root_of c)" using r by (auto simp: root_of_def)
  then have keep: "(config ah)\<lparr>pathRoot := Some (root_of c)\<rparr> = config ah" by simp
  let ?rl = "if m q = [] then GuestRoleName else m q"
  obtain logs where a: "isAllowed (config ah) (URLPath q) ?rl =
      Ok (config ah, tree_allows (root_of c) (segments (URLPath q)) ?rl, logs)"
    using isAllowed_valid [OF assms(4), of "config ah" ?rl] r keep by auto
  show ?thesis using a m by (auto simp: checkAccess_def Let_def)
qed

text \<open>A path that is only an intermediate node of a longer configured path hides the
  grants of its ancestors: with \<open>AllowAny("/")\<close> and \<open>Allow("/foo/bar", "bob")\<close>, a request for
  \<open>/foo/baz\<close> is denied to every role, while \<open>/qux\<close> is open to every role. (The package
  comment promises \<open>AllowAny\<close> for the path \<^emph>\<open>and its children\<close> unless a call names a child
  path; no call names \<open>/foo\<close> or \<open>/foo/baz\<close>.)\<close>

theorem intermediate_node_hides_ancestors:
  "decision (isAllowed demo_provider ''/foo/baz'' r) = Some False \<and>
   decision (isAllowed demo_provider ''/qux'' r) = Some True"
proof -
  have v: "valid_path ''/foo/baz''" "valid_path ''/qux''" by (simp_all add: valid_path_def)
  have 1: "longest_match (cfg_policy demo_config) (segments ''/foo/baz'') = [''foo'']"
    by code_simp
  have 2: "longest_match (cfg_policy demo_config) (segments ''/qux'') = []"
    by code_simp
  have 3: "cfg_grants demo_config =
      [GrantAny [], GrantAnyRole [''eve''], GrantRoles [''foo'', ''bar''] [''bob'', ''barry'']]"
    by code_simp
  have "\<not> cfg_allows demo_config (segments ''/foo/baz'') r"
    and "cfg_allows demo_config (segments ''/qux'') r"
    by (simp_all add: cfg_allows_iff 1 2 3)
  then show ?thesis
    using isAllowed_New [OF New_demo v(1), of r] isAllowed_New [OF New_demo v(2), of r] by auto
qed

end
