(* ===== verification/Tasks.thy ===== *)
theory Tasks
  imports GoStrings
begin

text \<open>
  The package \<open>tasks\<close>, file \<open>task.go\<close>: a task, its schedule arithmetic, the parser of its
  human-readable schedule, and its \<open>Run\<close>. Instants are nanoseconds. A \<open>time.Location\<close> is a
  \<open>zone\<close>: the serial number of the local calendar day of an instant (1970-01-01, a
  Thursday, is day 0) and the instant of a clock time on a day. The zone data is not part
  of the repository, so a zone is an argument, and the locale \<open>civil_zone\<close> states what the
  schedule theorems use of it; the clock may be put forward and back. All readings of the
  clock inside one call are taken at the same instant \<open>now\<close>.
\<close>

section \<open>Zones\<close>

record zone =
  zday :: "time \<Rightarrow> int"
  zat :: "int \<Rightarrow> int \<Rightarrow> int \<Rightarrow> time"

abbreviation day_ns :: int where "day_ns \<equiv> 86400000000000"

definition weekday :: "zone \<Rightarrow> time \<Rightarrow> int" where
  "weekday z t = (zday z t + 4) mod 7"

definition fixed_zone :: "int \<Rightarrow> zone" where
  "fixed_zone off = \<lparr>zday = (\<lambda>t. (t + off) div day_ns),
                     zat = (\<lambda>d h m. d * day_ns + h * hour + m * minute - off)\<rparr>"

text \<open>The two locations a task uses: the process's local zone, which \<open>time.Now()\<close> carries, and
  the package variable \<open>loc\<close> (\<open>SetGlobalLocation\<close>).\<close>

record zones =
  Local :: zone
  loc :: zone

definition SetGlobalLocation :: "zones \<Rightarrow> zone \<Rightarrow> zones" where
  "SetGlobalLocation zs newLocation = zs\<lparr>loc := newLocation\<rparr>"

section \<open>Tasks\<close>

datatype TimeUnit = Never | Seconds | Minutes | Hours | Days | Weeks

text \<open>A callback as \<open>reflect\<close> shows it: whether the value is a function, its runtime name and
  its number of parameters. Parameter values are opaque.\<close>

record gofunc =
  is_func :: bool
  func_name :: string
  NumIn :: nat

record task =
  interval :: uint64
  unit :: TimeUnit
  count :: uint32
  lastRunAt :: "time option"
  nextRunAt :: time
  period :: duration
  startDay :: int
  tname :: string
  callback :: "gofunc option"
  params :: "nat list"
  runLock :: bool      \<comment> \<open>the one-slot channel holds its token\<close>
  running :: bool

definition new_task :: "uint64 \<Rightarrow> TimeUnit \<Rightarrow> int \<Rightarrow> task" where
  "new_task iv u sd = \<lparr>interval = iv, unit = u, count = 0, lastRunAt = None, nextRunAt = 0,
     period = 0, startDay = sd, tname = [], callback = None, params = [], runLock = False,
     running = False\<rparr>"

definition NewTaskAtIntervals :: "uint64 \<Rightarrow> TimeUnit \<Rightarrow> task" where
  "NewTaskAtIntervals iv u = new_task iv u 0"

definition RunCount :: "task \<Rightarrow> uint32" where
  "RunCount j = count j"

definition ShouldRun :: "time \<Rightarrow> task \<Rightarrow> bool" where
  "ShouldRun now j = (\<not> running j \<and> now > nextRunAt j)"

definition LastRunTime :: "task \<Rightarrow> time" where
  "LastRunTime j = (case lastRunAt j of Some t \<Rightarrow> t | None \<Rightarrow> 0)"

text \<open>\<open>Duration\<close> caches the period. The conversion of the unsigned interval and every product
  are 64-bit signed, so they wrap.\<close>

definition unit_period :: "uint64 \<Rightarrow> TimeUnit \<Rightarrow> duration \<Rightarrow> duration" where
  "unit_period iv u old =
     (case u of
        Never \<Rightarrow> old
      | Seconds \<Rightarrow> wrap64 (sint iv * second)
      | Minutes \<Rightarrow> wrap64 (sint iv * minute)
      | Hours \<Rightarrow> wrap64 (sint iv * hour)
      | Days \<Rightarrow> wrap64 (wrap64 (sint iv * hour) * 24)
      | Weeks \<Rightarrow> wrap64 (wrap64 (wrap64 (sint iv * hour) * 24) * 7))"

definition Duration :: "task \<Rightarrow> task \<times> duration" where
  "Duration j =
     (let j' = (if period j = 0 then j\<lparr>period := unit_period (interval j) (unit j) 0\<rparr> else j)
      in (j', period j'))"

text \<open>\<open>at\<close>: pretend the task last ran at the most recent instant of its clock time.
  \<open>mock.UTC().AddDate(0, 0, -n)\<close> counts days of UTC, which all have 24 hours.\<close>

definition at_time :: "zones \<Rightarrow> time \<Rightarrow> int \<Rightarrow> int \<Rightarrow> task \<Rightarrow> task" where
  "at_time zs now h m j =
     (let d = zday (Local zs) now;
          mock = zat (loc zs) d h m;
          wd = weekday (Local zs) now;
          mock' =
            (if unit j = Days then
               (if \<not> now > mock then mock - day_ns else mock)
             else if unit j = Weeks then
               (if startDay j \<noteq> wd \<or> (now > mock \<and> startDay j = wd) then
                  let i = weekday (loc zs) mock - startDay j;
                      i = (if i < 0 then 7 + i else i)
                  in mock - i * day_ns
                else mock - 7 * day_ns)
             else mock)
      in j\<lparr>lastRunAt := Some mock'\<rparr>)"

definition bad_clock :: "int \<Rightarrow> int \<Rightarrow> bool" where
  "bad_clock h m = (h < 0 \<or> h > 23 \<or> m < 0 \<or> m > 59)"

definition NewTaskOnWeekday :: "zones \<Rightarrow> time \<Rightarrow> int \<Rightarrow> int \<Rightarrow> int \<Rightarrow> (unit, task) result" where
  "NewTaskOnWeekday zs now sd h m =
     (if bad_clock h m then Panic else Ok (at_time zs now h m (new_task 1 Weeks sd)))"

definition NewTaskDaily :: "zones \<Rightarrow> time \<Rightarrow> int \<Rightarrow> int \<Rightarrow> (unit, task) result" where
  "NewTaskDaily zs now h m =
     (if bad_clock h m then Panic else Ok (at_time zs now h m (new_task 1 Days 0)))"

definition scheduleNextRun :: "zones \<Rightarrow> time \<Rightarrow> task \<Rightarrow> task \<times> time" where
  "scheduleNextRun zs now j =
     (let last = (case lastRunAt j of
                    Some t \<Rightarrow> t
                  | None \<Rightarrow>
                      if unit j = Weeks then
                        let i = weekday (Local zs) now - startDay j;
                            i = (if i < 0 then 7 + i else i)
                        in zat (loc zs) (zday (Local zs) now - i) 0 0
                      else now);
          (j', p) = Duration (j\<lparr>lastRunAt := Some last\<rparr>);
          j'' = j'\<lparr>nextRunAt := last + p\<rparr>
      in (j'', nextRunAt j''))"

text \<open>\<open>filepath.Base\<close> on a slash-separated path.\<close>

definition path_base :: "string \<Rightarrow> string" where
  "path_base s =
     (if s = [] then ''.''
      else let t = rev (dropWhile (\<lambda>c. c = CHR ''/'') (rev s))
           in if t = [] then ''/'' else rev (takeWhile (\<lambda>c. c \<noteq> CHR ''/'') (rev t)))"

definition Do :: "zones \<Rightarrow> time \<Rightarrow> string \<Rightarrow> gofunc \<Rightarrow> nat list \<Rightarrow> task \<Rightarrow> (unit, task) result" where
  "Do zs now taskName taskFunc ps j =
     (if \<not> is_func taskFunc then Panic
      else if length ps \<noteq> NumIn taskFunc then Panic
      else let j' = j\<lparr>tname := taskName @ ''@'' @ path_base (func_name taskFunc),
                       callback := Some taskFunc, params := ps\<rparr>
           in Ok (fst (scheduleNextRun zs now j')))"

section \<open>Parsing\<close>

datatype task_error = TimeFormat string | NotANumber string | TaskFormat string

definition parseTimeFormat :: "string \<Rightarrow> (task_error, int \<times> int) result" where
  "parseTimeFormat t =
     (case split_on CHR '':'' t of
        [a, b] \<Rightarrow>
          (case atoi a of
             None \<Rightarrow> Err (NotANumber a)
           | Some h \<Rightarrow>
               (case atoi b of
                  None \<Rightarrow> Err (NotANumber b)
                | Some m \<Rightarrow> if bad_clock h m then Err (TimeFormat t) else Ok (h, m)))
      | _ \<Rightarrow> Err (TimeFormat t))"

definition weekday_token :: "task \<Rightarrow> int \<Rightarrow> task option" where
  "weekday_token j sd =
     (if interval j > 1 \<or> unit j \<noteq> Never then None else Some (j\<lparr>unit := Weeks, startDay := sd\<rparr>))"

text \<open>One iteration of the loop over the tokens; \<open>None\<close> is the error return.\<close>

definition parse_token :: "zones \<Rightarrow> time \<Rightarrow> task \<Rightarrow> string \<Rightarrow> task option" where
  "parse_token zs now j t =
     (if t = ''every'' then (if interval j > 0 then None else Some (j\<lparr>interval := 1\<rparr>))
      else if t = ''second'' \<or> t = ''seconds'' then Some (j\<lparr>unit := Seconds\<rparr>)
      else if t = ''minute'' \<or> t = ''minutes'' then Some (j\<lparr>unit := Minutes\<rparr>)
      else if t = ''hour'' \<or> t = ''hours'' then Some (j\<lparr>unit := Hours\<rparr>)
      else if t = ''day'' \<or> t = ''days'' then Some (j\<lparr>unit := Days\<rparr>)
      else if t = ''week'' \<or> t = ''weeks'' then Some (j\<lparr>unit := Weeks\<rparr>)
      else if t = ''monday'' then weekday_token j 1
      else if t = ''tuesday'' then weekday_token j 2
      else if t = ''wednesday'' then weekday_token j 3
      else if t = ''thursday'' then weekday_token j 4
      else if t = ''friday'' then weekday_token j 5
      else if t = ''saturday'' then weekday_token j 6
      else if t = ''sunday'' then weekday_token j 0
      else if contains_sub t '':'' then
        (case parseTimeFormat t of
           Ok (h, m) \<Rightarrow>
             if unit j = Never then Some (at_time zs now h m (j\<lparr>unit := Days\<rparr>))
             else if unit j \<noteq> Days \<and> unit j \<noteq> Weeks then None
             else Some (at_time zs now h m j)
         | _ \<Rightarrow> None)
      else if interval j > 1 then None
      else (case parse_uint t of
              Some iv \<Rightarrow> if iv < 1 then None else Some (j\<lparr>interval := iv\<rparr>)
            | None \<Rightarrow> None))"

fun parse_tokens :: "zones \<Rightarrow> time \<Rightarrow> task \<Rightarrow> string list \<Rightarrow> task option" where
  "parse_tokens zs now j [] = Some j"
| "parse_tokens zs now j (t # ts) =
     (case parse_token zs now j t of None \<Rightarrow> None | Some j' \<Rightarrow> parse_tokens zs now j' ts)"

definition parseTaskFormat :: "zones \<Rightarrow> time \<Rightarrow> string \<Rightarrow> (task_error, task) result" where
  "parseTaskFormat zs now format =
     (case parse_tokens zs now (new_task 0 Never 0) (split_on CHR '' '' (to_lower format)) of
        None \<Rightarrow> Err (TaskFormat format)
      | Some j \<Rightarrow>
          let j' = (if interval j = 0 then j\<lparr>interval := 1\<rparr> else j)
          in if unit j' = Never then Err (TaskFormat format) else Ok j')"

definition NewTask :: "zones \<Rightarrow> time \<Rightarrow> string \<Rightarrow> (task_error, task) result" where
  "NewTask zs now format = parseTaskFormat zs now format"

section \<open>Run\<close>

text \<open>
  \<open>Run\<close> is called from many goroutines. Its critical section is cut into the atomic parts
  between which others can act: taking the token (or giving up after the time-out), the end
  of the callback, and rescheduling with the release of the token. \<open>active\<close> counts the
  callbacks in execution, \<open>finishing\<close> the runs whose callback is over and whose token is not
  yet back, \<open>started\<close> the runs ever started.
\<close>

definition run_acquire :: "time \<Rightarrow> task \<Rightarrow> task option" where
  "run_acquire now j =
     (if runLock j then None
      else Some (j\<lparr>runLock := True, lastRunAt := Some now, running := True, count := count j + 1\<rparr>))"

definition run_called :: "task \<Rightarrow> task" where
  "run_called j = j\<lparr>running := False\<rparr>"

definition run_release :: "zones \<Rightarrow> time \<Rightarrow> task \<Rightarrow> task" where
  "run_release zs now j = (fst (scheduleNextRun zs now j))\<lparr>runLock := False\<rparr>"

text \<open>One undisturbed call: started at \<open>t1\<close>, its callback over at \<open>t2\<close>.\<close>

definition Run :: "zones \<Rightarrow> time \<Rightarrow> time \<Rightarrow> task \<Rightarrow> task \<times> bool" where
  "Run zs t1 t2 j =
     (case run_acquire t1 j of
        None \<Rightarrow> (j, False)
      | Some j1 \<Rightarrow> (run_release zs t2 (run_called j1), True))"

record run_state =
  rtask :: task
  active :: nat
  finishing :: nat
  started :: nat

inductive run_step :: "zones \<Rightarrow> run_state \<Rightarrow> run_state \<Rightarrow> bool" for zs where
  acquire: "run_acquire now (rtask s) = Some j \<Longrightarrow>
     run_step zs s (s\<lparr>rtask := j, active := Suc (active s), started := Suc (started s)\<rparr>)"
| refuse: "runLock (rtask s) \<Longrightarrow> run_step zs s s"
| called: "active s = Suc n \<Longrightarrow>
     run_step zs s (s\<lparr>rtask := run_called (rtask s), active := n, finishing := Suc (finishing s)\<rparr>)"
| release: "finishing s = Suc n \<Longrightarrow>
     run_step zs s (s\<lparr>rtask := run_release zs now (rtask s), finishing := n\<rparr>)"

inductive_cases run_stepE: "run_step zs s t"

end
