(* ===== verification/TaskSchedule.thy ===== *)
theory TaskSchedule
  imports Tasks
begin

text \<open>
  Correctness of a task: when it runs next, what its schedule strings mean, and that \<open>Run\<close>
  never executes the callback twice at a time. \<open>civil_zone\<close> is what the schedule theorems
  use of the zone data; the clock may be put forward and back.
\<close>

section \<open>The zone contract\<close>

text \<open>The clock time of an instant is the instant plus the offset in effect; \<open>time.Date\<close> returns an instant that shows the given
  clock time whenever there is one (one of them, where the clock is put back).\<close>

definition wall :: "(time \<Rightarrow> duration) \<Rightarrow> time \<Rightarrow> int" where
  "wall offset t = t + offset t"

definition clock_ns :: "int \<Rightarrow> int \<Rightarrow> int" where
  "clock_ns h m = h * hour + m * minute"

lemma clock_ns_range: "\<not> bad_clock h m \<Longrightarrow> 0 \<le> clock_ns h m \<and> clock_ns h m < day_ns"
  by (auto simp: bad_clock_def clock_ns_def)

locale civil_zone =
  fixes z :: zone and offset :: "time \<Rightarrow> duration"
  assumes zday_wall: "zday z t = wall offset t div day_ns"
    and zat_wall: "\<not> bad_clock h m \<Longrightarrow> wall offset t = d * day_ns + clock_ns h m \<Longrightarrow>
      wall offset (zat z d h m) = d * day_ns + clock_ns h m"
begin

text \<open>Where the clock time exists on the day of \<open>t\<close>, its instant is less than a day away unless the offset changes.\<close>

lemma near_today:
  assumes "\<not> bad_clock h m" and "wall offset u = zday z t * day_ns + clock_ns h m"
    and "offset (zat z (zday z t) h m) = offset t"
  shows "zat z (zday z t) h m < t + day_ns \<and> t - day_ns < zat z (zday z t) h m"
proof -
  define r where "r = wall offset t mod day_ns"
  have "wall offset t = zday z t * day_ns + r" by (simp add: zday_wall r_def)
  moreover have "0 \<le> r" "r < day_ns" by (simp_all add: r_def)
  ultimately show ?thesis
    using zat_wall [OF assms(1,2)] clock_ns_range [OF assms(1)] assms(3) unfolding wall_def by linarith
qed

end

text \<open>A zone whose clock is never changed.\<close>

locale steady_zone = civil_zone +
  assumes steady: "offset t = offset t'"
begin

lemma clock_exists: "wall offset (d * day_ns + clock_ns h m - offset 0) = d * day_ns + clock_ns h m"
  using steady [of _ 0] by (simp add: wall_def)

lemma steady_near: "\<not> bad_clock h m \<Longrightarrow> zat z (zday z t) h m < t + day_ns \<and> t - day_ns < zat z (zday z t) h m"
  by (rule near_today [OF _ clock_exists steady])

lemma weekday_shift: "weekday z (t - k * day_ns) = (weekday z t - k) mod 7"
proof -
  have "wall offset (t - k * day_ns) = wall offset t - k * day_ns" using steady [of "t - k * day_ns" t] by (simp add: wall_def)
  then have "zday z (t - k * day_ns) = zday z t - k" by (simp add: zday_wall)
  then show ?thesis unfolding weekday_def by (simp add: mod_diff_left_eq) (simp add: algebra_simps)
qed

lemma weekday_zat: "\<not> bad_clock h m \<Longrightarrow> weekday z (zat z (zday z t) h m) = weekday z t"
  using zat_wall [OF _ clock_exists] clock_ns_range [of h m]
  by (simp add: weekday_def zday_wall [of "zat z (zday z t) h m"])

end

interpretation fz: steady_zone "fixed_zone off" "\<lambda>_. off" for off
  by unfold_locales (simp_all add: fixed_zone_def wall_def clock_ns_def)

text \<open>A zone whose clock is changed once, at the instant \<open>c\<close>, from one offset to another.\<close>

definition change_offset :: "time \<Rightarrow> duration \<Rightarrow> duration \<Rightarrow> time \<Rightarrow> duration" where
  "change_offset c a b t = (if t < c then a else b)"

definition change_zone :: "time \<Rightarrow> duration \<Rightarrow> duration \<Rightarrow> zone" where
  "change_zone c a b =
     \<lparr>zday = (\<lambda>t. wall (change_offset c a b) t div day_ns),
      zat = (\<lambda>d h m. let w = d * day_ns + clock_ns h m in if w - a < c then w - a else w - b)\<rparr>"

interpretation cz: civil_zone "change_zone c a b" "change_offset c a b" for c a b
  by unfold_locales (auto simp: change_zone_def change_offset_def wall_def Let_def split: if_splits)

section \<open>Periods\<close>

definition unit_ns :: "TimeUnit \<Rightarrow> int" where
  "unit_ns u = (case u of Never \<Rightarrow> 0 | Seconds \<Rightarrow> second | Minutes \<Rightarrow> minute | Hours \<Rightarrow> hour
                | Days \<Rightarrow> day_ns | Weeks \<Rightarrow> 7 * day_ns)"

text \<open>Every product is taken modulo \<open>2 ^ 64\<close>, so all of them together are.\<close>

lemma wrap64_cong: "x mod 2 ^ 64 = y mod 2 ^ 64 \<Longrightarrow> wrap64 x = wrap64 y"
  unfolding wrap64_def by (metis mod_add_left_eq)

lemma wrap64_mod: "wrap64 x mod 2 ^ 64 = x mod 2 ^ 64"
  by (simp add: wrap64_def mod_diff_left_eq)

lemma wrap64_mult: "wrap64 (wrap64 x * c) = wrap64 (x * c)"
  by (rule wrap64_cong) (metis mod_mult_left_eq wrap64_mod)

lemma wrap64_sint_mult: "wrap64 (sint (w :: uint64) * c) = wrap64 (uint w * c)"
proof -
  have "sint w = wrap64 (uint w)" by (simp add: wrap64_sint)
  then show ?thesis by (simp add: wrap64_mult)
qed

lemma unit_period_wraps: "u \<noteq> Never \<Longrightarrow> unit_period iv u 0 = wrap64 (uint iv * unit_ns u)"
  by (cases u) (simp_all add: unit_period_def unit_ns_def wrap64_mult wrap64_sint_mult mult.assoc)

lemma wrap64_exact_iff: "0 \<le> x \<Longrightarrow> wrap64 x = x \<longleftrightarrow> x < 2 ^ 63"
  using wrap64_id [of x] wrap64_range [of x] by auto

lemma Duration_period:
  "period j = 0 \<Longrightarrow> snd (Duration j) = unit_period (interval j) (unit j) 0"
  by (simp add: Duration_def)

lemma Duration_fields [simp]:
  "lastRunAt (fst (Duration j)) = lastRunAt j" "unit (fst (Duration j)) = unit j"
  "startDay (fst (Duration j)) = startDay j" "interval (fst (Duration j)) = interval j"
  "runLock (fst (Duration j)) = runLock j" "running (fst (Duration j)) = running j"
  "count (fst (Duration j)) = count j" "period (fst (Duration j)) = snd (Duration j)"
  by (simp_all add: Duration_def)

lemma schedule_Some:
  assumes "lastRunAt j = Some t"
  shows "fst (scheduleNextRun zs now j) = (fst (Duration j))\<lparr>nextRunAt := t + snd (Duration j)\<rparr>"
proof -
  have e: "j\<lparr>lastRunAt := Some t\<rparr> = j" using assms by (cases j) simp
  show ?thesis by (simp add: scheduleNextRun_def Let_def assms e split: prod.splits)
qed

lemma schedule_known:
  assumes "lastRunAt j = Some t"
  shows "nextRunAt (fst (scheduleNextRun zs now j)) = t + snd (Duration j)"
    and "lastRunAt (fst (scheduleNextRun zs now j)) = Some t"
  using assms by (simp_all add: schedule_Some)

lemma unit_period_week [simp]: "unit_period 1 Weeks 0 = 7 * day_ns"
  by (simp add: unit_period_def wrap64_def)

lemma unit_period_day [simp]: "unit_period 1 Days 0 = day_ns"
  by (simp add: unit_period_def wrap64_def)

section \<open>When a task runs next\<close>

lemma at_time_unit [simp]:
  "unit (at_time zs now h m j) = unit j" "interval (at_time zs now h m j) = interval j"
  "period (at_time zs now h m j) = period j" "startDay (at_time zs now h m j) = startDay j"
  by (simp_all add: at_time_def Let_def)

definition plan_next :: "zones \<Rightarrow> time \<Rightarrow> task \<Rightarrow> time" where
  "plan_next zs now j = nextRunAt (fst (scheduleNextRun zs now j))"

lemma Do_next:
  assumes "Do zs now nm f ps j = Ok j'"
  shows "nextRunAt j' = plan_next zs now (j\<lparr>tname := nm @ ''@'' @ path_base (func_name f),
    callback := Some f, params := ps\<rparr>)"
  using assms by (auto simp: Do_def plan_next_def Let_def split: if_splits)

lemma at_time_day:
  assumes "unit j = Days"
  shows "lastRunAt (at_time zs now h m j) =
    Some (let t = zat (loc zs) (zday (Local zs) now) h m in if now > t then t else t - day_ns)"
  using assms by (simp add: at_time_def Let_def)

lemma at_time_week:
  assumes z: "steady_zone (Local zs) offset" "loc zs = Local zs" and b: "\<not> bad_clock h m"
    and u: "unit j = Weeks" and s: "0 \<le> startDay j" "startDay j < 7"
  shows "\<exists>t. lastRunAt (at_time zs now h m j) = Some t \<and> t < now \<and> now \<le> t + 7 * day_ns \<and>
    weekday (loc zs) (t + 7 * day_ns) = startDay j \<and>
    (\<exists>k. t = zat (loc zs) (zday (loc zs) now) h m - k * day_ns)"
proof -
  let ?z = "Local zs" and ?m = "zat (Local zs) (zday (Local zs) now) h m"
  let ?wd = "weekday ?z now" and ?sd = "startDay j"
  note near = steady_zone.steady_near [OF z(1) b, of now]
  have wm: "weekday ?z ?m = ?wd" by (rule steady_zone.weekday_zat [OF z(1) b])
  have wd: "0 \<le> ?wd" "?wd < 7" by (simp_all add: weekday_def)
  let ?i = "if ?wd - ?sd < 0 then 7 + (?wd - ?sd) else ?wd - ?sd"
  let ?k = "if ?sd \<noteq> ?wd \<or> (now > ?m \<and> ?sd = ?wd) then ?i else 7"
  have last: "lastRunAt (at_time zs now h m j) = Some (?m - ?k * day_ns)"
    using u by (simp add: at_time_def Let_def z(2) wm)
  have k: "0 \<le> ?k" "?k \<le> 7" "?k = 0 \<Longrightarrow> now > ?m" "?k = 7 \<Longrightarrow> \<not> now > ?m"
    "(?wd - (?k - 7)) mod 7 = ?sd"
    using wd s by (auto split: if_splits)
  have "weekday ?z (?m - ?k * day_ns + 7 * day_ns) = weekday ?z (?m - (?k - 7) * day_ns)"
    by (simp add: algebra_simps)
  also have "\<dots> = ?sd"
    using steady_zone.weekday_shift [OF z(1), of ?m "?k - 7"] wm k(5) by simp
  finally have w: "weekday ?z (?m - ?k * day_ns + 7 * day_ns) = ?sd" .
  have "?m - ?k * day_ns < now \<and> now \<le> ?m - ?k * day_ns + 7 * day_ns"
  proof (cases "?k = 0 \<or> ?k = 7")
    case True
    then show ?thesis using k(3,4) near by auto
  next
    case False
    then have "1 \<le> ?k" "?k \<le> 6" using k(1,2) by linarith+
    then have "day_ns \<le> ?k * day_ns" "?k * day_ns \<le> 6 * day_ns" by linarith+
    then show ?thesis using near by linarith
  qed
  with last w show ?thesis unfolding z(2) by blast
qed

lemma plan_next_at:
  assumes "lastRunAt j = Some t"
  shows "plan_next zs now j = t + snd (Duration j)"
  using schedule_known(1) [OF assms] by (simp add: plan_next_def)

lemma Duration_cong:
  "interval a = interval b \<Longrightarrow> unit a = unit b \<Longrightarrow> period a = period b \<Longrightarrow>
   snd (Duration a) = snd (Duration b)"
  by (simp add: Duration_def Let_def)

lemma Do_planned:
  assumes "Do zs now nm f ps j = Ok j'" and "lastRunAt j = Some t"
  shows "nextRunAt j' = t + snd (Duration j)"
proof -
  let ?j = "j\<lparr>tname := nm @ ''@'' @ path_base (func_name f), callback := Some f, params := ps\<rparr>"
  have "lastRunAt ?j = Some t" using assms(2) by simp
  moreover have "snd (Duration ?j) = snd (Duration j)" by (rule Duration_cong) simp_all
  ultimately show ?thesis using Do_next [OF assms(1)] plan_next_at by metis
qed

lemma steady_utc: "steady_zone (fixed_zone 0) (\<lambda>_. 0)"
  by (rule fz.steady_zone_axioms)

definition utc :: zones where
  "utc = \<lparr>Local = fixed_zone 0, loc = fixed_zone 0\<rparr>"

definition demo_func :: gofunc where
  "demo_func = \<lparr>is_func = True, func_name = ''github.com/x/tasks.run'', NumIn = 0\<rparr>"

lemma daily_next_run_formula:
  assumes "NewTaskDaily zs now h m = Ok j" and "Do zs now' nm f ps j = Ok j'" and "M = zat (loc zs) (zday (Local zs) now) h m"
  shows "nextRunAt j' = (if now > M then M + day_ns else M)"
proof -
  have j: "j = at_time zs now h m (new_task 1 Days 0)" using assms(1) by (auto simp: NewTaskDaily_def split: if_splits)
  have "snd (Duration j) = day_ns" using j by (subst Duration_period) (simp_all add: new_task_def)
  moreover have "lastRunAt j = Some (if now > M then M else M - day_ns)"
    unfolding j by (subst at_time_day) (simp_all add: new_task_def assms(3) Let_def)
  ultimately show ?thesis using Do_planned [OF assms(2)] by auto
qed

text \<open>C6. A daily task that has been given its function runs next at the instant \<open>M\<close> of its clock time today, or 24 hours later
  when that has passed. In the local zone, if the clock time exists today: as long as the clock is not changed between
  \<open>M\<close> or now and the next run, this is the first instant from now on that shows the clock time; in any case the clock then shows
  the time of the task plus what the clock was changed by since \<open>M\<close>.\<close>

theorem daily_next_run:
  assumes "NewTaskDaily zs now h m = Ok j" and "Do zs now' nm f ps j = Ok j'"
    and "M = zat (loc zs) (zday (Local zs) now) h m" and "n = nextRunAt j'"
  shows "n = (if now > M then M + day_ns else M) \<and>
    (civil_zone (Local zs) offset \<and> loc zs = Local zs \<and> (\<exists>u. wall offset u = zday (Local zs) now * day_ns + clock_ns h m) \<longrightarrow>
       wall offset n mod day_ns = (clock_ns h m + (offset n - offset M)) mod day_ns \<and>
       ((\<forall>t. min M now \<le> t \<and> t \<le> n \<longrightarrow> offset t = offset now) \<longrightarrow>
          now \<le> n \<and> wall offset n mod day_ns = clock_ns h m \<and>
          (\<forall>t. now \<le> t \<and> t < n \<longrightarrow> wall offset t mod day_ns \<noteq> clock_ns h m)))"
proof (intro conjI impI)
  have b: "\<not> bad_clock h m" using assms(1) by (auto simp: NewTaskDaily_def split: if_splits)
  show n: "n = (if now > M then M + day_ns else M)" unfolding assms(4) by (rule daily_next_run_formula [OF assms(1-3)])
  assume z: "civil_zone (Local zs) offset \<and> loc zs = Local zs \<and> (\<exists>u. wall offset u = zday (Local zs) now * day_ns + clock_ns h m)"
  then obtain u where u: "wall offset u = zday (Local zs) now * day_ns + clock_ns h m" by blast
  note cz = z [THEN conjunct1]
  have M: "wall offset M = zday (Local zs) now * day_ns + clock_ns h m"
    using civil_zone.zat_wall [OF cz b u] z assms(3) by simp
  have c: "clock_ns h m mod day_ns = clock_ns h m" using clock_ns_range [OF b] by simp
  have shown: "wall offset t mod day_ns = (clock_ns h m + (offset t - offset M) + (t - M)) mod day_ns" for t
  proof -
    have "wall offset t = clock_ns h m + (offset t - offset M) + (t - M) + zday (Local zs) now * day_ns" using M by (simp add: wall_def)
    then show ?thesis by (metis mod_mult_self1)
  qed
  have "(n - M) mod day_ns = 0" using n by auto
  then show "wall offset n mod day_ns = (clock_ns h m + (offset n - offset M)) mod day_ns"
    unfolding shown [of n] by (metis add.right_neutral mod_add_right_eq)
  assume same: "\<forall>t. min M now \<le> t \<and> t \<le> n \<longrightarrow> offset t = offset now"
  have "M \<le> n" using n by auto
  then have o: "offset M = offset now" by (intro same [rule_format]) simp
  have near: "M < now + day_ns" "now - day_ns < M"
    using civil_zone.near_today [OF cz b u] o z assms(3) by simp_all
  then show now: "now \<le> n" using n by auto
  then have "offset n = offset now" by (intro same [rule_format]) simp
  then have on: "offset n = offset M" using o by simp
  then show "wall offset n mod day_ns = clock_ns h m"
    using \<open>wall offset n mod day_ns = (clock_ns h m + (offset n - offset M)) mod day_ns\<close> c by simp
  show "\<forall>t. now \<le> t \<and> t < n \<longrightarrow> wall offset t mod day_ns \<noteq> clock_ns h m"
  proof (intro allI impI notI)
    fix t assume t: "now \<le> t \<and> t < n" and w: "wall offset t mod day_ns = clock_ns h m"
    have "offset t = offset now" by (rule same [rule_format]) (use t in \<open>simp add: min.coboundedI2\<close>)
    then have "offset t = offset M" using o by simp
    then have "wall offset n - wall offset t = n - t" using on by (simp add: wall_def)
    moreover have "wall offset n mod day_ns = wall offset t mod day_ns"
      using w \<open>wall offset n mod day_ns = clock_ns h m\<close> by simp
    ultimately have "day_ns dvd n - t" by (metis mod_eq_dvd_iff)
    moreover have "0 < n - t" "n - t < day_ns" using t near n by (auto split: if_splits)
    ultimately show False using zdvd_not_zless by blast
  qed
qed

text \<open>A task for half past ten, made at noon on the day before the clock is put back by an hour at three in the morning: its next run
  is 24 hours after this morning's, when the clock shows half past nine. And where the clock is put back on the same day a task for
  midnight made half an hour before the next midnight is due half an hour ago.\<close>

definition back_zones :: "time \<Rightarrow> zones" where
  "back_zones c = \<lparr>Local = change_zone c hour 0, loc = change_zone c hour 0\<rparr>"

lemma daily_run_shifted:
  assumes "NewTaskDaily (back_zones (day_ns + 2 * hour)) (11 * hour) 10 30 = Ok j"
    and "Do (back_zones (day_ns + 2 * hour)) now' nm f ps j = Ok j'"
  shows "wall (change_offset (day_ns + 2 * hour) hour 0) (nextRunAt j') = day_ns + clock_ns 9 30"
  using daily_next_run_formula [OF assms refl]
  by (simp add: back_zones_def change_zone_def change_offset_def wall_def clock_ns_def Let_def)

lemma midnight_task_overdue:
  assumes "NewTaskDaily (back_zones (2 * hour)) (23 * hour + 30 * minute) 0 0 = Ok j"
    and "Do (back_zones (2 * hour)) now' nm f ps j = Ok j'"
  shows "nextRunAt j' < 23 * hour + 30 * minute"
  using daily_next_run_formula [OF assms refl]
  by (simp add: back_zones_def change_zone_def change_offset_def wall_def clock_ns_def Let_def)

theorem daily_next_run_witness:
  "\<exists>j j'. NewTaskDaily (back_zones (5 * day_ns)) 1000 10 30 = Ok j \<and> Do (back_zones (5 * day_ns)) 1000 ''t'' demo_func [] j = Ok j' \<and>
    1000 \<le> nextRunAt j' \<and> wall (change_offset (5 * day_ns) hour 0) (nextRunAt j') mod day_ns = clock_ns 10 30"
proof -
  let ?zs = "back_zones (5 * day_ns)" and ?o = "change_offset (5 * day_ns) hour 0"
  let ?j = "at_time ?zs 1000 10 30 (new_task 1 Days 0)"
  have 1: "NewTaskDaily ?zs 1000 10 30 = Ok ?j" by (simp add: NewTaskDaily_def bad_clock_def)
  obtain j' where 2: "Do ?zs 1000 ''t'' demo_func [] ?j = Ok j'"
    by (simp add: Do_def demo_func_def)
  have d: "zday (Local ?zs) 1000 = 0"
    by (simp add: back_zones_def change_zone_def change_offset_def wall_def)
  then have M: "zat (loc ?zs) (zday (Local ?zs) 1000) 10 30 = 9 * hour + 30 * minute"
    by (simp add: back_zones_def change_zone_def clock_ns_def Let_def)
  note run = daily_next_run [OF 1 2 M [symmetric] refl, of ?o]
  then have n: "nextRunAt j' = 9 * hour + 30 * minute" by simp
  have "civil_zone (Local ?zs) ?o \<and> loc ?zs = Local ?zs" by (simp add: back_zones_def cz.civil_zone_axioms)
  moreover have "wall ?o (9 * hour + 30 * minute) = zday (Local ?zs) 1000 * day_ns + clock_ns 10 30"
    using d by (simp add: wall_def change_offset_def clock_ns_def)
  ultimately have "1000 \<le> nextRunAt j' \<and> wall ?o (nextRunAt j') mod day_ns = clock_ns 10 30"
    using run n by (auto simp: change_offset_def)
  then show ?thesis using 1 2 by blast
qed

text \<open>A weekly task that has been given its function runs next on its week day, at its
  clock time: not in the past, and less than seven days from now.\<close>

theorem weekly_next_run:
  assumes "steady_zone (Local zs) offset" and "loc zs = Local zs" and "0 \<le> sd" and "sd < 7"
    and "NewTaskOnWeekday zs now sd h m = Ok j" and "Do zs now' nm f ps j = Ok j'"
  shows "now \<le> nextRunAt j' \<and> nextRunAt j' < now + 7 * day_ns \<and> weekday (loc zs) (nextRunAt j') = sd \<and>
    (\<exists>k. nextRunAt j' = zat (loc zs) (zday (loc zs) now) h m + k * day_ns)"
proof -
  have b: "\<not> bad_clock h m" and j: "j = at_time zs now h m (new_task 1 Weeks sd)"
    using assms(5) by (auto simp: NewTaskOnWeekday_def split: if_splits)
  have u: "unit (new_task 1 Weeks sd) = Weeks" "startDay (new_task 1 Weeks sd) = sd"
    by (simp_all add: new_task_def)
  from at_time_week [OF assms(1,2) b u(1), of now] u(2) assms(3,4) j obtain t k where
    t: "lastRunAt j = Some t" "t < now" "now \<le> t + 7 * day_ns"
      "weekday (loc zs) (t + 7 * day_ns) = sd" "t = zat (loc zs) (zday (loc zs) now) h m - k * day_ns"
    by auto
  have "snd (Duration j) = 7 * day_ns" using j by (subst Duration_period) (simp_all add: new_task_def)
  with Do_planned [OF assms(6) t(1)] have n: "nextRunAt j' = t + 7 * day_ns" by simp
  then have "nextRunAt j' = zat (loc zs) (zday (loc zs) now) h m + (7 - k) * day_ns"
    using t(5) by (simp add: algebra_simps)
  then have "\<exists>k. nextRunAt j' = zat (loc zs) (zday (loc zs) now) h m + k * day_ns" by blast
  moreover have "now \<le> nextRunAt j'" "nextRunAt j' < now + 7 * day_ns" using n t(2,3) by linarith+
  moreover have "weekday (loc zs) (nextRunAt j') = sd" using n t(4) by simp
  ultimately show ?thesis by blast
qed

theorem weekly_next_run_witness:
  "\<exists>j j'. NewTaskOnWeekday utc 1000 1 23 59 = Ok j \<and> Do utc 1000 ''t'' demo_func [] j = Ok j' \<and>
    1000 \<le> nextRunAt j' \<and> weekday (loc utc) (nextRunAt j') = 1"
proof -
  let ?j = "at_time utc 1000 23 59 (new_task 1 Weeks 1)"
  have 1: "NewTaskOnWeekday utc 1000 1 23 59 = Ok ?j" by (simp add: NewTaskOnWeekday_def bad_clock_def)
  obtain j' where 2: "Do utc 1000 ''t'' demo_func [] ?j = Ok j'"
    by (simp add: Do_def demo_func_def)
  have "steady_zone (Local utc) (\<lambda>_. 0)" "loc utc = Local utc" by (simp_all add: utc_def steady_utc)
  from weekly_next_run [OF this _ _ 1 2] 1 2 show ?thesis by auto
qed

text \<open>C32. The first call of \<open>Duration\<close> on a task with a unit gives the interval times the unit modulo \<open>2 ^ 64\<close>, as a signed number: the
  exact product if and only if that fits a signed 64-bit count of nanoseconds (about 292 years). Beyond it the period is wrong, and can
  be negative. The value is cached for all later calls.\<close>

theorem Duration_exact_or_wraps:
  assumes "period j = 0" and "unit j \<noteq> Never" and "x = uint (interval j) * unit_ns (unit j)"
  shows "snd (Duration j) = (x + 2 ^ 63) mod 2 ^ 64 - 2 ^ 63 \<and> (snd (Duration j) = x \<longleftrightarrow> x < 2 ^ 63) \<and>
    period (fst (Duration j)) = snd (Duration j)"
proof -
  have "0 \<le> x" using assms(3) by (cases "unit j") (simp_all add: unit_ns_def)
  moreover have "snd (Duration j) = wrap64 x" using assms by (simp add: Duration_period unit_period_wraps)
  ultimately show ?thesis using wrap64_exact_iff [of x] by (simp add: wrap64_def)
qed

theorem Duration_exact_or_wraps_witness:
  "snd (Duration (NewTaskAtIntervals 30 Minutes)) = 30 * minute \<and> snd (Duration (NewTaskAtIntervals 15251 Weeks)) < 0"
  using Duration_exact_or_wraps [of "NewTaskAtIntervals 30 Minutes", OF _ _ refl]
    Duration_exact_or_wraps [of "NewTaskAtIntervals 15251 Weeks", OF _ _ refl]
  by (simp add: NewTaskAtIntervals_def new_task_def unit_ns_def)

section \<open>Run\<close>

definition run_init :: "task \<Rightarrow> run_state" where
  "run_init j = \<lparr>rtask = j, active = 0, finishing = 0, started = 0\<rparr>"

definition run_inv :: "run_state \<Rightarrow> bool" where
  "run_inv s \<longleftrightarrow> active s + finishing s = (if runLock (rtask s) then 1 else 0) \<and>
     running (rtask s) = (active s = 1) \<and> count (rtask s) = of_nat (started s)"

lemma schedule_frame [simp]:
  "runLock (fst (scheduleNextRun zs now j)) = runLock j"
  "running (fst (scheduleNextRun zs now j)) = running j"
  "count (fst (scheduleNextRun zs now j)) = count j"
  by (simp_all add: scheduleNextRun_def Duration_def Let_def split: option.splits)

lemma run_step_inv: "run_step zs s t \<Longrightarrow> run_inv s \<Longrightarrow> run_inv t"
  by (erule run_stepE) (auto simp: run_inv_def run_acquire_def run_called_def run_release_def
      split: if_splits)

lemma reach_inv: "rtranclp (run_step zs) s t \<Longrightarrow> run_inv s \<Longrightarrow> run_inv t"
  by (induction rule: rtranclp_induct) (auto intro: run_step_inv)

lemma run_init_inv: "run_inv (run_init (NewTaskAtIntervals iv u))"
  by (simp add: run_inv_def run_init_def NewTaskAtIntervals_def new_task_def)

text \<open>C25. Whatever the interleaving of calls of \<open>Run\<close> on one task, at most one callback executes
  at a time, \<open>running\<close> tells whether one does, and \<open>RunCount\<close> is the number of runs started,
  modulo the width of its 32-bit counter.\<close>

theorem run_mutual_exclusion:
  assumes "rtranclp (run_step zs) (run_init (NewTaskAtIntervals iv u)) s"
  shows "active s \<le> 1 \<and> (running (rtask s) \<longleftrightarrow> active s = 1) \<and> RunCount (rtask s) = of_nat (started s)"
proof -
  have "run_inv s" by (rule reach_inv [OF assms run_init_inv])
  then show ?thesis by (auto simp: run_inv_def RunCount_def split: if_splits)
qed

theorem run_mutual_exclusion_witness:
  "\<exists>s. rtranclp (run_step utc) (run_init (NewTaskAtIntervals 1 Seconds)) s \<and> active s = 1 \<and>
     running (rtask s) \<and> RunCount (rtask s) = 1"
proof -
  let ?j = "NewTaskAtIntervals 1 Seconds"
  let ?k = "?j\<lparr>runLock := True, lastRunAt := Some 7, running := True, count := count ?j + 1\<rparr>"
  let ?s = "(run_init ?j)\<lparr>rtask := ?k, active := Suc 0, started := Suc 0\<rparr>"
  have "run_acquire 7 (rtask (run_init ?j)) = Some ?k"
    by (simp add: run_acquire_def run_init_def NewTaskAtIntervals_def new_task_def)
  from run_step.acquire [OF this, of utc]
  have r: "rtranclp (run_step utc) (run_init ?j) ?s" by (auto simp: run_init_def)
  from run_mutual_exclusion [OF r] r show ?thesis
    by (intro exI [of _ ?s]) (simp add: RunCount_def NewTaskAtIntervals_def new_task_def)
qed

text \<open>A run that gets the token records its start, is rescheduled one period after that
  start, gives the token back, and the task is not due again before the period is over; a
  call on a running task returns false and changes nothing.\<close>

theorem Run_reschedules:
  "(\<not> runLock j \<longrightarrow>
      (\<exists>j'. Run zs t1 t2 j = (j', True) \<and> lastRunAt j' = Some t1 \<and>
         nextRunAt j' = t1 + snd (Duration j) \<and> \<not> runLock j' \<and> \<not> running j' \<and>
         RunCount j' = RunCount j + 1 \<and> (now \<le> t1 + snd (Duration j) \<longrightarrow> \<not> ShouldRun now j'))) \<and>
   (runLock j \<longrightarrow> Run zs t1 t2 j = (j, False))"
proof (cases "runLock j")
  case False
  let ?j = "run_called (j\<lparr>runLock := True, lastRunAt := Some t1, running := True, count := count j + 1\<rparr>)"
  have "snd (Duration ?j) = snd (Duration j)" by (rule Duration_cong) (simp_all add: run_called_def)
  then have "nextRunAt (fst (scheduleNextRun zs t2 ?j)) = t1 + snd (Duration j)"
    and "lastRunAt (fst (scheduleNextRun zs t2 ?j)) = Some t1"
    using schedule_known [of ?j t1] by (simp_all add: run_called_def)
  with False show ?thesis
    by (simp add: Run_def run_acquire_def run_release_def ShouldRun_def RunCount_def)
      (simp add: run_called_def)
qed (simp add: Run_def run_acquire_def)

theorem Run_reschedules_witness:
  "nextRunAt (fst (Run utc 5 9 (NewTaskAtIntervals 1 Seconds))) = 5 + second"
proof -
  have "\<not> runLock (NewTaskAtIntervals 1 Seconds)" by (simp add: NewTaskAtIntervals_def new_task_def)
  moreover have "snd (Duration (NewTaskAtIntervals 1 Seconds)) = second"
    by (simp add: NewTaskAtIntervals_def new_task_def Duration_def unit_period_def wrap64_def)
  ultimately show ?thesis
    using Run_reschedules [of "NewTaskAtIntervals 1 Seconds" utc 5 9 0] by auto
qed

section \<open>Schedule strings\<close>

definition unit_word :: "TimeUnit \<Rightarrow> string" where
  "unit_word u = (case u of Never \<Rightarrow> [] | Seconds \<Rightarrow> ''seconds'' | Minutes \<Rightarrow> ''minutes''
     | Hours \<Rightarrow> ''hours'' | Days \<Rightarrow> ''days'' | Weeks \<Rightarrow> ''weeks'')"

definition weekday_names :: "string list" where
  "weekday_names = [''Sunday'', ''Monday'', ''Tuesday'', ''Wednesday'', ''Thursday'', ''Friday'', ''Saturday'']"

lemma to_lower_show_nat [simp]: "to_lower (show_nat n) = show_nat n"
  by (rule to_lower_digits) (rule show_nat_digits)

lemma show_nat_not_word:
  assumes d: "\<not> is_digit c"
  shows "show_nat n \<noteq> c # w" and "c \<notin> set (show_nat n)"
proof -
  show "c \<notin> set (show_nat n)" using d show_nat_digits by blast
  then show "show_nat n \<noteq> c # w" by auto
qed

lemma split3:
  assumes "CHR '' '' \<notin> set a" "CHR '' '' \<notin> set b" "CHR '' '' \<notin> set c"
  shows "split_on CHR '' '' (a @ '' '' @ b @ '' '' @ c) = [a, b, c]"
  using assms by (simp add: split_on_append split_on_no_sep)

lemma split2:
  "c \<notin> set a \<Longrightarrow> c \<notin> set b \<Longrightarrow> split_on c (a @ c # b) = [a, b]"
  by (simp add: split_on_append split_on_no_sep)

lemma parse_token_number:
  assumes "1 \<le> n" "n < 2 ^ 64" "\<not> interval j > 1"
  shows "parse_token zs now j (show_nat n) = Some (j\<lparr>interval := of_nat n\<rparr>)"
proof -
  have d: "\<not> is_digit CHR ''e''" "\<not> is_digit CHR ''s''" "\<not> is_digit CHR ''m''" "\<not> is_digit CHR ''h''"
    "\<not> is_digit CHR ''d''" "\<not> is_digit CHR ''w''" "\<not> is_digit CHR ''t''" "\<not> is_digit CHR ''f''"
    "\<not> is_digit CHR '':''" by (simp_all add: is_digit_def digit_of_def)
  have "\<not> (of_nat n :: uint64) < 1"
    using assms by (simp add: word_less_nat_alt unat_of_nat)
  then show ?thesis
    using assms d by (simp add: parse_token_def show_nat_not_word parse_uint_show_nat contains_sub_char)
qed

lemma space_free: "CHR '' '' \<notin> set (show_nat n)" "CHR '':'' \<notin> set (show_nat n)"
  by (rule show_nat_not_word, simp add: is_digit_def digit_of_def)+

text \<open>A schedule printed as \<^verbatim>\<open>every <n> <unit>\<close> parses back to a task with that interval and
  unit, for every unit and every interval from 1 to the largest 64-bit value.\<close>

theorem parse_every_roundtrip:
  assumes "1 \<le> n" and "n < 2 ^ 64" and "u \<noteq> Never"
  shows "parseTaskFormat zs now (''every '' @ show_nat n @ '' '' @ unit_word u) = Ok (new_task (of_nat n) u 0)"
proof -
  have l: "to_lower (unit_word u) = unit_word u" "CHR '' '' \<notin> set (unit_word u)"
    by (cases u; simp add: unit_word_def)+
  have "split_on CHR '' '' (to_lower (''every '' @ show_nat n @ '' '' @ unit_word u)) =
      [''every'', show_nat n, unit_word u]"
    using split3 [of "''every''" "show_nat n" "unit_word u"] l space_free by simp
  moreover have "parse_token zs now (new_task 0 Never 0) ''every'' = Some (new_task 1 Never 0)"
    by (simp add: parse_token_def new_task_def)
  moreover have "parse_token zs now (new_task 1 Never 0) (show_nat n) = Some (new_task (of_nat n) Never 0)"
    using assms by (subst parse_token_number) (simp_all add: new_task_def)
  moreover have "parse_token zs now (new_task (of_nat n) Never 0) (unit_word u) = Some (new_task (of_nat n) u 0)"
    using assms(3) by (cases u) (simp_all add: parse_token_def unit_word_def new_task_def)
  moreover have "(of_nat n :: uint64) \<noteq> 0"
    using assms unat_of_nat [of n, where 'a = 64] by auto
  ultimately show ?thesis
    using assms(3) by (simp add: parseTaskFormat_def) (simp add: new_task_def)
qed

theorem parse_every_roundtrip_witness:
  "parseTaskFormat utc 0 (''every '' @ show_nat 61 @ '' '' @ unit_word Minutes) = Ok (new_task (of_nat 61) Minutes 0)"
  using parse_every_roundtrip [of 61 Minutes utc 0] by simp

text \<open>A week day with a clock time, as in \<^verbatim>\<open>Saturday 23:13\<close>, parses to exactly the task that
  \<open>NewTaskOnWeekday\<close> builds for that day and time.\<close>

theorem parse_weekday_is_NewTaskOnWeekday:
  assumes "sd < 7" and "h < 24" and "m < 60"
  shows "\<exists>j. parseTaskFormat zs now (weekday_names ! sd @ '' '' @ show_nat h @ '':'' @ show_nat m) = Ok j \<and>
    NewTaskOnWeekday zs now (int sd) (int h) (int m) = Ok j"
proof -
  let ?w = "to_lower (weekday_names ! sd)" and ?t = "show_nat h @ '':'' @ show_nat m"
  have sd: "sd = 0 \<or> sd = 1 \<or> sd = 2 \<or> sd = 3 \<or> sd = 4 \<or> sd = 5 \<or> sd = 6" using assms(1) by auto
  have w: "CHR '' '' \<notin> set ?w" using sd by (elim disjE; simp add: weekday_names_def)
  have b: "\<not> bad_clock (int h) (int m)" using assms by (simp add: bad_clock_def)
  have s: "split_on CHR '' '' (to_lower (weekday_names ! sd @ '' '' @ ?t)) = [?w, ?t]"
    using split2 [of "CHR '' ''" ?w ?t] w space_free by simp
  have "parse_token zs now (new_task 0 Never 0) ?w = weekday_token (new_task 0 Never 0) (int sd)"
    using sd by (elim disjE; simp add: weekday_names_def parse_token_def)
  then have 1: "parse_token zs now (new_task 0 Never 0) ?w = Some (new_task 0 Weeks (int sd))"
    by (simp add: weekday_token_def new_task_def)
  have p: "parseTimeFormat ?t = Ok (int h, int m)"
    using split2 [of "CHR '':''" "show_nat h" "show_nat m"] space_free b assms(2,3)
    by (simp add: parseTimeFormat_def atoi_show_nat)
  have "?t \<noteq> k # ks" if "\<not> is_digit k" for k ks
    using that show_nat_not_word(1) [of k h] by (cases "show_nat h") auto
  moreover have d: "\<not> is_digit CHR ''e''" "\<not> is_digit CHR ''s''" "\<not> is_digit CHR ''m''" "\<not> is_digit CHR ''h''"
    "\<not> is_digit CHR ''d''" "\<not> is_digit CHR ''w''" "\<not> is_digit CHR ''t''" "\<not> is_digit CHR ''f''"
    by (simp_all add: is_digit_def digit_of_def)
  ultimately have 2: "parse_token zs now (new_task 0 Weeks (int sd)) ?t =
      Some (at_time zs now (int h) (int m) (new_task 0 Weeks (int sd)))"
    using p by (simp add: parse_token_def contains_sub_char) (simp add: new_task_def)
  have "(at_time zs now (int h) (int m) (new_task 0 Weeks (int sd)))\<lparr>interval := 1\<rparr> =
      at_time zs now (int h) (int m) (new_task 1 Weeks (int sd))"
    by (simp add: at_time_def new_task_def Let_def)
  moreover have "parse_tokens zs now (new_task 0 Never 0) [?w, ?t] =
      Some (at_time zs now (int h) (int m) (new_task 0 Weeks (int sd)))"
    by (simp only: parse_tokens.simps 1 2 option.case)
  ultimately show ?thesis
    using b unfolding parseTaskFormat_def s by (simp add: NewTaskOnWeekday_def) (simp add: new_task_def)
qed

theorem parse_weekday_is_NewTaskOnWeekday_witness:
  "\<exists>j. parseTaskFormat utc 0 (weekday_names ! 6 @ '' '' @ show_nat 23 @ '':'' @ show_nat 13) = Ok j \<and>
    NewTaskOnWeekday utc 0 (int 6) (int 23) (int 13) = Ok j"
  using parse_weekday_is_NewTaskOnWeekday [of 6 23 13 utc 0] by simp

lemma parse_runnable: "parseTaskFormat zs now f = Ok j \<Longrightarrow> unit j \<noteq> Never \<and> interval j \<noteq> 0"
  by (auto simp: parseTaskFormat_def Let_def split: option.splits if_splits)

text \<open>Every accepted schedule has a unit and a non-zero interval, so it runs at all; but the
  checks between the parts of a schedule depend on their order: \<^verbatim>\<open>1 second 16:18\<close> and
  \<^verbatim>\<open>2 monday\<close> are refused while \<^verbatim>\<open>16:18 1 second\<close> and \<^verbatim>\<open>monday 2\<close> are accepted.\<close>

theorem parse_accepts_only_runnable:
  "(parseTaskFormat zs now f = Ok j \<longrightarrow> unit j \<noteq> Never \<and> interval j \<noteq> 0) \<and>
   \<not> is_Ok (parseTaskFormat utc 0 ''1 second 16:18'') \<and> is_Ok (parseTaskFormat utc 0 ''16:18 1 second'') \<and>
   \<not> is_Ok (parseTaskFormat utc 0 ''2 monday'') \<and> is_Ok (parseTaskFormat utc 0 ''monday 2'')"
proof -
  note parse_simps = parseTaskFormat_def lower_char_def parse_token_def new_task_def
    parse_uint_def digit_of_def parseTimeFormat_def atoi_def atoi_unsigned_def in_int64_def
    weekday_token_def bad_clock_def Let_def
  have "\<not> is_Ok (parseTaskFormat utc 0 ''1 second 16:18'')" by (simp add: parse_simps)
  moreover have "is_Ok (parseTaskFormat utc 0 ''16:18 1 second'')" by (simp add: parse_simps)
  moreover have "\<not> is_Ok (parseTaskFormat utc 0 ''2 monday'')" by (simp add: parse_simps)
  moreover have "is_Ok (parseTaskFormat utc 0 ''monday 2'')" by (simp add: parse_simps)
  ultimately show ?thesis using parse_runnable by blast
qed

theorem parse_accepts_only_runnable_witness:
  "unit (new_task 1 Days 0) \<noteq> Never \<and> parseTaskFormat utc 0 ''every day'' = Ok (new_task 1 Days 0)"
proof -
  have "parseTaskFormat utc 0 ''every day'' = Ok (new_task 1 Days 0)"
    by (simp add: parseTaskFormat_def parse_token_def new_task_def)
  then show ?thesis using parse_accepts_only_runnable [of utc 0 "''every day''" "new_task 1 Days 0"] by simp
qed

end
