(* ===== verification/Scheduler.thy ===== *)
theory Scheduler
  imports TaskSchedule Slices
begin

text \<open>
  The package \<open>tasks\<close>, file \<open>scheduler.go\<close>: the pool of tasks, its \<open>sort.Interface\<close>, the
  selection of the tasks that are due, and the life cycle of the ticker goroutine. Every
  exported method runs under the scheduler's lock, so each is one atomic step; a send on
  the full one-slot channel \<open>quit\<close> blocks. \<open>loops\<close> counts the live ticker goroutines.
  \<open>sort.Sort\<close> is an argument of the model: its contract is the locale \<open>sort_contract\<close>
  (a permutation, in ascending order of \<open>Less\<close>, nothing about ties).
\<close>

section \<open>Definitions\<close>

record scheduler =
  tasks :: "task list"
  srunning :: bool
  quit :: nat
  loops :: nat

datatype sched_error = AlreadyRunning | NotRunning

datatype 'a blocking = Returns 'a | Blocks

definition NewScheduler :: scheduler where
  "NewScheduler = \<lparr>tasks = [], srunning = False, quit = 0, loops = 0\<rparr>"

definition sched_Len :: "scheduler \<Rightarrow> int" where
  "sched_Len s = int (length (tasks s))"

definition sched_Swap :: "scheduler \<Rightarrow> int \<Rightarrow> int \<Rightarrow> (unit, scheduler) result" where
  "sched_Swap s i j =
     (if in_range (tasks s) i \<and> in_range (tasks s) j then Ok (s\<lparr>tasks := swap_at (tasks s) i j\<rparr>)
      else Panic)"

definition sched_Less :: "scheduler \<Rightarrow> int \<Rightarrow> int \<Rightarrow> (unit, bool) result" where
  "sched_Less s i j =
     (if in_range (tasks s) i \<and> in_range (tasks s) j
      then Ok (nextRunAt (tasks s ! nat j) > nextRunAt (tasks s ! nat i)) else Panic)"

definition Count :: "scheduler \<Rightarrow> nat" where
  "Count s = length (tasks s)"

text \<open>The loop over the sorted tasks stops at the first that should not run.\<close>

fun runnable_loop :: "time \<Rightarrow> task list \<Rightarrow> task list \<Rightarrow> task list" where
  "runnable_loop now [] runnable = runnable"
| "runnable_loop now (j # js) runnable =
     (if ShouldRun now j then runnable_loop now js (runnable @ [j]) else runnable)"

definition getRunnableTasks ::
  "(task list \<Rightarrow> task list) \<Rightarrow> time \<Rightarrow> scheduler \<Rightarrow> scheduler \<times> task list" where
  "getRunnableTasks srt now s =
     (let s' = s\<lparr>tasks := srt (tasks s)\<rparr> in (s', runnable_loop now (tasks s') []))"

definition getAllTasks :: "scheduler \<Rightarrow> task list" where
  "getAllTasks s = tasks s"

definition Add :: "task \<Rightarrow> scheduler \<Rightarrow> scheduler" where
  "Add j s = s\<lparr>tasks := tasks s @ [j]\<rparr>"

text \<open>\<open>runPending\<close> starts a goroutine for each runnable task: they are returned.\<close>

definition runPending ::
  "(task list \<Rightarrow> task list) \<Rightarrow> time \<Rightarrow> scheduler \<Rightarrow> scheduler \<times> task list" where
  "runPending srt now s = getRunnableTasks srt now s"

definition Clear :: "scheduler \<Rightarrow> scheduler" where
  "Clear s = s\<lparr>tasks := []\<rparr>"

definition IsRunning :: "scheduler \<Rightarrow> bool" where
  "IsRunning s = srunning s"

definition Start :: "scheduler \<Rightarrow> (sched_error, scheduler) result" where
  "Start s = (if srunning s then Err AlreadyRunning
              else Ok (s\<lparr>srunning := True, loops := Suc (loops s)\<rparr>))"

definition Stop :: "scheduler \<Rightarrow> (sched_error, scheduler) result blocking" where
  "Stop s = (if \<not> srunning s then Returns (Err NotRunning)
             else if quit s \<ge> 1 then Blocks
             else Returns (Ok (s\<lparr>quit := Suc (quit s)\<rparr>)))"

text \<open>The steps of a program that uses a scheduler: calls of its methods, a tick taken by a
  live loop, and a loop that receives from \<open>quit\<close> and ends.\<close>

inductive sched_step :: "(task list \<Rightarrow> task list) \<Rightarrow> scheduler \<Rightarrow> scheduler \<Rightarrow> bool" for srt where
  add: "sched_step srt s (Add j s)"
| clear: "sched_step srt s (Clear s)"
| start: "Start s = Ok s' \<Longrightarrow> sched_step srt s s'"
| stop: "Stop s = Returns (Ok s') \<Longrightarrow> sched_step srt s s'"
| tick: "loops s > 0 \<Longrightarrow> sched_step srt s (fst (runPending srt now s))"
| leave: "loops s = Suc n \<Longrightarrow> quit s = Suc m \<Longrightarrow> sched_step srt s (s\<lparr>loops := n, quit := m\<rparr>)"

inductive_cases sched_stepE: "sched_step srt s t"

section \<open>The contract of sort.Sort\<close>

interpretation sch: sort_interface sched_Len sched_Less sched_Swap tasks nextRunAt
  by unfold_locales (simp_all add: sched_Len_def sched_Less_def sched_Swap_def)

locale sort_contract =
  fixes srt :: "'a list \<Rightarrow> 'a list" and key :: "'a \<Rightarrow> 'b::linorder"
  assumes perm: "mset (srt xs) = mset xs"
    and ascending: "sorted (map key (srt xs))"
begin

lemma set_srt: "set (srt xs) = set xs"
  by (metis perm set_mset_mset)

lemma due_is_prefix:
  "takeWhile (\<lambda>x. key x < t) (srt xs) = filter (\<lambda>x. key x < t) (srt xs)"
proof -
  have "sorted (map key ys) \<Longrightarrow> takeWhile (\<lambda>x. key x < t) ys = filter (\<lambda>x. key x < t) ys" for ys
  proof (induction ys)
    case (Cons y ys)
    then show ?case by (auto simp: filter_empty_conv eq_commute [of "[]"] dest: order_le_less_trans)
  qed simp
  then show ?thesis using ascending by blast
qed

lemma takeWhile_ascending: "sorted (map key (takeWhile P (srt xs)))"
  using ascending [of xs] takeWhile_dropWhile_id [of P "srt xs"] by (metis map_append sorted_append)

lemma least_first:
  assumes "x \<in> set xs" and "\<And>y. y \<in> set xs \<Longrightarrow> y \<noteq> x \<Longrightarrow> key x < key y"
  shows "\<exists>ys. srt xs = x # ys"
proof (cases "srt xs")
  case Nil
  then show ?thesis using assms(1) set_srt [of xs] by auto
next
  case (Cons y ys)
  have "x \<in> set (y # ys)" using assms(1) set_srt [of xs] Cons by auto
  then have "key y \<le> key x" using ascending [of xs] Cons by auto
  moreover have "y \<in> set xs" using set_srt [of xs] Cons by auto
  ultimately have "y = x" using assms(2) [of y] by fastforce
  with Cons show ?thesis by blast
qed

end

interpretation stable: sort_contract "sort_key nextRunAt" nextRunAt
  by unfold_locales simp_all

section \<open>Facts\<close>

lemma runnable_loop_eq: "runnable_loop now js acc = acc @ takeWhile (ShouldRun now) js"
  by (induction js arbitrary: acc) simp_all

lemma getRunnable_eq:
  "getRunnableTasks srt now s =
     (s\<lparr>tasks := srt (tasks s)\<rparr>, takeWhile (ShouldRun now) (srt (tasks s)))"
  by (simp add: getRunnableTasks_def runnable_loop_eq)

lemma runPending_frame [simp]:
  "srunning (fst (runPending srt now s)) = srunning s" "quit (fst (runPending srt now s)) = quit s"
  "loops (fst (runPending srt now s)) = loops s"
  by (simp_all add: runPending_def getRunnable_eq)

definition sched_inv :: "scheduler \<Rightarrow> bool" where
  "sched_inv s \<longleftrightarrow> quit s \<le> 1 \<and> loops s \<le> 1 \<and> (\<not> srunning s \<longrightarrow> loops s = 0 \<and> quit s = 0)"

lemma sched_step_inv: "sched_step srt s t \<Longrightarrow> sched_inv s \<Longrightarrow> sched_inv t"
  by (erule sched_stepE)
    (auto simp: sched_inv_def Add_def Clear_def Start_def Stop_def split: if_splits)

lemma sched_reach_inv: "rtranclp (sched_step srt) NewScheduler s \<Longrightarrow> sched_inv s"
proof (induction rule: rtranclp_induct)
  case base
  show ?case by (simp add: sched_inv_def NewScheduler_def)
qed (rule sched_step_inv)

lemma dead_step:
  "sched_step srt s t \<Longrightarrow> srunning s \<and> loops s = 0 \<Longrightarrow> srunning t \<and> loops t = 0"
  by (erule sched_stepE) (auto simp: Add_def Clear_def Start_def Stop_def split: if_splits)

definition due_task :: "nat \<Rightarrow> task" where
  "due_task n = (NewTaskAtIntervals 1 Seconds)\<lparr>nextRunAt := int n\<rparr>"

text \<open>C21. Selection of runnable tasks, for every sort that meets the contract of \<open>sort.Sort\<close>:
  only tasks of the pool that should run are selected, in the order of their next runs, the pool keeps its tasks, and when
  no task is running the selection is exactly the tasks that are due, each as often as it is in the pool.\<close>

theorem runnable_sound_complete:
  assumes "sort_contract srt nextRunAt" and "getRunnableTasks srt now s = (s', js)"
  shows "mset (tasks s') = mset (tasks s) \<and> set js \<subseteq> {j \<in> set (tasks s). ShouldRun now j} \<and> sorted (map nextRunAt js) \<and>
    ((\<forall>j\<in>set (tasks s). \<not> running j) \<longrightarrow> mset js = filter_mset (ShouldRun now) (mset (tasks s)))"
proof -
  note perm = sort_contract.perm [OF assms(1)]
    and sset = sort_contract.set_srt [OF assms(1)]
  have js: "js = takeWhile (ShouldRun now) (srt (tasks s))" and s': "tasks s' = srt (tasks s)"
    using assms(2) by (auto simp: getRunnable_eq)
  have "set js \<subseteq> {j \<in> set (tasks s). ShouldRun now j}"
    using js sset set_takeWhileD by fastforce
  moreover have "mset js = filter_mset (ShouldRun now) (mset (tasks s))"
    if idle: "\<forall>j\<in>set (tasks s). \<not> running j"
  proof -
    have e: "ShouldRun now j = (nextRunAt j < now)" if "j \<in> set (srt (tasks s))" for j
      using that idle sset by (auto simp: ShouldRun_def)
    have "js = takeWhile (\<lambda>j. nextRunAt j < now) (srt (tasks s))"
      unfolding js using e by (intro takeWhile_cong) auto
    also have "\<dots> = filter (\<lambda>j. nextRunAt j < now) (srt (tasks s))"
      by (rule sort_contract.due_is_prefix [OF assms(1)])
    also have "\<dots> = filter (ShouldRun now) (srt (tasks s))"
      using e by (intro filter_cong) auto
    finally show ?thesis by (simp add: perm)
  qed
  moreover have "sorted (map nextRunAt js)" unfolding js by (rule sort_contract.takeWhile_ascending [OF assms(1)])
  ultimately show ?thesis using s' perm by simp
qed

theorem runnable_sound_complete_witness:
  "mset (snd (getRunnableTasks (sort_key nextRunAt) 9 (NewScheduler\<lparr>tasks := [due_task 5, due_task 12, due_task 3]\<rparr>))) =
     filter_mset (ShouldRun 9) (mset [due_task 5, due_task 12, due_task 3])"
proof -
  let ?s = "NewScheduler\<lparr>tasks := [due_task 5, due_task 12, due_task 3]\<rparr>"
  obtain s' js where g: "getRunnableTasks (sort_key nextRunAt) 9 ?s = (s', js)" by force
  from runnable_sound_complete [OF stable.sort_contract_axioms g] g show ?thesis
    by (simp add: due_task_def NewTaskAtIntervals_def new_task_def)
qed

text \<open>A task that is still running and whose scheduled time is the earliest of the pool blocks
  the whole pool: it sorts first, should not run, and the loop stops there, so no task is
  started until its callback is over, however many others are due.\<close>

theorem running_task_blocks_pool:
  assumes "sort_contract srt nextRunAt" and "j \<in> set (tasks s)" and "running j"
    and "\<And>k. k \<in> set (tasks s) \<Longrightarrow> k \<noteq> j \<Longrightarrow> nextRunAt j < nextRunAt k"
  shows "snd (getRunnableTasks srt now s) = []"
proof -
  obtain js where "srt (tasks s) = j # js"
    using sort_contract.least_first [OF assms(1,2,4)] by blast
  with assms(3) show ?thesis by (simp add: getRunnable_eq ShouldRun_def)
qed

theorem running_task_blocks_pool_witness:
  "ShouldRun 100 (due_task 5) \<and>
   snd (getRunnableTasks (sort_key nextRunAt) 100
     (NewScheduler\<lparr>tasks := [due_task 5, (due_task 3)\<lparr>running := True\<rparr>]\<rparr>)) = []"
proof -
  let ?j = "(due_task 3)\<lparr>running := True\<rparr>" and ?s = "NewScheduler\<lparr>tasks := [due_task 5, (due_task 3)\<lparr>running := True\<rparr>]\<rparr>"
  have d: "ShouldRun 100 (due_task 5)"
    by (simp add: ShouldRun_def due_task_def NewTaskAtIntervals_def new_task_def)
  have "snd (getRunnableTasks (sort_key nextRunAt) 100 ?s) = []"
    by (rule running_task_blocks_pool [OF stable.sort_contract_axioms, of ?j])
      (auto simp: due_task_def NewTaskAtIntervals_def new_task_def)
  with d show ?thesis by blast
qed

text \<open>In every reachable state of a scheduler at most one ticker goroutine is alive, and
  none is alive before \<open>Start\<close>. Once the loop has ended after \<open>Stop\<close>, no sequence of calls
  brings it back: \<open>IsRunning\<close> stays true and \<open>Start\<close> fails for ever.\<close>

theorem scheduler_never_restarts:
  assumes "rtranclp (sched_step srt) NewScheduler s"
  shows "loops s \<le> 1 \<and> (\<not> IsRunning s \<longrightarrow> loops s = 0) \<and>
    (IsRunning s \<and> loops s = 0 \<and> rtranclp (sched_step srt) s t \<longrightarrow>
       IsRunning t \<and> loops t = 0 \<and> Start t = Err AlreadyRunning)"
proof -
  have "srunning t \<and> loops t = 0" if "srunning s \<and> loops s = 0" "rtranclp (sched_step srt) s t"
    using that(2,1) by (induction rule: rtranclp_induct) (auto dest: dead_step)
  then show ?thesis
    using sched_reach_inv [OF assms] by (auto simp: sched_inv_def IsRunning_def Start_def)
qed

theorem scheduler_never_restarts_witness:
  "\<exists>s. rtranclp (sched_step (sort_key nextRunAt)) NewScheduler s \<and> loops s = 0 \<and> IsRunning s \<and>
    Start s = Err AlreadyRunning"
proof -
  let ?R = "sched_step (sort_key nextRunAt)"
  let ?a = "NewScheduler\<lparr>srunning := True, loops := Suc 0\<rparr>"
  let ?b = "NewScheduler\<lparr>srunning := True, loops := Suc 0, quit := Suc 0\<rparr>"
  let ?c = "NewScheduler\<lparr>srunning := True, loops := 0, quit := 0\<rparr>"
  have 1: "?R NewScheduler ?a" by (rule sched_step.start) (simp add: Start_def NewScheduler_def)
  have 2: "?R ?a ?b" by (rule sched_step.stop) (simp add: Stop_def NewScheduler_def)
  have 3: "?R ?b (?b\<lparr>loops := 0, quit := 0\<rparr>)" by (rule sched_step.leave) (simp_all add: NewScheduler_def)
  have r: "rtranclp ?R NewScheduler ?c"
    using 1 2 3 by (simp add: NewScheduler_def)
  from scheduler_never_restarts [OF r, of ?c] r show ?thesis
    by (intro exI [of _ ?c]) (simp add: IsRunning_def)
qed

text \<open>A second \<open>Stop\<close> of a scheduler whose loop has ended is accepted and leaves its message in
  \<open>quit\<close>; the next \<open>Stop\<close> blocks on the full channel while it holds the scheduler's lock.\<close>

theorem third_Stop_blocks:
  assumes "srunning s" and "loops s = 0" and "quit s = 0"
  shows "\<exists>s'. Stop s = Returns (Ok s') \<and> Stop s' = Blocks \<and> loops s' = 0"
  using assms by (simp add: Stop_def)

theorem third_Stop_blocks_witness:
  "\<exists>s'. Stop (NewScheduler\<lparr>srunning := True\<rparr>) = Returns (Ok s') \<and> Stop s' = Blocks"
  using third_Stop_blocks [of "NewScheduler\<lparr>srunning := True\<rparr>"] by (auto simp: NewScheduler_def)

end
