(* ===== verification/HttpError.thy ===== *)
theory HttpError
  imports Identity
begin

text \<open>
  The package \<open>xhttp/httperror\<close>: the error values of the HTTP layer. A Go \<open>error\<close> is one of the
  concrete values the modelled code makes: a \<open>*Error\<close>, a \<open>*ManyError\<close> (whose pointer may be
  nil while the interface is not), or any other error, known by its text. A nil map and an
  empty map of nested errors are told apart. The JSON codec is third-party, so the encoder
  is an argument of the functions that write a response.
\<close>

section \<open>fmt.Sprintf\<close>

text \<open>\<open>fmt.Sprintf\<close> for verbs of one character, with operands already rendered: every verb takes
  the next operand, \<open>%%\<close> is a percent sign, a missing operand and operands left over are
  reported in the text as Go reports them (operands here are strings).\<close>

fun sprintf :: "string \<Rightarrow> string list \<Rightarrow> string" where
  "sprintf [] [] = []"
| "sprintf [] (v # vs) = ''%!(EXTRA '' @ join '', '' (map (\<lambda>x. ''string='' @ x) (v # vs)) @ '')''"
| "sprintf [c] vs = (if c = CHR ''%'' then ''%!(NOVERB)'' else [c]) @ sprintf [] vs"
| "sprintf (c # d # cs) vs =
     (if c = CHR ''%'' then
        (if d = CHR ''%'' then CHR ''%'' # sprintf cs vs
         else (case vs of
                 [] \<Rightarrow> ''%!'' @ [d] @ ''(MISSING)'' @ sprintf cs []
               | v # vs' \<Rightarrow> v @ sprintf cs vs'))
      else c # sprintf (d # cs) vs)"

section \<open>Errors\<close>

datatype goerror =
    AsError Error
  | AsMany "ManyError option"
  | OtherError string
and Error = Error (HTTPStatus: int) (Code: string) (Message: string) (Cause: "goerror option")
and ManyError = ManyError (manyStatus: int) (manyCode: string) (manyMessage: string)
    (Errors: "(string, Error) gomap option")

definition httperror_New :: "int \<Rightarrow> string \<Rightarrow> string \<Rightarrow> string list \<Rightarrow> Error" where
  "httperror_New status code msgFormat vals = Error status code (sprintf msgFormat vals) None"

definition WithInvalidParam :: "string \<Rightarrow> string list \<Rightarrow> Error" where
  "WithInvalidParam f vs = httperror_New 400 ''invalid_parameter'' f vs"

definition WithInvalidJSON :: "string \<Rightarrow> string list \<Rightarrow> Error" where
  "WithInvalidJSON f vs = httperror_New 400 ''invalid_json'' f vs"

definition WithBadNonce :: "string \<Rightarrow> string list \<Rightarrow> Error" where
  "WithBadNonce f vs = httperror_New 400 ''bad_nonce'' f vs"

definition WithInvalidRequest :: "string \<Rightarrow> string list \<Rightarrow> Error" where
  "WithInvalidRequest f vs = httperror_New 400 ''invalid_request'' f vs"

definition WithMalformed :: "string \<Rightarrow> string list \<Rightarrow> Error" where
  "WithMalformed f vs = httperror_New 400 ''malformed'' f vs"

definition WithInvalidContentType :: "string \<Rightarrow> string list \<Rightarrow> Error" where
  "WithInvalidContentType f vs = httperror_New 400 ''invalid_content_type'' f vs"

definition WithContentLengthRequired :: Error where
  "WithContentLengthRequired =
     httperror_New 400 ''content_length_required'' ''Content-Length header not provided'' []"

definition WithNotFound :: "string \<Rightarrow> string list \<Rightarrow> Error" where
  "WithNotFound f vs = httperror_New 404 ''not_found'' f vs"

definition WithRequestTooLarge :: "string \<Rightarrow> string list \<Rightarrow> Error" where
  "WithRequestTooLarge f vs = httperror_New 400 ''request_too_large'' f vs"

definition WithFailedToReadRequestBody :: "string \<Rightarrow> string list \<Rightarrow> Error" where
  "WithFailedToReadRequestBody f vs = httperror_New 500 ''request_body'' f vs"

definition WithRateLimitExceeded :: "string \<Rightarrow> string list \<Rightarrow> Error" where
  "WithRateLimitExceeded f vs = httperror_New 429 ''rate_limit_exceeded'' f vs"

definition WithTooEarly :: "string \<Rightarrow> string list \<Rightarrow> Error" where
  "WithTooEarly f vs = httperror_New 425 ''too_early'' f vs"

definition WithUnexpected :: "string \<Rightarrow> string list \<Rightarrow> Error" where
  "WithUnexpected f vs = httperror_New 500 ''unexpected'' f vs"

definition WithForbidden :: "string \<Rightarrow> string list \<Rightarrow> Error" where
  "WithForbidden f vs = httperror_New 403 ''forbidden'' f vs"

definition WithUnauthorized :: "string \<Rightarrow> string list \<Rightarrow> Error" where
  "WithUnauthorized f vs = httperror_New 401 ''unauthorized'' f vs"

definition WithAccountNotFound :: "string \<Rightarrow> string list \<Rightarrow> Error" where
  "WithAccountNotFound f vs = httperror_New 403 ''account_not_found'' f vs"

definition WithNotReady :: "string \<Rightarrow> string list \<Rightarrow> Error" where
  "WithNotReady f vs = httperror_New 403 ''not_ready'' f vs"

definition WithConflict :: "string \<Rightarrow> string list \<Rightarrow> Error" where
  "WithConflict f vs = httperror_New 409 ''conflict'' f vs"

definition WithCause :: "Error \<Rightarrow> goerror option \<Rightarrow> Error" where
  "WithCause e c = Error (HTTPStatus e) (Code e) (Message e) c"

definition Error_text :: "Error option \<Rightarrow> string" where
  "Error_text e = (case e of None \<Rightarrow> ''nil'' | Some x \<Rightarrow> sprintf ''%s: %s'' [Code x, Message x])"

definition ManyError_text :: "ManyError option \<Rightarrow> string" where
  "ManyError_text m =
     (case m of
        None \<Rightarrow> ''nil''
      | Some x \<Rightarrow>
          if manyCode x \<noteq> [] then sprintf ''%s: %s'' [manyCode x, manyMessage x]
          else join '';'' (map (\<lambda>(_, e). Error_text (Some e)) (case Errors x of None \<Rightarrow> [] | Some es \<Rightarrow> es)))"

text \<open>\<open>err.Error()\<close>.\<close>

fun error_text :: "goerror \<Rightarrow> string" where
  "error_text (AsError e) = Error_text (Some e)"
| "error_text (AsMany m) = ManyError_text m"
| "error_text (OtherError s) = s"

definition NewMany :: "int \<Rightarrow> string \<Rightarrow> string \<Rightarrow> string list \<Rightarrow> ManyError" where
  "NewMany status code msgFormat vals = ManyError status code (sprintf msgFormat vals) (Some [])"

definition many_Add :: "ManyError option \<Rightarrow> string \<Rightarrow> goerror \<Rightarrow> ManyError" where
  "many_Add m key err =
     (let x = (case m of None \<Rightarrow> ManyError 0 [] [] None | Some x \<Rightarrow> x);
          es = (case Errors x of None \<Rightarrow> [] | Some es \<Rightarrow> es);
          e = (case err of AsError g \<Rightarrow> g | _ \<Rightarrow> Error 0 ''unexpected'' (error_text err) (Some err))
      in ManyError (manyStatus x) (manyCode x) (manyMessage x) (Some (mput key e es)))"

definition HasErrors :: "ManyError option \<Rightarrow> (unit, bool) result" where
  "HasErrors m =
     (case m of None \<Rightarrow> Panic
      | Some x \<Rightarrow> Ok (length (case Errors x of None \<Rightarrow> [] | Some es \<Rightarrow> es) > 0))"

section \<open>Responses\<close>

definition shouldPrettyPrint :: "request \<Rightarrow> bool" where
  "shouldPrettyPrint r = (if mget (URLQuery r) ''pp'' \<noteq> None then True else False)"

text \<open>The encoder's argument is the choice of \<open>encoderHandle\<close>: pretty or compact.\<close>

definition Error_WriteHTTPResponse ::
  "(bool \<Rightarrow> Error \<Rightarrow> string) \<Rightarrow> Error \<Rightarrow> response \<Rightarrow> request \<Rightarrow> response" where
  "Error_WriteHTTPResponse encode e w r =
     (let w = w\<lparr>rheader := header_set (rheader w) ''Content-Type'' ''application/json''\<rparr>;
          w = write_header (HTTPStatus e) w
      in write_body (encode (shouldPrettyPrint r) e) w)"

definition Many_WriteHTTPResponse ::
  "(bool \<Rightarrow> ManyError \<Rightarrow> string) \<Rightarrow> ManyError \<Rightarrow> response \<Rightarrow> request \<Rightarrow> response" where
  "Many_WriteHTTPResponse encode m w r =
     (let w = w\<lparr>rheader := header_set (rheader w) ''Content-Type'' ''application/json''\<rparr>;
          w = write_header (manyStatus m) w
      in write_body (encode (shouldPrettyPrint r) m) w)"

section \<open>Facts\<close>

lemma sprintf_plain: "CHR ''%'' \<notin> set f \<Longrightarrow> sprintf f [] = f"
  by (induction f "[] :: string list" rule: sprintf.induct) auto

lemma Error_text_Some [simp]: "Error_text (Some e) = Code e @ '': '' @ Message e"
  by (simp add: Error_text_def)

lemma many_Add_lookup:
  "\<exists>es. Errors (many_Add m key err) = Some es \<and>
     mget es k = (if k = key
       then Some (case err of AsError g \<Rightarrow> g | _ \<Rightarrow> Error 0 ''unexpected'' (error_text err) (Some err))
       else Option.bind (Option.bind m Errors) (\<lambda>es. mget es k))"
  by (auto simp: many_Add_def Let_def split: option.splits)

lemma write_response_status:
  "rstatus w = None \<Longrightarrow> rstatus (Error_WriteHTTPResponse encode e w r) = Some (HTTPStatus e)"
  by (simp add: Error_WriteHTTPResponse_def write_header_def write_body_def first_status_def Let_def)

text \<open>\<open>ManyError.Add\<close> works from a nil receiver and keeps one entry per key: the new error
  under its key (an error that is not an \<open>*Error\<close> is wrapped, with its text as message and
  itself as cause), every other key as before.\<close>

theorem many_Add_entries:
  "\<exists>es. Errors (many_Add m key err) = Some es \<and> mget es k =
     (if k = key
      then Some (case err of AsError g \<Rightarrow> g | _ \<Rightarrow> Error 0 ''unexpected'' (error_text err) (Some err))
      else Option.bind (Option.bind m Errors) (\<lambda>es. mget es k))"
  by (rule many_Add_lookup)

text \<open>\<open>WithUnauthorized\<close> and the other constructors take a format: a message without a percent
  sign is kept as it is, but one that contains a percent sign is read as a directive, so
  passing \<open>err.Error()\<close> as the format garbles it.\<close>

theorem format_message_hazard:
  "(CHR ''%'' \<notin> set msg \<longrightarrow> Message (WithUnauthorized msg []) = msg) \<and>
   Message (WithUnauthorized ''the 50% role is not allowed'' []) = ''the 50%! (MISSING)role is not allowed''"
  by (simp add: WithUnauthorized_def httperror_New_def sprintf_plain)

theorem format_message_hazard_witness:
  "Message (WithUnauthorized ''the bob role is not allowed'' []) = ''the bob role is not allowed''"
  using format_message_hazard [of "''the bob role is not allowed''"] by simp

end
