(* ===== verification/Retriable.thy ===== *)
theory Retriable
  imports HttpError Slices
begin

text \<open>
  The package \<open>xhttp/retriable\<close>: an HTTP client that retries by a policy and falls over to
  other hosts. What the network, the clock and the URL parser do is outside the program and
  is the argument \<open>net\<close>: it answers one \<open>http.Client.Do\<close> at a time and threads a state of its
  own. Request bodies are readers with a position, so that rewinding them matters. A run
  returns a log of the observable actions beside its result. A retry loop need not end for
  every policy, so \<open>do_loop\<close> is a partial function.
\<close>

section \<open>Readers, requests and responses\<close>

text \<open>An \<open>io.ReadSeeker\<close>: the bytes, the position, the error that reading ends with (\<open>None\<close> is
  the regular end), whether it is an \<open>os.File\<close> (which has a \<open>Close\<close> and no \<open>Len\<close>), and was
  closed.\<close>

record reader =
  rd_bytes :: string
  rd_pos :: nat
  rd_err :: "goerror option"
  rd_file :: bool
  rd_closed :: bool

definition bytes_NewReader :: "string \<Rightarrow> reader" where
  "bytes_NewReader b = \<lparr>rd_bytes = b, rd_pos = 0, rd_err = None, rd_file = False, rd_closed = False\<rparr>"

definition seek_start :: "reader \<Rightarrow> reader" where
  "seek_start r = (if rd_closed r then r else r\<lparr>rd_pos := 0\<rparr>)"

definition read_all :: "reader \<Rightarrow> reader \<times> (goerror, string) result" where
  "read_all r =
     (if rd_closed r then (r, Err (OtherError ''file already closed''))
      else (r\<lparr>rd_pos := max (rd_pos r) (length (rd_bytes r))\<rparr>,
            case rd_err r of None \<Rightarrow> Ok (drop (rd_pos r) (rd_bytes r)) | Some e \<Rightarrow> Err e))"

text \<open>\<open>Close\<close> on the body of a request: \<open>http.NewRequest\<close> wraps a reader that is no closer into
  one whose \<open>Close\<close> does nothing.\<close>

definition close_body :: "reader \<Rightarrow> reader" where
  "close_body r = (if rd_file r then r\<lparr>rd_closed := True\<rparr> else r)"

record callctx =
  HTTPHeader :: "(string, string) gomap option"   \<comment> \<open>the value under \<open>contextValueForHTTPHeader\<close>\<close>
  ctx_timeout :: "duration option"

definition ctx_Background :: callctx where
  "ctx_Background = \<lparr>HTTPHeader = None, ctx_timeout = None\<rparr>"

datatype ctx_state = CtxActive | CtxCanceled | CtxDeadlineExceeded

record httpreq =
  rq_method :: string
  rq_url :: string
  rq_header :: header
  rq_body :: "reader option"
  rq_length :: int
  rq_TLS :: bool
  rq_ctx :: callctx

record httpresp =
  StatusCode :: int
  Status :: string
  rs_header :: header
  rs_body :: string
  rs_TLS :: bool

text \<open>\<open>send\<close> also tells how many bytes of the request body were read.\<close>

record 'w net =
  send :: "'w \<Rightarrow> httpreq \<Rightarrow> 'w \<times> nat \<times> httpresp option \<times> goerror option"
  ctx_Err :: "'w \<Rightarrow> callctx \<Rightarrow> ctx_state"
  parse_url :: "string \<Rightarrow> string \<Rightarrow> (goerror, string) result"

datatype event = Host string | Sent "string option" header | Drained | Slept duration | BodyClosed

text \<open>\<open>errors.WithStack\<close>: the wrapped value is no longer an \<open>*Error\<close>; it keeps its text.\<close>

definition with_stack :: "goerror \<Rightarrow> goerror" where
  "with_stack e = OtherError (error_text e)"

section \<open>request.go\<close>

text \<open>\<open>body\<close> is the reader the closure \<open>ReaderFunc\<close> rewinds and hands out.\<close>

record Request =
  body :: "reader option"
  httpRequest :: httpreq

text \<open>\<open>http.NewRequest\<close>; the length it derives from the body is not used by this package.\<close>

definition http_NewRequest :: "'w net \<Rightarrow> string \<Rightarrow> string \<Rightarrow> reader option \<Rightarrow> (goerror, httpreq) result" where
  "http_NewRequest net method url b =
     bind_result (parse_url net method url)
       (\<lambda>u. Ok \<lparr>rq_method = (if method = [] then ''GET'' else method), rq_url = u, rq_header = [],
               rq_body = b, rq_length = 0, rq_TLS = False, rq_ctx = ctx_Background\<rparr>)"

definition NewRequest :: "'w net \<Rightarrow> string \<Rightarrow> string \<Rightarrow> reader option \<Rightarrow> (goerror, Request) result" where
  "NewRequest net method url rawBody =
     (let contentLength = (case rawBody of None \<Rightarrow> 0
                           | Some r \<Rightarrow> if rd_file r then 0 else int (length (rd_bytes r) - rd_pos r))
      in case http_NewRequest net method url None of
           Panic \<Rightarrow> Panic
         | Err e \<Rightarrow> Err (with_stack e)
         | Ok httpReq \<Rightarrow> Ok \<lparr>body = rawBody, httpRequest = httpReq\<lparr>rq_length := contentLength\<rparr>\<rparr>)"

definition add_headers :: "header \<Rightarrow> (string, string) gomap \<Rightarrow> header" where
  "add_headers h kvs = fold (\<lambda>(k, v) h. header_add h k v) kvs h"

definition set_headers :: "header \<Rightarrow> (string, string) gomap \<Rightarrow> header" where
  "set_headers h kvs = fold (\<lambda>(k, v) h. header_set h k v) kvs h"

definition Request_WithHeaders :: "(string, string) gomap \<Rightarrow> Request \<Rightarrow> Request" where
  "Request_WithHeaders headers r =
     r\<lparr>httpRequest := (httpRequest r)\<lparr>rq_header := add_headers (rq_header (httpRequest r)) headers\<rparr>\<rparr>"

definition Request_AddHeader :: "string \<Rightarrow> string \<Rightarrow> Request \<Rightarrow> Request" where
  "Request_AddHeader k v r =
     r\<lparr>httpRequest := (httpRequest r)\<lparr>rq_header := header_add (rq_header (httpRequest r)) k v\<rparr>\<rparr>"

text \<open>\<open>convertRequest\<close> returns the caller's body reader in the state it leaves it in.\<close>

definition convertRequest :: "'w net \<Rightarrow> httpreq \<Rightarrow> reader option \<times> (goerror, Request) result" where
  "convertRequest net req =
     (let (caller, content) =
            (case rq_body req of
               None \<Rightarrow> (None, Ok None)
             | Some r \<Rightarrow>
                 let (r', c) = read_all r
                 in (Some (close_body r'), bind_result c (\<lambda>bs. Ok (Some (bytes_NewReader bs)))))
      in (caller,
          case content of
            Panic \<Rightarrow> Panic
          | Err e \<Rightarrow> Err (with_stack e)
          | Ok b \<Rightarrow>
              (case NewRequest net (rq_method req) (rq_url req) b of
                 Panic \<Rightarrow> Panic
               | Err e \<Rightarrow> Err (with_stack e)
               | Ok r \<Rightarrow>
                   let h = fold (\<lambda>(k, vs) h. fold (\<lambda>v h. header_add h k v) vs h) (rq_header req)
                             (rq_header (httpRequest r))
                   in Ok (r\<lparr>httpRequest := (httpRequest r)\<lparr>rq_ctx := rq_ctx req, rq_header := h\<rparr>\<rparr>))))"

section \<open>Policies\<close>

type_synonym ShouldRetry_fn =
  "httpreq \<Rightarrow> httpresp option \<Rightarrow> goerror option \<Rightarrow> int \<Rightarrow> bool \<times> duration \<times> string"

record Policy =
  Retries :: "(int, ShouldRetry_fn) gomap"
  TotalRetryLimit :: int
  RequestTimeout :: duration

definition shouldRetryFactory :: "int \<Rightarrow> duration \<Rightarrow> string \<Rightarrow> ShouldRetry_fn" where
  "shouldRetryFactory limit wait reason = (\<lambda>r resp err retries. (limit \<ge> retries, wait, reason))"

definition NewDefaultPolicy :: Policy where
  "NewDefaultPolicy =
     \<lparr>Retries = [(0, shouldRetryFactory 5 (2 * second) ''connection''),
                 (429, shouldRetryFactory 3 second ''rate-limit''),
                 (503, shouldRetryFactory 10 (500 * millisecond) ''unavailable''),
                 (502, shouldRetryFactory 10 (500 * millisecond) ''gateway'')],
      TotalRetryLimit = 10, RequestTimeout = 0\<rparr>"

definition nonRetriableErrors :: "string list" where
  "nonRetriableErrors =
     [''no such host'', ''TLS handshake error'', ''certificate signed by unknown authority'',
      ''client didn'' @ [CHR 0x27] @ ''t provide a certificate'', ''tls: bad certificate'',
      ''x509: certificate'', ''x509: cannot validate certificate'',
      ''server gave HTTP response to HTTPS client'', ''dial tcp: lookup'']"

text \<open>A nil policy or response is dereferenced where the code does so; the reasons are the
  exported constants.\<close>

definition ShouldRetry ::
  "Policy option \<Rightarrow> ctx_state \<Rightarrow> httpreq \<Rightarrow> httpresp option \<Rightarrow> goerror option \<Rightarrow> int \<Rightarrow>
   (unit, bool \<times> duration \<times> string) result" where
  "ShouldRetry p cst r resp err retries =
     (case err of
        Some e \<Rightarrow>
          if cst = CtxCanceled then Ok (False, 0, ''cancelled'')
          else if cst = CtxDeadlineExceeded then Ok (False, 0, ''deadline'')
          else if rq_TLS r \<and> (case resp of None \<Rightarrow> True | Some rs \<Rightarrow> \<not> rs_TLS rs) then Panic
          else if StringContainsOneOf (error_text e) nonRetriableErrors then Ok (False, 0, ''non-retriable'')
          else (case p of
                  None \<Rightarrow> Panic
                | Some pol \<Rightarrow>
                    (case mget (Retries pol) 0 of
                       Some fn \<Rightarrow> Ok (fn r resp (Some e) retries)
                     | None \<Rightarrow> Ok (False, 0, ''non-retriable'')))
      | None \<Rightarrow>
          (case resp of
             None \<Rightarrow> Panic
           | Some rs \<Rightarrow>
               if StatusCode rs < 400 then Ok (False, 0, ''success'')
               else if StatusCode rs = 404 then Ok (False, 0, ''not-found'')
               else if StatusCode rs \<noteq> 429 \<and> StatusCode rs \<ge> 400 \<and> StatusCode rs < 500 then
                 Ok (False, 0, ''non-retriable'')
               else (case p of
                       None \<Rightarrow> Panic
                     | Some pol \<Rightarrow>
                         if TotalRetryLimit pol \<le> retries then Ok (False, 0, ''limit-exceeded'')
                         else (case mget (Retries pol) (StatusCode rs) of
                                 Some fn \<Rightarrow> Ok (fn r resp None retries)
                               | None \<Rightarrow> Ok (False, 0, ''non-retriable'')))))"

section \<open>The client\<close>

text \<open>The transport of the inner \<open>http.Client\<close>: nil, an \<open>*http.Transport\<close> with its TLS
  configuration and DNS server (known by a number and its address), or another
  \<open>RoundTripper\<close>.\<close>

datatype transport = HttpTransport (tr_TLS: "nat option") (tr_DNS: "string option") | OtherTransport nat

record Client =
  Timeout :: duration
  Transport :: "transport option"
  headers :: "(string, string) gomap option"
  Name :: string
  cPolicy :: "Policy option"

definition put_headers :: "(string, string) gomap \<Rightarrow> (string, string) gomap \<Rightarrow> (string, string) gomap" where
  "put_headers kvs m = fold (\<lambda>(k, v) m. mput k v m) kvs m"

definition Client_WithHeaders :: "(string, string) gomap \<Rightarrow> Client \<Rightarrow> Client" where
  "Client_WithHeaders hs c =
     c\<lparr>headers := Some (put_headers hs (case headers c of None \<Rightarrow> [] | Some m \<Rightarrow> m))\<rparr>"

definition Client_AddHeader :: "string \<Rightarrow> string \<Rightarrow> Client \<Rightarrow> Client" where
  "Client_AddHeader k v c =
     c\<lparr>headers := Some (mput k v (case headers c of None \<Rightarrow> [] | Some m \<Rightarrow> m))\<rparr>"

definition WithName :: "string \<Rightarrow> Client \<Rightarrow> (unit, Client) result" where
  "WithName n c = Ok (c\<lparr>Name := n\<rparr>)"

definition WithPolicy :: "Policy option \<Rightarrow> Client \<Rightarrow> (unit, Client) result" where
  "WithPolicy p c = Ok (c\<lparr>cPolicy := p\<rparr>)"

definition WithTLS :: "nat option \<Rightarrow> Client \<Rightarrow> (unit, Client) result" where
  "WithTLS tls c =
     (case Transport c of
        None \<Rightarrow> Ok (c\<lparr>Transport := Some (HttpTransport tls None)\<rparr>)
      | Some (HttpTransport _ dns) \<Rightarrow> Ok (c\<lparr>Transport := Some (HttpTransport tls dns)\<rparr>)
      | Some (OtherTransport _) \<Rightarrow> Panic)"

definition WithTransport :: "transport option \<Rightarrow> Client \<Rightarrow> (unit, Client) result" where
  "WithTransport t c = Ok (c\<lparr>Transport := t\<rparr>)"

definition WithTimeout :: "duration \<Rightarrow> Client \<Rightarrow> (unit, Client) result" where
  "WithTimeout d c = Ok (c\<lparr>Timeout := d\<rparr>)"

definition WithDNSServer :: "string \<Rightarrow> Client \<Rightarrow> (unit, Client) result" where
  "WithDNSServer dns c =
     (case Transport c of
        None \<Rightarrow> Ok (c\<lparr>Transport := Some (HttpTransport None (Some dns))\<rparr>)
      | Some (HttpTransport tls _) \<Rightarrow> Ok (c\<lparr>Transport := Some (HttpTransport tls (Some dns))\<rparr>)
      | Some (OtherTransport _) \<Rightarrow> Panic)"

fun apply_options :: "(Client \<Rightarrow> (unit, Client) result) list \<Rightarrow> Client \<Rightarrow> (unit, Client) result" where
  "apply_options [] c = Ok c"
| "apply_options (opt # opts) c = bind_result (opt c) (apply_options opts)"

definition Client_New :: "(Client \<Rightarrow> (unit, Client) result) list \<Rightarrow> (unit, Client) result" where
  "Client_New opts =
     apply_options opts \<lparr>Timeout = 30 * second, Transport = None, headers = None,
       Name = ''retriable'', cPolicy = Some NewDefaultPolicy\<rparr>"

section \<open>Do\<close>

text \<open>The body that the closure hands out, and what \<open>http.Client.Do\<close> reads of it.\<close>

definition rewound :: "Request \<Rightarrow> httpreq" where
  "rewound req = (httpRequest req)\<lparr>rq_body := map_option seek_start (body req)\<rparr>"

definition advance :: "nat \<Rightarrow> reader \<Rightarrow> reader" where
  "advance n r = r\<lparr>rd_pos := min (rd_pos r + n) (length (rd_bytes r))\<rparr>"

definition unread :: "reader \<Rightarrow> string" where
  "unread r = drop (rd_pos r) (rd_bytes r)"

partial_function (option) do_loop ::
  "'w net \<Rightarrow> Policy option \<Rightarrow> Request \<Rightarrow> int \<Rightarrow> 'w \<Rightarrow> event list \<Rightarrow>
   ('w \<times> event list \<times> (unit, httpresp option \<times> goerror option) result) option" where
  "do_loop net p req retries w log =
     (let r = rewound req;
          (w', n, resp, err) = send net w r;
          log' = log @ [Sent (map_option unread (rq_body r)) (rq_header r)];
          req' = req\<lparr>body := map_option (advance n) (rq_body r), httpRequest := r\<rparr>
      in case ShouldRetry p (ctx_Err net w' (rq_ctx r)) r resp err retries of
           Panic \<Rightarrow> Some (w', log', Panic)
         | Err e \<Rightarrow> Some (w', log', Panic)
         | Ok (shouldRetry, sleepDuration, reason) \<Rightarrow>
             if \<not> shouldRetry then Some (w', log', Ok (resp, err))
             else do_loop net p req' (retries + 1) w'
                    (log' @ (if resp \<noteq> None then [Drained] else []) @ [Slept sleepDuration]))"

declare do_loop.simps [code]

definition Client_Do ::
  "'w net \<Rightarrow> Client \<Rightarrow> httpreq \<Rightarrow> 'w \<Rightarrow> event list \<Rightarrow>
   ('w \<times> event list \<times> reader option \<times> (unit, httpresp option \<times> goerror option) result) option" where
  "Client_Do net c r w log =
     (case convertRequest net r of
        (caller, Panic) \<Rightarrow> Some (w, log, caller, Panic)
      | (caller, Err e) \<Rightarrow> Some (w, log, caller, Ok (None, Some (with_stack e)))
      | (caller, Ok req) \<Rightarrow>
          map_option (\<lambda>(w', log', res). (w', log', caller, res)) (do_loop net (cPolicy c) req 0 w log))"

text \<open>\<open>doHTTP\<close>: the request is built for one host, with the client's headers added and the
  context's headers set.\<close>

definition build_request :: "Client \<Rightarrow> callctx \<Rightarrow> httpreq \<Rightarrow> httpreq" where
  "build_request c ctx req =
     (let h = add_headers (rq_header req) (case headers c of None \<Rightarrow> [] | Some m \<Rightarrow> m);
          h = (case HTTPHeader ctx of None \<Rightarrow> h | Some hs \<Rightarrow> set_headers h hs)
      in req\<lparr>rq_ctx := ctx, rq_header := h\<rparr>)"

definition doHTTP ::
  "'w net \<Rightarrow> Client \<Rightarrow> callctx \<Rightarrow> string \<Rightarrow> string \<Rightarrow> string \<Rightarrow> reader option \<Rightarrow> 'w \<Rightarrow> event list \<Rightarrow>
   ('w \<times> event list \<times> reader option \<times> (unit, httpresp option \<times> goerror option) result) option" where
  "doHTTP net c ctx httpMethod host path b w log =
     (case http_NewRequest net httpMethod (host @ path) b of
        Panic \<Rightarrow> Some (w, log, b, Panic)
      | Err e \<Rightarrow> Some (w, log, b, Ok (None, Some (with_stack e)))
      | Ok req \<Rightarrow> Client_Do net c (build_request c ctx req) w log)"

definition shouldTryDifferentHost :: "httpresp option \<Rightarrow> goerror option \<Rightarrow> bool" where
  "shouldTryDifferentHost resp err =
     (if err \<noteq> None then True
      else case resp of
             None \<Rightarrow> True
           | Some r \<Rightarrow> if StatusCode r = 500 \<or> StatusCode r = 503 \<or> StatusCode r = 504 \<or> StatusCode r = 429
                       then True else False)"

definition ensureContext :: "Client \<Rightarrow> callctx option \<Rightarrow> callctx" where
  "ensureContext c ctx =
     (case ctx of
        Some x \<Rightarrow> x
      | None \<Rightarrow>
          (case cPolicy c of
             Some p \<Rightarrow> if RequestTimeout p > 0 then ctx_Background\<lparr>ctx_timeout := Some (RequestTimeout p)\<rparr>
                        else ctx_Background
           | None \<Rightarrow> ctx_Background))"

text \<open>The error that a failed host leaves in \<open>many\<close>; the misspelt code is the code's own.\<close>

definition host_failure ::
  "ManyError option \<Rightarrow> string \<Rightarrow> string \<Rightarrow> string \<Rightarrow> httpresp option \<Rightarrow> goerror option \<Rightarrow> ManyError option" where
  "host_failure many httpMethod host path resp err =
     (case err of
        Some e \<Rightarrow> Some (many_Add many host e)
      | None \<Rightarrow>
          (case resp of
             None \<Rightarrow> many
           | Some r \<Rightarrow>
               if StatusCode r \<ge> 400 then
                 Some (many_Add many host (AsError (httperror_New (StatusCode r) ''reques_failed'' ''%s %s %s %s''
                   [httpMethod, host, path, Status r])))
               else many))"

text \<open>The loop over the hosts; \<open>rest \<noteq> []\<close> is the test \<open>i < len(hosts)-1\<close>.\<close>

fun hosts_loop ::
  "'w net \<Rightarrow> Client \<Rightarrow> callctx \<Rightarrow> string \<Rightarrow> string \<Rightarrow> string list \<Rightarrow> reader option \<Rightarrow> ManyError option \<Rightarrow>
   httpresp option \<Rightarrow> 'w \<Rightarrow> event list \<Rightarrow>
   ('w \<times> event list \<times> (unit, httpresp option \<times> ManyError option) result) option" where
  "hosts_loop net c ctx m path [] b many resp w log = Some (w, log, Ok (resp, many))"
| "hosts_loop net c ctx m path (host # rest) b many resp0 w log =
     (case doHTTP net c ctx m host path b w (log @ [Host host]) of
        None \<Rightarrow> None
      | Some (w', log', b', Ok (resp, err)) \<Rightarrow>
          if err = None \<and> resp = None then Some (w', log', Panic)
          else if \<not> shouldTryDifferentHost resp err then Some (w', log', Ok (resp, many))
          else
            let many' = host_failure many m host path resp err;
                closing = (err = None \<and> rest \<noteq> []);
                resp' = (if closing then None else resp);
                log'' = (if closing then log' @ [BodyClosed] else log')
            in hosts_loop net c ctx m path rest (map_option seek_start b') many' resp' w' log''
      | Some (w', log', b', _) \<Rightarrow> Some (w', log', Panic))"

definition executeRequest ::
  "'w net \<Rightarrow> Client \<Rightarrow> callctx option \<Rightarrow> string \<Rightarrow> string list \<Rightarrow> string \<Rightarrow> reader option \<Rightarrow> 'w \<Rightarrow>
   ('w \<times> event list \<times> (goerror, httpresp) result) option" where
  "executeRequest net c ctx httpMethod hosts path b w =
     map_option (\<lambda>(w', log, r). (w', log,
         case r of
           Ok (Some resp, _) \<Rightarrow> Ok resp
         | Ok (None, many) \<Rightarrow> Err (AsMany many)
         | _ \<Rightarrow> Panic))
       (hosts_loop net c (ensureContext c ctx) httpMethod path hosts b None None w [])"

section \<open>Request, Head, DecodeResponse\<close>

text \<open>The values a caller can pass as a request body, in the order of the type switch; any other
  value is encoded by \<open>marshal\<close>, the JSON encoder.\<close>

datatype 'o payload =
    NilPayload
  | ReadSeekerPayload reader
  | ReaderPayload reader
  | BytesPayload string
  | StringPayload string
  | ObjectPayload 'o

fun request_body :: "('o \<Rightarrow> (goerror, string) result) \<Rightarrow> 'o payload \<Rightarrow> (goerror, reader option) result" where
  "request_body marshal NilPayload = Ok None"
| "request_body marshal (ReadSeekerPayload r) = Ok (Some r)"
| "request_body marshal (ReaderPayload r) =
     (case snd (read_all r) of
        Ok b \<Rightarrow> Ok (Some (bytes_NewReader b)) | Err e \<Rightarrow> Err (with_stack e) | Panic \<Rightarrow> Panic)"
| "request_body marshal (BytesPayload b) = Ok (Some (bytes_NewReader b))"
| "request_body marshal (StringPayload b) = Ok (Some (bytes_NewReader b))"
| "request_body marshal (ObjectPayload v) =
     (case marshal v of
        Ok b \<Rightarrow> Ok (Some (bytes_NewReader b)) | Err e \<Rightarrow> Err (with_stack e) | Panic \<Rightarrow> Panic)"

text \<open>Where the response goes, with its type's name: an \<open>io.Writer\<close>, with the error that writing to
  it gives, or a value to decode into. \<open>decode_err\<close> is the JSON decoder on an \<open>httperror.Error\<close> that holds the status
  already, \<open>decode_val\<close> the decoder on the caller's value.\<close>

datatype target = ToWriter string "goerror option" | ToValue string
datatype 'v delivered = NoOutput | Copied string | Decoded 'v

record 'v codec =
  decode_err :: "string \<Rightarrow> Error \<Rightarrow> goerror + Error"
  decode_val :: "string \<Rightarrow> goerror + 'v"

definition with_message :: "goerror \<Rightarrow> string \<Rightarrow> goerror" where
  "with_message e m = OtherError (m @ '': '' @ error_text e)"

definition DecodeResponse ::
  "'v codec \<Rightarrow> httpresp \<Rightarrow> target \<Rightarrow> header \<times> int \<times> 'v delivered \<times> goerror option" where
  "DecodeResponse cd resp tgt =
     (if StatusCode resp = 204 then (rs_header resp, StatusCode resp, NoOutput, None)
      else if StatusCode resp \<ge> 300 then
        (case decode_err cd (rs_body resp) (Error (StatusCode resp) [] [] None) of
           Inr e \<Rightarrow>
             if Code e = [] then (rs_header resp, StatusCode resp, NoOutput, Some (OtherError (rs_body resp)))
             else (rs_header resp, StatusCode resp, NoOutput, Some (AsError e))
         | Inl _ \<Rightarrow> (rs_header resp, StatusCode resp, NoOutput, Some (OtherError (rs_body resp))))
      else (case tgt of
              ToWriter T werr \<Rightarrow>
                (case werr of
                   None \<Rightarrow> (rs_header resp, StatusCode resp, Copied (rs_body resp), None)
                 | Some e \<Rightarrow> (rs_header resp, StatusCode resp, NoOutput,
                              Some (with_message e (''unable to read body response to ('' @ T @ '') type''))))
            | ToValue T \<Rightarrow>
                (case decode_val cd (rs_body resp) of
                   Inr v \<Rightarrow> (rs_header resp, StatusCode resp, Decoded v, None)
                 | Inl e \<Rightarrow> (rs_header resp, StatusCode resp, NoOutput,
                              Some (with_message e (''unable to decode body response to ('' @ T @ '') type''))))))"

definition Client_Request ::
  "'w net \<Rightarrow> ('o \<Rightarrow> (goerror, string) result) \<Rightarrow> 'v codec \<Rightarrow> Client \<Rightarrow> callctx option \<Rightarrow> string \<Rightarrow>
   string list \<Rightarrow> string \<Rightarrow> 'o payload \<Rightarrow> target \<Rightarrow> 'w \<Rightarrow>
   ('w \<times> event list \<times> (unit, header \<times> int \<times> 'v delivered \<times> goerror option) result) option" where
  "Client_Request net marshal cd c ctx method hosts path requestBody tgt w =
     (case request_body marshal requestBody of
        Panic \<Rightarrow> Some (w, [], Panic)
      | Err e \<Rightarrow> Some (w, [], Ok ([], 0, NoOutput, Some e))
      | Ok b \<Rightarrow>
          map_option (\<lambda>(w', log, r).
              case r of
                Panic \<Rightarrow> (w', log, Panic)
              | Err e \<Rightarrow> (w', log, Ok ([], 0, NoOutput, Some (with_stack e)))
              | Ok resp \<Rightarrow> (w', log @ [BodyClosed], Ok (DecodeResponse cd resp tgt)))
            (executeRequest net c ctx method hosts path b w))"

definition Client_Head ::
  "'w net \<Rightarrow> Client \<Rightarrow> callctx option \<Rightarrow> string list \<Rightarrow> string \<Rightarrow> 'w \<Rightarrow>
   ('w \<times> event list \<times> (unit, header \<times> int \<times> goerror option) result) option" where
  "Client_Head net c ctx hosts path w =
     map_option (\<lambda>(w', log, r).
         case r of
           Panic \<Rightarrow> (w', log, Panic)
         | Err e \<Rightarrow> (w', log, Ok ([], 0, Some (with_stack e)))
         | Ok resp \<Rightarrow> (w', log @ [BodyClosed], Ok (rs_header resp, StatusCode resp, None)))
       (executeRequest net c ctx ''HEAD'' hosts path None w)"

section \<open>Headers in the context\<close>

definition PropagateHeadersFromRequest :: "callctx option \<Rightarrow> request \<Rightarrow> string list \<Rightarrow> callctx" where
  "PropagateHeadersFromRequest ctx r hs =
     (let values = fold (\<lambda>h m. let v = header_get (Header r) h in if v \<noteq> [] then mput h v m else m) hs [];
          ctx' = (case ctx of None \<Rightarrow> ctx_Background | Some x \<Rightarrow> x)
      in if length values > 0 then ctx'\<lparr>HTTPHeader := Some values\<rparr> else ctx')"

definition ctx_WithHeaders :: "callctx option \<Rightarrow> (string, string) gomap \<Rightarrow> callctx" where
  "ctx_WithHeaders ctx hs =
     (case ctx of None \<Rightarrow> ctx_Background | Some x \<Rightarrow> x)\<lparr>HTTPHeader := Some hs\<rparr>"

end
