(* ===== verification/RetriableFacts.thy ===== *)
theory RetriableFacts
  imports Retriable
begin

text \<open>
  What the retrying client guarantees: when it retries and when it does not, that under a
  policy with a budget it returns and how often it sends and how long it sleeps, that every
  attempt carries the whole body, and which host's answer a call returns.
\<close>

section \<open>Observations on the log\<close>

fun sents :: "event list \<Rightarrow> (string option \<times> header) list" where
  "sents [] = []"
| "sents (Sent b h # es) = (b, h) # sents es"
| "sents (_ # es) = sents es"

fun slept :: "event list \<Rightarrow> duration" where
  "slept [] = 0"
| "slept (Slept d # es) = d + slept es"
| "slept (_ # es) = slept es"

fun loop_event :: "event \<Rightarrow> bool" where
  "loop_event (Host h) = False"
| "loop_event BodyClosed = False"
| "loop_event e = True"

lemma sents_append [simp]: "sents (xs @ ys) = sents xs @ sents ys"
  by (induction xs rule: sents.induct) auto

lemma slept_append [simp]: "slept (xs @ ys) = slept xs + slept ys"
  by (induction xs rule: slept.induct) auto

section \<open>The decision\<close>

lemma ShouldRetry_True_iff:
  "ShouldRetry (Some p) cst r resp err retries = Ok (True, d, reason) \<longleftrightarrow>
     (case err of
        Some e \<Rightarrow> cst = CtxActive \<and> (rq_TLS r \<longrightarrow> (\<exists>rs. resp = Some rs \<and> rs_TLS rs)) \<and>
          (\<forall>s\<in>set nonRetriableErrors. \<not> contains_sub (error_text e) s) \<and>
          (\<exists>fn. mget (Retries p) 0 = Some fn \<and> fn r resp err retries = (True, d, reason))
      | None \<Rightarrow>
          (\<exists>rs. resp = Some rs \<and> (StatusCode rs = 429 \<or> StatusCode rs \<ge> 500) \<and> retries < TotalRetryLimit p \<and>
            (\<exists>fn. mget (Retries p) (StatusCode rs) = Some fn \<and> fn r resp err retries = (True, d, reason))))"
  by (cases cst) (auto simp: ShouldRetry_def StringContainsOneOf_iff split: option.splits)

section \<open>One pass of the loop\<close>

lemma do_loop_unfold:
  assumes "send net w (rewound req) = (w', n, resp, err)"
  shows "do_loop net p req retries w log =
    (let log' = log @ [Sent (map_option unread (rq_body (rewound req))) (rq_header (rewound req))]
     in case ShouldRetry p (ctx_Err net w' (rq_ctx (rewound req))) (rewound req) resp err retries of
          Ok (True, d, _) \<Rightarrow>
            do_loop net p (req\<lparr>body := map_option (advance n) (rq_body (rewound req)), httpRequest := rewound req\<rparr>)
              (retries + 1) w' (log' @ (if resp \<noteq> None then [Drained] else []) @ [Slept d])
        | Ok (False, _, _) \<Rightarrow> Some (w', log', Ok (resp, err))
        | _ \<Rightarrow> Some (w', log', Panic))"
  using assms
  by (subst do_loop.simps)
     (simp add: Let_def split: result.splits prod.splits bool.splits)

text \<open>A retry keeps the bytes of the body, their reader open, and the headers.\<close>

definition open_request :: "Request \<Rightarrow> bool" where
  "open_request a = (case body a of None \<Rightarrow> True | Some r \<Rightarrow> \<not> rd_closed r)"

definition next_request :: "Request \<Rightarrow> nat \<Rightarrow> Request" where
  "next_request req n =
     req\<lparr>body := map_option (advance n) (rq_body (rewound req)), httpRequest := rewound req\<rparr>"

definition whole :: "Request \<Rightarrow> string option \<times> header" where
  "whole req = (map_option rd_bytes (body req), rq_header (httpRequest req))"

lemma sent_whole:
  "open_request req \<Longrightarrow>
   (map_option unread (rq_body (rewound req)), rq_header (rewound req)) = whole req"
  by (auto simp: rewound_def seek_start_def unread_def whole_def open_request_def split: option.splits)

lemma next_request_open [simp]: "open_request req \<Longrightarrow> open_request (next_request req n)"
  by (auto simp: next_request_def rewound_def seek_start_def advance_def open_request_def split: option.splits)

lemma next_request_whole [simp]: "open_request req \<Longrightarrow> whole (next_request req n) = whole req"
  by (auto simp: next_request_def rewound_def seek_start_def advance_def whole_def open_request_def split: option.splits)

lemma rewound_ctx [simp]: "rq_ctx (rewound req) = rq_ctx (httpRequest req)" "rq_TLS (rewound req) = rq_TLS (httpRequest req)"
  by (simp_all add: rewound_def)

lemma do_loop_step:
  assumes "send net w (rewound req) = (w', n, resp, err)" and "open_request req"
  shows "do_loop net p req retries w log =
    (case ShouldRetry p (ctx_Err net w' (rq_ctx (httpRequest req))) (rewound req) resp err retries of
       Ok (True, d, _) \<Rightarrow>
         do_loop net p (next_request req n) (retries + 1) w'
           (log @ Sent (fst (whole req)) (snd (whole req)) # (if resp \<noteq> None then [Drained] else []) @ [Slept d])
     | Ok (False, _, _) \<Rightarrow> Some (w', log @ [Sent (fst (whole req)) (snd (whole req))], Ok (resp, err))
     | _ \<Rightarrow> Some (w', log @ [Sent (fst (whole req)) (snd (whole req))], Panic))"
  using assms sent_whole [OF assms(2), symmetric]
  by (simp add: do_loop_unfold next_request_def split: result.splits prod.splits bool.splits)

section \<open>Budgets\<close>

text \<open>The contract between a policy and the loop: the policy asks for a retry only while fewer
  than \<open>K\<close> were made, and then for a pause within \<open>wait\<close>.\<close>

locale retry_budget =
  fixes p :: "Policy option" and K :: nat and wait :: "nat \<Rightarrow> duration"
  assumes stops: "ShouldRetry p cst r resp err (int n) = Ok (True, d, reason) \<Longrightarrow> n < K \<and> d \<le> wait n"
    and wait_nonneg: "0 \<le> wait n"
begin

lemma budget_mono: "n < K \<Longrightarrow> sum wait {n..<K} = wait n + sum wait {Suc n..<K}"
  by (rule sum.atLeast_Suc_lessThan)

lemma returns:
  assumes "open_request req" and "n \<le> K"
  shows "\<exists>w' ext res k. do_loop net p req (int n) w log = Some (w', log @ ext, res) \<and>
    sents ext = replicate (Suc k) (whole req) \<and> n + k \<le> K \<and> slept ext \<le> sum wait {n..<K} \<and>
    list_all loop_event ext"
  using assms
proof (induction "K - n" arbitrary: n req w log rule: less_induct)
  case less
  obtain w1 b resp err where s: "send net w (rewound req) = (w1, b, resp, err)"
    by (metis prod_cases4)
  let ?sr = "ShouldRetry p (ctx_Err net w1 (rq_ctx (httpRequest req))) (rewound req) resp err (int n)"
  let ?stop = "\<lambda>res. do_loop net p req (int n) w log =
    Some (w1, log @ [Sent (fst (whole req)) (snd (whole req))], res)"
  have nonneg: "0 \<le> sum wait {n..<K}" by (simp add: sum_nonneg wait_nonneg)
  have stopped: ?case if "?stop res" for res
    using that nonneg less.prems by (intro exI conjI) (auto intro: exI [of _ "0 :: nat"])
  show ?case
  proof (cases "\<exists>d reason. ?sr = Ok (True, d, reason)")
    case True
    then obtain d reason where d: "?sr = Ok (True, d, reason)" by blast
    then have nK: "n < K" and dw: "d \<le> wait n" using stops by blast+
    let ?ev = "Sent (fst (whole req)) (snd (whole req)) # (if resp \<noteq> None then [Drained] else []) @ [Slept d]"
    obtain w' ext res k where ih:
      "do_loop net p (next_request req b) (int (Suc n)) w1 (log @ ?ev) = Some (w', (log @ ?ev) @ ext, res)"
      "sents ext = replicate (Suc k) (whole req)" "Suc n + k \<le> K" "slept ext \<le> sum wait {Suc n..<K}"
      "list_all loop_event ext"
      using less.hyps [of "Suc n" "next_request req b" w1 "log @ ?ev"] less.prems nK
      by (metis Suc_leI diff_less_mono2 lessI next_request_open next_request_whole)
    have "do_loop net p req (int n) w log = Some (w', log @ (?ev @ ext), res)"
      using ih(1) d by (simp add: do_loop_step [OF s less.prems(1)] add.commute)
    moreover have "sents (?ev @ ext) = replicate (Suc (Suc k)) (whole req)"
      using ih(2) by simp
    moreover have "slept (?ev @ ext) \<le> sum wait {n..<K}"
      using ih(4) dw budget_mono [OF nK] by simp
    moreover have "n + Suc k \<le> K" "list_all loop_event (?ev @ ext)" using ih(3,5) by simp_all
    ultimately show ?thesis by blast
  next
    case False
    then show ?thesis
      using stopped do_loop_step [OF s less.prems(1), of p "int n" log]
      by (cases ?sr) (auto split: prod.splits bool.splits)
  qed
qed

end

text \<open>The default policy: ten retries; at most two seconds before each of the first six, at most
  half a second before the others.\<close>

definition default_wait :: "nat \<Rightarrow> duration" where
  "default_wait n = (if n \<le> 5 then 2 * second else 500 * millisecond)"

lemma default_retries:
  "ShouldRetry (Some NewDefaultPolicy) cst r resp err n = Ok (True, d, reason) \<Longrightarrow>
   n < 10 \<and> d \<le> (if n \<le> 5 then 2 * second else 500 * millisecond)"
  by (auto simp: ShouldRetry_True_iff NewDefaultPolicy_def shouldRetryFactory_def
      split: option.splits if_splits)

interpretation default: retry_budget "Some NewDefaultPolicy" 10 default_wait
proof unfold_locales
  show "n < 10 \<and> d \<le> default_wait n"
    if "ShouldRetry (Some NewDefaultPolicy) cst r resp err (int n) = Ok (True, d, reason)"
    for cst r resp err n d reason
    using default_retries [OF that] by (simp add: default_wait_def split: if_splits)
qed (simp add: default_wait_def)

lemma default_total: "sum default_wait {0..<10} = 14 * second"
  by (simp add: default_wait_def sum.atLeast0_lessThan_Suc numeral_eq_Suc)

section \<open>Converting a request\<close>

lemma convertRequest_Ok:
  assumes "convertRequest net r = (caller, Ok req)"
  shows "open_request req \<and> fst (whole req) = map_option unread (rq_body r) \<and>
    rq_TLS (httpRequest req) = False \<and> rq_ctx (httpRequest req) = rq_ctx r"
  using assms
  by (auto simp: convertRequest_def NewRequest_def http_NewRequest_def read_all_def bind_result_def
      open_request_def whole_def bytes_NewReader_def unread_def Let_def
      split: option.splits result.splits prod.splits if_splits)

lemma convertRequest_no_panic:
  "parse_url net (rq_method r) (rq_url r) \<noteq> Panic \<Longrightarrow> snd (convertRequest net r) \<noteq> Panic"
  by (auto simp: convertRequest_def NewRequest_def http_NewRequest_def read_all_def bind_result_def Let_def
      split: option.splits result.splits prod.splits if_splits)

section \<open>Persistent outcomes\<close>

text \<open>A network that gives the same answer to every request, while the context stays active.\<close>

definition persistent :: "'w net \<Rightarrow> httpresp option \<Rightarrow> goerror option \<Rightarrow> bool" where
  "persistent net resp err \<longleftrightarrow>
     (\<forall>w r. snd (snd (send net w r)) = (resp, err)) \<and> (\<forall>w ctx. ctx_Err net w ctx = CtxActive)"

lemma persistentD:
  assumes "persistent net resp err"
  obtains w' n where "send net w r = (w', n, resp, err)" "ctx_Err net w' ctx = CtxActive"
  using assms by (metis persistent_def prod.collapse)

lemma do_loop_persistent:
  assumes "persistent net resp err" and "open_request req" and "n \<le> k"
    and again: "\<And>r i. n \<le> i \<Longrightarrow> i < k \<Longrightarrow> rq_TLS r = rq_TLS (httpRequest req) \<Longrightarrow>
      \<exists>reason. ShouldRetry p CtxActive r resp err (int i) = Ok (True, d, reason)"
    and last: "\<And>r. rq_TLS r = rq_TLS (httpRequest req) \<Longrightarrow>
      \<exists>d reason. ShouldRetry p CtxActive r resp err (int k) = Ok (False, d, reason)"
  shows "\<exists>w' ext. do_loop net p req (int n) w log = Some (w', log @ ext, Ok (resp, err)) \<and>
    sents ext = replicate (Suc (k - n)) (whole req) \<and> slept ext = int (k - n) * d"
  using assms(2-)
proof (induction "k - n" arbitrary: n req w log)
  case 0
  obtain w' b where s: "send net w (rewound req) = (w', b, resp, err)"
    "ctx_Err net w' (rq_ctx (httpRequest req)) = CtxActive"
    using persistentD [OF assms(1)] by metis
  obtain d' reason where "ShouldRetry p CtxActive (rewound req) resp err (int k) = Ok (False, d', reason)"
    using "0.prems"(4) [of "rewound req"] by auto
  with s 0 have "do_loop net p req (int n) w log =
      Some (w', log @ [Sent (fst (whole req)) (snd (whole req))], Ok (resp, err))"
    by (simp add: do_loop_step [OF s(1)])
  with 0 show ?case by auto
next
  case (Suc m)
  obtain w1 b where s: "send net w (rewound req) = (w1, b, resp, err)"
    "ctx_Err net w1 (rq_ctx (httpRequest req)) = CtxActive"
    using persistentD [OF assms(1)] by metis
  have nk: "n < k" and m: "m = k - Suc n" using Suc.hyps(2) by simp_all
  obtain reason where r: "ShouldRetry p CtxActive (rewound req) resp err (int n) = Ok (True, d, reason)"
    using Suc.prems(3) [of n "rewound req"] nk by auto
  let ?ev = "Sent (fst (whole req)) (snd (whole req)) # (if resp \<noteq> None then [Drained] else []) @ [Slept d]"
  have tls: "rq_TLS (httpRequest (next_request req b)) = rq_TLS (httpRequest req)"
    by (simp add: next_request_def)
  obtain w' ext where ih:
    "do_loop net p (next_request req b) (int (Suc n)) w1 (log @ ?ev) = Some (w', (log @ ?ev) @ ext, Ok (resp, err))"
    "sents ext = replicate (Suc (k - Suc n)) (whole req)" "slept ext = int (k - Suc n) * d"
    using Suc.hyps(1) [of "Suc n" "next_request req b" w1 "log @ ?ev"] Suc.prems m tls nk
    by fastforce
  have "Suc (k - Suc n) = k - n" using Suc.hyps(2) by simp
  moreover have "do_loop net p req (int n) w log = Some (w', log @ (?ev @ ext), Ok (resp, err))"
    using ih(1) r s(2) by (simp add: do_loop_step [OF s(1) Suc.prems(1)] add.commute)
  ultimately show ?case
    using ih(2,3) by (intro exI [of _ w'] exI [of _ "?ev @ ext"])
      (auto simp: algebra_simps)
qed

section \<open>Properties of Do\<close>

text \<open>The policy asks for a retry in two cases only. On a connection error: while the context is
  active, the error is none of the known permanent ones, and the function for status 0 agrees.
  On a response: when its status is 429 or at least 500, fewer than \<open>TotalRetryLimit\<close> retries
  were made, and the function for that status agrees. (The TLS test is on a field that
  client requests leave nil.)\<close>

theorem retry_decision:
  "ShouldRetry (Some p) cst r resp err retries = Ok (True, d, reason) \<longleftrightarrow>
     (case err of
        Some e \<Rightarrow> cst = CtxActive \<and> (rq_TLS r \<longrightarrow> (\<exists>rs. resp = Some rs \<and> rs_TLS rs)) \<and>
          (\<forall>s\<in>set nonRetriableErrors. \<not> contains_sub (error_text e) s) \<and>
          (\<exists>fn. mget (Retries p) 0 = Some fn \<and> fn r resp err retries = (True, d, reason))
      | None \<Rightarrow>
          (\<exists>rs. resp = Some rs \<and> (StatusCode rs = 429 \<or> StatusCode rs \<ge> 500) \<and> retries < TotalRetryLimit p \<and>
            (\<exists>fn. mget (Retries p) (StatusCode rs) = Some fn \<and> fn r resp err retries = (True, d, reason))))"
  by (rule ShouldRetry_True_iff)

definition demo_req :: httpreq where
  "demo_req = \<lparr>rq_method = ''GET'', rq_url = ''https://h/p'', rq_header = [], rq_body = None,
     rq_length = 0, rq_TLS = False, rq_ctx = ctx_Background\<rparr>"

theorem retry_decision_witness:
  "ShouldRetry (Some NewDefaultPolicy) CtxActive demo_req None (Some (OtherError ''connection refused'')) 5 =
     Ok (True, 2 * second, ''connection'')"
proof -
  have "\<forall>s\<in>set nonRetriableErrors. \<not> contains_sub ''connection refused'' s"
    by code_simp
  then show ?thesis
    by (subst retry_decision) (simp add: demo_req_def NewDefaultPolicy_def shouldRetryFactory_def)
qed

text \<open>C5. With the default policy \<open>Do\<close> always returns, whatever the network does: it sends the
  request at most eleven times, every time with the whole unread body of the caller's request
  and the same headers, and sleeps at most fourteen seconds in all. Response bodies of failed
  attempts are drained; none is closed.\<close>

theorem default_policy_returns:
  "\<exists>w' log caller res k h. Client_Do net (c\<lparr>cPolicy := Some NewDefaultPolicy\<rparr>) r w [] = Some (w', log, caller, res) \<and>
     k \<le> 11 \<and> sents log = replicate k (map_option unread (rq_body r), h) \<and>
     slept log \<le> 14 * second \<and> BodyClosed \<notin> set log"
proof (cases "convertRequest net r")
  case (Pair caller rq)
  show ?thesis
  proof (cases rq)
    case (Ok req)
    then have o: "open_request req" "fst (whole req) = map_option unread (rq_body r)"
      using convertRequest_Ok Pair by auto
    obtain w' ext res k where d: "do_loop net (Some NewDefaultPolicy) req 0 w [] = Some (w', ext, res)"
      "sents ext = replicate (Suc k) (whole req)" "k \<le> 10" "slept ext \<le> 14 * second" "list_all loop_event ext"
      using default.returns [OF o(1), of 0 net w "[]"] default_total by auto
    moreover have "BodyClosed \<notin> set ext" using d(5) by (auto simp: list_all_iff)
    moreover have "whole req = (map_option unread (rq_body r), snd (whole req))"
      using o(2) by (metis prod.collapse)
    ultimately show ?thesis
      using Pair Ok by (intro exI [of _ w'] exI [of _ ext] exI [of _ caller] exI [of _ res] exI [of _ "Suc k"]
          exI [of _ "snd (whole req)"]) (simp add: Client_Do_def)
  qed (use Pair in \<open>auto simp: Client_Do_def intro: exI [of _ "0 :: nat"]\<close>)
qed

text \<open>How often the default policy sends a request that keeps failing the same way, and its pause.\<close>

definition permanent :: "goerror \<Rightarrow> bool" where
  "permanent e = StringContainsOneOf (error_text e) nonRetriableErrors"

definition default_tries :: "httpresp option \<Rightarrow> goerror option \<Rightarrow> nat" where
  "default_tries resp err =
     (case err of
        Some e \<Rightarrow> if permanent e then 1 else 7
      | None \<Rightarrow>
          (case resp of
             None \<Rightarrow> 1
           | Some rs \<Rightarrow> if StatusCode rs = 429 then 5
                        else if StatusCode rs = 502 \<or> StatusCode rs = 503 then 11 else 1))"

definition default_pause :: "httpresp option \<Rightarrow> goerror option \<Rightarrow> duration" where
  "default_pause resp err =
     (case err of
        Some e \<Rightarrow> 2 * second
      | None \<Rightarrow> (case resp of Some rs \<Rightarrow> if StatusCode rs = 429 then second else 500 * millisecond
                | None \<Rightarrow> 0))"

lemma default_again:
  assumes "i < default_tries resp err - 1" and "\<not> rq_TLS r"
  shows "\<exists>reason. ShouldRetry (Some NewDefaultPolicy) CtxActive r resp err (int i) =
    Ok (True, default_pause resp err, reason)"
  using assms
  by (auto simp: ShouldRetry_def default_tries_def default_pause_def permanent_def NewDefaultPolicy_def
      shouldRetryFactory_def split: option.splits if_splits)

lemma default_last:
  assumes "err = None \<Longrightarrow> resp \<noteq> None" and "\<not> rq_TLS r"
  shows "\<exists>d reason. ShouldRetry (Some NewDefaultPolicy) CtxActive r resp err (int (default_tries resp err - 1)) =
    Ok (False, d, reason)"
  using assms
  by (auto simp: ShouldRetry_def default_tries_def permanent_def NewDefaultPolicy_def
      shouldRetryFactory_def split: option.splits if_splits)

text \<open>Against a network that keeps giving the same answer the default policy sends a request
  seven times on a connection error, five times on 429, eleven times on 502 and 503, and once
  on a permanent connection error and on every other status; each time with the whole body,
  with the fixed pause in between, and then returns that answer.\<close>

theorem default_policy_attempts:
  assumes "persistent net resp err" and "err = None \<Longrightarrow> resp \<noteq> None"
    and "convertRequest net r = (caller, Ok req)"
  shows "\<exists>w' log. Client_Do net (c\<lparr>cPolicy := Some NewDefaultPolicy\<rparr>) r w [] =
      Some (w', log, caller, Ok (resp, err)) \<and>
    sents log = replicate (default_tries resp err) (whole req) \<and>
    slept log = (int (default_tries resp err) - 1) * default_pause resp err"
proof -
  let ?k = "default_tries resp err - 1"
  have req: "open_request req" "\<not> rq_TLS (httpRequest req)"
    using convertRequest_Ok [OF assms(3)] by auto
  have pos: "default_tries resp err = Suc ?k"
    by (simp add: default_tries_def split: option.splits)
  obtain w' ext where "do_loop net (Some NewDefaultPolicy) req (int 0) w [] = Some (w', [] @ ext, Ok (resp, err))"
    "sents ext = replicate (Suc (?k - 0)) (whole req)" "slept ext = int (?k - 0) * default_pause resp err"
    using do_loop_persistent [OF assms(1) req(1), of 0 ?k "Some NewDefaultPolicy" "default_pause resp err" w "[]"]
      default_again [of _ resp err] default_last [OF assms(2)] req(2) by auto
  then show ?thesis
    using pos assms(3) by (auto simp: Client_Do_def)
qed

definition down :: "unit net" where
  "down = \<lparr>send = (\<lambda>w r. (w, 0, None, Some (OtherError ''connection refused''))),
           ctx_Err = (\<lambda>w c. CtxActive), parse_url = (\<lambda>m u. Ok u)\<rparr>"

definition demo_client :: Client where
  "demo_client = \<lparr>Timeout = 30 * second, Transport = None, headers = None, Name = ''demo'', cPolicy = None\<rparr>"

lemma persistent_down: "persistent down None (Some (OtherError ''connection refused''))"
  by (simp add: persistent_def down_def)

lemma down_tries: "default_tries None (Some (OtherError ''connection refused'')) = 7"
  by code_simp

theorem default_policy_attempts_witness:
  "\<exists>w' log. Client_Do down (demo_client\<lparr>cPolicy := Some NewDefaultPolicy\<rparr>) demo_req () [] =
      Some (w', log, None, Ok (None, Some (OtherError ''connection refused''))) \<and>
    length (sents log) = 7 \<and> slept log = 12 * second"
proof -
  obtain req where "convertRequest down demo_req = (None, Ok req)"
    by (auto simp: convertRequest_def down_def demo_req_def NewRequest_def http_NewRequest_def)
  from default_policy_attempts [OF persistent_down _ this, of demo_client "()"] show ?thesis
    by (auto simp: down_tries default_pause_def)
qed

text \<open>\<open>TotalRetryLimit\<close>, documented as the maximum number of retries, does not bound retries
  after connection errors: if the policy's function for status 0 always agrees, \<open>Do\<close> never
  returns while the host stays unreachable, for every value of the limit.\<close>

theorem limit_ignores_connection_errors:
  assumes "persistent net None (Some e)" and "\<not> permanent e"
    and "convertRequest net r = (caller, Ok req)"
    and "mget (Retries p) 0 = Some fn" and "\<And>r n. fst (fn r None (Some e) n)"
  shows "Client_Do net (c\<lparr>cPolicy := Some (p\<lparr>TotalRetryLimit := limit\<rparr>)\<rparr>) r w [] = None"
proof -
  let ?p = "Some (p\<lparr>TotalRetryLimit := limit\<rparr>)"
  let ?P = "\<lambda>net' p' rq (n :: int) w log y. net' = net \<longrightarrow> p' = ?p \<longrightarrow> rq_TLS (httpRequest rq)"
  have "?P net ?p rq n w log y" if "do_loop net ?p rq n w log = Some y" for rq n w log y
  proof (rule do_loop.raw_induct [where P = ?P, OF _ that])
    fix f net' p' rq n w log y
    assume ih: "\<And>net' p' rq n w log y. f net' p' rq n w log = Some y \<Longrightarrow> ?P net' p' rq n w log y"
      and eq: "(let r = rewound rq; (w', k, resp, err) = send net' w r;
          log' = log @ [Sent (map_option unread (rq_body r)) (rq_header r)];
          req' = rq\<lparr>body := map_option (advance k) (rq_body r), httpRequest := r\<rparr>
        in case ShouldRetry p' (ctx_Err net' w' (rq_ctx r)) r resp err n of
             Panic \<Rightarrow> Some (w', log', Panic) | Err e \<Rightarrow> Some (w', log', Panic)
           | Ok (shouldRetry, sleepDuration, reason) \<Rightarrow>
               if \<not> shouldRetry then Some (w', log', Ok (resp, err))
               else f net' p' req' (n + 1) w'
                 (log' @ (if resp \<noteq> None then [Drained] else []) @ [Slept sleepDuration])) = Some y"
    obtain w' b where s: "send net w (rewound rq) = (w', b, None, Some e)"
      "ctx_Err net w' (rq_ctx (httpRequest rq)) = CtxActive"
      using persistentD [OF assms(1)] by metis
    obtain d reason where f: "fn (rewound rq) None (Some e) n = (True, d, reason)"
      using assms(5) [of "rewound rq" n] by (cases "fn (rewound rq) None (Some e) n") auto
    show "?P net' p' rq n w log y"
    proof (intro impI, rule ccontr)
      assume "net' = net" "p' = ?p" and t: "\<not> rq_TLS (httpRequest rq)"
      moreover from t have "ShouldRetry ?p CtxActive (rewound rq) None (Some e) n = Ok (True, d, reason)"
        using f assms(2,4) by (simp add: ShouldRetry_def permanent_def)
      ultimately show False
        using eq s by (auto simp: Let_def dest: ih)
    qed
  qed
  then have "do_loop net ?p req 0 w [] = None"
    using convertRequest_Ok [OF assms(3)] by (cases "do_loop net ?p req 0 w []") auto
  then show ?thesis
    using assms(3) by (simp add: Client_Do_def)
qed

definition stubborn :: Policy where
  "stubborn = \<lparr>Retries = [(0, \<lambda>r resp err n. (True, second, ''again''))], TotalRetryLimit = 3, RequestTimeout = 0\<rparr>"

theorem limit_ignores_connection_errors_witness:
  "Client_Do down (demo_client\<lparr>cPolicy := Some (stubborn\<lparr>TotalRetryLimit := 0\<rparr>)\<rparr>) demo_req () [] = None"
proof -
  obtain req where "convertRequest down demo_req = (None, Ok req)"
    by (auto simp: convertRequest_def down_def demo_req_def NewRequest_def http_NewRequest_def)
  moreover have "\<not> permanent (OtherError ''connection refused'')" by code_simp
  ultimately show ?thesis
    by (intro limit_ignores_connection_errors [OF persistent_down]) (auto simp: stubborn_def)
qed

section \<open>Falling over to other hosts\<close>

definition many_keys :: "ManyError option \<Rightarrow> string set" where
  "many_keys m = (case Option.bind m Errors of None \<Rightarrow> {} | Some es \<Rightarrow> set (mkeys es))"

lemma mkeys_literal [simp]: "mkeys [] = []" "mkeys [(k, v)] = [k]"
  by (simp_all add: mkeys_def)

lemma many_keys_Add [simp]: "many_keys (Some (many_Add m h e)) = insert h (many_keys m)"
  by (auto simp: many_keys_def many_Add_def Let_def split: option.splits)

lemma many_keys_None [simp]: "many_keys None = {}"
  by (simp add: many_keys_def)

lemma host_failure_keys:
  "shouldTryDifferentHost resp err \<Longrightarrow> err \<noteq> None \<or> resp \<noteq> None \<Longrightarrow>
   many_keys (host_failure many m h path resp err) = insert h (many_keys many)"
  by (auto simp: host_failure_def shouldTryDifferentHost_def split: option.splits if_splits)

text \<open>A body that can be sent again to another host: none, or an in-memory reader.\<close>

definition resendable :: "reader option \<Rightarrow> bool" where
  "resendable b = (case b of None \<Rightarrow> True | Some r \<Rightarrow> \<not> rd_file r \<and> \<not> rd_closed r \<and> rd_err r = None)"

lemma resendable_seek [simp]: "resendable b \<Longrightarrow> resendable (map_option seek_start b)"
  by (auto simp: resendable_def seek_start_def split: option.splits)

lemma convertRequest_resendable:
  "convertRequest net r = (caller, x) \<Longrightarrow> resendable (rq_body r) \<Longrightarrow> resendable caller"
  by (auto simp: convertRequest_def resendable_def read_all_def close_body_def Let_def
      split: option.splits prod.splits if_splits)

lemma Client_Do_caller:
  "Client_Do net c r w log = Some (w', log', caller, res) \<Longrightarrow> caller = fst (convertRequest net r)"
  by (auto simp: Client_Do_def split: prod.splits result.splits)

lemma build_request_body [simp]: "rq_body (build_request c ctx req) = rq_body req"
  by (simp add: build_request_def Let_def)

lemma http_NewRequest_body: "http_NewRequest net m u b = Ok req \<Longrightarrow> rq_body req = b"
  by (auto simp: http_NewRequest_def go_simps)

lemma doHTTP_resendable:
  "doHTTP net c ctx m h path b w log = Some (w', log', b', res) \<Longrightarrow> resendable b \<Longrightarrow> resendable b'"
  by (auto simp: doHTTP_def http_NewRequest_body dest!: Client_Do_caller split: result.splits
      intro: convertRequest_resendable [OF surjective_pairing])

text \<open>The outcomes after which another host is tried.\<close>

definition needs_other :: "string \<times> httpresp option \<times> goerror option \<Rightarrow> bool" where
  "needs_other x = (case x of (_, resp, err) \<Rightarrow>
     err \<noteq> None \<or> (case resp of None \<Rightarrow> True | Some r \<Rightarrow> StatusCode r \<in> {429, 500, 503, 504}))"

lemma shouldTry_needs_other: "shouldTryDifferentHost resp err \<longleftrightarrow> needs_other (h, resp, err)"
  by (auto simp: shouldTryDifferentHost_def needs_other_def split: option.splits)

text \<open>The hosts tried and what \<open>doHTTP\<close> gave for each, one call after the other: every call finds the world and the rewound body as
  the call before it left them, so an outcome may depend on all that happened before.\<close>

fun outcomes ::
  "'w net \<Rightarrow> Client \<Rightarrow> callctx \<Rightarrow> string \<Rightarrow> string \<Rightarrow> string list \<Rightarrow> reader option \<Rightarrow> 'w \<Rightarrow> event list \<Rightarrow>
   (string \<times> httpresp option \<times> goerror option) list option" where
  "outcomes net c ctx m path [] b w log = Some []"
| "outcomes net c ctx m path (host # rest) b w log =
     (case doHTTP net c ctx m host path b w (log @ [Host host]) of
        Some (w', log', b', Ok (resp, err)) \<Rightarrow>
          if needs_other (host, resp, err)
          then map_option (Cons (host, resp, err))
                 (outcomes net c ctx m path rest (map_option seek_start b') w' (if err = None \<and> rest \<noteq> [] then log' @ [BodyClosed] else log'))
          else Some [(host, resp, err)]
      | _ \<Rightarrow> None)"

text \<open>Every call on a host returns, with a response or an error.\<close>

definition hosts_return :: "'w net \<Rightarrow> Client \<Rightarrow> callctx \<Rightarrow> string \<Rightarrow> string \<Rightarrow> string list \<Rightarrow> bool" where
  "hosts_return net c ctx m path hosts \<longleftrightarrow>
     (\<forall>h\<in>set hosts. \<forall>b w log. resendable b \<longrightarrow>
        (\<exists>w' log' b' resp err. doHTTP net c ctx m h path b w log = Some (w', log', b', Ok (resp, err)) \<and> (resp \<noteq> None \<or> err \<noteq> None)))"

lemma hosts_loop_outcomes:
  assumes "resendable b" and "hosts_return net c ctx m path hosts"
  shows "\<exists>w' log' many' outs fin. outcomes net c ctx m path hosts b w log = Some outs \<and>
    hosts_loop net c ctx m path hosts b many resp0 w log = Some (w', log', Ok (fin, many')) \<and>
    prefix (map fst outs) hosts \<and> list_all needs_other (butlast outs) \<and>
    (hosts = [] \<longrightarrow> fin = resp0 \<and> many' = many) \<and>
    (hosts \<noteq> [] \<longrightarrow> outs \<noteq> [] \<and> fin = fst (snd (last outs)) \<and>
       (needs_other (last outs) \<longrightarrow> map fst outs = hosts \<and> many_keys many' = many_keys many \<union> set hosts))"
  using assms
proof (induction hosts arbitrary: b many resp0 w log)
  case (Cons h rest)
  obtain w1 log1 b1 resp err where d: "doHTTP net c ctx m h path b w (log @ [Host h]) = Some (w1, log1, b1, Ok (resp, err))"
    and ne: "resp \<noteq> None \<or> err \<noteq> None"
    using Cons.prems unfolding hosts_return_def by (meson list.set_intros(1))
  show ?case
  proof (cases "needs_other (h, resp, err)")
    case False
    then have "\<not> shouldTryDifferentHost resp err" by (simp add: shouldTry_needs_other [of _ _ h])
    then show ?thesis using d ne False by (auto intro!: exI [of _ "[(h, resp, err)]"])
  next
    case True
    then have again: "shouldTryDifferentHost resp err" by (simp add: shouldTry_needs_other [of _ _ h])
    define closing where "closing = (err = None \<and> rest \<noteq> [])"
    define resp1 where "resp1 = (if closing then None else resp)"
    define log2 where "log2 = (if closing then log1 @ [BodyClosed] else log1)"
    define many1 where "many1 = host_failure many m h path resp err"
    have step: "hosts_loop net c ctx m path (h # rest) b many resp0 w log =
        hosts_loop net c ctx m path rest (map_option seek_start b1) many1 resp1 w1 log2"
      and out: "outcomes net c ctx m path (h # rest) b w log =
        map_option (Cons (h, resp, err)) (outcomes net c ctx m path rest (map_option seek_start b1) w1 log2)"
      using d ne True again by (auto simp: Let_def closing_def resp1_def log2_def many1_def)
    have ret: "hosts_return net c ctx m path rest" using Cons.prems(2) by (simp add: hosts_return_def)
    from Cons.IH [OF resendable_seek [OF doHTTP_resendable [OF d Cons.prems(1)]] ret, of w1 log2 many1 resp1]
    obtain w' log' many' outs fin where ih: "outcomes net c ctx m path rest (map_option seek_start b1) w1 log2 = Some outs"
      "hosts_loop net c ctx m path rest (map_option seek_start b1) many1 resp1 w1 log2 = Some (w', log', Ok (fin, many'))"
      "prefix (map fst outs) rest" "list_all needs_other (butlast outs)" "rest = [] \<longrightarrow> fin = resp1 \<and> many' = many1"
      "rest \<noteq> [] \<longrightarrow> outs \<noteq> [] \<and> fin = fst (snd (last outs)) \<and>
         (needs_other (last outs) \<longrightarrow> map fst outs = rest \<and> many_keys many' = many_keys many1 \<union> set rest)"
      by (elim exE conjE) (rule that; assumption)
    have keys: "many_keys many1 = insert h (many_keys many)"
      unfolding many1_def by (rule host_failure_keys [OF again]) (use ne in blast)
    let ?outs = "(h, resp, err) # outs"
    have "prefix (map fst ?outs) (h # rest)" "list_all needs_other (butlast ?outs)"
      using ih(3,4) True by simp_all
    moreover have "fin = fst (snd (last ?outs)) \<and>
        (needs_other (last ?outs) \<longrightarrow> map fst ?outs = h # rest \<and> many_keys many' = many_keys many \<union> set (h # rest))"
    proof (cases "rest = []")
      case True
      then show ?thesis using ih(3,5) keys by (simp add: resp1_def closing_def)
    next
      case False
      then show ?thesis using ih(6) keys by simp
    qed
    ultimately show ?thesis
      unfolding step out using ih(1,2) by simp
  qed
qed simp

text \<open>C23. A call to several hosts tries them in order until one needs no other host (a response that is none of 429, 500, 503 and
  504); each outcome may depend on all calls before it. The last response obtained is returned: that of the first host that
  needs no other, or, when all hosts do, that of the last host, whatever its status. If the last host gave no response either, the
  error lists exactly the hosts; for an empty list of hosts it is a nil \<open>*ManyError\<close>, a non-nil error whose text is \<open>nil\<close>.\<close>

theorem executeRequest_failover:
  assumes "resendable b" and "hosts_return net c (ensureContext c ctx) m path hosts"
  shows "\<exists>w' log res outs. executeRequest net c ctx m hosts path b w = Some (w', log, res) \<and>
    outcomes net c (ensureContext c ctx) m path hosts b w [] = Some outs \<and>
    prefix (map fst outs) hosts \<and> list_all needs_other (butlast outs) \<and>
    (if hosts = [] then res = Err (AsMany None) \<and> error_text (AsMany None) = ''nil''
     else outs \<noteq> [] \<and> (needs_other (last outs) \<longrightarrow> map fst outs = hosts) \<and>
       (case fst (snd (last outs)) of
          Some resp \<Rightarrow> res = Ok resp
        | None \<Rightarrow> \<exists>many. res = Err (AsMany many) \<and> many_keys many = set hosts))"
proof -
  from hosts_loop_outcomes [OF assms, of w "[]" None None]
  obtain w' log' many' outs fin where o: "outcomes net c (ensureContext c ctx) m path hosts b w [] = Some outs"
    "hosts_loop net c (ensureContext c ctx) m path hosts b None None w [] = Some (w', log', Ok (fin, many'))"
    "prefix (map fst outs) hosts" "list_all needs_other (butlast outs)" "hosts = [] \<longrightarrow> fin = None \<and> many' = None"
    "hosts \<noteq> [] \<longrightarrow> outs \<noteq> [] \<and> fin = fst (snd (last outs)) \<and>
       (needs_other (last outs) \<longrightarrow> map fst outs = hosts \<and> many_keys many' = many_keys None \<union> set hosts)"
    by (elim exE conjE) (rule that; assumption)
  have none: "fst (snd (last outs)) = None \<Longrightarrow> needs_other (last outs)" by (auto simp: needs_other_def split: prod.splits)
  let ?res = "case fin of Some resp \<Rightarrow> Ok resp | None \<Rightarrow> Err (AsMany many')"
  have x: "executeRequest net c ctx m hosts path b w = Some (w', log', ?res)"
    by (simp add: executeRequest_def o(2) split: option.split)
  show ?thesis
  proof (cases "hosts = []")
    case True
    then show ?thesis using x o(1,3-5) by (simp add: ManyError_text_def)
  next
    case False
    note l = o(6) [rule_format, OF False]
    have "case fst (snd (last outs)) of Some resp \<Rightarrow> ?res = Ok resp
        | None \<Rightarrow> \<exists>many. ?res = Err (AsMany many) \<and> many_keys many = set hosts"
      using l none by (simp split: option.split)
    moreover have "outs \<noteq> []" "needs_other (last outs) \<longrightarrow> map fst outs = hosts" using l by blast+
    ultimately show ?thesis unfolding if_not_P [OF False] using x o(1,3,4) by blast
  qed
qed

definition answers :: "string \<Rightarrow> httpresp" where
  "answers u = (if u = ''https://a/p''
     then \<lparr>StatusCode = 504, Status = ''504 Gateway Timeout'', rs_header = [], rs_body = [], rs_TLS = False\<rparr>
     else \<lparr>StatusCode = 200, Status = ''200 OK'', rs_header = [], rs_body = ''ok'', rs_TLS = False\<rparr>)"

definition two_hosts :: "unit net" where
  "two_hosts = \<lparr>send = (\<lambda>w r. (w, 0, Some (answers (rq_url r)), None)),
     ctx_Err = (\<lambda>w c. CtxActive), parse_url = (\<lambda>m u. Ok u)\<rparr>"

lemma two_hosts_answer:
  assumes "resendable b" and "h \<in> set [''https://a'', ''https://b'']"
  shows "\<exists>w' log' b'. doHTTP two_hosts (demo_client\<lparr>cPolicy := Some NewDefaultPolicy\<rparr>) ctx ''GET'' h ''/p'' b w log =
    Some (w', log', b', Ok (Some (answers (h @ ''/p'')), None))"
proof -
  have "h = ''https://a'' \<or> h = ''https://b''"
    using assms(2) by simp
  then have stop: "ShouldRetry (Some NewDefaultPolicy) CtxActive r (Some (answers (h @ ''/p''))) None 0 =
      Ok (False, 0, if h = ''https://a'' then ''non-retriable'' else ''success'')" for r
    by (elim disjE) (simp_all add: ShouldRetry_def answers_def NewDefaultPolicy_def)
  have loop: "\<exists>log'. do_loop two_hosts (Some NewDefaultPolicy) req 0 w log =
      Some (w, log', Ok (Some (answers (h @ ''/p'')), None))"
    if "rq_url (httpRequest req) = h @ ''/p''" for req log
  proof -
    have "rq_url (rewound req) = h @ ''/p''" using that by (simp add: rewound_def)
    then have s: "send two_hosts w (rewound req) = (w, 0, Some (answers (h @ ''/p'')), None)"
      by (simp add: two_hosts_def)
    show ?thesis
      by (subst do_loop_unfold [OF s]) (simp add: two_hosts_def stop Let_def)
  qed
  obtain req caller where "convertRequest two_hosts (build_request (demo_client\<lparr>cPolicy := Some NewDefaultPolicy\<rparr>) ctx
      \<lparr>rq_method = ''GET'', rq_url = h @ ''/p'', rq_header = [], rq_body = b, rq_length = 0, rq_TLS = False,
       rq_ctx = ctx_Background\<rparr>) = (caller, Ok req)" "rq_url (httpRequest req) = h @ ''/p''"
    using assms(1) by (cases b) (auto simp: http_NewRequest_def two_hosts_def convertRequest_def NewRequest_def
        build_request_def read_all_def resendable_def Let_def)
  then show ?thesis
    using loop [of req log] by (auto simp: doHTTP_def http_NewRequest_def two_hosts_def Client_Do_def)
qed

theorem executeRequest_failover_witness:
  "\<exists>w' log. executeRequest two_hosts (demo_client\<lparr>cPolicy := Some NewDefaultPolicy\<rparr>) None ''GET''
     [''https://a'', ''https://b''] ''/p'' (Some (bytes_NewReader ''body'')) () =
     Some (w', log, Ok (answers ''https://b/p''))"
proof -
  let ?c = "demo_client\<lparr>cPolicy := Some NewDefaultPolicy\<rparr>" and ?hs = "[''https://a'', ''https://b'']"
  let ?b = "Some (bytes_NewReader ''body'')" and ?x = "ensureContext (demo_client\<lparr>cPolicy := Some NewDefaultPolicy\<rparr>) None"
  have b: "resendable ?b" by (simp add: resendable_def bytes_NewReader_def)
  have r: "hosts_return two_hosts ?c ?x ''GET'' ''/p'' ?hs"
    unfolding hosts_return_def using two_hosts_answer by (metis option.distinct(1))
  have other: "needs_other (''https://a'', Some (answers ''https://a/p''), None)" "\<not> needs_other (''https://b'', Some (answers ''https://b/p''), None)"
    by (simp_all add: needs_other_def answers_def)
  obtain w1 log1 b1 where 1: "doHTTP two_hosts ?c ?x ''GET'' ''https://a'' ''/p'' ?b () [Host ''https://a''] =
      Some (w1, log1, b1, Ok (Some (answers ''https://a/p''), None))"
    using two_hosts_answer [OF b, of "''https://a''" ?x "()" "[Host ''https://a'']"] that by auto
  have b1: "resendable (map_option seek_start b1)" using doHTTP_resendable [OF 1 b] by simp
  have 2: "\<exists>w2 log2 b2. doHTTP two_hosts ?c ?x ''GET'' ''https://b'' ''/p'' (map_option seek_start b1) w log =
      Some (w2, log2, b2, Ok (Some (answers ''https://b/p''), None))" for w log
    using two_hosts_answer [OF b1, of "''https://b''"] by auto
  obtain w2 log2 b2 where "doHTTP two_hosts ?c ?x ''GET'' ''https://b'' ''/p'' (map_option seek_start b1) w1 (log1 @ [BodyClosed, Host ''https://b'']) =
      Some (w2, log2, b2, Ok (Some (answers ''https://b/p''), None))"
    using 2 by blast
  then have "outcomes two_hosts ?c ?x ''GET'' ''/p'' ?hs ?b () [] =
      Some [(''https://a'', Some (answers ''https://a/p''), None), (''https://b'', Some (answers ''https://b/p''), None)]"
    using 1 other by simp
  with executeRequest_failover [OF b r, of "()"] show ?thesis by auto
qed

lemma do_loop_log:
  assumes "do_loop net p req n w log = Some (w', log', res)"
  shows "\<exists>ext. log' = log @ ext \<and> list_all loop_event ext"
proof -
  have "\<exists>ext. fst (snd y) = log @ ext \<and> list_all loop_event ext"
    if "do_loop net p req n w log = Some y" for y
    by (rule do_loop.raw_induct [where P = "\<lambda>_ _ _ _ _ log y. \<exists>ext. fst (snd y) = log @ ext \<and> list_all loop_event ext",
          OF _ that])
       (fastforce simp: Let_def split: prod.splits result.splits if_splits)
  then show ?thesis using assms by fastforce
qed

lemma doHTTP_file:
  assumes "doHTTP net c ctx m h path (Some f) w log = Some (w', log', b', res)"
    and "rd_file f" and ok: "\<And>m u. is_Ok (parse_url net m u)"
  shows "\<exists>f' ext. b' = Some f' \<and> rd_closed f' \<and> log' = log @ ext \<and> list_all loop_event ext \<and>
    (rd_closed f \<longrightarrow> ext = [] \<and> (\<exists>e. res = Ok (None, Some e)))"
proof -
  obtain req where r: "http_NewRequest net m (h @ path) (Some f) = Ok req" "rq_body req = Some f"
    using ok [of m "h @ path"] by (auto simp: http_NewRequest_def is_Ok_iff)
  let ?r = "build_request c ctx req"
  have d: "Client_Do net c ?r w log = Some (w', log', b', res)"
    using assms(1) r by (simp add: doHTTP_def)
  have "b' = fst (convertRequest net ?r)" by (rule Client_Do_caller [OF d])
  moreover have "\<exists>f'. fst (convertRequest net ?r) = Some f' \<and> rd_closed f'"
    using r(2) assms(2) by (auto simp: convertRequest_def read_all_def close_body_def Let_def split: prod.splits)
  moreover have "rd_closed f \<Longrightarrow> \<exists>e. snd (convertRequest net ?r) = Err e"
    using r(2) by (auto simp: convertRequest_def read_all_def Let_def)
  moreover have "\<exists>ext. log' = log @ ext \<and> list_all loop_event ext"
    using d by (auto simp: Client_Do_def dest: do_loop_log split: prod.splits result.splits)
  ultimately show ?thesis
    using d by (auto simp: Client_Do_def split: prod.splits result.splits)
qed

lemma hosts_loop_closed:
  assumes "hosts_loop net c ctx m path hosts (Some f) many resp w log = Some (w', log', res)"
    and "rd_file f" and "rd_closed f" and ok: "\<And>m u. is_Ok (parse_url net m u)"
  shows "log' = log @ map Host hosts"
  using assms(1-3)
proof (induction hosts arbitrary: f many resp w log)
  case (Cons h hosts)
  obtain w1 log1 b1 r1 where d: "doHTTP net c ctx m h path (Some f) w (log @ [Host h]) = Some (w1, log1, b1, r1)"
    using Cons.prems(1) by (cases "doHTTP net c ctx m h path (Some f) w (log @ [Host h])") auto
  obtain f' e where f': "b1 = Some f'" "rd_closed f'" "log1 = log @ [Host h]" "r1 = Ok (None, Some e)"
    using doHTTP_file [OF d Cons.prems(2) ok] Cons.prems(3) by auto
  have "rd_file f'"
  proof -
    have "b1 = fst (convertRequest net r) \<Longrightarrow> rq_body r = Some f \<Longrightarrow> rd_file f'" for r
      using f'(1) Cons.prems(2) by (auto simp: convertRequest_def read_all_def close_body_def Let_def split: prod.splits if_splits)
    then show ?thesis
      using d f'(1) Cons.prems(2) by (auto simp: doHTTP_def http_NewRequest_body dest!: Client_Do_caller split: result.splits)
  qed
  moreover have "seek_start f' = f'" using f'(2) by (simp add: seek_start_def)
  ultimately show ?case
    using Cons.prems(1) d f' Cons.IH [of f' "host_failure many m h path None (Some e)" None w1 log1]
    by (simp add: shouldTryDifferentHost_def)
qed simp

text \<open>A request body that is an \<open>os.File\<close> reaches one host only: converting the first request
  closes the file, so rewinding it fails silently, and every further host is recorded as
  failed without anything being sent to it.\<close>

theorem file_body_reaches_one_host:
  assumes "executeRequest net c ctx m (h # rest) path (Some f) w = Some (w', log, res)"
    and "rd_file f" and "\<And>m u. is_Ok (parse_url net m u)"
  shows "\<exists>ext tried. log = Host h # ext @ map Host tried \<and> (tried = [] \<or> tried = rest) \<and>
    (\<forall>h'. Host h' \<notin> set ext)"
proof -
  let ?ctx = "ensureContext c ctx"
  obtain res' where l: "hosts_loop net c ?ctx m path (h # rest) (Some f) None None w [] = Some (w', log, res')"
    using assms(1) by (auto simp: executeRequest_def)
  then obtain w1 log1 b1 r1 where d: "doHTTP net c ?ctx m h path (Some f) w [Host h] = Some (w1, log1, b1, r1)"
    by (cases "doHTTP net c ?ctx m h path (Some f) w [Host h]") auto
  obtain f' ext where f': "b1 = Some f'" "rd_closed f'" "log1 = [Host h] @ ext" "list_all loop_event ext"
    using doHTTP_file [OF d assms(2,3)] by auto
  have nohost: "\<forall>h'. Host h' \<notin> set (ext @ extra)" if "extra = [] \<or> extra = [BodyClosed]" for extra
    using f'(4) that by (auto simp: list_all_iff)
  have isf: "rd_file f'"
    using d f'(1) assms(2) by (auto simp: doHTTP_def http_NewRequest_body convertRequest_def read_all_def close_body_def
        Let_def dest!: Client_Do_caller split: result.splits prod.splits if_splits)
  have seek: "seek_start f' = f'" using f'(2) by (simp add: seek_start_def)
  have fin: "log = log1 \<or> (\<exists>extra. (extra = [] \<or> extra = [BodyClosed]) \<and> log = (log1 @ extra) @ map Host rest)"
    using l d f'(1) seek
    by (auto simp: Let_def dest!: hosts_loop_closed [OF _ isf f'(2) assms(3)]
        split: result.splits prod.splits if_splits)
  then consider "log = log1"
    | extra where "extra = [] \<or> extra = [BodyClosed]" "log = (log1 @ extra) @ map Host rest"
    by blast
  then show ?thesis
  proof cases
    case 1
    with f'(3) nohost [of "[]"] show ?thesis by (intro exI [of _ ext] exI [of _ "[]"]) simp
  next
    case (2 extra)
    with f'(3) nohost [of extra] show ?thesis by (intro exI [of _ "ext @ extra"] exI [of _ rest]) simp
  qed
qed

definition demo_file :: reader where
  "demo_file = \<lparr>rd_bytes = ''body'', rd_pos = 0, rd_err = None, rd_file = True, rd_closed = False\<rparr>"

definition demo_call :: "(unit \<times> event list \<times> (goerror, httpresp) result) option" where
  "demo_call = executeRequest two_hosts (demo_client\<lparr>cPolicy := Some NewDefaultPolicy\<rparr>) None ''POST''
     [''https://a'', ''https://b''] ''/p'' (Some demo_file) ()"

theorem file_body_reaches_one_host_witness:
  "\<exists>res ext. demo_call = Some ((), [Host ''https://a'', Sent (Some ''body'') [], BodyClosed, Host ''https://b''], res) \<and>
     [Host ''https://a'', Sent (Some ''body'') [], BodyClosed, Host ''https://b''] =
       Host ''https://a'' # ext @ map Host [''https://b''] \<and> (\<forall>h'. Host h' \<notin> set ext)"
proof -
  have "map_option (\<lambda>(w, log, res). log) demo_call =
      Some [Host ''https://a'', Sent (Some ''body'') [], BodyClosed, Host ''https://b'']"
    by code_simp
  then obtain res where e: "demo_call =
      Some ((), [Host ''https://a'', Sent (Some ''body'') [], BodyClosed, Host ''https://b''], res)"
    by auto
  moreover have "rd_file demo_file" by (simp add: demo_file_def)
  moreover have "is_Ok (parse_url two_hosts m u)" for m u by (simp add: two_hosts_def)
  ultimately obtain ext tried where
    "[Host ''https://a'', Sent (Some ''body'') [], BodyClosed, Host ''https://b''] = Host ''https://a'' # ext @ map Host tried"
    "tried = [] \<or> tried = [''https://b'']" "\<forall>h'. Host h' \<notin> set ext"
    using file_body_reaches_one_host [of two_hosts _ None "''POST''" "''https://a''" "[''https://b'']" "''/p''" demo_file]
    unfolding demo_call_def by metis
  then show ?thesis using e by (auto simp: Cons_eq_append_conv)
qed

end
