(* ===== verification/Metrics.thy ===== *)
theory Metrics
  imports GoStrings
begin

text \<open>
  The package \<open>metrics\<close>, the part in front of the sinks (\<open>metrics.go\<close>, \<open>start.go\<close>, \<open>sink.go\<close>):
  building the key and the tags of a metric, the prefix and label filters, the runtime
  collector, and the sink interface. Metric values are of a type \<open>'f\<close> (Go's \<open>float32\<close>), whose
  conversions are arguments. The immutable radix tree of the filter is third-party code and
  an argument too. Variadic tags and keys are slices that may share the caller's array, and
  the code writes to them in place, so slices carry what becomes of the caller's array.
\<close>

section \<open>Slices that share the caller's array\<close>

text \<open>The elements, the free capacity behind them, whether the array is still the caller's, and
  what the caller sees in its own slice.\<close>

record 'a gslice =
  elems :: "'a list"
  spare :: nat
  shared :: bool
  caller :: "'a list"

definition passed :: "'a list \<Rightarrow> nat \<Rightarrow> 'a gslice" where
  "passed xs cap = \<lparr>elems = xs, spare = cap, shared = True, caller = xs\<rparr>"

definition go_append :: "'a gslice \<Rightarrow> 'a list \<Rightarrow> 'a gslice" where
  "go_append s xs =
     (if length xs \<le> spare s then s\<lparr>elems := elems s @ xs, spare := spare s - length xs\<rparr>
      else s\<lparr>elems := elems s @ xs, spare := 0, shared := False\<rparr>)"

text \<open>What writing the elements \<open>ys\<close> to the front of the array shows the caller.\<close>

definition overlay :: "'a list \<Rightarrow> 'a gslice \<Rightarrow> 'a gslice" where
  "overlay ys s =
     s\<lparr>caller := (if shared s then take (length (caller s)) (ys @ drop (length ys) (caller s)) else caller s)\<rparr>"

text \<open>\<open>insert\<close>: append one element, shift the tail, store.\<close>

definition insert_at :: "nat \<Rightarrow> 'a \<Rightarrow> 'a \<Rightarrow> 'a gslice \<Rightarrow> 'a gslice" where
  "insert_at i v zero s =
     (let s' = go_append s [zero];
          ys = take i (elems s) @ v # drop i (elems s)
      in (overlay ys s')\<lparr>elems := ys\<rparr>)"

section \<open>Configuration\<close>

record Tag =
  TagName :: string
  TagValue :: string

record MetricsConfig =
  ServiceName :: string
  HostName :: string
  EnableHostname :: bool
  EnableHostnameLabel :: bool
  EnableServiceLabel :: bool
  EnableRuntimeMetrics :: bool
  EnableTypePrefix :: bool
  TimerGranularity :: duration
  ProfileInterval :: duration
  GlobalTags :: "Tag list"
  GlobalPrefix :: string
  AllowedPrefixes :: "string list"
  BlockedPrefixes :: "string list"
  AllowedLabels :: "string list option"
  BlockedLabels :: "string list option"
  FilterDefault :: bool

record 't Metrics =
  mconfig :: MetricsConfig
  lastNumGC :: uint32
  filter_tree :: "'t option"
  allowedLabels :: "(string, bool) gomap option"
  blockedLabels :: "(string, bool) gomap option"

definition DefaultConfig :: "string \<Rightarrow> string \<Rightarrow> MetricsConfig" where
  "DefaultConfig osHostname serviceName =
     \<lparr>ServiceName = serviceName, HostName = osHostname, EnableHostname = False, EnableHostnameLabel = False,
      EnableServiceLabel = False, EnableRuntimeMetrics = True, EnableTypePrefix = False,
      TimerGranularity = millisecond, ProfileInterval = second, GlobalTags = [], GlobalPrefix = [],
      AllowedPrefixes = [], BlockedPrefixes = [], AllowedLabels = None, BlockedLabels = None,
      FilterDefault = True\<rparr>"

section \<open>Filters\<close>

text \<open>\<open>go-immutable-radix\<close>: a tree of byte strings with values. \<open>rx_longest\<close> is \<open>LongestPrefix\<close>.\<close>

record 't radix =
  rx_new :: 't
  rx_insert :: "'t \<Rightarrow> string \<Rightarrow> bool \<Rightarrow> 't"
  rx_len :: "'t \<Rightarrow> nat"
  rx_longest :: "'t \<Rightarrow> string \<Rightarrow> (string \<times> bool) option"

definition label_set :: "string list \<Rightarrow> (string, bool) gomap" where
  "label_set ls = fold (\<lambda>v m. mput v True m) ls []"

definition UpdateFilterAndLabels ::
  "'t radix \<Rightarrow> string list \<Rightarrow> string list \<Rightarrow> string list option \<Rightarrow> string list option \<Rightarrow> 't Metrics \<Rightarrow> 't Metrics" where
  "UpdateFilterAndLabels rx allow block allowed blocked m =
     (let t = fold (\<lambda>p t. rx_insert rx t p True) allow (rx_new rx);
          t = fold (\<lambda>p t. rx_insert rx t p False) block t
      in m\<lparr>mconfig := (mconfig m)\<lparr>AllowedPrefixes := allow, BlockedPrefixes := block,
                                  AllowedLabels := allowed, BlockedLabels := blocked\<rparr>,
           allowedLabels := map_option label_set allowed,
           blockedLabels := Some (label_set (case blocked of None \<Rightarrow> [] | Some b \<Rightarrow> b)),
           filter_tree := Some t\<rparr>)"

definition UpdateFilter :: "'t radix \<Rightarrow> string list \<Rightarrow> string list \<Rightarrow> 't Metrics \<Rightarrow> 't Metrics" where
  "UpdateFilter rx allow block m =
     UpdateFilterAndLabels rx allow block (AllowedLabels (mconfig m)) (BlockedLabels (mconfig m)) m"

definition labelIsAllowed :: "'t Metrics \<Rightarrow> Tag \<Rightarrow> bool" where
  "labelIsAllowed m label =
     (if (case blockedLabels m of Some b \<Rightarrow> mget b (TagName label) \<noteq> None | None \<Rightarrow> False) then False
      else case allowedLabels m of
             Some a \<Rightarrow> mget a (TagName label) \<noteq> None
           | None \<Rightarrow> True)"

text \<open>\<open>filterLabels\<close> collects into \<open>tags[:0]\<close>, the array of its argument.\<close>

fun filter_loop :: "'t Metrics \<Rightarrow> Tag list \<Rightarrow> Tag list \<Rightarrow> Tag list" where
  "filter_loop m [] acc = acc"
| "filter_loop m (l # ls) acc = filter_loop m ls (if labelIsAllowed m l then acc @ [l] else acc)"

definition filterLabels :: "'t Metrics \<Rightarrow> Tag gslice \<Rightarrow> Tag gslice" where
  "filterLabels m tags =
     (let ret = filter_loop m (elems tags) []
      in (overlay ret tags)\<lparr>elems := ret\<rparr>)"

definition allowMetric :: "'t radix \<Rightarrow> 't Metrics \<Rightarrow> string list \<Rightarrow> Tag gslice \<Rightarrow> bool \<times> Tag gslice" where
  "allowMetric rx m key tags =
     (case filter_tree m of
        None \<Rightarrow> (FilterDefault (mconfig m), filterLabels m tags)
      | Some t \<Rightarrow>
          if rx_len rx t = 0 then (FilterDefault (mconfig m), filterLabels m tags)
          else (case rx_longest rx t (join ''.'' key) of
                  None \<Rightarrow> (FilterDefault (mconfig m), filterLabels m tags)
                | Some (_, allowed) \<Rightarrow> (allowed, filterLabels m tags)))"

definition prepare ::
  "'t radix \<Rightarrow> 't Metrics \<Rightarrow> string \<Rightarrow> string gslice \<Rightarrow> Tag gslice \<Rightarrow> bool \<times> string gslice \<times> Tag gslice" where
  "prepare rx m typ key tags =
     (let c = mconfig m;
          tags = (if GlobalTags c \<noteq> [] then go_append tags (GlobalTags c) else tags);
          (key, tags) =
            (if HostName c \<noteq> [] then
               if EnableHostnameLabel c then (key, go_append tags [\<lparr>TagName = ''host'', TagValue = HostName c\<rparr>])
               else if EnableHostname c then (insert_at 0 (HostName c) [] key, tags)
               else (key, tags)
             else (key, tags));
          key = (if EnableTypePrefix c then insert_at 0 typ [] key else key);
          (key, tags) =
            (if ServiceName c \<noteq> [] then
               if EnableServiceLabel c then (key, go_append tags [\<lparr>TagName = ''service'', TagValue = ServiceName c\<rparr>])
               else (insert_at 0 (ServiceName c) [] key, tags)
             else (key, tags));
          key = (if GlobalPrefix c \<noteq> [] then insert_at 0 (GlobalPrefix c) [] key else key);
          (allowed, labels) = allowMetric rx m (elems key) tags
      in (allowed, key, labels))"

section \<open>Sinks\<close>

datatype kind = Gauge | Counter | Sample

record 'f call =
  ckind :: kind
  ckey :: "string list"
  cval :: 'f
  ctags :: "Tag list"

text \<open>A sink handles a call on a state; it may panic, and it may write to the array of the key, so
  it returns what is in that array afterwards.\<close>

type_synonym ('f, 's) sink = "'f call \<Rightarrow> 's \<Rightarrow> (unit, 's \<times> string list) result"

definition BlackholeSink :: "('f, 's) sink" where
  "BlackholeSink = (\<lambda>cl s. Ok (s, ckey cl))"

text \<open>All sinks of a fan-out get the same key slice.\<close>

fun FanoutSink :: "('f, 's) sink list \<Rightarrow> ('f, 's) sink" where
  "FanoutSink [] cl s = Ok (s, ckey cl)"
| "FanoutSink (fh # fhs) cl s =
     bind_result (fh cl s) (\<lambda>(s', key'). FanoutSink fhs (cl\<lparr>ckey := key'\<rparr>) s')"

text \<open>The three emitting methods differ in the type prefix and the sink's method only.\<close>

definition emit ::
  "'t radix \<Rightarrow> ('f, 's) sink \<Rightarrow> string \<Rightarrow> kind \<Rightarrow> 't Metrics \<Rightarrow> string gslice \<Rightarrow> 'f \<Rightarrow> Tag gslice \<Rightarrow> 's \<Rightarrow>
   (unit, 's) result" where
  "emit rx snk typ k m key val tags s =
     (case prepare rx m typ key tags of
        (allowed, keys, labels) \<Rightarrow>
          if \<not> allowed then Ok s
          else bind_result (snk \<lparr>ckind = k, ckey = elems keys, cval = val, ctags = elems labels\<rparr> s)
                 (\<lambda>(s', _). Ok s'))"

definition SetGauge where "SetGauge rx snk = emit rx snk ''gauge'' Gauge"
definition IncrCounter where "IncrCounter rx snk = emit rx snk ''counter'' Counter"
definition AddSample where "AddSample rx snk = emit rx snk ''sample'' Sample"

text \<open>\<open>fdiv\<close> is the quotient of two \<open>int64\<close> values as \<open>float32\<close>.\<close>

definition MeasureSince ::
  "'t radix \<Rightarrow> ('f, 's) sink \<Rightarrow> (int \<Rightarrow> int \<Rightarrow> 'f) \<Rightarrow> 't Metrics \<Rightarrow> string gslice \<Rightarrow> time \<Rightarrow> time \<Rightarrow> Tag gslice \<Rightarrow> 's \<Rightarrow>
   (unit, 's) result" where
  "MeasureSince rx snk fdiv m key now start tags s =
     (let elapsed = now - start;
          msec = fdiv elapsed (TimerGranularity (mconfig m))
      in emit rx snk ''timer'' Sample m key msec tags s)"

definition Metrics_New :: "'t radix \<Rightarrow> MetricsConfig \<Rightarrow> 't Metrics" where
  "Metrics_New rx conf =
     UpdateFilterAndLabels rx (AllowedPrefixes conf) (BlockedPrefixes conf) (AllowedLabels conf) (BlockedLabels conf)
       \<lparr>mconfig = conf, lastNumGC = 0, filter_tree = None, allowedLabels = None, blockedLabels = None\<rparr>"

section \<open>The runtime collector\<close>

record MemStats =
  Alloc :: uint64
  Sys :: uint64
  Mallocs :: uint64
  Frees :: uint64
  HeapObjects :: uint64
  PauseTotalNs :: uint64
  NumGC :: uint32
  PauseNs :: "uint64 list"

definition fresh_key :: "string list \<Rightarrow> string gslice" where
  "fresh_key k = passed k 0"

lemma unat_Suc_below: "i < num \<Longrightarrow> unat (i + 1) = Suc (unat i)" for i num :: uint32
  using unsigned_less [of num, where ?'a = nat] by (simp add: unat_word_ariths word_less_nat_alt)

text \<open>\<open>for i := lastNumGC; i < num; i++\<close>: the pauses to report, oldest first. \<open>PauseNs\<close> is an array
  of 256 entries.\<close>

function gc_loop :: "uint64 list \<Rightarrow> uint32 \<Rightarrow> uint32 \<Rightarrow> uint64 list" where
  "gc_loop pauses i num = (if i < num then pauses ! unat (i mod 256) # gc_loop pauses (i + 1) num else [])"
  by pat_completeness auto
termination
  by (relation "measure (\<lambda>(p, i, num). unat num - unat i)") (auto simp: unat_Suc_below word_less_nat_alt)

declare gc_loop.simps [simp del]

definition gc_window :: "uint32 \<Rightarrow> uint32 \<Rightarrow> uint32" where
  "gc_window prev num =
     (let prev = (if num < prev then 0 else prev)
      in if num - prev \<ge> 256 then num - 255 else prev)"

fun run_calls :: "('s \<Rightarrow> (unit, 's) result) list \<Rightarrow> 's \<Rightarrow> (unit, 's) result" where
  "run_calls [] s = Ok s"
| "run_calls (f # fs) s = bind_result (f s) (run_calls fs)"

definition emitRuntimeStats ::
  "'t radix \<Rightarrow> ('f, 's) sink \<Rightarrow> (int \<Rightarrow> 'f) \<Rightarrow> int \<Rightarrow> MemStats \<Rightarrow> 't Metrics \<Rightarrow> 's \<Rightarrow> 't Metrics \<times> (unit, 's) result" where
  "emitRuntimeStats rx snk f32 numRoutines stats m s =
     (let gauge = (\<lambda>n v. SetGauge rx snk m (fresh_key [''runtime'', n]) (f32 v) (passed [] 0));
          num = NumGC stats;
          pauses = gc_loop (PauseNs stats) (gc_window (lastNumGC m) num) num
      in (m\<lparr>lastNumGC := num\<rparr>,
          run_calls
            ([gauge ''num_goroutines'' numRoutines, gauge ''alloc_bytes'' (uint (Alloc stats)),
              gauge ''sys_bytes'' (uint (Sys stats)), gauge ''malloc_count'' (uint (Mallocs stats)),
              gauge ''free_count'' (uint (Frees stats)), gauge ''heap_objects'' (uint (HeapObjects stats)),
              gauge ''total_gc_pause_ns'' (uint (PauseTotalNs stats)), gauge ''total_gc_runs'' (uint num)] @
             map (\<lambda>p. AddSample rx snk m (fresh_key [''runtime'', ''gc_pause_ns'']) (f32 (uint p)) (passed [] 0)) pauses)
            s))"

end
