(* ===== verification/MetricsFacts.thy ===== *)
theory MetricsFacts
  imports Metrics
begin

text \<open>
  The front of the metrics package: what the filters let through, the key a metric is sent
  under, the collector's window over the garbage collections, and what the in-place slice
  operations do to the caller.
\<close>

section \<open>Slices\<close>

lemma filter_loop_eq: "filter_loop m ls acc = acc @ filter (labelIsAllowed m) ls"
  by (induction m ls acc rule: filter_loop.induct) auto

lemma elems_filterLabels [simp]: "elems (filterLabels m tags) = filter (labelIsAllowed m) (elems tags)"
  by (simp add: filterLabels_def filter_loop_eq Let_def)

lemma elems_insert_at [simp]: "elems (insert_at i v z s) = take i (elems s) @ v # drop i (elems s)"
  by (simp add: insert_at_def Let_def)

lemma elems_go_append [simp]: "elems (go_append s xs) = elems s @ xs"
  by (simp add: go_append_def)

lemma insert_at_detached:
  "spare s = 0 \<Longrightarrow> caller (insert_at i v z s) = caller s \<and> \<not> shared (insert_at i v z s) \<and> spare (insert_at i v z s) = 0"
  by (simp add: insert_at_def go_append_def overlay_def Let_def)

section \<open>Labels\<close>

lemma mget_label_set: "mget (label_set ls) k = (if k \<in> set ls then Some True else None)"
proof -
  have "mget (fold (\<lambda>v m. mput v True m) ls m) k = (if k \<in> set ls then Some True else mget m k)" for m
    by (induction ls arbitrary: m) auto
  then show ?thesis by (simp add: label_set_def)
qed

text \<open>What a label list of the configuration stands for.\<close>

definition label_ok :: "MetricsConfig \<Rightarrow> Tag \<Rightarrow> bool" where
  "label_ok c l \<longleftrightarrow>
     TagName l \<notin> set (case BlockedLabels c of None \<Rightarrow> [] | Some b \<Rightarrow> b) \<and>
     (case AllowedLabels c of None \<Rightarrow> True | Some a \<Rightarrow> TagName l \<in> set a)"

lemma labelIsAllowed_New: "labelIsAllowed (Metrics_New rx c) l = label_ok c l"
  by (auto simp: labelIsAllowed_def Metrics_New_def UpdateFilterAndLabels_def label_ok_def mget_label_set Let_def
      split: option.splits)

section \<open>The radix tree\<close>

text \<open>What the code relies on of \<open>go-immutable-radix\<close>: the tree is a map, and \<open>LongestPrefix\<close> finds
  the longest of its keys that is a prefix of the argument.\<close>

definition radix_contract :: "'t radix \<Rightarrow> ('t \<Rightarrow> string \<rightharpoonup> bool) \<Rightarrow> bool" where
  "radix_contract rx amap \<longleftrightarrow>
     amap (rx_new rx) = Map.empty \<and>
     (\<forall>t k v. amap (rx_insert rx t k v) = (amap t)(k \<mapsto> v)) \<and>
     (\<forall>t. rx_len rx t = 0 \<longleftrightarrow> amap t = Map.empty) \<and>
     (\<forall>t s. (case rx_longest rx t s of
                None \<Rightarrow> \<forall>k\<in>dom (amap t). \<not> prefix k s
              | Some (k, v) \<Rightarrow> amap t k = Some v \<and> prefix k s \<and>
                  (\<forall>k'\<in>dom (amap t). prefix k' s \<longrightarrow> length k' \<le> length k)))"

lemma radix_longestD:
  assumes "radix_contract rx amap"
  shows "rx_longest rx t s = None \<Longrightarrow> \<forall>k\<in>dom (amap t). \<not> prefix k s"
    and "rx_longest rx t s = Some (k, v) \<Longrightarrow>
      amap t k = Some v \<and> prefix k s \<and> (\<forall>k'\<in>dom (amap t). prefix k' s \<longrightarrow> length k' \<le> length k)"
proof -
  have "case rx_longest rx t s of
          None \<Rightarrow> \<forall>k\<in>dom (amap t). \<not> prefix k s
        | Some (k, v) \<Rightarrow> amap t k = Some v \<and> prefix k s \<and>
            (\<forall>k'\<in>dom (amap t). prefix k' s \<longrightarrow> length k' \<le> length k)"
    using assms unfolding radix_contract_def by blast
  then show "rx_longest rx t s = None \<Longrightarrow> \<forall>k\<in>dom (amap t). \<not> prefix k s"
    and "rx_longest rx t s = Some (k, v) \<Longrightarrow>
      amap t k = Some v \<and> prefix k s \<and> (\<forall>k'\<in>dom (amap t). prefix k' s \<longrightarrow> length k' \<le> length k)"
    by simp_all
qed

lemma fold_insert_map:
  assumes "radix_contract rx amap"
  shows "amap (fold (\<lambda>p t. rx_insert rx t p v) ps t) = (\<lambda>k. if k \<in> set ps then Some v else amap t k)"
  using assms by (induction ps arbitrary: t) (auto simp: radix_contract_def fun_eq_iff)

definition rules_of :: "MetricsConfig \<Rightarrow> string \<rightharpoonup> bool" where
  "rules_of c k =
     (if k \<in> set (BlockedPrefixes c) then Some False
      else if k \<in> set (AllowedPrefixes c) then Some True else None)"

lemma New_tree:
  assumes "radix_contract rx amap"
  shows "\<exists>t. filter_tree (Metrics_New rx c) = Some t \<and> amap t = rules_of c"
proof -
  have "amap (rx_new rx) = Map.empty" using assms by (simp add: radix_contract_def)
  then show ?thesis
    by (auto simp: Metrics_New_def UpdateFilterAndLabels_def Let_def fold_insert_map [OF assms] rules_of_def fun_eq_iff)
qed

text \<open>The rule that decides a metric: the longest listed prefix of its joined key, a blocked
  prefix winning over an equal allowed one.\<close>

definition metric_allowed :: "MetricsConfig \<Rightarrow> string \<Rightarrow> bool" where
  "metric_allowed c s =
     (let ps = filter (\<lambda>p. prefix p s) (AllowedPrefixes c @ BlockedPrefixes c)
      in if ps = [] then FilterDefault c
         else (\<exists>p\<in>set ps. p \<notin> set (BlockedPrefixes c) \<and> (\<forall>q\<in>set ps. length q \<le> length p)))"

lemma prefix_same_length: "prefix p s \<Longrightarrow> prefix q s \<Longrightarrow> length p = length q \<Longrightarrow> p = q"
  by (metis prefix_length_prefix prefix_order.antisym le_refl)

lemma dom_rules: "dom (rules_of c) = set (AllowedPrefixes c @ BlockedPrefixes c)"
  by (auto simp: rules_of_def split: if_splits)

lemma longest_decides:
  assumes k: "rules_of c k = Some v" "prefix k s"
    and max: "\<forall>k'\<in>dom (rules_of c). prefix k' s \<longrightarrow> length k' \<le> length k"
  shows "metric_allowed c s = v"
proof -
  let ?ps = "filter (\<lambda>p. prefix p s) (AllowedPrefixes c @ BlockedPrefixes c)"
  have kin: "k \<in> set ?ps" using k dom_rules [of c] by auto
  have "p = k" if "p \<in> set ?ps" "\<forall>q\<in>set ?ps. length q \<le> length p" for p
    using that kin max dom_rules [of c] k(2) by (auto intro!: prefix_same_length [of p s k] le_antisym)
  then have "(\<exists>p\<in>set ?ps. p \<notin> set (BlockedPrefixes c) \<and> (\<forall>q\<in>set ?ps. length q \<le> length p)) \<longleftrightarrow>
      k \<notin> set (BlockedPrefixes c)"
    using kin max dom_rules [of c] by auto
  moreover have "v \<longleftrightarrow> k \<notin> set (BlockedPrefixes c)"
    using k(1) by (auto simp: rules_of_def split: if_splits)
  moreover have "?ps \<noteq> []" using kin by (metis empty_iff list.set(1))
  ultimately show ?thesis
    unfolding metric_allowed_def Let_def by (simp only: if_False)
qed

lemma allowMetric_New:
  assumes "radix_contract rx amap"
  shows "fst (allowMetric rx (Metrics_New rx c) key tags) = metric_allowed c (join ''.'' key)"
proof -
  let ?s = "join ''.'' key" and ?m = "Metrics_New rx c"
  obtain t where t: "filter_tree ?m = Some t" "amap t = rules_of c" using New_tree [OF assms] by blast
  have conf: "FilterDefault (mconfig ?m) = FilterDefault c"
    by (simp add: Metrics_New_def UpdateFilterAndLabels_def Let_def)
  have none: "metric_allowed c ?s = FilterDefault c" if "\<forall>k\<in>dom (rules_of c). \<not> prefix k ?s"
    using that dom_rules [of c] by (auto simp: metric_allowed_def filter_empty_conv Let_def)
  have len: "rx_len rx t = 0 \<longleftrightarrow> rules_of c = Map.empty"
    using assms t(2) by (simp add: radix_contract_def)
  show ?thesis
  proof (cases "rx_longest rx t ?s")
    case None
    then have "\<forall>k\<in>dom (rules_of c). \<not> prefix k ?s"
      using radix_longestD(1) [OF assms] t(2) by metis
    then show ?thesis using None t(1) conf none by (simp add: allowMetric_def)
  next
    case (Some kv)
    obtain k v where kv: "kv = (k, v)" by (cases kv)
    have "amap t k = Some v \<and> prefix k ?s \<and> (\<forall>k'\<in>dom (amap t). prefix k' ?s \<longrightarrow> length k' \<le> length k)"
      using radix_longestD(2) [OF assms] Some kv by blast
    then have "metric_allowed c ?s = v" "rules_of c \<noteq> Map.empty"
      using t(2) longest_decides [of c k v ?s] by auto
    then show ?thesis using Some kv t(1) len by (simp add: allowMetric_def)
  qed
qed

section \<open>The radix tree of the witnesses\<close>

fun longer :: "(string \<times> bool) option \<Rightarrow> (string \<times> bool) option \<Rightarrow> (string \<times> bool) option" where
  "longer None y = y"
| "longer x None = x"
| "longer (Some x) (Some y) = (if length (fst x) < length (fst y) then Some y else Some x)"

fun longest_entry :: "(string \<times> bool) list \<Rightarrow> string \<Rightarrow> (string \<times> bool) option" where
  "longest_entry [] s = None"
| "longest_entry (kv # t) s = longer (if prefix (fst kv) s then Some kv else None) (longest_entry t s)"

definition list_radix :: "(string \<times> bool) list radix" where
  "list_radix = \<lparr>rx_new = [], rx_insert = (\<lambda>t k v. mput k v t), rx_len = length, rx_longest = longest_entry\<rparr>"

lemma longest_entry_spec:
  "case longest_entry t s of
     None \<Rightarrow> \<forall>k\<in>dom (map_of t). \<not> prefix k s
   | Some (k, v) \<Rightarrow> map_of t k = Some v \<and> prefix k s \<and>
       (\<forall>k'\<in>dom (map_of t). prefix k' s \<longrightarrow> length k' \<le> length k)"
proof (induction t)
  case (Cons kv t)
  obtain a b where kv: "kv = (a, b)" by (cases kv)
  show ?case
  proof (cases "longest_entry t s")
    case None
    then show ?thesis using Cons kv by auto
  next
    case (Some y)
    obtain k v where y: "y = (k, v)" by (cases y)
    have "map_of t k = Some v" "prefix k s" "\<forall>k'\<in>dom (map_of t). prefix k' s \<longrightarrow> length k' \<le> length k"
      using Cons Some y by simp_all
    then show ?thesis using kv Some y prefix_same_length [of a s k] by fastforce
  qed
qed simp

lemma list_radix_contract: "radix_contract list_radix map_of"
  unfolding radix_contract_def using longest_entry_spec by (simp add: list_radix_def update_conv')

section \<open>Properties\<close>

definition demo_mconfig :: MetricsConfig where
  "demo_mconfig = (DefaultConfig ''node1'' ''svc'')\<lparr>AllowedPrefixes := [''svc'', ''svc.db.ok''],
     BlockedPrefixes := [''svc.db''], BlockedLabels := Some [''user'']\<rparr>"

text \<open>The key a metric is sent under and the tags added to the caller's.\<close>

definition key_prefix :: "MetricsConfig \<Rightarrow> string \<Rightarrow> string list" where
  "key_prefix c typ =
     (if GlobalPrefix c \<noteq> [] then [GlobalPrefix c] else []) @
     (if ServiceName c \<noteq> [] \<and> \<not> EnableServiceLabel c then [ServiceName c] else []) @
     (if EnableTypePrefix c then [typ] else []) @
     (if HostName c \<noteq> [] \<and> \<not> EnableHostnameLabel c \<and> EnableHostname c then [HostName c] else [])"

definition extra_tags :: "MetricsConfig \<Rightarrow> Tag list" where
  "extra_tags c = GlobalTags c @
     (if HostName c \<noteq> [] \<and> EnableHostnameLabel c then [\<lparr>TagName = ''host'', TagValue = HostName c\<rparr>] else []) @
     (if ServiceName c \<noteq> [] \<and> EnableServiceLabel c then [\<lparr>TagName = ''service'', TagValue = ServiceName c\<rparr>] else [])"

lemma allowMetric_fst: "fst (allowMetric rx m key tags) = fst (allowMetric rx m key (passed [] 0))"
  by (simp add: allowMetric_def split: option.splits)

lemma allowMetric_snd: "snd (allowMetric rx m key tags) = filterLabels m tags"
  by (simp add: allowMetric_def split: option.splits)

lemma prepare_key: "elems (fst (snd (prepare rx m typ key tags))) = key_prefix (mconfig m) typ @ elems key"
  by (simp add: prepare_def Let_def split_beta key_prefix_def)

lemma prepare_allowed:
  "fst (prepare rx m typ key tags) = fst (allowMetric rx m (key_prefix (mconfig m) typ @ elems key) (passed [] 0))"
  by (subst allowMetric_fst [symmetric, of _ _ _ tags])
     (simp add: prepare_def Let_def split_beta key_prefix_def allowMetric_fst [of rx m _ "if _ then _ else _"]
       allowMetric_fst [of rx m _ tags] allowMetric_fst [of rx m _ "go_append _ _"])

lemma prepare_tags:
  "elems (snd (snd (prepare rx m typ key tags))) = filter (labelIsAllowed m) (elems tags @ extra_tags (mconfig m))"
  by (simp add: prepare_def Let_def split_beta extra_tags_def allowMetric_snd)

lemma mconfig_New [simp]: "mconfig (Metrics_New rx c) = c"
  by (simp add: Metrics_New_def UpdateFilterAndLabels_def Let_def)

text \<open>C22. What reaches the sink of a metric, given a radix tree that finds longest prefixes: it is
  sent under the global prefix, the service name, the type and the host name (each as
  configured) before the caller's key, if the longest configured prefix of that dotted key is
  allowed and not blocked, or, with no configured prefix, if the default allows it. Its tags
  are the caller's, the global ones and the host and service labels, less those that are
  blocked or, when there is an allow list, not on it.\<close>

theorem emitted_metric:
  assumes "radix_contract rx amap"
  shows "emit rx snk typ k (Metrics_New rx c) key val tags s =
    (if metric_allowed c (join ''.'' (key_prefix c typ @ elems key))
     then bind_result (snk \<lparr>ckind = k, ckey = key_prefix c typ @ elems key, cval = val,
                            ctags = filter (label_ok c) (elems tags @ extra_tags c)\<rparr> s) (\<lambda>(s', _). Ok s')
     else Ok s)"
proof -
  let ?p = "prepare rx (Metrics_New rx c) typ key tags"
  have "fst ?p = metric_allowed c (join ''.'' (key_prefix c typ @ elems key))"
    using prepare_allowed [of rx "Metrics_New rx c" "typ" key tags] allowMetric_New [OF assms] by simp
  then show ?thesis
    by (simp add: emit_def split_beta prepare_key prepare_tags labelIsAllowed_New [abs_def])
qed

theorem emitted_metric_witness:
  "SetGauge list_radix (\<lambda>cl s. Ok (cl # s, ckey cl)) (Metrics_New list_radix demo_mconfig) (passed [''db'', ''ok''] 0) (7 :: int)
     (passed [\<lparr>TagName = ''user'', TagValue = ''bob''\<rparr>, \<lparr>TagName = ''zone'', TagValue = ''a''\<rparr>] 0) [] =
   Ok [\<lparr>ckind = Gauge, ckey = [''svc'', ''db'', ''ok''], cval = 7, ctags = [\<lparr>TagName = ''zone'', TagValue = ''a''\<rparr>]\<rparr>]"
proof -
  have "metric_allowed demo_mconfig (join ''.'' (key_prefix demo_mconfig ''gauge'' @ [''db'', ''ok'']))"
    by code_simp
  then show ?thesis
    unfolding SetGauge_def emitted_metric [OF list_radix_contract]
    by (simp add: passed_def key_prefix_def extra_tags_def demo_mconfig_def DefaultConfig_def label_ok_def)
qed

section \<open>Garbage collections\<close>

lemma gc_loop_eq:
  "gc_loop pauses i num = map (\<lambda>j. pauses ! (j mod 256)) [unat i..<unat num]"
proof (induction pauses i num rule: gc_loop.induct)
  case (1 pauses i num)
  show ?case
  proof (cases "i < num")
    case True
    then have "unat i < unat num" by (simp add: word_less_nat_alt)
    with True 1 show ?thesis
      by (simp add: gc_loop.simps [of pauses i] unat_Suc_below unat_mod upt_conv_Cons)
  next
    case False
    then show ?thesis by (simp add: gc_loop.simps [of pauses i] word_less_nat_alt)
  qed
qed

lemma unat_gc_window:
  "unat (gc_window prev num) =
     (let p = (if unat num < unat prev then 0 else unat prev)
      in if unat num - p \<ge> 256 then unat num - 255 else p)"
proof -
  have sub: "unat (num - q) = unat num - unat q" if "q \<le> num" for q
    using that by (simp add: unat_sub)
  have big: "255 \<le> num" if "num - q \<ge> 256" "q \<le> num" for q
    using that sub [of q] by (simp add: word_le_nat_alt)
  show ?thesis
    using sub [of prev] sub [of 0] sub [of 255] big [of prev] big [of 0]
    by (auto simp: gc_window_def Let_def word_less_nat_alt word_le_nat_alt)
qed

text \<open>The runtime collector reports each garbage collection since its last round once, oldest
  first, from the ring of 256 pauses: all of them when there were at most 255, and otherwise
  the last 255, also when the 32-bit counter has started over (then counted from zero).\<close>

theorem gc_reports:
  "gc_loop pauses (gc_window prev num) num =
     (let new = (if unat num < unat prev then unat num else unat num - unat prev)
      in map (\<lambda>j. pauses ! (j mod 256)) [unat num - min new 255..<unat num])"
proof -
  have "unat (gc_window prev num) =
      unat num - min (if unat num < unat prev then unat num else unat num - unat prev) 255"
    by (auto simp: unat_gc_window Let_def min_def)
  then show ?thesis by (simp only: gc_loop_eq Let_def)
qed

section \<open>The caller's slices\<close>

lemma prepare_key_slice:
  "fst (snd (prepare rx m typ key tags)) = fold (\<lambda>v. insert_at 0 v []) (rev (key_prefix (mconfig m) typ)) key"
  by (simp add: prepare_def Let_def split_beta key_prefix_def)

lemma insert_room:
  assumes "shared s" and "length vs \<le> spare s" and "caller s = take n (elems s)" and "n \<le> length (elems s)"
  shows "caller (fold (\<lambda>v. insert_at 0 v z) vs s) = take n (rev vs @ elems s)"
  using assms
proof (induction vs arbitrary: s)
  case (Cons v vs)
  let ?s = "insert_at 0 v z s"
  have "shared ?s" "length vs \<le> spare ?s" "caller ?s = take n (elems ?s)" "n \<le> length (elems ?s)"
    using Cons.prems by (auto simp: insert_at_def go_append_def overlay_def Let_def min_def)
  from Cons.IH [OF this] show ?case by simp
qed simp

lemma insert_no_room: "spare s = 0 \<Longrightarrow> caller (fold (\<lambda>v. insert_at 0 v z) vs s) = caller s"
  by (induction vs arbitrary: s) (simp_all add: insert_at_detached)

lemma prepare_tags_slice:
  "extra_tags (mconfig m) = [] \<Longrightarrow> snd (snd (prepare rx m typ key tags)) = filterLabels m tags"
  by (auto simp: prepare_def Let_def split_beta extra_tags_def allowMetric_snd split: if_splits)

text \<open>Emitting a metric writes to the slices of the caller. A key slice with room for the
  configured prefix is shifted in place, so that the caller's key then starts with the
  service name; without spare capacity it is left alone. Tags passed as a slice are filtered in
  place: a dropped label leaves the tags behind it moved up and the last one doubled.\<close>

theorem caller_slices_overwritten:
  "(length (key_prefix (mconfig m) typ) \<le> room \<longrightarrow>
      caller (fst (snd (prepare rx m typ (passed ks room) tags))) = take (length ks) (key_prefix (mconfig m) typ @ ks)) \<and>
   caller (fst (snd (prepare rx m typ (passed ks 0) tags))) = ks \<and>
   (extra_tags (mconfig m) = [] \<longrightarrow>
      caller (snd (snd (prepare rx m typ key (passed ts room)))) =
        filter (labelIsAllowed m) ts @ drop (length (filter (labelIsAllowed m) ts)) ts)"
proof (intro conjI impI)
  assume "length (key_prefix (mconfig m) typ) \<le> room"
  then show "caller (fst (snd (prepare rx m typ (passed ks room) tags))) =
      take (length ks) (key_prefix (mconfig m) typ @ ks)"
    using insert_room [of "passed ks room" "rev (key_prefix (mconfig m) typ)" "length ks"]
    by (simp add: prepare_key_slice passed_def)
next
  show "caller (fst (snd (prepare rx m typ (passed ks 0) tags))) = ks"
    by (simp add: prepare_key_slice insert_no_room passed_def)
next
  assume "extra_tags (mconfig m) = []"
  then show "caller (snd (snd (prepare rx m typ key (passed ts room)))) =
      filter (labelIsAllowed m) ts @ drop (length (filter (labelIsAllowed m) ts)) ts"
    by (simp add: prepare_tags_slice filterLabels_def filter_loop_eq overlay_def passed_def Let_def)
qed

theorem caller_slices_overwritten_witness:
  "caller (fst (snd (prepare list_radix (Metrics_New list_radix demo_mconfig) ''gauge'' (passed [''db'', ''n''] 2) (passed [] 0)))) =
     [''svc'', ''db''] \<and>
   map TagName (caller (snd (snd (prepare list_radix (Metrics_New list_radix demo_mconfig) ''gauge'' (passed [''n''] 0)
     (passed [\<lparr>TagName = ''user'', TagValue = ''bob''\<rparr>, \<lparr>TagName = ''zone'', TagValue = ''a''\<rparr>] 0))))) = [''zone'', ''zone'']"
proof -
  let ?m = "Metrics_New list_radix demo_mconfig"
  have c: "key_prefix demo_mconfig ''gauge'' = [''svc'']" "extra_tags demo_mconfig = []"
    by (simp_all add: key_prefix_def extra_tags_def demo_mconfig_def DefaultConfig_def)
  have l: "labelIsAllowed ?m \<lparr>TagName = ''zone'', TagValue = ''a''\<rparr>" "\<not> labelIsAllowed ?m \<lparr>TagName = ''user'', TagValue = ''bob''\<rparr>"
    by (simp_all add: labelIsAllowed_New label_ok_def demo_mconfig_def DefaultConfig_def)
  show ?thesis
    using caller_slices_overwritten [of ?m "''gauge''" 2 list_radix "[''db'', ''n'']" "passed [] 0"]
      caller_slices_overwritten [of ?m "''gauge''" 0 list_radix _ _ "passed [''n''] 0"
        "[\<lparr>TagName = ''user'', TagValue = ''bob''\<rparr>, \<lparr>TagName = ''zone'', TagValue = ''a''\<rparr>]"] c l
    by simp
qed

end
