(* ===== verification/MetricSinks.thy ===== *)
theory MetricSinks
  imports Metrics
begin

text \<open>
  The sinks of the package \<open>metrics\<close>: \<open>inmem.go\<close>, \<open>inmem_endpoint.go\<close>, \<open>statsd.go\<close>,
  \<open>dogstatsd.go\<close> and \<open>prometheus.go\<close>. Floating point arithmetic is an argument (\<open>fops\<close>); the
  aggregates of the in-memory sink live in a store of their own, since intervals and their
  copies hold pointers to them. The DataDog and Prometheus clients are third-party: the calls
  made to them are recorded.
\<close>

section \<open>inmem.go\<close>

record 'f fops =
  f_zero :: 'f
  f_add :: "'f \<Rightarrow> 'f \<Rightarrow> 'f"
  f_sub :: "'f \<Rightarrow> 'f \<Rightarrow> 'f"
  f_mul :: "'f \<Rightarrow> 'f \<Rightarrow> 'f"
  f_div :: "'f \<Rightarrow> 'f \<Rightarrow> 'f"
  f_sqrt :: "'f \<Rightarrow> 'f"
  f_pow2 :: "'f \<Rightarrow> 'f"
  f_lt :: "'f \<Rightarrow> 'f \<Rightarrow> bool"
  f_of_int :: "int \<Rightarrow> 'f"

record 'f AggregateSample =
  aCount :: int
  aRate :: 'f
  aSum :: 'f
  aSumSq :: 'f
  aMin :: 'f
  aMax :: 'f
  aUpdated :: time

definition zero_aggregate :: "'f fops \<Rightarrow> 'f AggregateSample" where
  "zero_aggregate F = \<lparr>aCount = 0, aRate = f_zero F, aSum = f_zero F, aSumSq = f_zero F,
     aMin = f_zero F, aMax = f_zero F, aUpdated = 0\<rparr>"

definition Stddev :: "'f fops \<Rightarrow> 'f AggregateSample \<Rightarrow> 'f" where
  "Stddev F a =
     (let num = f_sub F (f_mul F (f_of_int F (aCount a)) (aSumSq a)) (f_pow2 F (aSum a))
      in if aCount a * (aCount a - 1) = 0 then f_zero F
         else f_sqrt F (f_div F num (f_of_int F (aCount a * (aCount a - 1)))))"

definition Mean :: "'f fops \<Rightarrow> 'f AggregateSample \<Rightarrow> 'f" where
  "Mean F a = (if aCount a = 0 then f_zero F else f_div F (aSum a) (f_of_int F (aCount a)))"

definition Ingest :: "'f fops \<Rightarrow> time \<Rightarrow> 'f \<Rightarrow> 'f \<Rightarrow> 'f AggregateSample \<Rightarrow> 'f AggregateSample" where
  "Ingest F now v rateDenom a =
     (let a = a\<lparr>aCount := aCount a + 1\<rparr>;
          a = a\<lparr>aSum := f_add F (aSum a) v\<rparr>;
          a = a\<lparr>aSumSq := f_add F (aSumSq a) (f_mul F v v)\<rparr>;
          a = (if f_lt F v (aMin a) \<or> aCount a = 1 then a\<lparr>aMin := v\<rparr> else a);
          a = (if f_lt F (aMax a) v \<or> aCount a = 1 then a\<lparr>aMax := v\<rparr> else a)
      in a\<lparr>aRate := f_div F (aSum a) rateDenom, aUpdated := now\<rparr>)"

record 'f GaugeValue =
  gName :: string
  gValue :: 'f
  gLabels :: "Tag list"

text \<open>\<open>sAgg\<close> is the pointer to the aggregate, an index into the store.\<close>

record SampledValue =
  sName :: string
  sAgg :: nat
  sLabels :: "Tag list"

record 'f IntervalMetrics =
  Interval :: time
  Gauges :: "(string, 'f GaugeValue) gomap"
  Points :: "(string, 'f list) gomap"
  Counters :: "(string, SampledValue) gomap"
  Samples :: "(string, SampledValue) gomap"

definition NewIntervalMetrics :: "time \<Rightarrow> 'f IntervalMetrics" where
  "NewIntervalMetrics intv = \<lparr>Interval = intv, Gauges = [], Points = [], Counters = [], Samples = []\<rparr>"

record 'f InmemSink =
  im_interval :: duration
  im_retain :: duration
  maxIntervals :: int
  intervals :: "'f IntervalMetrics list"
  rateDenom :: 'f
  store :: "'f AggregateSample list"

text \<open>A zero interval divides by zero; a negative count of intervals is refused by \<open>make\<close>.\<close>

definition NewInmemSink :: "'f fops \<Rightarrow> duration \<Rightarrow> duration \<Rightarrow> (unit, 'f InmemSink) result" where
  "NewInmemSink F interval retain =
     (if interval = 0 then Panic
      else if go_quot retain interval < 0 then Panic
      else Ok \<lparr>im_interval = interval, im_retain = retain, maxIntervals = go_quot retain interval, intervals = [],
               rateDenom = f_div F (f_of_int F interval) (f_of_int F second), store = []\<rparr>)"

text \<open>The durations come from \<open>time.ParseDuration\<close> of the query parameters.\<close>

definition NewInmemSinkFromURL ::
  "'f fops \<Rightarrow> (string \<Rightarrow> string + duration) \<Rightarrow> (string \<Rightarrow> string) \<Rightarrow> (string, 'f InmemSink) result" where
  "NewInmemSinkFromURL F parseDuration query =
     (case parseDuration (query ''interval'') of
        Inl e \<Rightarrow> Err (''bad '' @ [CHR 0x27] @ ''interval'' @ [CHR 0x27] @ '' param: '' @ e)
      | Inr interval \<Rightarrow>
          (case parseDuration (query ''retain'') of
             Inl e \<Rightarrow> Err (''bad '' @ [CHR 0x27] @ ''retain'' @ [CHR 0x27] @ '' param: '' @ e)
           | Inr retain \<Rightarrow>
               (case NewInmemSink F interval retain of Ok s \<Rightarrow> Ok s | _ \<Rightarrow> Panic)))"

text \<open>Spaces become underscores. \<open>parts[1:]\<close> of an empty slice panics.\<close>

definition underscore :: "string \<Rightarrow> string" where
  "underscore s = map (\<lambda>c. if c = CHR '' '' then CHR ''_'' else c) s"

fun dotted :: "string list \<Rightarrow> string" where
  "dotted [] = []"
| "dotted (p # ps) = ''.'' @ underscore p @ dotted ps"

fun labels_text :: "Tag list \<Rightarrow> string" where
  "labels_text [] = []"
| "labels_text (l # ls) = underscore ('';'' @ TagName l @ ''='' @ TagValue l) @ labels_text ls"

definition flattenKeyLabels :: "string list \<Rightarrow> Tag list \<Rightarrow> (unit, string \<times> string) result" where
  "flattenKeyLabels parts tags =
     (case parts of
        [] \<Rightarrow> Panic
      | p # ps \<Rightarrow> let key = underscore p @ dotted ps in Ok (key @ labels_text tags, key))"

text \<open>\<open>time.Time.Truncate\<close>, on times counted from Go's zero time.\<close>

definition go_truncate :: "time \<Rightarrow> duration \<Rightarrow> time" where
  "go_truncate t d = (if d \<le> 0 then t else t - t mod d)"

definition getExistingInterval :: "time \<Rightarrow> 'f InmemSink \<Rightarrow> bool" where
  "getExistingInterval intv s = (intervals s \<noteq> [] \<and> Interval (last (intervals s)) = intv)"

text \<open>\<open>createInterval\<close> returns the interval to write to: the last one of the sink, or, when
  truncating dropped it at once, one that is no part of the sink.\<close>

datatype target = LastInterval | DroppedInterval

definition createInterval :: "time \<Rightarrow> 'f InmemSink \<Rightarrow> 'f InmemSink \<times> target" where
  "createInterval intv s =
     (if intervals s \<noteq> [] \<and> Interval (last (intervals s)) = intv then (s, LastInterval)
      else
        let ivs = intervals s @ [NewIntervalMetrics intv];
            n = int (length ivs);
            ivs' = (if n \<ge> maxIntervals s then take (nat (maxIntervals s)) (drop (nat (n - maxIntervals s)) ivs) else ivs)
        in (s\<lparr>intervals := ivs'\<rparr>, if ivs' = [] then DroppedInterval else LastInterval))"

definition getInterval :: "time \<Rightarrow> 'f InmemSink \<Rightarrow> 'f InmemSink \<times> target" where
  "getInterval now s =
     (let intv = go_truncate now (im_interval s)
      in if getExistingInterval intv s then (s, LastInterval) else createInterval intv s)"

definition on_target :: "target \<Rightarrow> ('f IntervalMetrics \<Rightarrow> 'f IntervalMetrics) \<Rightarrow> 'f InmemSink \<Rightarrow> 'f InmemSink" where
  "on_target t f s =
     (case t of
        LastInterval \<Rightarrow> s\<lparr>intervals := butlast (intervals s) @ [f (last (intervals s))]\<rparr>
      | DroppedInterval \<Rightarrow> s)"

definition target_of :: "time \<Rightarrow> target \<Rightarrow> 'f InmemSink \<Rightarrow> 'f IntervalMetrics" where
  "target_of now t s =
     (case t of LastInterval \<Rightarrow> last (intervals s) | DroppedInterval \<Rightarrow> NewIntervalMetrics (go_truncate now (im_interval s)))"

definition inmem_SetGauge :: "time \<Rightarrow> string list \<Rightarrow> 'f \<Rightarrow> Tag list \<Rightarrow> 'f InmemSink \<Rightarrow> (unit, 'f InmemSink) result" where
  "inmem_SetGauge now key val tags s =
     bind_result (flattenKeyLabels key tags)
       (\<lambda>(k, n). let (s, t) = getInterval now s
                 in Ok (on_target t (\<lambda>iv. iv\<lparr>Gauges := mput k \<lparr>gName = n, gValue = val, gLabels = tags\<rparr> (Gauges iv)\<rparr>) s))"

text \<open>Finding or adding the entry of a key, then ingesting into its aggregate; \<open>get\<close> and \<open>put\<close>
  choose counters or samples.\<close>

definition ingest_into ::
  "('f IntervalMetrics \<Rightarrow> (string, SampledValue) gomap) \<Rightarrow>
   ((string, SampledValue) gomap \<Rightarrow> 'f IntervalMetrics \<Rightarrow> 'f IntervalMetrics) \<Rightarrow>
   'f fops \<Rightarrow> time \<Rightarrow> string list \<Rightarrow> 'f \<Rightarrow> Tag list \<Rightarrow> 'f InmemSink \<Rightarrow> (unit, 'f InmemSink) result" where
  "ingest_into get put F now key val tags s =
     bind_result (flattenKeyLabels key tags)
       (\<lambda>(k, n).
          let (s, t) = getInterval now s;
              m = get (target_of now t s);
              (s, p) =
                (case mget m k of
                   Some agg \<Rightarrow> (s, sAgg agg)
                 | None \<Rightarrow>
                     let p = length (store s);
                         s = s\<lparr>store := store s @ [zero_aggregate F]\<rparr>
                     in (on_target t (put (mput k \<lparr>sName = n, sAgg = p, sLabels = tags\<rparr> m)) s, p))
          in Ok (s\<lparr>store := (store s)[p := Ingest F now val (rateDenom s) (store s ! p)]\<rparr>))"

definition inmem_IncrCounter where
  "inmem_IncrCounter = ingest_into Counters (\<lambda>m iv. iv\<lparr>Counters := m\<rparr>)"

definition inmem_AddSample where
  "inmem_AddSample = ingest_into Samples (\<lambda>m iv. iv\<lparr>Samples := m\<rparr>)"

text \<open>\<open>Data\<close>: the finished intervals and a copy of the current one. Entries are copied, the
  aggregates they point to are not. With no interval left the slice expression panics.\<close>

definition copy_interval :: "'f IntervalMetrics \<Rightarrow> 'f IntervalMetrics" where
  "copy_interval iv = \<lparr>Interval = Interval iv, Gauges = Gauges iv, Points = Points iv,
     Counters = Counters iv, Samples = Samples iv\<rparr>"

definition Data :: "time \<Rightarrow> 'f InmemSink \<Rightarrow> (unit, 'f InmemSink \<times> 'f IntervalMetrics list) result" where
  "Data now s =
     (let (s, _) = getInterval now s
      in if intervals s = [] then Panic
         else Ok (s, butlast (intervals s) @ [copy_interval (last (intervals s))]))"

section \<open>inmem_endpoint.go\<close>

record 'f DisplaySample =
  dName :: string
  dHash :: string
  dAgg :: nat
  dMean :: 'f
  dStddev :: 'f
  dLabels :: "(string, string) gomap"

record 'f DisplayGauge =
  dgName :: string
  dgHash :: string
  dgValue :: 'f
  dgLabels :: "(string, string) gomap"

record 'f Summary =
  Timestamp :: string
  sumGauges :: "'f DisplayGauge list"
  sumPoints :: "(string \<times> 'f list) list"
  sumCounters :: "'f DisplaySample list"
  sumSamples :: "'f DisplaySample list"

definition displayLabels :: "Tag list \<Rightarrow> (string, string) gomap" where
  "displayLabels ls = fold (\<lambda>l m. mput (TagName l) (TagValue l) m) ls []"

definition formatSamples :: "'f fops \<Rightarrow> 'f AggregateSample list \<Rightarrow> (string, SampledValue) gomap \<Rightarrow> 'f DisplaySample list" where
  "formatSamples F st source =
     sort_key dHash
       (map (\<lambda>(hash, sv). \<lparr>dName = sName sv, dHash = hash, dAgg = sAgg sv, dMean = Mean F (st ! sAgg sv),
                          dStddev = Stddev F (st ! sAgg sv), dLabels = displayLabels (sLabels sv)\<rparr>) source)"

definition DisplayMetrics ::
  "'f fops \<Rightarrow> (time \<Rightarrow> string) \<Rightarrow> time \<Rightarrow> 'f InmemSink \<Rightarrow> (string, 'f InmemSink \<times> 'f Summary) result" where
  "DisplayMetrics F timestamp now s =
     (case Data now s of
        Ok (s, data) \<Rightarrow>
          if length data = 0 then Err ''no metric intervals have been initialized yet''
          else
            let iv = (if length data = 1 then intervals s ! 0 else intervals s ! (length data - 2))
            in Ok (s, \<lparr>Timestamp = timestamp (Interval iv),
                       sumGauges = sort_key dgHash
                         (map (\<lambda>(hash, g). \<lparr>dgName = gName g, dgHash = hash, dgValue = gValue g,
                                            dgLabels = displayLabels (gLabels g)\<rparr>) (Gauges iv)),
                       sumPoints = sort_key fst (Points iv),
                       sumCounters = formatSamples F (store s) (Counters iv),
                       sumSamples = formatSamples F (store s) (Samples iv)\<rparr>)
      | _ \<Rightarrow> Panic)"

section \<open>statsd.go\<close>

text \<open>The queue is a channel of 4096 metrics that may be closed; the field is set to nil at the
  end. A select with a default branch on a closed channel panics, on a nil one it takes the
  default.\<close>

record chan =
  items :: "string list"
  closed :: bool

definition metricQueue_cap :: nat where
  "metricQueue_cap = 4096"

definition statsdMaxLen :: nat where
  "statsdMaxLen = 1400"

definition sanitize :: "char \<Rightarrow> char" where
  "sanitize r = (if r = CHR '':'' \<or> r = CHR '' '' then CHR ''_'' else r)"

definition statsd_flattenKey :: "string list \<Rightarrow> string" where
  "statsd_flattenKey parts = map sanitize (join ''.'' parts)"

definition statsd_flattenKeyLabels :: "string list \<Rightarrow> Tag list \<Rightarrow> string" where
  "statsd_flattenKeyLabels parts labels = statsd_flattenKey (parts @ map TagValue labels)"

definition pushMetric :: "string \<Rightarrow> chan option \<Rightarrow> (unit, chan option) result" where
  "pushMetric m q =
     (case q of
        None \<Rightarrow> Ok None
      | Some c \<Rightarrow>
          if closed c then Panic
          else if length (items c) < metricQueue_cap then Ok (Some (c\<lparr>items := items c @ [m]\<rparr>))
          else Ok (Some c))"

definition statsd_suffix :: "kind \<Rightarrow> string" where
  "statsd_suffix k = (case k of Gauge \<Rightarrow> ''g'' | Counter \<Rightarrow> ''c'' | Sample \<Rightarrow> ''ms'')"

text \<open>The three methods; \<open>show\<close> prints a value with the verb \<open>%f\<close>.\<close>

definition statsd_metric :: "('f \<Rightarrow> string) \<Rightarrow> 'f call \<Rightarrow> string" where
  "statsd_metric show_f cl =
     statsd_flattenKeyLabels (ckey cl) (ctags cl) @ '':'' @ show_f (cval cl) @ ''|'' @ statsd_suffix (ckind cl) @ [CHR 0x0A]"

definition statsd_sink :: "('f \<Rightarrow> string) \<Rightarrow> ('f, chan option) sink" where
  "statsd_sink show_f cl q = bind_result (pushMetric (statsd_metric show_f cl) q) (\<lambda>q'. Ok (q', ckey cl))"

definition Shutdown :: "chan option \<Rightarrow> (unit, chan option) result" where
  "Shutdown q =
     (case q of None \<Rightarrow> Panic | Some c \<Rightarrow> if closed c then Panic else Ok (Some (c\<lparr>closed := True\<rparr>)))"

text \<open>The goroutine \<open>flushMetrics\<close>: connecting, connected with a buffer (kept as the metrics in it),
  waiting five seconds, over. \<open>packets\<close> are the datagrams written, \<open>lost\<close> the metrics read from
  the queue and not delivered, \<open>accepted\<close> those ever put on the queue.\<close>

datatype phase = Connecting | Connected "string list" | Waiting | Quit

record flusher =
  queue :: "chan option"
  fphase :: phase
  packets :: "string list list"
  lost :: "string list"
  accepted :: "string list"

definition buf_len :: "string list \<Rightarrow> nat" where
  "buf_len b = length (concat b)"

definition dial :: "bool \<Rightarrow> flusher \<Rightarrow> flusher" where
  "dial up f = f\<lparr>fphase := (if up then Connected [] else Waiting)\<rparr>"

definition write_buf :: "bool \<Rightarrow> string list \<Rightarrow> flusher \<Rightarrow> flusher" where
  "write_buf sent b f =
     (if sent then f\<lparr>packets := packets f @ [b], fphase := Connected []\<rparr>
      else f\<lparr>lost := lost f @ b, fphase := Waiting\<rparr>)"

text \<open>A metric taken from the queue. When the write before it fails, the metric is dropped with
  the buffer.\<close>

definition take_metric :: "bool \<Rightarrow> string \<Rightarrow> string list \<Rightarrow> flusher \<Rightarrow> flusher" where
  "take_metric sent m b f =
     (if length m + buf_len b > statsdMaxLen then
        let f' = write_buf sent b f
        in if sent then f'\<lparr>fphase := Connected [m]\<rparr> else f'\<lparr>lost := lost f' @ [m]\<rparr>
      else f\<lparr>fphase := Connected (b @ [m])\<rparr>)"

inductive flush_step :: "flusher \<Rightarrow> flusher \<Rightarrow> bool" where
  connect: "fphase f = Connecting \<Longrightarrow> flush_step f (dial up f)"
| metric: "fphase f = Connected b \<Longrightarrow> queue f = Some c \<Longrightarrow> items c = m # ms \<Longrightarrow>
     flush_step f (take_metric sent m b (f\<lparr>queue := Some (c\<lparr>items := ms\<rparr>)\<rparr>))"
| tick: "fphase f = Connected b \<Longrightarrow> buf_len b \<noteq> 0 \<Longrightarrow> flush_step f (write_buf sent b f)"
| drain: "fphase f = Waiting \<Longrightarrow> queue f = Some c \<Longrightarrow> items c = m # ms \<Longrightarrow>
     flush_step f (f\<lparr>queue := Some (c\<lparr>items := ms\<rparr>), lost := lost f @ [m]\<rparr>)"
| wake: "fphase f = Waiting \<Longrightarrow> flush_step f (f\<lparr>fphase := Connecting\<rparr>)"
| quit: "fphase f = Connected b \<Longrightarrow> queue f = Some c \<Longrightarrow> items c = [] \<Longrightarrow> closed c \<Longrightarrow>
     flush_step f (f\<lparr>queue := None, fphase := Quit, lost := lost f @ b\<rparr>)"
| quit_waiting: "fphase f = Waiting \<Longrightarrow> queue f = Some c \<Longrightarrow> items c = [] \<Longrightarrow> closed c \<Longrightarrow>
     flush_step f (f\<lparr>queue := None, fphase := Quit\<rparr>)"
| push: "pushMetric m (queue f) = Ok q \<Longrightarrow>
     flush_step f (f\<lparr>queue := q, accepted := accepted f @ (if q = queue f then [] else [m])\<rparr>)"
| shutdown: "Shutdown (queue f) = Ok q \<Longrightarrow> flush_step f (f\<lparr>queue := q\<rparr>)"

inductive_cases flush_stepE: "flush_step f g"

section \<open>dogstatsd.go\<close>

text \<open>\<open>append(key[:i], key[i+1:]...)\<close> moves the rest of the key down in the key's own array; the
  second component is what that array then holds.\<close>

record dogstatsd =
  dog_hostName :: string
  propagateHostname :: bool

fun splice :: "string \<Rightarrow> string list \<Rightarrow> string list option" where
  "splice host [] = None"
| "splice host (el # key) = (if el = host then Some key else map_option (Cons el) (splice host key))"

definition parseKey :: "dogstatsd \<Rightarrow> string list \<Rightarrow> (string list \<times> string list) \<times> Tag list" where
  "parseKey d key =
     ((case splice (dog_hostName d) key of
         None \<Rightarrow> (key, key)
       | Some key' \<Rightarrow> (key', key' @ [last key])),
      if propagateHostname d then [\<lparr>TagName = ''host'', TagValue = dog_hostName d\<rparr>] else [])"

definition dog_tag :: "Tag \<Rightarrow> string" where
  "dog_tag l = (let n = map sanitize (TagName l); v = map sanitize (TagValue l)
                in if v \<noteq> [] then n @ '':'' @ v else n)"

definition getFlatkeyAndCombinedLabels :: "dogstatsd \<Rightarrow> string list \<Rightarrow> Tag list \<Rightarrow> string \<times> string list \<times> string list" where
  "getFlatkeyAndCombinedLabels d key labels =
     (let ((key', arr), parsed) = parseKey d key
      in (statsd_flattenKey key', map dog_tag (labels @ parsed), arr))"

text \<open>The state of this sink is the list of calls to the client library; \<open>rate\<close> is always 1. The
  counter value is converted to an integer by the argument \<open>to_int\<close>.\<close>

datatype 'f dog_call =
    DogGauge string 'f "string list"
  | DogCount string int "string list"
  | DogTime string 'f "string list"

definition dogstatsd_sink :: "dogstatsd \<Rightarrow> ('f \<Rightarrow> int) \<Rightarrow> ('f, 'f dog_call list) sink" where
  "dogstatsd_sink d to_int cl calls =
     (case getFlatkeyAndCombinedLabels d (ckey cl) (ctags cl) of
        (flatKey, t, arr) \<Rightarrow>
          Ok (calls @ [case ckind cl of
                         Gauge \<Rightarrow> DogGauge flatKey (cval cl) t
                       | Counter \<Rightarrow> DogCount flatKey (to_int (cval cl)) t
                       | Sample \<Rightarrow> DogTime flatKey (cval cl) t], arr))"

section \<open>prometheus.go\<close>

text \<open>A collector of the client library: its name, its constant labels and what it was told. Adding
  a negative value to a counter panics.\<close>

record 'f collector =
  pName :: string
  ConstLabels :: "(string, string) gomap"
  observed :: "'f list"

record 'f PrometheusSink =
  gauges :: "(string, 'f collector) gomap"
  summaries :: "(string, 'f collector) gomap"
  counters :: "(string, 'f collector) gomap"
  updates :: "(string, time) gomap"
  expiration :: duration

definition NewPrometheusSinkFrom :: "duration \<Rightarrow> 'f PrometheusSink" where
  "NewPrometheusSinkFrom expiry = \<lparr>gauges = [], summaries = [], counters = [], updates = [], expiration = expiry\<rparr>"

definition NewPrometheusSink :: "'f PrometheusSink" where
  "NewPrometheusSink = NewPrometheusSinkFrom (60 * second)"

definition forbidden :: "char \<Rightarrow> bool" where
  "forbidden c \<longleftrightarrow> c \<in> set '' .=-/''"

definition prom_flattenKey :: "string list \<Rightarrow> Tag list \<Rightarrow> string \<times> string" where
  "prom_flattenKey parts labels =
     (let key = map (\<lambda>c. if forbidden c then CHR ''_'' else c) (join ''_'' parts)
      in (key, fold (\<lambda>l h. h @ '';'' @ TagName l @ ''='' @ TagValue l) labels key))"

definition prometheusLabels :: "Tag list \<Rightarrow> (string, string) gomap" where
  "prometheusLabels ls = fold (\<lambda>l m. mput (TagName l) (TagValue l) m) ls []"

definition collector_for :: "(string, 'f collector) gomap \<Rightarrow> string \<Rightarrow> string \<Rightarrow> Tag list \<Rightarrow> 'f collector" where
  "collector_for m key hash tags =
     (case mget m hash of
        Some g \<Rightarrow> g
      | None \<Rightarrow> \<lparr>pName = key, ConstLabels = prometheusLabels tags, observed = []\<rparr>)"

definition prom_SetGauge :: "time \<Rightarrow> string list \<Rightarrow> 'f \<Rightarrow> Tag list \<Rightarrow> 'f PrometheusSink \<Rightarrow> 'f PrometheusSink" where
  "prom_SetGauge now parts val tags p =
     (case prom_flattenKey parts tags of
        (key, hash) \<Rightarrow>
          p\<lparr>gauges := mput hash ((collector_for (gauges p) key hash tags)\<lparr>observed := [val]\<rparr>) (gauges p),
            updates := mput hash now (updates p)\<rparr>)"

definition prom_AddSample :: "time \<Rightarrow> string list \<Rightarrow> 'f \<Rightarrow> Tag list \<Rightarrow> 'f PrometheusSink \<Rightarrow> 'f PrometheusSink" where
  "prom_AddSample now parts val tags p =
     (case prom_flattenKey parts tags of
        (key, hash) \<Rightarrow>
          let g = collector_for (summaries p) key hash tags
          in p\<lparr>summaries := mput hash (g\<lparr>observed := observed g @ [val]\<rparr>) (summaries p),
               updates := mput hash now (updates p)\<rparr>)"

definition prom_IncrCounter ::
  "('f \<Rightarrow> bool) \<Rightarrow> time \<Rightarrow> string list \<Rightarrow> 'f \<Rightarrow> Tag list \<Rightarrow> 'f PrometheusSink \<Rightarrow> (unit, 'f PrometheusSink) result" where
  "prom_IncrCounter negative now parts val tags p =
     (case prom_flattenKey parts tags of
        (key, hash) \<Rightarrow>
          let g = collector_for (counters p) key hash tags
          in if negative val then Panic
             else Ok (p\<lparr>counters := mput hash (g\<lparr>observed := observed g @ [val]\<rparr>) (counters p),
                       updates := mput hash now (updates p)\<rparr>))"

text \<open>One of the three loops of \<open>Collect\<close>: expired entries are deleted from the map and from
  \<open>updates\<close> (where a missing entry is the zero time), the others are collected.\<close>

fun collect_loop ::
  "duration \<Rightarrow> time \<Rightarrow> (string, 'f collector) gomap \<Rightarrow> (string, time) gomap \<Rightarrow>
   (string, 'f collector) gomap \<times> (string, time) gomap \<times> 'f collector list" where
  "collect_loop expi now [] ups = ([], ups, [])"
| "collect_loop expi now ((k, v) # m) ups =
     (if expi \<noteq> 0 \<and> (case mget ups k of None \<Rightarrow> 0 | Some t \<Rightarrow> t) + expi < now
      then collect_loop expi now m (AList.delete k ups)
      else (case collect_loop expi now m ups of (m', ups', out) \<Rightarrow> ((k, v) # m', ups', v # out)))"

definition Collect :: "time \<Rightarrow> 'f PrometheusSink \<Rightarrow> 'f PrometheusSink \<times> 'f collector list" where
  "Collect now p =
     (let (g, ups, out1) = collect_loop (expiration p) now (gauges p) (updates p);
          (s, ups, out2) = collect_loop (expiration p) now (summaries p) ups;
          (c, ups, out3) = collect_loop (expiration p) now (counters p) ups
      in (p\<lparr>gauges := g, summaries := s, counters := c, updates := ups\<rparr>, out1 @ out2 @ out3))"

section \<open>sink.go: sinks from a URL\<close>

datatype 'f new_sink = StatsdFrom string | InmemFrom "'f InmemSink"

text \<open>The arguments are the parsed URL's scheme, host and query.\<close>

definition NewMetricSinkFromURL ::
  "'f fops \<Rightarrow> (string \<Rightarrow> string + duration) \<Rightarrow> string \<Rightarrow> string \<Rightarrow> (string \<Rightarrow> string) \<Rightarrow> (string, 'f new_sink) result" where
  "NewMetricSinkFromURL F parseDuration scheme host query =
     (if scheme = ''statsd'' then Ok (StatsdFrom host)
      else if scheme = ''inmem'' then
        (case NewInmemSinkFromURL F parseDuration query of
           Ok s \<Rightarrow> Ok (InmemFrom s) | Err e \<Rightarrow> Err e | Panic \<Rightarrow> Panic)
      else Err (''cannot create metric sink, unrecognized sink name: '' @ [CHR 0x22] @ scheme @ [CHR 0x22]))"

end
