(* ===== verification/MetricSinkFacts.thy ===== *)
theory MetricSinkFacts
  imports MetricSinks MetricsFacts
begin

text \<open>
  What the metric sinks keep: the datagrams of the statsd sink, the aggregates and intervals
  of the in-memory sink and the copies it hands out, the keys of the sinks behind a DataDog
  sink, and the expiry of the Prometheus sink.
\<close>

section \<open>The statsd flusher\<close>

definition pending :: "flusher \<Rightarrow> string list" where
  "pending f = (case fphase f of Connected b \<Rightarrow> b | _ \<Rightarrow> [])"

definition queued :: "flusher \<Rightarrow> string list" where
  "queued f = (case queue f of None \<Rightarrow> [] | Some c \<Rightarrow> items c)"

definition small :: "string list \<Rightarrow> bool" where
  "small ms \<longleftrightarrow> (\<forall>m\<in>set ms. length m \<le> statsdMaxLen)"

text \<open>A buffer has at most 1400 bytes, or a single metric that has more.\<close>

definition fits :: "string list \<Rightarrow> bool" where
  "fits b \<longleftrightarrow> buf_len b \<le> statsdMaxLen \<or> length b = 1"

definition flush_inv :: "flusher \<Rightarrow> bool" where
  "flush_inv f \<longleftrightarrow>
     mset (concat (packets f)) + mset (lost f) + mset (pending f) + mset (queued f) = mset (accepted f) \<and>
     subseq (concat (packets f) @ pending f @ queued f) (accepted f) \<and>
     fits (pending f) \<and> list_all fits (packets f) \<and>
     (small (accepted f) \<longrightarrow> buf_len (pending f) \<le> statsdMaxLen \<and>
        (\<forall>p\<in>set (packets f). p \<noteq> [] \<and> buf_len p \<le> statsdMaxLen))"

definition flush_init :: flusher where
  "flush_init = \<lparr>queue = Some \<lparr>items = [], closed = False\<rparr>, fphase = Connecting, packets = [], lost = [], accepted = []\<rparr>"

lemma buf_len_simps [simp]: "buf_len [] = 0" "buf_len (b @ [m]) = buf_len b + length m" "buf_len [m] = length m"
  by (simp_all add: buf_len_def)

lemma buf_len_pos: "0 < buf_len b \<Longrightarrow> b \<noteq> []"
  by auto

lemma fits_simps [simp]: "fits []" "fits [m]" "buf_len b \<le> statsdMaxLen \<Longrightarrow> fits b"
  by (simp_all add: fits_def)

lemma subseq_drop_mid: "subseq (a @ b @ c) xs \<Longrightarrow> subseq (a @ c) xs"
  by (rule subseq_order.trans [of _ "a @ b @ c"]) (auto intro: list_emb_append_mono)

lemma flush_step_inv:
  assumes "flush_step f g" and "flush_inv f"
  shows "flush_inv g"
  using assms
proof (cases rule: flush_step.cases)
  case (connect up)
  then show ?thesis using assms(2) by (simp add: flush_inv_def dial_def pending_def queued_def)
next
  case (metric b c m ms sent)
  have "add_mset m (mset (concat (packets f)) + mset (lost f) + mset b + mset ms) = mset (accepted f)"
    using assms(2) metric by (simp add: flush_inv_def pending_def queued_def)
  then have "m \<in> set (accepted f)" by (metis union_single_eq_member set_mset_mset)
  then have s: "small (accepted f) \<Longrightarrow> length m \<le> statsdMaxLen" by (simp add: small_def)
  have q: "subseq (concat (packets f) @ b @ m # ms) (accepted f)"
    using assms(2) metric by (simp add: flush_inv_def pending_def queued_def)
  show ?thesis
  proof (cases "length m + buf_len b > statsdMaxLen")
    case True
    have "b \<noteq> []" if "small (accepted f)" using s [OF that] True by auto
    then show ?thesis
      using assms(2) metric True q s subseq_drop_mid [of "concat (packets f)" "b @ [m]" ms "accepted f"]
      by (auto simp: flush_inv_def take_metric_def write_buf_def pending_def queued_def Let_def ac_simps)
  next
    case False
    then show ?thesis using assms(2) metric q
      by (auto simp: flush_inv_def take_metric_def pending_def queued_def ac_simps)
  qed
next
  case (tick b sent)
  then show ?thesis
    using assms(2) subseq_drop_mid [of "concat (packets f)" b "queued f" "accepted f"]
    by (auto simp: flush_inv_def write_buf_def pending_def queued_def ac_simps)
next
  case (drain c m ms)
  then show ?thesis
    using assms(2) subseq_drop_mid [of "concat (packets f)" "[m]" ms "accepted f"]
    by (auto simp: flush_inv_def pending_def queued_def ac_simps)
next
  case wake
  then show ?thesis using assms(2) by (simp add: flush_inv_def pending_def queued_def)
next
  case (quit b c)
  then show ?thesis
    using assms(2) subseq_drop_mid [of "concat (packets f)" b "[]" "accepted f"]
    by (auto simp: flush_inv_def pending_def queued_def ac_simps)
next
  case (quit_waiting c)
  then show ?thesis using assms(2) by (auto simp: flush_inv_def pending_def queued_def)
next
  case (push m q)
  have "subseq (concat (packets f) @ pending f @ queued f @ [m]) (accepted f @ [m])"
    if "subseq (concat (packets f) @ pending f @ queued f) (accepted f)"
    using list_emb_append_mono [OF that, of "[m]" "[m]"] by simp
  then show ?thesis
    using push assms(2)
    by (auto simp: flush_inv_def pushMetric_def pending_def queued_def small_def split: option.splits if_splits phase.splits)
next
  case (shutdown q)
  then show ?thesis using assms(2)
    by (auto simp: flush_inv_def Shutdown_def pending_def queued_def split: option.splits if_splits)
qed

lemma flush_reach_inv: "flush_step\<^sup>*\<^sup>* flush_init f \<Longrightarrow> flush_inv f"
proof (induction rule: rtranclp_induct)
  case base
  show ?case by (simp add: flush_inv_def flush_init_def pending_def queued_def)
next
  case (step y z)
  then show ?case using flush_step_inv by blast
qed

text \<open>C14. The statsd sink sends whole metrics in the order they were queued, every queued metric is
  sent, lost, buffered or still queued, exactly once; a datagram of more than 1400 bytes is a single metric that is longer,
  and if there is no such metric no datagram is empty either; in every interleaving of the flusher,
  the emitters and a shutdown, and whatever the network does. Metrics are lost where the network fails, while the flusher waits
  to connect again and at the shutdown.\<close>

theorem statsd_datagrams:
  assumes "flush_step\<^sup>*\<^sup>* flush_init f"
  shows "subseq (concat (packets f) @ pending f @ queued f) (accepted f) \<and>
    mset (concat (packets f)) + mset (lost f) + mset (pending f) + mset (queued f) = mset (accepted f) \<and>
    (\<forall>p\<in>set (packets f). length (concat p) \<le> 1400 \<or> (\<exists>m. p = [m])) \<and>
    (small (accepted f) \<longrightarrow> (\<forall>p\<in>set (packets f). p \<noteq> [] \<and> length (concat p) \<le> 1400))"
proof -
  note inv = flush_reach_inv [OF assms]
  have "length (concat p) \<le> 1400 \<or> (\<exists>m. p = [m])" if "p \<in> set (packets f)" for p
    using inv that by (auto simp: flush_inv_def list_all_iff fits_def buf_len_def statsdMaxLen_def length_Suc_conv)
  then show ?thesis using inv by (auto simp: flush_inv_def buf_len_def statsdMaxLen_def)
qed

definition flush_demo :: flusher where
  "flush_demo = flush_init\<lparr>fphase := Connected [], packets := [[''a:1|g'']], accepted := [''a:1|g'']\<rparr>"

lemma flush_demo_reached: "flush_step\<^sup>*\<^sup>* flush_init flush_demo"
proof -
  let ?f1 = "flush_init\<lparr>queue := Some \<lparr>items = [''a:1|g''], closed = False\<rparr>, accepted := [''a:1|g'']\<rparr>"
  let ?f2 = "?f1\<lparr>fphase := Connected []\<rparr>"
  let ?f3 = "flush_init\<lparr>fphase := Connected [''a:1|g''], accepted := [''a:1|g'']\<rparr>"
  have "flush_step flush_init ?f1"
    using push [of "''a:1|g''" flush_init "Some \<lparr>items = [''a:1|g''], closed = False\<rparr>"]
    by (simp add: flush_init_def pushMetric_def metricQueue_cap_def)
  moreover have "flush_step ?f1 ?f2"
    using connect [of ?f1 True] by (simp add: flush_init_def dial_def)
  moreover have "flush_step ?f2 ?f3"
    using metric [of ?f2 "[]" "\<lparr>items = [''a:1|g''], closed = False\<rparr>" "''a:1|g''" "[]" True]
    by (simp add: flush_init_def take_metric_def statsdMaxLen_def)
  moreover have "flush_step ?f3 flush_demo"
    using tick [of ?f3 "[''a:1|g'']" True] by (simp add: flush_init_def flush_demo_def write_buf_def)
  ultimately show ?thesis by (meson converse_rtranclp_into_rtranclp rtranclp.rtrancl_refl)
qed

theorem statsd_datagrams_witness:
  "packets flush_demo = [[''a:1|g'']] \<and> subseq (concat (packets flush_demo) @ pending flush_demo @ queued flush_demo) [''a:1|g'']"
  using statsd_datagrams [OF flush_demo_reached] by (simp add: flush_demo_def)

section \<open>Intervals of the in-memory sink\<close>

definition pointers :: "'f IntervalMetrics \<Rightarrow> nat list" where
  "pointers iv = map (sAgg \<circ> snd) (Counters iv) @ map (sAgg \<circ> snd) (Samples iv)"

definition wf_interval :: "'f IntervalMetrics \<Rightarrow> bool" where
  "wf_interval iv \<longleftrightarrow> wf_map (Gauges iv) \<and> wf_map (Counters iv) \<and> wf_map (Samples iv)"

text \<open>At least one and at most \<open>maxIntervals\<close> intervals, in the order of time; each aggregate is owned
  by one entry of one interval.\<close>

definition inmem_inv :: "'f InmemSink \<Rightarrow> bool" where
  "inmem_inv s \<longleftrightarrow> 1 \<le> maxIntervals s \<and> int (length (intervals s)) \<le> maxIntervals s \<and>
     sorted_wrt (<) (map Interval (intervals s)) \<and> (\<forall>iv\<in>set (intervals s). wf_interval iv) \<and>
     distinct (concat (map pointers (intervals s))) \<and>
     (\<forall>p\<in>set (concat (map pointers (intervals s))). p < length (store s))"

definition this_interval :: "time \<Rightarrow> 'f InmemSink \<Rightarrow> time" where
  "this_interval now s = go_truncate now (im_interval s)"

text \<open>The clock has not gone back behind the current interval.\<close>

definition clock_ok :: "time \<Rightarrow> 'f InmemSink \<Rightarrow> bool" where
  "clock_ok now s \<longleftrightarrow> intervals s = [] \<or> Interval (last (intervals s)) \<le> this_interval now s"

lemma pointers_new [simp]: "pointers (NewIntervalMetrics t) = []" "wf_interval (NewIntervalMetrics t)"
  "Interval (NewIntervalMetrics t) = t"
  by (simp_all add: pointers_def NewIntervalMetrics_def wf_interval_def)

lemma sorted_snoc_less:
  "sorted_wrt (<) (map Interval ivs) \<Longrightarrow> ivs = [] \<or> Interval (last ivs) < t \<Longrightarrow>
   sorted_wrt (<) (map Interval (ivs @ [NewIntervalMetrics t]))"
  by (cases ivs rule: rev_cases) (auto simp: sorted_wrt_append dest: order.strict_trans)

lemma inv_drop:
  assumes "inmem_inv (s\<lparr>intervals := ivs, maxIntervals := int (length ivs)\<rparr>)" and "1 \<le> maxIntervals s"
    and "int (length ivs) - int k \<le> maxIntervals s"
  shows "inmem_inv (s\<lparr>intervals := drop k ivs\<rparr>)"
proof -
  have sp: "concat (map pointers ivs) = concat (map pointers (take k ivs)) @ concat (map pointers (drop k ivs))"
    by (metis append_take_drop_id concat_append map_append)
  have "sorted_wrt (<) (map Interval (drop k ivs))"
    using assms(1) by (simp add: inmem_inv_def drop_map [symmetric] sorted_wrt_drop)
  then show ?thesis
    using assms unfolding inmem_inv_def by (auto simp: sp dest: in_set_dropD)
qed

lemma getInterval_inv:
  assumes inv: "inmem_inv s" and clk: "clock_ok now s"
  shows "\<exists>s'. getInterval now s = (s', LastInterval) \<and> inmem_inv s' \<and> intervals s' \<noteq> [] \<and>
    Interval (last (intervals s')) = this_interval now s \<and>
    s' = s\<lparr>intervals := intervals s'\<rparr> \<and>
    last (intervals s') = (if getExistingInterval (this_interval now s) s then last (intervals s)
                           else NewIntervalMetrics (this_interval now s)) \<and>
    (\<forall>iv\<in>set (butlast (intervals s')). iv \<in> set (intervals s)) "
proof (cases "getExistingInterval (this_interval now s) s")
  case True
  then show ?thesis
    using inv by (auto simp: getInterval_def getExistingInterval_def this_interval_def Let_def dest: in_set_butlastD)
next
  case False
  let ?t = "this_interval now s" and ?ivs = "intervals s @ [NewIntervalMetrics (this_interval now s)]"
  let ?k = "nat (int (length ?ivs) - maxIntervals s)"
  have less: "intervals s = [] \<or> Interval (last (intervals s)) < ?t"
    using False clk by (auto simp: getExistingInterval_def clock_ok_def)
  have "inmem_inv (s\<lparr>intervals := ?ivs, maxIntervals := int (length ?ivs)\<rparr>)"
    using inv sorted_snoc_less [OF _ less] by (auto simp: inmem_inv_def)
  then have inv': "inmem_inv (s\<lparr>intervals := drop ?k ?ivs\<rparr>)"
    using inv by (intro inv_drop) (auto simp: inmem_inv_def)
  have k: "?k \<le> length (intervals s)" using inv by (auto simp: inmem_inv_def)
  have ne: "drop ?k ?ivs = drop ?k (intervals s) @ [NewIntervalMetrics ?t]" using k by simp
  have "createInterval ?t s = (s\<lparr>intervals := drop ?k ?ivs\<rparr>, LastInterval)"
    using less inv k by (auto simp: createInterval_def Let_def inmem_inv_def)
  then show ?thesis
    using False inv' ne
    by (auto simp: getInterval_def this_interval_def Let_def dest: in_set_dropD)
qed

section \<open>Aggregates\<close>

text \<open>The aggregate of a key in the current interval, read through its pointer.\<close>

definition lookup :: "('f IntervalMetrics \<Rightarrow> (string, SampledValue) gomap) \<Rightarrow> 'f InmemSink \<Rightarrow> string \<Rightarrow> 'f AggregateSample option" where
  "lookup get s k =
     (if intervals s = [] then None
      else map_option (\<lambda>sv. store s ! sAgg sv) (mget (get (last (intervals s))) k))"

definition lookup_at ::
  "('f IntervalMetrics \<Rightarrow> (string, SampledValue) gomap) \<Rightarrow> time \<Rightarrow> 'f InmemSink \<Rightarrow> string \<Rightarrow> 'f AggregateSample option" where
  "lookup_at get now s k = (if getExistingInterval (this_interval now s) s then lookup get s k else None)"

lemma mput_fresh: "mget m k = None \<Longrightarrow> mput k v m = m @ [(k, v)]"
  by (induction m) (auto split: if_splits)

text \<open>The interface of \<open>ingest_into\<close>: one of the two maps of an interval, beside the other.\<close>

locale sampled_map =
  fixes get :: "'f IntervalMetrics \<Rightarrow> (string, SampledValue) gomap"
    and put :: "(string, SampledValue) gomap \<Rightarrow> 'f IntervalMetrics \<Rightarrow> 'f IntervalMetrics"
    and other :: "'f IntervalMetrics \<Rightarrow> (string, SampledValue) gomap"
  assumes get_put [simp]: "get (put m iv) = m"
    and other_put [simp]: "other (put m iv) = other iv"
    and Interval_put [simp]: "Interval (put m iv) = Interval iv"
    and wf_put: "wf_interval iv \<Longrightarrow> wf_map m \<Longrightarrow> wf_interval (put m iv)"
    and wf_get: "wf_interval iv \<Longrightarrow> wf_map (get iv) \<and> wf_map (other iv)"
    and pointers_maps: "mset (pointers iv) = mset (map (sAgg \<circ> snd) (get iv)) + mset (map (sAgg \<circ> snd) (other iv))"
begin

lemma set_pointers: "set (pointers iv) = (sAgg \<circ> snd) ` set (get iv) \<union> (sAgg \<circ> snd) ` set (other iv)"
  using mset_eq_setD [of "pointers iv" "map (sAgg \<circ> snd) (get iv) @ map (sAgg \<circ> snd) (other iv)"] pointers_maps [of iv]
  by auto

lemma distinct_pointers:
  "distinct (pointers iv) \<longleftrightarrow> distinct (map (sAgg \<circ> snd) (get iv) @ map (sAgg \<circ> snd) (other iv))"
  using pointers_maps [of iv] by (metis mset_append mset_eq_imp_distinct_iff)

lemma lookup_pointer:
  assumes "mget (get iv) k = Some sv"
  shows "sAgg sv \<in> set (pointers iv)"
  using map_of_SomeD [OF assms] by (force simp: set_pointers)

lemma other_key:
  assumes "distinct (pointers iv)" and "mget (get iv) k = Some a" and "mget (get iv) k' = Some b" and "k \<noteq> k'"
  shows "sAgg a \<noteq> sAgg b"
proof
  assume "sAgg a = sAgg b"
  moreover have "inj_on (sAgg \<circ> snd) (set (get iv))"
    using assms(1) by (simp add: distinct_pointers distinct_map)
  ultimately have "(k, a) = (k', b)"
    using inj_onD [of "sAgg \<circ> snd" "set (get iv)" "(k, a)" "(k', b)"] map_of_SomeD [OF assms(2)] map_of_SomeD [OF assms(3)]
    by simp
  with assms(4) show False by simp
qed

lemma other_map:
  assumes "distinct (pointers iv)" and "mget (get iv) k = Some a" and "mget (other iv) k' = Some b"
  shows "sAgg a \<noteq> sAgg b"
  using assms map_of_SomeD [OF assms(2)] map_of_SomeD [OF assms(3)]
  by (force simp: distinct_pointers distinct_append)

text \<open>An entry for a new key points to a new aggregate.\<close>

lemma add_entry_inv:
  assumes inv: "inmem_inv s" and ne: "intervals s \<noteq> []" and fresh: "mget (get (last (intervals s))) k = None"
    and sv: "sAgg sv = length (store s)"
  shows "inmem_inv (s\<lparr>intervals := butlast (intervals s) @ [put (mput k sv (get (last (intervals s)))) (last (intervals s))],
                      store := store s @ [a]\<rparr>)"
proof -
  let ?iv = "last (intervals s)" and ?ivs = "butlast (intervals s)"
  let ?new = "put (mput k sv (get ?iv)) ?iv"
  have split: "intervals s = ?ivs @ [?iv]" using ne by simp
  have "mset (pointers ?new) = add_mset (sAgg sv) (mset (pointers ?iv))"
    using fresh by (simp add: pointers_maps mput_fresh)
  then have ps: "mset (concat (map pointers (?ivs @ [?new]))) = add_mset (length (store s)) (mset (concat (map pointers (intervals s))))"
    using sv by (subst split) (simp add: ac_simps)
  have old: "distinct (concat (map pointers (intervals s)))"
    "\<forall>p\<in>set (concat (map pointers (intervals s))). p < length (store s)"
    using inv by (simp_all add: inmem_inv_def)
  have "distinct (length (store s) # concat (map pointers (intervals s)))"
    using old by auto
  then have d: "distinct (concat (map pointers (?ivs @ [?new])))"
    using ps by (metis mset.simps(2) mset_eq_imp_distinct_iff)
  have "set (concat (map pointers (?ivs @ [?new]))) = insert (length (store s)) (set (concat (map pointers (intervals s))))"
    using ps by (metis set_mset_mset set_mset_add_mset_insert)
  then have b: "\<forall>p\<in>set (concat (map pointers (?ivs @ [?new]))). p < length (store s @ [a])"
    using old(2) by (metis insertE length_append_singleton less_SucI lessI)
  have w: "\<forall>iv\<in>set (intervals s). wf_interval iv" using inv by (simp add: inmem_inv_def)
  then have "wf_interval ?iv" using ne by simp
  then have "wf_interval ?new" using wf_put wf_get by simp
  moreover have "map Interval (?ivs @ [?new]) = map Interval (intervals s)" by (subst (2) split) simp
  ultimately show ?thesis
    using inv w d b ne unfolding inmem_inv_def by (auto dest: in_set_butlastD)
qed

lemma empty_maps: "pointers iv = [] \<Longrightarrow> get iv = [] \<and> other iv = []"
  using pointers_maps [of iv] by simp

lemma interval_pointers:
  assumes "inmem_inv s" and "iv \<in> set (intervals s)"
  shows "distinct (pointers iv)" and "p \<in> set (pointers iv) \<Longrightarrow> p < length (store s)"
  using assms by (auto simp: inmem_inv_def distinct_concat_iff)

lemma store_update_inv: "inmem_inv s \<Longrightarrow> inmem_inv (s\<lparr>store := (store s)[p := a]\<rparr>)"
  by (simp add: inmem_inv_def)

text \<open>Ingesting into the current interval changes the aggregate of its own key and no other.\<close>

lemma ingest_step:
  assumes inv: "inmem_inv s" and clk: "clock_ok now s" and k: "flattenKeyLabels key tags = Ok (k, n)"
  shows "\<exists>s'. ingest_into get put F now key v tags s = Ok s' \<and> inmem_inv s' \<and> clock_ok now s' \<and>
    getExistingInterval (this_interval now s') s' \<and> this_interval now s' = this_interval now s \<and> rateDenom s' = rateDenom s \<and>
    im_interval s' = im_interval s \<and> lookup get s' k = Some (Ingest F now v (rateDenom s) (case lookup_at get now s k of None \<Rightarrow> zero_aggregate F | Some a \<Rightarrow> a)) \<and>
    (\<forall>k'. k' \<noteq> k \<longrightarrow> lookup get s' k' = lookup_at get now s k') \<and>
    (\<forall>k'. lookup other s' k' = lookup_at other now s k')"
proof -
  obtain s1 where s1: "getInterval now s = (s1, LastInterval)" "inmem_inv s1" "intervals s1 \<noteq> []"
    "Interval (last (intervals s1)) = this_interval now s" "s1 = s\<lparr>intervals := intervals s1\<rparr>"
    "last (intervals s1) = (if getExistingInterval (this_interval now s) s then last (intervals s)
                            else NewIntervalMetrics (this_interval now s))"
    using getInterval_inv [OF inv clk] by metis
  have st: "store s1 = store s" "rateDenom s1 = rateDenom s" "im_interval s1 = im_interval s"
    by (subst s1(5), simp)+
  let ?iv = "last (intervals s1)"
  have at: "lookup_at f now s k' = map_option (\<lambda>sv. store s1 ! sAgg sv) (mget (f ?iv) k')" if "f = get \<or> f = other" for f k'
    using that s1(6) st(1) empty_maps [OF pointers_new(1)]
    by (auto simp: lookup_at_def lookup_def getExistingInterval_def)
  have ivin: "?iv \<in> set (intervals s1)" using s1(3) by simp
  note ptr = interval_pointers [OF s1(2) ivin]
  have frame: "getExistingInterval (this_interval now s') s' \<and> clock_ok now s' \<and> this_interval now s' = this_interval now s"
    if "intervals s' = butlast (intervals s1) @ [iv']" "Interval iv' = this_interval now s" "im_interval s' = im_interval s" for s' iv'
    using that by (simp add: getExistingInterval_def clock_ok_def this_interval_def)
  show ?thesis
  proof (cases "mget (get ?iv) k")
    case (Some sv)
    let ?p = "sAgg sv"
    let ?s' = "s1\<lparr>store := (store s1)[?p := Ingest F now v (rateDenom s1) (store s1 ! ?p)]\<rparr>"
    have p: "?p < length (store s1)" using lookup_pointer [OF Some] ptr(2) by blast
    have "ingest_into get put F now key v tags s = Ok ?s'"
      using s1(1) Some by (simp add: ingest_into_def k target_of_def)
    moreover have "inmem_inv ?s'" using store_update_inv s1(2) by blast
    moreover have "getExistingInterval (this_interval now ?s') ?s' \<and> clock_ok now ?s' \<and> this_interval now ?s' = this_interval now s"
      using s1(3,4) st(3) by (intro frame [of ?s' ?iv]) simp_all
    moreover have "lookup get ?s' k' = lookup_at get now s k'" if "k' \<noteq> k" for k'
      using other_key [OF ptr(1) Some _ that [symmetric]] s1(3) at [of get k']
      by (cases "mget (get ?iv) k'") (auto simp: lookup_def)
    moreover have "lookup other ?s' k' = lookup_at other now s k'" for k'
      using other_map [OF ptr(1) Some, of k'] s1(3) at [of other k']
      by (cases "mget (other ?iv) k'") (auto simp: lookup_def)
    moreover have "lookup get ?s' k = Some (Ingest F now v (rateDenom s) (case lookup_at get now s k of None \<Rightarrow> zero_aggregate F | Some a \<Rightarrow> a))"
      using Some p s1(3) st(2) at [of get k] by (simp add: lookup_def)
    moreover have "rateDenom ?s' = rateDenom s \<and> im_interval ?s' = im_interval s" using st by simp
    ultimately show ?thesis by blast
  next
    case None
    let ?sv = "\<lparr>sName = n, sAgg = length (store s1), sLabels = tags\<rparr>"
    let ?a = "Ingest F now v (rateDenom s1) (zero_aggregate F)"
    let ?new = "put (mput k ?sv (get ?iv)) ?iv"
    let ?s' = "s1\<lparr>intervals := butlast (intervals s1) @ [?new], store := store s1 @ [?a]\<rparr>"
    have "ingest_into get put F now key v tags s = Ok ?s'"
      using s1(1) None by (simp add: ingest_into_def k target_of_def on_target_def Let_def nth_append list_update_append)
    moreover have "inmem_inv ?s'" using add_entry_inv [OF s1(2,3) None, of ?sv ?a] by simp
    moreover have "getExistingInterval (this_interval now ?s') ?s' \<and> clock_ok now ?s' \<and> this_interval now ?s' = this_interval now s"
      using s1(4) st(3) by (intro frame [of ?s' ?new]) simp_all
    moreover have "lookup get ?s' k' = lookup_at get now s k'" if "k' \<noteq> k" for k'
      using that at [of get k'] ptr(2) lookup_pointer [of ?iv k']
      by (cases "mget (get ?iv) k'") (auto simp: lookup_def nth_append)
    moreover have "lookup other ?s' k' = lookup_at other now s k'" for k'
      using at [of other k'] ptr(2) set_pointers [of ?iv]
      by (cases "mget (other ?iv) k'") (force simp: lookup_def nth_append dest: map_of_SomeD)+
    moreover have "lookup get ?s' k = Some (Ingest F now v (rateDenom s) (case lookup_at get now s k of None \<Rightarrow> zero_aggregate F | Some a \<Rightarrow> a))"
      using None st(2) at [of get k] by (simp add: lookup_def)
    moreover have "rateDenom ?s' = rateDenom s \<and> im_interval ?s' = im_interval s" using st by simp
    ultimately show ?thesis by blast
  qed
qed

end

interpretation counters: sampled_map Counters "\<lambda>m iv. iv\<lparr>Counters := m\<rparr>" Samples
  by unfold_locales (auto simp: wf_interval_def pointers_def)

interpretation samples: sampled_map Samples "\<lambda>m iv. iv\<lparr>Samples := m\<rparr>" Counters
  by unfold_locales (auto simp: wf_interval_def pointers_def)

section \<open>Totals\<close>

fun count_all ::
  "'f fops \<Rightarrow> string list \<Rightarrow> Tag list \<Rightarrow> (time \<times> 'f) list \<Rightarrow> 'f InmemSink \<Rightarrow> (unit, 'f InmemSink) result" where
  "count_all F key tags [] s = Ok s"
| "count_all F key tags ((t, v) # evs) s = bind_result (inmem_IncrCounter F t key v tags s) (count_all F key tags evs)"

definition ingest_all :: "'f fops \<Rightarrow> 'f \<Rightarrow> (time \<times> 'f) list \<Rightarrow> 'f AggregateSample \<Rightarrow> 'f AggregateSample" where
  "ingest_all F rd evs a = fold (\<lambda>(t, v) a. Ingest F t v rd a) evs a"

lemma Ingest_fields [simp]:
  "aCount (Ingest F t v rd a) = aCount a + 1"
  "aSum (Ingest F t v rd a) = f_add F (aSum a) v"
  "aMin (Ingest F t v rd a) = (if f_lt F v (aMin a) \<or> aCount a = 0 then v else aMin a)"
  "aMax (Ingest F t v rd a) = (if f_lt F (aMax a) v \<or> aCount a = 0 then v else aMax a)"
  "aRate (Ingest F t v rd a) = f_div F (f_add F (aSum a) v) rd"
  by (auto simp: Ingest_def Let_def)

lemma ingest_all_snoc: "ingest_all F rd (evs @ [(t, v)]) a = Ingest F t v rd (ingest_all F rd evs a)"
  by (simp add: ingest_all_def)

text \<open>The values are ordered by the comparison, as floating point numbers other than NaN are.\<close>

definition ordered_by :: "('f \<Rightarrow> 'f \<Rightarrow> bool) \<Rightarrow> 'f set \<Rightarrow> bool" where
  "ordered_by lt V \<longleftrightarrow> (\<forall>x\<in>V. \<forall>y\<in>V. lt x y \<longrightarrow> \<not> lt y x) \<and>
     (\<forall>x\<in>V. \<forall>y\<in>V. \<forall>z\<in>V. lt x y \<longrightarrow> \<not> lt z y \<longrightarrow> lt x z)"

lemma ingest_all_totals:
  assumes "ordered_by (f_lt F) (snd ` set evs)"
  shows "aCount (ingest_all F rd evs (zero_aggregate F)) = int (length evs) \<and>
    aSum (ingest_all F rd evs (zero_aggregate F)) = foldl (f_add F) (f_zero F) (map snd evs) \<and>
    (evs \<noteq> [] \<longrightarrow>
       aMin (ingest_all F rd evs (zero_aggregate F)) \<in> snd ` set evs \<and>
       (\<forall>v\<in>snd ` set evs. \<not> f_lt F v (aMin (ingest_all F rd evs (zero_aggregate F)))) \<and>
       aMax (ingest_all F rd evs (zero_aggregate F)) \<in> snd ` set evs \<and>
       (\<forall>v\<in>snd ` set evs. \<not> f_lt F (aMax (ingest_all F rd evs (zero_aggregate F))) v))"
  using assms
proof (induction evs rule: rev_induct)
  case Nil
  show ?case by (simp add: ingest_all_def zero_aggregate_def)
next
  case (snoc tv evs)
  obtain t v where tv: "tv = (t, v)" by (cases tv)
  let ?a = "ingest_all F rd evs (zero_aggregate F)"
  have o: "ordered_by (f_lt F) (insert v (snd ` set evs))" using snoc.prems tv by (simp add: insert_commute)
  then have "ordered_by (f_lt F) (snd ` set evs)" unfolding ordered_by_def by (meson insertI2)
  note ih = snoc.IH [OF this]
  have irr: "\<not> f_lt F v v" using o unfolding ordered_by_def by (meson insertI1)
  show ?case
  proof (cases "evs = []")
    case True
    then show ?thesis using tv irr by (simp add: ingest_all_def zero_aggregate_def)
  next
    case False
    then have c: "aCount ?a \<noteq> 0" using ih by simp
    have asym: "f_lt F x y \<Longrightarrow> \<not> f_lt F y x" if "x \<in> insert v (snd ` set evs)" "y \<in> insert v (snd ` set evs)" for x y
      using o that unfolding ordered_by_def by meson
    have tr: "f_lt F x y \<Longrightarrow> \<not> f_lt F z y \<Longrightarrow> f_lt F x z"
      if "x \<in> insert v (snd ` set evs)" "y \<in> insert v (snd ` set evs)" "z \<in> insert v (snd ` set evs)" for x y z
      using o that unfolding ordered_by_def by meson
    have mn: "\<not> f_lt F x v" if "f_lt F v (aMin ?a)" "x \<in> snd ` set evs" for x
      using that ih False tr [of v "aMin ?a" x] asym [of v x] by blast
    have mx: "\<not> f_lt F v x" if "f_lt F (aMax ?a) v" "x \<in> snd ` set evs" for x
      using that ih False tr [of v x "aMax ?a"] asym [of v "aMax ?a"] by blast
    let ?b = "Ingest F t v rd ?a"
    have "aMin ?b \<in> insert v (snd ` set evs)" "\<forall>x\<in>insert v (snd ` set evs). \<not> f_lt F x (aMin ?b)"
      using ih False c irr mn by (cases "f_lt F v (aMin ?a)"; simp)+
    moreover have "aMax ?b \<in> insert v (snd ` set evs)" "\<forall>x\<in>insert v (snd ` set evs). \<not> f_lt F (aMax ?b) x"
      using ih False c irr mx by (cases "f_lt F (aMax ?a) v"; simp)+
    moreover have "aCount ?b = int (length (evs @ [tv]))" "aSum ?b = foldl (f_add F) (f_zero F) (map snd (evs @ [tv]))"
      using ih tv by simp_all
    moreover have "snd ` set (evs @ [tv]) = insert v (snd ` set evs)" using tv by simp
    ultimately show ?thesis unfolding tv ingest_all_snoc by (simp del: Ingest_fields)
  qed
qed

lemma count_all_fold:
  assumes "inmem_inv s" and "flattenKeyLabels key tags = Ok (k, n)" and "evs \<noteq> []"
    and "\<forall>(t, v)\<in>set evs. clock_ok t s \<and> this_interval t s = T"
  shows "\<exists>s'. count_all F key tags evs s = Ok s' \<and> inmem_inv s' \<and>
    lookup Counters s' k = Some (ingest_all F (rateDenom s) evs
      (case lookup_at Counters (fst (hd evs)) s k of None \<Rightarrow> zero_aggregate F | Some a \<Rightarrow> a)) \<and>
    (\<forall>k'. k' \<noteq> k \<longrightarrow> lookup Counters s' k' = lookup_at Counters (fst (hd evs)) s k') \<and>
    (\<forall>k'. lookup Samples s' k' = lookup_at Samples (fst (hd evs)) s k')"
  using assms
proof (induction evs arbitrary: s)
  case (Cons tv evs)
  obtain t v where tv: "tv = (t, v)" by (cases tv)
  have ok: "clock_ok t s" "this_interval t s = T" using Cons.prems(4) tv by auto
  obtain s1 where s1: "inmem_IncrCounter F t key v tags s = Ok s1" "inmem_inv s1" "clock_ok t s1"
    "getExistingInterval (this_interval t s1) s1" "this_interval t s1 = T" "rateDenom s1 = rateDenom s" and im: "im_interval s1 = im_interval s" and s1':
    "lookup Counters s1 k = Some (Ingest F t v (rateDenom s) (case lookup_at Counters t s k of None \<Rightarrow> zero_aggregate F | Some a \<Rightarrow> a))"
    "\<forall>k'. k' \<noteq> k \<longrightarrow> lookup Counters s1 k' = lookup_at Counters t s k'"
    "\<forall>k'. lookup Samples s1 k' = lookup_at Samples t s k'"
    using counters.ingest_step [OF Cons.prems(1) ok(1) Cons.prems(2), of F v] ok(2)
    unfolding inmem_IncrCounter_def by metis
  show ?case
  proof (cases "evs = []")
    case True
    then show ?thesis using s1 s1' tv by (simp add: ingest_all_def)
  next
    case False
    have same: "\<forall>(t', v')\<in>set evs. clock_ok t' s1 \<and> this_interval t' s1 = T"
    proof (intro ballI, clarify)
      fix t' v' assume "(t', v') \<in> set evs"
      then have "this_interval t' s = T" using Cons.prems(4) by auto
      then have "this_interval t' s1 = T" by (simp add: this_interval_def im)
      then show "clock_ok t' s1 \<and> this_interval t' s1 = T"
        using s1(4,5) by (simp add: clock_ok_def getExistingInterval_def)
    qed
    obtain t2 v2 evs' where e: "evs = (t2, v2) # evs'" using False by (cases evs) auto
    have "this_interval t2 s1 = T" using same e by simp
    then have now2: "lookup_at f t2 s1 k' = lookup f s1 k'" for f k'
      using s1(4,5) by (simp add: lookup_at_def)
    show ?thesis
      using Cons.IH [OF s1(2) Cons.prems(2) False same] s1 s1' tv e now2 by (auto simp: ingest_all_def)
  qed
qed simp

text \<open>Counting in the in-memory sink: increments of one key within an interval, on a sink that
  retains at least one interval and has not seen the key in it, give an aggregate with their
  number, their sum in order, their least and greatest value; the aggregates of all other
  counters and of all samples of the interval stay as they are, and so does the sink's
  invariant.\<close>

theorem counter_totals:
  assumes "inmem_inv s" and "flattenKeyLabels key tags = Ok (k, n)" and "evs \<noteq> []"
    and "\<forall>(t, v)\<in>set evs. clock_ok t s \<and> this_interval t s = T"
    and "lookup_at Counters (fst (hd evs)) s k = None"
    and "ordered_by (f_lt F) (snd ` set evs)"
  shows "\<exists>s' a. count_all F key tags evs s = Ok s' \<and> inmem_inv s' \<and> lookup Counters s' k = Some a \<and>
    aCount a = int (length evs) \<and> aSum a = foldl (f_add F) (f_zero F) (map snd evs) \<and>
    aMin a \<in> snd ` set evs \<and> aMax a \<in> snd ` set evs \<and>
    (\<forall>v\<in>snd ` set evs. \<not> f_lt F v (aMin a) \<and> \<not> f_lt F (aMax a) v) \<and>
    (\<forall>k'. k' \<noteq> k \<longrightarrow> lookup Counters s' k' = lookup_at Counters (fst (hd evs)) s k') \<and>
    (\<forall>k'. lookup Samples s' k' = lookup_at Samples (fst (hd evs)) s k')"
proof -
  let ?a = "ingest_all F (rateDenom s) evs (zero_aggregate F)"
  obtain s' where "count_all F key tags evs s = Ok s'" "inmem_inv s'" "lookup Counters s' k = Some ?a"
    "\<forall>k'. k' \<noteq> k \<longrightarrow> lookup Counters s' k' = lookup_at Counters (fst (hd evs)) s k'"
    "\<forall>k'. lookup Samples s' k' = lookup_at Samples (fst (hd evs)) s k'"
    using count_all_fold [OF assms(1-4), of F] assms(5) by auto
  then show ?thesis
    using ingest_all_totals [OF assms(6), of "rateDenom s"] assms(3)
    by (intro exI [of _ s'] exI [of _ ?a]) simp
qed

definition int_ops :: "int fops" where
  "int_ops = \<lparr>f_zero = 0, f_add = (+), f_sub = (-), f_mul = (*), f_div = (div), f_sqrt = (\<lambda>x. x),
     f_pow2 = (\<lambda>x. x * x), f_lt = (<), f_of_int = (\<lambda>x. x)\<rparr>"

definition demo_sink :: "int InmemSink" where
  "demo_sink = \<lparr>im_interval = 10 * second, im_retain = 60 * second, maxIntervals = 6, intervals = [],
     rateDenom = 10, store = []\<rparr>"

lemma demo_sink_inv: "inmem_inv demo_sink"
  by (simp add: inmem_inv_def demo_sink_def)

theorem counter_totals_witness:
  "\<exists>s' a. count_all int_ops [''req''] [] [(12 * second, 5), (17 * second, 2), (19 * second, 9)] demo_sink = Ok s' \<and>
     lookup Counters s' ''req'' = Some a \<and> aCount a = 3 \<and> aSum a = 16 \<and> aMin a = 2 \<and> aMax a = 9"
proof -
  have "flattenKeyLabels [''req''] [] = Ok (''req'', ''req'')"
    by (simp add: flattenKeyLabels_def underscore_def Let_def)
  from counter_totals [OF demo_sink_inv this, of "[(12 * second, 5), (17 * second, 2), (19 * second, 9)]" "10 * second" int_ops]
  show ?thesis
    by (force simp: clock_ok_def demo_sink_def this_interval_def go_truncate_def lookup_at_def getExistingInterval_def
        int_ops_def ordered_by_def)
qed

text \<open>\<open>Data\<close> promises a copy of the current interval, but copies the pointers to the aggregates: a
  later increment of a counter the copy has shows in the copy.\<close>

theorem Data_copy_is_not_frozen:
  assumes "inmem_inv s" and "clock_ok now s" and "flattenKeyLabels key tags = Ok (k, n)"
    and "Data now s = Ok (s1, snap)" and "mget (Counters (last snap)) k = Some sv"
  shows "\<exists>s2. inmem_IncrCounter F now key v tags s1 = Ok s2 \<and>
    store s2 ! sAgg sv = Ingest F now v (rateDenom s) (store s1 ! sAgg sv)"
proof -
  obtain s' where s': "getInterval now s = (s', LastInterval)" "inmem_inv s'" "intervals s' \<noteq> []"
    "Interval (last (intervals s')) = this_interval now s" "s' = s\<lparr>intervals := intervals s'\<rparr>"
    using getInterval_inv [OF assms(1,2)] by metis
  have d: "s1 = s'" "last snap = copy_interval (last (intervals s'))"
    using assms(4) s'(1,3) by (auto simp: Data_def)
  have im: "im_interval s' = im_interval s" "rateDenom s' = rateDenom s" by (subst s'(5), simp)+
  have e: "getExistingInterval (this_interval now s') s'"
    using s'(3,4) im by (simp add: getExistingInterval_def this_interval_def)
  have sv: "mget (Counters (last (intervals s'))) k = Some sv" using assms(5) d by (simp add: copy_interval_def)
  have "sAgg sv < length (store s')"
    using counters.interval_pointers(2) [OF s'(2) last_in_set [OF s'(3)] counters.lookup_pointer [OF sv]] .
  moreover have "getInterval now s' = (s', LastInterval)"
    using e by (simp add: getInterval_def this_interval_def)
  ultimately show ?thesis
    using sv im d(1) by (simp add: inmem_IncrCounter_def ingest_into_def assms(3) target_of_def)
qed

definition counted_sink :: "int InmemSink" where
  "counted_sink = demo_sink\<lparr>intervals := [(NewIntervalMetrics (10 * second))\<lparr>Counters := [(''req'', \<lparr>sName = ''req'', sAgg = 0, sLabels = []\<rparr>)]\<rparr>],
     store := [Ingest int_ops (12 * second) 5 10 (zero_aggregate int_ops)]\<rparr>"

theorem Data_copy_is_not_frozen_witness:
  "\<exists>s1 snap s2. Data (13 * second) counted_sink = Ok (s1, snap) \<and>
     inmem_IncrCounter int_ops (14 * second) [''req''] 2 [] s1 = Ok s2 \<and>
     map (\<lambda>(k, sv). (k, aSum (store s1 ! sAgg sv), aSum (store s2 ! sAgg sv))) (Counters (last snap)) = [(''req'', 5, 7)]"
proof -
  have inv: "inmem_inv counted_sink"
    by (simp add: inmem_inv_def counted_sink_def demo_sink_def pointers_def NewIntervalMetrics_def wf_interval_def wf_map_def)
  have clk: "clock_ok t counted_sink" if "t = 14 * second" for t
    using that by (simp add: clock_ok_def counted_sink_def demo_sink_def NewIntervalMetrics_def this_interval_def go_truncate_def)
  have k: "flattenKeyLabels [''req''] [] = Ok (''req'', ''req'')"
    by (simp add: flattenKeyLabels_def underscore_def Let_def)
  have e: "Data t counted_sink = Ok (counted_sink, intervals counted_sink)" if "t = 13 * second \<or> t = 14 * second" for t
    using that by (auto simp: Data_def getInterval_def getExistingInterval_def go_truncate_def counted_sink_def demo_sink_def
        NewIntervalMetrics_def copy_interval_def)
  have c: "mget (Counters (last (intervals counted_sink))) ''req'' = Some \<lparr>sName = ''req'', sAgg = 0, sLabels = []\<rparr>"
    by (simp add: counted_sink_def)
  obtain s2 where "inmem_IncrCounter int_ops (14 * second) [''req''] 2 [] counted_sink = Ok s2"
    "store s2 ! 0 = Ingest int_ops (14 * second) 2 (rateDenom counted_sink) (store counted_sink ! 0)"
    using Data_copy_is_not_frozen [OF inv clk [OF refl] k e c, of int_ops 2] by auto
  then show ?thesis
    using e [of "13 * second"] by (auto simp: counted_sink_def int_ops_def zero_aggregate_def)
qed

section \<open>Flattened keys\<close>

definition plain :: "string \<Rightarrow> bool" where
  "plain s \<longleftrightarrow> set s \<inter> {CHR ''.'', CHR '';'', CHR ''='', CHR '' ''} = {}"

definition plain_tag :: "Tag \<Rightarrow> bool" where
  "plain_tag l \<longleftrightarrow> plain (TagName l) \<and> plain (TagValue l)"

definition tag_text :: "Tag \<Rightarrow> string" where
  "tag_text l = join ''='' [TagName l, TagValue l]"

lemma underscore_no_space: "CHR '' '' \<notin> set s \<Longrightarrow> underscore s = s"
  by (induction s) (auto simp: underscore_def)

lemma dotted_join: "\<forall>p\<in>set ps. plain p \<Longrightarrow> p @ dotted ps = join ''.'' (p # ps)"
proof (induction ps arbitrary: p)
  case (Cons q ps)
  then have "underscore q = q" by (intro underscore_no_space) (auto simp: plain_def)
  then show ?case using Cons.IH [of q] Cons.prems by simp
qed simp

lemma labels_text_join: "\<forall>l\<in>set ls. plain_tag l \<Longrightarrow> k @ labels_text ls = join '';'' (k # map tag_text ls)"
proof (induction ls arbitrary: k)
  case (Cons l ls)
  have "underscore ('';'' @ TagName l @ ''='' @ TagValue l) = CHR '';'' # tag_text l"
    using Cons.prems underscore_no_space [of "'';'' @ TagName l @ ''='' @ TagValue l"]
    by (auto simp: plain_tag_def plain_def tag_text_def)
  then show ?case using Cons.IH [of "tag_text l"] Cons.prems by simp
qed simp

lemma flatten_plain:
  assumes "parts \<noteq> []" and "\<forall>p\<in>set parts. plain p" and "\<forall>l\<in>set tags. plain_tag l"
  shows "flattenKeyLabels parts tags = Ok (join '';'' (join ''.'' parts # map tag_text tags), join ''.'' parts)"
proof -
  obtain p ps where parts: "parts = p # ps" using assms(1) by (cases parts) auto
  then have "underscore p = p" using assms(2) by (intro underscore_no_space) (auto simp: plain_def)
  then show ?thesis
    using parts assms dotted_join [of ps p] labels_text_join [of tags "join ''.'' (p # ps)"]
    by (simp add: flattenKeyLabels_def Let_def del: append_assoc)
qed

lemma tag_text_inj: "plain_tag a \<Longrightarrow> plain_tag b \<Longrightarrow> tag_text a = tag_text b \<Longrightarrow> a = (b :: Tag)"
proof -
  assume "plain_tag a" "plain_tag b" "tag_text a = tag_text b"
  moreover have "split_on CHR ''='' (tag_text l) = [TagName l, TagValue l]" if "plain_tag l" for l :: Tag
    using that split_on_join [of "[TagName l, TagValue l]" "CHR ''=''"]
    by (auto simp: tag_text_def plain_tag_def plain_def)
  ultimately show "a = b" by (metis list.inject Tag.equality old.unit.exhaust)
qed

text \<open>The in-memory sink keys an aggregate by the flattened name and labels. For key parts and
  labels without dots, semicolons, equals signs and spaces the flattened key determines the
  key and the tags; a label value with a semicolon collides with two labels, and an empty key
  panics although the code tests for it.\<close>

theorem flattened_key_determines_metric:
  assumes "parts \<noteq> []" "parts' \<noteq> []" "\<forall>p\<in>set parts \<union> set parts'. plain p" "\<forall>l\<in>set tags \<union> set tags'. plain_tag l"
    and "flattenKeyLabels parts tags = Ok (k, n)" and "flattenKeyLabels parts' tags' = Ok (k, n')"
  shows "parts = parts' \<and> tags = tags'"
proof -
  have split: "split_on CHR '';'' k = join ''.'' ps # map tag_text ts \<and> split_on CHR ''.'' (join ''.'' ps) = ps"
    if "ps \<noteq> []" "\<forall>p\<in>set ps. plain p" "\<forall>l\<in>set ts. plain_tag l" "flattenKeyLabels ps ts = Ok (k, m)" for ps ts m
  proof
    have "CHR '';'' \<notin> set (join ''.'' ps)"
      using that(2) by (auto simp: set_join plain_def)
    moreover have "CHR '';'' \<notin> set (tag_text l)" if "l \<in> set ts" for l
      using that \<open>\<forall>l\<in>set ts. plain_tag l\<close> by (auto simp: tag_text_def plain_tag_def plain_def)
    ultimately show "split_on CHR '';'' k = join ''.'' ps # map tag_text ts"
      using flatten_plain [OF that(1-3)] that(4) by (simp add: split_on_join)
    show "split_on CHR ''.'' (join ''.'' ps) = ps"
      using that(1,2) by (intro split_on_join) (auto simp: plain_def)
  qed
  have a: "split_on CHR '';'' k = join ''.'' parts # map tag_text tags \<and> split_on CHR ''.'' (join ''.'' parts) = parts"
    and b: "split_on CHR '';'' k = join ''.'' parts' # map tag_text tags' \<and> split_on CHR ''.'' (join ''.'' parts') = parts'"
    using split [of parts tags n] split [of parts' tags' n'] assms by simp_all
  then have "parts = parts'" "map tag_text tags = map tag_text tags'" by auto
  moreover have "inj_on tag_text (set tags \<union> set tags')"
    using assms(4) by (auto intro!: inj_onI tag_text_inj)
  ultimately show ?thesis by (simp add: inj_on_map_eq_map)
qed

theorem flattened_key_determines_metric_witness:
  "flattenKeyLabels [''a''] [\<lparr>TagName = ''x'', TagValue = ''1''\<rparr>] \<noteq> flattenKeyLabels [''a''] [\<lparr>TagName = ''x'', TagValue = ''2''\<rparr>] \<and>
   flattenKeyLabels [''a''] [\<lparr>TagName = ''x'', TagValue = ''1;y=2''\<rparr>] =
     flattenKeyLabels [''a''] [\<lparr>TagName = ''x'', TagValue = ''1''\<rparr>, \<lparr>TagName = ''y'', TagValue = ''2''\<rparr>] \<and>
   flattenKeyLabels [] [] = Panic"
proof -
  have ok: "flattenKeyLabels [''a''] [\<lparr>TagName = ''x'', TagValue = ''1''\<rparr>] = Ok (''a;x=1'', ''a'')" by code_simp
  have "flattenKeyLabels [''a''] [\<lparr>TagName = ''x'', TagValue = ''2''\<rparr>] \<noteq> Ok (''a;x=1'', ''a'')"
    using flattened_key_determines_metric [OF _ _ _ _ ok, of "[''a'']" "[\<lparr>TagName = ''x'', TagValue = ''2''\<rparr>]" "''a''"]
    by (auto simp: plain_def plain_tag_def)
  then show ?thesis unfolding ok by (intro conjI) (metis, code_simp, code_simp)
qed

section \<open>Other sinks\<close>

text \<open>A retention shorter than the interval leaves the in-memory sink without any interval:
  whatever was recorded is dropped and \<open>Data\<close> panics.\<close>

theorem short_retention_panics:
  assumes "0 \<le> retain" "retain < interval" "NewInmemSink F interval retain = Ok s"
  shows "Data now s = Panic \<and> (\<forall>key v tags s'. inmem_IncrCounter F t key v tags s = Ok s' \<longrightarrow> intervals s' = [] \<and> Data now s' = Panic)"
proof -
  have "go_quot retain interval = 0" using assms(1,2) by (simp add: go_quot_def)
  then have s: "maxIntervals s = 0" "intervals s = []" using assms(3) by (auto simp: NewInmemSink_def split: if_splits)
  have g: "getInterval t s = (s, DroppedInterval)" if "maxIntervals s = 0" "intervals s = []" for t and s :: "'a InmemSink"
    using that by (simp add: getInterval_def getExistingInterval_def createInterval_def Let_def)
  have "maxIntervals s' = 0 \<and> intervals s' = []" if "inmem_IncrCounter F t key v tags s = Ok s'" for key v tags s'
    using that s g [OF s] by (auto simp: inmem_IncrCounter_def ingest_into_def go_simps target_of_def on_target_def
        NewIntervalMetrics_def Let_def)
  then show ?thesis using g s by (auto simp: Data_def)
qed

theorem short_retention_panics_witness:
  "\<exists>s. NewInmemSink int_ops (10 * second) (5 * second) = Ok s \<and> Data 0 s = Panic"
proof -
  obtain s where "NewInmemSink int_ops (10 * second) (5 * second) = Ok s"
    by (simp add: NewInmemSink_def go_quot_def)
  then show ?thesis using short_retention_panics [of "5 * second" "10 * second" int_ops s 0] by auto
qed

text \<open>Two sinks with states of their own, side by side.\<close>

definition on_fst :: "('f, 'a) sink \<Rightarrow> ('f, 'a \<times> 'b) sink" where
  "on_fst snk cl s = bind_result (snk cl (fst s)) (\<lambda>(a, k). Ok ((a, snd s), k))"

definition on_snd :: "('f, 'b) sink \<Rightarrow> ('f, 'a \<times> 'b) sink" where
  "on_snd snk cl s = bind_result (snk cl (snd s)) (\<lambda>(b, k). Ok ((fst s, b), k))"

lemma splice_first: "host \<notin> set xs \<Longrightarrow> splice host (xs @ host # ys) = Some (xs @ ys)"
  by (induction xs) auto

text \<open>In a fan-out behind a DataDog sink the next sink gets a wrong key whenever the key holds
  the host name: cutting the name out moves the rest down in the shared array, so the next
  sink sees the key without the host name and with its last part doubled.\<close>

theorem dogstatsd_corrupts_fanout:
  assumes "ckey cl = xs @ dog_hostName d # ys" and "dog_hostName d \<notin> set xs"
    and "snk (cl\<lparr>ckey := xs @ ys @ [last (dog_hostName d # ys)]\<rparr>) s = Ok (s', k)"
  shows "\<exists>calls'. FanoutSink [on_fst (dogstatsd_sink d to_int), on_snd snk] cl (calls, s) = Ok ((calls', s'), k)"
  using assms
  by (auto simp: on_fst_def on_snd_def dogstatsd_sink_def getFlatkeyAndCombinedLabels_def parseKey_def splice_first
      split_beta Let_def split: kind.splits)

theorem dogstatsd_corrupts_fanout_witness:
  "\<exists>calls'. FanoutSink [on_fst (dogstatsd_sink \<lparr>dog_hostName = ''node1'', propagateHostname = False\<rparr> id),
       on_snd (\<lambda>cl keys. Ok (keys @ [ckey cl], ckey cl))]
     \<lparr>ckind = Gauge, ckey = [''svc'', ''node1'', ''load''], cval = 7, ctags = []\<rparr> ([], []) =
     Ok ((calls', [[''svc'', ''load'', ''load'']]), [''svc'', ''load'', ''load''])"
  by (rule dogstatsd_corrupts_fanout [where xs = "[''svc'']" and ys = "[''load'']"]) simp_all

text \<open>An entry has not expired: a missing update time is the zero time.\<close>

definition alive :: "duration \<Rightarrow> time \<Rightarrow> (string, time) gomap \<Rightarrow> string \<Rightarrow> bool" where
  "alive e now ups k \<longleftrightarrow> e = 0 \<or> now \<le> (case mget ups k of None \<Rightarrow> 0 | Some t \<Rightarrow> t) + e"

lemma alive_delete:
  "e < now \<Longrightarrow> \<not> alive e now ups k \<Longrightarrow> alive e now (AList.delete k ups) k' = alive e now ups k'"
  by (cases "k' = k") (auto simp: alive_def delete_conv')

lemma collect_loop_alive:
  assumes "e < now"
  shows "\<exists>ups'. collect_loop e now m ups =
      (filter (alive e now ups \<circ> fst) m, ups', map snd (filter (alive e now ups \<circ> fst) m)) \<and>
    (\<forall>k. alive e now ups' k = alive e now ups k)"
proof (induction m arbitrary: ups)
  case (Cons kv m)
  obtain k v where kv: "kv = (k, v)" by (cases kv)
  show ?case
  proof (cases "alive e now ups k")
    case True
    then have c: "\<not> (e \<noteq> 0 \<and> (case mget ups k of None \<Rightarrow> 0 | Some t \<Rightarrow> t) + e < now)" by (auto simp: alive_def)
    obtain ups' where i: "collect_loop e now m ups =
        (filter (alive e now ups \<circ> fst) m, ups', map snd (filter (alive e now ups \<circ> fst) m))"
      and s: "\<forall>k. alive e now ups' k = alive e now ups k" using Cons [of ups] by blast
    have "collect_loop e now (kv # m) ups =
        (kv # filter (alive e now ups \<circ> fst) m, ups', v # map snd (filter (alive e now ups \<circ> fst) m))"
      unfolding kv collect_loop.simps i using c by (simp only: if_False prod.case)
    then show ?thesis using s True kv by (simp add: comp_def del: collect_loop.simps)
  next
    case False
    then have c: "e \<noteq> 0 \<and> (case mget ups k of None \<Rightarrow> 0 | Some t \<Rightarrow> t) + e < now" by (auto simp: alive_def)
    have same: "alive e now (AList.delete k ups) = alive e now ups"
      using alive_delete [OF assms False] by blast
    show ?thesis using Cons [of "AList.delete k ups"] kv False by (simp add: c same)
  qed
qed simp

text \<open>Collecting the Prometheus sink keeps and reports exactly the metrics updated within the
  expiration, of all three kinds, also where a gauge, a summary and a counter share a key
  and so an update time; with no expiration nothing is dropped.\<close>

theorem Collect_expires:
  assumes "expiration p < now"
  shows "gauges (fst (Collect now p)) = filter (alive (expiration p) now (updates p) \<circ> fst) (gauges p) \<and>
    summaries (fst (Collect now p)) = filter (alive (expiration p) now (updates p) \<circ> fst) (summaries p) \<and>
    counters (fst (Collect now p)) = filter (alive (expiration p) now (updates p) \<circ> fst) (counters p) \<and>
    snd (Collect now p) = map snd (filter (alive (expiration p) now (updates p) \<circ> fst) (gauges p @ summaries p @ counters p))"
proof -
  let ?a = "alive (expiration p) now (updates p)"
  obtain u1 where 1: "collect_loop (expiration p) now (gauges p) (updates p) =
      (filter (?a \<circ> fst) (gauges p), u1, map snd (filter (?a \<circ> fst) (gauges p)))" "alive (expiration p) now u1 = ?a"
    using collect_loop_alive [OF assms, of "gauges p" "updates p"] by blast
  obtain u2 where 2: "collect_loop (expiration p) now (summaries p) u1 =
      (filter (?a \<circ> fst) (summaries p), u2, map snd (filter (?a \<circ> fst) (summaries p)))" "alive (expiration p) now u2 = ?a"
    using collect_loop_alive [OF assms, of "summaries p" u1] 1(2) by auto
  obtain u3 where 3: "collect_loop (expiration p) now (counters p) u2 =
      (filter (?a \<circ> fst) (counters p), u3, map snd (filter (?a \<circ> fst) (counters p)))"
    using collect_loop_alive [OF assms, of "counters p" u2] 2(2) by auto
  show ?thesis using 1 2 3 by (simp add: Collect_def)
qed

theorem Collect_expires_witness:
  "let p = prom_SetGauge (200 * second) [''b''] (2 :: int) [] (prom_SetGauge (100 * second) [''a''] 1 [] NewPrometheusSink)
   in map fst (gauges p) = [''a'', ''b''] \<and> map fst (gauges (fst (Collect (210 * second) p))) = [''b'']"
proof -
  define p where "p = prom_SetGauge (200 * second) [''b''] (2 :: int) [] (prom_SetGauge (100 * second) [''a''] 1 [] NewPrometheusSink)"
  have f: "prom_flattenKey [''a''] [] = (''a'', ''a'')" "prom_flattenKey [''b''] [] = (''b'', ''b'')" by code_simp+
  have p: "expiration p = 60 * second" "updates p = [(''a'', 100 * second), (''b'', 200 * second)]"
    "map fst (gauges p) = [''a'', ''b'']"
    by (simp_all add: p_def prom_SetGauge_def f NewPrometheusSink_def NewPrometheusSinkFrom_def)
  have "gauges (fst (Collect (210 * second) p)) =
      filter (alive (60 * second) (210 * second) [(''a'', 100 * second), (''b'', 200 * second)] \<circ> fst) (gauges p)"
    using Collect_expires [of p "210 * second"] p by simp
  then show ?thesis
    unfolding p_def [symmetric] Let_def by (simp add: p(3) filter_map [symmetric] alive_def)
qed

end
