(* ===== verification/Throttle.thy ===== *)
theory Throttle
  imports Prelude
begin

text \<open>
  The package \<open>algorithms/throttle\<close>. The three methods run under one lock, so each is an atomic
  step; \<open>Next\<close> is cut at \<open>cond.Wait\<close>, where it releases the lock. The state adds to the struct
  the clock, the number of goroutines blocked in \<open>Wait\<close>, the timers set by \<open>time.AfterFunc\<close> and,
  for the properties, the times at which \<open>Next\<close> returned true.
\<close>

section \<open>throttle.go\<close>

record throttler =
  period :: duration
  trailing :: bool
  last_time :: time
  waiting :: bool
  stop :: bool

definition newThrottler :: "duration \<Rightarrow> bool \<Rightarrow> throttler" where
  "newThrottler p tr = \<lparr>period = p, trailing = tr, last_time = 0, waiting = False, stop = False\<rparr>"

text \<open>\<open>time.Time.Sub\<close> saturates; the first \<open>last\<close> is the zero time.\<close>

definition time_sub :: "time \<Rightarrow> time \<Rightarrow> duration" where
  "time_sub t u = max (- (2 ^ 63)) (min (2 ^ 63 - 1) (t - u))"

text \<open>\<open>Trigger\<close> returns the effect on the condition variable: broadcast now, a timer that
  broadcasts later, or nothing.\<close>

datatype effect = NoEffect | BroadcastNow | BroadcastAfter duration

definition Trigger :: "time \<Rightarrow> throttler \<Rightarrow> throttler \<times> effect" where
  "Trigger now t =
     (if \<not> waiting t \<and> \<not> stop t then
        let delta = time_sub now (last_time t)
        in if delta > period t then (t\<lparr>waiting := True\<rparr>, BroadcastNow)
           else if trailing t then (t\<lparr>waiting := True\<rparr>, BroadcastAfter (period t - delta))
           else (t, NoEffect)
      else (t, NoEffect))"

text \<open>The body of \<open>Next\<close> from the loop test on: \<open>None\<close> goes into \<open>cond.Wait\<close>.\<close>

definition Next :: "time \<Rightarrow> throttler \<Rightarrow> (throttler \<times> bool) option" where
  "Next now t =
     (if \<not> waiting t \<and> \<not> stop t then None
      else let t' = (if \<not> stop t then t\<lparr>waiting := False, last_time := now\<rparr> else t)
           in Some (t', \<not> stop t'))"

definition Stop_throttle :: "throttler \<Rightarrow> throttler \<times> effect" where
  "Stop_throttle t = (t\<lparr>stop := True\<rparr>, BroadcastNow)"

section \<open>Interleavings\<close>

record world =
  thr :: throttler
  clock :: time
  blocked :: nat        \<comment> \<open>goroutines in \<open>cond.Wait\<close>\<close>
  woken :: nat          \<comment> \<open>goroutines a broadcast has released, which do not hold the lock yet\<close>
  timers :: "time list" \<comment> \<open>when the timers fire\<close>
  passes :: "time list" \<comment> \<open>the times \<open>Next\<close> returned true, newest first\<close>

definition broadcast :: "world \<Rightarrow> world" where
  "broadcast w = w\<lparr>woken := woken w + blocked w, blocked := 0\<rparr>"

definition apply_effect :: "effect \<Rightarrow> world \<Rightarrow> world" where
  "apply_effect e w =
     (case e of
        NoEffect \<Rightarrow> w
      | BroadcastNow \<Rightarrow> broadcast w
      | BroadcastAfter d \<Rightarrow> w\<lparr>timers := timers w @ [clock w + d]\<rparr>)"

text \<open>A goroutine that has the lock runs \<open>Next\<close> up to its end or to the next \<open>Wait\<close>.\<close>

definition run_Next :: "world \<Rightarrow> world" where
  "run_Next w =
     (case Next (clock w) (thr w) of
        None \<Rightarrow> w\<lparr>blocked := blocked w + 1\<rparr>
      | Some (t, ok) \<Rightarrow> w\<lparr>thr := t, passes := (if ok then clock w # passes w else passes w)\<rparr>)"

inductive throttle_step :: "world \<Rightarrow> world \<Rightarrow> bool" where
  time_passes: "0 \<le> d \<Longrightarrow> throttle_step w (w\<lparr>clock := clock w + d\<rparr>)"
| trigger: "Trigger (clock w) (thr w) = (t, e) \<Longrightarrow> throttle_step w (apply_effect e (w\<lparr>thr := t\<rparr>))"
| stopping: "Stop_throttle (thr w) = (t, e) \<Longrightarrow> throttle_step w (apply_effect e (w\<lparr>thr := t\<rparr>))"
| call_Next: "throttle_step w (run_Next w)"
| wakes: "woken w = Suc n \<Longrightarrow> throttle_step w (run_Next (w\<lparr>woken := n\<rparr>))"
| fires: "timers w = a @ t # b \<Longrightarrow> t \<le> clock w \<Longrightarrow> throttle_step w (broadcast (w\<lparr>timers := a @ b\<rparr>))"

inductive_cases throttle_stepE: "throttle_step w v"

definition init_world :: "duration \<Rightarrow> bool \<Rightarrow> time \<Rightarrow> world" where
  "init_world p tr now = \<lparr>thr = newThrottler p tr, clock = now, blocked = 0, woken = 0, timers = [], passes = []\<rparr>"

section \<open>Facts\<close>

lemma effect_frame [simp]:
  "thr (apply_effect e w) = thr w" "clock (apply_effect e w) = clock w" "passes (apply_effect e w) = passes w"
  by (simp_all add: apply_effect_def broadcast_def split: effect.splits)

lemma broadcast_frame [simp]:
  "thr (broadcast w) = thr w" "clock (broadcast w) = clock w" "passes (broadcast w) = passes w"
  by (simp_all add: broadcast_def)

text \<open>Passes lie further apart than the period; a pass that is due keeps that distance too.\<close>

definition spaced :: "world \<Rightarrow> bool" where
  "spaced w \<longleftrightarrow> \<not> trailing (thr w) \<and> sorted_wrt (\<lambda>a b. a > b + period (thr w)) (passes w) \<and>
     (case passes w of [] \<Rightarrow> True | t # _ \<Rightarrow> last_time (thr w) = t \<and> t \<le> clock w) \<and>
     (waiting (thr w) \<longrightarrow> (case passes w of [] \<Rightarrow> True | t # _ \<Rightarrow> clock w > t + period (thr w)))"

lemma time_sub_le: "period t < time_sub now u \<Longrightarrow> u \<le> now \<Longrightarrow> period t < now - u"
  by (simp add: time_sub_def max_def min_def split: if_splits)

lemma run_Next_spaced: "spaced w \<Longrightarrow> 0 \<le> period (thr w) \<Longrightarrow> spaced (run_Next w) \<and> period (thr (run_Next w)) = period (thr w)"
  by (auto simp: spaced_def run_Next_def Next_def Let_def split: list.splits if_splits)

lemma spaced_step:
  assumes "throttle_step w v" and "spaced w" and "0 \<le> period (thr w)"
  shows "spaced v \<and> period (thr v) = period (thr w)"
  using assms
proof (cases rule: throttle_step.cases)
  case (time_passes d)
  then show ?thesis using assms(2) by (auto simp: spaced_def split: list.splits)
next
  case (trigger t e)
  then show ?thesis using assms(2)
    by (auto simp: spaced_def Trigger_def Let_def split: list.splits if_splits dest!: time_sub_le)
next
  case (stopping t e)
  then show ?thesis using assms(2) by (auto simp: spaced_def Stop_throttle_def split: list.splits)
next
  case call_Next
  then show ?thesis using assms(2,3) run_Next_spaced by simp
next
  case (wakes n)
  have "spaced (w\<lparr>woken := n\<rparr>)" using assms(2) by (simp add: spaced_def split: list.splits)
  then show ?thesis using wakes assms(3) run_Next_spaced [of "w\<lparr>woken := n\<rparr>"] by simp
next
  case (fires a t b)
  then show ?thesis using assms(2) by (simp add: spaced_def split: list.splits)
qed

text \<open>C24. Without the trailing option \<open>Next\<close> returns true at most once per period, in every
  interleaving of triggers, waiting goroutines and stops: any two passes lie further apart
  than the period.\<close>

theorem throttle_at_most_once_per_period:
  assumes "throttle_step\<^sup>*\<^sup>* (init_world p False now) w" and "0 \<le> p"
  shows "sorted_wrt (\<lambda>later earlier. later > earlier + p) (passes w)"
proof -
  have "spaced w \<and> period (thr w) = p"
    using assms(1)
  proof (induction rule: rtranclp_induct)
    case base
    show ?case by (simp add: spaced_def init_world_def newThrottler_def)
  next
    case (step y z)
    then show ?case using spaced_step [of y z] assms(2) by auto
  qed
  then show ?thesis by (auto simp: spaced_def)
qed

definition passed_once :: "duration \<Rightarrow> bool \<Rightarrow> time \<Rightarrow> world" where
  "passed_once p tr now = (init_world p tr now)\<lparr>thr := (newThrottler p tr)\<lparr>last_time := now\<rparr>, passes := [now]\<rparr>"

lemma reach_passed_once:
  assumes "p < now" and "p < 2 ^ 63 - 1" and "0 \<le> p"
  shows "throttle_step\<^sup>*\<^sup>* (init_world p tr now) (passed_once p tr now)"
proof -
  let ?w0 = "init_world p tr now"
  let ?w1 = "?w0\<lparr>thr := (newThrottler p tr)\<lparr>waiting := True\<rparr>\<rparr>"
  have "p < time_sub now 0" using assms by (simp add: time_sub_def)
  then have "throttle_step ?w0 ?w1"
    using trigger [of ?w0 "(newThrottler p tr)\<lparr>waiting := True\<rparr>" BroadcastNow]
    by (simp add: init_world_def newThrottler_def Trigger_def apply_effect_def broadcast_def)
  moreover have "throttle_step ?w1 (passed_once p tr now)"
    using call_Next [of ?w1]
    by (simp add: run_Next_def Next_def passed_once_def init_world_def newThrottler_def)
  ultimately show ?thesis by (meson converse_rtranclp_into_rtranclp rtranclp.rtrancl_refl)
qed

theorem throttle_at_most_once_per_period_witness:
  "sorted_wrt (\<lambda>later earlier. later > earlier + second) (passes (passed_once second False (5 * second)))"
  by (rule throttle_at_most_once_per_period [OF reach_passed_once, of second "5 * second"]) simp_all

text \<open>With the trailing option the promise fails: a trigger within the period marks the
  throttler as waiting at once and only delays the wake-up, so a goroutine that calls \<open>Next\<close>
  after that trigger, rather than being asleep in it, returns true right away.\<close>

theorem trailing_passes_early:
  assumes "p < now" and "p < 2 ^ 63 - 1" and "1 \<le> p"
  shows "\<exists>w. throttle_step\<^sup>*\<^sup>* (init_world p True now) w \<and> passes w = [now + 1, now]"
proof -
  let ?w1 = "passed_once p True now"
  let ?w2 = "?w1\<lparr>clock := now + 1\<rparr>"
  let ?t = "(thr ?w1)\<lparr>waiting := True\<rparr>"
  let ?w3 = "?w2\<lparr>thr := ?t, timers := [now + p]\<rparr>"
  let ?w4 = "?w3\<lparr>thr := ?t\<lparr>waiting := False, last_time := now + 1\<rparr>, passes := [now + 1, now]\<rparr>"
  have sub: "time_sub (now + 1) now = 1" by (simp add: time_sub_def)
  have "throttle_step\<^sup>*\<^sup>* (init_world p True now) ?w1" using reach_passed_once assms by simp
  moreover have "throttle_step ?w1 ?w2"
    using time_passes [of 1 ?w1] by (simp add: passed_once_def init_world_def)
  moreover have "throttle_step ?w2 ?w3"
    using trigger [of ?w2 ?t "BroadcastAfter (p - 1)"] assms sub
    by (simp add: passed_once_def init_world_def newThrottler_def Trigger_def apply_effect_def)
  moreover have "throttle_step ?w3 ?w4"
    using call_Next [of ?w3] by (simp add: run_Next_def Next_def passed_once_def init_world_def newThrottler_def)
  ultimately have "throttle_step\<^sup>*\<^sup>* (init_world p True now) ?w4" by (meson rtranclp.rtrancl_into_rtrancl)
  then show ?thesis by (intro exI [of _ ?w4]) simp
qed

theorem trailing_passes_early_witness:
  "\<exists>w. throttle_step\<^sup>*\<^sup>* (init_world minute True (90 * second)) w \<and> passes w = [90 * second + 1, 90 * second]"
  by (rule trailing_passes_early) simp_all

end
