(* ===== verification/Csr.thy ===== *)
theory Csr
  imports GoStrings
begin

text \<open>
  The package \<open>xpki/csr\<close>: object identifiers, key usages, subject names, alternative names and
  the certificate template built from a certificate request. Parsing of PEM, ASN.1, URLs,
  addresses and X.509 is the standard library's and comes in through the record \<open>pki\<close>. A byte
  string is a \<open>string\<close>; a URL is known by its text, nil where parsing failed.
\<close>

section \<open>Certificates\<close>

record pkix_name =
  Country :: "string list"
  Province :: "string list"
  Locality :: "string list"
  Organization :: "string list"
  OrganizationalUnit :: "string list"
  CommonName :: string
  SerialNo :: string

definition empty_name :: pkix_name where
  "empty_name = \<lparr>Country = [], Province = [], Locality = [], Organization = [], OrganizationalUnit = [],
     CommonName = [], SerialNo = []\<rparr>"

type_synonym OID = "int list"

record extension =
  ExtId :: OID
  Critical :: bool
  ExtValue :: string

datatype pubkey = RSAKey nat nat | ECDSAKey string nat | OtherKey nat

datatype sigalgo =
    SHA1WithRSA | SHA256WithRSA | SHA384WithRSA | SHA512WithRSA
  | ECDSAWithSHA1 | ECDSAWithSHA256 | ECDSAWithSHA384 | ECDSAWithSHA512 | UnknownSignatureAlgorithm

record certificate =
  Subject :: pkix_name
  DNSNames :: "string list"
  IPAddresses :: "string list"
  EmailAddresses :: "string list"
  URIs :: "string option list"
  PublicKey :: "pubkey option"
  SignatureAlgorithm :: sigalgo
  BasicConstraintsValid :: bool
  IsCA :: bool
  MaxPathLen :: int
  MaxPathLenZero :: bool
  NotBefore :: time
  NotAfter :: time
  KeyUsageBits :: "64 word"
  ExtKeyUsages :: "int list"
  SubjectKeyId :: string
  OCSPServer :: "string list"
  CRLDistributionPoints :: "string list"
  IssuingCertificateURL :: "string list"
  ExtraExtensions :: "extension list"
  SerialNumber :: int
  certIssuer :: pkix_name
  AuthorityKeyId :: string
  Raw :: string
  RawSubject :: string
  RawIssuer :: string
  RawPublicKey :: string

text \<open>The zero value of \<open>x509.Certificate\<close>; the zero time is 0.\<close>

definition zero_certificate :: certificate where
  "zero_certificate = \<lparr>Subject = empty_name, DNSNames = [], IPAddresses = [], EmailAddresses = [], URIs = [],
     PublicKey = None, SignatureAlgorithm = UnknownSignatureAlgorithm, BasicConstraintsValid = False, IsCA = False,
     MaxPathLen = 0, MaxPathLenZero = False, NotBefore = 0, NotAfter = 0, KeyUsageBits = 0, ExtKeyUsages = [],
     SubjectKeyId = [], OCSPServer = [], CRLDistributionPoints = [], IssuingCertificateURL = [],
     ExtraExtensions = [], SerialNumber = 0, certIssuer = empty_name, AuthorityKeyId = [], Raw = [],
     RawSubject = [], RawIssuer = [], RawPublicKey = []\<rparr>"

text \<open>A parsed certificate request.\<close>

record csr_info =
  csrSubject :: pkix_name
  csrPublicKey :: pubkey
  csrDNSNames :: "string list"
  csrIPAddresses :: "string list"
  csrEmailAddresses :: "string list"
  csrURIs :: "string list"
  csrExtensions :: "(OID \<times> string) list"

text \<open>What the package uses of the standard library; \<open>Inl\<close> is an error's text.\<close>

record pki =
  pem_Decode :: "string \<Rightarrow> (string \<times> string) option"
  ParseCertificateRequest :: "string \<Rightarrow> string + csr_info"
  CheckSignature :: "csr_info \<Rightarrow> string option"
  unmarshal_BasicConstraints :: "string \<Rightarrow> string + ((bool \<times> int) \<times> string)"
  url_Parse :: "string \<Rightarrow> string option"
  net_ParseIP :: "string \<Rightarrow> string option"
  mail_ParseAddress :: "string \<Rightarrow> string option"

section \<open>types.go\<close>

definition OID_Equal :: "OID \<Rightarrow> OID \<Rightarrow> bool" where
  "OID_Equal a b = (length a = length b \<and> list_all2 (=) a b)"

definition OID_String :: "OID \<Rightarrow> string" where
  "OID_String oid = join ''.'' (map itoa oid)"

text \<open>The regular expression \<open>\d(\.\d+)*\<close> is not anchored: it matches every string with a digit.\<close>

definition oid_pattern :: "string \<Rightarrow> bool" where
  "oid_pattern s = list_ex is_digit s"

fun parse_segments :: "string list \<Rightarrow> OID option" where
  "parse_segments [] = Some []"
| "parse_segments (s # ss) =
     (case atoi s of
        None \<Rightarrow> None
      | Some i \<Rightarrow> map_option (Cons i) (parse_segments ss))"

definition parseObjectIdentifier :: "string \<Rightarrow> (string, OID) result" where
  "parseObjectIdentifier s =
     (if \<not> oid_pattern s then Err (''invalid OID: '' @ [CHR 0x22] @ s @ [CHR 0x22])
      else case parse_segments (split_on CHR ''.'' s) of
             None \<Rightarrow> Err ''invalid OID''
           | Some oid \<Rightarrow> Ok oid)"

definition OID_UnmarshalJSON :: "string \<Rightarrow> (string, OID) result" where
  "OID_UnmarshalJSON data =
     (if data = [] then Panic
      else if hd data \<noteq> CHR 0x22 \<or> last data \<noteq> CHR 0x22 then
        Err (''OID JSON string not wrapped in quotes: '' @ data)
      else if length data = 1 then Panic
      else parseObjectIdentifier (butlast (tl data)))"

definition OID_MarshalJSON :: "OID \<Rightarrow> string" where
  "OID_MarshalJSON oid = [CHR 0x22] @ OID_String oid @ [CHR 0x22]"

text \<open>Numbers are seconds, strings are durations; the product wraps.\<close>

definition Duration_UnmarshalJSON ::
  "(string \<Rightarrow> string + duration) \<Rightarrow> (string \<Rightarrow> string + int) \<Rightarrow> string \<Rightarrow> (string, duration) result" where
  "Duration_UnmarshalJSON parseDuration parseInt b =
     (if b = [] then Panic
      else if hd b = CHR 0x22 then
        (if length b = 1 then Panic
         else case parseDuration (butlast (tl b)) of Inr d \<Rightarrow> Ok d | Inl e \<Rightarrow> Err e)
      else (case parseInt b of Inr i \<Rightarrow> Ok (wrap64 (i * second)) | Inl e \<Rightarrow> Err e))"

definition KeyUsage :: "(string, 64 word) gomap" where
  "KeyUsage = [(''signing'', 1), (''digital signature'', 1), (''content commitment'', 2), (''key encipherment'', 4),
     (''key agreement'', 16), (''data encipherment'', 8), (''cert sign'', 32), (''crl sign'', 64),
     (''encipher only'', 128), (''decipher only'', 256)]"

definition ExtKeyUsage :: "(string, int) gomap" where
  "ExtKeyUsage = [(''any'', 0), (''server auth'', 1), (''client auth'', 2), (''code signing'', 3),
     (''email protection'', 4), (''s/mime'', 4), (''ipsec end system'', 5), (''ipsec tunnel'', 6), (''ipsec user'', 7),
     (''timestamping'', 8), (''ocsp signing'', 9), (''microsoft sgc'', 10), (''netscape sgc'', 11)]"

definition BasicConstraintsOID :: OID where
  "BasicConstraintsOID = [2, 5, 29, 19]"

section \<open>csr.go\<close>

record AllowedFields =
  afSubject :: bool
  afDNSNames :: bool
  afIPAddresses :: bool
  afEmailAddresses :: bool
  afURIs :: bool

record CertificatePolicyQualifier =
  qType :: string
  qValue :: string

record CertificatePolicy =
  polID :: OID
  Qualifiers :: "CertificatePolicyQualifier list"

record X509Name =
  nC :: string
  nST :: string
  nL :: string
  nO :: string
  nOU :: string
  nSerialNumber :: string

record X509Subject =
  subjCommonName :: string
  subjNames :: "X509Name list"
  subjSerialNumber :: string

record X509Extension =
  xID :: OID
  xCritical :: bool
  xValue :: string

text \<open>A nil and an empty list of alternative names differ.\<close>

record SignRequest =
  SAN :: "string list option"
  reqPEM :: string
  reqSubject :: "X509Subject option"
  reqProfile :: string
  reqExtensions :: "X509Extension list"
  reqNotBefore :: time
  reqNotAfter :: time

record CertificateRequest =
  crCommonName :: string
  crNames :: "X509Name list"
  crSerialNumber :: string
  crSAN :: "string list option"

definition isNameEmpty :: "X509Name \<Rightarrow> bool" where
  "isNameEmpty n =
     (let empty = (\<lambda>s. trim_space s = [])
      in if empty (nC n) \<and> empty (nST n) \<and> empty (nL n) \<and> empty (nO n) \<and> empty (nOU n) then True else False)"

definition CertificateRequest_Validate :: "CertificateRequest \<Rightarrow> (string, unit) result" where
  "CertificateRequest_Validate r =
     (if crCommonName r \<noteq> [] then Ok ()
      else case find isNameEmpty (crNames r) of
             Some _ \<Rightarrow> Err ''empty name''
           | None \<Rightarrow> Ok ())"

definition appendIf :: "string \<Rightarrow> string list \<Rightarrow> string list" where
  "appendIf s a = (if s \<noteq> [] then a @ [s] else a)"

definition append_names :: "X509Name list \<Rightarrow> pkix_name \<Rightarrow> pkix_name" where
  "append_names ns nm =
     fold (\<lambda>n nm. nm\<lparr>Country := appendIf (nC n) (Country nm), Province := appendIf (nST n) (Province nm),
                    Locality := appendIf (nL n) (Locality nm), Organization := appendIf (nO n) (Organization nm),
                    OrganizationalUnit := appendIf (nOU n) (OrganizationalUnit nm)\<rparr>) ns nm"

definition CertificateRequest_Name :: "CertificateRequest \<Rightarrow> pkix_name" where
  "CertificateRequest_Name r =
     append_names (crNames r) (empty_name\<lparr>CommonName := crCommonName r, SerialNo := crSerialNumber r\<rparr>)"

definition X509Subject_Name :: "X509Subject \<Rightarrow> pkix_name" where
  "X509Subject_Name s =
     append_names (subjNames s) (empty_name\<lparr>CommonName := subjCommonName s, SerialNo := subjSerialNumber s\<rparr>)"

definition replaceSliceIfEmpty :: "string list \<Rightarrow> string list \<Rightarrow> string list" where
  "replaceSliceIfEmpty replaced new_contents = (if length replaced = 0 then new_contents else replaced)"

definition PopulateName :: "X509Subject option \<Rightarrow> pkix_name \<Rightarrow> pkix_name" where
  "PopulateName s req =
     (case s of
        None \<Rightarrow> req
      | Some sj \<Rightarrow>
          let n = X509Subject_Name sj
          in n\<lparr>CommonName := (if CommonName n = [] then CommonName req else CommonName n),
               Country := replaceSliceIfEmpty (Country n) (Country req),
               Province := replaceSliceIfEmpty (Province n) (Province req),
               Locality := replaceSliceIfEmpty (Locality n) (Locality req),
               Organization := replaceSliceIfEmpty (Organization n) (Organization req),
               OrganizationalUnit := replaceSliceIfEmpty (OrganizationalUnit n) (OrganizationalUnit req),
               SerialNo := (if SerialNo n = [] then SerialNo req else SerialNo n)\<rparr>)"

text \<open>The loop over the extensions of a request: basic constraints go into the template.\<close>

fun parse_extensions :: "pki \<Rightarrow> (OID \<times> string) list \<Rightarrow> certificate \<Rightarrow> (string, certificate) result" where
  "parse_extensions P [] t = Ok t"
| "parse_extensions P ((oid, val) # es) t =
     (if OID_Equal oid BasicConstraintsOID then
        (case unmarshal_BasicConstraints P val of
           Inl e \<Rightarrow> Err (''failed to parse BasicConstraints: '' @ e)
         | Inr ((ca, pathlen), rest) \<Rightarrow>
             if rest \<noteq> [] then Err ''failed to parse BasicConstraints: trailing data''
             else parse_extensions P es
                    (t\<lparr>BasicConstraintsValid := True, IsCA := ca, MaxPathLen := pathlen, MaxPathLenZero := (pathlen = 0)\<rparr>))
      else parse_extensions P es t)"

definition csr_Parse :: "pki \<Rightarrow> string \<Rightarrow> (string, certificate) result" where
  "csr_Parse P csrBytes =
     (case ParseCertificateRequest P csrBytes of
        Inl e \<Rightarrow> Err (''failed to parse: '' @ e)
      | Inr csrv \<Rightarrow>
          (case CheckSignature P csrv of
             Some e \<Rightarrow> Err (''key mismatch: '' @ e)
           | None \<Rightarrow>
               parse_extensions P (csrExtensions csrv)
                 (zero_certificate\<lparr>Subject := csrSubject csrv, PublicKey := Some (csrPublicKey csrv),
                    DNSNames := csrDNSNames csrv, IPAddresses := csrIPAddresses csrv,
                    EmailAddresses := csrEmailAddresses csrv, URIs := map Some (csrURIs csrv)\<rparr>)))"

definition ParsePEM :: "pki \<Rightarrow> string \<Rightarrow> (string, certificate) result" where
  "ParsePEM P csrPEM =
     (case pem_Decode P csrPEM of
        None \<Rightarrow> Err ''unable to parse PEM''
      | Some (typ, bytes) \<Rightarrow>
          if typ \<noteq> ''NEW CERTIFICATE REQUEST'' \<and> typ \<noteq> ''CERTIFICATE REQUEST'' then Err (''unsupported type in PEM: '' @ typ)
          else csr_Parse P bytes)"

text \<open>One alternative name: a URL (nil where it does not parse), an IP address, an email address or
  a DNS name.\<close>

definition add_SAN :: "pki \<Rightarrow> string \<Rightarrow> certificate \<Rightarrow> certificate" where
  "add_SAN P san t =
     (if contains_sub san ''://'' then t\<lparr>URIs := URIs t @ [url_Parse P san]\<rparr>
      else case net_ParseIP P san of
             Some ip \<Rightarrow> t\<lparr>IPAddresses := IPAddresses t @ [ip]\<rparr>
           | None \<Rightarrow>
               (case mail_ParseAddress P san of
                  Some email \<Rightarrow> t\<lparr>EmailAddresses := EmailAddresses t @ [email]\<rparr>
                | None \<Rightarrow> t\<lparr>DNSNames := DNSNames t @ [san]\<rparr>))"

definition SetSAN :: "pki \<Rightarrow> string list option \<Rightarrow> certificate \<Rightarrow> certificate" where
  "SetSAN P sans t =
     (case sans of
        None \<Rightarrow> t
      | Some ss \<Rightarrow> fold (add_SAN P) ss (t\<lparr>IPAddresses := [], EmailAddresses := [], DNSNames := [], URIs := []\<rparr>))"

section \<open>csrprov.go\<close>

definition DefaultSigAlgo :: "pubkey \<Rightarrow> sigalgo" where
  "DefaultSigAlgo pub =
     (case pub of
        RSAKey bits _ \<Rightarrow>
          if bits \<ge> 4096 then SHA512WithRSA else if bits \<ge> 3072 then SHA384WithRSA
          else if bits \<ge> 2048 then SHA256WithRSA else SHA1WithRSA
      | ECDSAKey curve _ \<Rightarrow>
          if curve = ''P-256'' then ECDSAWithSHA256 else if curve = ''P-384'' then ECDSAWithSHA384
          else if curve = ''P-521'' then ECDSAWithSHA512 else ECDSAWithSHA1
      | OtherKey _ \<Rightarrow> UnknownSignatureAlgorithm)"

end
