(* ===== verification/Certutil.thy ===== *)
theory Certutil
  imports Csr
begin

text \<open>
  The package \<open>xpki/certutil\<close>: names, identifiers, PEM files and certificate bundles. The PEM
  codec, the X.509 parser, the digests and the bundler of cfssl are arguments. Times in
  comments are printed by an argument too.
\<close>

section \<open>Hexadecimal\<close>

text \<open>\<open>encoding/hex\<close>, bytes as characters.\<close>

definition hex_digit :: "nat \<Rightarrow> char" where
  "hex_digit n = (if n < 10 then char_of (48 + n) else char_of (87 + n))"

definition hex_value :: "char \<Rightarrow> nat option" where
  "hex_value c =
     (let n = (of_char c :: nat)
      in if 48 \<le> n \<and> n \<le> 57 then Some (n - 48)
         else if 97 \<le> n \<and> n \<le> 102 then Some (n - 87)
         else if 65 \<le> n \<and> n \<le> 70 then Some (n - 55) else None)"

fun hex_encode :: "string \<Rightarrow> string" where
  "hex_encode [] = []"
| "hex_encode (c # cs) = hex_digit ((of_char c :: nat) div 16) # hex_digit ((of_char c :: nat) mod 16) # hex_encode cs"

fun hex_decode :: "string \<Rightarrow> string option" where
  "hex_decode [] = Some []"
| "hex_decode [c] = None"
| "hex_decode (a # b # cs) =
     (case (hex_value a, hex_value b) of
        (Some x, Some y) \<Rightarrow> map_option (Cons (char_of (16 * x + y))) (hex_decode cs)
      | _ \<Rightarrow> None)"

section \<open>name.go, cert_id.go\<close>

definition NameToString :: "pkix_name \<Rightarrow> string" where
  "NameToString n =
     join '', ''
       (map (\<lambda>c. ''C='' @ c) (Country n) @ map (\<lambda>c. ''ST='' @ c) (Province n) @ map (\<lambda>c. ''L='' @ c) (Locality n) @
        map (\<lambda>c. ''O='' @ c) (Organization n) @ map (\<lambda>c. ''OU='' @ c) (OrganizationalUnit n) @
        (if CommonName n \<noteq> [] then [''CN='' @ CommonName n] else []) @
        (if SerialNo n \<noteq> [] then [''SERIALNUMBER='' @ SerialNo n] else []))"

definition GetSubjectKeyID :: "certificate \<Rightarrow> string" where
  "GetSubjectKeyID c = hex_encode (SubjectKeyId c)"

definition GetAuthorityKeyID :: "certificate \<Rightarrow> string" where
  "GetAuthorityKeyID c = hex_encode (AuthorityKeyId c)"

text \<open>\<open>digest h b\<close> is the digest of \<open>b\<close> by the algorithm of that name.\<close>

definition SHA1Hex :: "(string \<Rightarrow> string \<Rightarrow> string) \<Rightarrow> string \<Rightarrow> string" where
  "SHA1Hex digest b = hex_encode (digest ''SHA1'' b)"

definition GetThumbprintStr :: "(string \<Rightarrow> string \<Rightarrow> string) \<Rightarrow> certificate \<Rightarrow> string" where
  "GetThumbprintStr digest c = SHA1Hex digest (Raw c)"

definition GetSubjectID :: "(string \<Rightarrow> string \<Rightarrow> string) \<Rightarrow> certificate \<Rightarrow> string" where
  "GetSubjectID digest c =
     (if length (SubjectKeyId c) > 0 then hex_encode (SubjectKeyId c) else SHA1Hex digest (RawSubject c))"

definition GetIssuerID :: "(string \<Rightarrow> string \<Rightarrow> string) \<Rightarrow> certificate \<Rightarrow> string" where
  "GetIssuerID digest c =
     (if length (AuthorityKeyId c) > 0 then hex_encode (AuthorityKeyId c) else SHA1Hex digest (RawIssuer c))"

section \<open>hash.go\<close>

definition strToHash :: "string list" where
  "strToHash = [''MD5'', ''SHA1'', ''SHA224'', ''SHA256'', ''SHA384'', ''SHA512'', ''SHA512_224'', ''SHA512_256'']"

definition to_upper :: "string \<Rightarrow> string" where
  "to_upper s = map (\<lambda>c. let n = (of_char c :: nat) in if 97 \<le> n \<and> n \<le> 122 then char_of (n - 32) else c) s"

definition NewHash :: "string \<Rightarrow> (string, string) result" where
  "NewHash algo =
     (if to_upper algo \<in> set strToHash then Ok (to_upper algo)
      else Err (''unsupported hash algorithm: '' @ [CHR 0x22] @ algo @ [CHR 0x22]))"

definition ParseHexDigestWithPrefix :: "string \<Rightarrow> (string, string \<times> string) result" where
  "ParseHexDigestWithPrefix d =
     (case split_on CHR '':'' d of
        [a, b] \<Rightarrow>
          if length a = 0 \<or> length b = 0 then Err (''invalid digest format: '' @ [CHR 0x22] @ d @ [CHR 0x22])
          else bind_result (NewHash a) (\<lambda>h.
                 case hex_decode b of
                   Some v \<Rightarrow> Ok (h, v)
                 | None \<Rightarrow> Err (''failed to decode digest '' @ [CHR 0x22] @ b @ [CHR 0x22]))
      | _ \<Rightarrow> Err (''invalid digest format: '' @ [CHR 0x22] @ d @ [CHR 0x22]))"

section \<open>pem.go\<close>

record pem_block =
  blkType :: string
  blkHeaders :: "(string \<times> string) list"
  blkBytes :: string

record x509lib =
  pem_block_Decode :: "string \<Rightarrow> (pem_block \<times> string) option"
  pem_Encode :: "string \<Rightarrow> string \<Rightarrow> string"
  ParseCertificate :: "string \<Rightarrow> string + certificate"
  format_time :: "time \<Rightarrow> string"
  digest :: "string \<Rightarrow> string \<Rightarrow> string"

definition ParseFromPEM :: "x509lib \<Rightarrow> string \<Rightarrow> (string, certificate) result" where
  "ParseFromPEM X bytes =
     (case pem_block_Decode X bytes of
        None \<Rightarrow> Err ''unable to parse PEM''
      | Some (b, _) \<Rightarrow>
          if blkType b \<noteq> ''CERTIFICATE'' \<or> length (blkHeaders b) \<noteq> 0 then Err ''unable to parse PEM''
          else case ParseCertificate X (blkBytes b) of
                 Inl e \<Rightarrow> Err (''unable to parse certificate: '' @ e)
               | Inr c \<Rightarrow> Ok c)"

text \<open>The loop of \<open>ParseChainFromPEM\<close>; it goes on while the decoder leaves something. (With the error
  of a malformed PEM the code also returns the certificates found before; the model keeps the error.)\<close>

partial_function (option) chain_loop ::
  "x509lib \<Rightarrow> string \<Rightarrow> certificate list \<Rightarrow> (string, certificate list) result option" where
  "chain_loop X rest lst =
     (if length rest = 0 then Some (Ok lst)
      else case pem_block_Decode X rest of
             None \<Rightarrow> Some (Err ''potentially malformed PEM'')
           | Some (b, rest') \<Rightarrow>
               if blkType b = ''CERTIFICATE'' then
                 (case ParseCertificate X (blkBytes b) of
                    Inl e \<Rightarrow> Some (Err (''failed to parse certificate: '' @ e))
                  | Inr c \<Rightarrow> chain_loop X (trim_space rest') (lst @ [c]))
               else chain_loop X (trim_space rest') lst)"

declare chain_loop.simps [code]

definition ParseChainFromPEM :: "x509lib \<Rightarrow> string \<Rightarrow> (string, certificate list) result option" where
  "ParseChainFromPEM X pem = chain_loop X (trim_space pem) []"

definition encodeToPEM :: "x509lib \<Rightarrow> bool \<Rightarrow> certificate \<Rightarrow> string" where
  "encodeToPEM X withComments crt =
     (if withComments then
        ''#   Issuer: '' @ NameToString (certIssuer crt) @
        [CHR 0x0A] @ ''#   Subject: '' @ NameToString (Subject crt) @
        [CHR 0x0A] @ ''#   Validity'' @
        [CHR 0x0A] @ ''#       Not Before: '' @ format_time X (NotBefore crt) @
        [CHR 0x0A] @ ''#       Not After : '' @ format_time X (NotAfter crt) @ [CHR 0x0A]
      else []) @ pem_Encode X ''CERTIFICATE'' (Raw crt)"

text \<open>Certificate pointers may be nil; nil ones are skipped.\<close>

definition EncodeToPEM :: "x509lib \<Rightarrow> bool \<Rightarrow> certificate option list \<Rightarrow> string" where
  "EncodeToPEM X withComments certs =
     concat (map (\<lambda>c. case c of None \<Rightarrow> [] | Some crt \<Rightarrow> encodeToPEM X withComments crt) certs)"

definition EncodeToPEMString :: "x509lib \<Rightarrow> bool \<Rightarrow> certificate option list \<Rightarrow> string" where
  "EncodeToPEMString X withComments certs =
     (if length certs = 0 \<or> certs ! 0 = None then []
      else replace_all [CHR 0x0A, CHR 0x0A] [CHR 0x0A] (trim_space (EncodeToPEM X withComments certs)))"

definition JoinPEM :: "string \<Rightarrow> string \<Rightarrow> string" where
  "JoinPEM p1 p2 =
     (let p1 = trim_space p1
      in if length p2 > 0 then (if length p1 > 0 then p1 @ [CHR 0x0A] else p1) @ trim_space p2 else p1)"

text \<open>\<open>LoadPEMFiles\<close> returns what was joined before the first file that cannot be read.\<close>

fun load_files :: "(string \<Rightarrow> string + string) \<Rightarrow> string list \<Rightarrow> string \<Rightarrow> string \<times> string option" where
  "load_files readFile [] pem = (pem, None)"
| "load_files readFile (f # fs) pem =
     (case readFile f of
        Inl e \<Rightarrow> (pem, Some (''failed to load PEM: '' @ e))
      | Inr b \<Rightarrow>
          let s = trim_space b
          in if length s = 0 then load_files readFile fs pem
             else load_files readFile fs (if length pem > 0 then pem @ [CHR 0x0A] @ s else s))"

definition LoadPEMFiles :: "(string \<Rightarrow> string + string) \<Rightarrow> string list \<Rightarrow> string \<times> string option" where
  "LoadPEMFiles readFile fs = load_files readFile fs []"

section \<open>bundle.go\<close>

record BundleStatus =
  ExpiringSKIs :: "string list"
  Untrusted :: "string list"
  Messages :: "string list"

definition IsExpiring :: "BundleStatus \<Rightarrow> bool" where
  "IsExpiring b = (length (ExpiringSKIs b) > 0)"

definition IsUntrusted :: "BundleStatus \<Rightarrow> bool" where
  "IsUntrusted b = (length (Untrusted b) > 0)"

record Bundle =
  Chain :: "certificate option list"
  Cert :: certificate
  IssuerCert :: "certificate option"
  RootCert :: "certificate option"
  IssuerID :: string
  SubjectID :: string
  Expires :: time
  CertPEM :: string
  CACertsPEM :: string
  RootCertPEM :: string

text \<open>The result of the bundler of cfssl.\<close>

record bundled =
  cChain :: "certificate option list"
  cCert :: certificate
  cRoot :: "certificate option"
  cExpires :: time
  cStatus :: BundleStatus

datatype flavor = Force | Optimal

text \<open>The first component makes the bundler from root and intermediate certificates.\<close>

record bundler =
  NewBundlerFromPEM :: "string \<Rightarrow> string \<Rightarrow> string option"
  BundleFromPEMorDER :: "string \<Rightarrow> string \<Rightarrow> string \<Rightarrow> flavor \<Rightarrow> string + bundled"

fun find_in_chain :: "certificate \<Rightarrow> certificate option list \<Rightarrow> certificate option" where
  "find_in_chain crt [] = None"
| "find_in_chain crt (c # cs) =
     (case c of
        Some x \<Rightarrow> if RawIssuer crt = RawSubject x then Some x else find_in_chain crt cs
      | None \<Rightarrow> find_in_chain crt cs)"

definition FindIssuer :: "certificate \<Rightarrow> certificate option list \<Rightarrow> certificate option \<Rightarrow> certificate option" where
  "FindIssuer crt chain root =
     (case root of
        Some r \<Rightarrow> if RawIssuer crt = RawSubject r then Some r else find_in_chain crt chain
      | None \<Rightarrow> find_in_chain crt chain)"

definition VerifyBundleFromPEM ::
  "x509lib \<Rightarrow> bundler \<Rightarrow> string \<Rightarrow> string \<Rightarrow> string \<Rightarrow> (string, Bundle \<times> BundleStatus) result" where
  "VerifyBundleFromPEM X B certPEM intCAPEM rootPEM =
     (case NewBundlerFromPEM B rootPEM intCAPEM of
        Some e \<Rightarrow> Err (''failed to create bundler: '' @ e)
      | None \<Rightarrow>
          (case BundleFromPEMorDER B rootPEM intCAPEM certPEM (if length rootPEM > 0 then Optimal else Force) of
             Inl e \<Rightarrow> Err (''failed to bundle: '' @ e)
           | Inr c \<Rightarrow>
               Ok (\<lparr>Chain = cChain c, Cert = cCert c, IssuerCert = FindIssuer (cCert c) (cChain c) (cRoot c),
                    RootCert = cRoot c, IssuerID = GetIssuerID (digest X) (cCert c),
                    SubjectID = GetSubjectID (digest X) (cCert c), Expires = cExpires c,
                    CertPEM = EncodeToPEMString X True [Some (cCert c)],
                    CACertsPEM = (if length (cChain c) > 1 then EncodeToPEMString X True (tl (cChain c)) else []),
                    RootCertPEM = EncodeToPEMString X True [cRoot c]\<rparr>,
                   cStatus c)))"

definition LoadAndVerifyBundleFromPEM ::
  "x509lib \<Rightarrow> bundler \<Rightarrow> (string \<Rightarrow> string + string) \<Rightarrow> string \<Rightarrow> string \<Rightarrow> string \<Rightarrow> (string, Bundle \<times> BundleStatus) result" where
  "LoadAndVerifyBundleFromPEM X B readFile certFile intCAFile rootFile =
     (case readFile certFile of
        Inl e \<Rightarrow> Err e
      | Inr certPEM \<Rightarrow>
          (case (if intCAFile \<noteq> [] then readFile intCAFile else Inr []) of
             Inl e \<Rightarrow> Err e
           | Inr intCAPEM \<Rightarrow>
               (case (if rootFile \<noteq> [] then readFile rootFile else Inr []) of
                  Inl e \<Rightarrow> Err e
                | Inr rootPEM \<Rightarrow> VerifyBundleFromPEM X B certPEM intCAPEM rootPEM)))"

text \<open>\<open>ExpiresInHours\<close>: whole hours, by Go's truncating division; the difference saturates.\<close>

definition ExpiresInHours :: "time \<Rightarrow> Bundle \<Rightarrow> duration" where
  "ExpiresInHours now b =
     (let d = max (- (2 ^ 63)) (min (2 ^ 63 - 1) (Expires b - now))
      in sgn d * (\<bar>d\<bar> div hour) * hour)"

section \<open>Facts\<close>

lemma hex_value_digit: "n < 16 \<Longrightarrow> hex_value (hex_digit n) = Some n"
  by (auto simp: hex_value_def hex_digit_def)

lemma hex_roundtrip: "hex_decode (hex_encode s) = Some s"
proof (induction s)
  case (Cons c cs)
  have "(of_char c :: nat) div 16 < 16"
    by (rule less_mult_imp_div_less) simp
  then show ?case using Cons by (simp add: hex_value_digit mult.commute)
qed simp

end
