(* ===== verification/CertFacts.thy ===== *)
theory CertFacts
  imports Certutil
begin

text \<open>
  Object identifiers and PEM chains: an identifier survives being printed and parsed, and
  parsing a chain comes to an end.
\<close>

section \<open>Object identifiers\<close>

lemma itoa_nonneg: "0 \<le> i \<Longrightarrow> itoa i = show_nat (nat i)"
  by (simp add: itoa_def)

lemma atoi_itoa: "0 \<le> i \<Longrightarrow> i < 2 ^ 63 \<Longrightarrow> atoi (itoa i) = Some i"
  using atoi_show_nat [of "nat i"] by (simp add: itoa_nonneg nat_less_iff)

lemma itoa_no_dot: "0 \<le> i \<Longrightarrow> CHR ''.'' \<notin> set (itoa i)"
  using show_nat_digits [of "CHR ''.''" "nat i"] by (auto simp: itoa_nonneg is_digit_def digit_of_def)

lemma itoa_digit: "0 \<le> i \<Longrightarrow> list_ex is_digit (itoa i)"
  using show_nat_digits [of _ "nat i"] show_nat_not_Nil [of "nat i"]
  by (cases "show_nat (nat i)") (simp_all add: itoa_nonneg)

lemma parse_segments_itoa:
  "(\<And>i. i \<in> set oid \<Longrightarrow> 0 \<le> i \<and> i < 2 ^ 63) \<Longrightarrow> parse_segments (map itoa oid) = Some oid"
  by (induction oid) (simp_all add: atoi_itoa)

lemma split_OID_String:
  assumes "oid \<noteq> []" and "\<And>i. i \<in> set oid \<Longrightarrow> 0 \<le> i"
  shows "split_on CHR ''.'' (OID_String oid) = map itoa oid"
  unfolding OID_String_def using assms by (intro split_on_join) (auto simp: itoa_no_dot)

text \<open>An object identifier with at least one arc and arcs that are not negative and fit an \<open>int\<close> comes
  back unchanged when its JSON text is read.\<close>

theorem OID_JSON_roundtrip:
  assumes "oid \<noteq> []" and "\<And>i. i \<in> set oid \<Longrightarrow> 0 \<le> i \<and> i < 2 ^ 63"
  shows "OID_UnmarshalJSON (OID_MarshalJSON oid) = Ok oid"
proof -
  have "list_ex is_digit (OID_String oid)"
  proof -
    obtain i js where oid: "oid = i # js" using assms(1) by (cases oid) auto
    then obtain c where "c \<in> set (itoa i)" "is_digit c"
      using itoa_digit [of i] assms(2) [of i] by (auto simp: list_ex_iff)
    then show ?thesis by (auto simp: OID_String_def list_ex_iff set_join oid)
  qed
  moreover have "parse_segments (split_on CHR ''.'' (OID_String oid)) = Some oid"
    using assms by (simp add: split_OID_String parse_segments_itoa)
  ultimately show ?thesis
    by (simp add: OID_UnmarshalJSON_def OID_MarshalJSON_def parseObjectIdentifier_def oid_pattern_def)
qed

theorem OID_JSON_roundtrip_witness:
  "OID_UnmarshalJSON (OID_MarshalJSON [2, 5, 29, 2147483648]) = Ok [2, 5, 29, 2147483648]"
  by (rule OID_JSON_roundtrip) auto

text \<open>The pattern is not anchored, so a sign gets through.\<close>

lemma negative_arc_accepted: "parseObjectIdentifier ''-1.+2'' = Ok [-1, 2]"
  by code_simp

section \<open>Chains\<close>

lemma length_trim_space: "length (trim_space s) \<le> length s"
proof -
  have "length (trim_space s) \<le> length (rev (dropWhile is_space s))"
    unfolding trim_space_def length_rev [of "dropWhile is_space (rev (dropWhile is_space s))"] by (rule length_dropWhile_le)
  also have "\<dots> \<le> length s" by (simp add: length_dropWhile_le)
  finally show ?thesis .
qed

lemma chain_loop_returns:
  assumes "\<And>s b r. pem_block_Decode X s = Some (b, r) \<Longrightarrow> length r < length s"
  shows "\<exists>r. chain_loop X rest lst = Some r \<and> r \<noteq> Panic"
proof (induction "length rest" arbitrary: rest lst rule: less_induct)
  case less
  have shorter: "length (trim_space r) < length rest" if "pem_block_Decode X rest = Some (b, r)" for b r
    using assms [OF that] length_trim_space [of r] by simp
  show ?case
    by (subst chain_loop.simps)
      (auto split: option.split sum.split prod.split intro: less shorter)
qed

text \<open>C31. \<open>ParseChainFromPEM\<close> returns for every input, with certificates or an error, when the PEM decoder
  consumes something of the input for each block it finds.\<close>

theorem ParseChainFromPEM_returns:
  assumes "\<And>s b r. pem_block_Decode X s = Some (b, r) \<Longrightarrow> length r < length s"
  shows "\<exists>r. ParseChainFromPEM X pem = Some r \<and> r \<noteq> Panic"
  unfolding ParseChainFromPEM_def by (rule chain_loop_returns) (rule assms)

definition byte_pem :: x509lib where
  "byte_pem = \<lparr>pem_block_Decode =
       (\<lambda>s. case s of [] \<Rightarrow> None | c # cs \<Rightarrow> Some (\<lparr>blkType = ''CERTIFICATE'', blkHeaders = [], blkBytes = [c]\<rparr>, cs)),
     pem_Encode = (\<lambda>_ b. b), ParseCertificate = (\<lambda>b. Inr (zero_certificate\<lparr>Raw := b\<rparr>)), format_time = (\<lambda>_. []),
     digest = (\<lambda>h b. h @ b)\<rparr>"

theorem ParseChainFromPEM_returns_witness:
  "(\<exists>r. ParseChainFromPEM byte_pem ''a b'' = Some r \<and> r \<noteq> Panic) \<and>
   ParseChainFromPEM byte_pem ''a b'' = Some (Ok [zero_certificate\<lparr>Raw := ''a''\<rparr>, zero_certificate\<lparr>Raw := ''b''\<rparr>])"
proof
  show "\<exists>r. ParseChainFromPEM byte_pem ''a b'' = Some r \<and> r \<noteq> Panic"
    by (rule ParseChainFromPEM_returns) (auto simp: byte_pem_def split: list.splits)
qed code_simp

end
