(* ===== verification/CertAuthority.thy ===== *)
theory CertAuthority
  imports Certutil Slices
begin

text \<open>
  The package \<open>xpki/authority\<close>: certificate profiles and their validation, issuers, and the
  signing of certificates by a profile. What the package takes from the standard library, from
  the bundler of cfssl and from the crypto provider is in the record \<open>ca_env\<close>. Errors are known
  by their text. An issuer pointer may be nil.
\<close>

section \<open>config.go\<close>

definition DefaultCRLRenewal :: duration where "DefaultCRLRenewal = 7 * 24 * hour"
definition DefaultCRLExpiry :: duration where "DefaultCRLExpiry = 30 * 24 * hour"
definition DefaultOCSPExpiry :: duration where "DefaultOCSPExpiry = 1 * 24 * hour"

record AIAConfig =
  AiaURL :: string
  OcspURL :: string
  CrlURL :: string
  CRLExpiry :: duration
  OCSPExpiry :: duration
  CRLRenewal :: duration

record CAConstraint =
  caIsCA :: bool
  caMaxPathLen :: int

text \<open>A compiled regular expression is known by its pattern.\<close>

record CertProfile =
  Usage :: "string list"
  pCAConstraint :: CAConstraint
  OCSPNoCheck :: bool
  Expiry :: duration
  Backdate :: duration
  AllowedExtensions :: "OID list"
  AllowedNames :: string
  AllowedDNS :: string
  AllowedEmail :: string
  AllowedURI :: string
  AllowedCSRFields :: "AllowedFields option"
  Policies :: "CertificatePolicy list"
  IssuerLabel :: string
  AllowedRoles :: "string list"
  DeniedRoles :: "string list"
  AllowedNamesRegex :: "string option"
  AllowedDNSRegex :: "string option"
  AllowedEmailRegex :: "string option"
  AllowedURIRegex :: "string option"

record IssuerConfig =
  Disabled :: "bool option"
  Label :: string
  CertFile :: string
  KeyFile :: string
  CABundleFile :: string
  RootBundleFile :: string
  AIA :: "AIAConfig option"
  issProfiles :: "(string, CertProfile) gomap"

record CAConfig =
  DefaultAIA :: "AIAConfig option"
  Issuers :: "IssuerConfig list"

record ca_config =
  Authority :: "CAConfig option"
  Profiles :: "(string, CertProfile) gomap"

definition GetDisabled :: "IssuerConfig \<Rightarrow> bool" where
  "GetDisabled c = (case Disabled c of Some b \<Rightarrow> b | None \<Rightarrow> False)"

definition GetCRLExpiry :: "AIAConfig option \<Rightarrow> duration" where
  "GetCRLExpiry c = (case c of Some a \<Rightarrow> if CRLExpiry a > 0 then CRLExpiry a else DefaultCRLExpiry | None \<Rightarrow> DefaultCRLExpiry)"

definition GetOCSPExpiry :: "AIAConfig option \<Rightarrow> duration" where
  "GetOCSPExpiry c = (case c of Some a \<Rightarrow> if OCSPExpiry a > 0 then OCSPExpiry a else DefaultOCSPExpiry | None \<Rightarrow> DefaultOCSPExpiry)"

definition GetCRLRenewal :: "AIAConfig option \<Rightarrow> duration" where
  "GetCRLRenewal c = (case c of Some a \<Rightarrow> if CRLRenewal a > 0 then CRLRenewal a else DefaultCRLRenewal | None \<Rightarrow> DefaultCRLRenewal)"

definition AllowedExtensionsStrings :: "CertProfile \<Rightarrow> string list" where
  "AllowedExtensionsStrings p = map OID_String (AllowedExtensions p)"

definition IsAllowed :: "CertProfile \<Rightarrow> string \<Rightarrow> bool" where
  "IsAllowed p role =
     (if length (DeniedRoles p) > 0 \<and> (ContainsString (DeniedRoles p) role \<or> ContainsString (DeniedRoles p) ''*'') then False
      else if length (AllowedRoles p) > 0 \<and> (ContainsString (AllowedRoles p) role \<or> ContainsString (AllowedRoles p) ''*'')
      then True else True)"

definition DefaultCertProfile :: CertProfile where
  "DefaultCertProfile =
     \<lparr>Usage = [''signing'', ''key encipherment'', ''server auth'', ''client auth''],
      pCAConstraint = \<lparr>caIsCA = False, caMaxPathLen = 0\<rparr>, OCSPNoCheck = False,
      Expiry = 8760 * hour, Backdate = 10 * minute, AllowedExtensions = [],
      AllowedNames = [], AllowedDNS = [], AllowedEmail = [], AllowedURI = [], AllowedCSRFields = None,
      Policies = [], IssuerLabel = [], AllowedRoles = [], DeniedRoles = [],
      AllowedNamesRegex = None, AllowedDNSRegex = None, AllowedEmailRegex = None, AllowedURIRegex = None\<rparr>"

text \<open>\<open>Usages\<close>: the key usage bits, the extended key usages, the unknown names.\<close>

fun usages_loop :: "string list \<Rightarrow> 64 word \<Rightarrow> int list \<Rightarrow> string list \<Rightarrow> 64 word \<times> int list \<times> string list" where
  "usages_loop [] ku eku unk = (ku, eku, unk)"
| "usages_loop (u # us) ku eku unk =
     (case mget KeyUsage u of
        Some kuse \<Rightarrow> usages_loop us (or ku kuse) eku unk
      | None \<Rightarrow>
          (case mget ExtKeyUsage u of
             Some ekuse \<Rightarrow> usages_loop us ku (eku @ [ekuse]) unk
           | None \<Rightarrow> usages_loop us ku eku (unk @ [u])))"

definition Usages :: "CertProfile \<Rightarrow> 64 word \<times> int list \<times> string list" where
  "Usages p = usages_loop (Usage p) 0 [] []"

definition bad_qualifier :: "CertificatePolicyQualifier \<Rightarrow> bool" where
  "bad_qualifier q = (qType q \<noteq> [] \<and> qType q \<noteq> ''id-qt-unotice'' \<and> qType q \<noteq> ''id-qt-cps'')"

text \<open>Compiling one of the four patterns, unless it was compiled before; \<open>compile\<close> gives the error of
  \<open>regexp.Compile\<close>.\<close>

definition compile_rule ::
  "(string \<Rightarrow> string option) \<Rightarrow> string \<Rightarrow> string \<Rightarrow> string option \<Rightarrow> (string, string option) result" where
  "compile_rule compile what pattern regex =
     (if pattern \<noteq> [] \<and> regex = None then
        (case compile pattern of
           Some e \<Rightarrow> Err (''failed to compile '' @ what @ '': '' @ e)
         | None \<Rightarrow> Ok (Some pattern))
      else Ok regex)"

definition CertProfile_Validate :: "(string \<Rightarrow> string option) \<Rightarrow> CertProfile \<Rightarrow> (string, CertProfile) result" where
  "CertProfile_Validate compile p =
     (if Expiry p = 0 then Err ''no expiry set''
      else if length (Usage p) = 0 then Err ''no usages specified''
      else if length (snd (snd (Usages p))) > 0 then Err (''unknown usage: '' @ join '','' (snd (snd (Usages p))))
      else case find bad_qualifier (concat (map Qualifiers (Policies p))) of
             Some q \<Rightarrow> Err (''invalid policy qualifier type: '' @ qType q)
           | None \<Rightarrow>
               bind_result (compile_rule compile ''AllowedNames'' (AllowedNames p) (AllowedNamesRegex p)) (\<lambda>r1.
               bind_result (compile_rule compile ''AllowedDNS'' (AllowedDNS p) (AllowedDNSRegex p)) (\<lambda>r2.
               bind_result (compile_rule compile ''AllowedEmail'' (AllowedEmail p) (AllowedEmailRegex p)) (\<lambda>r3.
               bind_result (compile_rule compile ''AllowedURI'' (AllowedURI p) (AllowedURIRegex p)) (\<lambda>r4.
                 Ok (p\<lparr>AllowedNamesRegex := r1, AllowedDNSRegex := r2, AllowedEmailRegex := r3, AllowedURIRegex := r4\<rparr>))))))"

definition IsAllowedExtention :: "CertProfile \<Rightarrow> OID \<Rightarrow> bool" where
  "IsAllowedExtention p oid = list_ex (\<lambda>allowed. OID_Equal allowed oid) (AllowedExtensions p)"

text \<open>\<open>Config.Validate\<close>: the loop over the profiles, in the order the map is iterated. When an issuer
  is not found the error is made by \<open>errors.WithMessagef(err, ...)\<close> of a nil \<open>err\<close>, which is nil, so
  the function returns success. The validated profiles hold the compiled patterns.\<close>

fun validate_profiles ::
  "(string \<Rightarrow> string option) \<Rightarrow> string list \<Rightarrow> (string, CertProfile) gomap \<Rightarrow> (string, (string, CertProfile) gomap) result" where
  "validate_profiles compile labels [] = Ok []"
| "validate_profiles compile labels ((n, p) # ps) =
     (case CertProfile_Validate compile p of
        Panic \<Rightarrow> Panic
      | Err e \<Rightarrow> Err (''invalid '' @ n @ '' profile: '' @ e)
      | Ok p' \<Rightarrow>
          if IssuerLabel p \<noteq> [] \<and> IssuerLabel p \<notin> set labels then Ok ((n, p') # ps)
          else bind_result (validate_profiles compile labels ps) (\<lambda>ps'. Ok ((n, p') # ps')))"

definition Config_Validate :: "(string \<Rightarrow> string option) \<Rightarrow> ca_config \<Rightarrow> (string, ca_config) result" where
  "Config_Validate compile c =
     (let labels = (case Authority c of None \<Rightarrow> [] | Some a \<Rightarrow> map Label (Issuers a))
      in bind_result (validate_profiles compile labels (Profiles c)) (\<lambda>ps. Ok (c\<lparr>Profiles := ps\<rparr>)))"

text \<open>\<open>LoadConfig\<close> after decoding the file: the default profile, then per issuer the defaults of its
  AIA and its profiles, if there is a default AIA, then validation. (The profile objects are
  shared, so validation shows in the issuers' profiles too; here the shared part is the
  compiled patterns, which \<open>share\<close> copies over.)\<close>

definition merge_AIA :: "AIAConfig \<Rightarrow> AIAConfig option \<Rightarrow> AIAConfig" where
  "merge_AIA d a =
     (case a of
        None \<Rightarrow> d
      | Some x \<Rightarrow>
          x\<lparr>AiaURL := (if AiaURL x = [] then AiaURL d else AiaURL x),
            CrlURL := (if CrlURL x = [] then CrlURL d else CrlURL x),
            OcspURL := (if OcspURL x = [] then OcspURL d else OcspURL x),
            CRLExpiry := (if CRLExpiry x = 0 then GetCRLExpiry (Some d) else CRLExpiry x),
            CRLRenewal := (if CRLRenewal x = 0 then GetCRLRenewal (Some d) else CRLRenewal x),
            OCSPExpiry := (if OCSPExpiry x = 0 then GetOCSPExpiry (Some d) else OCSPExpiry x)\<rparr>)"

definition issuer_profiles :: "IssuerConfig list \<Rightarrow> IssuerConfig \<Rightarrow> (string, CertProfile) gomap \<Rightarrow> (string, CertProfile) gomap" where
  "issuer_profiles isss iss ps =
     filter (\<lambda>(n, p). IssuerLabel p = Label iss \<or> (IssuerLabel p = [] \<and> length isss = 1)) ps"

definition fill_issuers :: "ca_config \<Rightarrow> ca_config" where
  "fill_issuers cfg =
     (case Authority cfg of
        None \<Rightarrow> cfg
      | Some a \<Rightarrow>
          (case DefaultAIA a of
             None \<Rightarrow> cfg
           | Some d \<Rightarrow>
               cfg\<lparr>Authority := Some (a\<lparr>Issuers := map (\<lambda>iss. iss\<lparr>AIA := Some (merge_AIA d (AIA iss)),
                     issProfiles := issuer_profiles (Issuers a) iss (Profiles cfg)\<rparr>) (Issuers a)\<rparr>)\<rparr>))"

definition share :: "(string, CertProfile) gomap \<Rightarrow> ca_config \<Rightarrow> ca_config" where
  "share ps cfg =
     cfg\<lparr>Authority := map_option (\<lambda>a. a\<lparr>Issuers := map (\<lambda>iss. iss\<lparr>issProfiles :=
            map (\<lambda>(n, p). (n, case mget ps n of Some q \<Rightarrow> q | None \<Rightarrow> p)) (issProfiles iss)\<rparr>) (Issuers a)\<rparr>) (Authority cfg)\<rparr>"

definition LoadConfig :: "(string \<Rightarrow> string option) \<Rightarrow> (string \<Rightarrow> string + ca_config) \<Rightarrow> string \<Rightarrow> (string, ca_config) result" where
  "LoadConfig compile load path =
     (if path = [] then Err ''invalid path''
      else case load path of
             Inl e \<Rightarrow> Err e
           | Inr cfg \<Rightarrow>
               if length (Profiles cfg) = 0 then Err (''no '' @ [CHR 0x22] @ ''profiles'' @ [CHR 0x22] @ '' configuration present'')
               else
                 let cfg = (if mget (Profiles cfg) ''default'' = None
                            then cfg\<lparr>Profiles := mput ''default'' DefaultCertProfile (Profiles cfg)\<rparr> else cfg);
                     cfg = fill_issuers cfg
                 in (case Config_Validate compile cfg of
                       Ok c \<Rightarrow> Ok (share (Profiles c) c)
                     | Err e \<Rightarrow> Err (''invalid configuration: '' @ e)
                     | Panic \<Rightarrow> Panic))"

section \<open>extensions.go\<close>

datatype asn1_qualifier = UserNotice OID string | CPS OID string

record policyInformation =
  PolicyIdentifier :: OID
  piQualifiers :: "asn1_qualifier list"

fun policy_qualifiers :: "CertificatePolicyQualifier list \<Rightarrow> (string, asn1_qualifier list) result" where
  "policy_qualifiers [] = Ok []"
| "policy_qualifiers (q # qs) =
     (if qType q = ''id-qt-unotice'' then
        bind_result (policy_qualifiers qs) (\<lambda>r. Ok (UserNotice [1, 3, 6, 1, 5, 5, 7, 2, 2] (qValue q) # r))
      else if qType q = ''id-qt-cps'' then
        bind_result (policy_qualifiers qs) (\<lambda>r. Ok (CPS [1, 3, 6, 1, 5, 5, 7, 2, 1] (qValue q) # r))
      else Err (''Invalid qualifier type in Policies '' @ qType q))"

fun policy_list :: "CertificatePolicy list \<Rightarrow> (string, policyInformation list) result" where
  "policy_list [] = Ok []"
| "policy_list (p # ps) =
     bind_result (policy_qualifiers (Qualifiers p)) (\<lambda>qs.
     bind_result (policy_list ps) (\<lambda>r. Ok (\<lparr>PolicyIdentifier = polID p, piQualifiers = qs\<rparr> # r)))"

text \<open>The standard library, the crypto provider, the cfssl bundler, the files. \<open>publicKey_bits\<close> encodes
  a public key and gives its bit string.\<close>

record ca_env =
  pk :: pki
  xl :: x509lib
  bl :: bundler
  re_Match :: "string \<Rightarrow> string \<Rightarrow> bool"
  marshal_policies :: "policyInformation list \<Rightarrow> string + string"
  publicKey_bits :: "pubkey option \<Rightarrow> string + string"
  rawKey_bits :: "string \<Rightarrow> string + string"
  CreateCertificate :: "certificate \<Rightarrow> certificate \<Rightarrow> pubkey \<Rightarrow> string + string"
  ReadFile :: "string \<Rightarrow> string + string"
  LoadPrivateKey :: "string \<Rightarrow> string + pubkey"

definition addPolicies :: "ca_env \<Rightarrow> CertificatePolicy list \<Rightarrow> certificate \<Rightarrow> (string, certificate) result" where
  "addPolicies E ps t =
     bind_result (policy_list ps) (\<lambda>l.
       case marshal_policies E l of
         Inl e \<Rightarrow> Err e
       | Inr b \<Rightarrow> Ok (t\<lparr>ExtraExtensions := ExtraExtensions t @ [\<lparr>ExtId = [2, 5, 29, 32], Critical = False, ExtValue = b\<rparr>]\<rparr>))"

definition computeSKI :: "ca_env \<Rightarrow> certificate \<Rightarrow> (string, string) result" where
  "computeSKI E t = (case publicKey_bits E (PublicKey t) of Inl e \<Rightarrow> Err e | Inr b \<Rightarrow> Ok (digest (xl E) ''SHA1'' b))"

section \<open>issuer.go\<close>

record Issuer =
  icfg :: IssuerConfig
  ilabel :: string
  iskid :: string
  isigner :: pubkey
  isigAlgo :: sigalgo
  ibundle :: "Bundle option"
  icrlRenewal :: duration
  icrlExpiry :: duration
  iocspExpiry :: duration
  icrlURL :: string
  iaiaURL :: string
  iocspURL :: string
  icabundlePEM :: string
  ikeyHash :: "(string, string) gomap"
  inameHash :: "(string, string) gomap"

definition supportedKeyHash :: "string list" where
  "supportedKeyHash = [''SHA1'', ''SHA256'', ''SHA384'', ''SHA512'']"

definition ISSUER_ID :: string where
  "ISSUER_ID = ''${ISSUER_ID}''"

text \<open>\<open>CreateIssuer\<close>. For an untrusted bundle the error is again \<open>errors.WithMessagef\<close> of a nil error:
  the function returns a nil issuer and no error.\<close>

definition CreateIssuer ::
  "ca_env \<Rightarrow> IssuerConfig \<Rightarrow> string \<Rightarrow> string \<Rightarrow> string \<Rightarrow> pubkey \<Rightarrow> (string, Issuer option) result" where
  "CreateIssuer E cfg certBytes intCAbytes rootBytes signer =
     (case VerifyBundleFromPEM (xl E) (bl E) certBytes intCAbytes rootBytes of
        Panic \<Rightarrow> Panic
      | Err e \<Rightarrow> Err (''failed to create signing CA cert bundle: '' @ e)
      | Ok (b, status) \<Rightarrow>
          if IsUntrusted status then Ok None
          else
            let sub = (\<lambda>u. replace_all ISSUER_ID (SubjectID b) u);
                pem = trim_space (CertPEM b);
                pem = (if CACertsPEM b \<noteq> [] then pem @ [CHR 0x0A] @ trim_space (CACertsPEM b) else pem)
            in (case rawKey_bits E (RawPublicKey (Cert b)) of
                  Inl e \<Rightarrow> Err (''failed to decode SubjectPublicKeyInfo: '' @ e)
                | Inr bits \<Rightarrow>
                    Ok (Some \<lparr>icfg = cfg, ilabel = Label cfg, iskid = GetSubjectKeyID (Cert b), isigner = signer,
                              isigAlgo = DefaultSigAlgo signer, ibundle = Some b,
                              icrlRenewal = (case AIA cfg of None \<Rightarrow> 0 | Some a \<Rightarrow> CRLRenewal a),
                              icrlExpiry = (case AIA cfg of None \<Rightarrow> 0 | Some a \<Rightarrow> CRLExpiry a),
                              iocspExpiry = (case AIA cfg of None \<Rightarrow> 0 | Some a \<Rightarrow> OCSPExpiry a),
                              icrlURL = (case AIA cfg of None \<Rightarrow> [] | Some a \<Rightarrow> sub (CrlURL a)),
                              iaiaURL = (case AIA cfg of None \<Rightarrow> [] | Some a \<Rightarrow> sub (AiaURL a)),
                              iocspURL = (case AIA cfg of None \<Rightarrow> [] | Some a \<Rightarrow> sub (OcspURL a)),
                              icabundlePEM = pem,
                              ikeyHash = map (\<lambda>h. (h, digest (xl E) h bits)) supportedKeyHash,
                              inameHash = map (\<lambda>h. (h, digest (xl E) h (RawSubject (Cert b)))) supportedKeyHash\<rparr>)))"

text \<open>\<open>NewSignerFromFromFile\<close> reads and trims the key file, \<open>NewSignerFromPEM\<close> loads the key.\<close>

definition NewSignerFromFromFile :: "ca_env \<Rightarrow> string \<Rightarrow> (string, pubkey) result" where
  "NewSignerFromFromFile E caKeyFile =
     (case ReadFile E caKeyFile of
        Inl e \<Rightarrow> Err (''load key file: '' @ e)
      | Inr key \<Rightarrow> (case LoadPrivateKey E (trim_space key) of Inl e \<Rightarrow> Err e | Inr s \<Rightarrow> Ok s))"

definition NewIssuer :: "ca_env \<Rightarrow> IssuerConfig \<Rightarrow> (string, Issuer option) result" where
  "NewIssuer E cfg =
     (case NewSignerFromFromFile E (KeyFile cfg) of
        Panic \<Rightarrow> Panic
      | Err e \<Rightarrow> Err (''unable to create signer: '' @ e)
      | Ok signer \<Rightarrow>
          (case (if CABundleFile cfg \<noteq> [] then ReadFile E (CABundleFile cfg) else Inr []) of
             Inl e \<Rightarrow> Err (''failed to load ca-bundle: '' @ e)
           | Inr ints \<Rightarrow>
               (case (if RootBundleFile cfg \<noteq> [] then ReadFile E (RootBundleFile cfg) else Inr []) of
                  Inl e \<Rightarrow> Err (''failed to load root-bundle: '' @ e)
                | Inr roots \<Rightarrow>
                    (case ReadFile E (CertFile cfg) of
                       Inl e \<Rightarrow> Err (''failed to load cert: '' @ e)
                     | Inr cert \<Rightarrow> CreateIssuer E cfg cert ints roots signer))))"

section \<open>Signing\<close>

text \<open>Only the fields the profile allows are taken from the request.\<close>

definition safe_template :: "CertProfile \<Rightarrow> certificate \<Rightarrow> certificate" where
  "safe_template profile t =
     (case AllowedCSRFields profile of
        None \<Rightarrow> t
      | Some f \<Rightarrow>
          zero_certificate\<lparr>
            Subject := (if afSubject f then Subject t else empty_name),
            DNSNames := (if afDNSNames f then DNSNames t else []),
            IPAddresses := (if afIPAddresses f then IPAddresses t else []),
            URIs := (if afURIs f then URIs t else []),
            EmailAddresses := (if afEmailAddresses f then EmailAddresses t else []),
            PublicKey := PublicKey t, SignatureAlgorithm := SignatureAlgorithm t\<rparr>)"

definition no_match :: "ca_env \<Rightarrow> string option \<Rightarrow> string list \<Rightarrow> string option" where
  "no_match E regex xs = (case regex of None \<Rightarrow> None | Some re \<Rightarrow> find (\<lambda>x. \<not> re_Match E re x) xs)"

text \<open>The loop over the URLs calls \<open>u.String()\<close>, which panics on a nil URL.\<close>

fun check_uris :: "ca_env \<Rightarrow> string \<Rightarrow> string option list \<Rightarrow> (string, unit) result" where
  "check_uris E re [] = Ok ()"
| "check_uris E re (u # us) =
     (case u of
        None \<Rightarrow> Panic
      | Some uri \<Rightarrow> if \<not> re_Match E re uri then Err (''URI does not match allowed list: '' @ uri) else check_uris E re us)"

definition check_names :: "ca_env \<Rightarrow> CertProfile \<Rightarrow> certificate \<Rightarrow> (string, unit) result" where
  "check_names E profile t =
     (case no_match E (AllowedNamesRegex profile) (if CommonName (Subject t) \<noteq> [] then [CommonName (Subject t)] else []) of
        Some cn \<Rightarrow> Err (''CommonName does not match allowed list: '' @ cn)
      | None \<Rightarrow>
          (case no_match E (AllowedDNSRegex profile) (DNSNames t) of
             Some n \<Rightarrow> Err (''DNS Name does not match allowed list: '' @ n)
           | None \<Rightarrow>
               (case no_match E (AllowedEmailRegex profile) (EmailAddresses t) of
                  Some n \<Rightarrow> Err (''Email does not match allowed list: '' @ n)
                | None \<Rightarrow>
                    (case AllowedURIRegex profile of
                       None \<Rightarrow> Ok ()
                     | Some re \<Rightarrow> check_uris E re (URIs t)))))"

text \<open>Twenty random bytes with the leading bit cleared, as a big-endian number.\<close>

definition serial_of :: "8 word list \<Rightarrow> int" where
  "serial_of bs =
     foldl (\<lambda>a b. 256 * a + uint b) 0 (case bs of [] \<Rightarrow> [] | b # r \<Rightarrow> and b 127 # r)"

fun add_extensions :: "CertProfile \<Rightarrow> X509Extension list \<Rightarrow> certificate \<Rightarrow> (string, certificate) result" where
  "add_extensions profile [] t = Ok t"
| "add_extensions profile (ext # exts) t =
     (if \<not> IsAllowedExtention profile (xID ext) then Err (''extension not allowed: '' @ OID_String (xID ext))
      else case hex_decode (xValue ext) of
             None \<Rightarrow> Err ''failed to decode extension''
           | Some raw \<Rightarrow>
               add_extensions profile exts
                 (t\<lparr>ExtraExtensions := ExtraExtensions t @ [\<lparr>ExtId = xID ext, Critical = xCritical ext, ExtValue = raw\<rparr>]\<rparr>))"

text \<open>\<open>time.Time.Round\<close>: to the nearest multiple, halfway up.\<close>

definition go_round :: "time \<Rightarrow> duration \<Rightarrow> time" where
  "go_round t d = (if d \<le> 0 then t else let r = t mod d in if r + r < d then t - r else t + (d - r))"

definition OCSPNoCheckOID :: OID where
  "OCSPNoCheckOID = [1, 3, 6, 1, 5, 5, 7, 48, 1, 5]"

definition validity :: "CertProfile \<Rightarrow> time \<Rightarrow> time \<Rightarrow> time \<Rightarrow> time \<times> time" where
  "validity profile now notBefore notAfter =
     (let backdate = - 1 * Backdate profile;
          backdate = (if backdate = 0 then - 5 * minute else backdate);
          notBefore = (if notBefore = 0 then go_round now minute + backdate else notBefore);
          notAfter = (if notAfter = 0 then notBefore + Expiry profile else notAfter)
      in (notBefore, notAfter))"

definition fillTemplate ::
  "ca_env \<Rightarrow> Issuer \<Rightarrow> CertProfile \<Rightarrow> time \<Rightarrow> time \<Rightarrow> time \<Rightarrow> certificate \<Rightarrow> (string, certificate) result" where
  "fillTemplate E ca profile now notBefore notAfter t =
     (case computeSKI E t of
        Panic \<Rightarrow> Panic
      | Err e \<Rightarrow> Err e
      | Ok ski \<Rightarrow>
          if Expiry profile = 0 \<and> notAfter = 0 then Err ''expiry is not set''
          else
            let (ku, eku, _) = Usages profile
            in if ku = 0 \<and> length eku = 0 then Err ''invalid profile: no key usages''
               else
                 let (nb, na) = validity profile now notBefore notAfter;
                     t = t\<lparr>NotBefore := (if NotBefore t = 0 \<or> NotBefore t < nb then nb else NotBefore t)\<rparr>;
                     t = t\<lparr>NotAfter := (if NotAfter t = 0 \<or> na < NotAfter t then na else NotAfter t)\<rparr>;
                     t = t\<lparr>KeyUsageBits := ku, ExtKeyUsages := eku, BasicConstraintsValid := True,
                            IsCA := caIsCA (pCAConstraint profile)\<rparr>;
                     t = (if IsCA t then t\<lparr>MaxPathLen := caMaxPathLen (pCAConstraint profile),
                            MaxPathLenZero := (caMaxPathLen (pCAConstraint profile) = 0),
                            DNSNames := [], IPAddresses := [], EmailAddresses := [], URIs := []\<rparr> else t);
                     t = t\<lparr>SubjectKeyId := ski\<rparr>;
                     t = (if iocspURL ca \<noteq> [] then t\<lparr>OCSPServer := [iocspURL ca]\<rparr> else t);
                     t = (if icrlURL ca \<noteq> [] then t\<lparr>CRLDistributionPoints := [icrlURL ca]\<rparr> else t);
                     t = (if iaiaURL ca \<noteq> [] then t\<lparr>IssuingCertificateURL := [iaiaURL ca]\<rparr> else t)
                 in bind_result
                      (if length (Policies profile) \<noteq> 0 then
                         (case addPolicies E (Policies profile) t of
                            Err e \<Rightarrow> Err (''invalid profile policies: '' @ e) | r \<Rightarrow> r)
                       else Ok t)
                      (\<lambda>t. Ok (if OCSPNoCheck profile
                               then t\<lparr>ExtraExtensions := ExtraExtensions t @
                                      [\<lparr>ExtId = OCSPNoCheckOID, Critical = False, ExtValue = [CHR 0x05, CHR 0x00]\<rparr>]\<rparr>
                               else t)))"

text \<open>The template to be signed. \<open>rnd\<close> is what the random source gives.\<close>

definition build_template ::
  "ca_env \<Rightarrow> Issuer \<Rightarrow> CertProfile \<Rightarrow> time \<Rightarrow> string + 8 word list \<Rightarrow> SignRequest \<Rightarrow> (string, certificate) result" where
  "build_template E ca profile now rnd req =
     bind_result (ParsePEM (pk E) (reqPEM req)) (\<lambda>csrTemplate.
       let csrTemplate = csrTemplate\<lparr>SignatureAlgorithm := isigAlgo ca\<rparr>;
           t = safe_template profile csrTemplate;
           t = SetSAN (pk E) (SAN req) t;
           t = t\<lparr>Subject := PopulateName (reqSubject req) (Subject t)\<rparr>
       in bind_result (check_names E profile t) (\<lambda>_.
            case rnd of
              Inl e \<Rightarrow> Err (''failed to generate serial number: '' @ e)
            | Inr bs \<Rightarrow>
                bind_result (add_extensions profile (reqExtensions req) (t\<lparr>SerialNumber := serial_of bs\<rparr>)) (\<lambda>t.
                  case fillTemplate E ca profile now (reqNotBefore req) (reqNotAfter req) t of
                    Err e \<Rightarrow> Err (''failed to populate template: '' @ e) | r \<Rightarrow> r)))"

text \<open>\<open>sign\<close>: self-signed when the issuer has no bundle. \<open>x509.CreateCertificate\<close> dereferences the URLs.\<close>

definition sign_template :: "ca_env \<Rightarrow> Issuer \<Rightarrow> certificate \<Rightarrow> (string, string) result" where
  "sign_template E ca t =
     (case (case ibundle ca of
              None \<Rightarrow>
                if \<not> IsCA t then Err ''CA template is not specified''
                else let t' = t\<lparr>DNSNames := [], EmailAddresses := [], URIs := []\<rparr> in Ok (t', t')
            | Some b \<Rightarrow> Ok (t, Cert b)) of
        Panic \<Rightarrow> Panic
      | Err e \<Rightarrow> Err e
      | Ok (t', parent) \<Rightarrow>
          if None \<in> set (URIs t') then Panic
          else case CreateCertificate E t' parent (isigner ca) of
                 Inl e \<Rightarrow> Err (''create certificate: '' @ e)
               | Inr der \<Rightarrow> Ok (pem_Encode (xl E) ''CERTIFICATE'' der))"

definition Sign ::
  "ca_env \<Rightarrow> Issuer \<Rightarrow> time \<Rightarrow> string + 8 word list \<Rightarrow> SignRequest \<Rightarrow> (string, certificate \<times> string) result" where
  "Sign E ca now rnd req =
     (let profileName = (if reqProfile req = [] then ''default'' else reqProfile req)
      in case mget (issProfiles (icfg ca)) profileName of
           None \<Rightarrow> Err (''unsupported profile: '' @ profileName)
         | Some profile \<Rightarrow>
             bind_result (build_template E ca profile now rnd req) (\<lambda>t.
             bind_result (sign_template E ca t) (\<lambda>pem.
             bind_result (ParseFromPEM (xl E) pem) (\<lambda>crt. Ok (crt, pem)))))"

section \<open>authority.go\<close>

record authority =
  issuers :: "(string, Issuer option) gomap"
  issuersByProfile :: "(string, Issuer option) gomap"

text \<open>The configuration an issuer is made from. A nil default AIA is dereferenced where the issuer
  has no AIA or leaves a URL empty.\<close>

definition issuer_config :: "AIAConfig option \<Rightarrow> IssuerConfig \<Rightarrow> (string, IssuerConfig) result" where
  "issuer_config dflt iss =
     (case (case AIA iss of Some a \<Rightarrow> Some a | None \<Rightarrow> dflt) of
        None \<Rightarrow> Panic
      | Some a \<Rightarrow>
          let a = (if CRLRenewal a = 0 then a\<lparr>CRLRenewal := GetCRLRenewal dflt\<rparr> else a);
              a = (if CRLExpiry a = 0 then a\<lparr>CRLExpiry := GetCRLExpiry dflt\<rparr> else a);
              a = (if OCSPExpiry a = 0 then a\<lparr>OCSPExpiry := GetOCSPExpiry dflt\<rparr> else a)
          in if CrlURL a = [] \<or> OcspURL a = [] \<or> AiaURL a = [] then
               (case dflt of
                  None \<Rightarrow> Panic
                | Some d \<Rightarrow>
                    let a = (if CrlURL a = [] then a\<lparr>CrlURL := CrlURL d\<rparr> else a);
                        a = (if OcspURL a = [] then a\<lparr>OcspURL := OcspURL d\<rparr> else a);
                        a = (if AiaURL a = [] then a\<lparr>AiaURL := AiaURL d\<rparr> else a)
                    in Ok (iss\<lparr>AIA := Some a\<rparr>))
             else Ok (iss\<lparr>AIA := Some a\<rparr>))"

fun register_issuers :: "ca_env \<Rightarrow> AIAConfig option \<Rightarrow> IssuerConfig list \<Rightarrow> authority \<Rightarrow> (string, authority) result" where
  "register_issuers E dflt [] ca = Ok ca"
| "register_issuers E dflt (iss # isss) ca =
     (if GetDisabled iss then register_issuers E dflt isss ca
      else bind_result (issuer_config dflt iss) (\<lambda>cfg.
             case NewIssuer E cfg of
               Panic \<Rightarrow> Panic
             | Err e \<Rightarrow> Err (''unable to create issuer: '' @ [CHR 0x22] @ Label iss @ [CHR 0x22] @ '': '' @ e)
             | Ok i \<Rightarrow>
                 register_issuers E dflt isss
                   (ca\<lparr>issuers := mput (Label iss) i (issuers ca),
                       issuersByProfile := fold (\<lambda>n m. mput n i m) (mkeys (issProfiles iss)) (issuersByProfile ca)\<rparr>)))"

definition NewAuthority :: "ca_env \<Rightarrow> ca_config \<Rightarrow> (string, authority) result" where
  "NewAuthority E cfg =
     (case Authority cfg of
        None \<Rightarrow> Err ''missing Authority configuration''
      | Some a \<Rightarrow> register_issuers E (DefaultAIA a) (Issuers a) \<lparr>issuers = [], issuersByProfile = []\<rparr>)"

definition GetIssuerByLabel :: "authority \<Rightarrow> string \<Rightarrow> (string, Issuer option) result" where
  "GetIssuerByLabel s label =
     (case mget (issuers s) label of Some i \<Rightarrow> Ok i | None \<Rightarrow> Err (''issuer not found: '' @ label))"

definition GetIssuerByProfile :: "authority \<Rightarrow> string \<Rightarrow> (string, Issuer option) result" where
  "GetIssuerByProfile s profile =
     (case mget (issuersByProfile s) profile of
        Some i \<Rightarrow> Ok i | None \<Rightarrow> Err (''issuer not found for profile: '' @ profile))"

end
