(* ===== verification/CertAuthorityFacts.thy ===== *)
theory CertAuthorityFacts
  imports CertAuthority
begin

text \<open>
  What an issuer signs. The template of a certificate conforms to the profile it is asked for,
  fields of a certificate request that the profile does not allow have no influence on it, and
  the configuration paths that accept what they should refuse are shown as such.
\<close>

section \<open>The template of a request\<close>

text \<open>What parsing a request leaves unset.\<close>

definition fresh_template :: "certificate \<Rightarrow> bool" where
  "fresh_template t = (NotBefore t = 0 \<and> NotAfter t = 0 \<and> ExtraExtensions t = [] \<and> PublicKey t \<noteq> None)"

lemma parse_extensions_fresh:
  "parse_extensions P es t = Ok t' \<Longrightarrow> fresh_template t \<Longrightarrow> fresh_template t'"
  by (induction es arbitrary: t) (auto simp: fresh_template_def split: if_splits sum.splits)

lemma csr_Parse_fresh: "csr_Parse P b = Ok t \<Longrightarrow> fresh_template t"
  by (auto simp: csr_Parse_def split: sum.splits option.splits elim!: parse_extensions_fresh)
    (simp add: fresh_template_def zero_certificate_def)

lemma ParsePEM_fresh: "ParsePEM P s = Ok t \<Longrightarrow> fresh_template t"
  by (auto simp: ParsePEM_def csr_Parse_fresh split: option.splits if_splits)

lemma safe_template_fresh: "fresh_template t \<Longrightarrow> fresh_template (safe_template profile t)"
  by (auto simp: safe_template_def fresh_template_def zero_certificate_def split: option.splits)

lemma add_SAN_fresh: "fresh_template t \<Longrightarrow> fresh_template (add_SAN P san t)"
  by (auto simp: add_SAN_def fresh_template_def split: option.splits)

lemma SetSAN_fresh: "fresh_template t \<Longrightarrow> fresh_template (SetSAN P sans t)"
proof (cases sans)
  case (Some ss)
  have "fresh_template u \<Longrightarrow> fresh_template (fold (add_SAN P) ss u)" for u
    by (induction ss arbitrary: u) (auto simp: add_SAN_fresh)
  moreover assume "fresh_template t"
  ultimately show ?thesis using Some by (simp add: SetSAN_def fresh_template_def)
qed (simp add: SetSAN_def)

lemmas fresh_rules = ParsePEM_fresh safe_template_fresh SetSAN_fresh

text \<open>The template before serial number, extensions and profile.\<close>

definition named_template :: "ca_env \<Rightarrow> Issuer \<Rightarrow> CertProfile \<Rightarrow> SignRequest \<Rightarrow> certificate \<Rightarrow> certificate" where
  "named_template E ca profile req csrt =
     (let t = SetSAN (pk E) (SAN req) (safe_template profile (csrt\<lparr>SignatureAlgorithm := isigAlgo ca\<rparr>))
      in t\<lparr>Subject := PopulateName (reqSubject req) (Subject t)\<rparr>)"

lemma named_template_fresh:
  assumes "ParsePEM P s = Ok c"
  shows "fresh_template (named_template E ca profile req c)"
proof -
  have "fresh_template (c\<lparr>SignatureAlgorithm := isigAlgo ca\<rparr>)"
    using ParsePEM_fresh [OF assms] by (simp add: fresh_template_def)
  then have "fresh_template (SetSAN (pk E) (SAN req) (safe_template profile (c\<lparr>SignatureAlgorithm := isigAlgo ca\<rparr>)))"
    by (simp add: fresh_rules)
  then show ?thesis by (simp add: named_template_def Let_def fresh_template_def)
qed

lemma build_template_eq:
  "build_template E ca profile now rnd req =
     bind_result (ParsePEM (pk E) (reqPEM req)) (\<lambda>c.
     bind_result (check_names E profile (named_template E ca profile req c)) (\<lambda>_.
       case rnd of
         Inl e \<Rightarrow> Err (''failed to generate serial number: '' @ e)
       | Inr bs \<Rightarrow>
           bind_result (add_extensions profile (reqExtensions req)
             ((named_template E ca profile req c)\<lparr>SerialNumber := serial_of bs\<rparr>)) (\<lambda>t.
             case fillTemplate E ca profile now (reqNotBefore req) (reqNotAfter req) t of
               Err e \<Rightarrow> Err (''failed to populate template: '' @ e) | r \<Rightarrow> r)))"
  unfolding build_template_def named_template_def Let_def by (rule refl)

lemma wrap_error_eq_Ok [simp]:
  "(case r of Ok a \<Rightarrow> Ok a | Err e \<Rightarrow> Err (f e) | Panic \<Rightarrow> Panic) = Ok x \<longleftrightarrow> r = Ok x"
  by (cases r) simp_all

lemma build_template_Ok:
  assumes "build_template E ca profile now rnd req = Ok t"
  obtains c bs t1 where "ParsePEM (pk E) (reqPEM req) = Ok c"
    and "check_names E profile (named_template E ca profile req c) = Ok ()"
    and "rnd = Inr bs"
    and "add_extensions profile (reqExtensions req)
           ((named_template E ca profile req c)\<lparr>SerialNumber := serial_of bs\<rparr>) = Ok t1"
    and "fillTemplate E ca profile now (reqNotBefore req) (reqNotAfter req) t1 = Ok t"
proof (cases rnd)
  case (Inr bs)
  with assms show ?thesis
    by (auto simp: build_template_eq bind_result_eq_Ok intro: that)
qed (use assms in \<open>auto simp: build_template_eq bind_result_eq_Ok\<close>)

section \<open>Names, extensions, serial numbers\<close>

lemma no_match_None:
  "no_match E regex xs = None \<longleftrightarrow> (\<forall>re. regex = Some re \<longrightarrow> list_all (re_Match E re) xs)"
  by (auto simp: no_match_def find_None_iff list_all_iff split: option.splits)

lemma check_uris_Ok: "check_uris E re us = Ok () \<longleftrightarrow> (\<forall>u\<in>set us. \<exists>s. u = Some s \<and> re_Match E re s)"
  by (induction us) (auto split: option.splits)

lemma check_names_Ok:
  "check_names E profile t = Ok () \<longleftrightarrow>
     no_match E (AllowedNamesRegex profile) (if CommonName (Subject t) \<noteq> [] then [CommonName (Subject t)] else []) = None \<and>
     no_match E (AllowedDNSRegex profile) (DNSNames t) = None \<and>
     no_match E (AllowedEmailRegex profile) (EmailAddresses t) = None \<and>
     (\<forall>re. AllowedURIRegex profile = Some re \<longrightarrow> check_uris E re (URIs t) = Ok ())"
  by (auto simp: check_names_def split: option.splits)

lemma OID_Equal_iff: "OID_Equal a b \<longleftrightarrow> a = b"
  by (auto simp: OID_Equal_def list_all2_eq [symmetric] list.rel_eq)

lemma IsAllowedExtention_iff: "IsAllowedExtention p oid \<longleftrightarrow> oid \<in> set (AllowedExtensions p)"
  by (auto simp: IsAllowedExtention_def OID_Equal_iff list_ex_iff)

text \<open>Requested extensions are appended in order, and nothing else changes.\<close>

lemma add_extensions_Ok:
  assumes "add_extensions profile exts t = Ok t'"
  shows "t' = t\<lparr>ExtraExtensions := ExtraExtensions t' \<rparr>"
    and "list_all (\<lambda>x. xID x \<in> set (AllowedExtensions profile)) exts"
    and "map (\<lambda>x. (ExtId x, Critical x, Some (ExtValue x))) (ExtraExtensions t') =
         map (\<lambda>x. (ExtId x, Critical x, Some (ExtValue x))) (ExtraExtensions t) @
         map (\<lambda>x. (xID x, xCritical x, hex_decode (xValue x))) exts"
  using assms
  by (induction profile exts t rule: add_extensions.induct)
    (auto simp: IsAllowedExtention_iff split: if_splits option.splits)

lemma foldl_bytes_bounds:
  "0 \<le> a \<Longrightarrow> 0 \<le> foldl (\<lambda>a b. 256 * a + uint (b :: 8 word)) a bs \<and>
     foldl (\<lambda>a b. 256 * a + uint b) a bs < (a + 1) * 256 ^ length bs"
proof (induction bs arbitrary: a)
  case (Cons b bs)
  have b: "uint b < 256" using uint_lt2p [of b] by simp
  have step: "0 \<le> 256 * a + uint b" using Cons.prems by simp
  have "(256 * a + uint b + 1) * 256 ^ length bs \<le> (256 * (a + 1)) * 256 ^ length bs"
    using b by (intro mult_right_mono) simp_all
  also have "\<dots> = (a + 1) * 256 ^ length (b # bs)" by simp
  finally show ?case using Cons.IH [OF step] unfolding foldl_Cons by (meson less_le_trans)
qed simp

lemma serial_bounds:
  assumes "length bs = 20"
  shows "0 \<le> serial_of bs \<and> serial_of bs < 2 ^ 159"
proof -
  obtain b r where bs: "bs = b # r" and r: "length r = 19"
    using assms by (cases bs) auto
  have "and b 127 \<le> 127" by (rule word_and_le1)
  then have "uint (and b 127) \<le> uint (127 :: 8 word)" by (simp only: word_le_def)
  then have "uint (and b 127) \<le> 127" by simp
  then have "(uint (and b 127) + 1) * 256 ^ length r \<le> 128 * (256 ^ 19 :: int)"
    unfolding r by (intro mult_right_mono) simp_all
  moreover have "128 * (256 ^ 19 :: int) = 2 ^ 159" by simp
  ultimately show ?thesis
    using foldl_bytes_bounds [of "uint (and b 127)" r] by (simp add: serial_of_def bs)
qed

section \<open>Filling the template from the profile\<close>

lemma addPolicies_Ok:
  "addPolicies E ps t = Ok t' \<Longrightarrow>
     \<exists>v. t' = t\<lparr>ExtraExtensions := ExtraExtensions t @ [\<lparr>ExtId = [2, 5, 29, 32], Critical = False, ExtValue = v\<rparr>]\<rparr>"
  by (cases "policy_list ps"; cases "marshal_policies E (case policy_list ps of Ok l \<Rightarrow> l)") (auto simp: addPolicies_def)

text \<open>The fields of a filled template, by the steps of the function.\<close>

definition filled :: "Issuer \<Rightarrow> CertProfile \<Rightarrow> time \<times> time \<Rightarrow> string \<Rightarrow> certificate \<Rightarrow> certificate" where
  "filled ca profile v ski t =
     (let ca_cert = caIsCA (pCAConstraint profile); n = caMaxPathLen (pCAConstraint profile)
      in t\<lparr>NotBefore := (if NotBefore t = 0 \<or> NotBefore t < fst v then fst v else NotBefore t),
           NotAfter := (if NotAfter t = 0 \<or> snd v < NotAfter t then snd v else NotAfter t),
           KeyUsageBits := fst (Usages profile), ExtKeyUsages := fst (snd (Usages profile)),
           BasicConstraintsValid := True, IsCA := ca_cert,
           MaxPathLen := (if ca_cert then n else MaxPathLen t),
           MaxPathLenZero := (if ca_cert then n = 0 else MaxPathLenZero t),
           DNSNames := (if ca_cert then [] else DNSNames t),
           IPAddresses := (if ca_cert then [] else IPAddresses t),
           EmailAddresses := (if ca_cert then [] else EmailAddresses t),
           URIs := (if ca_cert then [] else URIs t),
           SubjectKeyId := ski,
           OCSPServer := (if iocspURL ca \<noteq> [] then [iocspURL ca] else OCSPServer t),
           CRLDistributionPoints := (if icrlURL ca \<noteq> [] then [icrlURL ca] else CRLDistributionPoints t),
           IssuingCertificateURL := (if iaiaURL ca \<noteq> [] then [iaiaURL ca] else IssuingCertificateURL t)\<rparr>)"

definition nocheck :: "CertProfile \<Rightarrow> extension list" where
  "nocheck profile =
     (if OCSPNoCheck profile then [\<lparr>ExtId = OCSPNoCheckOID, Critical = False, ExtValue = [CHR 0x05, CHR 0x00]\<rparr>] else [])"

lemma filled_eq:
  "(let t = t\<lparr>NotBefore := (if NotBefore t = 0 \<or> NotBefore t < nb then nb else NotBefore t)\<rparr>;
        t = t\<lparr>NotAfter := (if NotAfter t = 0 \<or> na < NotAfter t then na else NotAfter t)\<rparr>;
        t = t\<lparr>KeyUsageBits := fst (Usages profile), ExtKeyUsages := fst (snd (Usages profile)), BasicConstraintsValid := True,
               IsCA := caIsCA (pCAConstraint profile)\<rparr>;
        t = (if IsCA t then t\<lparr>MaxPathLen := caMaxPathLen (pCAConstraint profile),
               MaxPathLenZero := (caMaxPathLen (pCAConstraint profile) = 0),
               DNSNames := [], IPAddresses := [], EmailAddresses := [], URIs := []\<rparr> else t);
        t = t\<lparr>SubjectKeyId := ski\<rparr>;
        t = (if iocspURL ca \<noteq> [] then t\<lparr>OCSPServer := [iocspURL ca]\<rparr> else t);
        t = (if icrlURL ca \<noteq> [] then t\<lparr>CRLDistributionPoints := [icrlURL ca]\<rparr> else t);
        t = (if iaiaURL ca \<noteq> [] then t\<lparr>IssuingCertificateURL := [iaiaURL ca]\<rparr> else t)
    in t) = filled ca profile (nb, na) ski t"
  by (simp add: filled_def Let_def)

lemma fillTemplate_eq:
  "fillTemplate E ca profile now notBefore notAfter t =
     (case computeSKI E t of
        Panic \<Rightarrow> Panic
      | Err e \<Rightarrow> Err e
      | Ok ski \<Rightarrow>
          if Expiry profile = 0 \<and> notAfter = 0 then Err ''expiry is not set''
          else if fst (Usages profile) = 0 \<and> fst (snd (Usages profile)) = [] then Err ''invalid profile: no key usages''
          else
            let t' = filled ca profile (validity profile now notBefore notAfter) ski t
            in bind_result
                 (if Policies profile \<noteq> [] then
                    (case addPolicies E (Policies profile) t' of
                       Err e \<Rightarrow> Err (''invalid profile policies: '' @ e) | r \<Rightarrow> r)
                  else Ok t')
                 (\<lambda>t. Ok (t\<lparr>ExtraExtensions := ExtraExtensions t @ nocheck profile\<rparr>)))"
proof -
  obtain ku eku unk where u: "Usages profile = (ku, eku, unk)" by (metis prod_cases3)
  obtain nb na where v: "validity profile now notBefore notAfter = (nb, na)" by (meson surj_pair)
  have n: "(if OCSPNoCheck profile then c\<lparr>ExtraExtensions := ExtraExtensions c @
             [\<lparr>ExtId = OCSPNoCheckOID, Critical = False, ExtValue = [CHR 0x05, CHR 0x00]\<rparr>]\<rparr> else c) =
           c\<lparr>ExtraExtensions := ExtraExtensions c @ nocheck profile\<rparr>" for c
    by (simp add: nocheck_def)
  show ?thesis
    using filled_eq [of t nb na profile _ ca]
    by (cases "computeSKI E t") (simp_all add: fillTemplate_def u v n Let_def)
qed

text \<open>What the profile asks of a template: basic constraints and usages are the profile's, names match
  the profile's patterns (a CA certificate has no alternative names), the validity is that of
  the request completed by the profile, and there are no extensions but the allowed ones.\<close>

definition conforms :: "ca_env \<Rightarrow> CertProfile \<Rightarrow> time \<Rightarrow> SignRequest \<Rightarrow> certificate \<Rightarrow> bool" where
  "conforms E profile now req t \<longleftrightarrow>
     BasicConstraintsValid t \<and> IsCA t = caIsCA (pCAConstraint profile) \<and>
     (IsCA t \<longrightarrow> MaxPathLen t = caMaxPathLen (pCAConstraint profile) \<and>
        DNSNames t = [] \<and> IPAddresses t = [] \<and> EmailAddresses t = [] \<and> URIs t = []) \<and>
     KeyUsageBits t = fst (Usages profile) \<and> ExtKeyUsages t = fst (snd (Usages profile)) \<and>
     (KeyUsageBits t \<noteq> 0 \<or> ExtKeyUsages t \<noteq> []) \<and>
     (\<forall>re. AllowedNamesRegex profile = Some re \<longrightarrow> CommonName (Subject t) = [] \<or> re_Match E re (CommonName (Subject t))) \<and>
     (\<forall>re. AllowedDNSRegex profile = Some re \<longrightarrow> list_all (re_Match E re) (DNSNames t)) \<and>
     (\<forall>re. AllowedEmailRegex profile = Some re \<longrightarrow> list_all (re_Match E re) (EmailAddresses t)) \<and>
     (\<forall>re. AllowedURIRegex profile = Some re \<longrightarrow> (\<forall>u\<in>set (URIs t). \<exists>s. u = Some s \<and> re_Match E re s)) \<and>
     (NotBefore t, NotAfter t) = validity profile now (reqNotBefore req) (reqNotAfter req) \<and>
     0 \<le> SerialNumber t \<and> SerialNumber t < 2 ^ 159 \<and>
     (\<forall>x\<in>set (ExtraExtensions t). ExtId x \<in> set (AllowedExtensions profile) \<or>
        ExtId x = [2, 5, 29, 32] \<and> Policies profile \<noteq> [] \<or> ExtId x = OCSPNoCheckOID \<and> OCSPNoCheck profile)"

lemma filled_simps [simp]:
  "Subject (filled ca profile v ski t) = Subject t"
  "SerialNumber (filled ca profile v ski t) = SerialNumber t"
  "ExtraExtensions (filled ca profile v ski t) = ExtraExtensions t"
  "PublicKey (filled ca profile v ski t) = PublicKey t"
  "BasicConstraintsValid (filled ca profile v ski t)"
  "IsCA (filled ca profile v ski t) = caIsCA (pCAConstraint profile)"
  "KeyUsageBits (filled ca profile v ski t) = fst (Usages profile)"
  "ExtKeyUsages (filled ca profile v ski t) = fst (snd (Usages profile))"
  "DNSNames (filled ca profile v ski t) = (if caIsCA (pCAConstraint profile) then [] else DNSNames t)"
  "IPAddresses (filled ca profile v ski t) = (if caIsCA (pCAConstraint profile) then [] else IPAddresses t)"
  "EmailAddresses (filled ca profile v ski t) = (if caIsCA (pCAConstraint profile) then [] else EmailAddresses t)"
  "URIs (filled ca profile v ski t) = (if caIsCA (pCAConstraint profile) then [] else URIs t)"
  "MaxPathLen (filled ca profile v ski t) =
     (if caIsCA (pCAConstraint profile) then caMaxPathLen (pCAConstraint profile) else MaxPathLen t)"
  "NotBefore t = 0 \<Longrightarrow> NotBefore (filled ca profile v ski t) = fst v"
  "NotAfter t = 0 \<Longrightarrow> NotAfter (filled ca profile v ski t) = snd v"
  by (simp_all add: filled_def Let_def)

lemma fillTemplate_Ok:
  assumes "fillTemplate E ca profile now nb na t = Ok t'"
  obtains ski pol where "computeSKI E t = Ok ski"
    and "fst (Usages profile) \<noteq> 0 \<or> fst (snd (Usages profile)) \<noteq> []"
    and "t' = (filled ca profile (validity profile now nb na) ski t)\<lparr>ExtraExtensions := ExtraExtensions t @ pol @ nocheck profile\<rparr>"
    and "\<forall>x\<in>set pol. ExtId x = [2, 5, 29, 32] \<and> Policies profile \<noteq> []"
proof -
  obtain ski where s: "computeSKI E t = Ok ski" and u: "fst (Usages profile) \<noteq> 0 \<or> fst (snd (Usages profile)) \<noteq> []"
    using assms by (auto simp: fillTemplate_eq split: result.splits if_splits)
  define f where "f = filled ca profile (validity profile now nb na) ski t"
  have "\<exists>pol. t' = f\<lparr>ExtraExtensions := ExtraExtensions t @ pol @ nocheck profile\<rparr> \<and>
          (\<forall>x\<in>set pol. ExtId x = [2, 5, 29, 32] \<and> Policies profile \<noteq> [])"
  proof (cases "Policies profile")
    case Nil
    then have "t' = f\<lparr>ExtraExtensions := ExtraExtensions t @ [] @ nocheck profile\<rparr>"
      using assms s by (auto simp: fillTemplate_eq f_def Let_def split: if_splits)
    then show ?thesis by (intro exI [of _ "[]"]) simp
  next
    case (Cons p ps)
    then obtain f' where f': "addPolicies E (Policies profile) f = Ok f'"
      and t': "t' = f'\<lparr>ExtraExtensions := ExtraExtensions f' @ nocheck profile\<rparr>"
      using assms s by (auto simp: fillTemplate_eq f_def Let_def bind_result_eq_Ok split: if_splits)
    obtain v where "f' = f\<lparr>ExtraExtensions := ExtraExtensions f @ [\<lparr>ExtId = [2, 5, 29, 32], Critical = False, ExtValue = v\<rparr>]\<rparr>"
      using addPolicies_Ok [OF f'] by blast
    then show ?thesis using t' Cons
      by (intro exI [of _ "[\<lparr>ExtId = [2, 5, 29, 32], Critical = False, ExtValue = v\<rparr>]"]) (simp add: f_def)
  qed
  then show ?thesis using that s u f_def by blast
qed

lemma build_template_conforms:
  assumes b: "build_template E ca profile now (Inr bs) req = Ok t" and len: "length bs = 20"
  shows "conforms E profile now req t"
proof -
  from b obtain c t1 where c: "ParsePEM (pk E) (reqPEM req) = Ok c"
    and names: "check_names E profile (named_template E ca profile req c) = Ok ()"
    and ext: "add_extensions profile (reqExtensions req)
           ((named_template E ca profile req c)\<lparr>SerialNumber := serial_of bs\<rparr>) = Ok t1"
    and fill: "fillTemplate E ca profile now (reqNotBefore req) (reqNotAfter req) t1 = Ok t"
    by (rule build_template_Ok) auto
  define n where "n = named_template E ca profile req c"
  have fresh: "NotBefore n = 0" "NotAfter n = 0" "ExtraExtensions n = []"
    using named_template_fresh [OF c] by (simp_all add: n_def fresh_template_def)
  have t1: "t1 = n\<lparr>SerialNumber := serial_of bs, ExtraExtensions := ExtraExtensions t1\<rparr>"
    using add_extensions_Ok(1) [OF ext] by (simp add: n_def)
  have ids: "map ExtId (ExtraExtensions t1) = map xID (reqExtensions req)"
    using arg_cong [OF add_extensions_Ok(3) [OF ext], of "map fst"] fresh by (simp add: comp_def n_def)
  have exts: "ExtId x \<in> set (AllowedExtensions profile)" if "x \<in> set (ExtraExtensions t1)" for x
  proof -
    have "ExtId x \<in> set (map xID (reqExtensions req))" using that ids by (metis imageI list.set_map)
    then show ?thesis using add_extensions_Ok(2) [OF ext] by (auto simp: list_all_iff)
  qed
  have same: "NotBefore t1 = 0" "NotAfter t1 = 0" "Subject t1 = Subject n" "DNSNames t1 = DNSNames n"
    "EmailAddresses t1 = EmailAddresses n" "URIs t1 = URIs n" "SerialNumber t1 = serial_of bs"
    using fresh by (subst t1, simp)+
  have chk: "\<forall>re. AllowedNamesRegex profile = Some re \<longrightarrow> CommonName (Subject n) = [] \<or> re_Match E re (CommonName (Subject n))"
    "\<forall>re. AllowedDNSRegex profile = Some re \<longrightarrow> list_all (re_Match E re) (DNSNames n)"
    "\<forall>re. AllowedEmailRegex profile = Some re \<longrightarrow> list_all (re_Match E re) (EmailAddresses n)"
    "\<forall>re. AllowedURIRegex profile = Some re \<longrightarrow> (\<forall>u\<in>set (URIs n). \<exists>s. u = Some s \<and> re_Match E re s)"
    using names by (auto simp: n_def check_names_Ok no_match_None check_uris_Ok split: if_splits)
  from fill obtain ski pol where u: "fst (Usages profile) \<noteq> 0 \<or> fst (snd (Usages profile)) \<noteq> []"
    and t: "t = (filled ca profile (validity profile now (reqNotBefore req) (reqNotAfter req)) ski t1)
              \<lparr>ExtraExtensions := ExtraExtensions t1 @ pol @ nocheck profile\<rparr>"
    and pol: "\<forall>x\<in>set pol. ExtId x = [2, 5, 29, 32] \<and> Policies profile \<noteq> []"
    by (rule fillTemplate_Ok)
  show ?thesis
    unfolding conforms_def t using u pol chk exts serial_bounds [OF len]
    by (auto simp: same nocheck_def)
qed

section \<open>A concrete environment\<close>

text \<open>A small standard library for the examples: PEM text is its own content, a request for the name
  \<open>s\<close> is the text \<open>s\<close>, a pattern matches the names it is a prefix of, and a certificate is known by
  the common name of its template.\<close>

definition demo_csr :: "string \<Rightarrow> csr_info" where
  "demo_csr s = \<lparr>csrSubject = empty_name\<lparr>CommonName := s\<rparr>, csrPublicKey = RSAKey 2048 7, csrDNSNames = [],
     csrIPAddresses = [], csrEmailAddresses = [], csrURIs = [], csrExtensions = []\<rparr>"

definition demo_pki :: pki where
  "demo_pki = \<lparr>pem_Decode = (\<lambda>s. Some (''CERTIFICATE REQUEST'', s)), ParseCertificateRequest = (\<lambda>s. Inr (demo_csr s)),
     CheckSignature = (\<lambda>_. None), unmarshal_BasicConstraints = (\<lambda>_. Inl ''asn1''),
     url_Parse = (\<lambda>s. if list_ex is_space s then None else Some s), net_ParseIP = (\<lambda>_. None), mail_ParseAddress = (\<lambda>_. None)\<rparr>"

definition demo_x509 :: x509lib where
  "demo_x509 = \<lparr>pem_block_Decode = (\<lambda>s. if s = [] then None else Some (\<lparr>blkType = ''CERTIFICATE'', blkHeaders = [], blkBytes = [hd s]\<rparr>, tl s)),
     pem_Encode = (\<lambda>_ b. b), ParseCertificate = (\<lambda>b. Inr (zero_certificate\<lparr>Raw := b\<rparr>)), format_time = (\<lambda>_. ''now''),
     digest = (\<lambda>h b. h @ b)\<rparr>"

definition demo_bundler :: bundler where
  "demo_bundler = \<lparr>NewBundlerFromPEM = (\<lambda>_ _. None),
     BundleFromPEMorDER = (\<lambda>_ _ _ _. Inr \<lparr>cChain = [Some zero_certificate], cCert = zero_certificate, cRoot = None, cExpires = 0,
       cStatus = \<lparr>ExpiringSKIs = [], Untrusted = [''Mozilla''], Messages = []\<rparr>\<rparr>)\<rparr>"

definition demo_env :: ca_env where
  "demo_env = \<lparr>pk = demo_pki, xl = demo_x509, bl = demo_bundler, re_Match = (\<lambda>re s. prefix re s),
     marshal_policies = (\<lambda>_. Inr ''policies''), publicKey_bits = (\<lambda>_. Inr ''key''), rawKey_bits = (\<lambda>_. Inr ''key''),
     CreateCertificate = (\<lambda>t _ _. Inr (CommonName (Subject t))), ReadFile = Inr,
     LoadPrivateKey = (\<lambda>_. Inr (RSAKey 2048 1))\<rparr>"

definition demo_profile :: CertProfile where
  "demo_profile = DefaultCertProfile\<lparr>AllowedNames := ''ba'', AllowedNamesRegex := Some ''ba'', AllowedURIRegex := Some ''spiffe''\<rparr>"

definition demo_config :: IssuerConfig where
  "demo_config = \<lparr>Disabled = None, Label = ''ca'', CertFile = ''crt'', KeyFile = ''key'', CABundleFile = [], RootBundleFile = [],
     AIA = Some \<lparr>AiaURL = ''a'', OcspURL = ''o'', CrlURL = ''c'', CRLExpiry = 0, OCSPExpiry = 0, CRLRenewal = 0\<rparr>,
     issProfiles = [(''default'', demo_profile)]\<rparr>"

definition demo_issuer :: Issuer where
  "demo_issuer = \<lparr>icfg = demo_config, ilabel = ''ca'', iskid = [], isigner = RSAKey 2048 1, isigAlgo = SHA256WithRSA,
     ibundle = Some \<lparr>Chain = [], Cert = zero_certificate, IssuerCert = None, RootCert = None, IssuerID = [], SubjectID = [],
       Expires = 0, CertPEM = [], CACertsPEM = [], RootCertPEM = []\<rparr>,
     icrlRenewal = 0, icrlExpiry = 0, iocspExpiry = 0, icrlURL = [], iaiaURL = [], iocspURL = [], icabundlePEM = [],
     ikeyHash = [], inameHash = []\<rparr>"

definition demo_request :: "string \<Rightarrow> SignRequest" where
  "demo_request s = \<lparr>SAN = None, reqPEM = s, reqSubject = None, reqProfile = [], reqExtensions = [], reqNotBefore = 0, reqNotAfter = 0\<rparr>"

section \<open>What an issuer signs\<close>

text \<open>C3. Whatever a request asks for, a certificate that \<open>Sign\<close> returns was made from a template that
  conforms to the profile the request names (or the default one): CA constraint and usages are
  the profile's, common name and alternative names match its patterns, the validity is the
  requested one completed by the profile, the serial number is not negative and below
  \<open>2 ^ 159\<close>, and every extension is one the profile allows or adds.\<close>

theorem Sign_conforms:
  assumes "Sign E ca now (Inr bs) req = Ok (crt, pem)" and "length bs = 20"
  shows "\<exists>profile t.
           mget (issProfiles (icfg ca)) (if reqProfile req = [] then ''default'' else reqProfile req) = Some profile \<and>
           conforms E profile now req t \<and> sign_template E ca t = Ok pem \<and> ParseFromPEM (xl E) pem = Ok crt"
proof -
  obtain profile t where
    "mget (issProfiles (icfg ca)) (if reqProfile req = [] then ''default'' else reqProfile req) = Some profile"
    "build_template E ca profile now (Inr bs) req = Ok t" "sign_template E ca t = Ok pem" "ParseFromPEM (xl E) pem = Ok crt"
    using assms(1) by (auto simp: Sign_def Let_def bind_result_eq_Ok split: option.split_asm)
  then show ?thesis using build_template_conforms [OF _ assms(2)] by blast
qed

theorem Sign_conforms_witness:
  "\<exists>crt. Sign demo_env demo_issuer (90 * second) (Inr (replicate 20 255)) (demo_request ''bar'') = Ok (crt, ''bar'') \<and>
     (\<exists>t. conforms demo_env demo_profile (90 * second) (demo_request ''bar'') t \<and> sign_template demo_env demo_issuer t = Ok ''bar'')"
proof -
  have s: "Sign demo_env demo_issuer (90 * second) (Inr (replicate 20 255)) (demo_request ''bar'') =
      Ok (zero_certificate\<lparr>Raw := ''b''\<rparr>, ''bar'')"
    by code_simp
  have p: "mget (issProfiles (icfg demo_issuer)) ''default'' = Some demo_profile" by code_simp
  show ?thesis using Sign_conforms [OF s] s p by (auto simp: demo_request_def)
qed

text \<open>C7. With a list of allowed fields in the profile, a request's untrusted part influences the
  certificate only through its public key and the allowed fields: two requests that agree on
  these (and on what the API client says) get the same template or the same refusal, whatever
  else their certificate requests contain.\<close>

theorem csr_fields_noninterference:
  assumes "AllowedCSRFields profile = Some f"
    and "ParsePEM (pk E) (reqPEM r1) = Ok c1" and "ParsePEM (pk E) (reqPEM r2) = Ok c2"
    and "r2 = r1\<lparr>reqPEM := reqPEM r2\<rparr>" and "PublicKey c1 = PublicKey c2"
    and "afSubject f \<Longrightarrow> Subject c1 = Subject c2" and "afDNSNames f \<Longrightarrow> DNSNames c1 = DNSNames c2"
    and "afIPAddresses f \<Longrightarrow> IPAddresses c1 = IPAddresses c2" and "afURIs f \<Longrightarrow> URIs c1 = URIs c2"
    and "afEmailAddresses f \<Longrightarrow> EmailAddresses c1 = EmailAddresses c2"
  shows "build_template E ca profile now rnd r1 = build_template E ca profile now rnd r2"
proof -
  have same: "SAN r2 = SAN r1" "reqSubject r2 = reqSubject r1" "reqExtensions r2 = reqExtensions r1"
    "reqNotBefore r2 = reqNotBefore r1" "reqNotAfter r2 = reqNotAfter r1"
    by (subst assms(4), simp)+
  have "safe_template profile (c1\<lparr>SignatureAlgorithm := isigAlgo ca\<rparr>) = safe_template profile (c2\<lparr>SignatureAlgorithm := isigAlgo ca\<rparr>)"
    using assms by (simp add: safe_template_def)
  then have "named_template E ca profile r1 c1 = named_template E ca profile r2 c2"
    by (simp add: named_template_def same)
  then show ?thesis by (simp only: build_template_eq assms(2,3) same bind_result_simps)
qed

definition closed_profile :: CertProfile where
  "closed_profile = demo_profile\<lparr>AllowedCSRFields := Some \<lparr>afSubject = False, afDNSNames = True, afIPAddresses = False,
     afEmailAddresses = False, afURIs = False\<rparr>\<rparr>"

theorem csr_fields_noninterference_witness:
  "build_template demo_env demo_issuer closed_profile 0 (Inr (replicate 20 1)) (demo_request ''evil'') =
     build_template demo_env demo_issuer closed_profile 0 (Inr (replicate 20 1)) (demo_request ''bar'') \<and>
   is_Ok (build_template demo_env demo_issuer closed_profile 0 (Inr (replicate 20 1)) (demo_request ''bar''))"
proof
  have p: "ParsePEM (pk demo_env) (reqPEM (demo_request s)) =
      Ok (zero_certificate\<lparr>Subject := empty_name\<lparr>CommonName := s\<rparr>, PublicKey := Some (RSAKey 2048 7)\<rparr>)" for s
    by (simp add: demo_env_def demo_pki_def demo_request_def demo_csr_def ParsePEM_def csr_Parse_def zero_certificate_def)
  show "build_template demo_env demo_issuer closed_profile 0 (Inr (replicate 20 1)) (demo_request ''evil'') =
     build_template demo_env demo_issuer closed_profile 0 (Inr (replicate 20 1)) (demo_request ''bar'')"
    by (rule csr_fields_noninterference [OF _ p p]) (auto simp: closed_profile_def demo_request_def zero_certificate_def)
  show "is_Ok (build_template demo_env demo_issuer closed_profile 0 (Inr (replicate 20 1)) (demo_request ''bar''))"
    by code_simp
qed

section \<open>Validation and signing\<close>

lemma or_not_0: "(a :: 64 word) \<noteq> 0 \<or> b \<noteq> 0 \<Longrightarrow> or a b \<noteq> 0"
  by (simp add: or_eq_0_iff)

lemma KeyUsage_not_0: "mget KeyUsage u = Some k \<Longrightarrow> k \<noteq> 0"
  by (auto simp: KeyUsage_def split: if_splits)

lemma usages_loop_grows:
  "usages_loop us ku eku unk = (ku', eku', unk') \<Longrightarrow>
     us \<noteq> [] \<or> ku \<noteq> 0 \<or> eku \<noteq> [] \<or> unk \<noteq> [] \<Longrightarrow> ku' \<noteq> 0 \<or> eku' \<noteq> [] \<or> unk' \<noteq> []"
  by (induction us ku eku unk rule: usages_loop.induct)
    (auto split: option.splits dest!: KeyUsage_not_0 simp: or_not_0)

lemma Validate_Ok:
  assumes "CertProfile_Validate compile p = Ok p'"
  shows "Expiry p' \<noteq> 0" and "fst (Usages p') \<noteq> 0 \<or> fst (snd (Usages p')) \<noteq> []" and "Policies p' = Policies p"
    and "\<forall>q\<in>set (concat (map Qualifiers (Policies p))). \<not> bad_qualifier q"
proof -
  have p': "Expiry p \<noteq> 0" "Usage p \<noteq> []" "snd (snd (Usages p)) = []" "find bad_qualifier (concat (map Qualifiers (Policies p))) = None"
    "Expiry p' = Expiry p" "Usage p' = Usage p" "Policies p' = Policies p"
    using assms by (auto simp: CertProfile_Validate_def bind_result_eq_Ok split: if_splits option.splits)
  obtain ku eku unk where u: "usages_loop (Usage p) 0 [] [] = (ku, eku, unk)" by (metis prod_cases3)
  show "Expiry p' \<noteq> 0" "Policies p' = Policies p" using p' by simp_all
  show "fst (Usages p') \<noteq> 0 \<or> fst (snd (Usages p')) \<noteq> []"
    using usages_loop_grows [OF u] p' by (auto simp: Usages_def u)
  show "\<forall>q\<in>set (concat (map Qualifiers (Policies p))). \<not> bad_qualifier q"
    using p'(4) by (auto simp: find_None_iff)
qed

lemma policy_qualifiers_total:
  "(\<forall>q\<in>set qs. qType q = ''id-qt-unotice'' \<or> qType q = ''id-qt-cps'') \<longleftrightarrow> (\<exists>r. policy_qualifiers qs = Ok r)"
  by (induction qs) (auto simp: bind_result_eq_Ok)

lemma policy_list_total:
  "(\<forall>q\<in>set (concat (map Qualifiers ps)). qType q = ''id-qt-unotice'' \<or> qType q = ''id-qt-cps'') \<longleftrightarrow>
     (\<exists>r. policy_list ps = Ok r)"
proof (induction ps)
  case (Cons p ps)
  have "(\<exists>r. policy_list (p # ps) = Ok r) \<longleftrightarrow> (\<exists>r. policy_qualifiers (Qualifiers p) = Ok r) \<and> (\<exists>r. policy_list ps = Ok r)"
    by (auto simp: bind_result_eq_Ok)
  then show ?case by (auto simp: Cons [symmetric] policy_qualifiers_total [symmetric])
qed simp

text \<open>C30. A profile that passed validation fills every template whose key can be hashed, unless a policy qualifier has an empty type
  or the ASN.1 encoder refuses the policies of the profile (an identifier or a text it cannot encode). A qualifier with an empty type
  passes validation, and no certificate is ever made with the profile.\<close>

theorem validated_profile_fills:
  assumes v: "CertProfile_Validate compile p = Ok p'" and ski: "computeSKI E t = Ok ski"
  shows "(\<exists>t'. fillTemplate E ca p' now nb na t = Ok t') \<longleftrightarrow>
         (\<forall>q\<in>set (concat (map Qualifiers (Policies p))). qType q \<noteq> []) \<and>
         (\<forall>l. Policies p \<noteq> [] \<and> policy_list (Policies p) = Ok l \<longrightarrow> (\<exists>b. marshal_policies E l = Inr b))"
proof -
  have typed: "(\<forall>q\<in>set (concat (map Qualifiers (Policies p))). qType q \<noteq> []) \<longleftrightarrow> (\<exists>r. policy_list (Policies p) = Ok r)"
    using Validate_Ok(4) [OF v] unfolding policy_list_total [symmetric] by (force simp: bad_qualifier_def)
  have add: "(\<exists>t'. addPolicies E (Policies p) u = Ok t') \<longleftrightarrow>
      (\<exists>r. policy_list (Policies p) = Ok r) \<and> (\<forall>l. policy_list (Policies p) = Ok l \<longrightarrow> (\<exists>b. marshal_policies E l = Inr b))" for u
    by (cases "policy_list (Policies p)") (auto simp: addPolicies_def split: sum.splits)
  show ?thesis
    unfolding typed using Validate_Ok(1,2,3) [OF v] ski add
    by (cases "Policies p = []") (auto simp: fillTemplate_eq Let_def bind_result_eq_Ok)
qed

definition policy_profile :: "string \<Rightarrow> CertProfile" where
  "policy_profile ty =
     demo_profile\<lparr>Policies := [\<lparr>polID = [1, 2], Qualifiers = [\<lparr>qType = ''id-qt-cps'', qValue = ''https://a/cps''\<rparr>, \<lparr>qType = ty, qValue = ''text''\<rparr>]\<rparr>]\<rparr>"

theorem validated_profile_fills_witness:
  "(\<exists>t'. fillTemplate demo_env demo_issuer (policy_profile ''id-qt-unotice'') 0 0 0 zero_certificate = Ok t') \<and>
   \<not> (\<exists>t'. fillTemplate demo_env demo_issuer (policy_profile []) 0 0 0 zero_certificate = Ok t')"
proof -
  have v: "CertProfile_Validate (\<lambda>_. None) (policy_profile ''id-qt-unotice'') = Ok (policy_profile ''id-qt-unotice'')"
    "CertProfile_Validate (\<lambda>_. None) (policy_profile []) = Ok (policy_profile [])" by code_simp+
  have k: "computeSKI demo_env zero_certificate = Ok ''SHA1key''" by code_simp
  show ?thesis
    unfolding validated_profile_fills [OF v(1) k] validated_profile_fills [OF v(2) k]
    by (simp add: policy_profile_def demo_env_def)
qed

section \<open>What slips through\<close>

text \<open>The roles a profile allows have no influence; only the denied ones have.\<close>

lemma IsAllowed_only_denies:
  "IsAllowed p role \<longleftrightarrow> \<not> (ContainsString (DeniedRoles p) role \<or> ContainsString (DeniedRoles p) ''*'')"
proof (cases "DeniedRoles p")
  case Nil
  then have "\<not> ContainsString (DeniedRoles p) r" for r by simp
  then show ?thesis by (simp add: IsAllowed_def Nil)
qed (simp add: IsAllowed_def)

text \<open>A profile for an issuer that does not exist makes validation of the whole configuration succeed
  at once: the profiles that come after it are not looked at.\<close>

theorem unknown_issuer_ends_validation:
  assumes "Profiles c = (n, p) # rest" and "CertProfile_Validate compile p = Ok p'" and "IssuerLabel p \<noteq> []"
    and "\<And>a. Authority c = Some a \<Longrightarrow> IssuerLabel p \<notin> set (map Label (Issuers a))"
  shows "Config_Validate compile c = Ok (c\<lparr>Profiles := (n, p') # rest\<rparr>)"
  using assms by (auto simp: Config_Validate_def Let_def split: option.splits)

theorem unknown_issuer_ends_validation_witness:
  "Config_Validate (\<lambda>_. None) \<lparr>Authority = None, Profiles = [(''a'', demo_profile\<lparr>IssuerLabel := ''nobody''\<rparr>),
       (''b'', demo_profile\<lparr>Usage := [''everything'']\<rparr>)]\<rparr> =
     Ok \<lparr>Authority = None, Profiles = [(''a'', demo_profile\<lparr>IssuerLabel := ''nobody''\<rparr>),
       (''b'', demo_profile\<lparr>Usage := [''everything'']\<rparr>)]\<rparr>"
proof -
  have v: "CertProfile_Validate (\<lambda>_. None) (demo_profile\<lparr>IssuerLabel := ''nobody''\<rparr>) = Ok (demo_profile\<lparr>IssuerLabel := ''nobody''\<rparr>)"
    by code_simp
  show ?thesis
    by (subst unknown_issuer_ends_validation [OF _ v]) simp_all
qed

text \<open>C33. An issuer whose certificate chain is not trusted is registered as nil: creating the authority
  succeeds, and looking the issuer up by its label returns a nil issuer and no error.\<close>

theorem untrusted_issuer_registered_nil:
  assumes "Authority cfg = Some a" and "Issuers a = [iss]" and "\<not> GetDisabled iss"
    and "issuer_config (DefaultAIA a) iss = Ok cc" and "NewSignerFromFromFile E (KeyFile cc) = Ok signer"
    and "LoadAndVerifyBundleFromPEM (xl E) (bl E) (ReadFile E) (CertFile cc) (CABundleFile cc) (RootBundleFile cc) = Ok (b, st)"
    and "IsUntrusted st"
  shows "\<exists>ca. NewAuthority E cfg = Ok ca \<and> GetIssuerByLabel ca (Label iss) = Ok None"
proof -
  have "NewIssuer E cc = Ok None"
    using assms(5-7) by (auto simp: NewIssuer_def LoadAndVerifyBundleFromPEM_def CreateIssuer_def split: sum.split_asm)
  then show ?thesis using assms(1-4) by (simp add: NewAuthority_def GetIssuerByLabel_def)
qed

theorem untrusted_issuer_registered_nil_witness:
  "\<exists>ca. NewAuthority demo_env \<lparr>Authority = Some \<lparr>DefaultAIA = None, Issuers = [demo_config]\<rparr>, Profiles = []\<rparr> = Ok ca \<and>
     GetIssuerByLabel ca ''ca'' = Ok None"
proof -
  let ?c = "demo_config\<lparr>AIA := Some \<lparr>AiaURL = ''a'', OcspURL = ''o'', CrlURL = ''c'', CRLExpiry = DefaultCRLExpiry,
    OCSPExpiry = DefaultOCSPExpiry, CRLRenewal = DefaultCRLRenewal\<rparr>\<rparr>"
  have 1: "\<not> GetDisabled demo_config" "issuer_config None demo_config = Ok ?c"
    "NewSignerFromFromFile demo_env (KeyFile ?c) = Ok (RSAKey 2048 1)"
    by code_simp+
  have 2: "\<exists>b st. LoadAndVerifyBundleFromPEM (xl demo_env) (bl demo_env) (ReadFile demo_env) (CertFile ?c) (CABundleFile ?c) (RootBundleFile ?c) = Ok (b, st) \<and>
      IsUntrusted st"
    by (simp add: LoadAndVerifyBundleFromPEM_def VerifyBundleFromPEM_def demo_env_def demo_bundler_def demo_config_def IsUntrusted_def)
  then obtain b st where b: "LoadAndVerifyBundleFromPEM (xl demo_env) (bl demo_env) (ReadFile demo_env) (CertFile ?c) (CABundleFile ?c) (RootBundleFile ?c) = Ok (b, st)"
    "IsUntrusted st" by blast
  show ?thesis
    using untrusted_issuer_registered_nil [where cfg = "\<lparr>Authority = Some \<lparr>DefaultAIA = None, Issuers = [demo_config]\<rparr>, Profiles = []\<rparr>",
        OF _ _ 1(1) _ 1(3) b] 1(2)
    by (simp add: demo_config_def)
qed

text \<open>Without a list of allowed fields, a path length asked for by the certificate request stays in the
  template of a certificate that is no CA.\<close>

lemma SetSAN_keeps: "MaxPathLen (SetSAN P sans t) = MaxPathLen t"
proof (cases sans)
  case (Some ss)
  have "MaxPathLen (fold (add_SAN P) ss u) = MaxPathLen u" for u
    by (induction ss arbitrary: u) (auto simp: add_SAN_def split: option.splits)
  then show ?thesis by (simp add: SetSAN_def Some)
qed (simp add: SetSAN_def)

lemma csr_path_length_survives:
  assumes "build_template E ca profile now rnd req = Ok t" and "ParsePEM (pk E) (reqPEM req) = Ok c"
    and "AllowedCSRFields profile = None" and "\<not> caIsCA (pCAConstraint profile)"
  shows "\<not> IsCA t \<and> MaxPathLen t = MaxPathLen c"
  using assms(1)
proof (rule build_template_Ok, goal_cases)
  case (1 c' bs t1)
  then have "MaxPathLen t1 = MaxPathLen (named_template E ca profile req c)"
    using assms(2) add_extensions_Ok(1) [OF 1(4)] by (metis (no_types, lifting) certificate.select_convs(10) certificate.surjective certificate.update_convs(20,21) result.inject(1))
  also have "\<dots> = MaxPathLen c"
    using assms(3) by (simp add: named_template_def SetSAN_keeps safe_template_def Let_def)
  finally show ?case using 1(5) assms(4) by (elim fillTemplate_Ok) simp
qed

text \<open>An alternative name that contains \<open>://\<close> but is no URL becomes a nil URL in the template; under a
  profile with a pattern for URLs the request then panics in the check of the names.\<close>

theorem malformed_SAN_panics:
  assumes "ParsePEM (pk E) (reqPEM req) = Ok c" and "SAN req = Some [san]"
    and "contains_sub san ''://''" and "url_Parse (pk E) san = None"
    and "AllowedURIRegex profile = Some re" and "AllowedNamesRegex profile = None"
  shows "build_template E ca profile now rnd req = Panic"
proof -
  let ?n = "named_template E ca profile req c"
  have "URIs ?n = [None]" "DNSNames ?n = []" "EmailAddresses ?n = []"
    using assms(2-4) by (simp_all add: named_template_def SetSAN_def add_SAN_def Let_def)
  then have "check_names E profile ?n = Panic"
    using assms(5,6) by (simp add: check_names_def no_match_def split: option.splits)
  then show ?thesis by (simp add: build_template_eq assms(1))
qed

theorem malformed_SAN_panics_witness:
  "build_template demo_env demo_issuer (demo_profile\<lparr>AllowedNamesRegex := None\<rparr>) 0 (Inr [])
     ((demo_request ''bar'')\<lparr>SAN := Some [''http://a b'']\<rparr>) = Panic"
  by (rule malformed_SAN_panics [where san = "''http://a b''" and re = "''spiffe''" and
        c = "zero_certificate\<lparr>Subject := empty_name\<lparr>CommonName := ''bar''\<rparr>, PublicKey := Some (RSAKey 2048 7)\<rparr>"])
    (code_simp+)

end
