(* ===== verification/Xlog.thy ===== *)
theory Xlog
  imports GoStrings
begin

text \<open>
  The logging package \<open>xlog\<close>: levels and the registry of package loggers (logmap.go), the loggers
  (packagelogger.go, nillogger.go), the formatters (formatters.go, stackdriver/sd.go) and the
  capture of the standard logger (log_hijack.go, init.go).

  Loggers are pointers, so they live in a store and are known by their index; the key/value
  slices of loggers share arrays, so arrays live in a store too, and \<open>append\<close> writes in place
  where the capacity allows. How much a growing slice gets is not fixed by the language: it
  is the argument \<open>grow\<close> of the environment. The call stack is explicit, innermost frame first,
  since the formatters look for their caller by counting frames. Every operation runs under the
  package's one mutex.
\<close>

section \<open>Values and the environment\<close>

text \<open>A logged value: nil, a string, an error (its detailed text, whether it marshals itself) or
  something else. A frame of the call stack: function, file and line.\<close>

datatype goval = VNil | VStr string | VError string bool | VObj nat

record frame =
  fn_name :: string
  fn_file :: string
  fn_line :: int

record sd_entry =
  LogName :: string
  Component :: string
  sdTime :: string
  Message :: string
  Severity :: string
  srcFile :: string
  srcLine :: int
  srcFunction :: string

record xenv =
  show_val :: "goval \<Rightarrow> string"
  json_encode :: "goval \<Rightarrow> string"
  sd_marshal :: "sd_entry \<Rightarrow> string option"
  go_Sprintf :: "string \<Rightarrow> goval list \<Rightarrow> string"
  now_RFC3339 :: string
  now_date :: string
  now_nanosecond :: nat
  log_header :: "nat \<Rightarrow> frame option \<Rightarrow> string"
  grow :: "nat \<Rightarrow> nat \<Rightarrow> nat"

fun is_VStr :: "goval \<Rightarrow> bool" where
  "is_VStr (VStr _) = True"
| "is_VStr _ = False"

text \<open>\<open>fmt.Sprint\<close>: a space between two operands when neither is a string.\<close>

fun go_Sprint :: "xenv \<Rightarrow> goval list \<Rightarrow> string" where
  "go_Sprint E [] = []"
| "go_Sprint E [v] = (case v of VStr s \<Rightarrow> s | _ \<Rightarrow> show_val E v)"
| "go_Sprint E (v # w # vs) =
     (case v of VStr s \<Rightarrow> s | _ \<Rightarrow> show_val E v) @ (if is_VStr v \<or> is_VStr w then [] else '' '') @ go_Sprint E (w # vs)"

definition newline :: string where
  "newline = [CHR 0x0A]"

definition pad6 :: "nat \<Rightarrow> string" where
  "pad6 n = replicate (6 - length (show_nat n)) CHR ''0'' @ show_nat n"

text \<open>What follows the last occurrence of a character, the whole string where there is none.\<close>

definition after_last :: "char \<Rightarrow> string \<Rightarrow> string" where
  "after_last c s = rev (takeWhile (\<lambda>x. x \<noteq> c) (rev s))"

definition runtime_Caller :: "nat \<Rightarrow> frame list \<Rightarrow> frame option" where
  "runtime_Caller depth stk = (if depth < length stk then Some (stk ! depth) else None)"

definition xframe :: "string \<Rightarrow> frame" where
  "xframe f = \<lparr>fn_name = ''github.com/go-phorce/dolly/xlog.'' @ f, fn_file = ''xlog.go'', fn_line = 1\<rparr>"

section \<open>logmap.go: levels\<close>

type_synonym LogLevel = int

definition CRITICAL :: LogLevel where "CRITICAL = -1"
definition ERROR :: LogLevel where "ERROR = 0"
definition WARNING :: LogLevel where "WARNING = 1"
definition NOTICE :: LogLevel where "NOTICE = 2"
definition INFO :: LogLevel where "INFO = 3"
definition TRACE :: LogLevel where "TRACE = 4"
definition DEBUG :: LogLevel where "DEBUG = 5"

lemmas level_defs = CRITICAL_def ERROR_def WARNING_def NOTICE_def INFO_def TRACE_def DEBUG_def

definition LogLevel_Char :: "LogLevel \<Rightarrow> (unit, string) result" where
  "LogLevel_Char l =
     (if l = CRITICAL then Ok ''C'' else if l = ERROR then Ok ''E'' else if l = WARNING then Ok ''W''
      else if l = NOTICE then Ok ''N'' else if l = INFO then Ok ''I'' else if l = TRACE then Ok ''T''
      else if l = DEBUG then Ok ''D'' else Panic)"

definition LogLevel_String :: "LogLevel \<Rightarrow> (unit, string) result" where
  "LogLevel_String l =
     (if l = CRITICAL then Ok ''CRITICAL'' else if l = ERROR then Ok ''ERROR'' else if l = WARNING then Ok ''WARNING''
      else if l = NOTICE then Ok ''NOTICE'' else if l = INFO then Ok ''INFO'' else if l = TRACE then Ok ''TRACE''
      else if l = DEBUG then Ok ''DEBUG'' else Panic)"

definition ParseLevel :: "string \<Rightarrow> (string, LogLevel) result" where
  "ParseLevel s =
     (if s \<in> {''CRITICAL'', ''C''} then Ok CRITICAL
      else if s \<in> {''ERROR'', ''0'', ''E''} then Ok ERROR
      else if s \<in> {''WARNING'', ''1'', ''W''} then Ok WARNING
      else if s \<in> {''NOTICE'', ''2'', ''N''} then Ok NOTICE
      else if s \<in> {''INFO'', ''3'', ''I''} then Ok INFO
      else if s \<in> {''TRACE'', ''4'', ''T''} then Ok TRACE
      else if s \<in> {''DEBUG'', ''5'', ''D''} then Ok DEBUG
      else Err (''unable to parse log level: '' @ s))"

text \<open>\<open>Set\<close> gives the new level; on an error the old one stays.\<close>

definition LogLevel_Set :: "LogLevel \<Rightarrow> string \<Rightarrow> LogLevel \<times> string option" where
  "LogLevel_Set l s = (case ParseLevel s of Ok v \<Rightarrow> (v, None) | Err e \<Rightarrow> (l, Some e) | Panic \<Rightarrow> (l, None))"

text \<open>\<open>ParseLogLevelConfig\<close> of a comma separated list of \<open>package=level\<close>.\<close>

fun parse_settings :: "string list \<Rightarrow> (string, LogLevel) gomap \<Rightarrow> (string, (string, LogLevel) gomap) result" where
  "parse_settings [] m = Ok m"
| "parse_settings (setstring # ss) m =
     (case split_on CHR ''='' setstring of
        [k, v] \<Rightarrow> bind_result (ParseLevel v) (\<lambda>l. parse_settings ss (mput k l m))
      | _ \<Rightarrow> Err (''oddly structured `pkg=level` option: '' @ setstring))"

definition ParseLogLevelConfig :: "string \<Rightarrow> (string, (string, LogLevel) gomap) result" where
  "ParseLogLevelConfig conf = parse_settings (split_on CHR '','' conf) []"

section \<open>Slices in a store of arrays\<close>

record gref =
  arr :: nat
  glen :: nat

definition elems_of :: "'a list list \<Rightarrow> gref \<Rightarrow> 'a list" where
  "elems_of H s = take (glen s) (H ! arr s)"

definition heap_append :: "(nat \<Rightarrow> nat \<Rightarrow> nat) \<Rightarrow> 'a \<Rightarrow> 'a list list \<Rightarrow> gref \<Rightarrow> 'a list \<Rightarrow> 'a list list \<times> gref" where
  "heap_append grw zero H s xs =
     (let a = H ! arr s; n = glen s + length xs
      in if n \<le> length a then (H[arr s := take (glen s) a @ xs @ drop n a], s\<lparr>glen := n\<rparr>)
         else (H @ [take (glen s) a @ xs @ replicate (grw (length a) n - n) zero], \<lparr>arr = length H, glen = n\<rparr>))"

section \<open>formatters.go\<close>

text \<open>\<open>String\<close> and \<open>flatten\<close>; a key that is no string panics, a missing last value is nil.\<close>

definition val_String :: "xenv \<Rightarrow> goval \<Rightarrow> string" where
  "val_String E v = trim_space (json_encode E (case v of VError full marshals \<Rightarrow> if marshals then v else VStr full | _ \<Rightarrow> v))"

fun flatten_loop :: "xenv \<Rightarrow> bool \<Rightarrow> goval list \<Rightarrow> (unit, string) result" where
  "flatten_loop E first [] = Ok []"
| "flatten_loop E first (VStr k # rest) =
     (let v = (case rest of [] \<Rightarrow> VNil | v # _ \<Rightarrow> v)
      in bind_result (flatten_loop E False (drop 1 rest)) (\<lambda>s.
           Ok ((if first then [] else '', '') @ k @ ''='' @ val_String E v @ s)))"
| "flatten_loop E first (v # rest) = Panic"

definition flatten :: "xenv \<Rightarrow> goval list \<Rightarrow> (unit, string) result" where
  "flatten E kvs = flatten_loop E True kvs"

definition callerName :: "nat \<Rightarrow> frame list \<Rightarrow> string" where
  "callerName depth stk =
     (case runtime_Caller depth (xframe ''callerName'' # stk) of
        Some f \<Rightarrow> after_last CHR ''.'' (fn_name f)
      | None \<Rightarrow> ''n/a'')"

definition writeEntries :: "xenv \<Rightarrow> frame list \<Rightarrow> string \<Rightarrow> nat \<Rightarrow> bool \<Rightarrow> goval list \<Rightarrow> string" where
  "writeEntries E stk pkg depth withCaller entries =
     (let str = go_Sprint E entries
      in (if pkg \<noteq> [] then pkg @ '': '' else []) @
         (if withCaller then ''src='' @ callerName (depth + 1) (xframe ''writeEntries'' # stk) @ '', '' else []) @
         str @ (if has_suffix str newline then [] else newline))"

text \<open>The formatters, with their settings. (All write to a buffer they flush at the end.)\<close>

datatype Formatter =
    StringFormatter bool
  | PrettyFormatter bool bool
  | ColorFormatter bool bool
  | LogFormatter string nat bool
  | NilFormatter
  | StackdriverFormatter string bool

fun WithCaller :: "bool \<Rightarrow> Formatter \<Rightarrow> Formatter" where
  "WithCaller val (StringFormatter _) = StringFormatter val"
| "WithCaller val (PrettyFormatter debug _) = PrettyFormatter debug val"
| "WithCaller val (ColorFormatter color _) = ColorFormatter color val"
| "WithCaller val (LogFormatter prfx flag _) = LogFormatter prfx flag val"
| "WithCaller val NilFormatter = NilFormatter"
| "WithCaller val (StackdriverFormatter name _) = StackdriverFormatter name val"

definition NewStringFormatter :: Formatter where "NewStringFormatter = StringFormatter True"
definition NewPrettyFormatter :: "bool \<Rightarrow> Formatter" where "NewPrettyFormatter debug = PrettyFormatter debug True"
definition NewColorFormatter :: "bool \<Rightarrow> Formatter" where "NewColorFormatter color = ColorFormatter color True"
definition NewLogFormatter :: "string \<Rightarrow> nat \<Rightarrow> Formatter" where "NewLogFormatter prfx flag = LogFormatter prfx flag False"

definition esc :: "string \<Rightarrow> string" where
  "esc s = [CHR 0x1B] @ ''['' @ s @ ''m''"

definition ColorOff :: string where "ColorOff = esc ''0''"

definition LevelColors :: "(LogLevel, string) gomap" where
  "LevelColors = [(CRITICAL, esc ''0;91''), (ERROR, esc ''0;91''), (WARNING, esc ''0;93''), (NOTICE, esc ''0;92''),
     (INFO, esc ''0;96''), (DEBUG, esc ''0;37''), (TRACE, esc ''0;37'')]"

definition source_text :: "frame option \<Rightarrow> string" where
  "source_text f =
     (let (fil, line) = (case f of None \<Rightarrow> (''???'', 1) | Some x \<Rightarrow> (after_last CHR ''/'' (fn_file x), fn_line x));
          line = (if line < 0 then 0 else line)
      in '' ['' @ fil @ '':'' @ itoa line @ '']'')"

definition String_Format :: "xenv \<Rightarrow> frame list \<Rightarrow> bool \<Rightarrow> string \<Rightarrow> nat \<Rightarrow> goval list \<Rightarrow> (unit, string) result" where
  "String_Format E stk withCaller pkg depth entries =
     Ok (now_RFC3339 E @ '' '' @ writeEntries E (xframe ''(*StringFormatter).Format'' # stk) pkg (depth + 1) withCaller entries)"

definition Pretty_Format :: "xenv \<Rightarrow> frame list \<Rightarrow> bool \<Rightarrow> bool \<Rightarrow> string \<Rightarrow> LogLevel \<Rightarrow> nat \<Rightarrow> goval list \<Rightarrow> (unit, string) result" where
  "Pretty_Format E stk debug withCaller pkg l depth entries =
     (let fr = xframe ''(*PrettyFormatter).Format'' # stk
      in bind_result (LogLevel_Char l) (\<lambda>c.
           Ok (now_date E @ ''.'' @ pad6 (now_nanosecond E div 1000) @
               (if debug then source_text (runtime_Caller depth fr) else []) @
               '' '' @ c @ '' | '' @ writeEntries E fr pkg (depth + 1) withCaller entries)))"

definition Color_Format :: "xenv \<Rightarrow> frame list \<Rightarrow> bool \<Rightarrow> bool \<Rightarrow> string \<Rightarrow> LogLevel \<Rightarrow> nat \<Rightarrow> goval list \<Rightarrow> (unit, string) result" where
  "Color_Format E stk color withCaller pkg l depth entries =
     bind_result (LogLevel_Char l) (\<lambda>c.
       Ok (now_date E @ ''.'' @ pad6 (now_nanosecond E div 1000) @
           (if color then (case mget LevelColors l of Some x \<Rightarrow> x | None \<Rightarrow> []) else []) @
           '' '' @ c @ '' | '' @
           writeEntries E (xframe ''(*ColorFormatter).Format'' # stk) pkg (depth + 1) withCaller entries @
           (if color then ColorOff else [])))"

text \<open>\<open>log.Logger.Output\<close> counts frames from itself and ends the line.\<close>

definition Log_Format :: "xenv \<Rightarrow> frame list \<Rightarrow> string \<Rightarrow> nat \<Rightarrow> string \<Rightarrow> goval list \<Rightarrow> (unit, string) result" where
  "Log_Format E stk prfx flag pkg entries =
     (let str = go_Sprint E entries;
          prfx = (if pkg \<noteq> [] then prfx @ pkg @ '': '' else prfx);
          msg = prfx @ str;
          caller = runtime_Caller 5 (xframe ''log.(*Logger).Output'' # xframe ''(*LogFormatter).Format'' # stk)
      in Ok (log_header E flag caller @ msg @ (if has_suffix msg newline then [] else newline)))"

section \<open>stackdriver/sd.go\<close>

definition levelsToSeverity :: "(LogLevel, string) gomap" where
  "levelsToSeverity = [(DEBUG, ''DEBUG''), (TRACE, ''DEBUG''), (INFO, ''INFO''), (NOTICE, ''NOTICE''),
     (WARNING, ''WARNING''), (ERROR, ''ERROR''), (CRITICAL, ''CRITICAL'')]"

definition sd_Format :: "xenv \<Rightarrow> frame list \<Rightarrow> string \<Rightarrow> string \<Rightarrow> LogLevel \<Rightarrow> nat \<Rightarrow> goval list \<Rightarrow> (unit, string) result" where
  "sd_Format E stk logName pkg l depth entries =
     (let f = runtime_Caller (depth + 1) (xframe ''callerName'' # xframe ''(*formatter).Format'' # stk);
          e = \<lparr>LogName = logName, Component = pkg, sdTime = now_RFC3339 E, Message = go_Sprint E entries,
               Severity = (case mget levelsToSeverity l of Some s \<Rightarrow> s | None \<Rightarrow> ''INFO''),
               srcFile = (if l \<le> ERROR then (case f of Some x \<Rightarrow> after_last CHR ''/'' (fn_file x) | None \<Rightarrow> ''.'') else []),
               srcLine = (if l \<le> ERROR then (case f of Some x \<Rightarrow> fn_line x | None \<Rightarrow> 0) else 0),
               srcFunction = (case f of Some x \<Rightarrow> after_last CHR ''.'' (fn_name x) | None \<Rightarrow> ''n/a'')\<rparr>
      in Ok (case sd_marshal E e of Some b \<Rightarrow> b @ newline | None \<Rightarrow> []))"

text \<open>The interface: \<open>Format\<close>, and \<open>FormatKV\<close>, which flattens the pairs first.\<close>

fun Format :: "xenv \<Rightarrow> frame list \<Rightarrow> Formatter \<Rightarrow> string \<Rightarrow> LogLevel \<Rightarrow> nat \<Rightarrow> goval list \<Rightarrow> (unit, string) result" where
  "Format E stk (StringFormatter wc) pkg l depth es = String_Format E stk wc pkg depth es"
| "Format E stk (PrettyFormatter debug wc) pkg l depth es = Pretty_Format E stk debug wc pkg l depth es"
| "Format E stk (ColorFormatter color wc) pkg l depth es = Color_Format E stk color wc pkg l depth es"
| "Format E stk (LogFormatter prfx flag wc) pkg l depth es = Log_Format E stk prfx flag pkg es"
| "Format E stk NilFormatter pkg l depth es = Ok []"
| "Format E stk (StackdriverFormatter name wc) pkg l depth es = sd_Format E stk name pkg l depth es"

definition FormatKV :: "xenv \<Rightarrow> frame list \<Rightarrow> Formatter \<Rightarrow> string \<Rightarrow> LogLevel \<Rightarrow> nat \<Rightarrow> goval list \<Rightarrow> (unit, string) result" where
  "FormatKV E stk f pkg l depth es =
     (if f = NilFormatter then Ok []
      else bind_result (flatten E es) (\<lambda>s. Format E (xframe ''FormatKV'' # stk) f pkg l (depth + 1) [VStr s]))"

section \<open>The global logger\<close>

record PackageLogger =
  lpkg :: string
  llevel :: LogLevel
  lvalues :: gref

text \<open>\<open>written\<close> is everything the formatters wrote. Array 0 is the empty array of nil slices.\<close>

record xlog =
  repoMap :: "(string, (string, nat) gomap) gomap"
  loggers :: "PackageLogger list"
  arrays :: "goval list list"
  lformatter :: "Formatter option"
  written :: string

definition set_level :: "nat \<Rightarrow> LogLevel \<Rightarrow> xlog \<Rightarrow> xlog" where
  "set_level a l st = st\<lparr>loggers := (loggers st)[a := (loggers st ! a)\<lparr>llevel := l\<rparr>]\<rparr>"

definition setRepoLogLevelInternal :: "LogLevel \<Rightarrow> (string, nat) gomap \<Rightarrow> xlog \<Rightarrow> xlog" where
  "setRepoLogLevelInternal l r st = fold (\<lambda>(_, a) st. set_level a l st) r st"

definition SetGlobalLogLevel :: "LogLevel \<Rightarrow> xlog \<Rightarrow> xlog" where
  "SetGlobalLogLevel l st = fold (\<lambda>(_, r) st. setRepoLogLevelInternal l r st) (repoMap st) st"

definition GetRepoLogger :: "xlog \<Rightarrow> string \<Rightarrow> (string, (string, nat) gomap) result" where
  "GetRepoLogger st repo =
     (case mget (repoMap st) repo of
        None \<Rightarrow> Err (''no packages registered for repo: '' @ repo)
      | Some r \<Rightarrow> Ok r)"

definition MustRepoLogger :: "xlog \<Rightarrow> string \<Rightarrow> (string, (string, nat) gomap) result" where
  "MustRepoLogger st repo = (case GetRepoLogger st repo of Err e \<Rightarrow> Panic | r \<Rightarrow> r)"

definition RepoLogger_SetRepoLogLevel :: "(string, nat) gomap \<Rightarrow> LogLevel \<Rightarrow> xlog \<Rightarrow> xlog" where
  "RepoLogger_SetRepoLogLevel r l st = setRepoLogLevelInternal l r st"

definition SetLogLevel :: "(string, nat) gomap \<Rightarrow> (string, LogLevel) gomap \<Rightarrow> xlog \<Rightarrow> xlog" where
  "SetLogLevel r m st =
     (let st = (case mget m ''*'' of Some l \<Rightarrow> setRepoLogLevelInternal l r st | None \<Rightarrow> st)
      in fold (\<lambda>(k, v) st. case mget r k of None \<Rightarrow> st | Some a \<Rightarrow> set_level a v st) m st)"

definition SetFormatter :: "Formatter option \<Rightarrow> xlog \<Rightarrow> xlog" where
  "SetFormatter f st = st\<lparr>lformatter := f\<rparr>"

definition GetFormatter :: "xlog \<Rightarrow> Formatter option" where
  "GetFormatter st = lformatter st"

definition NewPackageLogger :: "string \<Rightarrow> string \<Rightarrow> xlog \<Rightarrow> xlog \<times> nat" where
  "NewPackageLogger repo pkg st =
     (let r = (case mget (repoMap st) repo of Some r \<Rightarrow> r | None \<Rightarrow> [])
      in case mget r pkg of
           Some a \<Rightarrow> (st, a)
         | None \<Rightarrow>
             (st\<lparr>repoMap := mput repo (mput pkg (length (loggers st)) r) (repoMap st),
                 loggers := loggers st @ [\<lparr>lpkg = pkg, llevel = INFO, lvalues = \<lparr>arr = 0, glen = 0\<rparr>\<rparr>]\<rparr>,
              length (loggers st)))"

definition SetRepoLogLevel :: "string \<Rightarrow> LogLevel \<Rightarrow> xlog \<Rightarrow> xlog" where
  "SetRepoLogLevel repo l st = (case GetRepoLogger st repo of Ok r \<Rightarrow> RepoLogger_SetRepoLogLevel r l st | _ \<Rightarrow> st)"

definition SetPackageLogLevel :: "string \<Rightarrow> string \<Rightarrow> LogLevel \<Rightarrow> xlog \<Rightarrow> xlog" where
  "SetPackageLogLevel repo pkg l st =
     (if pkg = [] \<or> pkg = ''*'' then SetRepoLogLevel repo l st
      else case GetRepoLogger st repo of
             Ok r \<Rightarrow> (case mget r pkg of Some a \<Rightarrow> set_level a l st | None \<Rightarrow> st)
           | _ \<Rightarrow> st)"

section \<open>packagelogger.go\<close>

text \<open>How a logging call ends.\<close>

datatype outcome = Returned | Panicked | Exited int

datatype entriesType = Plain | KV

definition calldepth :: nat where "calldepth = 2"

definition WithValues :: "xenv \<Rightarrow> nat \<Rightarrow> goval list \<Rightarrow> xlog \<Rightarrow> xlog \<times> nat" where
  "WithValues E p kvs st =
     (let (H, vs) = heap_append (grow E) VNil (arrays st) (lvalues (loggers st ! p)) kvs
      in (st\<lparr>arrays := H, loggers := loggers st @ [(loggers st ! p)\<lparr>lvalues := vs\<rparr>]\<rparr>, length (loggers st)))"

definition emit_text :: "(unit, string) result \<Rightarrow> xlog \<Rightarrow> xlog \<times> outcome" where
  "emit_text r st = (case r of Ok s \<Rightarrow> (st\<lparr>written := written st @ s\<rparr>, Returned) | _ \<Rightarrow> (st, Panicked))"

definition internalLog ::
  "xenv \<Rightarrow> frame list \<Rightarrow> entriesType \<Rightarrow> nat \<Rightarrow> nat \<Rightarrow> LogLevel \<Rightarrow> goval list \<Rightarrow> xlog \<Rightarrow> xlog \<times> outcome" where
  "internalLog E stk t depth p inLevel entries st =
     (let lg = loggers st ! p; fr = xframe ''(*PackageLogger).internalLog'' # stk
      in if inLevel \<noteq> CRITICAL \<and> llevel lg < inLevel then (st, Returned)
         else
           let (H, es) =
                 (if glen (lvalues lg) > 0
                  then let (H, s) = heap_append (grow E) VNil (arrays st) (lvalues lg) entries in (H, elems_of H s)
                  else (arrays st, entries));
               st = st\<lparr>arrays := H\<rparr>
           in case lformatter st of
                None \<Rightarrow> (st, Returned)
              | Some f \<Rightarrow>
                  emit_text (if t = Plain then Format E fr f (lpkg lg) inLevel (depth + 1) es
                             else FormatKV E fr f (lpkg lg) inLevel (depth + 1) es) st)"

definition internalLogf ::
  "xenv \<Rightarrow> frame list \<Rightarrow> nat \<Rightarrow> nat \<Rightarrow> LogLevel \<Rightarrow> string \<Rightarrow> goval list \<Rightarrow> xlog \<Rightarrow> xlog \<times> outcome" where
  "internalLogf E stk depth p inLevel fmt args st =
     (let lg = loggers st ! p; fr = xframe ''(*PackageLogger).internalLogf'' # stk
      in if inLevel \<noteq> CRITICAL \<and> llevel lg < inLevel then (st, Returned)
         else case lformatter st of
                None \<Rightarrow> (st, Returned)
              | Some f \<Rightarrow>
                  let s = go_Sprintf E fmt args
                  in emit_text
                       (bind_result
                          (if glen (lvalues lg) > 0
                           then bind_result (flatten E (elems_of (arrays st) (lvalues lg))) (\<lambda>v. Ok (v @ '', '' @ s))
                           else Ok s)
                          (\<lambda>s. Format E fr f (lpkg lg) inLevel (depth + 1) [VStr s])) st)"

definition LevelAt :: "xlog \<Rightarrow> nat \<Rightarrow> LogLevel \<Rightarrow> bool" where
  "LevelAt st p l = (llevel (loggers st ! p) \<ge> l)"

text \<open>The methods of the interface \<open>Logger\<close> as data. A fatal call exits, a panicking one panics
  after logging, and a panic of the formatter ends every call.\<close>

datatype logcall =
    LFatal "goval list" | LFatalf string "goval list"
  | LPanic "goval list" | LPanicf string "goval list"
  | LError "goval list" | LErrorf string "goval list"
  | LWarning "goval list" | LWarningf string "goval list"
  | LNotice "goval list" | LNoticef string "goval list"
  | LInfo "goval list" | LInfof string "goval list"
  | LDebug "goval list" | LDebugf string "goval list"
  | LTrace "goval list" | LTracef string "goval list"
  | LKV LogLevel "goval list"
  | LLog LogLevel "goval list" | LLogf LogLevel string "goval list"

definition ends_with :: "outcome \<Rightarrow> xlog \<times> outcome \<Rightarrow> xlog \<times> outcome" where
  "ends_with o1 r = (fst r, if snd r = Returned then o1 else snd r)"

definition pframe :: "string \<Rightarrow> frame" where
  "pframe m = xframe (''(*PackageLogger).'' @ m)"

fun PackageLogger_call :: "xenv \<Rightarrow> frame list \<Rightarrow> nat \<Rightarrow> logcall \<Rightarrow> xlog \<Rightarrow> xlog \<times> outcome" where
  "PackageLogger_call E stk p (LLogf l f as) st = internalLogf E (pframe ''Logf'' # stk) calldepth p l f as st"
| "PackageLogger_call E stk p (LLog l as) st = internalLog E (pframe ''Log'' # stk) Plain calldepth p l as st"
| "PackageLogger_call E stk p (LPanicf f as) st =
     ends_with Panicked (internalLog E (pframe ''Panicf'' # stk) Plain calldepth p CRITICAL [VStr (go_Sprintf E f as)] st)"
| "PackageLogger_call E stk p (LPanic as) st =
     ends_with Panicked (internalLog E (pframe ''Panic'' # stk) Plain calldepth p CRITICAL [VStr (go_Sprint E as)] st)"
| "PackageLogger_call E stk p (LFatalf f as) st =
     ends_with (Exited 1) (internalLogf E (pframe ''Fatalf'' # stk) calldepth p CRITICAL f as st)"
| "PackageLogger_call E stk p (LFatal as) st =
     ends_with (Exited 1) (internalLog E (pframe ''Fatal'' # stk) Plain calldepth p CRITICAL [VStr (go_Sprint E as)] st)"
| "PackageLogger_call E stk p (LErrorf f as) st = internalLogf E (pframe ''Errorf'' # stk) calldepth p ERROR f as st"
| "PackageLogger_call E stk p (LError as) st = internalLog E (pframe ''Error'' # stk) Plain calldepth p ERROR as st"
| "PackageLogger_call E stk p (LWarningf f as) st = internalLogf E (pframe ''Warningf'' # stk) calldepth p WARNING f as st"
| "PackageLogger_call E stk p (LWarning as) st = internalLog E (pframe ''Warning'' # stk) Plain calldepth p WARNING as st"
| "PackageLogger_call E stk p (LNoticef f as) st = internalLogf E (pframe ''Noticef'' # stk) calldepth p NOTICE f as st"
| "PackageLogger_call E stk p (LNotice as) st = internalLog E (pframe ''Notice'' # stk) Plain calldepth p NOTICE as st"
| "PackageLogger_call E stk p (LInfof f as) st = internalLogf E (pframe ''Infof'' # stk) calldepth p INFO f as st"
| "PackageLogger_call E stk p (LInfo as) st = internalLog E (pframe ''Info'' # stk) Plain calldepth p INFO as st"
| "PackageLogger_call E stk p (LKV l as) st = internalLog E (pframe ''KV'' # stk) KV calldepth p l as st"
| "PackageLogger_call E stk p (LDebugf f as) st = internalLogf E (pframe ''Debugf'' # stk) calldepth p DEBUG f as st"
| "PackageLogger_call E stk p (LDebug as) st = internalLog E (pframe ''Debug'' # stk) Plain calldepth p DEBUG as st"
| "PackageLogger_call E stk p (LTracef f as) st = internalLogf E (pframe ''Tracef'' # stk) calldepth p TRACE f as st"
| "PackageLogger_call E stk p (LTrace as) st = internalLog E (pframe ''Trace'' # stk) Plain calldepth p TRACE as st"

text \<open>\<open>Flush\<close> on a nil formatter panics; the formatters have nothing left to flush.\<close>

definition PackageLogger_Flush :: "xlog \<Rightarrow> xlog \<times> outcome" where
  "PackageLogger_Flush st = (st, if lformatter st = None then Panicked else Returned)"

section \<open>nillogger.go\<close>

text \<open>Nothing is logged and fatal calls return; the two panicking methods go to the standard
  logger, which \<open>log_hijack.go\<close> turns into the package logger \<open>std\<close>, and panic.\<close>

definition packageWriter_Write :: "xenv \<Rightarrow> frame list \<Rightarrow> nat \<Rightarrow> string \<Rightarrow> xlog \<Rightarrow> xlog \<times> outcome" where
  "packageWriter_Write E stk std b st =
     internalLog E (xframe ''packageWriter.Write'' # stk) Plain (calldepth + 2) std INFO [VStr b] st"

definition end_line :: "string \<Rightarrow> string" where
  "end_line s = s @ (if has_suffix s newline then [] else newline)"

definition std_log :: "xenv \<Rightarrow> frame list \<Rightarrow> nat \<Rightarrow> string \<Rightarrow> xlog \<Rightarrow> xlog \<times> outcome" where
  "std_log E stk std s st =
     packageWriter_Write E (xframe ''log.(*Logger).Output'' # xframe ''log.Panic'' # stk) std (end_line s) st"

fun NilLogger_call :: "xenv \<Rightarrow> frame list \<Rightarrow> nat \<Rightarrow> logcall \<Rightarrow> xlog \<Rightarrow> xlog \<times> outcome" where
  "NilLogger_call E stk std (LPanic as) st =
     ends_with Panicked (std_log E (xframe ''(*NilLogger).Panic'' # stk) std (go_Sprint E as) st)"
| "NilLogger_call E stk std (LPanicf f as) st =
     ends_with Panicked (std_log E (xframe ''(*NilLogger).Panicf'' # stk) std (go_Sprintf E f as) st)"
| "NilLogger_call E stk std c st = (st, Returned)"

section \<open>init.go\<close>

definition NewDefaultFormatter :: Formatter where
  "NewDefaultFormatter = NewPrettyFormatter False"

definition initial_xlog :: xlog where
  "initial_xlog = \<lparr>repoMap = [], loggers = [], arrays = [[]], lformatter = None, written = []\<rparr>"

definition initHijack :: "xlog \<Rightarrow> xlog \<times> nat" where
  "initHijack st = NewPackageLogger ''log'' [] st"

definition xlog_init :: "xlog \<Rightarrow> xlog" where
  "xlog_init st = SetGlobalLogLevel INFO (SetFormatter (Some NewDefaultFormatter) (fst (initHijack st)))"

end
