(* ===== verification/XlogFacts.thy ===== *)
theory XlogFacts
  imports Xlog
begin

text \<open>
  Correctness of the logging package: what a logging call writes and on whose behalf, the registry
  of loggers and its invariant in every sequence of operations, levels set from a configuration
  text, and the sharing of key/value arrays between loggers.
\<close>

section \<open>Arrays\<close>

definition wf_ref :: "'a list list \<Rightarrow> gref \<Rightarrow> bool" where
  "wf_ref H s = (arr s < length H \<and> glen s \<le> length (H ! arr s))"

lemma heap_append_elems:
  assumes "wf_ref H s" and "heap_append g z H s xs = (H', s')"
  shows "elems_of H' s' = elems_of H s @ xs" and "wf_ref H' s'" and "length H \<le> length H'"
    and "glen s' = glen s + length xs"
  using assms by (auto simp: heap_append_def elems_of_def wf_ref_def Let_def nth_append split: if_splits)

lemma heap_append_keeps_wf:
  assumes "wf_ref H s" and "heap_append g z H s xs = (H', s')" and "wf_ref H t"
  shows "wf_ref H' t"
  using assms by (auto simp: heap_append_def wf_ref_def Let_def nth_append nth_list_update split: if_splits)

section \<open>The invariant of the registry\<close>

definition lookup :: "xlog \<Rightarrow> string \<Rightarrow> string \<Rightarrow> nat option" where
  "lookup st repo pkg = Option.bind (mget (repoMap st) repo) (\<lambda>r. mget r pkg)"

text \<open>Every registered logger exists, has the name it is registered under and is registered once.\<close>

definition wf_xlog :: "xlog \<Rightarrow> bool" where
  "wf_xlog st \<longleftrightarrow>
     (\<forall>lg\<in>set (loggers st). wf_ref (arrays st) (lvalues lg)) \<and>
     wf_map (repoMap st) \<and> (\<forall>repo r. mget (repoMap st) repo = Some r \<longrightarrow> wf_map r) \<and>
     (\<forall>repo pkg a. lookup st repo pkg = Some a \<longrightarrow> a < length (loggers st) \<and> lpkg (loggers st ! a) = pkg) \<and>
     (\<forall>repo pkg repo' pkg' a. lookup st repo pkg = Some a \<and> lookup st repo' pkg' = Some a \<longrightarrow> repo = repo' \<and> pkg = pkg') \<and>
     arrays st \<noteq> [] \<and> arrays st ! 0 = []"

lemma wf_xlogI:
  assumes "\<And>a. a < length (loggers st) \<Longrightarrow> wf_ref (arrays st) (lvalues (loggers st ! a))"
    and "wf_map (repoMap st)" and "\<And>repo r. mget (repoMap st) repo = Some r \<Longrightarrow> wf_map r"
    and "\<And>repo pkg a. lookup st repo pkg = Some a \<Longrightarrow> a < length (loggers st)"
    and "\<And>repo pkg a. lookup st repo pkg = Some a \<Longrightarrow> lpkg (loggers st ! a) = pkg"
    and "\<And>repo pkg repo' pkg' a. lookup st repo pkg = Some a \<Longrightarrow> lookup st repo' pkg' = Some a \<Longrightarrow> repo = repo' \<and> pkg = pkg'"
    and "arrays st \<noteq> []" and "arrays st ! 0 = []"
  shows "wf_xlog st"
proof -
  have "wf_ref (arrays st) (lvalues lg)" if "lg \<in> set (loggers st)" for lg
    using that assms(1) by (metis in_set_conv_nth)
  then show ?thesis unfolding wf_xlog_def using assms(2-) by meson
qed

lemma wf_xlogD:
  assumes "wf_xlog st"
  shows "a < length (loggers st) \<Longrightarrow> wf_ref (arrays st) (lvalues (loggers st ! a))"
    and "wf_map (repoMap st)" and "mget (repoMap st) repo = Some r \<Longrightarrow> wf_map r"
    and "lookup st repo pkg = Some a \<Longrightarrow> a < length (loggers st)"
    and "lookup st repo pkg = Some a \<Longrightarrow> lpkg (loggers st ! a) = pkg"
    and "lookup st repo pkg = Some a \<Longrightarrow> lookup st repo' pkg' = Some a \<Longrightarrow> repo = repo' \<and> pkg = pkg'"
    and "arrays st \<noteq> []" and "arrays st ! 0 = []"
  using assms unfolding wf_xlog_def by (simp_all add: nth_mem) blast

text \<open>What the operations on levels and formatters may change.\<close>

definition same_registry :: "xlog \<Rightarrow> xlog \<Rightarrow> bool" where
  "same_registry st st' \<longleftrightarrow>
     repoMap st' = repoMap st \<and> arrays st' = arrays st \<and> length (loggers st') = length (loggers st) \<and>
     (\<forall>a<length (loggers st). lpkg (loggers st' ! a) = lpkg (loggers st ! a) \<and> lvalues (loggers st' ! a) = lvalues (loggers st ! a))"

lemma same_registry_refl [simp]: "same_registry st st"
  by (simp add: same_registry_def)

lemma same_registry_trans: "same_registry a b \<Longrightarrow> same_registry b c \<Longrightarrow> same_registry a c"
  by (auto simp: same_registry_def)

lemma set_level_same: "same_registry st (set_level a l st)"
  by (cases "a < length (loggers st)") (auto simp: same_registry_def set_level_def nth_list_update list_update_beyond)

lemma fold_same_registry:
  "(\<And>x st. same_registry st (f x st)) \<Longrightarrow> same_registry st (fold f xs st)"
  by (induction xs arbitrary: st) (auto intro: same_registry_trans)

lemma setRepo_same: "same_registry st (setRepoLogLevelInternal l r st)"
  unfolding setRepoLogLevelInternal_def by (rule fold_same_registry) (auto simp: set_level_same)

lemma SetGlobal_same: "same_registry st (SetGlobalLogLevel l st)"
  unfolding SetGlobalLogLevel_def by (rule fold_same_registry) (auto simp: setRepo_same)

lemma SetLogLevel_same: "same_registry st (SetLogLevel r m st)"
  unfolding SetLogLevel_def Let_def
  by (rule same_registry_trans [OF _ fold_same_registry])
    (auto simp: setRepo_same set_level_same split: option.splits prod.splits)

lemma SetRepo_same: "same_registry st (SetRepoLogLevel repo l st)"
  by (auto simp: SetRepoLogLevel_def RepoLogger_SetRepoLogLevel_def setRepo_same split: result.splits)

lemma SetPackage_same: "same_registry st (SetPackageLogLevel repo pkg l st)"
  by (auto simp: SetPackageLogLevel_def SetRepo_same set_level_same split: result.splits option.splits)

lemmas level_ops_same = SetGlobal_same SetLogLevel_same SetRepo_same SetPackage_same

lemma wf_same_registry:
  assumes wf: "wf_xlog st" and same: "same_registry st st'"
  shows "wf_xlog st'"
proof -
  have l: "lookup st' = lookup st" using same by (auto simp: lookup_def same_registry_def fun_eq_iff)
  have eqs: "repoMap st' = repoMap st" "arrays st' = arrays st" "length (loggers st') = length (loggers st)"
    and names: "\<And>a. a < length (loggers st) \<Longrightarrow> lpkg (loggers st' ! a) = lpkg (loggers st ! a)"
      "\<And>a. a < length (loggers st) \<Longrightarrow> lvalues (loggers st' ! a) = lvalues (loggers st ! a)"
    using same by (auto simp: same_registry_def)
  show ?thesis
  proof (rule wf_xlogI, unfold l eqs, goal_cases)
    case (1 a)
    then show ?case using wf_xlogD(1) [OF wf 1] by (simp add: names)
  next
    case (5 repo pkg a)
    then show ?case using wf_xlogD(4,5) [OF wf 5] by (simp add: names)
  qed (fact wf_xlogD [OF wf])+
qed

lemma lookup_New:
  assumes "NewPackageLogger repo pkg st = (st', a)"
  shows "lookup st' repo' pkg' = (if repo' = repo \<and> pkg' = pkg then Some a else lookup st repo' pkg')"
  using assms by (auto simp: NewPackageLogger_def lookup_def Let_def split: option.splits if_splits)

lemma loggers_New:
  assumes "NewPackageLogger repo pkg st = (st', a)"
  shows "lookup st repo pkg = Some a \<and> st' = st \<or>
    lookup st repo pkg = None \<and> a = length (loggers st) \<and> arrays st' = arrays st \<and>
      loggers st' = loggers st @ [\<lparr>lpkg = pkg, llevel = INFO, lvalues = \<lparr>arr = 0, glen = 0\<rparr>\<rparr>]"
  using assms by (auto simp: NewPackageLogger_def lookup_def Let_def split: option.splits)

lemma wf_NewPackageLogger:
  assumes wf: "wf_xlog st" and new: "NewPackageLogger repo pkg st = (st', a)"
  shows "wf_xlog st'"
proof (cases "lookup st repo pkg")
  case (Some b)
  then show ?thesis using loggers_New [OF new] wf by auto
next
  case None
  then have st': "a = length (loggers st)" "arrays st' = arrays st"
    "loggers st' = loggers st @ [\<lparr>lpkg = pkg, llevel = INFO, lvalues = \<lparr>arr = 0, glen = 0\<rparr>\<rparr>]"
    using loggers_New [OF new] by auto
  have old: "b < length (loggers st) \<and> lpkg (loggers st ! b) = q" if "lookup st r q = Some b" for r q b
    using wf_xlogD(4,5) [OF wf that] by simp
  have maps: "wf_map (repoMap st')" "\<And>repo r. mget (repoMap st') repo = Some r \<Longrightarrow> wf_map r"
    using wf_xlogD(2,3) [OF wf] new
    by (auto simp: NewPackageLogger_def Let_def split: option.splits if_splits intro: wf_map_mput [of "[]", simplified])
  show ?thesis
  proof (rule wf_xlogI)
    fix b assume "b < length (loggers st')"
    then show "wf_ref (arrays st') (lvalues (loggers st' ! b))"
      using wf_xlogD(1,7,8) [OF wf] by (cases "b < length (loggers st)") (auto simp: st' wf_ref_def nth_append)
  next
    fix r q b assume "lookup st' r q = Some b"
    then show "b < length (loggers st')" "lpkg (loggers st' ! b) = q"
      using old [of r q b] by (auto simp: lookup_New [OF new] st' nth_append split: if_splits)
  next
    fix r q r' q' b assume "lookup st' r q = Some b" "lookup st' r' q' = Some b"
    then show "r = r' \<and> q = q'"
      using old [of r q b] old [of r' q' b] wf_xlogD(6) [OF wf, of r q b r' q']
      by (auto simp: lookup_New [OF new] st' split: if_splits)
  qed (use maps wf_xlogD(7,8) [OF wf] st' in auto)
qed

lemma heap_append_nil_array:
  assumes "wf_ref H s" and "heap_append g z H s xs = (H', s')" and "H \<noteq> []" and "H ! 0 = []"
  shows "H' \<noteq> [] \<and> H' ! 0 = []"
  using assms by (cases "arr s") (auto simp: heap_append_def wf_ref_def Let_def nth_append split: if_splits)

text \<open>Logging changes the arrays and the output only.\<close>

definition same_loggers :: "xlog \<Rightarrow> xlog \<Rightarrow> bool" where
  "same_loggers st st' \<longleftrightarrow> repoMap st' = repoMap st \<and> loggers st' = loggers st \<and> lformatter st' = lformatter st \<and>
     (arrays st' = arrays st \<or> (\<exists>g z a xs s'. a < length (loggers st) \<and> heap_append g z (arrays st) (lvalues (loggers st ! a)) xs = (arrays st', s')))"

lemma wf_same_loggers:
  assumes wf: "wf_xlog st" and same: "same_loggers st st'"
  shows "wf_xlog st'"
proof -
  have eqs: "repoMap st' = repoMap st" "loggers st' = loggers st" using same by (auto simp: same_loggers_def)
  then have l: "lookup st' = lookup st" by (simp add: lookup_def fun_eq_iff)
  have new: "(\<forall>a<length (loggers st). wf_ref (arrays st') (lvalues (loggers st ! a))) \<and> arrays st' \<noteq> [] \<and> arrays st' ! 0 = []"
  proof (cases "arrays st' = arrays st")
    case False
    then obtain g z b xs s' where b: "b < length (loggers st)"
      and h: "heap_append g z (arrays st) (lvalues (loggers st ! b)) xs = (arrays st', s')"
      using same unfolding same_loggers_def by blast
    note ref = wf_xlogD(1) [OF wf b]
    show ?thesis
      using heap_append_keeps_wf [OF ref h wf_xlogD(1) [OF wf]] heap_append_nil_array [OF ref h wf_xlogD(7,8) [OF wf]] by simp
  qed (simp add: wf_xlogD(1,7,8) [OF wf])
  show ?thesis
  proof (rule wf_xlogI, unfold l eqs, goal_cases)
    case (1 a)
    then show ?case using new by simp
  next
    case 7
    then show ?case using new by simp
  next
    case 8
    then show ?case using new by simp
  qed (fact wf_xlogD [OF wf])+
qed

lemma emit_text_same: "emit_text r st = (st', oc) \<Longrightarrow> repoMap st' = repoMap st \<and> loggers st' = loggers st \<and> lformatter st' = lformatter st \<and> arrays st' = arrays st"
  by (auto simp: emit_text_def split: result.splits)

lemma internalLog_same:
  assumes "p < length (loggers st)"
  shows "same_loggers st (fst (internalLog E stk t depth p l es st))"
proof (cases "internalLog E stk t depth p l es st")
  case (Pair st' oc)
  then show ?thesis using assms
    by (auto simp: internalLog_def same_loggers_def Let_def split: if_splits option.splits prod.splits dest!: emit_text_same)
qed

lemma internalLogf_same: "same_loggers st (fst (internalLogf E stk depth p l f as st))"
  by (auto simp: internalLogf_def same_loggers_def Let_def emit_text_def split: option.split result.split)

lemma call_same: "p < length (loggers st) \<Longrightarrow> same_loggers st (fst (PackageLogger_call E stk p c st))"
  by (cases c) (simp_all add: internalLog_same internalLogf_same ends_with_def)

lemma wf_WithValues:
  assumes wf: "wf_xlog st" and p: "p < length (loggers st)" and w: "WithValues E p kvs st = (st', a)"
  shows "wf_xlog st'"
proof -
  obtain H vs where h: "heap_append (grow E) VNil (arrays st) (lvalues (loggers st ! p)) kvs = (H, vs)" by (meson surj_pair)
  then have st': "repoMap st' = repoMap st" "arrays st' = H" "loggers st' = loggers st @ [(loggers st ! p)\<lparr>lvalues := vs\<rparr>]"
    using w by (auto simp: WithValues_def)
  have l: "lookup st' = lookup st" by (simp add: lookup_def fun_eq_iff st')
  note ref = wf_xlogD(1) [OF wf p]
  show ?thesis
  proof (rule wf_xlogI, unfold l st', goal_cases)
    case (1 b)
    then show ?case
      using heap_append_elems(2) [OF ref h] heap_append_keeps_wf [OF ref h wf_xlogD(1) [OF wf]]
      by (cases "b < length (loggers st)") (auto simp: nth_append)
  next
    case (4 repo pkg b)
    then show ?case using wf_xlogD(4) [OF wf 4] by simp
  next
    case (5 repo pkg b)
    then show ?case using wf_xlogD(4,5) [OF wf 5] by (simp add: nth_append)
  next
    case 7
    then show ?case using heap_append_nil_array [OF ref h wf_xlogD(7,8) [OF wf]] by simp
  next
    case 8
    then show ?case using heap_append_nil_array [OF ref h wf_xlogD(7,8) [OF wf]] by simp
  qed (fact wf_xlogD [OF wf])+
qed

text \<open>All operations, in any order; loggers are used once they exist.\<close>

inductive xlog_step :: "xlog \<Rightarrow> xlog \<Rightarrow> bool" where
  new_logger: "NewPackageLogger repo pkg st = (st', a) \<Longrightarrow> xlog_step st st'"
| with_values: "p < length (loggers st) \<Longrightarrow> WithValues E p kvs st = (st', a) \<Longrightarrow> xlog_step st st'"
| logging: "p < length (loggers st) \<Longrightarrow> PackageLogger_call E stk p c st = (st', oc) \<Longrightarrow> xlog_step st st'"
| global_level: "xlog_step st (SetGlobalLogLevel l st)"
| repo_level: "xlog_step st (SetRepoLogLevel repo l st)"
| package_level: "xlog_step st (SetPackageLogLevel repo pkg l st)"
| levels: "xlog_step st (SetLogLevel r m st)"
| formatter: "xlog_step st (SetFormatter f st)"

lemma wf_step: "xlog_step st st' \<Longrightarrow> wf_xlog st \<Longrightarrow> wf_xlog st'"
proof (induction rule: xlog_step.induct)
  case (logging p st E stk c st' oc)
  then show ?case using call_same [OF logging(1), of E stk c] wf_same_loggers by (metis fst_conv)
next
  case (formatter st f)
  then show ?case by (auto simp: SetFormatter_def wf_xlog_def lookup_def)
qed (auto intro: wf_NewPackageLogger wf_WithValues wf_same_registry level_ops_same)

lemma lookup_step:
  assumes "xlog_step st st'" and "lookup st repo pkg = Some a"
  shows "lookup st' repo pkg = Some a"
  using assms
proof (induction rule: xlog_step.induct)
  case (new_logger repo' pkg' st st' b)
  then show ?case using loggers_New [OF new_logger(1)] by (auto simp: lookup_New [OF new_logger(1)])
next
  case (with_values p st E kvs st' b)
  then show ?case by (auto simp: WithValues_def lookup_def split: prod.splits)
next
  case (logging p st E stk c st' oc)
  then show ?case using call_same [OF logging(1), of E stk c] by (simp add: same_loggers_def lookup_def)
next
  case (formatter st f)
  then show ?case by (simp add: SetFormatter_def lookup_def)
qed (insert level_ops_same, simp_all add: same_registry_def lookup_def)

lemma wf_initial: "wf_xlog initial_xlog"
  by (simp add: wf_xlog_def initial_xlog_def lookup_def)

lemma reach_init: "xlog_step\<^sup>*\<^sup>* initial_xlog (xlog_init initial_xlog)"
proof -
  have 1: "xlog_step initial_xlog (fst (initHijack initial_xlog))"
    unfolding initHijack_def by (rule xlog_step.new_logger [of "''log''" "[]" _ _ "snd (NewPackageLogger ''log'' [] initial_xlog)"]) simp
  show ?thesis
    unfolding xlog_init_def
    by (rule rtranclp.rtrancl_into_rtrancl, rule rtranclp.rtrancl_into_rtrancl, rule r_into_rtranclp, rule 1, rule formatter, rule global_level)
qed

lemma reach_wf: "xlog_step\<^sup>*\<^sup>* st st' \<Longrightarrow> wf_xlog st \<Longrightarrow> wf_xlog st'"
  by (induction rule: rtranclp_induct) (auto intro: wf_step)

lemma reach_lookup: "xlog_step\<^sup>*\<^sup>* st st' \<Longrightarrow> lookup st repo pkg = Some a \<Longrightarrow> lookup st' repo pkg = Some a"
  by (induction rule: rtranclp_induct) (auto intro: lookup_step)

lemma New_registered: "lookup st repo pkg = Some a \<Longrightarrow> NewPackageLogger repo pkg st = (st, a)"
  by (auto simp: NewPackageLogger_def lookup_def Let_def split: option.splits)

text \<open>A package logger, once made, is the logger of its repository and package for ever, and of no
  other: whatever is logged, registered or configured afterwards, asking for it again returns
  the same pointer.\<close>

theorem logger_registered_once:
  assumes "xlog_step\<^sup>*\<^sup>* (xlog_init initial_xlog) st" and "NewPackageLogger repo pkg st = (st1, a)"
    and "xlog_step\<^sup>*\<^sup>* st1 st2"
  shows "NewPackageLogger repo pkg st2 = (st2, a) \<and> lpkg (loggers st2 ! a) = pkg \<and>
    (\<forall>repo' pkg'. lookup st2 repo' pkg' = Some a \<longrightarrow> repo' = repo \<and> pkg' = pkg)"
proof -
  have "lookup st1 repo pkg = Some a" by (simp add: lookup_New [OF assms(2)])
  then have l: "lookup st2 repo pkg = Some a" by (rule reach_lookup [OF assms(3)])
  have "wf_xlog st" by (rule reach_wf [OF _ wf_initial]) (use reach_init assms(1) in \<open>rule rtranclp_trans\<close>)
  then have wf: "wf_xlog st2" by (rule reach_wf [OF assms(3) wf_NewPackageLogger [OF _ assms(2)]])
  show ?thesis
  proof (intro conjI allI impI)
    show "NewPackageLogger repo pkg st2 = (st2, a)" by (rule New_registered [OF l])
    show "lpkg (loggers st2 ! a) = pkg" by (rule wf_xlogD(5) [OF wf l])
    fix repo' pkg' assume "lookup st2 repo' pkg' = Some a"
    from wf_xlogD(6) [OF wf this l] show "repo' = repo" "pkg' = pkg" by simp_all
  qed
qed

theorem logger_registered_once_witness:
  "let st = fst (NewPackageLogger ''repo'' ''p'' (xlog_init initial_xlog)); st2 = SetGlobalLogLevel DEBUG st
   in NewPackageLogger ''repo'' ''p'' st2 = (st2, 1) \<and> lpkg (loggers st2 ! 1) = ''p'' \<and>
      (\<forall>repo' pkg'. lookup st2 repo' pkg' = Some 1 \<longrightarrow> repo' = ''repo'' \<and> pkg' = ''p'')"
proof -
  have a: "NewPackageLogger ''repo'' ''p'' (xlog_init initial_xlog) = (fst (NewPackageLogger ''repo'' ''p'' (xlog_init initial_xlog)), 1)"
    by code_simp
  show ?thesis
    unfolding Let_def
    by (rule logger_registered_once [OF rtranclp.rtrancl_refl a]) (rule r_into_rtranclp, rule global_level)
qed

section \<open>What a call writes\<close>

fun call_level :: "logcall \<Rightarrow> LogLevel" where
  "call_level (LFatal _) = CRITICAL" | "call_level (LFatalf _ _) = CRITICAL"
| "call_level (LPanic _) = CRITICAL" | "call_level (LPanicf _ _) = CRITICAL"
| "call_level (LError _) = ERROR" | "call_level (LErrorf _ _) = ERROR"
| "call_level (LWarning _) = WARNING" | "call_level (LWarningf _ _) = WARNING"
| "call_level (LNotice _) = NOTICE" | "call_level (LNoticef _ _) = NOTICE"
| "call_level (LInfo _) = INFO" | "call_level (LInfof _ _) = INFO"
| "call_level (LDebug _) = DEBUG" | "call_level (LDebugf _ _) = DEBUG"
| "call_level (LTrace _) = TRACE" | "call_level (LTracef _ _) = TRACE"
| "call_level (LKV l _) = l" | "call_level (LLog l _) = l" | "call_level (LLogf l _ _) = l"

fun call_end :: "logcall \<Rightarrow> outcome" where
  "call_end (LFatal _) = Exited 1" | "call_end (LFatalf _ _) = Exited 1"
| "call_end (LPanic _) = Panicked" | "call_end (LPanicf _ _) = Panicked"
| "call_end _ = Returned"

text \<open>The message of a call by a logger with the given key/value pairs.\<close>

definition formatted :: "xenv \<Rightarrow> goval list \<Rightarrow> string \<Rightarrow> goval list \<Rightarrow> (unit, string) result" where
  "formatted E vals f as =
     (if vals = [] then Ok (go_Sprintf E f as) else bind_result (flatten E vals) (\<lambda>v. Ok (v @ '', '' @ go_Sprintf E f as)))"

fun call_message :: "xenv \<Rightarrow> goval list \<Rightarrow> logcall \<Rightarrow> (unit, string) result" where
  "call_message E vals (LFatal as) = Ok (go_Sprint E (vals @ [VStr (go_Sprint E as)]))"
| "call_message E vals (LPanic as) = Ok (go_Sprint E (vals @ [VStr (go_Sprint E as)]))"
| "call_message E vals (LPanicf f as) = Ok (go_Sprint E (vals @ [VStr (go_Sprintf E f as)]))"
| "call_message E vals (LFatalf f as) = formatted E vals f as"
| "call_message E vals (LErrorf f as) = formatted E vals f as"
| "call_message E vals (LWarningf f as) = formatted E vals f as"
| "call_message E vals (LNoticef f as) = formatted E vals f as"
| "call_message E vals (LInfof f as) = formatted E vals f as"
| "call_message E vals (LDebugf f as) = formatted E vals f as"
| "call_message E vals (LTracef f as) = formatted E vals f as"
| "call_message E vals (LLogf l f as) = formatted E vals f as"
| "call_message E vals (LKV l as) = flatten E (vals @ as)"
| "call_message E vals (LError as) = Ok (go_Sprint E (vals @ as))"
| "call_message E vals (LWarning as) = Ok (go_Sprint E (vals @ as))"
| "call_message E vals (LNotice as) = Ok (go_Sprint E (vals @ as))"
| "call_message E vals (LInfo as) = Ok (go_Sprint E (vals @ as))"
| "call_message E vals (LDebug as) = Ok (go_Sprint E (vals @ as))"
| "call_message E vals (LTrace as) = Ok (go_Sprint E (vals @ as))"
| "call_message E vals (LLog l as) = Ok (go_Sprint E (vals @ as))"

text \<open>A line of output: the time, the level, the package, the function that logs and the message.\<close>

definition line_body :: "bool \<Rightarrow> string \<Rightarrow> frame \<Rightarrow> string \<Rightarrow> string" where
  "line_body wc pkg u msg =
     (if pkg \<noteq> [] then pkg @ '': '' else []) @ (if wc then ''src='' @ after_last CHR ''.'' (fn_name u) @ '', '' else []) @ end_line msg"

definition level_char :: "LogLevel \<Rightarrow> string" where
  "level_char l = (case LogLevel_Char l of Ok c \<Rightarrow> c | _ \<Rightarrow> [])"

fun line_of :: "xenv \<Rightarrow> Formatter \<Rightarrow> string \<Rightarrow> LogLevel \<Rightarrow> frame \<Rightarrow> string \<Rightarrow> string" where
  "line_of E (StringFormatter wc) pkg l u msg = now_RFC3339 E @ '' '' @ line_body wc pkg u msg"
| "line_of E (PrettyFormatter debug wc) pkg l u msg =
     now_date E @ ''.'' @ pad6 (now_nanosecond E div 1000) @ (if debug then source_text (Some u) else []) @
     '' '' @ level_char l @ '' | '' @ line_body wc pkg u msg"
| "line_of E (ColorFormatter color wc) pkg l u msg =
     now_date E @ ''.'' @ pad6 (now_nanosecond E div 1000) @ (if color then the (mget LevelColors l) else []) @
     '' '' @ level_char l @ '' | '' @ line_body wc pkg u msg @ (if color then ColorOff else [])"
| "line_of E _ pkg l u msg = []"

fun line_formatter :: "Formatter \<Rightarrow> bool" where
  "line_formatter (StringFormatter _) = True"
| "line_formatter (PrettyFormatter _ _) = True"
| "line_formatter (ColorFormatter _ _) = True"
| "line_formatter _ = False"

lemma known_level:
  assumes "-1 \<le> l" and "l \<le> 5"
  shows "LogLevel_Char l = Ok (level_char l)" and "mget LevelColors l \<noteq> None"
proof -
  consider "l = -1" | "l = 0" | "l = 1" | "l = 2" | "l = 3" | "l = 4" | "l = 5" using assms by linarith
  then have "LogLevel_Char l = Ok (level_char l) \<and> mget LevelColors l \<noteq> None"
    by cases (simp_all add: level_char_def LogLevel_Char_def level_defs LevelColors_def)
  then show "LogLevel_Char l = Ok (level_char l)" "mget LevelColors l \<noteq> None" by blast+
qed

lemma writeEntries_line:
  "writeEntries E (fr # a # b # u # rest) pkg 4 wc es = line_body wc pkg u (go_Sprint E es)"
  "writeEntries E (fr # a # b # c # u # rest) pkg 5 wc es = line_body wc pkg u (go_Sprint E es)"
  by (simp_all add: writeEntries_def line_body_def callerName_def runtime_Caller_def Let_def end_line_def eval_nat_numeral)

lemma Format_line:
  assumes "line_formatter f" and "-1 \<le> l" and "l \<le> 5"
  shows "Format E (a # b # u # rest) f pkg l 3 es = Ok (line_of E f pkg l u (go_Sprint E es))"
    and "Format E (a # b # c # u # rest) f pkg l 4 [VStr s] = Ok (line_of E f pkg l u s)"
  using assms known_level [OF assms(2,3)]
  by (cases f; auto simp: String_Format_def Pretty_Format_def Color_Format_def writeEntries_line runtime_Caller_def Let_def
        split: option.splits)+

lemma FormatKV_line:
  assumes "line_formatter f" and "-1 \<le> l" and "l \<le> 5"
  shows "FormatKV E (a # b # u # rest) f pkg l 3 es = bind_result (flatten E es) (\<lambda>s. Ok (line_of E f pkg l u s))"
proof -
  have "f \<noteq> NilFormatter" using assms(1) by auto
  then show ?thesis using Format_line(2) [OF assms] by (simp add: FormatKV_def)
qed

definition enabled :: "xlog \<Rightarrow> nat \<Rightarrow> LogLevel \<Rightarrow> bool" where
  "enabled st p l = (l = CRITICAL \<or> l \<le> llevel (loggers st ! p))"

abbreviation vals_of :: "xlog \<Rightarrow> nat \<Rightarrow> goval list" where
  "vals_of st p \<equiv> elems_of (arrays st) (lvalues (loggers st ! p))"

text \<open>The two internal functions, at the call depth of the methods.\<close>

lemma internalLog_writes:
  assumes wf: "wf_xlog st" "p < length (loggers st)" and f: "lformatter st = Some f" "line_formatter f" "-1 \<le> l" "l \<le> 5"
    and msg: "(if t = Plain then Ok (go_Sprint E (vals_of st p @ es)) else flatten E (vals_of st p @ es)) = Ok msg"
  shows "snd (internalLog E (m # u # rest) t calldepth p l es st) = Returned"
    and "written (fst (internalLog E (m # u # rest) t calldepth p l es st)) =
      written st @ (if enabled st p l then line_of E f (lpkg (loggers st ! p)) l u msg else [])"
proof -
  have "snd (internalLog E (m # u # rest) t calldepth p l es st) = Returned \<and> written (fst (internalLog E (m # u # rest) t calldepth p l es st)) =
      written st @ (if enabled st p l then line_of E f (lpkg (loggers st ! p)) l u msg else [])"
  proof (cases "enabled st p l")
    case True
    then have en: "\<not> (l \<noteq> CRITICAL \<and> llevel (loggers st ! p) < l)" by (auto simp: enabled_def)
    obtain H s where h: "heap_append (grow E) VNil (arrays st) (lvalues (loggers st ! p)) es = (H, s)" by (meson surj_pair)
    have el: "elems_of H s = vals_of st p @ es" by (rule heap_append_elems(1) [OF wf_xlogD(1) [OF wf] h])
    have nil: "glen (lvalues (loggers st ! p)) = 0 \<Longrightarrow> vals_of st p = []" by (simp add: elems_of_def)
    show ?thesis
      using True en msg f nil Format_line(1) [OF f(2-4)] FormatKV_line [OF f(2-4)]
      by (cases "glen (lvalues (loggers st ! p)) > 0"; cases t)
        (auto simp: internalLog_def Let_def h el calldepth_def emit_text_def)
  next
    case False
    then show ?thesis by (auto simp: internalLog_def enabled_def)
  qed
  then show "snd (internalLog E (m # u # rest) t calldepth p l es st) = Returned"
    "written (fst (internalLog E (m # u # rest) t calldepth p l es st)) =
      written st @ (if enabled st p l then line_of E f (lpkg (loggers st ! p)) l u msg else [])"
    by blast+
qed

lemma internalLogf_writes:
  assumes wf: "wf_xlog st" "p < length (loggers st)" and f: "lformatter st = Some f" "line_formatter f" "-1 \<le> l" "l \<le> 5"
    and msg: "formatted E (vals_of st p) fmt as = Ok msg"
  shows "snd (internalLogf E (m # u # rest) calldepth p l fmt as st) = Returned"
    and "written (fst (internalLogf E (m # u # rest) calldepth p l fmt as st)) =
      written st @ (if enabled st p l then line_of E f (lpkg (loggers st ! p)) l u msg else [])"
proof -
  have "snd (internalLogf E (m # u # rest) calldepth p l fmt as st) = Returned \<and> written (fst (internalLogf E (m # u # rest) calldepth p l fmt as st)) =
      written st @ (if enabled st p l then line_of E f (lpkg (loggers st ! p)) l u msg else [])"
  proof (cases "enabled st p l")
    case True
    then have en: "\<not> (l \<noteq> CRITICAL \<and> llevel (loggers st ! p) < l)" by (auto simp: enabled_def)
    have "length (vals_of st p) = glen (lvalues (loggers st ! p))"
      using wf_xlogD(1) [OF wf] by (simp add: elems_of_def wf_ref_def)
    then have nil: "glen (lvalues (loggers st ! p)) > 0 \<longleftrightarrow> vals_of st p \<noteq> []" by (metis length_greater_0_conv)
    show ?thesis
      using True en msg f nil Format_line(1) [OF f(2-4)]
      by (auto simp: internalLogf_def Let_def calldepth_def emit_text_def formatted_def bind_result_eq_Ok split: if_splits)
  next
    case False
    then show ?thesis by (auto simp: internalLogf_def enabled_def)
  qed
  then show "snd (internalLogf E (m # u # rest) calldepth p l fmt as st) = Returned"
    "written (fst (internalLogf E (m # u # rest) calldepth p l fmt as st)) =
      written st @ (if enabled st p l then line_of E f (lpkg (loggers st ! p)) l u msg else [])"
    by blast+
qed

text \<open>C37. With a line formatter set, every method of a package logger writes one line, if the level of the
  call is enabled for the logger or critical, and nothing otherwise: the line names the level,
  the package and the function that made the call, also for key/value calls and with the source
  position in debug mode, and carries the logger's pairs before the call's own. The panicking
  methods then panic and the fatal ones exit, and the others return.\<close>

theorem log_call_writes:
  assumes "wf_xlog st" and "p < length (loggers st)" and "lformatter st = Some f" and "line_formatter f"
    and "-1 \<le> call_level c" and "call_level c \<le> 5" and "call_message E (vals_of st p) c = Ok msg"
  shows "snd (PackageLogger_call E (u # rest) p c st) = call_end c \<and>
    written (fst (PackageLogger_call E (u # rest) p c st)) = written st @
      (if enabled st p (call_level c) then line_of E f (lpkg (loggers st ! p)) (call_level c) u msg else [])"
proof -
  note plain = internalLog_writes [OF assms(1-6), where t = Plain, simplified]
  note pairs = internalLog_writes [OF assms(1-6), where t = KV, simplified]
  note fmtd = internalLogf_writes [OF assms(1-6)]
  show ?thesis
    using assms(7) plain pairs fmtd by (cases c) (simp_all add: ends_with_def)
qed

definition demo_xenv :: xenv where
  "demo_xenv = \<lparr>show_val = (\<lambda>_. ''?''), json_encode = (\<lambda>v. case v of VStr s \<Rightarrow> s @ newline | _ \<Rightarrow> ''?'' @ newline), sd_marshal = (\<lambda>_. None),
     go_Sprintf = (\<lambda>f _. f), now_RFC3339 = ''T'', now_date = ''D'', now_nanosecond = 12345, log_header = (\<lambda>_ _. []),
     grow = (\<lambda>c n. max (2 * c) n)\<rparr>"

definition user_frame :: "string \<Rightarrow> frame" where
  "user_frame f = \<lparr>fn_name = ''main.'' @ f, fn_file = ''/src/main.go'', fn_line = 7\<rparr>"

definition demo_xlog :: xlog where
  "demo_xlog = fst (NewPackageLogger ''repo'' ''pkg'' (xlog_init initial_xlog))"

lemma reach_demo: "xlog_step\<^sup>*\<^sup>* initial_xlog demo_xlog"
  unfolding demo_xlog_def
  by (rule rtranclp.rtrancl_into_rtrancl [OF reach_init], rule xlog_step.new_logger, rule prod.collapse [symmetric])

lemma demo_length: "1 < length (loggers demo_xlog)"
  by code_simp

theorem log_call_writes_witness:
  "written (fst (PackageLogger_call demo_xenv [user_frame ''run''] 1 (LKV WARNING [VStr ''k'', VStr ''v'']) demo_xlog)) =
     ''D.000012 W | pkg: src=run, k=v'' @ newline"
proof -
  have m: "call_message demo_xenv (vals_of demo_xlog 1) (LKV WARNING [VStr ''k'', VStr ''v'']) = Ok ''k=v''" by code_simp
  have l: "1 < length (loggers demo_xlog)" "lformatter demo_xlog = Some (PrettyFormatter False True)" by code_simp+
  have "written (fst (PackageLogger_call demo_xenv [user_frame ''run''] 1 (LKV WARNING [VStr ''k'', VStr ''v'']) demo_xlog)) =
    written demo_xlog @ (if enabled demo_xlog 1 WARNING then line_of demo_xenv (PrettyFormatter False True) (lpkg (loggers demo_xlog ! 1)) WARNING (user_frame ''run'') ''k=v'' else [])"
    using log_call_writes [OF reach_wf [OF reach_demo wf_initial] l _ _ _ m, of "user_frame ''run''" "[]"] by (simp add: WARNING_def)
  also have "\<dots> = ''D.000012 W | pkg: src=run, k=v'' @ newline" by code_simp
  finally show ?thesis .
qed

text \<open>The formatter that uses the standard logger counts one frame too many for all but the key/value
  calls: its header is that of the caller's caller.\<close>

lemma LogFormatter_names_callers_caller:
  "Format E (a # b # u # v # rest) (LogFormatter prfx flag wc) pkg l depth es =
     Ok (log_header E flag (Some v) @ end_line ((if pkg \<noteq> [] then prfx @ pkg @ '': '' else prfx) @ go_Sprint E es))"
  by (simp add: Log_Format_def runtime_Caller_def Let_def end_line_def)

section \<open>Levels\<close>

lemma level_set_level:
  "a < length (loggers st) \<Longrightarrow> llevel (loggers (set_level a l st) ! b) = (if b = a then l else llevel (loggers st ! b))"
  by (auto simp: set_level_def nth_list_update)

lemma length_set_level [simp]: "length (loggers (set_level a l st)) = length (loggers st)"
  by (simp add: set_level_def)

lemma length_setRepo [simp]: "length (loggers (setRepoLogLevelInternal l r st)) = length (loggers st)"
  using setRepo_same [of st l r] by (simp add: same_registry_def)

lemma level_setRepo:
  assumes "\<And>k a. (k, a) \<in> set r \<Longrightarrow> a < length (loggers st)"
  shows "llevel (loggers (setRepoLogLevelInternal l r st) ! b) = (if b \<in> snd ` set r then l else llevel (loggers st ! b))"
  using assms
proof (induction r arbitrary: st)
  case (Cons x r)
  obtain k a where x: "x = (k, a)" by (cases x)
  have "llevel (loggers (setRepoLogLevelInternal l r (set_level a l st)) ! b) =
      (if b \<in> snd ` set r then l else llevel (loggers (set_level a l st) ! b))"
    using Cons.prems by (intro Cons.IH) auto
  then show ?case using Cons.prems [of k a] by (simp add: setRepoLogLevelInternal_def x level_set_level)
qed (simp add: setRepoLogLevelInternal_def)

text \<open>Setting levels one package after the other; the packages of the settings are distinct, and so are
  the loggers of the packages.\<close>

lemma level_settings:
  assumes "wf_map m" and "\<And>k a. mget r k = Some a \<Longrightarrow> a < length (loggers st)"
    and "\<And>k k' a. mget r k = Some a \<Longrightarrow> mget r k' = Some a \<Longrightarrow> k = k'" and "mget r k = Some a"
  shows "llevel (loggers (fold (\<lambda>(k, v) st. case mget r k of None \<Rightarrow> st | Some a \<Rightarrow> set_level a v st) m st) ! a) =
    (case mget m k of Some v \<Rightarrow> v | None \<Rightarrow> llevel (loggers st ! a))"
  using assms(1,2)
proof (induction m arbitrary: st)
  case (Cons x m)
  obtain k' v where x: "x = (k', v)" by (cases x)
  have dm: "wf_map m" "k' \<notin> fst ` set m" using Cons.prems(1) by (auto simp: wf_map_def x)
  then have none: "mget m k' = None" by (simp add: map_of_eq_None_iff)
  show ?case
  proof (cases "mget r k'")
    case None
    then have "k' \<noteq> k" using assms(4) by auto
    then show ?thesis using Cons.IH [OF dm(1) Cons.prems(2)] None by (simp add: x)
  next
    case (Some a')
    have ih: "llevel (loggers (fold (\<lambda>(k, v) st. case mget r k of None \<Rightarrow> st | Some a \<Rightarrow> set_level a v st) m (set_level a' v st)) ! a) =
      (case mget m k of Some v \<Rightarrow> v | None \<Rightarrow> llevel (loggers (set_level a' v st) ! a))"
      using Cons.prems(2) by (intro Cons.IH [OF dm(1)]) simp
    show ?thesis
      using ih none Cons.prems(2) [OF Some] assms(3) [OF assms(4), of k'] Some assms(4)
      by (cases "k = k'") (auto simp: x level_set_level split: option.splits)
  qed
qed simp

text \<open>Setting levels from a map gives each package of the repository the level the map has for it, or
  the one for \<open>*\<close> where the map has none for it, and leaves its level alone where there is neither;
  in whatever order the map is iterated.\<close>

theorem SetLogLevel_levels:
  assumes "wf_xlog st" and "GetRepoLogger st repo = Ok r" and "wf_map m" and "mget r pkg = Some a"
  shows "llevel (loggers (SetLogLevel r m st) ! a) =
    (case mget m pkg of Some v \<Rightarrow> v | None \<Rightarrow> (case mget m ''*'' of Some v \<Rightarrow> v | None \<Rightarrow> llevel (loggers st ! a)))"
proof -
  have r: "mget (repoMap st) repo = Some r" using assms(2) by (auto simp: GetRepoLogger_def split: option.splits)
  then have look: "lookup st repo k = mget r k" for k by (simp add: lookup_def)
  have bound: "mget r k = Some b \<Longrightarrow> b < length (loggers st)" for k b using wf_xlogD(4) [OF assms(1), of repo k b] by (simp add: look)
  have inj: "mget r k = Some b \<Longrightarrow> mget r k' = Some b \<Longrightarrow> k = k'" for k k' b
    using wf_xlogD(6) [OF assms(1), of repo k b repo k'] by (simp add: look)
  have "wf_map r" by (rule wf_xlogD(3) [OF assms(1) r])
  then have mem: "(k, b) \<in> set r \<longleftrightarrow> mget r k = Some b" for k b by (rule mget_in_set)
  define st1 where "st1 = (case mget m ''*'' of Some l \<Rightarrow> setRepoLogLevelInternal l r st | None \<Rightarrow> st)"
  have len: "length (loggers st1) = length (loggers st)" by (simp add: st1_def split: option.split)
  have "a \<in> snd ` set r" using mem assms(4) by force
  then have "llevel (loggers st1 ! a) = (case mget m ''*'' of Some v \<Rightarrow> v | None \<Rightarrow> llevel (loggers st ! a))"
    using level_setRepo [of r st] bound by (auto simp: st1_def mem split: option.split)
  moreover have "llevel (loggers (SetLogLevel r m st) ! a) = (case mget m pkg of Some v \<Rightarrow> v | None \<Rightarrow> llevel (loggers st1 ! a))"
    unfolding SetLogLevel_def Let_def st1_def [symmetric]
    using bound inj by (intro level_settings [OF assms(3) _ _ assms(4)]) (auto simp: len)
  ultimately show ?thesis by (simp split: option.split)
qed

theorem SetLogLevel_levels_witness:
  "llevel (loggers (SetLogLevel [(''pkg'', 1)] [(''*'', DEBUG), (''other'', ERROR)] demo_xlog) ! 1) = DEBUG"
  using SetLogLevel_levels [OF reach_wf [OF reach_demo wf_initial], of "''repo''" "[(''pkg'', 1)]" "[(''*'', DEBUG), (''other'', ERROR)]" "''pkg''" 1]
  by (simp add: demo_xlog_def xlog_init_def initHijack_def GetRepoLogger_def NewPackageLogger_def initial_xlog_def SetFormatter_def
      SetGlobalLogLevel_def setRepoLogLevelInternal_def set_level_def wf_map_def)

text \<open>A configuration text: \<open>package=LEVEL\<close>, separated by commas.\<close>

definition level_name :: "LogLevel \<Rightarrow> string" where
  "level_name l = (case LogLevel_String l of Ok s \<Rightarrow> s | _ \<Rightarrow> [])"

definition config_text :: "(string \<times> LogLevel) list \<Rightarrow> string" where
  "config_text kvs = join '','' (map (\<lambda>(k, l). k @ ''='' @ level_name l) kvs)"

lemma level_name:
  assumes "-1 \<le> l" and "l \<le> 5"
  shows "ParseLevel (level_name l) = Ok l \<and> CHR '','' \<notin> set (level_name l) \<and> CHR ''='' \<notin> set (level_name l)"
proof -
  consider "l = -1" | "l = 0" | "l = 1" | "l = 2" | "l = 3" | "l = 4" | "l = 5" using assms by linarith
  then show ?thesis by cases (simp_all add: level_name_def LogLevel_String_def ParseLevel_def level_defs)
qed

definition plain_setting :: "string \<times> LogLevel \<Rightarrow> bool" where
  "plain_setting x = (CHR '','' \<notin> set (fst x) \<and> CHR ''='' \<notin> set (fst x) \<and> -1 \<le> snd x \<and> snd x \<le> 5)"

lemma parse_settings_text:
  "\<forall>x\<in>set kvs. plain_setting x \<Longrightarrow>
     parse_settings (map (\<lambda>(k, l). k @ ''='' @ level_name l) kvs) m = Ok (fold (\<lambda>(k, l). mput k l) kvs m)"
proof (induction kvs arbitrary: m)
  case (Cons x kvs)
  obtain k l where x: "x = (k, l)" by (cases x)
  have k: "CHR ''='' \<notin> set k" and l: "-1 \<le> l" "l \<le> 5" using Cons.prems by (auto simp: plain_setting_def x)
  have "split_on CHR ''='' (k @ CHR ''='' # level_name l) = [k, level_name l]"
    using level_name [OF l] k by (simp add: split_on_append split_on_no_sep)
  then show ?case using Cons.IH Cons.prems level_name [OF l] by (simp add: x)
qed simp

lemma set_level_name: "CHR '','' \<notin> set (k @ ''='' @ level_name l)" if "plain_setting (k, l)"
  using that level_name [of l] by (auto simp: plain_setting_def)

text \<open>Parsing a configuration text gives back its settings, the last one for a package counting, when
  the package names have no comma and no equals sign and the levels are the known ones.\<close>

theorem log_config_roundtrip:
  assumes "kvs \<noteq> []" and "\<forall>x\<in>set kvs. plain_setting x"
  shows "ParseLogLevelConfig (config_text kvs) = Ok (fold (\<lambda>(k, l). mput k l) kvs [])"
proof -
  have "split_on CHR '','' (config_text kvs) = map (\<lambda>(k, l). k @ ''='' @ level_name l) kvs"
    unfolding config_text_def using assms set_level_name by (intro split_on_join) (auto simp del: set_append)
  then show ?thesis by (simp only: ParseLogLevelConfig_def parse_settings_text [OF assms(2)])
qed

theorem log_config_roundtrip_witness:
  "ParseLogLevelConfig ''*=INFO,authz=DEBUG,*=ERROR'' = Ok [(''*'', ERROR), (''authz'', DEBUG)]"
proof -
  have "ParseLogLevelConfig (config_text [(''*'', INFO), (''authz'', DEBUG), (''*'', ERROR)]) =
    Ok (fold (\<lambda>(k, l). mput k l) [(''*'', INFO), (''authz'', DEBUG), (''*'', ERROR)] [])"
    by (rule log_config_roundtrip) (auto simp: plain_setting_def level_defs)
  moreover have "config_text [(''*'', INFO), (''authz'', DEBUG), (''*'', ERROR)] = ''*=INFO,authz=DEBUG,*=ERROR''" by code_simp
  ultimately show ?thesis by simp
qed

section \<open>Shared arrays\<close>

text \<open>A logger made by \<open>WithValues\<close> is not registered: no level setting reaches it.\<close>

lemma SetGlobal_keeps_unregistered:
  assumes "\<And>repo r k. (repo, r) \<in> set rs \<Longrightarrow> (k, a) \<notin> set r"
  shows "loggers (fold (\<lambda>(_, r) st. setRepoLogLevelInternal l r st) rs st) ! a = loggers st ! a"
proof -
  have one: "loggers (setRepoLogLevelInternal l r st) ! a = loggers st ! a" if "\<And>k. (k, a) \<notin> set r" for r st
    using that unfolding setRepoLogLevelInternal_def
  proof (induction r arbitrary: st)
    case (Cons x r)
    then have "snd x \<noteq> a" by (metis list.set_intros(1) prod.collapse)
    then have "loggers (set_level (snd x) l st) ! a = loggers st ! a" by (simp add: set_level_def)
    then show ?case using Cons.IH [of "set_level (snd x) l st"] Cons.prems by (simp add: case_prod_beta)
  qed simp
  show ?thesis using assms
  proof (induction rs arbitrary: st)
    case (Cons x rs)
    obtain repo r where x: "x = (repo, r)" by (cases x)
    have "\<And>k. (k, a) \<notin> set r" using Cons.prems [of repo r] by (simp add: x)
    then have "loggers (setRepoLogLevelInternal l r st) ! a = loggers st ! a" by (rule one)
    moreover have "\<And>repo r k. (repo, r) \<in> set rs \<Longrightarrow> (k, a) \<notin> set r" by (rule Cons.prems) (rule list.set_intros(2))
    ultimately show ?case using Cons.IH [of "setRepoLogLevelInternal l r st"] by (simp add: x case_prod_beta)
  qed simp
qed

text \<open>The pairs of a logger made by \<open>WithValues\<close> are not safe: where the array of its parent had room
  for them, the next logging call of the parent with as many entries puts its entries in their
  place.\<close>

theorem parent_overwrites_values:
  assumes wf: "wf_xlog st" and p: "p < length (loggers st)" and pos: "0 < glen (lvalues (loggers st ! p))"
    and room: "glen (lvalues (loggers st ! p)) + length kvs \<le> length (arrays st ! arr (lvalues (loggers st ! p)))"
    and len: "length es = length kvs" and lvl: "INFO \<le> llevel (loggers st ! p)"
    and child: "WithValues E p kvs st = (st1, c)" and log: "PackageLogger_call E stk p (LInfo es) st1 = (st2, oc)"
  shows "vals_of st1 c = vals_of st p @ kvs \<and> vals_of st2 c = vals_of st p @ es"
proof -
  let ?s = "lvalues (loggers st ! p)"
  have ref: "wf_ref (arrays st) ?s" by (rule wf_xlogD(1) [OF wf p])
  define a where "a = arrays st ! arr ?s"
  have h: "heap_append (grow E) VNil (arrays st) ?s kvs =
      ((arrays st)[arr ?s := take (glen ?s) a @ kvs @ drop (glen ?s + length kvs) a], ?s\<lparr>glen := glen ?s + length kvs\<rparr>)"
    using room by (simp add: heap_append_def a_def Let_def)
  have st1: "arrays st1 = (arrays st)[arr ?s := take (glen ?s) a @ kvs @ drop (glen ?s + length kvs) a]"
    "loggers st1 = loggers st @ [(loggers st ! p)\<lparr>lvalues := ?s\<lparr>glen := glen ?s + length kvs\<rparr>\<rparr>]" "c = length (loggers st)"
    using child by (auto simp: WithValues_def h)
  have pl: "loggers st1 ! p = loggers st ! p" using p by (simp add: st1 nth_append)
  have cl: "lvalues (loggers st1 ! c) = ?s\<lparr>glen := glen ?s + length kvs\<rparr>" by (simp add: st1)
  have arr: "arr ?s < length (arrays st)" "glen ?s \<le> length a" using ref by (auto simp: wf_ref_def a_def)
  have a1: "arrays st1 ! arr ?s = take (glen ?s) a @ kvs @ drop (glen ?s + length kvs) a" using arr by (simp add: st1)
  have h2: "heap_append (grow E) VNil (arrays st1) ?s es =
      ((arrays st1)[arr ?s := take (glen ?s) a @ es @ drop (glen ?s + length kvs) a], ?s\<lparr>glen := glen ?s + length es\<rparr>)"
    using room arr len by (simp add: heap_append_def a1 Let_def a_def [symmetric])
  have en: "\<not> llevel (loggers st ! p) < INFO" using lvl by simp
  have "arrays st2 = (arrays st1)[arr ?s := take (glen ?s) a @ es @ drop (glen ?s + length kvs) a]" "loggers st2 = loggers st1"
    using log pos en h2 by (auto simp: internalLog_def pl Let_def split: option.splits dest!: emit_text_same)
  then have "elems_of (arrays st2) (lvalues (loggers st2 ! c)) = take (glen ?s) a @ es"
    using arr len room by (simp add: elems_of_def cl st1(1) a_def [symmetric])
  moreover have "elems_of (arrays st1) (lvalues (loggers st1 ! c)) = take (glen ?s) a @ kvs"
    using arr room by (simp add: elems_of_def cl a1 a_def [symmetric])
  ultimately show ?thesis by (simp add: elems_of_def a_def)
qed

text \<open>A chain of three \<open>WithValues\<close> leaves room for one more pair.\<close>

definition chained :: "goval list list \<Rightarrow> xlog \<times> nat \<Rightarrow> xlog \<times> nat" where
  "chained kvss sp = fold (\<lambda>kvs (st, p). WithValues demo_xenv p kvs st) kvss sp"

lemma wf_chained:
  "wf_xlog (fst sp) \<Longrightarrow> snd sp < length (loggers (fst sp)) \<Longrightarrow>
     wf_xlog (fst (chained kvss sp)) \<and> snd (chained kvss sp) < length (loggers (fst (chained kvss sp)))"
proof (induction kvss arbitrary: sp)
  case (Cons kvs kvss)
  obtain st p where sp: "sp = (st, p)" by (cases sp)
  obtain st' a where w: "WithValues demo_xenv p kvs st = (st', a)" by (meson surj_pair)
  then have "a < length (loggers st')" by (auto simp: WithValues_def split: prod.splits)
  then have "wf_xlog (fst (chained kvss (st', a))) \<and> snd (chained kvss (st', a)) < length (loggers (fst (chained kvss (st', a))))"
    using wf_WithValues [OF _ _ w] Cons.prems by (intro Cons.IH) (simp_all add: sp)
  moreover have "chained (kvs # kvss) sp = chained kvss (st', a)" by (simp add: chained_def sp w)
  ultimately show ?case by simp
qed (simp add: chained_def)

definition demo_chain :: xlog where
  "demo_chain = fst (chained [[VStr ''a'', VObj 1], [VStr ''b'', VObj 2], [VStr ''c'', VObj 3]] (demo_xlog, 1))"

theorem parent_overwrites_values_witness:
  "let (st1, c) = WithValues demo_xenv 4 [VStr ''user'', VStr ''bob''] demo_chain;
       (st2, _) = PackageLogger_call demo_xenv [] 4 (LInfo [VStr ''x'', VObj 4]) st1
   in vals_of st1 c = vals_of demo_chain 4 @ [VStr ''user'', VStr ''bob''] \<and> vals_of st2 c = vals_of demo_chain 4 @ [VStr ''x'', VObj 4]"
proof -
  obtain st1 c st2 oc where w: "WithValues demo_xenv 4 [VStr ''user'', VStr ''bob''] demo_chain = (st1, c)"
    "PackageLogger_call demo_xenv [] 4 (LInfo [VStr ''x'', VObj 4]) st1 = (st2, oc)"
    by (meson surj_pair)
  have wf: "wf_xlog demo_chain"
    using wf_chained [of "(demo_xlog, 1)"] reach_wf [OF reach_demo wf_initial]
    by (simp add: demo_chain_def) (metis One_nat_def demo_length)
  have p: "4 < length (loggers demo_chain)" "0 < glen (lvalues (loggers demo_chain ! 4))"
    "glen (lvalues (loggers demo_chain ! 4)) + length [VStr ''user'', VStr ''bob''] \<le> length (arrays demo_chain ! arr (lvalues (loggers demo_chain ! 4)))"
    "length [VStr ''x'', VObj 4] = length [VStr ''user'', VStr ''bob'']" "INFO \<le> llevel (loggers demo_chain ! 4)"
    by code_simp+
  show ?thesis using parent_overwrites_values [OF wf p w] by (simp add: w del: PackageLogger_call.simps)
qed

end
