(* ===== verification/LogRotate.thy ===== *)
theory LogRotate
  imports Xlog
begin

text \<open>
  The package \<open>xlog/logrotate\<close>: a log file behind a buffered writer, optionally behind a channel that
  a goroutine empties (channelwriter.go, logrotate.go). Rotation itself is lumberjack's and the file
  is the bytes written to it. Goroutines are the steps of a transition system.
\<close>

section \<open>The destination\<close>

text \<open>A \<open>bufio.Writer\<close> of 8192 bytes before the file, and with an extra sink an \<open>io.MultiWriter\<close> of
  both, which has no \<open>Flush\<close>.\<close>

definition bufferSize :: nat where "bufferSize = 8192"

record destination =
  d_file :: string
  d_buf :: string
  d_extra :: "string option"

definition bufio_Write :: "string \<Rightarrow> string \<times> string \<Rightarrow> string \<times> string" where
  "bufio_Write p w =
     (let (out, buf) = w; avail = bufferSize - length buf
      in if length p \<le> avail then (out, buf @ p)
         else if buf = [] then (out @ p, [])
         else let out = out @ buf @ take avail p; p = drop avail p
              in if length p \<le> bufferSize then (out, p) else (out @ p, []))"

definition dest_Write :: "string \<Rightarrow> destination \<Rightarrow> destination" where
  "dest_Write p d =
     (let (out, buf) = bufio_Write p (d_file d, d_buf d)
      in d\<lparr>d_file := out, d_buf := buf, d_extra := map_option (\<lambda>x. x @ p) (d_extra d)\<rparr>)"

definition canFlush :: "destination \<Rightarrow> bool" where
  "canFlush d = (d_extra d = None)"

definition dest_Flush :: "destination \<Rightarrow> destination" where
  "dest_Flush d = (if canFlush d then d\<lparr>d_file := d_file d @ d_buf d, d_buf := []\<rparr> else d)"

section \<open>channelwriter.go\<close>

datatype listener = Listening | Draining | Done

datatype stopper = NotStopped | Stopping | StopReturned

text \<open>\<open>accepted\<close> are the messages writers have put on the channel, \<open>delivered\<close> those written to the
  destination and \<open>before_stop\<close> those accepted when the call of \<open>Stop\<close> that stops the writer was made; \<open>stopping\<close> is
  where this call is. \<open>early\<close> has for each other call of \<open>Stop\<close> what was accepted when it was made and returned.\<close>

record cw =
  depth :: nat
  write_chan :: "string list"
  running :: bool
  phase :: listener
  stopping :: stopper
  dest :: destination
  accepted :: "string list"
  delivered :: "string list"
  before_stop :: "string list"
  early :: "string list list"

definition NewChannelWriter :: "destination \<Rightarrow> nat \<Rightarrow> cw" where
  "NewChannelWriter d n =
     \<lparr>depth = n, write_chan = [], running = True, phase = Listening, stopping = NotStopped, dest = d,
      accepted = [], delivered = [], before_stop = [], early = []\<rparr>"

definition IsStopped :: "cw \<Rightarrow> bool" where
  "IsStopped w = (\<not> running w)"

text \<open>\<open>Write\<close> puts a copy on the channel and blocks (\<open>None\<close>) while it is full; a channel without buffer
  hands over to the listener.\<close>

definition cw_Write :: "string \<Rightarrow> cw \<Rightarrow> cw option" where
  "cw_Write b w =
     (if length (write_chan w) < depth w
      then Some (w\<lparr>write_chan := write_chan w @ [b], accepted := accepted w @ [b]\<rparr>)
      else if depth w = 0 \<and> phase w \<noteq> Done
      then Some (w\<lparr>accepted := accepted w @ [b], delivered := delivered w @ [b], dest := dest_Write b (dest w)\<rparr>)
      else None)"

text \<open>\<open>Stop\<close>: the call that wins the \<open>CompareAndSwap\<close> goes on to wait for the listener; every other call returns at once,
  whether the listener is through or not.\<close>

definition cw_Stop :: "cw \<Rightarrow> cw" where
  "cw_Stop w =
     (if running w then w\<lparr>running := False, stopping := Stopping, before_stop := accepted w\<rparr>
      else w\<lparr>early := early w @ [accepted w]\<rparr>)"

definition take_message :: "cw \<Rightarrow> cw" where
  "take_message w =
     (case write_chan w of
        [] \<Rightarrow> w
      | b # bs \<Rightarrow> w\<lparr>write_chan := bs, delivered := delivered w @ [b], dest := dest_Write b (dest w)\<rparr>)"

text \<open>The goroutine \<open>listen\<close>, the writers and the stoppers. The last rule is the winning call of \<open>Stop\<close> returning.\<close>

inductive cw_step :: "cw \<Rightarrow> cw \<Rightarrow> bool" where
  write_step: "cw_Write b w = Some w' \<Longrightarrow> cw_step w w'"
| stop_call: "cw_step w (cw_Stop w)"
| flush_tick: "phase w = Listening \<Longrightarrow> cw_step w (w\<lparr>dest := dest_Flush (dest w)\<rparr>)"
| listen_step: "phase w = Listening \<Longrightarrow> write_chan w \<noteq> [] \<Longrightarrow> cw_step w (take_message w)"
| stop_received: "phase w = Listening \<Longrightarrow> stopping w = Stopping \<Longrightarrow> cw_step w (w\<lparr>phase := Draining\<rparr>)"
| drain_step: "phase w = Draining \<Longrightarrow> write_chan w \<noteq> [] \<Longrightarrow> cw_step w (take_message w)"
| drained: "phase w = Draining \<Longrightarrow> write_chan w = [] \<Longrightarrow>
    cw_step w (w\<lparr>phase := Done, dest := dest_Flush (dest w)\<rparr>)"
| stop_returns: "phase w = Done \<Longrightarrow> stopping w = Stopping \<Longrightarrow> cw_step w (w\<lparr>stopping := StopReturned\<rparr>)"

inductive_cases cw_stepE: "cw_step w w'"

section \<open>logrotate.go\<close>

record logrotator =
  oldFormatter :: "Formatter option"
  logger_dest :: destination
  channel :: "cw option"
  rclosed :: bool

text \<open>\<open>Initialize\<close>, given the error of making the folder: the writers, and the formatter that writes to
  them.\<close>

definition Initialize :: "string option \<Rightarrow> bool \<Rightarrow> string option \<Rightarrow> xlog \<Rightarrow> (string, xlog \<times> logrotator) result" where
  "Initialize mkdir_err buffered extraSink st =
     (case mkdir_err of
        Some e \<Rightarrow> Err e
      | None \<Rightarrow>
          (let d = \<lparr>d_file = [], d_buf = [], d_extra = extraSink\<rparr>
           in Ok (SetFormatter (Some NewDefaultFormatter) st,
                  \<lparr>oldFormatter = GetFormatter st, logger_dest = d,
                   channel = (if buffered then Some (NewChannelWriter d 256) else None), rclosed = False\<rparr>)))"

text \<open>Writing to \<open>destination()\<close> when there is no channel.\<close>

definition direct_Write :: "string \<Rightarrow> logrotator \<Rightarrow> logrotator" where
  "direct_Write p c = c\<lparr>logger_dest := dest_Write p (logger_dest c)\<rparr>"

text \<open>\<open>Close\<close> restores the formatter, calls \<open>Stop\<close> of the channel, which is given back as the call leaves it
  (what follows are steps of the channel), and forgets it.\<close>

definition rotator_Close :: "logrotator \<Rightarrow> xlog \<Rightarrow> (string, logrotator \<times> cw option \<times> xlog) result" where
  "rotator_Close c st =
     (if rclosed c then Err ''already closed''
      else Ok (c\<lparr>rclosed := True, channel := None\<rparr>, map_option cw_Stop (channel c), SetFormatter (oldFormatter c) st))"

section \<open>The buffer\<close>

lemma bufio_Write_bytes:
  assumes "bufio_Write p (out, buf) = (out', buf')"
  shows "out' @ buf' = out @ buf @ p"
  using assms by (auto simp: bufio_Write_def Let_def split: if_splits)

lemma bufio_Write_bound:
  assumes "bufio_Write p (out, buf) = (out', buf')" and "length buf \<le> bufferSize"
  shows "length buf' \<le> bufferSize"
  using assms by (auto simp: bufio_Write_def Let_def split: if_splits)

definition dest_bytes :: "destination \<Rightarrow> string" where
  "dest_bytes d = d_file d @ d_buf d"

lemma dest_Write_bytes [simp]: "dest_bytes (dest_Write p d) = dest_bytes d @ p"
  using bufio_Write_bytes by (auto simp: dest_bytes_def dest_Write_def split: prod.splits)

lemma dest_Flush_bytes [simp]: "dest_bytes (dest_Flush d) = dest_bytes d"
  by (simp add: dest_bytes_def dest_Flush_def)

lemma canFlush_ops [simp]: "canFlush (dest_Write p d) = canFlush d" "canFlush (dest_Flush d) = canFlush d"
  by (auto simp: canFlush_def dest_Write_def dest_Flush_def split: prod.splits)

section \<open>The channel\<close>

text \<open>Messages are delivered in the order they were accepted, and the destination holds exactly the
  delivered ones. After \<open>Stop\<close> was received, what was accepted before the call of \<open>Stop\<close> is
  delivered or still to be drained; at the end it is delivered and flushed.\<close>

definition cw_inv :: "cw \<Rightarrow> bool" where
  "cw_inv w \<longleftrightarrow>
     accepted w = delivered w @ write_chan w \<and> dest_bytes (dest w) = concat (delivered w) \<and>
     length (write_chan w) \<le> depth w \<and>
     prefix (before_stop w) (accepted w) \<and> (phase w \<noteq> Listening \<longrightarrow> stopping w \<noteq> NotStopped) \<and>
     (running w \<longleftrightarrow> stopping w = NotStopped) \<and> (stopping w = StopReturned \<longrightarrow> phase w = Done) \<and>
     (phase w = Done \<longrightarrow> prefix (before_stop w) (delivered w) \<and> (canFlush (dest w) \<longrightarrow> d_buf (dest w) = []))"

lemma cw_inv_New: "dest_bytes d = [] \<Longrightarrow> cw_inv (NewChannelWriter d n)"
  by (simp add: cw_inv_def NewChannelWriter_def)

lemma cw_inv_Write:
  assumes "cw_Write b w = Some w'" and inv: "cw_inv w"
  shows "cw_inv w'"
proof -
  have p: "prefix (before_stop w) (accepted w @ [b])"
    using inv unfolding cw_inv_def by (intro prefix_prefix) blast
  show ?thesis
  proof (cases "length (write_chan w) < depth w")
    case True
    then have w': "w' = w\<lparr>write_chan := write_chan w @ [b], accepted := accepted w @ [b]\<rparr>"
      using assms(1) by (simp add: cw_Write_def)
    show ?thesis using inv p True unfolding w' cw_inv_def by simp
  next
    case False
    then have d: "phase w \<noteq> Done" "write_chan w = []"
      and w': "w' = w\<lparr>accepted := accepted w @ [b], delivered := delivered w @ [b], dest := dest_Write b (dest w)\<rparr>"
      using assms inv by (auto simp: cw_Write_def cw_inv_def split: if_splits)
    show ?thesis using inv p d unfolding w' cw_inv_def by simp
  qed
qed

lemma cw_inv_take: "phase w \<noteq> Done \<Longrightarrow> cw_inv w \<Longrightarrow> cw_inv (take_message w)"
  by (cases "write_chan w") (auto simp: take_message_def cw_inv_def)

lemma cw_inv_step: "cw_step w w' \<Longrightarrow> cw_inv w \<Longrightarrow> cw_inv w'"
proof (induction rule: cw_step.induct)
  case (drained w)
  then show ?case by (auto simp: cw_inv_def) (auto simp: dest_Flush_def)
next
  case (stop_call w)
  then show ?case by (cases "running w") (auto simp: cw_Stop_def cw_inv_def)
next
  case (write_step b w w')
  then show ?case using cw_inv_Write by blast
qed (auto intro!: cw_inv_take, auto simp: cw_inv_def)

lemma cw_reach_inv: "cw_step\<^sup>*\<^sup>* w w' \<Longrightarrow> cw_inv w \<Longrightarrow> cw_inv w'"
  by (induction rule: rtranclp_induct) (auto intro: cw_inv_step)

lemma canFlush_step: "cw_step w w' \<Longrightarrow> canFlush (dest w') = canFlush (dest w)"
  by (induction rule: cw_step.induct) (auto simp: cw_Write_def cw_Stop_def take_message_def split: if_splits list.splits)

text \<open>C36. In every interleaving of writers, the listening goroutine, its flush timer and calls of \<open>Stop\<close>, the
  destination gets the messages whole and in the order they were put on the channel; when the call of \<open>Stop\<close> that stopped the
  writer has returned, everything that was on the channel or written before that call is at the destination, and in
  the file if the destination can be flushed. This is not so of any other call of \<open>Stop\<close>: see \<open>other_Stop_returns_early\<close>.\<close>

theorem channel_writer_drains:
  assumes "cw_step\<^sup>*\<^sup>* (NewChannelWriter d n) w" and "dest_bytes d = []"
  shows "dest_bytes (dest w) = concat (delivered w) \<and> prefix (delivered w) (accepted w) \<and>
    (stopping w = StopReturned \<longrightarrow> prefix (before_stop w) (delivered w) \<and>
       (canFlush (dest w) \<longrightarrow> d_file (dest w) = concat (delivered w)))"
proof -
  have inv: "cw_inv w" by (rule cw_reach_inv [OF assms(1) cw_inv_New [OF assms(2)]])
  then have "prefix (delivered w) (accepted w)" by (simp add: cw_inv_def)
  moreover have "d_file (dest w) = concat (delivered w)" if "stopping w = StopReturned" "canFlush (dest w)"
    using inv that unfolding cw_inv_def dest_bytes_def by auto
  ultimately show ?thesis using inv unfolding cw_inv_def by blast
qed

definition small_dest :: destination where
  "small_dest = \<lparr>d_file = [], d_buf = [], d_extra = None\<rparr>"

definition demo_cw :: cw where
  "demo_cw = \<lparr>depth = 2, write_chan = [], running = False, phase = Done, stopping = StopReturned,
     dest = \<lparr>d_file = ''ab'', d_buf = [], d_extra = None\<rparr>, accepted = [''a'', ''b''], delivered = [''a'', ''b''], before_stop = [''a'', ''b''], early = []\<rparr>"

text \<open>From a state where \<open>Stop\<close> waits, the steps of the listener alone bring it to return.\<close>

lemma drain_returns:
  "phase w = Draining \<Longrightarrow> stopping w = Stopping \<Longrightarrow>
     \<exists>w'. cw_step\<^sup>*\<^sup>* w w' \<and> stopping w' = StopReturned \<and> delivered w' = delivered w @ write_chan w"
proof (induction "write_chan w" arbitrary: w)
  case Nil
  then have "cw_step w (w\<lparr>phase := Done, dest := dest_Flush (dest w)\<rparr>)" by (intro cw_step.drained) simp_all
  moreover have "cw_step (w\<lparr>phase := Done, dest := dest_Flush (dest w)\<rparr>)
      (w\<lparr>phase := Done, dest := dest_Flush (dest w)\<rparr>\<lparr>stopping := StopReturned\<rparr>)"
    using Nil by (intro cw_step.stop_returns) simp_all
  ultimately have "cw_step\<^sup>*\<^sup>* w (w\<lparr>phase := Done, dest := dest_Flush (dest w)\<rparr>\<lparr>stopping := StopReturned\<rparr>)" by simp
  then show ?case using Nil(1) by (intro exI) (auto simp: Nil(1) [symmetric])
next
  case (Cons b bs)
  have t: "take_message w = w\<lparr>write_chan := bs, delivered := delivered w @ [b], dest := dest_Write b (dest w)\<rparr>"
    by (simp add: take_message_def Cons(2) [symmetric])
  have "cw_step w (take_message w)" using Cons.prems Cons(2) by (intro cw_step.drain_step) auto
  moreover have "\<exists>w'. cw_step\<^sup>*\<^sup>* (take_message w) w' \<and> stopping w' = StopReturned \<and>
      delivered w' = delivered (take_message w) @ write_chan (take_message w)"
    using Cons.prems by (intro Cons(1)) (simp_all add: t)
  ultimately show ?case using Cons(2) [symmetric] by (auto simp: t intro: converse_rtranclp_into_rtranclp)
qed

lemma demo_cw_reached: "cw_step\<^sup>*\<^sup>* (NewChannelWriter small_dest 2) demo_cw"
proof -
  let ?w0 = "NewChannelWriter small_dest 2"
  let ?w1 = "?w0\<lparr>write_chan := [''a''], accepted := [''a'']\<rparr>"
  let ?w2 = "?w1\<lparr>write_chan := [''a'', ''b''], accepted := [''a'', ''b'']\<rparr>"
  let ?w3 = "?w2\<lparr>running := False, stopping := Stopping, before_stop := [''a'', ''b'']\<rparr>"
  let ?w4 = "?w3\<lparr>phase := Draining\<rparr>"
  let ?w5 = "take_message (take_message ?w4)"
  let ?w6 = "?w5\<lparr>phase := Done, dest := dest_Flush (dest ?w5)\<rparr>"
  have "cw_step ?w0 ?w1" by (rule cw_step.write_step [of "''a''"]) (simp add: cw_Write_def NewChannelWriter_def)
  moreover have "cw_step ?w1 ?w2" by (rule cw_step.write_step [of "''b''"]) (simp add: cw_Write_def NewChannelWriter_def)
  moreover have "cw_step ?w2 ?w3" using cw_step.stop_call [of ?w2] by (simp add: cw_Stop_def NewChannelWriter_def)
  moreover have "cw_step ?w3 ?w4" by (rule cw_step.stop_received) (simp_all add: NewChannelWriter_def)
  moreover have "cw_step ?w4 (take_message ?w4)" by (rule cw_step.drain_step) simp_all
  moreover have "cw_step (take_message ?w4) ?w5" by (rule cw_step.drain_step) (simp_all add: take_message_def)
  moreover have "cw_step ?w5 ?w6" by (rule cw_step.drained) (simp_all add: take_message_def)
  moreover have "cw_step ?w6 (?w6\<lparr>stopping := StopReturned\<rparr>)" by (rule cw_step.stop_returns) (simp_all add: take_message_def)
  moreover have "?w6\<lparr>stopping := StopReturned\<rparr> = demo_cw"
    by (simp add: demo_cw_def take_message_def NewChannelWriter_def small_dest_def dest_Write_def bufio_Write_def bufferSize_def
        dest_Flush_def canFlush_def)
  ultimately show ?thesis by (metis (no_types, lifting) converse_rtranclp_into_rtranclp rtranclp.rtrancl_refl)
qed

theorem channel_writer_drains_witness:
  "d_file (dest demo_cw) = concat (delivered demo_cw) \<and> prefix (before_stop demo_cw) (delivered demo_cw)"
  using channel_writer_drains [OF demo_cw_reached]
  by (simp add: small_dest_def dest_bytes_def demo_cw_def canFlush_def)

text \<open>A second call of \<open>Stop\<close> during the first returns before the channel is drained: what was accepted before both calls is
  not at the destination. The comment on \<open>Stop\<close> promises that it blocks until the channel is drained and the output flushed.\<close>

lemma other_Stop_returns_early:
  "\<exists>w. cw_step\<^sup>*\<^sup>* (NewChannelWriter small_dest 2) w \<and> early w = [[''a'']] \<and> stopping w = Stopping \<and> delivered w = [] \<and> dest w = small_dest"
proof -
  let ?w0 = "NewChannelWriter small_dest 2"
  let ?w1 = "?w0\<lparr>write_chan := [''a''], accepted := [''a'']\<rparr>"
  have "cw_step ?w0 ?w1" by (rule cw_step.write_step [of "''a''"]) (simp add: cw_Write_def NewChannelWriter_def)
  moreover have "cw_step ?w1 (cw_Stop ?w1)" "cw_step (cw_Stop ?w1) (cw_Stop (cw_Stop ?w1))" by (rule cw_step.stop_call)+
  ultimately have "cw_step\<^sup>*\<^sup>* ?w0 (cw_Stop (cw_Stop ?w1))" by (meson converse_rtranclp_into_rtranclp rtranclp.rtrancl_refl)
  then show ?thesis by (intro exI [of _ "cw_Stop (cw_Stop ?w1)"]) (simp add: cw_Stop_def NewChannelWriter_def)
qed

text \<open>A waiting \<open>Stop\<close> is never stuck: from every reachable state in which \<open>Stop\<close> was called and has not
  returned, the goroutine and the stopper can go on to a state where it has. A message put on the
  channel after the goroutine ended is never delivered, and once the channel is full every writer
  blocks for ever.\<close>

theorem channel_Stop_returns:
  assumes "cw_step\<^sup>*\<^sup>* (NewChannelWriter d n) w" and "dest_bytes d = []"
  shows "(stopping w = Stopping \<longrightarrow> (\<exists>w'. cw_step\<^sup>*\<^sup>* w w' \<and> stopping w' = StopReturned)) \<and>
    (phase w = Done \<longrightarrow> (\<forall>w'. cw_step\<^sup>*\<^sup>* w w' \<longrightarrow> delivered w' = delivered w \<and>
       length (accepted w') \<le> length (delivered w) + depth w' \<and>
       (length (accepted w') = length (delivered w) + depth w' \<longrightarrow> (\<forall>b. cw_Write b w' = None))))"
proof (intro conjI impI allI)
  have inv: "cw_inv w" by (rule cw_reach_inv [OF assms(1) cw_inv_New [OF assms(2)]])
  assume s: "stopping w = Stopping"
  show "\<exists>w'. cw_step\<^sup>*\<^sup>* w w' \<and> stopping w' = StopReturned"
  proof (cases "phase w")
    case Listening
    then have "cw_step w (w\<lparr>phase := Draining\<rparr>)" using s by (intro cw_step.stop_received)
    moreover have "\<exists>w'. cw_step\<^sup>*\<^sup>* (w\<lparr>phase := Draining\<rparr>) w' \<and> stopping w' = StopReturned"
      using drain_returns [of "w\<lparr>phase := Draining\<rparr>"] s by auto
    ultimately show ?thesis by (meson converse_rtranclp_into_rtranclp)
  next
    case Draining
    then show ?thesis using drain_returns [of w] s by blast
  next
    case Done
    then have "cw_step w (w\<lparr>stopping := StopReturned\<rparr>)" using s by (intro cw_step.stop_returns)
    then show ?thesis by (intro exI [of _ "w\<lparr>stopping := StopReturned\<rparr>"]) auto
  qed
next
  fix w' assume d: "phase w = Done" and r: "cw_step\<^sup>*\<^sup>* w w'"
  have inv: "cw_inv w'"
    by (rule cw_reach_inv [OF _ cw_inv_New [OF assms(2)]]) (use assms(1) r in \<open>rule rtranclp_trans\<close>)
  have done_step: "phase u = Done \<Longrightarrow> cw_step u v \<Longrightarrow> phase v = Done \<and> delivered v = delivered u" for u v
    by (erule cw_stepE) (auto simp: cw_Write_def cw_Stop_def split: if_splits)
  have keep: "phase w' = Done \<and> delivered w' = delivered w"
    using r d by (induction rule: rtranclp_induct) (auto dest: done_step)
  then show "delivered w' = delivered w" by simp
  show "length (accepted w') \<le> length (delivered w) + depth w'" using inv keep by (simp add: cw_inv_def)
  assume "length (accepted w') = length (delivered w) + depth w'"
  then show "cw_Write b w' = None" for b using inv keep by (simp add: cw_inv_def cw_Write_def)
qed

theorem channel_Stop_returns_witness:
  "\<forall>w'. cw_step\<^sup>*\<^sup>* demo_cw w' \<longrightarrow> delivered w' = [''a'', ''b'']"
  using channel_Stop_returns [OF demo_cw_reached] by (simp add: small_dest_def dest_bytes_def demo_cw_def)

section \<open>What is left in the buffer\<close>

text \<open>Nothing reaches the file before the buffer is full.\<close>

lemma small_write:
  assumes "d_file d = []" and "length (dest_bytes d @ p) \<le> bufferSize"
  shows "d_file (dest_Write p d) = []"
  using assms by (simp add: dest_Write_def bufio_Write_def dest_bytes_def Let_def)

lemma small_writes:
  "d_file d = [] \<Longrightarrow> length (dest_bytes d @ concat ps) \<le> bufferSize \<Longrightarrow> d_file (fold dest_Write ps d) = []"
proof (induction ps arbitrary: d)
  case (Cons p ps)
  then show ?case by (simp add: small_write)
qed simp

definition unflushable_inv :: "cw \<Rightarrow> bool" where
  "unflushable_inv w = (\<not> canFlush (dest w) \<and> (length (concat (delivered w)) \<le> bufferSize \<longrightarrow> d_file (dest w) = []))"

lemma unflushable_take:
  assumes "cw_inv w" and "unflushable_inv w"
  shows "unflushable_inv (take_message w)"
  using assms small_write [of "dest w"]
  by (cases "write_chan w") (auto simp: take_message_def unflushable_inv_def cw_inv_def)

lemma unflushable_step: "cw_step w w' \<Longrightarrow> cw_inv w \<Longrightarrow> unflushable_inv w \<Longrightarrow> unflushable_inv w'"
proof (induction rule: cw_step.induct)
  case (write_step b w w')
  then show ?case using small_write [of "dest w" b]
    by (auto simp: cw_Write_def unflushable_inv_def cw_inv_def split: if_splits)
qed (auto simp: unflushable_take, auto simp: unflushable_inv_def cw_Stop_def dest_Flush_def)

lemma unflushable_reach: "cw_step\<^sup>*\<^sup>* w w' \<Longrightarrow> cw_inv w \<Longrightarrow> unflushable_inv w \<Longrightarrow> unflushable_inv w'"
  by (induction rule: rtranclp_induct) (auto intro: unflushable_step cw_reach_inv)

text \<open>Logs can be lost at \<open>Close\<close>. Without the channel nothing ever flushes the buffered writer, and
  with an extra sink the destination has no \<open>Flush\<close>, so the channel does not flush it either: while no
  more than 8192 bytes have been logged the file stays empty, also after \<open>Close\<close>.\<close>

theorem unflushed_log_lost:
  assumes "length (concat ps) \<le> bufferSize"
  shows "(\<forall>st1 c0 c ch st2. Initialize None False extra st = Ok (st1, c0) \<longrightarrow>
       rotator_Close (fold direct_Write ps c0) st' = Ok (c, ch, st2) \<longrightarrow> d_file (logger_dest c) = []) \<and>
    (\<forall>st1 c0 w0 w c st2 w1 w2. Initialize None True (Some x) st = Ok (st1, c0\<lparr>channel := Some w0\<rparr>) \<longrightarrow> cw_step\<^sup>*\<^sup>* w0 w \<longrightarrow>
       rotator_Close (c0\<lparr>channel := Some w\<rparr>) st' = Ok (c, Some w1, st2) \<longrightarrow> cw_step\<^sup>*\<^sup>* w1 w2 \<longrightarrow>
       delivered w2 = ps \<longrightarrow> d_file (dest w2) = [])"
proof (intro conjI allI impI)
  fix st1 c0 c ch st2
  have f: "logger_dest (fold direct_Write ps c) = fold dest_Write ps (logger_dest c)" for c
    by (induction ps arbitrary: c) (simp_all add: direct_Write_def)
  assume "Initialize None False extra st = Ok (st1, c0)" and "rotator_Close (fold direct_Write ps c0) st' = Ok (c, ch, st2)"
  then have "logger_dest c = fold dest_Write ps \<lparr>d_file = [], d_buf = [], d_extra = extra\<rparr>"
    by (auto simp: rotator_Close_def Initialize_def f split: if_splits)
  then show "d_file (logger_dest c) = []" using small_writes assms by (simp add: dest_bytes_def)
next
  fix st1 c0 w0 w c st2 w1 w2
  assume i: "Initialize None True (Some x) st = Ok (st1, c0\<lparr>channel := Some w0\<rparr>)" and r: "cw_step\<^sup>*\<^sup>* w0 w"
    and c: "rotator_Close (c0\<lparr>channel := Some w\<rparr>) st' = Ok (c, Some w1, st2)" and r2: "cw_step\<^sup>*\<^sup>* w1 w2" and d: "delivered w2 = ps"
  have w0: "w0 = NewChannelWriter \<lparr>d_file = [], d_buf = [], d_extra = Some x\<rparr> 256"
    using i by (cases c0) (auto simp: Initialize_def Let_def)
  have "w1 = cw_Stop w" using c by (auto simp: rotator_Close_def split: if_splits)
  then have "cw_step w w1" using cw_step.stop_call by simp
  then have "cw_step\<^sup>*\<^sup>* w0 w2" using r r2 by (meson rtranclp.rtrancl_into_rtrancl rtranclp_trans)
  then have "unflushable_inv w2"
    by (rule unflushable_reach) (simp_all add: w0 cw_inv_def dest_bytes_def unflushable_inv_def NewChannelWriter_def canFlush_def)
  then show "d_file (dest w2) = []" using assms d by (simp add: unflushable_inv_def)
qed

theorem unflushed_log_lost_witness:
  "\<exists>st1 c0 c ch st2. Initialize None False None (xlog_init initial_xlog) = Ok (st1, c0) \<and>
     rotator_Close (fold direct_Write [''hello''] c0) initial_xlog = Ok (c, ch, st2) \<and> d_file (logger_dest c) = []"
proof -
  obtain st1 c0 where i: "Initialize None False None (xlog_init initial_xlog) = Ok (st1, c0)"
    by (simp add: Initialize_def Let_def)
  then obtain c ch st2 where "rotator_Close (fold direct_Write [''hello''] c0) initial_xlog = Ok (c, ch, st2)"
    by (auto simp: rotator_Close_def Initialize_def direct_Write_def Let_def)
  with i show ?thesis using unflushed_log_lost [of "[''hello'']" None "xlog_init initial_xlog" initial_xlog]
    by (auto simp: bufferSize_def)
qed

end
