(* ===== verification/Netutil.thy ===== *)
theory Netutil
  imports GoStrings
begin

unbundle bit_operations_syntax

text \<open>
  The package \<open>netutil\<close> and the parts of the standard library's \<open>net\<close> it and its callers use: textual IP
  addresses, address blocks, host and port. An address is its list of bytes, 16 of them as \<open>net.ParseIP\<close>
  returns it. The interfaces of the host, the host name and the URL parser are arguments.
\<close>

section \<open>IP addresses (net)\<close>

type_synonym IP = "byte list"

text \<open>\<open>parseIPv4\<close>: four decimal numbers below 256 without leading zeros.\<close>

definition octet :: "string \<Rightarrow> byte option" where
  "octet p =
     (if p = [] \<or> (length p > 1 \<and> hd p = CHR ''0'') then None
      else case digits_value 0 p of
             Some n \<Rightarrow> if n \<le> 255 then Some (of_nat n) else None
           | None \<Rightarrow> None)"

definition parseIPv4 :: "string \<Rightarrow> IP option" where
  "parseIPv4 s =
     (case map octet (split_on CHR ''.'' s) of
        [Some a, Some b, Some c, Some d] \<Rightarrow> Some [a, b, c, d]
      | _ \<Rightarrow> None)"

definition v4InV6Prefix :: IP where
  "v4InV6Prefix = replicate 10 0 @ [0xff, 0xff]"

definition hex_digit :: "char \<Rightarrow> nat option" where
  "hex_digit c =
     (let n = of_char c
      in if 48 \<le> n \<and> n \<le> 57 then Some (n - 48)
         else if 97 \<le> n \<and> n \<le> 102 then Some (n - 87)
         else if 65 \<le> n \<and> n \<le> 70 then Some (n - 55)
         else None)"

text \<open>\<open>xtoi\<close>: the value of the leading hexadecimal digits and the rest; without a digit, or from
  \<open>0xFFFFFF\<close> on, it fails.\<close>

fun xtoi_loop :: "nat \<Rightarrow> string \<Rightarrow> (nat \<times> string) option" where
  "xtoi_loop n [] = Some (n, [])"
| "xtoi_loop n (c # s) =
     (case hex_digit c of
        None \<Rightarrow> Some (n, c # s)
      | Some d \<Rightarrow> if n * 16 + d \<ge> 0xFFFFFF then None else xtoi_loop (n * 16 + d) s)"

definition xtoi :: "string \<Rightarrow> (nat \<times> string) option" where
  "xtoi s =
     (case s of
        [] \<Rightarrow> None
      | c # _ \<Rightarrow> if hex_digit c = None then None else xtoi_loop 0 s)"

lemma xtoi_loop_length: "xtoi_loop n s = Some (m, s') \<Longrightarrow> length s' \<le> length s"
  by (induction n s rule: xtoi_loop.induct) (auto split: option.splits if_splits)

lemma xtoi_length: "xtoi s = Some (m, s') \<Longrightarrow> length s' < length s"
proof (cases s)
  case (Cons c cs)
  assume "xtoi s = Some (m, s')"
  then obtain d where "xtoi_loop d cs = Some (m, s')"
    using Cons by (auto simp: xtoi_def split: if_splits option.splits)
  then show ?thesis using xtoi_loop_length Cons by fastforce
qed (simp add: xtoi_def)

text \<open>The loop of \<open>parseIPv6\<close>: the bytes so far, the position of the ellipsis, and what is left of the
  text. The result is the bytes, the ellipsis and the text left when the loop ends.\<close>

function ipv6_loop :: "string \<Rightarrow> IP \<Rightarrow> nat option \<Rightarrow> (IP \<times> nat option \<times> string) option" where
  "ipv6_loop s ip ellipsis =
     (if length ip \<ge> 16 then Some (ip, ellipsis, s)
      else case xtoi s of
             None \<Rightarrow> None
           | Some (n, rest) \<Rightarrow>
               if n > 0xFFFF then None
               else if rest \<noteq> [] \<and> hd rest = CHR ''.'' then
                 (if ellipsis = None \<and> length ip \<noteq> 12 then None
                  else if length ip + 4 > 16 then None
                  else case parseIPv4 s of None \<Rightarrow> None | Some v \<Rightarrow> Some (ip @ v, ellipsis, []))
               else
                 let ip = ip @ [of_nat (n div 256), of_nat n]
                 in if rest = [] then Some (ip, ellipsis, [])
                    else if hd rest \<noteq> CHR '':'' \<or> length rest = 1 then None
                    else let s = tl rest
                         in if hd s = CHR '':'' then
                              (if ellipsis \<noteq> None then None
                               else if tl s = [] then Some (ip, Some (length ip), [])
                               else ipv6_loop (tl s) ip (Some (length ip)))
                            else ipv6_loop s ip ellipsis)"
  by pat_completeness auto
termination
  by (relation "measure (\<lambda>(s, ip, e). length s)") (auto dest!: xtoi_length)

declare ipv6_loop.simps [simp del]

definition parseIPv6 :: "string \<Rightarrow> IP option" where
  "parseIPv6 s =
     (let (s, ellipsis) = (if has_prefix s ''::'' then (drop 2 s, Some 0) else (s, None))
      in if ellipsis \<noteq> None \<and> s = [] then Some (replicate 16 0)
         else case ipv6_loop s [] ellipsis of
                None \<Rightarrow> None
              | Some (ip, ellipsis, rest) \<Rightarrow>
                  if rest \<noteq> [] then None
                  else if length ip < 16 then
                    (case ellipsis of
                       None \<Rightarrow> None
                     | Some e \<Rightarrow> Some (take e ip @ replicate (16 - length ip) 0 @ drop e ip))
                  else if ellipsis \<noteq> None then None
                  else Some ip)"

text \<open>\<open>net.ParseIP\<close> looks at the first dot or colon.\<close>

definition ParseIP :: "string \<Rightarrow> IP option" where
  "ParseIP s =
     (case dropWhile (\<lambda>c. c \<noteq> CHR ''.'' \<and> c \<noteq> CHR '':'') s of
        [] \<Rightarrow> None
      | c # _ \<Rightarrow> if c = CHR ''.'' then map_option (\<lambda>v. v4InV6Prefix @ v) (parseIPv4 s) else parseIPv6 s)"

definition To4 :: "IP \<Rightarrow> IP option" where
  "To4 ip =
     (if length ip = 4 then Some ip
      else if length ip = 16 \<and> take 12 ip = v4InV6Prefix then Some (drop 12 ip)
      else None)"

definition IsLoopback :: "IP \<Rightarrow> bool" where
  "IsLoopback ip = (case To4 ip of Some v \<Rightarrow> hd v = 127 | None \<Rightarrow> ip = replicate 15 0 @ [1])"

definition v4_String :: "IP \<Rightarrow> string" where
  "v4_String v = join ''.'' (map (\<lambda>b. show_nat (unat b)) v)"

text \<open>\<open>net.CIDRMask\<close> and \<open>IPNet.Contains\<close>. The network is held with its short form and its mask.\<close>

record IPNet =
  netIP :: IP
  netMask :: IP

definition mask_byte :: "nat \<Rightarrow> byte" where
  "mask_byte k = (if k \<ge> 8 then 0xff else NOT (push_bit (8 - k) 1 - 1))"

fun CIDRMask :: "nat \<Rightarrow> nat \<Rightarrow> IP" where
  "CIDRMask ones 0 = []"
| "CIDRMask ones (Suc l) = mask_byte ones # CIDRMask (ones - 8) l"

definition cidr :: "IP \<Rightarrow> nat \<Rightarrow> IPNet" where
  "cidr ip ones = (let m = CIDRMask ones (length ip) in \<lparr>netIP = map2 (AND) ip m, netMask = m\<rparr>)"

definition Contains :: "IPNet \<Rightarrow> IP \<Rightarrow> bool" where
  "Contains n ip =
     (let ip = (case To4 ip of Some v \<Rightarrow> v | None \<Rightarrow> ip)
      in length ip = length (netIP n) \<and> map2 (AND) (netIP n) (netMask n) = map2 (AND) ip (netMask n))"

text \<open>\<open>net.SplitHostPort\<close>: the host, where host and port are well formed.\<close>

definition SplitHostPort :: "string \<Rightarrow> string option" where
  "SplitHostPort hp =
     (if CHR '':'' \<notin> set hp then None
      else
        let i = length hp - 1 - length (takeWhile (\<lambda>c. c \<noteq> CHR '':'') (rev hp))
        in if hd hp = CHR ''['' then
             (if CHR '']'' \<notin> set hp then None
              else
                let e = length (takeWhile (\<lambda>c. c \<noteq> CHR '']'') hp)
                in if e + 1 \<noteq> i then None
                   else if CHR ''['' \<in> set (drop 1 hp) \<or> CHR '']'' \<in> set (drop (e + 1) hp) then None
                   else Some (take (e - 1) (drop 1 hp)))
           else
             (let h = take i hp
              in if CHR '':'' \<in> set h \<or> CHR ''['' \<in> set hp \<or> CHR '']'' \<in> set hp then None else Some h))"

section \<open>netutil/localip.go\<close>

definition cidrs :: "IPNet list" where
  "cidrs =
     [cidr [127, 0, 0, 1] 8, cidr [10, 0, 0, 0] 8, cidr [172, 16, 0, 0] 12, cidr [192, 168, 0, 0] 16,
      cidr [169, 254, 0, 0] 16, cidr (replicate 15 0 @ [1]) 128, cidr (0xfc # replicate 15 0) 7,
      cidr ([0xfe, 0x80] @ replicate 14 0) 10]"

definition IsPrivateAddress :: "string \<Rightarrow> (string, bool) result" where
  "IsPrivateAddress address =
     (case ParseIP address of
        None \<Rightarrow> Err ''address is not valid''
      | Some ip \<Rightarrow> Ok (list_ex (\<lambda>n. Contains n ip) cidrs))"

text \<open>An interface address: an \<open>*net.IPNet\<close> or something else.\<close>

datatype ifaddr = IfNet IP | IfOther

fun local_ip_loop :: "ifaddr list \<Rightarrow> (string, string) result" where
  "local_ip_loop [] = Err ''unable to resolve local IP address''"
| "local_ip_loop (IfOther # as) = local_ip_loop as"
| "local_ip_loop (IfNet ip # as) =
     (if \<not> IsLoopback ip \<and> To4 ip \<noteq> None then Ok (v4_String (the (To4 ip))) else local_ip_loop as)"

definition GetLocalIP :: "(string, ifaddr list) result \<Rightarrow> (string, string) result" where
  "GetLocalIP addrs = bind_result addrs local_ip_loop"

text \<open>\<open>WaitForNetwork\<close>: what the successive calls of \<open>GetLocalIP\<close> give and the clock before each is a
  list; the list ends when the clock reaches the cutoff.\<close>

fun wait_loop :: "time \<Rightarrow> (string, string) result \<Rightarrow> (time \<times> (string, string) result) list \<Rightarrow> (string, string) result" where
  "wait_loop cutoff prev [] = prev"
| "wait_loop cutoff prev ((now, r) # rs) =
     (if cutoff > now then (if is_Ok r then r else wait_loop cutoff r rs) else prev)"

definition WaitForNetwork ::
  "(string, string) result \<Rightarrow> time \<Rightarrow> duration \<Rightarrow> (time \<times> (string, string) result) list \<Rightarrow> (string, string) result" where
  "WaitForNetwork first now d later = (if is_Ok first then first else wait_loop (now + d) first later)"

section \<open>netutil/nodeinfo.go, net.go\<close>

record NodeInfo =
  ni_hostname :: string
  ni_ipAddr :: string
  ni_nodename :: string

definition NewNodeInfo ::
  "(string, string) result \<Rightarrow> (string, string) result \<Rightarrow> (string \<Rightarrow> string) option \<Rightarrow> (string, NodeInfo) result" where
  "NewNodeInfo osHostname localIP extractor =
     (case osHostname of
        Err e \<Rightarrow> Err (''unable to determine hostname: '' @ e)
      | Panic \<Rightarrow> Panic
      | Ok h \<Rightarrow>
          (case localIP of
             Err e \<Rightarrow> Err (''unable to determine local IP address: '' @ e)
           | Panic \<Rightarrow> Panic
           | Ok a \<Rightarrow>
               Ok \<lparr>ni_hostname = h, ni_ipAddr = a,
                   ni_nodename = (case extractor of None \<Rightarrow> h | Some f \<Rightarrow> f h)\<rparr>))"

record namedAddress =
  na_network :: string
  na_host :: string
  na_port :: "16 word"

definition namedAddress_String :: "namedAddress \<Rightarrow> string" where
  "namedAddress_String a = na_host a @ '':'' @ show_nat (unat (na_port a))"

definition newNamedAddress ::
  "(string \<Rightarrow> string \<Rightarrow> (string, 'addr) result) \<Rightarrow> string \<Rightarrow> string \<Rightarrow> 16 word \<Rightarrow> (string, namedAddress) result" where
  "newNamedAddress resolve network host port =
     (let na = \<lparr>na_network = network, na_host = host, na_port = port\<rparr>
      in bind_result (resolve (na_network na) (namedAddress_String na)) (\<lambda>_. Ok na))"

text \<open>An error of the network, as far as \<open>IsAddrInUse\<close> looks into it.\<close>

datatype neterror = OpError_Syscall string | OpError_Other | ErrServerClosed | NetError string

definition IsAddrInUse :: "neterror \<Rightarrow> bool" where
  "IsAddrInUse e = (case e of OpError_Syscall c \<Rightarrow> c = ''EADDRINUSE'' | _ \<Rightarrow> False)"

section \<open>netutil/urls.go\<close>

fun parse_urls :: "(string \<Rightarrow> (string, 'u) result) \<Rightarrow> string list \<Rightarrow> (string, 'u list) result" where
  "parse_urls parse [] = Ok []"
| "parse_urls parse (h # hs) =
     bind_result (parse (trim_space h)) (\<lambda>u. bind_result (parse_urls parse hs) (\<lambda>us. Ok (u # us)))"

definition ParseURLs where "ParseURLs = parse_urls"

definition ParseURLsFromString :: "(string \<Rightarrow> (string, 'u) result) \<Rightarrow> string \<Rightarrow> (string, 'u list) result" where
  "ParseURLsFromString parse hosts =
     (let hosts = trim_space hosts
      in if length hosts = 0 then Ok [] else ParseURLs parse (split_on CHR '','' hosts))"

definition JoinURLs :: "('u \<Rightarrow> string) \<Rightarrow> 'u list \<Rightarrow> string" where
  "JoinURLs show us = join '','' (map show us)"

section \<open>Addresses\<close>

lemma show_nat_hd: "n > 0 \<Longrightarrow> hd (show_nat n) \<noteq> CHR ''0''"
proof (induction n rule: show_nat.induct)
  case (1 n)
  show ?case
  proof (cases "n < 10")
    case True
    then have "of_char (hd (show_nat n)) = 48 + n" by (simp add: show_nat.simps [of n])
    then show ?thesis using 1(2) by auto
  next
    case False
    then show ?thesis using 1 by (simp add: show_nat.simps [of n])
  qed
qed

lemma octet_show: "octet (show_nat (unat b)) = Some b"
proof -
  have "unat b \<le> 255" using unsigned_less [of b, where ?'a = nat] by simp
  moreover have "\<not> (length (show_nat (unat b)) > 1 \<and> hd (show_nat (unat b)) = CHR ''0'')"
  proof (cases "unat b = 0")
    case True
    show ?thesis unfolding True by (simp add: show_nat.simps)
  qed (use show_nat_hd [of "unat b"] in simp)
  ultimately show ?thesis by (auto simp: octet_def digits_value_show_nat)
qed

lemma show_nat_no_dot [simp]: "CHR ''.'' \<notin> set (show_nat n)" "CHR '':'' \<notin> set (show_nat n)"
  using show_nat_digits [of "CHR ''.''" n] show_nat_digits [of "CHR '':''" n] by (auto simp: is_digit_range)

lemma parseIPv4_String: "parseIPv4 (v4_String [a, b, c, d]) = Some [a, b, c, d]"
  by (simp add: parseIPv4_def v4_String_def split_on_join octet_show del: join.simps)

text \<open>A dotted address is parsed back to its bytes.\<close>

lemma ParseIP_v4: "ParseIP (v4_String [a, b, c, d]) = Some (v4InV6Prefix @ [a, b, c, d])"
proof -
  let ?s = "show_nat (unat a)"
  have "v4_String [a, b, c, d] = ?s @ ''.'' @ join ''.'' (map (\<lambda>b. show_nat (unat b)) [b, c, d])"
    by (simp add: v4_String_def)
  moreover have "c \<noteq> CHR ''.'' \<and> c \<noteq> CHR '':''" if "c \<in> set ?s" for c using that by auto
  then have "dropWhile (\<lambda>c. c \<noteq> CHR ''.'' \<and> c \<noteq> CHR '':'') (?s @ ''.'' @ t) = ''.'' @ t" for t
    by (subst dropWhile_append2) auto
  ultimately show ?thesis using parseIPv4_String [of a b c d] by (simp add: ParseIP_def)
qed

section \<open>Private addresses\<close>

lemma byte_bits: "a = b \<longleftrightarrow> bit a 0 = bit b 0 \<and> bit a 1 = bit b 1 \<and> bit a 2 = bit b 2 \<and> bit a 3 = bit b 3 \<and> bit a 4 = bit b 4 \<and> bit a 5 = bit b 5 \<and> bit a 6 = bit b 6 \<and> bit a 7 = bit b 7" for a b :: byte
proof -
  have "{..<8} = {0, 1, 2, 3, 4, 5, 6, 7 :: nat}" by (auto simp: lessThan_def)
  moreover have "a = b \<longleftrightarrow> (\<forall>n\<in>{..<8}. bit a n = bit b n)" by (auto intro!: bit_word_eqI)
  ultimately show ?thesis by simp
qed

lemma byte_bit_high: "8 \<le> n \<Longrightarrow> \<not> bit x n" for x :: byte
  using bit_imp_le_length [of x n] by auto

lemma byte_div: "drop_bit k x = of_nat m \<longleftrightarrow> unat x div 2 ^ k = m" if "m < 256" for x :: byte
proof -
  have "drop_bit k x = of_nat m \<longleftrightarrow> unat (drop_bit k x) = unat (of_nat m :: byte)" by (rule word_unat_eq_iff)
  moreover have "unat (of_nat m :: byte) = m" using that by (simp add: unat_of_nat)
  moreover have "unat (drop_bit k x) = unat x div 2 ^ k" unfolding unat_drop_bit_eq by (rule drop_bit_eq_div)
  ultimately show ?thesis by simp
qed

lemma byte_and_F0: "x AND 0xF0 = 0x10 \<longleftrightarrow> drop_bit 4 x = (of_nat 1 :: byte)" for x :: byte
  unfolding byte_bits [of "x AND 240"] byte_bits [of "drop_bit 4 x"] by (simp add: bit_simps bit_and_iff bit_drop_bit_eq byte_bit_high)

lemma byte_and_FE: "x AND 0xFE = 0xFC \<longleftrightarrow> drop_bit 1 x = (of_nat 126 :: byte)" for x :: byte
  unfolding byte_bits [of "x AND 0xFE"] byte_bits [of "drop_bit 1 x"] by (simp add: bit_simps bit_and_iff bit_drop_bit_eq byte_bit_high numeral_eq_Suc)

lemma byte_and_C0: "x AND 0xC0 = 0x80 \<longleftrightarrow> drop_bit 6 x = (of_nat 2 :: byte)" for x :: byte
  unfolding byte_bits [of "x AND 0xC0"] byte_bits [of "drop_bit 6 x"] by (simp add: bit_simps bit_and_iff bit_drop_bit_eq byte_bit_high)

lemma byte_and_FF [simp]: "x AND 0xFF = x" for x :: byte
  unfolding byte_bits [of "x AND 0xFF"] by (simp add: bit_simps bit_and_iff bit_drop_bit_eq)

lemma byte_mask_12: "x AND 0xF0 = 0x10 \<longleftrightarrow> 16 \<le> x \<and> x \<le> 31" for x :: byte
  unfolding byte_and_F0 by (subst byte_div) (auto simp: word_le_nat_alt)

lemma byte_mask_7: "x AND 0xFE = 0xFC \<longleftrightarrow> x = 0xFC \<or> x = 0xFD" for x :: byte
  unfolding byte_and_FE by (subst byte_div) (auto simp: word_unat_eq_iff)

lemma byte_mask_10: "x AND 0xC0 = 0x80 \<longleftrightarrow> 0x80 \<le> x \<and> x \<le> 0xBF" for x :: byte
  unfolding byte_and_C0 by (subst byte_div) (auto simp: word_le_nat_alt)

text \<open>The blocks as ranges of the leading bytes.\<close>

definition private_ip :: "IP \<Rightarrow> bool" where
  "private_ip ip =
     (case To4 ip of
        Some v \<Rightarrow>
          v ! 0 = 127 \<or> v ! 0 = 10 \<or> v ! 0 = 172 \<and> 16 \<le> v ! 1 \<and> v ! 1 \<le> 31 \<or>
          v ! 0 = 192 \<and> v ! 1 = 168 \<or> v ! 0 = 169 \<and> v ! 1 = 254
      | None \<Rightarrow>
          ip = replicate 15 0 @ [1] \<or> ip ! 0 \<in> {0xFC, 0xFD} \<or> ip ! 0 = 0xFE \<and> 0x80 \<le> ip ! 1 \<and> ip ! 1 \<le> 0xBF)"

lemma cidrs_eq:
  "cidrs =
     [\<lparr>netIP = [127, 0, 0, 0], netMask = [0xff, 0, 0, 0]\<rparr>, \<lparr>netIP = [10, 0, 0, 0], netMask = [0xff, 0, 0, 0]\<rparr>,
      \<lparr>netIP = [172, 16, 0, 0], netMask = [0xff, 0xf0, 0, 0]\<rparr>, \<lparr>netIP = [192, 168, 0, 0], netMask = [0xff, 0xff, 0, 0]\<rparr>,
      \<lparr>netIP = [169, 254, 0, 0], netMask = [0xff, 0xff, 0, 0]\<rparr>,
      \<lparr>netIP = replicate 15 0 @ [1], netMask = replicate 16 0xff\<rparr>,
      \<lparr>netIP = 0xfc # replicate 15 0, netMask = 0xfe # replicate 15 0\<rparr>,
      \<lparr>netIP = 0xfe # 0x80 # replicate 14 0, netMask = 0xff # 0xc0 # replicate 14 0\<rparr>]"
  by code_simp

lemma map2_AND_zero: "length xs = n \<Longrightarrow> map2 (AND) xs (replicate n 0) = replicate n 0" for xs :: "byte list"
  by (induction xs arbitrary: n) auto

lemma map2_AND_full: "length xs = n \<Longrightarrow> map2 (AND) xs (replicate n 0xff) = xs" for xs :: "byte list"
  by (induction xs arbitrary: n) auto

lemma To4_length: "To4 ip = Some v \<Longrightarrow> length v = 4"
  by (auto simp: To4_def split: if_splits)

lemma length_4: "length v = 4 \<longleftrightarrow> (\<exists>a b c d. v = [a, b, c, d])"
  by (auto simp: length_Suc_conv numeral_eq_Suc)

lemma and_mask4: "map2 (AND) [a, b, 0, 0] [m, n, 0, 0] = map2 (AND) [c, d, e, f] [m, n, 0, 0] \<longleftrightarrow> a AND m = c AND m \<and> b AND n = d AND n"
  for a b c d e f m n :: byte
  by simp

lemma contains_v4:
  assumes "To4 ip = Some v"
  shows "list_ex (\<lambda>n. Contains n ip) cidrs = private_ip ip"
proof -
  obtain a b c d where v: "v = [a, b, c, d]" using To4_length [OF assms] unfolding length_4 by auto
  have "Contains \<lparr>netIP = n, netMask = m\<rparr> ip \<longleftrightarrow> length n = 4 \<and> map2 (AND) n m = map2 (AND) v m" for n m
    using To4_length [OF assms] by (auto simp: Contains_def assms)
  note c = this
  have n: "Contains \<lparr>netIP = [127, 0, 0, 0], netMask = [0xff, 0, 0, 0]\<rparr> ip \<longleftrightarrow> a = 127"
    "Contains \<lparr>netIP = [10, 0, 0, 0], netMask = [0xff, 0, 0, 0]\<rparr> ip \<longleftrightarrow> a = 10"
    "Contains \<lparr>netIP = [172, 16, 0, 0], netMask = [0xff, 0xf0, 0, 0]\<rparr> ip \<longleftrightarrow> a = 172 \<and> 16 \<le> b \<and> b \<le> 31"
    "Contains \<lparr>netIP = [192, 168, 0, 0], netMask = [0xff, 0xff, 0, 0]\<rparr> ip \<longleftrightarrow> a = 192 \<and> b = 168"
    "Contains \<lparr>netIP = [169, 254, 0, 0], netMask = [0xff, 0xff, 0, 0]\<rparr> ip \<longleftrightarrow> a = 169 \<and> b = 254"
    using byte_mask_12 [of b] unfolding c v by (auto simp: and_mask4)
  have m: "\<not> Contains \<lparr>netIP = replicate 15 0 @ [1], netMask = x\<rparr> ip"
    "\<not> Contains \<lparr>netIP = y # replicate 15 0, netMask = x\<rparr> ip"
    "\<not> Contains \<lparr>netIP = y # z # replicate 14 0, netMask = x\<rparr> ip" for x y z
    unfolding c by simp_all
  show ?thesis unfolding cidrs_eq private_ip_def assms v by (simp add: n m)
qed

lemma contains_v6:
  assumes "To4 ip = None" and "length ip = 16"
  shows "list_ex (\<lambda>n. Contains n ip) cidrs = private_ip ip"
proof -
  obtain a b xs where ip: "ip = a # b # xs" and xs: "length xs = 14"
    using assms(2) by (auto simp: length_Suc_conv numeral_eq_Suc)
  have c: "Contains \<lparr>netIP = n, netMask = m\<rparr> ip \<longleftrightarrow> length n = 16 \<and> map2 (AND) n m = map2 (AND) ip m" for n m
    using assms by (auto simp: Contains_def)
  have n: "Contains \<lparr>netIP = replicate 15 0 @ [1], netMask = replicate 16 0xff\<rparr> ip \<longleftrightarrow> ip = replicate 15 0 @ [1]"
    unfolding c using assms(2) by (simp add: map2_AND_full eq_commute)
  have f: "Contains \<lparr>netIP = 0xfc # replicate 15 0, netMask = 0xfe # replicate 15 0\<rparr> ip \<longleftrightarrow> a AND 0xfe = 0xfc"
    unfolding c unfolding ip using xs by (auto simp: map2_AND_zero)
  have e: "Contains \<lparr>netIP = 0xfe # 0x80 # replicate 14 0, netMask = 0xff # 0xc0 # replicate 14 0\<rparr> ip \<longleftrightarrow> a = 0xfe \<and> b AND 0xc0 = 0x80"
    unfolding c unfolding ip using xs by (auto simp: map2_AND_zero)
  have m: "\<not> Contains \<lparr>netIP = [x, y, z, u], netMask = k\<rparr> ip" for x y z u k unfolding c by simp
  have i: "ip ! 0 = a" "ip ! 1 = b" by (simp_all add: ip)
  show ?thesis unfolding cidrs_eq private_ip_def assms i using byte_mask_7 [of a] byte_mask_10 [of b] by (simp add: n f e m)
qed

lemma parseIPv4_length: "parseIPv4 s = Some v \<Longrightarrow> length v = 4"
  by (auto simp: parseIPv4_def split: list.splits option.splits)

lemma ipv6_loop_length:
  "ipv6_loop s ip e = Some (ip', e', rest) \<Longrightarrow> length ip \<le> 16 \<Longrightarrow> even (length ip) \<Longrightarrow> length ip' \<le> 16"
proof (induction s ip e rule: ipv6_loop.induct)
  case (1 s ip e)
  show ?case
  proof (cases "length ip \<ge> 16")
    case True
    then show ?thesis using 1(3,4) by (simp add: ipv6_loop.simps [of s ip e])
  next
    case False
    then have len: "length ip + 2 \<le> 16" using 1(5) by (auto elim: evenE)
    show ?thesis using 1 False len parseIPv4_length [of s]
      by (auto simp: ipv6_loop.simps [of s ip e] Let_def split: option.splits prod.splits if_splits)
  qed
qed

lemma ParseIP_length: "ParseIP s = Some ip \<Longrightarrow> length ip = 16"
proof -
  have v6: "length ip = 16" if "parseIPv6 s = Some ip" for s ip
    using that by (auto simp: parseIPv6_def min_def split: if_splits option.splits dest!: ipv6_loop_length)
  assume "ParseIP s = Some ip"
  then show ?thesis using v6 parseIPv4_length by (auto simp: ParseIP_def v4InV6Prefix_def split: list.splits if_splits)
qed

text \<open>C20. \<open>IsPrivateAddress\<close> decides exactly the private ranges: an address that does not parse is an
  error; otherwise the answer is whether the address, an IPv4 address written as IPv6 counting as
  IPv4, lies in 127/8, 10/8, 172.16 to 172.31, 192.168, 169.254, or is ::1 or in fc00::/7 or
  fe80::/10. In particular every dotted address parses to its four bytes.\<close>

theorem IsPrivateAddress_ranges:
  "IsPrivateAddress s = (case ParseIP s of None \<Rightarrow> Err ''address is not valid'' | Some ip \<Rightarrow> Ok (private_ip ip)) \<and>
   ParseIP (v4_String [a, b, c, d]) = Some (v4InV6Prefix @ [a, b, c, d])"
proof -
  have "list_ex (\<lambda>n. Contains n ip) cidrs = private_ip ip" if "ParseIP s = Some ip" for ip
    using contains_v4 contains_v6 [OF _ ParseIP_length [OF that]] by (cases "To4 ip") auto
  then show ?thesis using ParseIP_v4 by (auto simp: IsPrivateAddress_def split: option.splits)
qed

end
