(* ===== verification/Xhttp.thy ===== *)
theory Xhttp
  imports Authz HttpError Netutil Metrics Xlog
begin

text \<open>
  The HTTP server side of \<open>xhttp\<close>: writing JSON responses (marshal/marshal.go, json.go), the caller's
  address and identity (identity/realip.go, ctx.go, identity.go) and the wrapping handlers for
  metrics, logging and profiling (request_metrics.go, request_logger.go, request_profiler.go,
  response_capture.go). A handler takes a request and the state of the response and may panic. What
  handlers do besides writing the response, logging and emitting metrics, is collected in order as
  \<open>effect\<close> values. The JSON codec, gzip, quoting, the clock, the host and random identifiers are in
  the environment \<open>henv\<close>.
\<close>

section \<open>Effects and the environment\<close>

text \<open>\<open>ECallback\<close> is the call of an event handler of the server (rest/server.go), known by a number.\<close>

datatype ServerEvent = ServerStartedEvent | ServerStoppedEvent | ServerStoppingEvent

datatype effect =
    ELog LogLevel string
  | EMeasure "string list" "Tag list"
  | EIncr "string list" "Tag list"
  | EGauge "string list" int "Tag list"
  | EAudit string string string string uint64 string
  | ECallback ServerEvent nat

type_synonym hstate = "response \<times> effect list"

type_synonym handler = "request \<Rightarrow> hstate \<Rightarrow> (unit, hstate) result"

text \<open>What is encoded: one of the package's errors or a value of the application.\<close>

datatype payload = PError Error | PMany ManyError | PValue nat | PNil

record henv =
  h_encode :: "bool \<Rightarrow> payload \<Rightarrow> string \<times> string option"
  h_gzip :: "string \<Rightarrow> string"
  h_detail :: "goerror \<Rightarrow> string"
  h_quote :: "string \<Rightarrow> string"
  h_caller :: "string \<times> int"
  h_elapsed :: duration
  h_hostname :: string
  h_nodeIP :: string
  h_localIP :: "(string, string) result"
  h_guid :: string

text \<open>The calls a handler can make on its response writer.\<close>

datatype rop = WSet string string | WHeader int | WBody string

fun run_op :: "rop \<Rightarrow> response \<Rightarrow> response" where
  "run_op (WSet k v) w = set_header k v w"
| "run_op (WHeader sc) w = write_header sc w"
| "run_op (WBody b) w = write_body b w"

definition run_ops :: "rop list \<Rightarrow> response \<Rightarrow> response" where
  "run_ops ops w = fold run_op ops w"

section \<open>marshal/marshal.go\<close>

text \<open>The bodies \<open>WriteJSON\<close> tells apart: nil; the package's errors, whose pointers may be nil; another
  error, with its text and the errors it wraps, from the outside in; another value with a
  \<open>WriteHTTPResponse\<close> method; and any other value.\<close>

datatype body =
    BNil
  | BError "Error option"
  | BMany "ManyError option"
  | BOtherError string "goerror list"
  | BWriter "rop list"
  | BValue nat

definition httpError :: "henv \<Rightarrow> Error \<Rightarrow> request \<Rightarrow> effect list" where
  "httpError h e r =
     (let (fn, line) = h_caller h;
          internal = HTTPStatus e \<ge> 500;
          lvl = (if internal then ERROR else WARNING)
      in ELog lvl (sprintf ((if internal then ''INTERNAL_ERROR'' else ''API_ERROR'') @ ''=%s:%d:%s:%s:%s:%d'')
            [URLPath r, itoa (HTTPStatus e), Code e, HttpError.Message e, fn, itoa line]) #
         (case Cause e of None \<Rightarrow> [] | Some c \<Rightarrow> [ELog lvl (''err=['' @ h_detail h c @ '']'')]))"

definition write_error :: "henv \<Rightarrow> Error \<Rightarrow> response \<Rightarrow> request \<Rightarrow> response" where
  "write_error h e w r = Error_WriteHTTPResponse (\<lambda>pp e. fst (h_encode h pp (PError e))) e w r"

definition write_many :: "henv \<Rightarrow> ManyError \<Rightarrow> response \<Rightarrow> request \<Rightarrow> response" where
  "write_many h m w r = Many_WriteHTTPResponse (\<lambda>pp m. fst (h_encode h pp (PMany m))) m w r"

text \<open>\<open>errors.As\<close> for the interface \<open>WriteHTTPResponse\<close>.\<close>

fun as_writer :: "goerror list \<Rightarrow> goerror option" where
  "as_writer [] = None"
| "as_writer (OtherError _ # es) = as_writer es"
| "as_writer (e # es) = Some e"

definition write_value :: "henv \<Rightarrow> payload \<Rightarrow> response \<Rightarrow> request \<Rightarrow> hstate" where
  "write_value h v w r =
     (let w = set_header ''Content-Type'' ''application/json'' w;
          gz = contains_sub (header_get (Header r) ''Accept-Encoding'') ''gzip'';
          w = (if gz then set_header ''Content-Encoding'' ''gzip'' w else w);
          (b, err) = h_encode h (shouldPrettyPrint r) v;
          out = (if gz then h_gzip h b else b)
      in (if out = [] then w else write_body out w,
          case err of None \<Rightarrow> [] | Some e \<Rightarrow> [ELog WARNING (''reason=encode, err=['' @ e @ '']'')]))"

definition WriteJSON :: "henv \<Rightarrow> response \<Rightarrow> request \<Rightarrow> body list \<Rightarrow> (unit, hstate) result" where
  "WriteJSON h w r bodies =
     (case (case find (\<lambda>b. b \<noteq> BNil) bodies of None \<Rightarrow> BNil | Some b \<Rightarrow> b) of
        BError None \<Rightarrow> Panic
      | BError (Some e) \<Rightarrow> Ok (write_error h e w r, httpError h e r)
      | BMany None \<Rightarrow> Panic
      | BMany (Some m) \<Rightarrow> Ok (write_many h m w r, [])
      | BWriter ops \<Rightarrow> Ok (run_ops ops w, [])
      | BOtherError txt chain \<Rightarrow>
          (case as_writer chain of
             Some (AsError e) \<Rightarrow> Ok (write_error h e w r, [])
           | Some (AsMany None) \<Rightarrow> Panic
           | Some (AsMany (Some m)) \<Rightarrow> Ok (write_many h m w r, [])
           | _ \<Rightarrow>
               let e = WithUnexpected txt []
               in Ok (write_error h e w r, ELog DEBUG (''reason=generic_error, err=['' @ txt @ '']'') # httpError h e r))
      | BNil \<Rightarrow> Ok (write_value h PNil w r)
      | BValue v \<Rightarrow> Ok (write_value h (PValue v) w r))"

definition WritePlainJSON :: "henv \<Rightarrow> response \<Rightarrow> int \<Rightarrow> payload \<Rightarrow> bool \<Rightarrow> hstate" where
  "WritePlainJSON h w sc v pretty =
     (let w = set_header ''Content-Type'' ''application/json'' w;
          w = write_header sc w;
          (b, err) = h_encode h pretty v
      in (if b = [] then w else write_body b w,
          case err of None \<Rightarrow> [] | Some e \<Rightarrow> [ELog WARNING (''reason=encode, err=['' @ e @ '']'')]))"

text \<open>\<open>DecodeBody\<close>: \<open>decoded\<close> is what the codec makes of the request's body, \<open>typ\<close> the name of the wanted
  type.\<close>

definition DecodeBody ::
  "henv \<Rightarrow> response \<Rightarrow> request \<Rightarrow> string \<Rightarrow> (string, 'v) result \<Rightarrow> (unit, hstate \<times> (string, 'v) result) result" where
  "DecodeBody h w r typ decoded =
     (case decoded of
        Panic \<Rightarrow> Panic
      | Ok v \<Rightarrow> Ok ((w, []), Ok v)
      | Err e \<Rightarrow>
          bind_result
            (WriteJSON h w r [BError (Some (WithCause
               (httperror_New 400 ''invalid_json'' (''failed to decode '' @ [CHR 0x27] @ ''%T'' @ [CHR 0x27] @ '': %v'') [typ, e])
               (Some (OtherError e))))])
            (\<lambda>st. Ok (st, Err e)))"

section \<open>identity/realip.go, ctx.go, identity.go\<close>

fun first_public :: "string list \<Rightarrow> string option" where
  "first_public [] = None"
| "first_public (a # as) =
     (let a = trim_space a in if IsPrivateAddress a = Ok False then Some a else first_public as)"

definition ClientIPFromRequest :: "henv \<Rightarrow> request \<Rightarrow> string" where
  "ClientIPFromRequest h r =
     (let xRealIP = header_get (Header r) ''X-Real-Ip'';
          xForwardedFor = header_get (Header r) ''X-Forwarded-For''
      in if xRealIP = [] \<and> xForwardedFor = [] then
           (let remoteIP = (if CHR '':'' \<in> set (RemoteAddr r)
                            then (case SplitHostPort (RemoteAddr r) of Some a \<Rightarrow> a | None \<Rightarrow> [])
                            else RemoteAddr r)
            in if remoteIP = [] then (case h_localIP h of Ok a \<Rightarrow> a | _ \<Rightarrow> []) else remoteIP)
         else case first_public (split_on CHR '','' xForwardedFor) of
                Some a \<Rightarrow> a
              | None \<Rightarrow> xRealIP)"

definition GuestIdentityMapper :: "henv \<Rightarrow> request \<Rightarrow> (string, identity option) result" where
  "GuestIdentityMapper h r =
     (let name = (case PeerCNs r of Some (cn # _) \<Rightarrow> cn | _ \<Rightarrow> ClientIPFromRequest h r)
      in Ok (Some (NewIdentity GuestRoleName name [])))"

definition WithTestIdentity :: "henv \<Rightarrow> request \<Rightarrow> identity option \<Rightarrow> request" where
  "WithTestIdentity h r i =
     r\<lparr>rcontext := AddToContext (rcontext r)
         (Some \<lparr>rc_identity = i, correlationID = extractCorrelationID (\<lambda>_. h_guid h) r, clientIP = h_nodeIP h\<rparr>)\<rparr>"

definition NewContextHandler ::
  "henv \<Rightarrow> (request \<Rightarrow> (string, identity option) result) \<Rightarrow> handler \<Rightarrow> handler" where
  "NewContextHandler h identityMapper delegate r st =
     (let (w, fx) = st;
          w = set_header ''X-HostName'' (h_hostname h) w
      in case keyContext (rcontext r) of
           None \<Rightarrow>
             (let ip = ClientIPFromRequest h r
              in case identityMapper r of
                   Panic \<Rightarrow> Panic
                 | Err e \<Rightarrow>
                     bind_result (WriteJSON h w r [BError (Some (WithUnauthorized e []))]) (\<lambda>(w, ls).
                       Ok (w, fx @ ELog ERROR (''reason=identityMapper, ip='' @ h_quote h ip @ '', err=['' @ e @ '']'') # ls))
                 | Ok i \<Rightarrow>
                     (let rctx = \<lparr>rc_identity = i, correlationID = extractCorrelationID (\<lambda>_. h_guid h) r, clientIP = ip\<rparr>;
                          r = r\<lparr>rcontext := AddToContext (rcontext r) (Some rctx)\<rparr>
                      in delegate r (set_header ''X-Correlation-ID'' (correlationID rctx) w, fx)))
         | Some None \<Rightarrow> Panic
         | Some (Some rctx) \<Rightarrow> delegate r (set_header ''X-Correlation-ID'' (correlationID rctx) w, fx))"

section \<open>response_capture.go\<close>

text \<open>Running a handler on a response wrapped in a new capture; what the capture recorded is given back
  beside the state.\<close>

definition captured :: "handler \<Rightarrow> request \<Rightarrow> hstate \<Rightarrow> (unit, ResponseCapture \<times> hstate) result" where
  "captured nxt r st =
     (let (w, fx) = st
      in bind_result (nxt r (w\<lparr>captures := NewResponseCapture # captures w\<rparr>, fx)) (\<lambda>(w', fx').
           case captures w' of
             [] \<Rightarrow> Panic
           | rc # cs \<Rightarrow> Ok (rc, w'\<lparr>captures := cs\<rparr>, fx')))"

section \<open>request_metrics.go\<close>

definition responseCodes :: "string list" where
  "responseCodes = map (\<lambda>i. itoa (int i)) [0..<599]"

definition status_code :: "int \<Rightarrow> string" where
  "status_code sc = (if sc < int (length responseCodes) \<and> sc > 0 then responseCodes ! nat sc else itoa sc)"

definition keyForHTTPReqPerf :: "string list" where
  "keyForHTTPReqPerf = [''http'', ''request'', ''perf'']"

definition keyForHTTPReqSuccessful :: "string list" where
  "keyForHTTPReqSuccessful = [''http'', ''request'', ''status'', ''successful'']"

definition keyForHTTPReqFailed :: "string list" where
  "keyForHTTPReqFailed = [''http'', ''request'', ''status'', ''failed'']"

definition request_tags :: "request \<Rightarrow> string \<Rightarrow> int \<Rightarrow> Tag list" where
  "request_tags r rl sc =
     [\<lparr>TagName = ''method'', TagValue = Method r\<rparr>, \<lparr>TagName = ''role'', TagValue = rl\<rparr>,
      \<lparr>TagName = ''status'', TagValue = status_code sc\<rparr>, \<lparr>TagName = ''uri'', TagValue = URLPath r\<rparr>]"

text \<open>The method \<open>Role\<close> of a nil identity panics.\<close>

definition requestMetrics_ServeHTTP :: "handler \<Rightarrow> handler" where
  "requestMetrics_ServeHTTP nxt r st =
     bind_result (captured nxt r st) (\<lambda>(rc, w, fx).
       case rc_identity (FromRequest r) of
         None \<Rightarrow> Panic
       | Some i \<Rightarrow>
           let sc = statusCode rc; tags = request_tags r (id_role i) sc
           in Ok (w, fx @ [EMeasure keyForHTTPReqPerf tags,
                           EIncr (if sc \<ge> 400 then keyForHTTPReqFailed else keyForHTTPReqSuccessful) tags]))"

section \<open>request_logger.go\<close>

record LoggerSkipPath =
  skPath :: string
  skAgent :: string

record configuration =
  skippaths :: "LoggerSkipPath list"
  rl_prefix :: string
  granularity :: int
  extractor :: "(ResponseCapture \<Rightarrow> request \<Rightarrow> string list) option"

definition WithLoggerSkipPaths :: "LoggerSkipPath list \<Rightarrow> configuration \<Rightarrow> configuration" where
  "WithLoggerSkipPaths v c = c\<lparr>skippaths := v\<rparr>"

definition NewRequestLogger ::
  "string \<Rightarrow> (ResponseCapture \<Rightarrow> request \<Rightarrow> string list) option \<Rightarrow> duration \<Rightarrow>
   (configuration \<Rightarrow> configuration) list \<Rightarrow> configuration" where
  "NewRequestLogger prfx extra gran opts =
     fold (\<lambda>opt c. opt c) opts \<lparr>skippaths = [], rl_prefix = prfx, granularity = gran, extractor = extra\<rparr>"

definition client_name :: "request \<Rightarrow> string" where
  "client_name r = (case PeerCNs r of Some (cn # _) \<Rightarrow> cn | _ \<Rightarrow> [])"

definition agent_of :: "request \<Rightarrow> string" where
  "agent_of r = (let agent = header_get (Header r) ''User-Agent'' in if agent = [] then ''no-agent'' else agent)"

definition skipped :: "configuration \<Rightarrow> request \<Rightarrow> bool" where
  "skipped c r =
     list_ex (\<lambda>skip. (skPath skip = ''*'' \<or> URLPath r = skPath skip) \<and>
                     (skAgent skip = ''*'' \<or> contains_sub (agent_of r) (skAgent skip))) (skippaths c)"

definition request_line :: "henv \<Rightarrow> configuration \<Rightarrow> ResponseCapture \<Rightarrow> request \<Rightarrow> string" where
  "request_line h c rc r =
     (let fields = (case extractor c of None \<Rightarrow> [] | Some f \<Rightarrow> f rc r);
          extra = (if length fields > 0 then '':'' @ join '':'' fields else [])
      in sprintf ''%s:%s:%s:%s:%s:%d:%d.%d:%d:%v:%q%s''
           [rl_prefix c, client_name r, Method r, URLPath r, RemoteAddr r, itoa (statusCode rc), itoa (ProtoMajor r),
            itoa (ProtoMinor r), show_nat (unat (bodySize rc)), itoa (go_quot (h_elapsed h) (granularity c)),
            h_quote h (agent_of r), extra])"

definition RequestLogger_ServeHTTP :: "henv \<Rightarrow> configuration \<Rightarrow> handler \<Rightarrow> handler" where
  "RequestLogger_ServeHTTP h c nxt r st =
     bind_result (captured nxt r st) (\<lambda>(rc, w, fx).
       if skipped c r then Ok (w, fx)
       else if granularity c = 0 then Panic
       else Ok (w, fx @ [ELog INFO (request_line h c rc r)]))"

section \<open>request_profiler.go\<close>

datatype ProfileType = ProfileCPU | ProfileMem

definition ProfileType_String :: "ProfileType \<Rightarrow> string" where
  "ProfileType_String t = (case t of ProfileCPU \<Rightarrow> ''cpu'' | ProfileMem \<Rightarrow> ''mem'')"

text \<open>The files a request's profiles go to; \<open>None\<close> where no file can be made. \<open>cpu_started\<close> is whether the
  runtime starts a profile. The deferred calls run in the reverse order of their registration. The
  lock is held only while one request is profiled.\<close>

record profiler_env =
  pr_cpu :: "(string, string) result"
  pr_mem :: "(string, string) result"
  cpu_started :: "string option"
  pr_allow :: "ProfileType \<Rightarrow> request \<Rightarrow> bool"

definition LogProfile :: "ProfileType \<Rightarrow> request \<Rightarrow> string \<Rightarrow> effect" where
  "LogProfile t r f =
     ELog INFO (sprintf ''profile=%v, status=created, url=%s, location=%s'' [ProfileType_String t, URLPath r, f])"

definition requestProfiler_ServeHTTP :: "profiler_env \<Rightarrow> handler \<Rightarrow> handler" where
  "requestProfiler_ServeHTTP P nxt r st =
     (let cpu = mget (URLQuery r) ''profile.cpu'' \<noteq> None; mem = mget (URLQuery r) ''profile.mem'' \<noteq> None;
          (w, fx) = st;
          (cpu_pre, cpu_post) =
            (if cpu \<and> pr_allow P ProfileCPU r then
               (case pr_cpu P of
                  Ok f \<Rightarrow> (case cpu_started P of
                             None \<Rightarrow> ([], [LogProfile ProfileCPU r f])
                           | Some e \<Rightarrow> ([ELog INFO (''status=unable_start, profile=cpu, err='' @ e)], []))
                | Err e \<Rightarrow> ([ELog ERROR (''status=unable_create_file, profile=cpu, err='' @ e)], [])
                | Panic \<Rightarrow> ([], []))
             else ([], []));
          (mem_pre, mem_post) =
            (if mem \<and> pr_allow P ProfileMem r then
               (case pr_mem P of
                  Ok f \<Rightarrow> ([], [LogProfile ProfileMem r f])
                | Err e \<Rightarrow> ([ELog INFO (''status=unable_create_file, profile=memory, err='' @ e)], [])
                | Panic \<Rightarrow> ([], []))
             else ([], []))
      in bind_result (nxt r (w, fx @ cpu_pre @ mem_pre)) (\<lambda>(w', fx'). Ok (w', fx' @ mem_post @ cpu_post)))"

section \<open>xhttp.go\<close>

record URL =
  Scheme :: string
  uHost :: string
  uPath :: string

definition GetRelativeURL :: "request \<Rightarrow> string \<Rightarrow> URL" where
  "GetRelativeURL r endpoint =
     (let proto = (if PeerCNs r \<noteq> None then ''https'' else ''http'');
          specified = header_get (Header r) ''X-Forwarded-Proto'';
          proto = (if specified \<noteq> [] then specified else proto)
      in \<lparr>Scheme = proto, uHost = (if Host r = [] then ''localhost'' else Host r), uPath = endpoint\<rparr>)"

end
