(* ===== verification/RestServer.thy ===== *)
theory RestServer
  imports Xhttp Tasks
begin

text \<open>
  The package \<open>rest\<close>: the router (router.go), the readiness check (ready/ready.go), configuration
  helpers (config.go) and the server (server.go) that puts the handlers of \<open>xhttp\<close>, \<open>identity\<close> and \<open>authz\<close>
  around the services' own handlers. httprouter and the CORS middleware are third-party and
  arguments; listeners and the goroutine that serves are the environment and the steps of a
  transition system.
\<close>

section \<open>rest/config.go\<close>

definition GetPort :: "string \<Rightarrow> string" where
  "GetPort bindAddr = (if CHR '':'' \<in> set bindAddr then after_last CHR '':'' bindAddr else ''443'')"

definition GetHostName :: "string \<Rightarrow> string \<Rightarrow> string" where
  "GetHostName osHostname bindAddr =
     (let hn = (if CHR '':'' \<in> set bindAddr
                then take (length bindAddr - length (after_last CHR '':'' bindAddr) - 1) bindAddr else bindAddr)
      in if hn = [] then osHostname else hn)"

section \<open>rest/router.go\<close>

type_synonym Params = "(string \<times> string) list"

fun ByName :: "Params \<Rightarrow> string \<Rightarrow> string" where
  "ByName [] n = []"
| "ByName (p # ps) n = (if fst p = n then snd p else ByName ps n)"

text \<open>A handler of a service: the calls it makes on the response writer and its other effects.\<close>

type_synonym Handle = "request \<Rightarrow> Params \<Rightarrow> (unit, rop list \<times> effect list) result"

datatype http_method = GET | HEAD | OPTIONS | POST | PUT | PATCH | DELETE | CONNECT

fun method_name :: "http_method \<Rightarrow> string" where
  "method_name GET = ''GET''"
| "method_name HEAD = ''HEAD''"
| "method_name OPTIONS = ''OPTIONS''"
| "method_name POST = ''POST''"
| "method_name PUT = ''PUT''"
| "method_name PATCH = ''PATCH''"
| "method_name DELETE = ''DELETE''"
| "method_name CONNECT = ''CONNECT''"

text \<open>httprouter: registered handles are known by number; a request is routed to one, is not found, or
  is answered by the router itself (redirects, methods not allowed). Registering a conflicting route
  panics.\<close>

datatype routed = RouteTo nat Params | RouteNotFound | RouteAnswer "rop list"

record 'rt httprouter =
  hr_new :: 'rt
  hr_handle :: "'rt \<Rightarrow> string \<Rightarrow> string \<Rightarrow> nat \<Rightarrow> (unit, 'rt) result"
  hr_find :: "'rt \<Rightarrow> request \<Rightarrow> routed"

text \<open>The CORS middleware answers a request itself or adds headers and passes it on.\<close>

datatype cors_answer = CorsStop "rop list" | CorsNext "rop list"

record CORSOptions =
  AllowedOrigins :: "string list"
  AllowOriginFunc :: "(string \<Rightarrow> bool) option"
  AllowOriginRequestFunc :: "(request \<Rightarrow> string \<Rightarrow> bool) option"
  AllowedMethods :: "string list"
  AllowedHeaders :: "string list"
  ExposedHeaders :: "string list"
  MaxAge :: int
  AllowCredentials :: bool
  OptionsPassthrough :: bool
  CORSDebug :: bool

record 'rt proxy =
  px_router :: 'rt
  px_handles :: "Handle list"
  px_cors :: "(request \<Rightarrow> cors_answer) option"

definition NewRouter :: "'rt httprouter \<Rightarrow> 'rt proxy" where
  "NewRouter hr = \<lparr>px_router = hr_new hr, px_handles = [], px_cors = None\<rparr>"

text \<open>\<open>cors_New\<close> stands for \<open>cors.New\<close>, which gets the options field by field, and \<open>cors.Default\<close>.\<close>

definition NewRouterWithCORS ::
  "'rt httprouter \<Rightarrow> (CORSOptions option \<Rightarrow> request \<Rightarrow> cors_answer) \<Rightarrow> CORSOptions option \<Rightarrow> 'rt proxy" where
  "NewRouterWithCORS hr cors_New opt = \<lparr>px_router = hr_new hr, px_handles = [], px_cors = Some (cors_New opt)\<rparr>"

definition proxy_register :: "'rt httprouter \<Rightarrow> http_method \<Rightarrow> string \<Rightarrow> Handle \<Rightarrow> 'rt proxy \<Rightarrow> (unit, 'rt proxy) result" where
  "proxy_register hr m path hdl p =
     bind_result (hr_handle hr (px_router p) (method_name m) path (length (px_handles p))) (\<lambda>rt.
       Ok (p\<lparr>px_router := rt, px_handles := px_handles p @ [hdl]\<rparr>))"

definition proxyHandle :: "Handle \<Rightarrow> Params \<Rightarrow> handler" where
  "proxyHandle hdl ps r st =
     bind_result (hdl r ps) (\<lambda>(ops, ls). Ok (run_ops ops (fst st), snd st @ ls))"

definition notFoundHandler :: "henv \<Rightarrow> handler" where
  "notFoundHandler h r st =
     bind_result (WriteJSON h (fst st) r [BError (Some (WithNotFound (URLPath r) []))]) (\<lambda>(w, ls). Ok (w, snd st @ ls))"

definition route :: "'rt httprouter \<Rightarrow> henv \<Rightarrow> 'rt proxy \<Rightarrow> handler" where
  "route hr h p r st =
     (case hr_find hr (px_router p) r of
        RouteNotFound \<Rightarrow> notFoundHandler h r st
      | RouteAnswer ops \<Rightarrow> Ok (run_ops ops (fst st), snd st)
      | RouteTo k ps \<Rightarrow> if k < length (px_handles p) then proxyHandle (px_handles p ! k) ps r st else Panic)"

definition proxy_Handler :: "'rt httprouter \<Rightarrow> henv \<Rightarrow> 'rt proxy \<Rightarrow> handler" where
  "proxy_Handler hr h p r st =
     (case px_cors p of
        None \<Rightarrow> route hr h p r st
      | Some c \<Rightarrow>
          (case c r of
             CorsStop ops \<Rightarrow> Ok (run_ops ops (fst st), snd st)
           | CorsNext ops \<Rightarrow> route hr h p r (run_ops ops (fst st), snd st)))"

section \<open>rest/ready/ready.go\<close>

definition errUnavailable :: Error where
  "errUnavailable = httperror_New 503 ''not_ready'' ''the service is not ready yet'' []"

definition ServiceReadyVerifier_ServeHTTP :: "henv \<Rightarrow> bool \<Rightarrow> handler \<Rightarrow> handler" where
  "ServiceReadyVerifier_ServeHTTP h isReady delegate r st =
     (if isReady then delegate r st
      else bind_result (WriteJSON h (fst st) r [BError (Some errUnavailable)]) (\<lambda>(w, ls). Ok (w, snd st @ ls)))"

section \<open>The server\<close>

datatype ClientAuthType =
  NoClientCert | RequestClientCert | RequireAnyClientCert | VerifyClientCertIfGiven | RequireAndVerifyClientCert

fun tlsClientAuthToStrMap :: "ClientAuthType \<Rightarrow> string" where
  "tlsClientAuthToStrMap NoClientCert = ''NoClientCert''"
| "tlsClientAuthToStrMap RequestClientCert = ''RequestClientCert''"
| "tlsClientAuthToStrMap RequireAnyClientCert = ''RequireAnyClientCert''"
| "tlsClientAuthToStrMap VerifyClientCertIfGiven = ''VerifyClientCertIfGiven''"
| "tlsClientAuthToStrMap RequireAndVerifyClientCert = ''RequireAndVerifyClientCert''"

record HTTPServerConfig =
  GetServiceName :: string
  GetBindAddr :: string
  GetAllowProfiling :: bool
  GetHeartbeatSecs :: int

text \<open>A service: its name, the routes it registers, whether it is ready and whether it was closed.\<close>

record Service =
  svName :: string
  svRoutes :: "(http_method \<times> string \<times> Handle) list"
  svReady :: bool
  svClosed :: bool

text \<open>The handler \<open>NewMux\<close> builds, with the parts of its closures.\<close>

record 'rt mux =
  mx_router :: "'rt proxy"
  mx_authz :: "authHandler option"
  mx_logger :: configuration
  mx_mapper :: "(request \<Rightarrow> (string, identity option) result) option"
  mx_profiled :: bool

text \<open>\<open>httpServer\<close> is \<open>None\<close> before \<open>StartHTTP\<close> and has a handler once that got so far. The scheduler is the
  list of its tasks; \<open>fired\<close> collects what the server did outside of requests.\<close>

record 'rt HTTPServer =
  auditor :: bool
  authz :: "Provider option"
  identityMapper :: "(request \<Rightarrow> (string, identity option) result) option"
  httpConfig :: HTTPServerConfig
  tlsConfig :: "ClientAuthType option"
  httpServer :: "'rt mux option option"
  cors :: "CORSOptions option"
  hostname :: string
  port :: string
  ipaddr :: string
  version :: string
  serving :: bool
  startedAt :: time
  clientAuth :: string
  scheduler :: "task list option"
  services :: "(string, Service) gomap"
  evtHandlers :: "(ServerEvent, nat list) gomap"
  shutdownTimeout :: duration
  fired :: "effect list"

definition Server_New ::
  "string \<Rightarrow> (string, string) result \<Rightarrow> string \<Rightarrow> time \<Rightarrow> string \<Rightarrow> HTTPServerConfig \<Rightarrow> ClientAuthType option \<Rightarrow> 'rt HTTPServer" where
  "Server_New osHostname localIP ver now ip conf tlsc =
     (let ip = (if ip = [] then (case localIP of Ok a \<Rightarrow> a | _ \<Rightarrow> ''127.0.0.1'') else ip)
      in \<lparr>auditor = False, authz = None, identityMapper = None, httpConfig = conf, tlsConfig = tlsc, httpServer = None,
          cors = None, hostname = GetHostName osHostname (GetBindAddr conf), port = GetPort (GetBindAddr conf),
          ipaddr = ip, version = ver, serving = False, startedAt = now,
          clientAuth = tlsClientAuthToStrMap (case tlsc of None \<Rightarrow> NoClientCert | Some c \<Rightarrow> c),
          scheduler = None, services = [], evtHandlers = [], shutdownTimeout = 5 * second, fired = []\<rparr>)"

definition WithAuditor :: "bool \<Rightarrow> 'rt HTTPServer \<Rightarrow> 'rt HTTPServer" where
  "WithAuditor a s = s\<lparr>auditor := a\<rparr>"

definition WithAuthz :: "Provider option \<Rightarrow> 'rt HTTPServer \<Rightarrow> 'rt HTTPServer" where
  "WithAuthz a s = s\<lparr>authz := a\<rparr>"

definition WithIdentityProvider ::
  "(request \<Rightarrow> (string, identity option) result) option \<Rightarrow> 'rt HTTPServer \<Rightarrow> 'rt HTTPServer" where
  "WithIdentityProvider m s = s\<lparr>identityMapper := m\<rparr>"

definition WithScheduler :: "task list option \<Rightarrow> 'rt HTTPServer \<Rightarrow> 'rt HTTPServer" where
  "WithScheduler sch s = s\<lparr>scheduler := sch\<rparr>"

definition WithCORS :: "CORSOptions option \<Rightarrow> 'rt HTTPServer \<Rightarrow> 'rt HTTPServer" where
  "WithCORS c s = s\<lparr>cors := c\<rparr>"

definition WithShutdownTimeout :: "duration \<Rightarrow> 'rt HTTPServer \<Rightarrow> 'rt HTTPServer" where
  "WithShutdownTimeout t s = s\<lparr>shutdownTimeout := t\<rparr>"

definition AddService :: "Service \<Rightarrow> 'rt HTTPServer \<Rightarrow> 'rt HTTPServer" where
  "AddService sv s = s\<lparr>services := mput (svName sv) sv (services s)\<rparr>"

definition handlers_of :: "'rt HTTPServer \<Rightarrow> ServerEvent \<Rightarrow> nat list" where
  "handlers_of s e = (case mget (evtHandlers s) e of None \<Rightarrow> [] | Some hs \<Rightarrow> hs)"

definition OnEvent :: "ServerEvent \<Rightarrow> nat \<Rightarrow> 'rt HTTPServer \<Rightarrow> 'rt HTTPServer" where
  "OnEvent e hdl s = s\<lparr>evtHandlers := mput e (handlers_of s e @ [hdl]) (evtHandlers s)\<rparr>"

definition get_service :: "'rt HTTPServer \<Rightarrow> string \<Rightarrow> Service option" where
  "get_service s n = mget (services s) n"

definition Protocol :: "'rt HTTPServer \<Rightarrow> string" where
  "Protocol s = (if tlsConfig s \<noteq> None then ''https'' else ''http'')"

definition Uptime :: "time \<Rightarrow> 'rt HTTPServer \<Rightarrow> duration" where
  "Uptime now s = now - startedAt s"

definition IsReady :: "'rt HTTPServer \<Rightarrow> bool" where
  "IsReady s = (if \<not> serving s then False else list_all (\<lambda>(_, sv). svReady sv) (services s))"

definition Audit_effect :: "'rt HTTPServer \<Rightarrow> string \<Rightarrow> string \<Rightarrow> string \<Rightarrow> string \<Rightarrow> uint64 \<Rightarrow> string \<Rightarrow> effect" where
  "Audit_effect s source eventType identity contextID raftIndex message =
     (if auditor s then EAudit source eventType identity contextID raftIndex message
      else ELog INFO (sprintf ''audit:%s:%s:%s:%s:%d:%s'' [source, eventType, identity, contextID, show_nat (unat raftIndex), message] @ newline))"

section \<open>NewMux\<close>

text \<open>\<open>Register\<close> of a service.\<close>

fun register_routes :: "'rt httprouter \<Rightarrow> (http_method \<times> string \<times> Handle) list \<Rightarrow> 'rt proxy \<Rightarrow> (unit, 'rt proxy) result" where
  "register_routes hr [] p = Ok p"
| "register_routes hr ((m, path, hdl) # rs) p = bind_result (proxy_register hr m path hdl p) (register_routes hr rs)"

fun register_services :: "'rt httprouter \<Rightarrow> (string \<times> Service) list \<Rightarrow> 'rt proxy \<Rightarrow> (unit, 'rt proxy) result" where
  "register_services hr [] p = Ok p"
| "register_services hr ((_, sv) # svs) p = bind_result (register_routes hr (svRoutes sv) p) (register_services hr svs)"

definition serverExtraLogger :: "ResponseCapture \<Rightarrow> request \<Rightarrow> string list" where
  "serverExtraLogger rc r = [correlationID (FromRequest r)]"

definition NewMux ::
  "'rt httprouter \<Rightarrow> (CORSOptions option \<Rightarrow> request \<Rightarrow> cors_answer) \<Rightarrow> (Config \<Rightarrow> Config \<Rightarrow> Config) \<Rightarrow> 'rt HTTPServer \<Rightarrow>
   (unit, 'rt mux) result" where
  "NewMux hr cors_New copy s =
     bind_result
       (register_services hr (services s)
          (if cors s \<noteq> None then NewRouterWithCORS hr cors_New (cors s) else NewRouter hr)) (\<lambda>p.
     case (case authz s of None \<Rightarrow> Ok None | Some a \<Rightarrow> bind_result (NewHandler copy a) (\<lambda>ah. Ok (Some ah))) of
       Ok ah \<Rightarrow>
         Ok \<lparr>mx_router = p, mx_authz = ah,
             mx_logger = NewRequestLogger (GetServiceName (httpConfig s)) (Some serverExtraLogger) millisecond [],
             mx_mapper = identityMapper s, mx_profiled = False\<rparr>
     | _ \<Rightarrow> Panic)"

text \<open>\<open>ServeHTTP\<close> of \<open>authHandler\<close> (xhttp/authz/authz.go): the delegate runs on a request that passes; any other is answered by
  \<open>marshal.WriteJSON\<close> with \<open>httperror.WithUnauthorized\<close> of the text of the error. The provider that \<open>checkAccess\<close> returns is the
  handler's own: its tree is there, so looking it up changes nothing (lemma \<open>handler_decision\<close>).\<close>

definition authz_text :: "henv \<Rightarrow> authz_error \<Rightarrow> string" where
  "authz_text h e = (case e of RoleNotAllowed rl \<Rightarrow> ''the '' @ h_quote h rl @ '' role is not allowed'' | _ \<Rightarrow> [])"

definition authz_ServeHTTP :: "henv \<Rightarrow> authHandler \<Rightarrow> handler \<Rightarrow> handler" where
  "authz_ServeHTTP h a delegate r st =
     (case checkAccess (config a) r of
        Panic \<Rightarrow> Panic
      | Ok _ \<Rightarrow> delegate r st
      | Err e \<Rightarrow>
          bind_result (WriteJSON h (fst st) r [BError (Some (WithUnauthorized (authz_text h e) []))]) (\<lambda>(w, ls). Ok (w, snd st @ ls)))"

text \<open>Serving a request: the readiness is that of the server at this time.\<close>

definition mux_ServeHTTP :: "'rt httprouter \<Rightarrow> henv \<Rightarrow> 'rt HTTPServer \<Rightarrow> 'rt mux \<Rightarrow> handler" where
  "mux_ServeHTTP hr h s mx =
     (let hd1 = ServiceReadyVerifier_ServeHTTP h (IsReady s) (proxy_Handler hr h (mx_router mx));
          hd2 = (case mx_authz mx of None \<Rightarrow> hd1 | Some ah \<Rightarrow> authz_ServeHTTP h ah hd1);
          hd3 = RequestLogger_ServeHTTP h (mx_logger mx) hd2;
          hd4 = requestMetrics_ServeHTTP hd3
      in NewContextHandler h (case mx_mapper mx of Some m \<Rightarrow> m | None \<Rightarrow> GuestIdentityMapper h) hd4)"

definition Server_ServeHTTP :: "'rt httprouter \<Rightarrow> henv \<Rightarrow> profiler_env \<Rightarrow> 'rt HTTPServer \<Rightarrow> handler" where
  "Server_ServeHTTP hr h P s r st =
     (case httpServer s of
        None \<Rightarrow> Panic
      | Some None \<Rightarrow> Panic
      | Some (Some mx) \<Rightarrow>
          if mx_profiled mx then requestProfiler_ServeHTTP P (mux_ServeHTTP hr h s mx) r st
          else mux_ServeHTTP hr h s mx r st)"

end
