(* ===== verification/RestFacts.thy ===== *)
theory RestFacts
  imports RestServer AuthzPolicy
begin

text \<open>
  What a request meets on its way through the server. Every handler of the chain honours the
  contract of \<open>http.Handler\<close> as these packages rely on it: it acts on the response only through the
  response writer, so it is a program of writer calls that depends on the request alone. The
  contract is the locale \<open>http_handler\<close>; the wrapping handlers pass it on (sublocales), the handlers at
  the end of the chain have it (interpretations).
\<close>

section \<open>Programs of writer calls\<close>

type_synonym program = "request \<Rightarrow> (unit, rop list \<times> effect list) result"

definition run_program :: "program \<Rightarrow> handler" where
  "run_program prog r st = bind_result (prog r) (\<lambda>(ops, ls). Ok (run_ops ops (fst st), snd st @ ls))"

text \<open>What a capture records of a list of calls.\<close>

fun cap_op :: "rop \<Rightarrow> ResponseCapture \<Rightarrow> ResponseCapture" where
  "cap_op (WSet k v) c = c"
| "cap_op (WHeader sc) c = c\<lparr>statusCode := sc\<rparr>"
| "cap_op (WBody b) c = c\<lparr>bodySize := bodySize c + of_nat (length b)\<rparr>"

definition cap_run :: "rop list \<Rightarrow> ResponseCapture" where
  "cap_run ops = fold cap_op ops NewResponseCapture"

lemma run_ops_Nil [simp]: "run_ops [] w = w" and run_ops_Cons [simp]: "run_ops (x # xs) w = run_ops xs (run_op x w)"
  by (simp_all add: run_ops_def)

lemma run_ops_append [simp]: "run_ops (xs @ ys) w = run_ops ys (run_ops xs w)"
  by (simp add: run_ops_def)

lemma run_op_captured:
  "run_op x (w\<lparr>captures := c # cs\<rparr>) =
     (let w' = run_op x (w\<lparr>captures := cs\<rparr>) in w'\<lparr>captures := cap_op x c # captures w'\<rparr>)"
  by (cases x) (simp_all add: set_header_def write_header_def write_body_def)

lemma run_ops_captured:
  "run_ops ops (w\<lparr>captures := c # cs\<rparr>) =
     (let w' = run_ops ops (w\<lparr>captures := cs\<rparr>) in w'\<lparr>captures := fold cap_op ops c # captures w'\<rparr>)"
proof (induction ops arbitrary: w c cs)
  case (Cons x ops)
  let ?w = "run_op x (w\<lparr>captures := cs\<rparr>)"
  have "run_ops (x # ops) (w\<lparr>captures := c # cs\<rparr>) = run_ops ops (?w\<lparr>captures := cap_op x c # captures ?w\<rparr>)"
    by (simp add: run_op_captured Let_def)
  then show ?case using Cons [where w = ?w and c = "cap_op x c" and cs = "captures ?w"] by (simp add: Let_def)
qed simp

section \<open>The contract\<close>

locale http_handler =
  fixes hdl :: handler and prog :: program
  assumes runs: "hdl r st = run_program prog r st"
begin

text \<open>A capture around a handler records its calls and takes nothing from them.\<close>

lemma captured_runs:
  "captured hdl r st =
     bind_result (prog r) (\<lambda>(ops, ls). Ok (cap_run ops, run_ops ops (fst st), snd st @ ls))"
proof (cases st)
  case (Pair w fx)
  show ?thesis
  proof (cases "prog r")
    case (Ok x)
    obtain ops ls where x: "x = (ops, ls)" by (cases x)
    have "run_ops ops (w\<lparr>captures := NewResponseCapture # captures w\<rparr>) =
        (run_ops ops w)\<lparr>captures := cap_run ops # captures (run_ops ops w)\<rparr>"
      using run_ops_captured [where ops = ops and w = w and c = NewResponseCapture and cs = "captures w"] by (simp add: cap_run_def Let_def)
    then show ?thesis using Ok by (simp add: captured_def runs run_program_def Pair x)
  qed (simp_all add: captured_def runs run_program_def Pair)
qed

lemma appends: "hdl r (w, fx @ fx') = bind_result (hdl r (w, fx')) (\<lambda>(w', l). Ok (w', fx @ l))"
  by (cases "prog r") (auto simp: runs run_program_def)

end

text \<open>The programs of the handlers.\<close>

definition error_program :: "henv \<Rightarrow> Error \<Rightarrow> program" where
  "error_program h e r =
     Ok ([WSet ''Content-Type'' ''application/json'', WHeader (HTTPStatus e), WBody (fst (h_encode h (shouldPrettyPrint r) (PError e)))],
         httpError h e r)"

lemma WriteJSON_error:
  "WriteJSON h w r [BError (Some e)] = run_program (error_program h e) r (w, [])"
  by (simp add: WriteJSON_def error_program_def run_program_def write_error_def Error_WriteHTTPResponse_def
      set_header_def Let_def)

lemma WriteJSON_error_state:
  "bind_result (WriteJSON h (fst st) r [BError (Some e)]) (\<lambda>(w, ls). Ok (w, snd st @ ls)) =
   run_program (error_program h e) r st"
  unfolding WriteJSON_error by (simp add: run_program_def error_program_def)

definition route_program :: "'rt httprouter \<Rightarrow> henv \<Rightarrow> 'rt proxy \<Rightarrow> program" where
  "route_program hr h p r =
     (case hr_find hr (px_router p) r of
        RouteNotFound \<Rightarrow> error_program h (WithNotFound (URLPath r) []) r
      | RouteAnswer ops \<Rightarrow> Ok (ops, [])
      | RouteTo k ps \<Rightarrow> if k < length (px_handles p) then (px_handles p ! k) r ps else Panic)"

definition proxy_program :: "'rt httprouter \<Rightarrow> henv \<Rightarrow> 'rt proxy \<Rightarrow> program" where
  "proxy_program hr h p r =
     (case px_cors p of
        None \<Rightarrow> route_program hr h p r
      | Some c \<Rightarrow>
          (case c r of
             CorsStop ops \<Rightarrow> Ok (ops, [])
           | CorsNext ops \<Rightarrow> bind_result (route_program hr h p r) (\<lambda>(ops', ls). Ok (ops @ ops', ls))))"

interpretation router: http_handler "route hr h p" "route_program hr h p" for hr h p
proof
  fix r st
  show "route hr h p r st = run_program (route_program hr h p) r st"
  proof (cases "hr_find hr (px_router p) r")
    case RouteNotFound
    then show ?thesis
      by (simp add: route_def notFoundHandler_def WriteJSON_error_state) (simp add: run_program_def route_program_def)
  qed (simp_all add: route_def run_program_def route_program_def proxyHandle_def)
qed

interpretation proxy: http_handler "proxy_Handler hr h p" "proxy_program hr h p" for hr h p
proof
  fix r st
  show "proxy_Handler hr h p r st = run_program (proxy_program hr h p) r st"
    by (cases "route_program hr h p r")
      (auto simp: proxy_Handler_def proxy_program_def run_program_def router.runs split: option.splits cors_answer.splits)
qed

section \<open>The wrapping handlers\<close>

definition ready_program :: "henv \<Rightarrow> bool \<Rightarrow> program \<Rightarrow> program" where
  "ready_program h isReady prog r = (if isReady then prog r else error_program h errUnavailable r)"

definition authz_program :: "henv \<Rightarrow> authHandler \<Rightarrow> program \<Rightarrow> program" where
  "authz_program h ah prog r =
     (case checkAccess (config ah) r of
        Panic \<Rightarrow> Panic
      | Ok _ \<Rightarrow> prog r
      | Err e \<Rightarrow> error_program h (WithUnauthorized (authz_text h e) []) r)"

definition logger_program :: "henv \<Rightarrow> configuration \<Rightarrow> program \<Rightarrow> program" where
  "logger_program h c prog r =
     bind_result (prog r) (\<lambda>(ops, ls).
       if skipped c r then Ok (ops, ls)
       else if granularity c = 0 then Panic
       else Ok (ops, ls @ [ELog INFO (request_line h c (cap_run ops) r)]))"

definition metrics_effects :: "request \<Rightarrow> identity \<Rightarrow> rop list \<Rightarrow> effect list" where
  "metrics_effects r i ops =
     (let sc = statusCode (cap_run ops); tags = request_tags r (id_role i) sc
      in [EMeasure keyForHTTPReqPerf tags, EIncr (if sc \<ge> 400 then keyForHTTPReqFailed else keyForHTTPReqSuccessful) tags])"

definition metrics_program :: "program \<Rightarrow> program" where
  "metrics_program prog r =
     bind_result (prog r) (\<lambda>(ops, ls).
       case rc_identity (FromRequest r) of
         None \<Rightarrow> Panic
       | Some i \<Rightarrow> Ok (ops, ls @ metrics_effects r i ops))"

text \<open>A handler that another one wraps.\<close>

locale wrapped_handler = inner: http_handler nxt prog for nxt :: handler and prog :: program

sublocale wrapped_handler \<subseteq> ready: http_handler "ServiceReadyVerifier_ServeHTTP h isReady nxt" "ready_program h isReady prog" for h isReady
proof
  fix r st
  show "ServiceReadyVerifier_ServeHTTP h isReady nxt r st = run_program (ready_program h isReady prog) r st"
    by (auto simp: ServiceReadyVerifier_ServeHTTP_def ready_program_def WriteJSON_error_state inner.runs)
      (simp_all add: run_program_def ready_program_def)
qed

sublocale wrapped_handler \<subseteq> authz: http_handler "authz_ServeHTTP h ah nxt" "authz_program h ah prog" for h ah
proof
  fix r st
  show "authz_ServeHTTP h ah nxt r st = run_program (authz_program h ah prog) r st"
    by (cases "checkAccess (config ah) r")
      (simp_all add: authz_ServeHTTP_def WriteJSON_error_state inner.runs,
       simp_all add: run_program_def authz_program_def)
qed

sublocale wrapped_handler \<subseteq> logger: http_handler "RequestLogger_ServeHTTP h c nxt" "logger_program h c prog" for h c
proof
  fix r st
  show "RequestLogger_ServeHTTP h c nxt r st = run_program (logger_program h c prog) r st"
    by (cases "prog r") (auto simp: RequestLogger_ServeHTTP_def inner.captured_runs logger_program_def run_program_def)
qed

sublocale wrapped_handler \<subseteq> metered: http_handler "requestMetrics_ServeHTTP nxt" "metrics_program prog"
proof
  fix r st
  show "requestMetrics_ServeHTTP nxt r st = run_program (metrics_program prog) r st"
    by (cases "prog r"; cases "rc_identity (FromRequest r)")
      (auto simp: requestMetrics_ServeHTTP_def inner.captured_runs metrics_program_def metrics_effects_def run_program_def Let_def)
qed

section \<open>The chain of the server\<close>

definition guard_handler :: "henv \<Rightarrow> authHandler option \<Rightarrow> handler \<Rightarrow> handler" where
  "guard_handler h ah nxt = (case ah of None \<Rightarrow> nxt | Some a \<Rightarrow> authz_ServeHTTP h a nxt)"

definition guard_program :: "henv \<Rightarrow> authHandler option \<Rightarrow> program \<Rightarrow> program" where
  "guard_program h ah prog = (case ah of None \<Rightarrow> prog | Some a \<Rightarrow> authz_program h a prog)"

interpretation at_ready: wrapped_handler "proxy_Handler hr h p" "proxy_program hr h p" for hr h p
  by unfold_locales

interpretation at_authz: wrapped_handler "ServiceReadyVerifier_ServeHTTP h b (proxy_Handler hr h p)"
  "ready_program h b (proxy_program hr h p)" for hr h p b
  by unfold_locales

interpretation at_logger: wrapped_handler "guard_handler h ah (ServiceReadyVerifier_ServeHTTP h b (proxy_Handler hr h p))"
  "guard_program h ah (ready_program h b (proxy_program hr h p))" for hr h p b ah
proof unfold_locales
  fix r st
  show "guard_handler h ah (ServiceReadyVerifier_ServeHTTP h b (proxy_Handler hr h p)) r st =
      run_program (guard_program h ah (ready_program h b (proxy_program hr h p))) r st"
    by (cases ah) (simp_all add: guard_handler_def guard_program_def at_ready.ready.runs at_authz.authz.runs)
qed

interpretation at_metrics: wrapped_handler
  "RequestLogger_ServeHTTP h c (guard_handler h ah (ServiceReadyVerifier_ServeHTTP h b (proxy_Handler hr h p)))"
  "logger_program h c (guard_program h ah (ready_program h b (proxy_program hr h p)))" for hr h p b ah c
  by unfold_locales

definition mux_program :: "'rt httprouter \<Rightarrow> henv \<Rightarrow> bool \<Rightarrow> 'rt mux \<Rightarrow> program" where
  "mux_program hr h isReady mx =
     metrics_program (logger_program h (mx_logger mx)
       (guard_program h (mx_authz mx) (ready_program h isReady (proxy_program hr h (mx_router mx)))))"

lemma mux_ServeHTTP_program:
  "mux_ServeHTTP hr h s mx r st =
     NewContextHandler h (case mx_mapper mx of Some m \<Rightarrow> m | None \<Rightarrow> GuestIdentityMapper h)
       (run_program (mux_program hr h (IsReady s) mx)) r st"
proof -
  have "requestMetrics_ServeHTTP (RequestLogger_ServeHTTP h (mx_logger mx)
      (guard_handler h (mx_authz mx) (ServiceReadyVerifier_ServeHTTP h (IsReady s) (proxy_Handler hr h (mx_router mx))))) =
    run_program (mux_program hr h (IsReady s) mx)"
    by (intro ext) (simp add: at_metrics.metered.runs mux_program_def)
  then show ?thesis by (simp add: mux_ServeHTTP_def guard_handler_def Let_def)
qed

lemma NewMux_parts:
  assumes "NewMux hr cors_New copy s = Ok mx"
  shows "mx_mapper mx = identityMapper s \<and> mx_logger mx = NewRequestLogger (GetServiceName (httpConfig s)) (Some serverExtraLogger) millisecond [] \<and>
    (\<forall>az. authz s = Some az \<longrightarrow> (\<exists>ah. NewHandler copy az = Ok ah \<and> mx_authz mx = Some ah))"
proof -
  let ?ah = "case authz s of None \<Rightarrow> Ok None | Some a \<Rightarrow> bind_result (NewHandler copy a) (\<lambda>ah. Ok (Some ah))"
  obtain ah where ah: "?ah = Ok ah" and m: "mx_authz mx = ah" "mx_mapper mx = identityMapper s"
      "mx_logger mx = NewRequestLogger (GetServiceName (httpConfig s)) (Some serverExtraLogger) millisecond []"
    using assms by (cases ?ah) (auto simp: NewMux_def bind_result_eq_Ok)
  then show ?thesis by (auto simp: bind_result_eq_Ok)
qed

lemma NewMux_logger:
  assumes "NewMux hr cors_New copy s = Ok mx"
  shows "\<not> skipped (mx_logger mx) r" and "granularity (mx_logger mx) = millisecond"
  using NewMux_parts [OF assms] by (simp_all add: NewRequestLogger_def skipped_def)

text \<open>The request context that the server makes, and the role the policy is asked about.\<close>

definition new_context :: "henv \<Rightarrow> request \<Rightarrow> identity option \<Rightarrow> RequestContext" where
  "new_context h r i =
     \<lparr>rc_identity = i, correlationID = extractCorrelationID (\<lambda>_. h_guid h) r, clientIP = ClientIPFromRequest h r\<rparr>"

definition with_context :: "henv \<Rightarrow> request \<Rightarrow> identity option \<Rightarrow> request" where
  "with_context h r i = r\<lparr>rcontext := AddToContext (rcontext r) (Some (new_context h r i))\<rparr>"

definition role_of :: "identity \<Rightarrow> string" where
  "role_of i = (if id_role i = [] then GuestRoleName else id_role i)"

lemma with_context_simps [simp]:
  "FromRequest (with_context h r i) = new_context h r i" "Method (with_context h r i) = Method r"
  "URLPath (with_context h r i) = URLPath r" "rc_identity (new_context h r i) = i"
  by (simp_all add: with_context_def FromRequest_def new_context_def)

lemma defaultRoleMapper_with_context [simp]: "defaultRoleMapper (with_context h r (Some i)) = id_role i"
  by (simp add: defaultRoleMapper_def)

text \<open>The decision of the authorization handler is that of the configuration.\<close>

lemma checkAccess_policy:
  assumes "New c = Ok az" and "NewHandler copy az = Ok ah" and "valid_path (URLPath r)"
  shows "\<exists>c'. checkAccess (config ah) (with_context h r (Some i)) =
    (if Method r = ''OPTIONS'' \<or> cfg_allows c (segments (URLPath r)) (role_of i) then Ok c' else Err (RoleNotAllowed (role_of i)))"
proof -
  have a: "config ah = Clone copy az" using assms(2) by (auto simp: NewHandler_def split: if_splits)
  have m: "requestRoleMapper (config ah) = Some defaultRoleMapper"
    using New_grants [OF assms(1)] by (simp add: a Clone_def)
  have root: "root_of (config ah) = root_of az" using a Clone_decisions [OF wf_New [OF assms(1)]] by simp
  obtain logs where l: "isAllowed (config ah) (URLPath r) (role_of i) =
      Ok ((config ah)\<lparr>pathRoot := Some (root_of az)\<rparr>, tree_allows (root_of az) (segments (URLPath r)) (role_of i), logs)"
    using isAllowed_valid [OF assms(3), of "config ah" "role_of i"] root by auto
  have "tree_allows (root_of az) (segments (URLPath r)) (role_of i) = cfg_allows c (segments (URLPath r)) (role_of i)"
    using view_New [OF assms(1)] by (simp add: tree_allows_def cfg_allows_def)
  then show ?thesis using l m by (auto simp: checkAccess_def role_of_def Let_def)
qed

text \<open>What the services, the readiness check or the policy answer.\<close>

definition answer :: "'rt httprouter \<Rightarrow> henv \<Rightarrow> Config \<Rightarrow> bool \<Rightarrow> 'rt proxy \<Rightarrow> identity \<Rightarrow> program" where
  "answer hr h c isReady p i r =
     (if Method r = ''OPTIONS'' \<or> cfg_allows c (segments (URLPath r)) (role_of i)
      then if isReady then proxy_program hr h p r else error_program h errUnavailable r
      else error_program h (WithUnauthorized (''the '' @ h_quote h (role_of i) @ '' role is not allowed'') []) r)"

lemma served_by:
  assumes "New c = Ok az" and ah: "NewHandler copy az = Ok ah" "mx_authz mx = Some ah"
    and l: "\<And>r. \<not> skipped (mx_logger mx) r" "granularity (mx_logger mx) \<noteq> 0"
    and "valid_path (URLPath r)" and "keyContext (rcontext r) = None"
    and "(case mx_mapper mx of Some m \<Rightarrow> m | None \<Rightarrow> GuestIdentityMapper h) r = Ok (Some i)"
  shows "mux_ServeHTTP hr h s mx r (w, fx) =
    bind_result (answer hr h c (IsReady s) (mx_router mx) i (with_context h r (Some i))) (\<lambda>(ops, ls).
      Ok (run_ops ops (set_header ''X-Correlation-ID'' (extractCorrelationID (\<lambda>_. h_guid h) r) (set_header ''X-HostName'' (h_hostname h) w)),
          fx @ ls @ ELog INFO (request_line h (mx_logger mx) (cap_run ops) (with_context h r (Some i))) #
            metrics_effects (with_context h r (Some i)) i ops))"
proof -
  let ?r = "with_context h r (Some i)"
  have g: "guard_program h (mx_authz mx) (ready_program h (IsReady s) (proxy_program hr h (mx_router mx))) ?r =
      answer hr h c (IsReady s) (mx_router mx) i ?r"
    using checkAccess_policy [OF assms(1) ah(1) assms(6), of h i]
    by (auto simp: guard_program_def ah authz_program_def answer_def ready_program_def authz_text_def split: if_splits)
  have "mux_ServeHTTP hr h s mx r (w, fx) = run_program (mux_program hr h (IsReady s) mx) ?r
      (set_header ''X-Correlation-ID'' (extractCorrelationID (\<lambda>_. h_guid h) r) (set_header ''X-HostName'' (h_hostname h) w), fx)"
    using assms(7,8)
    by (simp add: mux_ServeHTTP_program NewContextHandler_def with_context_def new_context_def Let_def)
  moreover have "mux_program hr h (IsReady s) mx ?r = bind_result (answer hr h c (IsReady s) (mx_router mx) i ?r) (\<lambda>(ops, ls).
      Ok (ops, ls @ ELog INFO (request_line h (mx_logger mx) (cap_run ops) ?r) # metrics_effects ?r i ops))"
    using l
    by (cases "answer hr h c (IsReady s) (mx_router mx) i ?r")
      (auto simp: mux_program_def metrics_program_def logger_program_def g)
  ultimately show ?thesis
    by (cases "answer hr h c (IsReady s) (mx_router mx) i ?r") (auto simp: run_program_def)
qed

lemma error_status:
  assumes "rstatus w = None" and "error_program h e r = Ok (ops, ls)"
  shows "rstatus (run_ops ops w) = Some (HTTPStatus e)"
  using assms by (auto simp: error_program_def set_header_def write_header_def write_body_def first_status_def)

text \<open>A server to run requests on: a list as router, one service, the configuration of the policy
  examples.\<close>

definition demo_router :: "(string \<times> string \<times> nat) list httprouter" where
  "demo_router =
     \<lparr>hr_new = [], hr_handle = (\<lambda>rt m p k. Ok (rt @ [(m, p, k)])),
      hr_find = (\<lambda>rt r. case find (\<lambda>(m, p, k). m = Method r \<and> p = URLPath r) rt of
                            Some (_, _, k) \<Rightarrow> RouteTo k [] | None \<Rightarrow> RouteNotFound)\<rparr>"

definition demo_henv :: henv where
  "demo_henv =
     \<lparr>h_encode = (\<lambda>pp p. (''{}'', None)), h_gzip = id, h_detail = error_text, h_quote = id, h_caller = (''f.go'', 7),
      h_elapsed = 5 * millisecond, h_hostname = ''node1'', h_nodeIP = ''10.1.1.1'', h_localIP = Ok ''10.1.1.1'', h_guid = ''g1''\<rparr>"

definition demo_service :: Service where
  "demo_service = \<lparr>svName = ''svc'', svRoutes = [(GET, ''/foo/bar'', \<lambda>r ps. Ok ([WHeader 201, WBody ''hi''], []))],
     svReady = True, svClosed = False\<rparr>"

definition demo_server :: "bool \<Rightarrow> (string \<times> string \<times> nat) list HTTPServer" where
  "demo_server ready =
     AddService demo_service
       (WithIdentityProvider (Some (\<lambda>r. Ok (Some (NewIdentity (header_get (Header r) ''User'') ''b'' []))))
         (WithAuthz (Some demo_provider)
           ((Server_New ''node1'' (Ok ''10.1.1.1'') ''v1'' 0 [] \<lparr>GetServiceName = ''rest'', GetBindAddr = '':8080'', GetAllowProfiling = False, GetHeartbeatSecs = 0\<rparr> None)
              \<lparr>serving := ready\<rparr>)))"

definition demo_cors :: "CORSOptions option \<Rightarrow> request \<Rightarrow> cors_answer" where
  "demo_cors opt r = CorsNext []"

definition demo_mux :: "bool \<Rightarrow> (string \<times> string \<times> nat) list mux" where
  "demo_mux ready = (case NewMux demo_router demo_cors demo_copy (demo_server ready) of Ok mx \<Rightarrow> mx | _ \<Rightarrow> undefined)"

definition demo_get :: "string \<Rightarrow> request" where
  "demo_get user = new_request ''GET'' ''/foo/bar'' [(''User'', [user])] background"

lemma demo_NewMux: "NewMux demo_router demo_cors demo_copy (demo_server ready) = Ok (demo_mux ready)"
proof -
  have "is_Ok (NewMux demo_router demo_cors demo_copy (demo_server ready))" by (cases ready) code_simp+
  then show ?thesis by (auto simp: is_Ok_iff demo_mux_def)
qed

lemma demo_server_parts:
  "authz (demo_server ready) = Some demo_provider" "valid_path (URLPath (demo_get u))"
  "keyContext (rcontext (demo_get u)) = None"
  "(case identityMapper (demo_server ready) of Some m \<Rightarrow> m | None \<Rightarrow> GuestIdentityMapper demo_henv) (demo_get u) =
     Ok (Some (NewIdentity u ''b'' []))"
  by (simp_all add: demo_server_def AddService_def WithIdentityProvider_def WithAuthz_def demo_get_def new_request_def
      valid_path_def background_def header_get_def canonical_key_def upper_char_def lower_char_def)

text \<open>C15. What a request gets from a server with authorization built from a configuration. The identity
  mapper's identity goes into the request's context; the request reaches the router of the services
  exactly when it is an OPTIONS request or the configuration allows the identity's role on the path,
  and the server is ready; else the answer is the error of the policy or of the readiness check. In
  each case the response names the host and the correlation id, and one log line, one duration and
  one count are emitted with the status of the answer.\<close>

theorem server_serves_policy:
  assumes "New c = Ok az" and "authz s = Some az" and "NewMux hr cors_New copy s = Ok mx"
    and "valid_path (URLPath r)" and "keyContext (rcontext r) = None"
    and "(case identityMapper s of Some m \<Rightarrow> m | None \<Rightarrow> GuestIdentityMapper h) r = Ok (Some i)"
  shows "mux_ServeHTTP hr h s mx r (w, fx) =
    bind_result
      (if Method r = ''OPTIONS'' \<or> cfg_allows c (segments (URLPath r)) (role_of i)
       then if IsReady s then proxy_program hr h (mx_router mx) (with_context h r (Some i))
            else error_program h errUnavailable (with_context h r (Some i))
       else error_program h (WithUnauthorized (''the '' @ h_quote h (role_of i) @ '' role is not allowed'') []) (with_context h r (Some i)))
      (\<lambda>(ops, ls).
         Ok (run_ops ops (set_header ''X-Correlation-ID'' (extractCorrelationID (\<lambda>_. h_guid h) r) (set_header ''X-HostName'' (h_hostname h) w)),
             fx @ ls @ ELog INFO (request_line h (mx_logger mx) (cap_run ops) (with_context h r (Some i))) #
               metrics_effects (with_context h r (Some i)) i ops))"
proof -
  obtain ah where ah: "NewHandler copy az = Ok ah" "mx_authz mx = Some ah" using NewMux_parts [OF assms(3)] assms(2) by blast
  show ?thesis
    using served_by [OF assms(1) ah NewMux_logger(1) [OF assms(3)] _ assms(4,5)] NewMux_logger(2) [OF assms(3)] NewMux_parts [OF assms(3)] assms(6)
    by (simp add: answer_def)
qed

theorem server_serves_policy_witness:
  "\<exists>w fx. mux_ServeHTTP demo_router demo_henv (demo_server True) (demo_mux True) (demo_get ''bob'') (fresh_response, []) = Ok (w, fx) \<and>
     rstatus w = Some 201 \<and> header_get (rheader w) ''X-Correlation-ID'' = ''g1'' \<and> length fx = 3"
proof -
  let ?i = "NewIdentity ''bob'' ''b'' []"
  let ?r = "with_context demo_henv (demo_get ''bob'') (Some ?i)"
  have 1: "Method (demo_get ''bob'') = ''OPTIONS'' \<or> cfg_allows demo_config (segments (URLPath (demo_get ''bob''))) (role_of ?i)" by code_simp
  have 2: "IsReady (demo_server True)" by code_simp
  have 3: "proxy_program demo_router demo_henv (mx_router (demo_mux True)) ?r = Ok ([WHeader 201, WBody ''hi''], [])" by code_simp
  have 4: "extractCorrelationID (\<lambda>_. h_guid demo_henv) (demo_get ''bob'') = ''g1''" by code_simp
  note served = server_serves_policy [OF New_demo demo_server_parts(1) demo_NewMux demo_server_parts(2,3,4), where w = fresh_response and fx = "[]"]
  show ?thesis
    unfolding served if_P [OF 1] if_P [OF 2] 3 bind_result_simps prod.case
    by (simp add: 4 metrics_effects_def Let_def set_header_def write_header_def write_body_def first_status_def fresh_response_def)
qed

text \<open>C4. The handler returned by \<open>NewHandler\<close> passes a request to the delegate exactly when it is an OPTIONS request or the
  provider's tree allows the caller's role (the guest role when the mapper gives none) on the request's path. Every other
  request is answered, without the delegate, with status 401 and the error that names the role as JSON; the decision is the
  provider's at the time of \<open>NewHandler\<close>.\<close>

theorem handler_enforces_policy:
  assumes "wf_provider c" and "requestRoleMapper c = Some m" and "NewHandler copy c = Ok ah"
    and "valid_path (URLPath q)" and "rstatus w = None"
    and "rl = (if m q = [] then GuestRoleName else m q)"
    and "e = WithUnauthorized (''the '' @ h_quote h rl @ '' role is not allowed'') []"
  shows "if Method q = ''OPTIONS'' \<or> tree_allows (root_of c) (segments (URLPath q)) rl
    then authz_ServeHTTP h ah delegate q (w, fx) = delegate q (w, fx)
    else \<exists>w'. authz_ServeHTTP h ah delegate q (w, fx) = Ok (w', fx @ httpError h e q) \<and> rstatus w' = Some 401 \<and>
      rheader w' = header_set (rheader w) ''Content-Type'' ''application/json'' \<and>
      rbody w' = rbody w @ fst (h_encode h (shouldPrettyPrint q) (PError e))"
proof -
  note d = handler_decision [OF assms(1-4), folded assms(6)]
  have status: "HTTPStatus e = 401" by (simp add: assms(7) WithUnauthorized_def httperror_New_def)
  have "WithUnauthorized (authz_text h (RoleNotAllowed rl)) [] = e" by (simp add: assms(7) authz_text_def)
  then show ?thesis
    using d assms(5) status
    by (auto simp: authz_ServeHTTP_def WriteJSON_error error_program_def run_program_def set_header_def
        write_header_def write_body_def first_status_def)
qed

theorem handler_enforces_policy_witness:
  "\<exists>ah. NewHandler demo_copy (demo_state demo_calls) = Ok ah \<and>
    (\<forall>delegate. \<exists>w'. authz_ServeHTTP demo_henv ah delegate (demo_request\<lparr>URLPath := ''/other''\<rparr>) (fresh_response, []) = Ok w' \<and>
       rstatus (fst w') = Some 401)"
proof -
  let ?q = "demo_request\<lparr>URLPath := ''/other''\<rparr>"
  have 1: "configure fresh_provider demo_calls = Ok (demo_state demo_calls)"
    by (rule demo_configure) code_simp
  have w: "wf_provider (demo_state demo_calls)"
    using wf_configure [OF _ 1] by (simp add: wf_provider_def fresh_provider_def)
  have m: "requestRoleMapper (demo_state demo_calls) = Some defaultRoleMapper"
    using configure_mapper [OF 1] by (simp add: fresh_provider_def)
  have "pathRoot (demo_state demo_calls) \<noteq> None" by code_simp
  then obtain ah where ah: "NewHandler demo_copy (demo_state demo_calls) = Ok ah"
    using m by (simp add: NewHandler_def)
  have v: "valid_path (URLPath ?q)" by (simp add: valid_path_def)
  have t: "\<not> (Method ?q = ''OPTIONS'' \<or> tree_allows (root_of (demo_state demo_calls)) (segments (URLPath ?q))
      (if defaultRoleMapper ?q = [] then GuestRoleName else defaultRoleMapper ?q))"
    by code_simp
  have 3: "rstatus fresh_response = None" by (simp add: fresh_response_def)
  have "\<exists>w'. authz_ServeHTTP demo_henv ah delegate ?q (fresh_response, []) = Ok w' \<and> rstatus (fst w') = Some 401" for delegate
    using handler_enforces_policy [OF w m ah v 3 refl refl, where h = demo_henv and fx = "[]" and delegate = delegate]
    unfolding if_not_P [OF t] by (metis fst_conv)
  then show ?thesis using ah by blast
qed

text \<open>C2. No unauthorized request reaches a service, and none does before the server is ready: where the
  configuration does not allow the request, or the server is not ready, the answer is 401 or 503
  whatever services, routes and CORS rules the router has. A request whose identity cannot be
  determined is answered with 401 before anything else, and leaves no metric.\<close>

theorem services_are_guarded:
  assumes "New c = Ok az" and "authz s = Some az" and "NewMux hr cors_New copy s = Ok mx"
    and "valid_path (URLPath r)" and "keyContext (rcontext r) = None" and "rstatus w = None"
    and "m = (case identityMapper s of Some m \<Rightarrow> m | None \<Rightarrow> GuestIdentityMapper h)"
  shows "\<exists>w' ls. (\<forall>p i. m r = Ok (Some i) \<longrightarrow> Method r \<noteq> ''OPTIONS'' \<longrightarrow> \<not> cfg_allows c (segments (URLPath r)) (role_of i) \<longrightarrow>
        mux_ServeHTTP hr h s (mx\<lparr>mx_router := p\<rparr>) r (w, fx) = Ok (w', fx @ ls) \<and> rstatus w' = Some 401) \<and>
     (\<forall>p i. m r = Ok (Some i) \<longrightarrow> (Method r = ''OPTIONS'' \<or> cfg_allows c (segments (URLPath r)) (role_of i)) \<longrightarrow> \<not> IsReady s \<longrightarrow>
        mux_ServeHTTP hr h s (mx\<lparr>mx_router := p\<rparr>) r (w, fx) = Ok (w', fx @ ls) \<and> rstatus w' = Some 503) \<and>
     (\<forall>p e. m r = Err e \<longrightarrow>
        mux_ServeHTTP hr h s (mx\<lparr>mx_router := p\<rparr>) r (w, fx) = Ok (w', fx @ ls) \<and> rstatus w' = Some 401 \<and>
        (\<forall>x\<in>set ls. \<exists>lvl t. x = ELog lvl t))"
proof -
  obtain ah where ah: "NewHandler copy az = Ok ah" "mx_authz mx = Some ah" using NewMux_parts [OF assms(3)] assms(2) by blast
  have mm: "(case mx_mapper mx of Some m \<Rightarrow> m | None \<Rightarrow> GuestIdentityMapper h) = m" using NewMux_parts [OF assms(3)] assms(7) by simp
  show ?thesis
  proof (cases "m r")
    case (Ok oi)
    show ?thesis
    proof (cases oi)
      case (Some i)
      let ?r = "with_context h r (Some i)"
      let ?w = "set_header ''X-Correlation-ID'' (extractCorrelationID (\<lambda>_. h_guid h) r) (set_header ''X-HostName'' (h_hostname h) w)"
      have sv: "mux_ServeHTTP hr h s (mx\<lparr>mx_router := p\<rparr>) r (w, fx) =
          bind_result (answer hr h c (IsReady s) p i ?r) (\<lambda>(ops, ls). Ok (run_ops ops ?w,
            fx @ ls @ ELog INFO (request_line h (mx_logger mx) (cap_run ops) ?r) # metrics_effects ?r i ops))" for p
        using served_by [OF assms(1) ah(1), of "mx\<lparr>mx_router := p\<rparr>"] ah(2) NewMux_logger [OF assms(3)] assms(4,5) Ok Some mm by simp
      define denied where "denied \<longleftrightarrow> Method r \<noteq> ''OPTIONS'' \<and> \<not> cfg_allows c (segments (URLPath r)) (role_of i)"
      define e where "e = (if denied then WithUnauthorized (''the '' @ h_quote h (role_of i) @ '' role is not allowed'') [] else errUnavailable)"
      obtain ops ls where o: "error_program h e ?r = Ok (ops, ls)" by (simp add: error_program_def)
      have "rstatus ?w = None" using assms(6) by (simp add: set_header_def)
      from error_status [OF this o] have st: "rstatus (run_ops ops ?w) = Some (if denied then 401 else 503)"
        by (simp add: e_def WithUnauthorized_def errUnavailable_def httperror_New_def)
      have "answer hr h c (IsReady s) p i ?r = Ok (ops, ls)" if "denied \<or> \<not> IsReady s" for p
        using that o by (auto simp: answer_def denied_def e_def)
      then have "mux_ServeHTTP hr h s (mx\<lparr>mx_router := p\<rparr>) r (w, fx) = Ok (run_ops ops ?w,
          fx @ (ls @ ELog INFO (request_line h (mx_logger mx) (cap_run ops) ?r) # metrics_effects ?r i ops))" if "denied \<or> \<not> IsReady s" for p
        using that sv by simp
      then show ?thesis using st Ok Some by (intro exI) (auto simp: denied_def)
    qed (use Ok in auto)
  next
    case (Err e)
    let ?w = "set_header ''X-HostName'' (h_hostname h) w"
    obtain ops ls where o: "error_program h (WithUnauthorized e []) r = Ok (ops, ls)" by (simp add: error_program_def)
    have "rstatus ?w = None" using assms(6) by (simp add: set_header_def)
    from error_status [OF this o] have st: "rstatus (run_ops ops ?w) = Some 401" by (simp add: WithUnauthorized_def httperror_New_def)
    have ls: "\<forall>x\<in>set ls. \<exists>lvl t. x = ELog lvl t"
      using o by (auto simp: error_program_def httpError_def Let_def split: option.splits prod.splits)
    have "mux_ServeHTTP hr h s (mx\<lparr>mx_router := p\<rparr>) r (w, fx) = Ok (run_ops ops ?w,
        fx @ (ELog ERROR (''reason=identityMapper, ip='' @ h_quote h (ClientIPFromRequest h r) @ '', err=['' @ e @ '']'') # ls))" for p
      using assms(5) Err mm o by (simp add: mux_ServeHTTP_program NewContextHandler_def WriteJSON_error run_program_def)
    then show ?thesis using st ls Err by (intro exI) auto
  qed simp
qed

theorem services_are_guarded_witness:
  "\<exists>w' ls. mux_ServeHTTP demo_router demo_henv (demo_server True) (demo_mux True) (demo_get ''eve'') (fresh_response, []) = Ok (w', ls) \<and>
     rstatus w' = Some 401"
proof -
  let ?i = "NewIdentity ''eve'' ''b'' []"
  have 1: "\<not> cfg_allows demo_config (segments (URLPath (demo_get ''eve''))) (role_of ?i)" by code_simp
  have 2: "Method (demo_get ''eve'') \<noteq> ''OPTIONS''" by (simp add: demo_get_def new_request_def)
  have 3: "rstatus fresh_response = None" by (simp add: fresh_response_def)
  obtain w' ls where g: "\<And>p i. (case identityMapper (demo_server True) of Some m \<Rightarrow> m | None \<Rightarrow> GuestIdentityMapper demo_henv) (demo_get ''eve'') = Ok (Some i) \<Longrightarrow>
      \<not> cfg_allows demo_config (segments (URLPath (demo_get ''eve''))) (role_of i) \<Longrightarrow>
      mux_ServeHTTP demo_router demo_henv (demo_server True) ((demo_mux True)\<lparr>mx_router := p\<rparr>) (demo_get ''eve'') (fresh_response, []) = Ok (w', [] @ ls) \<and> rstatus w' = Some 401"
    using services_are_guarded [OF New_demo demo_server_parts(1) [of True] demo_NewMux demo_server_parts(2,3) [of "''eve''"] 3 refl, where fx = "[]" and h = demo_henv] 2 by blast
  show ?thesis using g [OF demo_server_parts(4) 1, of "mx_router (demo_mux True)"] by auto
qed

end
