(* ===== verification/RestLifecycle.thy ===== *)
theory RestLifecycle
  imports RestFacts
begin

text \<open>
  Starting and stopping the server (rest/server.go): \<open>StartHTTP\<close>, the goroutine it starts, \<open>StopHTTP\<close> and
  the heartbeat task, as steps of a process that can be interleaved with registrations of services
  and event handlers and with changes of the services' readiness.
\<close>

section \<open>StartHTTP\<close>

text \<open>What the environment answers: the errors of resolving the address, of listening, and of making the
  profiler's directory; the clock; the text of a duration and the quoting of a string.\<close>

record start_env =
  se_resolve :: "string option"
  se_listen :: "string option"
  se_profiler :: "string option"
  se_now :: time
  se_zones :: zones
  se_quote :: "string \<Rightarrow> string"
  se_duration :: "duration \<Rightarrow> string"

definition service_tag :: "'rt HTTPServer \<Rightarrow> Tag" where
  "service_tag s = \<lparr>TagName = ''service'', TagValue = GetServiceName (httpConfig s)\<rparr>"

definition PublishHeartbeat :: "'rt HTTPServer \<Rightarrow> effect" where
  "PublishHeartbeat s = EIncr [''heartbeat''] [service_tag s]"

definition PublishUptime :: "duration \<Rightarrow> 'rt HTTPServer \<Rightarrow> effect" where
  "PublishUptime uptime s = EGauge [''uptime'', ''seconds''] (go_quot uptime second) [service_tag s]"

definition hearbeatMetricsTask :: "time \<Rightarrow> 'rt HTTPServer \<Rightarrow> effect list" where
  "hearbeatMetricsTask now s = [PublishHeartbeat s, PublishUptime (Uptime now s) s]"

text \<open>The task is added to the scheduler and then run once; scheduler and caller hold the same task.\<close>

definition start_heartbeat :: "start_env \<Rightarrow> 'rt HTTPServer \<Rightarrow> (unit, 'rt HTTPServer) result" where
  "start_heartbeat E s =
     (case scheduler s of
        None \<Rightarrow> Ok s
      | Some ts \<Rightarrow>
          if GetHeartbeatSecs (httpConfig s) > 0 then
            bind_result
              (Do (se_zones E) (se_now E) ''hearbeat''
                 \<lparr>is_func = True, func_name = ''github.com/go-phorce/dolly/rest.hearbeatMetricsTask'', NumIn = 1\<rparr> [0]
                 (NewTaskAtIntervals (word_of_int (GetHeartbeatSecs (httpConfig s))) Seconds)) (\<lambda>j.
               let res = Run (se_zones E) (se_now E) (se_now E) j
               in Ok (s\<lparr>scheduler := Some (ts @ [fst res]), fired := fired s @ (if snd res then hearbeatMetricsTask (se_now E) s else [])\<rparr>))
          else Ok s)"

definition start_message :: "start_env \<Rightarrow> 'rt HTTPServer \<Rightarrow> string" where
  "start_message E s =
     (let addr = GetBindAddr (httpConfig s); addr = (if has_prefix addr '':'' then tl addr else addr)
      in ''address='' @ se_quote E addr @ '', ClientAuth='' @ clientAuth s)"

definition StartHTTP ::
  "'rt httprouter \<Rightarrow> (CORSOptions option \<Rightarrow> request \<Rightarrow> cors_answer) \<Rightarrow> (Config \<Rightarrow> Config \<Rightarrow> Config) \<Rightarrow> start_env \<Rightarrow> 'rt HTTPServer \<Rightarrow>
   'rt HTTPServer \<times> (string, unit) result" where
  "StartHTTP hr cors_New copy E s =
     (case se_resolve E of
        Some e \<Rightarrow> (s, Err e)
      | None \<Rightarrow>
          let s = s\<lparr>httpServer := Some None\<rparr>
          in case (if tlsConfig s \<noteq> None then se_listen E else None) of
               Some e \<Rightarrow> (s, Err e)
             | None \<Rightarrow>
                 (case NewMux hr cors_New copy s of
                    Ok mx \<Rightarrow>
                      (case (if GetAllowProfiling (httpConfig s) then se_profiler E else None) of
                         Some e \<Rightarrow> (s, Err e)
                       | None \<Rightarrow>
                           let s = s\<lparr>httpServer := Some (Some (mx\<lparr>mx_profiled := GetAllowProfiling (httpConfig s)\<rparr>))\<rparr>
                           in case start_heartbeat E s of
                                Ok s \<Rightarrow>
                                  (s\<lparr>fired := fired s @ [Audit_effect s ''status'' ''service started'' (hostname s) (ipaddr s) 0 (start_message E s)]\<rparr>, Ok ())
                              | _ \<Rightarrow> (s, Panic))
                  | _ \<Rightarrow> (s, Panic)))"

section \<open>StopHTTP\<close>

definition close_service :: "Service \<Rightarrow> Service" where
  "close_service sv = sv\<lparr>svClosed := True\<rparr>"

text \<open>\<open>shutdown_err\<close> is the error of shutting the listener down, which waits for open requests.\<close>

definition stop_effects :: "start_env \<Rightarrow> string option \<Rightarrow> 'rt HTTPServer \<Rightarrow> effect list" where
  "stop_effects E shutdown_err s =
     (case shutdown_err of None \<Rightarrow> [] | Some e \<Rightarrow> [ELog ERROR (''reason=Shutdown, err=['' @ e @ '']'')]) @
     map (ECallback ServerStoppedEvent) (handlers_of s ServerStoppedEvent) @
     [Audit_effect s ''status'' ''service stopped'' (hostname s) (ipaddr s) 0
        (''uptime='' @ se_duration E (go_quot (Uptime (se_now E) s) second * second))]"

definition StopHTTP :: "start_env \<Rightarrow> string option \<Rightarrow> 'rt HTTPServer \<Rightarrow> 'rt HTTPServer \<times> (string, unit) result" where
  "StopHTTP E shutdown_err s =
     (let s = s\<lparr>services := map (\<lambda>(n, sv). (n, close_service sv)) (services s)\<rparr>
      in if httpServer s = None then (s, Panic)
         else (s\<lparr>fired := fired s @ stop_effects E shutdown_err s\<rparr>, Ok ()))"

section \<open>The goroutine\<close>

text \<open>\<open>Spawned\<close> by \<open>StartHTTP\<close>, then \<open>Firing\<close> the handlers that are left, then \<open>Serving\<close>. \<open>snapshot\<close> is the list
  of handlers the loop runs over.\<close>

datatype gphase = NotStarted | Spawned | Firing "nat list" | Serving | Ended | Crashed

record 'rt process =
  srv :: "'rt HTTPServer"
  gophase :: gphase
  stopped :: bool
  snapshot :: "nat list"

definition serve_returns :: "neterror \<Rightarrow> 'rt process \<Rightarrow> 'rt process" where
  "serve_returns e p =
     (let s = (srv p)\<lparr>serving := False\<rparr>
      in if IsAddrInUse e \<or> e \<noteq> ErrServerClosed then p\<lparr>srv := s, gophase := Crashed\<rparr>
         else p\<lparr>srv := s\<lparr>fired := fired s @ [ELog WARNING (''service='' @ GetServiceName (httpConfig s) @ '', status=stopped'')]\<rparr>, gophase := Ended\<rparr>)"

inductive server_step ::
  "'rt httprouter \<Rightarrow> (CORSOptions option \<Rightarrow> request \<Rightarrow> cors_answer) \<Rightarrow> (Config \<Rightarrow> Config \<Rightarrow> Config) \<Rightarrow> 'rt process \<Rightarrow> 'rt process \<Rightarrow> bool"
  for hr cors_New copy where
  start: "gophase p = NotStarted \<Longrightarrow> StartHTTP hr cors_New copy E (srv p) = (s, Ok ()) \<Longrightarrow>
    server_step hr cors_New copy p (p\<lparr>srv := s, gophase := Spawned\<rparr>)"
| start_fails: "gophase p = NotStarted \<Longrightarrow> StartHTTP hr cors_New copy E (srv p) = (s, Err e) \<Longrightarrow>
    server_step hr cors_New copy p (p\<lparr>srv := s\<rparr>)"
| go_begin: "gophase p = Spawned \<Longrightarrow>
    server_step hr cors_New copy p (p\<lparr>gophase := Firing (handlers_of (srv p) ServerStartedEvent), snapshot := handlers_of (srv p) ServerStartedEvent\<rparr>)"
| go_fire: "gophase p = Firing (f # fs) \<Longrightarrow>
    server_step hr cors_New copy p (p\<lparr>srv := (srv p)\<lparr>fired := fired (srv p) @ [ECallback ServerStartedEvent f]\<rparr>, gophase := Firing fs\<rparr>)"
| go_serve: "gophase p = Firing [] \<Longrightarrow>
    server_step hr cors_New copy p (p\<lparr>srv := (srv p)\<lparr>fired := fired (srv p) @ [ELog INFO l], serving := True\<rparr>, gophase := Serving\<rparr>)"
| go_serve_error: "gophase p = Serving \<Longrightarrow> e \<noteq> ErrServerClosed \<or> stopped p \<Longrightarrow> server_step hr cors_New copy p (serve_returns e p)"
| stop: "StopHTTP E err (srv p) = (s, Ok ()) \<Longrightarrow> server_step hr cors_New copy p (p\<lparr>srv := s, stopped := True\<rparr>)"
| add_service: "server_step hr cors_New copy p (p\<lparr>srv := AddService sv (srv p)\<rparr>)"
| on_event: "server_step hr cors_New copy p (p\<lparr>srv := OnEvent e f (srv p)\<rparr>)"
| readiness: "services s = map (\<lambda>(n, sv). (n, sv\<lparr>svReady := b n\<rparr>)) (services (srv p)) \<Longrightarrow> s = (srv p)\<lparr>services := services s\<rparr> \<Longrightarrow>
    server_step hr cors_New copy p (p\<lparr>srv := s\<rparr>)"

section \<open>URLs\<close>

definition GetServerURL :: "'rt HTTPServer \<Rightarrow> request \<Rightarrow> string \<Rightarrow> URL" where
  "GetServerURL s r relativeEndpoint =
     (let specified = header_get (Header r) ''X-Forwarded-Proto'';
          proto = (if specified \<noteq> [] then specified else Protocol s);
          host = URLHost r;
          host = (if host = [] then Host r else host);
          host = (if host = [] then hostname s @ '':'' @ port s else host)
      in \<lparr>Scheme = proto, uHost = host, uPath = relativeEndpoint\<rparr>)"

definition GetServerBaseURL :: "'rt HTTPServer \<Rightarrow> URL" where
  "GetServerBaseURL s = \<lparr>Scheme = Protocol s, uHost = hostname s @ '':'' @ port s, uPath = []\<rparr>"

section \<open>Callbacks\<close>

definition callbacks :: "ServerEvent \<Rightarrow> effect list \<Rightarrow> nat list" where
  "callbacks e fx = List.map_filter (\<lambda>x. case x of ECallback e' f \<Rightarrow> if e' = e then Some f else None | _ \<Rightarrow> None) fx"

lemma callbacks_append [simp]: "callbacks e (xs @ ys) = callbacks e xs @ callbacks e ys"
  by (simp add: callbacks_def List.map_filter_def)

lemma callbacks_Nil [simp]: "callbacks e [] = []" by (simp add: callbacks_def)

lemma callbacks_Cons [simp]: "callbacks e (x # xs) = (case x of ECallback e' f \<Rightarrow> if e' = e then [f] else [] | _ \<Rightarrow> []) @ callbacks e xs"
  by (cases x) (simp_all add: callbacks_def List.map_filter_def)

lemma callbacks_map [simp]: "callbacks e (map (ECallback e') fs) = (if e = e' then fs else [])"
  by (induction fs) auto

lemma callbacks_Audit [simp]:
  "(case Audit_effect s a b c d i m of ECallback e' f \<Rightarrow> if e' = e then [f] else [] | _ \<Rightarrow> []) = []"
  by (simp add: Audit_effect_def)

lemma start_heartbeat_keeps:
  assumes "start_heartbeat E s = Ok s'"
  shows "callbacks e (fired s') = callbacks e (fired s) \<and> serving s' = serving s \<and> evtHandlers s' = evtHandlers s"
proof (cases "scheduler s")
  case None
  then show ?thesis using assms by (simp add: start_heartbeat_def)
next
  case (Some ts)
  then show ?thesis using assms
    by (cases "GetHeartbeatSecs (httpConfig s) > 0")
      (auto simp: start_heartbeat_def bind_result_eq_Ok hearbeatMetricsTask_def PublishHeartbeat_def PublishUptime_def Let_def)
qed

text \<open>\<open>StartHTTP\<close> changes \<open>httpServer\<close>, the scheduler and what was fired, and fires no callback itself.\<close>

definition same_events :: "'rt HTTPServer \<Rightarrow> 'rt HTTPServer \<Rightarrow> bool" where
  "same_events s s' \<longleftrightarrow> (\<forall>e. callbacks e (fired s') = callbacks e (fired s)) \<and> serving s' = serving s \<and> evtHandlers s' = evtHandlers s"

lemma same_events_refl [simp]: "same_events s s" "same_events s (s\<lparr>httpServer := x\<rparr>)" "same_events (s\<lparr>httpServer := x\<rparr>) s' = same_events s s'"
  by (simp_all add: same_events_def)

lemma StartHTTP_keeps:
  assumes "StartHTTP hr cors_New copy E s = (s', res)"
  shows "same_events s s'"
proof (cases "se_resolve E = None")
  case True
  let ?s = "s\<lparr>httpServer := Some None\<rparr>"
  show ?thesis
  proof (cases "(if tlsConfig ?s \<noteq> None then se_listen E else None) = None \<and> is_Ok (NewMux hr cors_New copy ?s) \<and>
      (if GetAllowProfiling (httpConfig ?s) then se_profiler E else None) = None")
    case False
    then show ?thesis using assms True
      by (cases "if tlsConfig ?s \<noteq> None then se_listen E else None"; cases "NewMux hr cors_New copy ?s";
          cases "if GetAllowProfiling (httpConfig ?s) then se_profiler E else None")
        (auto simp: StartHTTP_def Let_def)
  next
    case all: True
    then obtain mx where mx: "NewMux hr cors_New copy ?s = Ok mx" by (auto simp: is_Ok_iff)
    let ?t = "s\<lparr>httpServer := Some (Some (mx\<lparr>mx_profiled := GetAllowProfiling (httpConfig s)\<rparr>))\<rparr>"
    show ?thesis
    proof (cases "start_heartbeat E ?t")
      case (Ok u)
      then have "same_events ?t u" using start_heartbeat_keeps unfolding same_events_def by blast
      then show ?thesis using assms True all mx Ok by (auto simp: StartHTTP_def Let_def same_events_def)
    qed (use assms True all mx in \<open>auto simp: StartHTTP_def Let_def\<close>)
  qed
qed (use assms in \<open>auto simp: StartHTTP_def\<close>)

lemma stop_effects_callbacks:
  "callbacks e (stop_effects E err s) = (if e = ServerStoppedEvent then handlers_of s ServerStoppedEvent else [])"
  by (cases err) (simp_all add: stop_effects_def)

lemma StopHTTP_result:
  assumes "StopHTTP E err s = (s', Ok ())"
  shows "callbacks e (fired s') = callbacks e (fired s) @ (if e = ServerStoppedEvent then handlers_of s ServerStoppedEvent else []) \<and>
    serving s' = serving s \<and> evtHandlers s' = evtHandlers s \<and> IsReady s' = IsReady s \<and> (\<forall>(n, sv)\<in>set (services s'). svClosed sv)"
proof -
  let ?s = "s\<lparr>services := map (\<lambda>(n, sv). (n, close_service sv)) (services s)\<rparr>"
  have s': "s' = ?s\<lparr>fired := fired s @ stop_effects E err ?s\<rparr>"
    using assms by (cases "httpServer s = None") (simp_all add: StopHTTP_def Let_def)
  have "handlers_of ?s ServerStoppedEvent = handlers_of s ServerStoppedEvent" by (simp add: handlers_of_def)
  then have "callbacks e (fired s') = callbacks e (fired s) @ (if e = ServerStoppedEvent then handlers_of s ServerStoppedEvent else [])"
    unfolding s' by (simp add: stop_effects_callbacks)
  moreover have "IsReady s' = IsReady s" by (simp add: s' IsReady_def close_service_def list_all_iff split_beta)
  moreover have "\<forall>(n, sv)\<in>set (services s'). svClosed sv" by (auto simp: s' close_service_def)
  ultimately show ?thesis by (simp add: s')
qed

section \<open>Readiness\<close>

text \<open>The callbacks of the start: those that ran and those left make up the snapshot, which holds the handlers registered at
  the start once each, and the server serves only when none is left. Handlers are only ever added, at the end.\<close>

definition started_inv :: "nat list \<Rightarrow> 'rt process \<Rightarrow> bool" where
  "started_inv hs p \<longleftrightarrow>
     prefix hs (handlers_of (srv p) ServerStartedEvent) \<and>
     (case gophase p of
        NotStarted \<Rightarrow> callbacks ServerStartedEvent (fired (srv p)) = []
      | Spawned \<Rightarrow> callbacks ServerStartedEvent (fired (srv p)) = []
      | Firing fs \<Rightarrow> callbacks ServerStartedEvent (fired (srv p)) @ fs = snapshot p \<and> prefix hs (snapshot p) \<and>
          prefix (snapshot p) (handlers_of (srv p) ServerStartedEvent)
      | _ \<Rightarrow> callbacks ServerStartedEvent (fired (srv p)) = snapshot p \<and> prefix hs (snapshot p) \<and>
          prefix (snapshot p) (handlers_of (srv p) ServerStartedEvent)) \<and>
     (serving (srv p) \<longleftrightarrow> gophase p = Serving) \<and> callbacks ServerStoppingEvent (fired (srv p)) = []"

lemma handlers_OnEvent: "handlers_of (OnEvent e f s) e' = handlers_of s e' @ (if e = e' then [f] else [])"
  by (simp add: handlers_of_def OnEvent_def)

lemma started_inv_cong:
  assumes "started_inv hs p" and "callbacks ServerStartedEvent (fired s) = callbacks ServerStartedEvent (fired (srv p))"
    and "callbacks ServerStoppingEvent (fired s) = callbacks ServerStoppingEvent (fired (srv p))"
    and "serving s = serving (srv p)" and "prefix (handlers_of (srv p) ServerStartedEvent) (handlers_of s ServerStartedEvent)"
  shows "started_inv hs (p\<lparr>srv := s\<rparr>)"
  using assms unfolding started_inv_def by (auto split: gphase.splits dest: prefix_order.trans)

lemma started_inv_same:
  assumes "started_inv hs p" and "same_events (srv p) s"
  shows "started_inv hs (p\<lparr>srv := s\<rparr>)"
  using assms(2) by (intro started_inv_cong [OF assms(1)]) (simp_all add: same_events_def handlers_of_def)

lemma started_inv_step:
  assumes "server_step hr cors_New copy p p'" and "started_inv hs p"
  shows "started_inv hs p'"
  using assms
proof (induction rule: server_step.induct)
  case (start p E s)
  from started_inv_same [OF start(3) StartHTTP_keeps [OF start(2)]] start(1) show ?case
    by (simp add: started_inv_def)
next
  case (start_fails p E s e)
  then show ?case using started_inv_same [OF _ StartHTTP_keeps] by blast
next
  case (stop E err p s)
  have "started_inv hs (p\<lparr>srv := s\<rparr>)"
    using StopHTTP_result [OF stop(1)] by (intro started_inv_cong [OF stop(2)]) (simp_all add: handlers_of_def)
  then show ?case by (cases "gophase p") (simp_all add: started_inv_def)
next
  case (add_service p sv)
  then show ?case by (rule started_inv_cong) (simp_all add: AddService_def handlers_of_def)
next
  case (on_event p e f)
  then show ?case by (rule started_inv_cong) (simp_all add: handlers_OnEvent, simp_all add: OnEvent_def)
next
  case (readiness s b p)
  have "same_events (srv p) s" by (subst readiness(2)) (simp add: same_events_def)
  then show ?case using started_inv_same [OF readiness(3)] by blast
next
  case (go_serve_error p e)
  then show ?case by (auto simp: started_inv_def serve_returns_def handlers_of_def Let_def)
qed (auto simp: started_inv_def handlers_of_def)

lemma started_inv_reach: "(server_step hr cors_New copy)\<^sup>*\<^sup>* p p' \<Longrightarrow> started_inv hs p \<Longrightarrow> started_inv hs p'"
  by (induction rule: rtranclp_induct) (auto intro: started_inv_step)

lemma started_inv_called:
  assumes "started_inv hs p"
  shows "prefix (callbacks ServerStartedEvent (fired (srv p))) (handlers_of (srv p) ServerStartedEvent)"
proof (cases "gophase p")
  case (Firing fs)
  then have "prefix (callbacks ServerStartedEvent (fired (srv p))) (snapshot p)" "prefix (snapshot p) (handlers_of (srv p) ServerStartedEvent)"
    using assms by (auto simp: started_inv_def intro: prefixI [OF sym])
  then show ?thesis by (rule prefix_order.trans)
qed (use assms in \<open>auto simp: started_inv_def\<close>)

text \<open>A server before its start.\<close>

definition idle :: "'rt HTTPServer \<Rightarrow> 'rt process" where
  "idle s = \<lparr>srv = s, gophase = NotStarted, stopped = False, snapshot = []\<rparr>"

text \<open>C19. Readiness means started. However starting, serving, stopping, registrations and services'
  readiness interleave: the calls of start handlers so far are an initial part of the list of registered handlers, so none is
  called twice for one registration and none out of order; when a server reports that it is ready, every handler registered
  for the start before \<open>StartHTTP\<close> has been called, and exactly these when none was registered since, and the goroutine is
  serving. No handler for the stopping event is ever called.\<close>

theorem ready_after_start_callbacks:
  assumes "(server_step hr cors_New copy)\<^sup>*\<^sup>* (idle s) p" and "serving s = False" and "fired s = []"
  shows "prefix (callbacks ServerStartedEvent (fired (srv p))) (handlers_of (srv p) ServerStartedEvent) \<and>
    (IsReady (srv p) \<longrightarrow> prefix (handlers_of s ServerStartedEvent) (callbacks ServerStartedEvent (fired (srv p))) \<and>
      (handlers_of (srv p) ServerStartedEvent = handlers_of s ServerStartedEvent \<longrightarrow>
        callbacks ServerStartedEvent (fired (srv p)) = handlers_of s ServerStartedEvent) \<and>
      gophase p = Serving \<and> list_all (\<lambda>(n, sv). svReady sv) (services (srv p))) \<and>
    callbacks ServerStoppingEvent (fired (srv p)) = []"
proof -
  have "started_inv (handlers_of s ServerStartedEvent) (idle s)" using assms(2,3) by (simp add: started_inv_def idle_def)
  then have inv: "started_inv (handlers_of s ServerStartedEvent) p" by (rule started_inv_reach [OF assms(1)])
  note called = started_inv_called [OF inv]
  show ?thesis using inv called by (auto simp: IsReady_def started_inv_def split: if_splits)
qed

definition demo_start_env :: start_env where
  "demo_start_env =
     \<lparr>se_resolve = None, se_listen = None, se_profiler = None, se_now = 0,
      se_zones = \<lparr>Local = fixed_zone 0, loc = fixed_zone 0\<rparr>, se_quote = id, se_duration = itoa\<rparr>"

definition demo_idle :: "(string \<times> string \<times> nat) list HTTPServer" where
  "demo_idle = OnEvent ServerStartedEvent 7 (demo_server False)"

definition demo_running :: "(string \<times> string \<times> nat) list process" where
  "demo_running =
     (let s = fst (StartHTTP demo_router demo_cors demo_copy demo_start_env demo_idle)
      in \<lparr>srv = s\<lparr>fired := fired s @ [ECallback ServerStartedEvent 7] @ [ELog INFO []], serving := True\<rparr>,
          gophase = Serving, stopped = False, snapshot = [7]\<rparr>)"

lemma demo_running_reached: "(server_step demo_router demo_cors demo_copy)\<^sup>*\<^sup>* (idle demo_idle) demo_running"
proof -
  let ?step = "server_step demo_router demo_cors demo_copy"
  let ?s = "fst (StartHTTP demo_router demo_cors demo_copy demo_start_env demo_idle)"
  let ?p1 = "\<lparr>srv = ?s, gophase = Spawned, stopped = False, snapshot = []\<rparr>"
  let ?p2 = "?p1\<lparr>gophase := Firing [7], snapshot := [7]\<rparr>"
  let ?p3 = "?p2\<lparr>srv := ?s\<lparr>fired := fired ?s @ [ECallback ServerStartedEvent 7]\<rparr>, gophase := Firing []\<rparr>"
  have "snd (StartHTTP demo_router demo_cors demo_copy demo_start_env demo_idle) = Ok ()" by code_simp
  then have "StartHTTP demo_router demo_cors demo_copy demo_start_env (srv (idle demo_idle)) = (?s, Ok ())"
    by (simp add: idle_def prod_eq_iff)
  from server_step.start [OF _ this] have 1: "?step (idle demo_idle) ?p1" by (simp add: idle_def)
  have "handlers_of ?s ServerStartedEvent = [7]" by code_simp
  then have 2: "?step ?p1 ?p2" using server_step.go_begin [of ?p1 demo_router demo_cors demo_copy] by simp
  have 3: "?step ?p2 ?p3" using server_step.go_fire [of ?p2 7 "[]" demo_router demo_cors demo_copy] by simp
  have 4: "?step ?p3 demo_running"
    using server_step.go_serve [of ?p3 demo_router demo_cors demo_copy "[]"] by (simp add: demo_running_def Let_def)
  from 1 2 3 4 show ?thesis by (meson converse_rtranclp_into_rtranclp rtranclp.rtrancl_refl)
qed

theorem ready_after_start_callbacks_witness:
  "IsReady (srv demo_running) \<and> callbacks ServerStartedEvent (fired (srv demo_running)) = [7]"
proof -
  have "IsReady (srv demo_running)" by code_simp
  moreover have "handlers_of demo_idle ServerStartedEvent = [7]" "handlers_of (srv demo_running) ServerStartedEvent = [7]" by code_simp+
  moreover have "serving demo_idle = False" "fired demo_idle = []" by code_simp+
  ultimately show ?thesis using ready_after_start_callbacks [OF demo_running_reached] by simp
qed

text \<open>Stopping closes every service first and leaves the readiness as it is: until the goroutine notices,
  requests are passed to services that are closed. A server that was never started closes its
  services and then panics.\<close>

theorem stop_leaves_ready:
  "(StopHTTP E err s = (s', Ok ()) \<longrightarrow> IsReady s' = IsReady s \<and> (\<forall>(n, sv)\<in>set (services s'). svClosed sv)) \<and>
   (httpServer s = None \<longrightarrow> snd (StopHTTP E err s) = Panic)"
  using StopHTTP_result [of E err s s'] by (auto simp: StopHTTP_def Let_def)

end
