(* ===== verification/ReloadProtocol.thy ===== *)
theory ReloadProtocol
  imports Prelude
begin

text \<open>
  The locking that \<open>KeypairReloader\<close> (rest/tlsconfig/reloader.go) and \<open>Reloader\<close>
  (fileutil/reloader/reloader.go) have in common: a goroutine that waits in a \<open>select\<close> for a tick or a
  message on \<open>stopChan\<close>, clients that call \<open>Reload\<close>, the readers and \<open>Close\<close>, and one
  \<open>sync.RWMutex\<close> between them. What an object keeps and how it loads is a record of operations; the
  facts about all interleavings are proved once, in a locale with the laws of these operations.
\<close>

section \<open>Threads and the lock\<close>

datatype thread = Ticker | Client nat

text \<open>
  Where a thread is: the goroutine in its \<open>select\<close> or after a tick that found something to do; in
  \<open>Lock\<close>, announced to the mutex, with the call it is for; loading with the lock held; holding the
  read lock in a reader or in \<open>Close\<close> before and after the test of \<open>closed\<close>, sending on \<open>stopChan\<close>,
  having sent, or having found the object closed.
\<close>

datatype 'u pc = AtSelect | Due | Idle | Announced | Loading | Adding 'u
  | Reading | InClose | Checked | Sending | Sent | Rejected | Exited

fun writing :: "'u pc \<Rightarrow> bool" where
  "writing Announced = True"
| "writing Loading = True"
| "writing (Adding _) = True"
| "writing _ = False"

fun reading :: "'u pc \<Rightarrow> bool" where
  "reading Reading = True"
| "reading InClose = True"
| "reading Checked = True"
| "reading Sending = True"
| "reading Sent = True"
| "reading Rejected = True"
| "reading _ = False"

text \<open>The operations of the object behind the lock: the two flags, the check after a tick, loading,
  the writers and readers besides \<open>Reload\<close> and \<open>Close\<close>.\<close>

record ('k, 'e, 'u) object_ops =
  busy :: "'k \<Rightarrow> bool"
  set_busy :: "bool \<Rightarrow> 'k \<Rightarrow> 'k"
  is_closed :: "'k \<Rightarrow> bool"
  set_closed :: "'k \<Rightarrow> 'k"
  due_op :: "'e \<Rightarrow> 'k \<Rightarrow> 'k \<times> bool"
  load_op :: "'e \<Rightarrow> 'k \<Rightarrow> 'k"
  add_op :: "'u \<Rightarrow> 'k \<Rightarrow> 'k"
  peek_op :: "'e \<Rightarrow> 'k \<Rightarrow> 'k"

text \<open>\<open>pending\<close> is the writer that holds or waits for the mutex: while there is one, no new reader gets
  in. \<open>outcomes\<close> are the calls of \<open>Close\<close> that returned, with whether they returned nil.\<close>

record ('k, 'u) sys =
  obj :: 'k
  pcs :: "thread \<Rightarrow> 'u pc"
  pending :: "thread option"
  rlocks :: "thread list"
  outcomes :: "(nat \<times> bool) list"

definition fresh_sys :: "'k \<Rightarrow> ('k, 'u) sys" where
  "fresh_sys k = \<lparr>obj = k, pcs = (\<lambda>t. case t of Ticker \<Rightarrow> AtSelect | Client _ \<Rightarrow> Idle), pending = None,
     rlocks = [], outcomes = []\<rparr>"

fun resting :: "thread \<Rightarrow> 'u pc" where
  "resting Ticker = AtSelect"
| "resting (Client _) = Idle"

definition goto :: "thread \<Rightarrow> 'u pc \<Rightarrow> ('k, 'u) sys \<Rightarrow> ('k, 'u) sys" where
  "goto t p s = s\<lparr>pcs := (pcs s)(t := p)\<rparr>"

definition rlock :: "thread \<Rightarrow> 'u pc \<Rightarrow> ('k, 'u) sys \<Rightarrow> ('k, 'u) sys" where
  "rlock t p s = goto t p (s\<lparr>rlocks := t # rlocks s\<rparr>)"

definition runlock :: "thread \<Rightarrow> ('k, 'u) sys \<Rightarrow> ('k, 'u) sys" where
  "runlock t s = goto t (resting t) (s\<lparr>rlocks := removeAll t (rlocks s)\<rparr>)"

text \<open>\<open>Reload\<close> with the lock taken: return at once if a load is in progress, otherwise set the flag.\<close>

definition enter_load :: "('k, 'e, 'u) object_ops \<Rightarrow> thread \<Rightarrow> ('k, 'u) sys \<Rightarrow> ('k, 'u) sys" where
  "enter_load K t s =
     (if busy K (obj s) then goto t (resting t) (s\<lparr>pending := None\<rparr>)
      else goto t Loading (s\<lparr>obj := set_busy K True (obj s)\<rparr>))"

definition leave_load :: "('k, 'e, 'u) object_ops \<Rightarrow> 'e \<Rightarrow> thread \<Rightarrow> ('k, 'u) sys \<Rightarrow> ('k, 'u) sys" where
  "leave_load K e t s =
     goto t (resting t) (s\<lparr>obj := set_busy K False (load_op K e (obj s)), pending := None\<rparr>)"

inductive reload_step :: "('k, 'e, 'u) object_ops \<Rightarrow> ('k, 'u) sys \<Rightarrow> ('k, 'u) sys \<Rightarrow> bool" for K where
  tick: "pcs s Ticker = AtSelect \<Longrightarrow> due_op K e (obj s) = (k, d) \<Longrightarrow>
    reload_step K s (goto Ticker (if d then Due else AtSelect) (s\<lparr>obj := k\<rparr>))"
| ticker_lock: "pcs s Ticker = Due \<Longrightarrow> pending s = None \<Longrightarrow>
    reload_step K s (goto Ticker Announced (s\<lparr>pending := Some Ticker\<rparr>))"
| client_lock: "pcs s (Client c) = Idle \<Longrightarrow> pending s = None \<Longrightarrow>
    reload_step K s (goto (Client c) Announced (s\<lparr>pending := Some (Client c)\<rparr>))"
| load_begins: "pcs s t = Announced \<Longrightarrow> pending s = Some t \<Longrightarrow> rlocks s = [] \<Longrightarrow>
    reload_step K s (enter_load K t s)"
| load_ends: "pcs s t = Loading \<Longrightarrow> reload_step K s (leave_load K e t s)"
| add_lock: "pcs s (Client c) = Idle \<Longrightarrow> pending s = None \<Longrightarrow>
    reload_step K s (goto (Client c) (Adding u) (s\<lparr>pending := Some (Client c)\<rparr>))"
| add_runs: "pcs s t = Adding u \<Longrightarrow> pending s = Some t \<Longrightarrow> rlocks s = [] \<Longrightarrow>
    reload_step K s (goto t (resting t) (s\<lparr>obj := add_op K u (obj s), pending := None\<rparr>))"
| serve: "reload_step K s (s\<lparr>obj := peek_op K e (obj s)\<rparr>)"
| read_lock: "pcs s (Client c) = Idle \<Longrightarrow> pending s = None \<Longrightarrow> reload_step K s (rlock (Client c) Reading s)"
| read_ends: "pcs s t = Reading \<Longrightarrow> reload_step K s (runlock t (s\<lparr>obj := peek_op K e (obj s)\<rparr>))"
| close_lock: "pcs s (Client c) = Idle \<Longrightarrow> pending s = None \<Longrightarrow> reload_step K s (rlock (Client c) InClose s)"
| close_test: "pcs s t = InClose \<Longrightarrow>
    reload_step K s (goto t (if is_closed K (obj s) then Rejected else Checked) s)"
| close_set: "pcs s t = Checked \<Longrightarrow> reload_step K s (goto t Sending (s\<lparr>obj := set_closed K (obj s)\<rparr>))"
| stop_message: "pcs s t = Sending \<Longrightarrow> pcs s Ticker = AtSelect \<Longrightarrow>
    reload_step K s (goto Ticker Exited (goto t Sent s))"
| close_returns: "pcs s (Client c) = Sent \<Longrightarrow>
    reload_step K s (runlock (Client c) (s\<lparr>outcomes := outcomes s @ [(c, True)]\<rparr>))"
| close_refused: "pcs s (Client c) = Rejected \<Longrightarrow>
    reload_step K s (runlock (Client c) (s\<lparr>outcomes := outcomes s @ [(c, False)]\<rparr>))"

inductive_cases reload_stepE: "reload_step K s s'"

definition reloads :: "('k, 'e, 'u) object_ops \<Rightarrow> ('k, 'u) sys \<Rightarrow> ('k, 'u) sys \<Rightarrow> bool" where
  "reloads K = (reload_step K)\<^sup>*\<^sup>*"

lemmas move_defs = goto_def rlock_def runlock_def enter_load_def leave_load_def

section \<open>The mutex\<close>

text \<open>The writer is announced, the readers are listed, the goroutine and the clients stay in their own
  places.\<close>

fun at_home :: "thread \<Rightarrow> 'u pc \<Rightarrow> bool" where
  "at_home Ticker p = (p = AtSelect \<or> p = Due \<or> p = Announced \<or> p = Loading \<or> p = Exited)"
| "at_home (Client _) p = (p \<noteq> AtSelect \<and> p \<noteq> Due \<and> p \<noteq> Exited)"

definition thread_ok :: "('k, 'u) sys \<Rightarrow> thread \<Rightarrow> bool" where
  "thread_ok s t \<longleftrightarrow>
     writing (pcs s t) = (pending s = Some t) \<and> reading (pcs s t) = (t \<in> set (rlocks s)) \<and>
     (pcs s t = Loading \<longrightarrow> rlocks s = []) \<and> at_home t (pcs s t)"

definition lock_inv :: "('k, 'u) sys \<Rightarrow> bool" where
  "lock_inv s = (\<forall>t. thread_ok s t)"

lemma fresh_lock_inv: "lock_inv (fresh_sys k)"
  unfolding lock_inv_def thread_ok_def fresh_sys_def by (auto split: thread.split)

lemma resting_simps [simp]: "\<not> writing (resting t)" "\<not> reading (resting t)" "resting t \<noteq> Loading"
  "resting t \<noteq> Exited" "resting t \<noteq> Sent" "resting t \<noteq> Sending" "resting t \<noteq> Checked" "at_home t (resting t)"
  by (cases t; simp)+

lemma lock_inv_move:
  assumes "lock_inv s" and "\<And>u. thread_ok s t \<Longrightarrow> thread_ok s u \<Longrightarrow> thread_ok s' u"
  shows "lock_inv s'"
  using assms by (simp add: lock_inv_def)

lemma lock_inv_step: "reload_step K s s' \<Longrightarrow> lock_inv s \<Longrightarrow> lock_inv s'"
proof (induction rule: reload_step.induct)
  case (tick s e k d)
  then show ?case by - (erule lock_inv_move [where t = Ticker], auto simp: thread_ok_def move_defs)
next
  case (ticker_lock s)
  then show ?case by - (erule lock_inv_move [where t = Ticker], auto simp: thread_ok_def move_defs)
next
  case (client_lock s c)
  then show ?case by - (erule lock_inv_move [where t = "Client c"], auto simp: thread_ok_def move_defs)
next
  case (load_begins s t)
  then show ?case by - (erule lock_inv_move [where t = t], cases t, auto simp: thread_ok_def move_defs)
next
  case (load_ends s t e)
  then show ?case by - (erule lock_inv_move [where t = t], cases t, auto simp: thread_ok_def move_defs)
next
  case (add_lock s c u)
  then show ?case by - (erule lock_inv_move [where t = "Client c"], auto simp: thread_ok_def move_defs)
next
  case (add_runs s t u)
  then show ?case by - (erule lock_inv_move [where t = t], cases t, auto simp: thread_ok_def move_defs)
next
  case (serve s e)
  then show ?case by - (erule lock_inv_move [where t = Ticker], auto simp: thread_ok_def move_defs)
next
  case (read_lock s c)
  then show ?case by - (erule lock_inv_move [where t = "Client c"], auto simp: thread_ok_def move_defs)
next
  case (read_ends s t e)
  then show ?case by - (erule lock_inv_move [where t = t], cases t, auto simp: thread_ok_def move_defs)
next
  case (close_lock s c)
  then show ?case by - (erule lock_inv_move [where t = "Client c"], auto simp: thread_ok_def move_defs)
next
  case (close_test s t)
  then show ?case by - (erule lock_inv_move [where t = t], cases t, auto simp: thread_ok_def move_defs)
next
  case (close_set s t)
  then show ?case by - (erule lock_inv_move [where t = t], cases t, auto simp: thread_ok_def move_defs)
next
  case (stop_message s t)
  then show ?case by - (erule lock_inv_move [where t = t], cases t, auto simp: thread_ok_def move_defs)
next
  case (close_returns s c)
  then show ?case by - (erule lock_inv_move [where t = "Client c"], auto simp: thread_ok_def move_defs)
next
  case (close_refused s c)
  then show ?case by - (erule lock_inv_move [where t = "Client c"], auto simp: thread_ok_def move_defs)
qed

text \<open>A call of \<open>Close\<close> that sends while the goroutine waits for the lock, or after it has gone, stays
  there: the goroutine can only take the lock when the caller has released it.\<close>

definition close_stuck :: "nat \<Rightarrow> ('k, 'u) sys \<Rightarrow> bool" where
  "close_stuck c s \<longleftrightarrow> pcs s (Client c) = Sending \<and> (pcs s Ticker = Announced \<or> pcs s Ticker = Exited)"

lemma sending_holds_lock: "lock_inv s \<Longrightarrow> pcs s (Client c) = Sending \<Longrightarrow> rlocks s \<noteq> []"
  unfolding lock_inv_def thread_ok_def by (metis empty_iff empty_set reading.simps(4))

lemma close_stuck_step: "reload_step K s s' \<Longrightarrow> lock_inv s \<Longrightarrow> close_stuck c s \<Longrightarrow>
  close_stuck c s' \<and> pcs s' Ticker = pcs s Ticker"
  by (erule reload_stepE) (auto simp: close_stuck_def move_defs dest: sending_holds_lock)

lemma close_stuck_forever:
  assumes "reloads K s s'" and "lock_inv s" and "close_stuck c s"
  shows "lock_inv s' \<and> close_stuck c s' \<and> pcs s' Ticker = pcs s Ticker"
  using assms(1) unfolding reloads_def
  by (induction rule: rtranclp_induct) (use assms(2,3) in \<open>auto dest: lock_inv_step close_stuck_step\<close>)

lemma reloads_lock_inv: "reloads K (fresh_sys k) s \<Longrightarrow> lock_inv s"
  unfolding reloads_def
  by (induction rule: rtranclp_induct) (auto intro: fresh_lock_inv lock_inv_step)

text \<open>Mutual exclusion: a thread that loads is the only one with the lock.\<close>

lemma loading_alone:
  assumes "lock_inv s" and "pcs s t = Loading"
  shows "(u \<noteq> t \<longrightarrow> \<not> writing (pcs s u)) \<and> \<not> reading (pcs s u)"
proof -
  have t: "thread_ok s t" and u: "thread_ok s u"
    using assms(1) by (simp_all add: lock_inv_def)
  show ?thesis
    using t u assms(2) by (auto simp: thread_ok_def)
qed

section \<open>The contract of the objects\<close>

definition successes :: "('k, 'u) sys \<Rightarrow> (nat \<times> bool) list" where
  "successes s = filter snd (outcomes s)"

text \<open>The flag is set exactly while a thread loads, so no call finds it set.\<close>

definition busy_inv :: "('k, 'e, 'u) object_ops \<Rightarrow> ('k, 'u) sys \<Rightarrow> bool" where
  "busy_inv K s = (busy K (obj s) = (\<exists>t. pcs s t = Loading))"

text \<open>One call of \<open>Close\<close> at most hands the message over, and only then is the goroutine gone.\<close>

definition clients_at :: "'u pc \<Rightarrow> (thread \<Rightarrow> 'u pc) \<Rightarrow> nat set" where
  "clients_at p f = {c. f (Client c) = p}"

definition close_inv :: "('k, 'e, 'u) object_ops \<Rightarrow> ('k, 'u) sys \<Rightarrow> bool" where
  "close_inv K s \<longleftrightarrow>
     (clients_at Sending (pcs s) \<noteq> {} \<longrightarrow> is_closed K (obj s)) \<and>
     (if pcs s Ticker = Exited
      then is_closed K (obj s) \<and>
        ((\<exists>c. clients_at Sent (pcs s) = {c}) \<and> successes s = [] \<or>
         clients_at Sent (pcs s) = {} \<and> length (successes s) = 1)
      else clients_at Sent (pcs s) = {} \<and> successes s = [])"

lemma clients_at_upd:
  "clients_at p (f(Ticker := q)) = clients_at p f"
  "q \<noteq> p \<Longrightarrow> f (Client c) \<noteq> p \<Longrightarrow> clients_at p (f(Client c := q)) = clients_at p f"
  "clients_at p (f(Client c := p)) = insert c (clients_at p f)"
  "q \<noteq> p \<Longrightarrow> f (Client c) = p \<Longrightarrow> clients_at p (f(Client c := q)) = clients_at p f - {c}"
  by (auto simp: clients_at_def)

lemma clients_at_none: "clients_at p f = {} \<Longrightarrow> f (Client c) \<noteq> p"
  "clients_at p f = {d} \<Longrightarrow> f (Client c) = p \<longleftrightarrow> c = d"
  by (auto simp: clients_at_def)

lemma sent_inv:
  assumes "close_inv K s" and "pcs s (Client c) = Sent"
  shows "pcs s Ticker = Exited \<and> clients_at Sent (pcs s) = {c} \<and> successes s = [] \<and> is_closed K (obj s)"
proof -
  have "clients_at Sent (pcs s) \<noteq> {}"
    using assms(2) clients_at_none(1) by metis
  then have "pcs s Ticker = Exited" and s: "successes s = []" "is_closed K (obj s)"
    and "\<exists>d. clients_at Sent (pcs s) = {d}"
    using assms(1) unfolding close_inv_def by presburger+
  then show ?thesis
    using assms(2) clients_at_none(2) by metis
qed

lemmas close_simps = close_inv_def successes_def move_defs clients_at_upd

lemma announced_not_busy:
  assumes "lock_inv s" and "busy_inv K s" and "pcs s t = Announced"
  shows "\<not> busy K (obj s)"
proof
  assume "busy K (obj s)"
  then obtain v where v: "pcs s v = Loading"
    using assms(2) by (auto simp: busy_inv_def)
  then have "t \<noteq> v"
    using assms(3) by auto
  then show False
    using loading_alone [OF assms(1) v, of t] assms(3) by simp
qed

lemma loading_upd: "f t \<noteq> Loading \<Longrightarrow> p \<noteq> Loading \<Longrightarrow> (\<exists>u. (f(t := p)) u = Loading) = (\<exists>u. f u = Loading)"
  by (metis fun_upd_apply)

locale reload_object =
  fixes K :: "('k, 'e, 'u) object_ops"
  assumes busy_set [simp]: "busy K (set_busy K b k) = b"
    and closed_set [simp]: "is_closed K (set_closed K k)"
    and busy_kept [simp]: "busy K (set_closed K k) = busy K k" "busy K (load_op K e k) = busy K k"
      "busy K (fst (due_op K e k)) = busy K k" "busy K (add_op K u k) = busy K k"
      "busy K (peek_op K e k) = busy K k"
    and closed_kept [simp]: "is_closed K (set_busy K b k) = is_closed K k" "is_closed K (load_op K e k) = is_closed K k"
      "is_closed K (fst (due_op K e k)) = is_closed K k" "is_closed K (add_op K u k) = is_closed K k"
      "is_closed K (peek_op K e k) = is_closed K k"
begin

lemma due_kept: "due_op K e k = (k', d) \<Longrightarrow> busy K k' = busy K k \<and> is_closed K k' = is_closed K k"
  by (metis busy_kept(3) closed_kept(3) fst_conv)

lemma busy_inv_step: "reload_step K s s' \<Longrightarrow> lock_inv s \<Longrightarrow> busy_inv K s \<Longrightarrow> busy_inv K s'"
proof (induction rule: reload_step.induct)
  case (load_begins s t)
  then show ?case
    using announced_not_busy [of s K t] by (auto simp: busy_inv_def move_defs)
next
  case (load_ends s t e)
  have "pcs s u \<noteq> Loading" if "u \<noteq> t" for u
    using loading_alone [OF load_ends(2,1), of u] that by auto
  then show ?case by (auto simp: busy_inv_def move_defs)
next
  case (stop_message s t)
  then have "t \<noteq> Ticker" by auto
  with stop_message show ?case
    by (simp add: busy_inv_def move_defs loading_upd fun_upd_other del: fun_upd_apply)
qed (auto simp: busy_inv_def move_defs loading_upd simp del: fun_upd_apply dest: due_kept)

text \<open>\<open>Close\<close>: what a step changes of the calls in progress.\<close>

lemma close_inv_step: "reload_step K s s' \<Longrightarrow> lock_inv s \<Longrightarrow> close_inv K s \<Longrightarrow> close_inv K s'"
proof (induction rule: reload_step.induct)
  case (tick s e k d)
  then show ?case using due_kept [OF tick(2)] by (auto simp: close_simps)
next
  case (ticker_lock s)
  then show ?case by (auto simp: close_simps)
next
  case (load_begins s t)
  then show ?case by (cases t) (auto simp: close_simps)
next
  case (load_ends s t e)
  then show ?case by (cases t) (auto simp: close_simps)
next
  case (stop_message s t)
  then obtain c where "t = Client c" by (cases t) auto
  with stop_message show ?case by (auto simp: close_simps dest: clients_at_none)
next
  case (close_returns s c)
  then show ?case using sent_inv [OF close_returns(3,1)] by (simp add: close_simps)
next
  case (close_set s t)
  then show ?case by (cases t) (auto simp: close_simps)
next
  case (close_test s t)
  then show ?case by (cases t) (auto simp: close_simps)
next
  case (close_refused s c)
  then show ?case by (auto simp: close_simps)
next
  case (read_ends s t e)
  then show ?case by (cases t) (auto simp: close_simps)
next
  case (add_runs s t u)
  then show ?case by (cases t) (auto simp: close_simps)
qed (auto simp: close_simps)

theorem reachable_inv:
  assumes "reloads K (fresh_sys k) s" and "\<not> busy K k" and "\<not> is_closed K k"
  shows "lock_inv s \<and> busy_inv K s \<and> close_inv K s"
  using assms(1) unfolding reloads_def
proof (induction rule: rtranclp_induct)
  case base
  have "busy_inv K (fresh_sys k)" "close_inv K (fresh_sys k)"
    using assms(2,3) by (auto simp: busy_inv_def close_inv_def clients_at_def successes_def fresh_sys_def split: thread.splits)
  then show ?case by (simp add: fresh_lock_inv)
next
  case (step s s')
  then show ?case by (auto intro: lock_inv_step busy_inv_step close_inv_step)
qed

text \<open>What every operation keeps of the object holds of it in every interleaving.\<close>

lemma object_invariant:
  assumes "reloads K (fresh_sys k) s" and "P k"
    and "\<And>k b. P k \<Longrightarrow> P (set_busy K b k)" and "\<And>k. P k \<Longrightarrow> P (set_closed K k)"
    and "\<And>k e. P k \<Longrightarrow> P (fst (due_op K e k))" and "\<And>k e. P k \<Longrightarrow> P (load_op K e k)"
    and "\<And>k u. P k \<Longrightarrow> P (add_op K u k)" and "\<And>k e. P k \<Longrightarrow> P (peek_op K e k)"
  shows "P (obj s)"
  using assms(1) unfolding reloads_def
proof (induction rule: rtranclp_induct)
  case base
  then show ?case using assms(2) by (simp add: fresh_sys_def)
next
  case (step s s')
  from step.hyps(2) show ?case
  proof (cases rule: reload_step.cases)
    case (tick e k d)
    then show ?thesis using assms(5) [OF step.IH, of e] by (simp add: move_defs)
  qed (use step.IH assms in \<open>auto simp: move_defs\<close>)
qed

text \<open>A tick that finds the object due while \<open>Close\<close> is called is enough to block both for ever.\<close>

lemma close_can_get_stuck:
  assumes due: "due_op K e k = (k', True)" and open_k: "\<not> is_closed K k"
  shows "\<exists>s. reloads K (fresh_sys k) s \<and> pcs s Ticker = Announced \<and> close_stuck c s"
proof -
  have open_k': "\<not> is_closed K k'"
    using due_kept [OF due] open_k by simp
  define s1 where "s1 = goto Ticker Due ((fresh_sys k :: ('k, 'u) sys)\<lparr>obj := k'\<rparr>)"
  define s2 where "s2 = rlock (Client c) InClose s1"
  define s3 where "s3 = goto (Client c) Checked s2"
  define s4 where "s4 = goto (Client c) Sending (s3\<lparr>obj := set_closed K (obj s3)\<rparr>)"
  define s5 where "s5 = goto Ticker Announced (s4\<lparr>pending := Some Ticker\<rparr>)"
  note defs = s1_def s2_def s3_def s4_def s5_def move_defs fresh_sys_def
  have "reload_step K (fresh_sys k) s1"
    using reload_step.tick [of "fresh_sys k" K e k' True] due by (simp add: defs)
  moreover have "reload_step K s1 s2"
    using reload_step.close_lock [of s1 c K] by (simp add: defs)
  moreover have "reload_step K s2 s3"
    using reload_step.close_test [of s2 "Client c" K] open_k' by (simp add: defs)
  moreover have "reload_step K s3 s4"
    using reload_step.close_set [of s3 "Client c" K] by (simp add: defs)
  moreover have "reload_step K s4 s5"
    using reload_step.ticker_lock [of s4 K] by (simp add: defs)
  ultimately have "reloads K (fresh_sys k) s5"
    unfolding reloads_def by (meson rtranclp.intros)
  moreover have "pcs s5 Ticker = Announced \<and> close_stuck c s5"
    by (simp add: defs close_stuck_def)
  ultimately show ?thesis by blast
qed

end

end
