(* ===== verification/Reloaders.thy ===== *)
theory Reloaders
  imports ReloadProtocol Tasks
begin

text \<open>
  The reloaders: the TLS key pair of rest/tlsconfig/reloader.go and the file of
  fileutil/reloader/reloader.go, as objects of the locking protocol. The file system, the clock and the
  parsing of certificates are the environment of a call. Log lines are left out.
\<close>

section \<open>rest/tlsconfig/reloader.go\<close>

record leaf =
  leaf_CommonName :: string
  leaf_NotAfter :: time

record tls_Certificate =
  tcCertificate :: "string list"
  tcLeaf :: "leaf option"

text \<open>What the calls of one \<open>Reload\<close> or tick meet: the outcome of each \<open>LoadX509KeyPair\<close>, of \<open>Stat\<close> on
  both files, the clock and \<open>x509.ParseCertificate\<close>.\<close>

record kenv =
  LoadX509KeyPair :: "nat \<Rightarrow> string + tls_Certificate"
  stat_cert :: "string + time"
  stat_key :: "string + time"
  kNow :: time
  ParseCertificate :: "string \<Rightarrow> string + leaf"

text \<open>\<open>notified\<close> are the goroutines \<open>go h(keypair)\<close> started so far; a handler is a number.\<close>

record KeypairReloader =
  label :: string
  loadedAt :: time
  kcount :: uint32
  keypair :: "tls_Certificate option"
  certPath :: string
  certModifiedAt :: time
  keyPath :: string
  keyModifiedAt :: time
  inProgress :: bool
  kclosed :: bool
  handlers :: "nat list"
  notified :: "(nat \<times> tls_Certificate) list"

definition zero_time :: time where "zero_time = - 62135596800 * second"

text \<open>Up to three attempts, each after a sleep of 100 ms; \<open>err\<close> is nil before the first.\<close>

fun load_loop :: "(nat \<Rightarrow> string + tls_Certificate) \<Rightarrow> nat \<Rightarrow> nat \<Rightarrow> string + tls_Certificate \<Rightarrow> (string + tls_Certificate) \<times> nat" where
  "load_loop f i 0 r = (r, i)"
| "load_loop f i (Suc n) r =
     (case f i of Inr c \<Rightarrow> (Inr c, Suc i) | Inl err \<Rightarrow> load_loop f (Suc i) n (Inl err))"

definition load_pair :: "kenv \<Rightarrow> (string + tls_Certificate) \<times> nat" where
  "load_pair e = load_loop (LoadX509KeyPair e) 0 3 (Inr \<lparr>tcCertificate = [], tcLeaf = None\<rparr>)"

text \<open>\<open>tlsCert\<close> parses the leaf into the pair it shares; a nil pair panics.\<close>

definition with_leaf :: "kenv \<Rightarrow> tls_Certificate \<Rightarrow> tls_Certificate" where
  "with_leaf e kp =
     (case tcLeaf kp of
        Some _ \<Rightarrow> kp
      | None \<Rightarrow>
          (case tcCertificate kp of
             [] \<Rightarrow> kp
           | raw # _ \<Rightarrow> (case ParseCertificate e raw of Inl _ \<Rightarrow> kp | Inr l \<Rightarrow> kp\<lparr>tcLeaf := Some l\<rparr>)))"

definition tlsCert :: "kenv \<Rightarrow> KeypairReloader \<Rightarrow> (string, tls_Certificate \<times> KeypairReloader) result" where
  "tlsCert e k =
     (case keypair k of
        None \<Rightarrow> Panic
      | Some kp \<Rightarrow> (let kp = with_leaf e kp in Ok (kp, k\<lparr>keypair := Some kp\<rparr>)))"

text \<open>The body of \<open>Reload\<close> with the lock held, without and with the flag.\<close>

definition reload_body :: "kenv \<Rightarrow> KeypairReloader \<Rightarrow> KeypairReloader \<times> string option" where
  "reload_body e k =
     (case fst (load_pair e) of
        Inl err \<Rightarrow> (k, Some (''count: '' @ show_nat (unat (kcount k)) @ '': '' @ err))
      | Inr newCert \<Rightarrow>
          (let k1 = k\<lparr>kcount := kcount k + 1, loadedAt := kNow e\<rparr>;
               k2 = (case stat_cert e of Inr m \<Rightarrow> k1\<lparr>certModifiedAt := m\<rparr> | Inl _ \<Rightarrow> k1);
               k3 = (case stat_key e of Inr m \<Rightarrow> k2\<lparr>keyModifiedAt := m\<rparr> | Inl _ \<Rightarrow> k2);
               kp = with_leaf e newCert;
               k4 = k3\<lparr>keypair := Some kp\<rparr>
           in (if certModifiedAt k \<noteq> certModifiedAt k4
               then k4\<lparr>notified := notified k4 @ map (\<lambda>h. (h, kp)) (handlers k4)\<rparr> else k4, None)))"

definition Reload :: "kenv \<Rightarrow> KeypairReloader \<Rightarrow> KeypairReloader \<times> string option" where
  "Reload e k =
     (if inProgress k then (k, None)
      else let (k', err) = reload_body e (k\<lparr>inProgress := True\<rparr>) in (k'\<lparr>inProgress := False\<rparr>, err))"

definition NewKeypairReloaderWithLabel :: "string \<Rightarrow> string \<Rightarrow> string \<Rightarrow> kenv \<Rightarrow> (string, KeypairReloader) result" where
  "NewKeypairReloaderWithLabel lbl cert key e =
     (let k = \<lparr>label = (if lbl = [] then path_base cert else lbl), loadedAt = zero_time, kcount = 0, keypair = None,
               certPath = cert, certModifiedAt = zero_time, keyPath = key, keyModifiedAt = zero_time,
               inProgress = False, kclosed = False, handlers = [], notified = []\<rparr>
      in case Reload e k of (_, Some err) \<Rightarrow> Err err | (k', None) \<Rightarrow> Ok k')"

definition NewKeypairReloader :: "string \<Rightarrow> string \<Rightarrow> kenv \<Rightarrow> (string, KeypairReloader) result" where
  "NewKeypairReloader cert key e = NewKeypairReloaderWithLabel [] cert key e"

text \<open>What the goroutine does with a tick: reload if a file is newer than the one loaded, or if the last
  load is more than an hour ago.\<close>

definition newer :: "string + time \<Rightarrow> time \<Rightarrow> bool" where
  "newer st t = (case st of Inr m \<Rightarrow> m > t | Inl _ \<Rightarrow> False)"

definition keypair_due :: "kenv \<Rightarrow> KeypairReloader \<Rightarrow> bool" where
  "keypair_due e k =
     (newer (stat_cert e) (certModifiedAt k) \<or> newer (stat_key e) (keyModifiedAt k) \<or> loadedAt k + hour < kNow e)"

definition OnReload :: "nat option \<Rightarrow> KeypairReloader \<Rightarrow> KeypairReloader" where
  "OnReload f k = (case f of None \<Rightarrow> k | Some h \<Rightarrow> k\<lparr>handlers := handlers k @ [h]\<rparr>)"

text \<open>\<open>GetKeypairFunc\<close> and \<open>GetClientCertificateFunc\<close> read without the lock, \<open>Keypair\<close> with it; the object may
  be nil in \<open>Keypair\<close> and \<open>CertAndKeyFiles\<close>.\<close>

definition GetKeypairFunc :: "kenv \<Rightarrow> KeypairReloader \<Rightarrow> (string, tls_Certificate \<times> KeypairReloader) result" where
  "GetKeypairFunc e k = tlsCert e k"

definition GetClientCertificateFunc :: "kenv \<Rightarrow> KeypairReloader \<Rightarrow> (string, tls_Certificate \<times> KeypairReloader) result" where
  "GetClientCertificateFunc e k = tlsCert e k"

definition Keypair :: "kenv \<Rightarrow> KeypairReloader option \<Rightarrow> (string, tls_Certificate option \<times> KeypairReloader option) result" where
  "Keypair e k =
     (case k of
        None \<Rightarrow> Ok (None, None)
      | Some k \<Rightarrow> bind_result (tlsCert e k) (\<lambda>(kp, k'). Ok (Some kp, Some k')))"

definition CertAndKeyFiles :: "KeypairReloader option \<Rightarrow> string \<times> string" where
  "CertAndKeyFiles k = (case k of None \<Rightarrow> ([], []) | Some k \<Rightarrow> (certPath k, keyPath k))"

definition LoadedAt :: "KeypairReloader \<Rightarrow> time" where
  "LoadedAt k = loadedAt k"

definition LoadedCount :: "KeypairReloader \<Rightarrow> uint32" where
  "LoadedCount k = kcount k"

definition served :: "kenv \<Rightarrow> KeypairReloader \<Rightarrow> KeypairReloader" where
  "served e k = (case tlsCert e k of Ok (_, k') \<Rightarrow> k' | _ \<Rightarrow> k)"

definition keypair_ops :: "(KeypairReloader, kenv, nat option) object_ops" where
  "keypair_ops =
     \<lparr>busy = inProgress, set_busy = (\<lambda>b k. k\<lparr>inProgress := b\<rparr>), is_closed = kclosed,
      set_closed = (\<lambda>k. k\<lparr>kclosed := True\<rparr>), due_op = (\<lambda>e k. (k, keypair_due e k)),
      load_op = (\<lambda>e k. fst (reload_body e k)), add_op = OnReload, peek_op = served\<rparr>"

section \<open>fileutil/reloader/reloader.go\<close>

record fenv =
  stat_file :: "string + time"
  fNow :: time

text \<open>\<open>changed\<close> are the goroutines \<open>go onChangedFunc(path, modifiedAt)\<close> started so far.\<close>

record Reloader =
  floadedAt :: time
  fcount :: uint32
  filePath :: string
  fileModifiedAt :: time
  finProgress :: bool
  fclosed :: bool
  changed :: "(string \<times> time) list"

definition NewReloader :: "string \<Rightarrow> Reloader" where
  "NewReloader path =
     \<lparr>floadedAt = zero_time, fcount = 0, filePath = path, fileModifiedAt = zero_time, finProgress = False,
      fclosed = False, changed = []\<rparr>"

definition file_tick :: "fenv \<Rightarrow> Reloader \<Rightarrow> Reloader \<times> bool" where
  "file_tick e k =
     (case stat_file e of
        Inr m \<Rightarrow> if m > fileModifiedAt k then (k\<lparr>fileModifiedAt := m\<rparr>, True) else (k, False)
      | Inl _ \<Rightarrow> (k, False))"

definition file_reload_body :: "fenv \<Rightarrow> Reloader \<Rightarrow> Reloader" where
  "file_reload_body e k =
     k\<lparr>fcount := fcount k + 1, floadedAt := fNow e, changed := changed k @ [(filePath k, fileModifiedAt k)]\<rparr>"

definition file_Reload :: "fenv \<Rightarrow> Reloader \<Rightarrow> Reloader" where
  "file_Reload e k =
     (if finProgress k then k
      else (file_reload_body e (k\<lparr>finProgress := True\<rparr>))\<lparr>finProgress := False\<rparr>)"

definition file_LoadedAt :: "Reloader \<Rightarrow> time" where
  "file_LoadedAt k = floadedAt k"

definition file_LoadedCount :: "Reloader \<Rightarrow> uint32" where
  "file_LoadedCount k = fcount k"

definition file_ops :: "(Reloader, fenv, unit) object_ops" where
  "file_ops =
     \<lparr>busy = finProgress, set_busy = (\<lambda>b k. k\<lparr>finProgress := b\<rparr>), is_closed = fclosed,
      set_closed = (\<lambda>k. k\<lparr>fclosed := True\<rparr>), due_op = file_tick, load_op = file_reload_body,
      add_op = (\<lambda>_ k. k), peek_op = (\<lambda>_ k. k)\<rparr>"

section \<open>Both are objects of the protocol\<close>

lemma with_leaf_certificate [simp]: "tcCertificate (with_leaf e kp) = tcCertificate kp"
  by (simp add: with_leaf_def split: option.split list.split sum.split)

lemma reload_body_flags [simp]:
  "inProgress (fst (reload_body e k)) = inProgress k" "kclosed (fst (reload_body e k)) = kclosed k"
  "label (fst (reload_body e k)) = label k" "handlers (fst (reload_body e k)) = handlers k"
  by (simp_all add: reload_body_def Let_def split: sum.split)

lemma served_flags [simp]: "inProgress (served e k) = inProgress k" "kclosed (served e k) = kclosed k"
  by (simp_all add: served_def tlsCert_def Let_def split: option.split)

interpretation kr: reload_object keypair_ops
  by unfold_locales (simp_all add: keypair_ops_def OnReload_def split: option.split)

interpretation fr: reload_object file_ops
  by unfold_locales (simp_all add: file_ops_def file_tick_def file_reload_body_def split: sum.split)

lemma Reload_is_protocol:
  "\<not> inProgress k \<Longrightarrow>
   fst (Reload e k) = set_busy keypair_ops False (load_op keypair_ops e (set_busy keypair_ops True k))"
  by (simp add: Reload_def keypair_ops_def split: prod.split)

lemma file_Reload_is_protocol:
  "\<not> finProgress k \<Longrightarrow> file_Reload e k = set_busy file_ops False (load_op file_ops e (set_busy file_ops True k))"
  by (simp add: file_Reload_def file_ops_def)

section \<open>Loading\<close>

lemma load_pair_fails:
  assumes "\<And>i. i < 3 \<Longrightarrow> LoadX509KeyPair e i = Inl (err i)"
  shows "load_pair e = (Inl (err 2), 3)"
  using assms [of 0] assms [of 1] assms [of 2] by (simp add: load_pair_def eval_nat_numeral)

lemma load_pair_succeeds:
  assumes "i < 3" and "\<And>j. j < i \<Longrightarrow> LoadX509KeyPair e j = Inl (err j)" and "LoadX509KeyPair e i = Inr c"
  shows "load_pair e = (Inr c, Suc i)"
proof -
  from assms(1) consider "i = 0" | "i = 1" | "i = 2" by linarith
  then show ?thesis
    using assms(2) [of 0] assms(2) [of 1] assms(3) by cases (simp_all add: load_pair_def eval_nat_numeral)
qed

text \<open>C26. Reloading a key pair: the first of three attempts that succeeds is served from then on, the load is
  counted (modulo 2^32) and dated, the modification times are those of \<open>Stat\<close> where it succeeds, and every
  handler is started with the new pair exactly if the time of the certificate file changed, whatever happened
  to the key file; if all attempts fail, nothing changes and the error of the last is returned.\<close>

theorem Reload_outcomes:
  assumes idle: "\<not> inProgress k"
    and failing: "\<And>j. j < i \<Longrightarrow> LoadX509KeyPair e j = Inl (err j)"
    and i: "i \<le> 3"
    and succeeds: "i < 3 \<Longrightarrow> LoadX509KeyPair e i = Inr c"
  shows "if i = 3 then Reload e k = (k, Some (''count: '' @ show_nat (unat (kcount k)) @ '': '' @ err 2))
     else \<exists>k'. Reload e k = (k', None) \<and> keypair k' = Some (with_leaf e c) \<and>
       unat (kcount k') = (unat (kcount k) + 1) mod 2 ^ 32 \<and> loadedAt k' = kNow e \<and>
       certModifiedAt k' = (case stat_cert e of Inr m \<Rightarrow> m | Inl _ \<Rightarrow> certModifiedAt k) \<and>
       keyModifiedAt k' = (case stat_key e of Inr m \<Rightarrow> m | Inl _ \<Rightarrow> keyModifiedAt k) \<and>
       notified k' = notified k @
         (if certModifiedAt k' = certModifiedAt k then [] else map (\<lambda>h. (h, with_leaf e c)) (handlers k)) \<and>
       \<not> inProgress k' \<and> kclosed k' = kclosed k \<and> handlers k' = handlers k"
proof (cases "i = 3")
  case True
  then have "load_pair e = (Inl (err 2), 3)"
    using failing by (intro load_pair_fails) simp
  then show ?thesis
    using True idle by (simp add: Reload_def reload_body_def)
next
  case False
  then have "load_pair e = (Inr c, Suc i)"
    using i failing succeeds by (intro load_pair_succeeds) auto
  moreover have "unat (x + 1 :: uint32) = (unat x + 1) mod 2 ^ 32" for x
    by (simp add: unat_word_ariths)
  ultimately show ?thesis
    using False idle by (auto simp: Reload_def reload_body_def Let_def split: sum.split)
qed

section \<open>All interleavings\<close>

lemma NewKeypairReloader_ok:
  assumes "NewKeypairReloaderWithLabel lbl cert key e = Ok k"
  shows "keypair k \<noteq> None \<and> \<not> inProgress k \<and> \<not> kclosed k \<and> kcount k = 1 \<and> loadedAt k = kNow e"
  using assms
  by (auto simp: NewKeypairReloaderWithLabel_def Reload_def reload_body_def Let_def
      split: prod.splits option.splits sum.splits if_splits)

lemma keypair_kept:
  "keypair k \<noteq> None \<Longrightarrow> keypair (fst (reload_body e k)) \<noteq> None"
  "keypair k \<noteq> None \<Longrightarrow> keypair (OnReload u k) \<noteq> None"
  "keypair k \<noteq> None \<Longrightarrow> keypair (served e k) \<noteq> None"
  by (auto simp: reload_body_def OnReload_def served_def tlsCert_def Let_def split: sum.split option.split)

lemma reachable_keypair:
  assumes "NewKeypairReloaderWithLabel lbl cert key e = Ok k" and "reloads keypair_ops (fresh_sys k) s"
  shows "keypair (obj s) \<noteq> None"
  using assms(2)
  by (rule kr.object_invariant [where P = "\<lambda>k. keypair k \<noteq> None"])
    (use NewKeypairReloader_ok [OF assms(1)] keypair_kept in \<open>auto simp: keypair_ops_def\<close>)

text \<open>C16. In every interleaving of the goroutine with calls of \<open>Reload\<close>, \<open>OnReload\<close>, \<open>Keypair\<close>, \<open>Close\<close> and TLS
  handshakes on a new reloader: a handshake always gets a pair, never a nil dereference; at most one thread
  loads, and no reader is inside meanwhile; no call that has taken the lock finds \<open>inProgress\<close> set; at most
  one call of \<open>Close\<close> returns nil, and when it has, the reloader is closed and its goroutine gone.\<close>

theorem keypair_reloader_safe:
  assumes new: "NewKeypairReloaderWithLabel lbl cert key e = Ok k" and run: "reloads keypair_ops (fresh_sys k) s"
  shows "(\<exists>kp k'. GetKeypairFunc e' (obj s) = Ok (kp, k')) \<and>
    (pcs s t = Loading \<longrightarrow> (u \<noteq> t \<longrightarrow> \<not> writing (pcs s u)) \<and> \<not> reading (pcs s u)) \<and>
    (pcs s t = Announced \<longrightarrow> \<not> inProgress (obj s)) \<and>
    length (successes s) \<le> 1 \<and> (successes s \<noteq> [] \<longrightarrow> kclosed (obj s) \<and> pcs s Ticker = Exited)"
proof -
  note k = NewKeypairReloader_ok [OF new]
  have inv: "lock_inv s \<and> busy_inv keypair_ops s \<and> close_inv keypair_ops s"
    using k by (intro kr.reachable_inv [OF run]) (simp_all add: keypair_ops_def)
  have "\<exists>kp k'. GetKeypairFunc e' (obj s) = Ok (kp, k')"
    using reachable_keypair [OF new run] by (auto simp: GetKeypairFunc_def tlsCert_def Let_def)
  moreover have "pcs s t = Loading \<longrightarrow> (u \<noteq> t \<longrightarrow> \<not> writing (pcs s u)) \<and> \<not> reading (pcs s u)"
    using inv loading_alone by blast
  moreover have "pcs s t = Announced \<longrightarrow> \<not> inProgress (obj s)"
    using inv announced_not_busy [of s keypair_ops t] by (auto simp: keypair_ops_def)
  moreover have "length (successes s) \<le> 1 \<and> (successes s \<noteq> [] \<longrightarrow> kclosed (obj s) \<and> pcs s Ticker = Exited)"
    using inv by (auto simp: close_inv_def keypair_ops_def split: if_splits)
  ultimately show ?thesis by blast
qed

text \<open>A concrete reloader: the first attempt to load fails, the second succeeds; later the certificate file is newer.\<close>

definition demo_kenv :: "time \<Rightarrow> kenv" where
  "demo_kenv m =
     \<lparr>LoadX509KeyPair = (\<lambda>i. if i = 0 then Inl ''busy'' else Inr \<lparr>tcCertificate = [''der''], tcLeaf = None\<rparr>),
      stat_cert = Inr m, stat_key = Inr 5, kNow = m + 1,
      ParseCertificate = (\<lambda>_. Inr \<lparr>leaf_CommonName = ''cn'', leaf_NotAfter = 99\<rparr>)\<rparr>"

definition demo_reloader :: KeypairReloader where
  "demo_reloader =
     \<lparr>label = ''a.pem'', loadedAt = 8, kcount = 1,
      keypair = Some \<lparr>tcCertificate = [''der''], tcLeaf = Some \<lparr>leaf_CommonName = ''cn'', leaf_NotAfter = 99\<rparr>\<rparr>,
      certPath = ''/a.pem'', certModifiedAt = 7, keyPath = ''/k.pem'', keyModifiedAt = 5,
      inProgress = False, kclosed = False, handlers = [], notified = []\<rparr>"

lemma demo_reloader_new: "NewKeypairReloaderWithLabel ''a.pem'' ''/a.pem'' ''/k.pem'' (demo_kenv 7) = Ok demo_reloader"
  by (simp add: NewKeypairReloaderWithLabel_def Reload_def reload_body_def load_pair_def demo_kenv_def demo_reloader_def
      with_leaf_def zero_time_def eval_nat_numeral Let_def)

lemma demo_reloader_due: "keypair_due (demo_kenv 9) demo_reloader"
  by (simp add: keypair_due_def newer_def demo_kenv_def demo_reloader_def)

theorem Reload_outcomes_witness:
  "\<exists>k'. Reload (demo_kenv 9) (OnReload (Some 4) demo_reloader) = (k', None) \<and> kcount k' = 2 \<and>
     notified k' = [(4, \<lparr>tcCertificate = [''der''], tcLeaf = Some \<lparr>leaf_CommonName = ''cn'', leaf_NotAfter = 99\<rparr>\<rparr>)]"
proof -
  have "unat x = Suc (Suc 0) \<longleftrightarrow> x = 2" for x :: uint32
    unfolding word_unat_eq_iff by auto
  then show ?thesis
    using Reload_outcomes [of "OnReload (Some 4) demo_reloader" 1 "demo_kenv 9" "\<lambda>_. ''busy''"
        "\<lparr>tcCertificate = [''der''], tcLeaf = None\<rparr>"]
    by (auto simp: demo_kenv_def demo_reloader_def OnReload_def with_leaf_def)
qed

theorem keypair_reloader_safe_witness:
  "\<exists>s. reloads keypair_ops (fresh_sys demo_reloader) s \<and> pcs s Ticker = Announced \<and> pcs s (Client 3) = Sending \<and>
     \<not> inProgress (obj s) \<and> (\<exists>kp k'. GetKeypairFunc (demo_kenv 9) (obj s) = Ok (kp, k'))"
proof -
  have "due_op keypair_ops (demo_kenv 9) demo_reloader = (demo_reloader, True)" "\<not> is_closed keypair_ops demo_reloader"
    using demo_reloader_due by (simp_all add: keypair_ops_def demo_reloader_def)
  from kr.close_can_get_stuck [OF this, of 3] obtain s where
    s: "reloads keypair_ops (fresh_sys demo_reloader) s" "pcs s Ticker = Announced" "close_stuck 3 s" by blast
  then show ?thesis
    using keypair_reloader_safe [OF demo_reloader_new s(1), of "demo_kenv 9" Ticker] by (auto simp: close_stuck_def)
qed

text \<open>C34. \<open>Close\<close> can block for ever: if a tick finds a file changed while \<open>Close\<close> is called, there is an
  interleaving after which \<open>Close\<close> stays at sending the stop message with the read lock held and the
  goroutine stays at \<open>Lock\<close>, whatever the other threads do; no call that needs the lock returns any more.\<close>

theorem Close_deadlocks:
  assumes "keypair_due e k" and "\<not> kclosed k"
  shows "\<exists>s. reloads keypair_ops (fresh_sys k) s \<and>
    (\<forall>s'. reloads keypair_ops s s' \<longrightarrow>
       pcs s' (Client c) = Sending \<and> pcs s' Ticker = Announced \<and> pending s' = Some Ticker \<and> rlocks s' \<noteq> [])"
proof -
  have "due_op keypair_ops e k = (k, True)" "\<not> is_closed keypair_ops k"
    using assms by (simp_all add: keypair_ops_def)
  from kr.close_can_get_stuck [OF this] obtain s where
    s: "reloads keypair_ops (fresh_sys k) s" "pcs s Ticker = Announced" "close_stuck c s" by blast
  have "pcs s' (Client c) = Sending \<and> pcs s' Ticker = Announced \<and> pending s' = Some Ticker \<and> rlocks s' \<noteq> []"
    if "reloads keypair_ops s s'" for s'
  proof -
    have inv: "lock_inv s'" "close_stuck c s'" "pcs s' Ticker = Announced"
      using close_stuck_forever [OF that reloads_lock_inv [OF s(1)] s(3)] s(2) by simp_all
    then have "thread_ok s' Ticker" by (simp add: lock_inv_def)
    then show ?thesis
      using inv sending_holds_lock [OF inv(1), of c] by (simp add: close_stuck_def thread_ok_def)
  qed
  with s(1) show ?thesis by blast
qed

theorem Close_deadlocks_witness:
  "keypair_due (demo_kenv 9) demo_reloader \<and>
   (\<exists>s. reloads keypair_ops (fresh_sys demo_reloader) s \<and>
    (\<forall>s'. reloads keypair_ops s s' \<longrightarrow>
       pcs s' (Client 0) = Sending \<and> pcs s' Ticker = Announced \<and> pending s' = Some Ticker \<and> rlocks s' \<noteq> []))"
  using Close_deadlocks [OF demo_reloader_due, of 0] demo_reloader_due by (simp add: demo_reloader_def)

text \<open>The same holds of the reloader of a file, whose first tick on an existing file always starts the
  callback; two calls of \<open>Close\<close> that both pass the test of \<open>closed\<close> end with one of them blocked.\<close>

lemma file_Close_deadlocks:
  fixes e :: fenv and k :: Reloader
  assumes "stat_file e = Inr m" and "m > fileModifiedAt k" and "\<not> fclosed k"
  shows "\<exists>s. reloads file_ops (fresh_sys k) s \<and>
    (\<forall>s'. reloads file_ops s s' \<longrightarrow> pcs s' (Client c) = Sending \<and> pcs s' Ticker = Announced)"
proof -
  have "due_op file_ops e k = (k\<lparr>fileModifiedAt := m\<rparr>, True)" "\<not> is_closed file_ops k"
    using assms by (simp_all add: file_ops_def file_tick_def)
  from fr.close_can_get_stuck [OF this] obtain s where
    "reloads file_ops (fresh_sys k) s" "pcs s Ticker = Announced" "close_stuck c s" by blast
  then show ?thesis
    using close_stuck_forever [OF _ reloads_lock_inv] by (metis close_stuck_def)
qed

lemma second_Close_never_returns:
  assumes "reloads K (fresh_sys k) s" and "pcs s Ticker = Exited" and "pcs s (Client c) = Sending" and "reloads K s s'"
  shows "pcs s' (Client c) = Sending"
  using close_stuck_forever [OF assms(4) reloads_lock_inv [OF assms(1)], of c] assms(2,3) by (simp add: close_stuck_def)

lemma file_changes_counted:
  assumes "reloads file_ops (fresh_sys (NewReloader path)) s"
  shows "fcount (obj s) = of_nat (length (changed (obj s))) \<and> (\<forall>x \<in> set (changed (obj s)). fst x = path)"
proof -
  have "filePath (obj s) = path \<and> fcount (obj s) = of_nat (length (changed (obj s))) \<and> (\<forall>x \<in> set (changed (obj s)). fst x = path)"
    using assms
    by (rule fr.object_invariant
        [where P = "\<lambda>k. filePath k = path \<and> fcount k = of_nat (length (changed k)) \<and> (\<forall>x \<in> set (changed k). fst x = path)"])
      (auto simp: NewReloader_def file_ops_def file_tick_def file_reload_body_def split: sum.split)
  then show ?thesis by simp
qed

end
