(* ===== verification/TlsConfig.thy ===== *)
theory TlsConfig
  imports Reloaders
begin

text \<open>
  rest/tlsconfig/tlsconfig.go: TLS settings made from files, with and without a reloader, and the HTTP
  transport that follows its reloader. Reading of files, loading of key pairs and parsing of PEM are an
  environment; a pool is the list of its certificates.
\<close>

record tls_Config =
  MinVersion :: nat
  NextProtos :: "string list"
  Certificates :: "tls_Certificate list"
  ClientAuth :: nat
  ClientCAs :: "string list option"
  RootCAs :: "string list option"
  GetClientCertificate :: bool

record tenv =
  load_files :: "string \<Rightarrow> string \<Rightarrow> string + tls_Certificate"
  read_file :: "string \<Rightarrow> string + string"
  certs_from_PEM :: "string \<Rightarrow> string list"
  reload_env :: kenv

definition VersionTLS12 :: nat where "VersionTLS12 = 0x0303"

definition load_roots :: "tenv \<Rightarrow> string \<Rightarrow> (string, string list option) result" where
  "load_roots E rootsFile =
     (if rootsFile = [] then Ok None
      else case read_file E rootsFile of Inl e \<Rightarrow> Err e | Inr b \<Rightarrow> Ok (Some (certs_from_PEM E b)))"

definition NewServerTLSFromFiles :: "tenv \<Rightarrow> string \<Rightarrow> string \<Rightarrow> string \<Rightarrow> nat \<Rightarrow> (string, tls_Config) result" where
  "NewServerTLSFromFiles E certFile keyFile rootsFile clientauthType =
     (case load_files E certFile keyFile of
        Inl e \<Rightarrow> Err e
      | Inr tlscert \<Rightarrow>
          bind_result (load_roots E rootsFile) (\<lambda>roots.
            Ok \<lparr>MinVersion = VersionTLS12, NextProtos = [''h2'', ''http/1.1''], Certificates = [tlscert],
                ClientAuth = clientauthType, ClientCAs = roots, RootCAs = roots, GetClientCertificate = False\<rparr>))"

definition NewClientTLSFromFiles :: "tenv \<Rightarrow> string \<Rightarrow> string \<Rightarrow> string \<Rightarrow> (string, tls_Config) result" where
  "NewClientTLSFromFiles E certFile keyFile rootsFile =
     bind_result (load_roots E rootsFile) (\<lambda>roots.
       let cfg = \<lparr>MinVersion = VersionTLS12, NextProtos = [''h2'', ''http/1.1''], Certificates = [],
                  ClientAuth = 0, ClientCAs = roots, RootCAs = roots, GetClientCertificate = False\<rparr>
       in if certFile = [] then Ok cfg
          else case load_files E certFile keyFile of
            Inl e \<Rightarrow> Err e
          | Inr tlscert \<Rightarrow> Ok (cfg\<lparr>Certificates := [with_leaf (reload_env E) tlscert]\<rparr>))"

text \<open>The setting \<open>GetClientCertificate\<close> is the function of the reloader returned beside it.\<close>

definition NewClientTLSWithReloader ::
    "tenv \<Rightarrow> string \<Rightarrow> string \<Rightarrow> string \<Rightarrow> (string, tls_Config \<times> KeypairReloader) result" where
  "NewClientTLSWithReloader E certFile keyFile rootsFile =
     bind_result (NewClientTLSFromFiles E certFile keyFile rootsFile) (\<lambda>tlsCfg.
       bind_result (NewKeypairReloader certFile keyFile (reload_env E)) (\<lambda>tlsloader.
         Ok (tlsCfg\<lparr>GetClientCertificate := True\<rparr>, tlsloader)))"

section \<open>The transport\<close>

text \<open>An \<open>http.Transport\<close>: its settings and how often its idle connections were closed.\<close>

record transport =
  TLSClientConfig :: "tls_Config option"
  idle_closed :: nat

record HTTPTransport =
  tr_transport :: transport
  tr_tlsConfig :: tls_Config
  tr_reloader :: "KeypairReloader option"

definition reload_handler :: nat where "reload_handler = 0"

definition NewHTTPTransportWithReloader ::
    "tenv \<Rightarrow> string \<Rightarrow> string \<Rightarrow> string \<Rightarrow> transport \<Rightarrow> transport option \<Rightarrow> (string, HTTPTransport) result" where
  "NewHTTPTransportWithReloader E certFile keyFile rootsFile DefaultTransport HTTPUserTransport =
     (let trn = (case HTTPUserTransport of None \<Rightarrow> DefaultTransport | Some x \<Rightarrow> x)
      in bind_result (NewClientTLSFromFiles E certFile keyFile rootsFile) (\<lambda>tlsCfg.
           bind_result (NewKeypairReloader certFile keyFile (reload_env E)) (\<lambda>tlsloader.
             Ok \<lparr>tr_transport = trn, tr_tlsConfig = tlsCfg, tr_reloader = Some (OnReload (Some reload_handler) tlsloader)\<rparr>)))"

text \<open>The handler installed by \<open>OnReload\<close>: it logs fields of the leaf first, so a pair without a leaf panics.\<close>

definition on_reload :: "tls_Certificate \<Rightarrow> HTTPTransport \<Rightarrow> (string, HTTPTransport) result" where
  "on_reload tlscert t =
     (case tcLeaf tlscert of
        None \<Rightarrow> Panic
      | Some _ \<Rightarrow> Ok (t\<lparr>tr_tlsConfig := (tr_tlsConfig t)\<lparr>Certificates := [tlscert]\<rparr>,
                        tr_transport := (tr_transport t)\<lparr>idle_closed := idle_closed (tr_transport t) + 1\<rparr>\<rparr>))"

definition RoundTrip :: "(transport \<Rightarrow> 'q \<Rightarrow> string + 'r) \<Rightarrow> 'q \<Rightarrow> HTTPTransport \<Rightarrow> HTTPTransport \<times> (string + 'r)" where
  "RoundTrip net r t =
     (let t' = t\<lparr>tr_transport := (tr_transport t)\<lparr>TLSClientConfig := Some (tr_tlsConfig t)\<rparr>\<rparr>
      in (t', net (tr_transport t') r))"

text \<open>\<open>Close\<close>, given what \<open>Close\<close> of the reloader returns; it sets a field under the read lock.\<close>

definition HTTPTransport_Close :: "(KeypairReloader \<Rightarrow> string option) \<Rightarrow> HTTPTransport \<Rightarrow> HTTPTransport \<times> string option" where
  "HTTPTransport_Close close t =
     (case tr_reloader t of
        None \<Rightarrow> (t, Some ''already closed'')
      | Some k \<Rightarrow> (t\<lparr>tr_reloader := None\<rparr>, close k))"

section \<open>Every request uses the pair loaded last\<close>

text \<open>The handlers that a reload starts, run on the transport.\<close>

fun run_handlers :: "(nat \<times> tls_Certificate) list \<Rightarrow> HTTPTransport \<Rightarrow> (string, HTTPTransport) result" where
  "run_handlers [] t = Ok t"
| "run_handlers ((h, c) # hs) t = (if h = reload_handler then bind_result (on_reload c t) (run_handlers hs) else run_handlers hs t)"

lemma client_config_settings:
  "NewClientTLSFromFiles E certFile keyFile rootsFile = Ok cfg \<Longrightarrow>
   MinVersion cfg = VersionTLS12 \<and> NextProtos cfg = [''h2'', ''http/1.1''] \<and> RootCAs cfg = ClientCAs cfg \<and>
   (rootsFile = [] \<longleftrightarrow> RootCAs cfg = None) \<and> length (Certificates cfg) = (if certFile = [] then 0 else 1)"
  by (auto simp: NewClientTLSFromFiles_def load_roots_def bind_result_eq_Ok Let_def split: if_splits sum.splits)

lemma server_config_settings:
  "NewServerTLSFromFiles E certFile keyFile rootsFile auth = Ok cfg \<Longrightarrow>
   MinVersion cfg = VersionTLS12 \<and> NextProtos cfg = [''h2'', ''http/1.1''] \<and> ClientAuth cfg = auth \<and>
   RootCAs cfg = ClientCAs cfg \<and> (rootsFile = [] \<longleftrightarrow> RootCAs cfg = None) \<and> length (Certificates cfg) = 1"
  by (auto simp: NewServerTLSFromFiles_def load_roots_def bind_result_eq_Ok split: if_splits sum.splits)

text \<open>A file of roots without a certificate is accepted: the pool is empty and nothing is trusted.\<close>

lemma empty_roots_accepted:
  "rootsFile \<noteq> [] \<Longrightarrow> read_file E rootsFile = Inr b \<Longrightarrow> certs_from_PEM E b = [] \<Longrightarrow>
   \<exists>cfg. NewClientTLSFromFiles E [] keyFile rootsFile = Ok cfg \<and> RootCAs cfg = Some []"
  by (simp add: NewClientTLSFromFiles_def load_roots_def)

lemma with_leaf_parsed:
  assumes "tcCertificate c = raw # rest" and "ParseCertificate e raw = Inr l"
  shows "tcLeaf (with_leaf e c) \<noteq> None"
  using assms by (simp add: with_leaf_def split: option.split)

lemma new_transport:
  assumes "NewHTTPTransportWithReloader E certFile keyFile rootsFile dt ut = Ok t"
  obtains k where "tr_reloader t = Some k" and "handlers k = [reload_handler]" and "\<not> inProgress k"
    and "MinVersion (tr_tlsConfig t) = VersionTLS12" and "\<not> kclosed k"
proof -
  obtain cfg k where cfg: "NewClientTLSFromFiles E certFile keyFile rootsFile = Ok cfg"
    and k: "NewKeypairReloader certFile keyFile (reload_env E) = Ok k"
    and t: "tr_reloader t = Some (OnReload (Some reload_handler) k)" "tr_tlsConfig t = cfg"
    using assms by (auto simp: NewHTTPTransportWithReloader_def bind_result_eq_Ok Let_def)
  have "handlers k = []"
    using k by (auto simp: NewKeypairReloader_def NewKeypairReloaderWithLabel_def Reload_def Let_def
        split: prod.splits option.splits dest: arg_cong [of "reload_body _ _" _ "handlers o fst"])
  moreover have "\<not> inProgress k" "\<not> kclosed k"
    using NewKeypairReloader_ok k unfolding NewKeypairReloader_def by blast+
  ultimately show ?thesis
    using t client_config_settings [OF cfg] that by (simp add: OnReload_def)
qed

lemma Reload_loaded:
  assumes "\<not> inProgress k" and "fst (load_pair e) = Inr c"
  shows "\<exists>k'. Reload e k = (k', None) \<and> keypair k' = Some (with_leaf e c) \<and>
    certModifiedAt k' = (case stat_cert e of Inr m \<Rightarrow> m | Inl _ \<Rightarrow> certModifiedAt k) \<and>
    notified k' = notified k @
      (if certModifiedAt k' = certModifiedAt k then [] else map (\<lambda>h. (h, with_leaf e c)) (handlers k))"
  using assms by (auto simp: Reload_def reload_body_def Let_def split: sum.split)

text \<open>A transport made with a reloader follows it: after a reload that changed the certificate's
  modification time, the next request goes out with the new pair as its only certificate, the idle connections
  having been closed once, and TLS 1.2 and the trusted roots as before. A reload that leaves that time as it was
  (only the key file changed) changes what the reloader serves and not what the transport sends.\<close>

theorem transport_follows_reload:
  assumes new: "NewHTTPTransportWithReloader E certFile keyFile rootsFile dt ut = Ok t"
    and k: "tr_reloader t = Some k"
    and load: "fst (load_pair e) = Inr c" and leaf: "tcLeaf (with_leaf e c) \<noteq> None"
  shows "\<exists>k' t' cfg. Reload e k = (k', None) \<and> keypair k' = Some (with_leaf e c) \<and>
    run_handlers (drop (length (notified k)) (notified k')) t = Ok t' \<and>
    snd (RoundTrip net r t') =
      net \<lparr>TLSClientConfig = Some cfg, idle_closed = idle_closed (tr_transport t) +
             (if stat_cert e \<in> Inr ` (- {certModifiedAt k}) then 1 else 0)\<rparr> r \<and>
    Certificates cfg = (if stat_cert e \<in> Inr ` (- {certModifiedAt k}) then [with_leaf e c] else Certificates (tr_tlsConfig t)) \<and>
    MinVersion cfg = VersionTLS12 \<and> RootCAs cfg = RootCAs (tr_tlsConfig t)"
proof -
  have idle: "\<not> inProgress k" and h: "handlers k = [reload_handler]" and v: "MinVersion (tr_tlsConfig t) = VersionTLS12"
    using new_transport [OF new] k by (metis option.inject)+
  obtain l where l: "tcLeaf (with_leaf e c) = Some l" using leaf by blast
  obtain k' where k': "Reload e k = (k', None)" "keypair k' = Some (with_leaf e c)"
    and m: "certModifiedAt k' = (case stat_cert e of Inr m \<Rightarrow> m | Inl _ \<Rightarrow> certModifiedAt k)"
    and n: "notified k' = notified k @
      (if certModifiedAt k' = certModifiedAt k then [] else [(reload_handler, with_leaf e c)])"
    using Reload_loaded [OF idle load] by (auto simp: h)
  show ?thesis
  proof (cases "certModifiedAt k' = certModifiedAt k")
    case True
    then have "stat_cert e \<notin> Inr ` (- {certModifiedAt k})"
      using m by auto
    then show ?thesis
      using k' n True v by (cases "tr_transport t") (auto simp: RoundTrip_def Let_def)
  next
    case False
    then have "stat_cert e \<in> Inr ` (- {certModifiedAt k})"
      using m by (cases "stat_cert e") auto
    then show ?thesis
      using k' n False v l by (cases "tr_transport t") (auto simp: RoundTrip_def on_reload_def Let_def)
  qed
qed

definition demo_tenv :: tenv where
  "demo_tenv =
     \<lparr>load_files = (\<lambda>_ _. Inr \<lparr>tcCertificate = [''old''], tcLeaf = None\<rparr>), read_file = (\<lambda>_. Inr ''pem''),
      certs_from_PEM = (\<lambda>_. [''root'']), reload_env = demo_kenv 7\<rparr>"

lemma demo_transport:
  "\<exists>t. NewHTTPTransportWithReloader demo_tenv ''/a.pem'' ''/k.pem'' ''/r.pem''
     \<lparr>TLSClientConfig = None, idle_closed = 0\<rparr> None = Ok t \<and>
     tr_reloader t = Some (demo_reloader\<lparr>handlers := [reload_handler]\<rparr>) \<and> idle_closed (tr_transport t) = 0"
proof -
  have "path_base ''/a.pem'' = ''a.pem''"
    by (simp add: path_base_def)
  then have "NewKeypairReloader ''/a.pem'' ''/k.pem'' (demo_kenv 7) = Ok demo_reloader"
    using demo_reloader_new by (simp add: NewKeypairReloader_def NewKeypairReloaderWithLabel_def)
  then show ?thesis
    by (simp add: NewHTTPTransportWithReloader_def NewClientTLSFromFiles_def load_roots_def demo_tenv_def OnReload_def
        demo_reloader_def)
qed

theorem transport_follows_reload_witness:
  "\<exists>t t' cfg. NewHTTPTransportWithReloader demo_tenv ''/a.pem'' ''/k.pem'' ''/r.pem''
       \<lparr>TLSClientConfig = None, idle_closed = 0\<rparr> None = Ok t \<and>
     snd (RoundTrip (\<lambda>tr q. Inr (tr, q)) ''GET'' t') = (Inr (\<lparr>TLSClientConfig = Some cfg, idle_closed = 1\<rparr>, ''GET'') :: string + _) \<and>
     map tcCertificate (Certificates cfg) = [[''der'']]"
proof -
  obtain t where t: "NewHTTPTransportWithReloader demo_tenv ''/a.pem'' ''/k.pem'' ''/r.pem''
      \<lparr>TLSClientConfig = None, idle_closed = 0\<rparr> None = Ok t"
    "tr_reloader t = Some (demo_reloader\<lparr>handlers := [reload_handler]\<rparr>)" "idle_closed (tr_transport t) = 0"
    using demo_transport by blast
  have load: "fst (load_pair (demo_kenv 9)) = Inr \<lparr>tcCertificate = [''der''], tcLeaf = None\<rparr>"
    by (simp add: load_pair_def demo_kenv_def eval_nat_numeral)
  have changed: "stat_cert (demo_kenv 9) \<in> Inr ` (- {certModifiedAt (demo_reloader\<lparr>handlers := [reload_handler]\<rparr>)})"
    by (simp add: demo_kenv_def demo_reloader_def)
  have leaf: "tcLeaf (with_leaf (demo_kenv 9) \<lparr>tcCertificate = [''der''], tcLeaf = None\<rparr>) \<noteq> None"
    by (simp add: with_leaf_def demo_kenv_def)
  show ?thesis
    using transport_follows_reload [OF t(1,2) load leaf, where net = "\<lambda>tr q. Inr (tr, q)" and r = "''GET''"] t(1,3) changed
    by fastforce
qed

end
