(* ===== verification/FileUtil.thy ===== *)
theory FileUtil
  imports GoStrings
begin

text \<open>
  The package fileutil: configuration values kept in files and environment variables (load.go), checks of
  files and folders (folders.go) and paths relative to a base folder (resolve/resolve.go). The results of
  system calls are arguments or a store of files and variables; paths are cleaned as
  \<open>path/filepath\<close> does on Unix.
\<close>

section \<open>Paths\<close>

definition IsAbs :: "string \<Rightarrow> bool" where
  "IsAbs p = has_prefix p ''/''"

text \<open>\<open>filepath.Clean\<close>: the components kept so far are in reverse order.\<close>

fun clean_loop :: "bool \<Rightarrow> string list \<Rightarrow> string list \<Rightarrow> string list" where
  "clean_loop rooted [] acc = rev acc"
| "clean_loop rooted (c # cs) acc =
     (if c = [] \<or> c = ''.'' then clean_loop rooted cs acc
      else if c = ''..'' then
        (case acc of
           [] \<Rightarrow> clean_loop rooted cs (if rooted then [] else [c])
         | a # acc' \<Rightarrow> if a = ''..'' then clean_loop rooted cs (c # acc) else clean_loop rooted cs acc')
      else clean_loop rooted cs (c # acc))"

definition Clean :: "string \<Rightarrow> string" where
  "Clean p =
     (let out = (if IsAbs p then ''/'' else []) @ join ''/'' (clean_loop (IsAbs p) (split_on (CHR ''/'') p) [])
      in if out = [] then ''.'' else out)"

definition Join :: "string \<Rightarrow> string \<Rightarrow> string" where
  "Join a b = (if a = [] \<and> b = [] then [] else if a = [] then Clean b else Clean (a @ ''/'' @ b))"

section \<open>folders.go\<close>

datatype stat = NotExist string | StatError string | RegularFile | Folder

definition FolderExists :: "(string \<Rightarrow> stat) \<Rightarrow> string \<Rightarrow> string option" where
  "FolderExists Stat dir =
     (if dir = [] then Some ''invalid parameter: dir''
      else case Stat dir of
        NotExist e \<Rightarrow> Some e | StatError e \<Rightarrow> Some e
      | Folder \<Rightarrow> None
      | RegularFile \<Rightarrow> Some (''not a folder: '' @ [CHR 0x22] @ dir @ [CHR 0x22]))"

definition FileExists :: "(string \<Rightarrow> stat) \<Rightarrow> string \<Rightarrow> string option" where
  "FileExists Stat fn =
     (if fn = [] then Some ''invalid parameter: file''
      else case Stat fn of
        NotExist e \<Rightarrow> Some e | StatError e \<Rightarrow> Some e
      | Folder \<Rightarrow> Some (''not a file: '' @ [CHR 0x22] @ fn @ [CHR 0x22])
      | RegularFile \<Rightarrow> None)"

section \<open>resolve/resolve.go\<close>

text \<open>The result is a name with an optional error; \<open>MkdirAll\<close> gives its error.\<close>

definition Directory :: "(string \<Rightarrow> stat) \<Rightarrow> (string \<Rightarrow> string option) \<Rightarrow> string \<Rightarrow> string \<Rightarrow> bool \<Rightarrow> string \<times> string option" where
  "Directory Stat MkdirAll dir baseDir create =
     (if dir = [] then (dir, None)
      else let resolved = (if IsAbs dir then dir else Join baseDir dir)
        in case Stat resolved of
             NotExist e \<Rightarrow>
               if create then
                 (case MkdirAll resolved of
                    Some e' \<Rightarrow> ([], Some (''crerate dir: '' @ [CHR 0x22] @ resolved @ [CHR 0x22] @ '': '' @ e'))
                  | None \<Rightarrow> (resolved, None))
               else (resolved, Some (''not found: '' @ resolved @ '': '' @ e))
           | _ \<Rightarrow> (resolved, None))"

definition File :: "(string \<Rightarrow> stat) \<Rightarrow> string \<Rightarrow> string \<Rightarrow> string \<times> string option" where
  "File Stat fn baseDir =
     (if fn = [] then (fn, None)
      else let resolved = (if IsAbs fn then fn else if baseDir \<noteq> [] then Join baseDir fn else [])
        in case Stat resolved of
             NotExist e \<Rightarrow> (resolved, Some (''not found: '' @ resolved @ '': '' @ e))
           | _ \<Rightarrow> (resolved, None))"

section \<open>load.go\<close>

definition FileSource :: string where "FileSource = ''file://''"
definition EnvSource :: string where "EnvSource = ''env://''"

definition trim_prefix :: "string \<Rightarrow> string \<Rightarrow> string" where
  "trim_prefix s p = (if has_prefix s p then drop (length p) s else s)"

text \<open>Files and environment variables; \<open>write_error\<close> is what \<open>WriteFile\<close> answers for a name.\<close>

record store =
  files :: "(string, string) gomap"
  environ :: "(string, string) gomap"
  write_error :: "string \<Rightarrow> string option"

definition ReadFile :: "store \<Rightarrow> string \<Rightarrow> string + string" where
  "ReadFile st fn =
     (case mget (files st) fn of
        None \<Rightarrow> Inl (''open '' @ fn @ '': no such file or directory'') | Some v \<Rightarrow> Inr v)"

definition Getenv :: "store \<Rightarrow> string \<Rightarrow> string" where
  "Getenv st v = (case mget (environ st) v of None \<Rightarrow> [] | Some x \<Rightarrow> x)"

definition Setenv :: "string \<Rightarrow> string \<Rightarrow> store \<Rightarrow> store \<times> string option" where
  "Setenv key v st =
     (if key = [] \<or> CHR ''='' \<in> set key \<or> CHR 0x00 \<in> set key \<or> CHR 0x00 \<in> set v then (st, Some ''setenv: invalid argument'')
      else (st\<lparr>environ := mput key v (environ st)\<rparr>, None))"

definition LoadConfigWithSchema :: "store \<Rightarrow> string \<Rightarrow> string \<times> string option" where
  "LoadConfigWithSchema st config =
     (if has_prefix config FileSource then
        (case ReadFile st (trim_prefix config FileSource) of
           Inl e \<Rightarrow> (config, Some e)
         | Inr f \<Rightarrow> (f, None))
      else if has_prefix config EnvSource then
        let env = trim_prefix config EnvSource; v = Getenv st env
        in if v = [] then ([], Some (''Environment variable '' @ [CHR 0x22] @ env @ [CHR 0x22] @ '' is not set'')) else (v, None)
      else (config, None))"

definition SaveConfigWithSchema :: "string \<Rightarrow> string \<Rightarrow> store \<Rightarrow> store \<times> string option" where
  "SaveConfigWithSchema path v st =
     (if has_prefix path FileSource then
        let fn = trim_prefix path FileSource
        in (case write_error st fn of
              Some e \<Rightarrow> (st, Some e)
            | None \<Rightarrow> (st\<lparr>files := mput fn v (files st)\<rparr>, None))
      else if has_prefix path EnvSource then Setenv (trim_prefix path EnvSource) v st
      else (st, None))"

section \<open>What is saved is loaded\<close>

definition has_schema :: "string \<Rightarrow> bool" where
  "has_schema path = (has_prefix path FileSource \<or> has_prefix path EnvSource)"

lemma schemas_disjoint: "has_prefix path FileSource \<Longrightarrow> \<not> has_prefix path EnvSource"
  by (auto simp: has_prefix_def FileSource_def EnvSource_def prefix_def)

text \<open>A configuration value comes back as it was saved: after a save without error under a name with a
  schema, loading that name gives the value, and every name with another schema or another
  rest loads as before; the one exception is the empty value of an environment variable, which loads as not
  set. A name without schema is not saved, although no error is returned, and loads as itself.\<close>

theorem config_roundtrip:
  assumes save: "SaveConfigWithSchema path v st = (st', None)"
  shows "LoadConfigWithSchema st' path =
      (if has_prefix path FileSource then (v, None)
       else if has_prefix path EnvSource then
         (if v = [] then ([], Some (''Environment variable '' @ [CHR 0x22] @ trim_prefix path EnvSource @ [CHR 0x22] @ '' is not set''))
          else (v, None))
       else (path, None)) \<and>
    (path' \<noteq> path \<longrightarrow> LoadConfigWithSchema st' path' = LoadConfigWithSchema st path') \<and>
    (\<not> has_schema path \<longrightarrow> st' = st)"
proof -
  have inj: "trim_prefix p s \<noteq> trim_prefix q s" if "has_prefix p s" "has_prefix q s" "q \<noteq> p" for p q s
    using that by (auto simp: trim_prefix_def has_prefix_def prefix_def)
  consider (f) "has_prefix path FileSource" "\<not> has_prefix path EnvSource" | (e) "\<not> has_prefix path FileSource" "has_prefix path EnvSource"
    | (n) "\<not> has_schema path" using schemas_disjoint by (auto simp: has_schema_def)
  then show ?thesis
  proof cases
    case f
    then have st': "st' = st\<lparr>files := mput (trim_prefix path FileSource) v (files st)\<rparr>"
      using save by (simp add: SaveConfigWithSchema_def Let_def split: option.splits)
    show ?thesis
      using f inj [of path FileSource path']
      by (simp add: st' LoadConfigWithSchema_def ReadFile_def Getenv_def has_schema_def)
  next
    case e
    then have st': "st' = st\<lparr>environ := mput (trim_prefix path EnvSource) v (environ st)\<rparr>"
      using save by (simp add: SaveConfigWithSchema_def Setenv_def Let_def split: if_splits)
    show ?thesis
      using e inj [of path EnvSource path']
      by (simp add: st' LoadConfigWithSchema_def ReadFile_def Getenv_def has_schema_def Let_def)
  next
    case n
    then show ?thesis
      using save by (simp add: SaveConfigWithSchema_def LoadConfigWithSchema_def has_schema_def)
  qed
qed

definition demo_store :: store where
  "demo_store = \<lparr>files = [(''/a'', ''x'')], environ = [(''E'', ''y'')], write_error = (\<lambda>_. None)\<rparr>"

theorem config_roundtrip_witness:
  "\<exists>st'. SaveConfigWithSchema ''file:///b'' ''secret'' demo_store = (st', None) \<and>
     LoadConfigWithSchema st' ''file:///b'' = (''secret'', None) \<and>
     LoadConfigWithSchema st' ''file:///a'' = (''x'', None) \<and> LoadConfigWithSchema st' ''env://E'' = (''y'', None)"
proof -
  define st' where "st' = demo_store\<lparr>files := [(''/a'', ''x''), (''/b'', ''secret'')]\<rparr>"
  have save: "SaveConfigWithSchema ''file:///b'' ''secret'' demo_store = (st', None)"
    by (simp add: SaveConfigWithSchema_def st'_def demo_store_def has_prefix_def FileSource_def trim_prefix_def)
  have "LoadConfigWithSchema st' ''file:///b'' = (''secret'', None)"
    using config_roundtrip [OF save] by (simp add: has_prefix_def FileSource_def)
  moreover have "LoadConfigWithSchema st' ''file:///a'' = (''x'', None)"
    using config_roundtrip [OF save, of "''file:///a''"]
    by (simp add: LoadConfigWithSchema_def ReadFile_def demo_store_def has_prefix_def FileSource_def trim_prefix_def)
  moreover have "LoadConfigWithSchema st' ''env://E'' = (''y'', None)"
    using config_roundtrip [OF save, of "''env://E''"]
    by (simp add: LoadConfigWithSchema_def Getenv_def demo_store_def has_prefix_def FileSource_def EnvSource_def trim_prefix_def)
  ultimately show ?thesis using save by blast
qed

section \<open>Resolved names\<close>

lemma Clean_absolute: "IsAbs p \<Longrightarrow> IsAbs (Clean p)"
  by (simp add: Clean_def IsAbs_def has_prefix_def Let_def)

lemma Join_absolute: "IsAbs a \<Longrightarrow> IsAbs (Join a b)"
  by (cases a) (auto simp: Join_def IsAbs_def has_prefix_def intro!: Clean_absolute [unfolded IsAbs_def has_prefix_def])

text \<open>With an absolute base folder every resolved name is absolute; without one a relative file is looked up
  as the empty name.\<close>

lemma resolved_absolute:
  "IsAbs baseDir \<Longrightarrow> fn \<noteq> [] \<Longrightarrow> IsAbs (fst (File Stat fn baseDir))"
  "IsAbs baseDir \<Longrightarrow> dir \<noteq> [] \<Longrightarrow> snd (Directory Stat Mk dir baseDir create) = None \<Longrightarrow> IsAbs (fst (Directory Stat Mk dir baseDir create))"
  by (cases baseDir; auto simp: File_def Directory_def Let_def Join_absolute IsAbs_def has_prefix_def
      intro: Join_absolute [unfolded IsAbs_def has_prefix_def] split: stat.split option.split if_splits)+

lemma relative_file_without_base:
  "fn \<noteq> [] \<Longrightarrow> \<not> IsAbs fn \<Longrightarrow> Stat [] = NotExist e \<Longrightarrow> File Stat fn [] = ([], Some (''not found: : '' @ e))"
  by (simp add: File_def)

end
