(* ===== verification/GoUrl.thy ===== *)
theory GoUrl
  imports GoStrings
begin

text \<open>
  What the crypto providers use of \<open>net/url\<close>: the scheme, opaque part and path of a URL and the values of
  a query. The check of the authority of a hierarchical URL, whose parts are not used, is an argument.
\<close>

section \<open>Escapes\<close>

definition hex_value :: "char \<Rightarrow> nat option" where
  "hex_value c =
     (let n = (of_char c :: nat)
      in if 48 \<le> n \<and> n \<le> 57 then Some (n - 48)
         else if 97 \<le> n \<and> n \<le> 102 then Some (n - 87)
         else if 65 \<le> n \<and> n \<le> 70 then Some (n - 55) else None)"

text \<open>\<open>unescape\<close> for a query component (where a plus is a blank) and for a path; \<open>None\<close> is its error.\<close>

fun unescape :: "bool \<Rightarrow> string \<Rightarrow> string option" where
  "unescape q [] = Some []"
| "unescape q (c # s) =
     (if c = CHR ''%'' then
        (case s of
           a # b # s' \<Rightarrow>
             (case (hex_value a, hex_value b) of
                (Some x, Some y) \<Rightarrow> map_option (\<lambda>r. char_of (16 * x + y) # r) (unescape q s')
              | _ \<Rightarrow> None)
         | _ \<Rightarrow> None)
      else if q \<and> c = CHR ''+'' then map_option (\<lambda>r. CHR '' '' # r) (unescape q s)
      else map_option (\<lambda>r. c # r) (unescape q s))"

section \<open>Queries\<close>

definition cut :: "char \<Rightarrow> string \<Rightarrow> string \<times> string" where
  "cut c s = (takeWhile (\<lambda>x. x \<noteq> c) s, drop 1 (dropWhile (\<lambda>x. x \<noteq> c) s))"

text \<open>One part of a query: skipped when empty, an error when an escape is wrong.\<close>

definition parse_pair :: "string \<Rightarrow> (string \<times> string) option option" where
  "parse_pair part =
     (if part = [] then Some None
      else case cut (CHR ''='') part of
        (k, v) \<Rightarrow>
          (case (unescape True k, unescape True v) of
             (Some k', Some v') \<Rightarrow> Some (Some (k', v'))
           | _ \<Rightarrow> None))"

text \<open>\<open>ParseQuery\<close> on a text without semicolons: the values in order, and whether there was an error.\<close>

fun parse_parts :: "string list \<Rightarrow> (string \<times> string) list \<times> bool" where
  "parse_parts [] = ([], False)"
| "parse_parts (p # ps) =
     (let (vs, err) = parse_parts ps
      in case parse_pair p of
           None \<Rightarrow> (vs, True)
         | Some None \<Rightarrow> (vs, err)
         | Some (Some kv) \<Rightarrow> (kv # vs, err))"

definition ParseQuery :: "string \<Rightarrow> (string \<times> string) list \<times> bool" where
  "ParseQuery q = parse_parts (split_on (CHR ''&'') q)"

definition Values_Get :: "(string \<times> string) list \<Rightarrow> string \<Rightarrow> string" where
  "Values_Get vs k = (case map_of vs k of None \<Rightarrow> [] | Some v \<Rightarrow> v)"

section \<open>URLs\<close>

record url =
  pScheme :: string
  pOpaque :: string
  pPath :: string

definition is_letter :: "char \<Rightarrow> bool" where
  "is_letter c = (let n = (of_char c :: nat) in (97 \<le> n \<and> n \<le> 122) \<or> (65 \<le> n \<and> n \<le> 90))"

text \<open>\<open>getScheme\<close>: the scheme (empty if there is none) and the rest, or an error.\<close>

fun scheme_loop :: "string \<Rightarrow> string \<Rightarrow> string \<Rightarrow> (string \<times> string) option" where
  "scheme_loop raw seen [] = Some ([], raw)"
| "scheme_loop raw seen (c # cs) =
     (if is_letter c then scheme_loop raw (c # seen) cs
      else if digit_of c \<noteq> None \<or> c = CHR ''+'' \<or> c = CHR ''-'' \<or> c = CHR ''.'' then
        (if seen = [] then Some ([], raw) else scheme_loop raw (c # seen) cs)
      else if c = CHR '':'' then (if seen = [] then None else Some (rev seen, cs))
      else Some ([], raw))"

definition is_ctl :: "char \<Rightarrow> bool" where
  "is_ctl c = (let n = (of_char c :: nat) in n < 32 \<or> n = 127)"

definition set_path :: "string \<Rightarrow> string \<Rightarrow> url option" where
  "set_path scheme p = map_option (\<lambda>p'. \<lparr>pScheme = scheme, pOpaque = [], pPath = p'\<rparr>) (unescape False p)"

definition parse_rest :: "(string \<Rightarrow> bool) \<Rightarrow> string \<Rightarrow> string \<Rightarrow> url option" where
  "parse_rest authority_ok scheme rest =
     (if \<not> has_prefix rest ''/'' then
        (if scheme \<noteq> [] then Some \<lparr>pScheme = scheme, pOpaque = rest, pPath = []\<rparr>
         else if CHR '':'' \<in> set (takeWhile (\<lambda>c. c \<noteq> CHR ''/'') rest) then None
         else set_path [] rest)
      else if has_prefix rest ''//'' \<and> (scheme \<noteq> [] \<or> \<not> has_prefix rest ''///'') then
        (let auth = takeWhile (\<lambda>c. c \<noteq> CHR ''/'') (drop 2 rest)
         in if authority_ok auth then set_path scheme (drop (2 + length auth) rest) else None)
      else set_path scheme rest)"

definition url_parse :: "(string \<Rightarrow> bool) \<Rightarrow> string \<Rightarrow> url option" where
  "url_parse authority_ok raw =
     (let (u, frag) = cut (CHR ''#'') raw
      in if \<exists>c \<in> set u. is_ctl c then None
         else case scheme_loop u [] u of
           None \<Rightarrow> None
         | Some (scheme, rest) \<Rightarrow>
             (case parse_rest authority_ok (to_lower scheme) (fst (cut (CHR ''?'') rest)) of
                None \<Rightarrow> None
              | Some r \<Rightarrow> (case unescape False frag of None \<Rightarrow> None | Some _ \<Rightarrow> Some r)))"

section \<open>Plain text is left alone\<close>

text \<open>Characters that mean nothing to the parsers above.\<close>

definition plain_char :: "char \<Rightarrow> bool" where
  "plain_char c \<longleftrightarrow> c \<notin> {CHR ''%'', CHR ''+'', CHR ''&'', CHR '';'', CHR ''='', CHR ''#'', CHR ''?''} \<and> \<not> is_ctl c"

definition plain :: "string \<Rightarrow> bool" where
  "plain s = list_all plain_char s"

lemma unescape_id: "CHR ''%'' \<notin> set s \<Longrightarrow> (q \<longrightarrow> CHR ''+'' \<notin> set s) \<Longrightarrow> unescape q s = Some s"
  by (induction s) auto

lemma cut_first: "c \<notin> set a \<Longrightarrow> cut c (a @ c # b) = (a, b)"
  by (simp add: cut_def takeWhile_append dropWhile_append)

lemma cut_none: "c \<notin> set a \<Longrightarrow> cut c a = (a, [])"
proof -
  assume "c \<notin> set a"
  then have "takeWhile (\<lambda>x. x \<noteq> c) a = a" "dropWhile (\<lambda>x. x \<noteq> c) a = []"
    by (auto simp: takeWhile_eq_all_conv dropWhile_eq_Nil_conv)
  then show ?thesis by (simp only: cut_def drop_Nil)
qed

lemma parse_pair_plain:
  assumes "k \<noteq> []" and "plain k" and "plain v"
  shows "parse_pair (k @ ''='' @ v) = Some (Some (k, v))"
proof -
  have "CHR ''='' \<notin> set k"
    using assms(2) by (auto simp: plain_def list_all_iff plain_char_def)
  then have "cut (CHR ''='') (k @ ''='' @ v) = (k, v)"
    by (simp add: cut_first)
  moreover have "unescape True k = Some k" "unescape True v = Some v"
    using assms(2,3) by (auto intro!: unescape_id simp: plain_def list_all_iff plain_char_def)
  ultimately show ?thesis
    using assms(1) by (simp add: parse_pair_def)
qed

text \<open>A scheme: a letter, then letters and digits.\<close>

definition scheme_word :: "string \<Rightarrow> bool" where
  "scheme_word a = (a \<noteq> [] \<and> is_letter (hd a) \<and> list_all (\<lambda>c. is_letter c \<or> digit_of c \<noteq> None) a)"

lemma scheme_loop_word:
  "list_all (\<lambda>c. is_letter c \<or> digit_of c \<noteq> None) a \<Longrightarrow> seen \<noteq> [] \<or> a \<noteq> [] \<and> is_letter (hd a) \<Longrightarrow>
   scheme_loop raw seen (a @ CHR '':'' # b) = Some (rev seen @ a, b)"
proof (induction a arbitrary: seen)
  case Nil
  have "\<not> is_letter CHR '':''" "digit_of CHR '':'' = None"
    by (simp_all add: is_letter_def digit_of_def)
  with Nil show ?case by simp
next
  case (Cons c a)
  then show ?case by auto
qed

lemma scheme_char: "is_letter c \<or> digit_of c \<noteq> None \<Longrightarrow> \<not> is_ctl c \<and> c \<noteq> CHR ''#''"
  by (auto simp: is_letter_def is_ctl_def digit_of_def Let_def split: if_splits)

lemma url_parse_opaque:
  assumes "scheme_word sch" and "to_lower sch = sch"
    and "\<And>c. c \<in> set b \<Longrightarrow> \<not> is_ctl c \<and> c \<noteq> CHR ''#'' \<and> c \<noteq> CHR ''?''" and "\<not> has_prefix b ''/''"
  shows "url_parse ok (sch @ CHR '':'' # b) = Some \<lparr>pScheme = sch, pOpaque = b, pPath = []\<rparr>"
proof -
  have all: "\<not> is_ctl c \<and> c \<noteq> CHR ''#''" if "c \<in> set (sch @ CHR '':'' # b)" for c
    using that assms(1,3) scheme_char [of c] by (auto simp: scheme_word_def list_all_iff is_ctl_def)
  have "cut (CHR ''#'') (sch @ CHR '':'' # b) = (sch @ CHR '':'' # b, [])"
    using all by (intro cut_none) blast
  moreover have "cut (CHR ''?'') b = (b, [])"
    using assms(3) by (intro cut_none) blast
  moreover have "scheme_loop u [] (sch @ CHR '':'' # b) = Some (sch, b)" for u
    using scheme_loop_word [of sch "[]" u b] assms(1) by (simp add: scheme_word_def)
  moreover have "\<not> (\<exists>c \<in> set (sch @ CHR '':'' # b). is_ctl c)"
    using all by blast
  ultimately show ?thesis
    using assms(1,2,4) unfolding url_parse_def by (simp add: parse_rest_def scheme_word_def)
qed

end
