(* ===== verification/CryptoProv.thy ===== *)
theory CryptoProv
  imports GoUrl FileUtil Csr
begin

text \<open>
  The package xpki/cryptoprov: token configurations (config.go), PKCS #11 URIs (uri.go), the registry of
  loaders (loader.go), the set of providers (provider.go) and loading of keys (utils.go, gcm.go). Parsers of
  JSON, PEM and DER, the file system and AES-GCM are arguments; a private key is known by its public part.
  The texts of errors of \<open>net/url\<close> are left out.
\<close>

section \<open>config.go\<close>

record tokenConfig =
  Man :: string
  Mod :: string
  Dir :: string
  Serial :: string
  Label :: string
  Pwd :: string
  Attrs :: string

definition empty_token :: tokenConfig where
  "empty_token = \<lparr>Man = [], Mod = [], Dir = [], Serial = [], Label = [], Pwd = [], Attrs = []\<rparr>"

text \<open>The world of a call: opening and decoding a configuration, \<open>Stat\<close>, \<open>ReadFile\<close>, the working folder, and
  the check of the authority of a URL.\<close>

record prov_env =
  open_error :: "string \<Rightarrow> string option"
  decode_config :: "string \<Rightarrow> string + tokenConfig"
  os_Stat :: "string \<Rightarrow> stat"
  os_ReadFile :: "string \<Rightarrow> string + string"
  Getwd :: string
  authority_ok :: "string \<Rightarrow> bool"

text \<open>\<open>filepath.Dir\<close>\<close>

definition path_dir :: "string \<Rightarrow> string" where
  "path_dir p = Clean (rev (dropWhile (\<lambda>c. c \<noteq> CHR ''/'') (rev p)))"

fun pin_loop :: "prov_env \<Rightarrow> string list \<Rightarrow> string \<Rightarrow> string" where
  "pin_loop E [] pinfile = pinfile"
| "pin_loop E (folder # fs) pinfile =
     (case File (os_Stat E) pinfile folder of
        (resolved, None) \<Rightarrow> resolved
      | (_, Some _) \<Rightarrow> pin_loop E fs pinfile)"

definition LoadTokenConfig :: "prov_env \<Rightarrow> string \<Rightarrow> (string, tokenConfig) result" where
  "LoadTokenConfig E filename =
     (case open_error E filename of
        Some e \<Rightarrow> Err e
      | None \<Rightarrow>
          (case decode_config E filename of
             Inl e \<Rightarrow> Err (''failed to decode file: '' @ filename @ '': '' @ e)
           | Inr tc \<Rightarrow>
               if has_prefix (Pwd tc) ''file:'' then
                 (let pinfile = pin_loop E [[], Getwd E, path_dir filename] (drop 5 (Pwd tc))
                  in case os_ReadFile E pinfile of
                       Inl e \<Rightarrow> Err (''unable to load PIN for configuration: '' @ filename @ '': '' @ e)
                     | Inr pb \<Rightarrow> Ok (tc\<lparr>Pwd := pb\<rparr>))
               else Ok tc))"

section \<open>uri.go\<close>

record keyURI =
  kmanufacturer :: string
  kmodel :: string
  ktokenSerial :: string
  ktokenLabel :: string
  kid :: string

definition ErrInvalidURI :: string where "ErrInvalidURI = ''invalid URI''"
definition ErrInvalidPrivateKeyURI :: string where "ErrInvalidPrivateKeyURI = ''invalid URI for private key object''"

definition setIfPresent :: "(string \<times> string) list \<Rightarrow> string \<Rightarrow> string \<Rightarrow> string" where
  "setIfPresent vs k target = (let sv = Values_Get vs k in if sv \<noteq> [] then sv else target)"

definition trim_nul :: "string \<Rightarrow> string" where
  "trim_nul s = rev (dropWhile (\<lambda>c. c = CHR 0x00) (rev s))"

definition semicolons :: "string \<Rightarrow> string" where
  "semicolons s = map (\<lambda>c. if c = CHR '';'' then CHR ''&'' else c) s"

text \<open>The common beginning: the attributes of a URI of scheme pkcs11.\<close>

definition pk11_attributes :: "prov_env \<Rightarrow> string \<Rightarrow> (string, (string \<times> string) list) result" where
  "pk11_attributes E uri =
     (case url_parse (authority_ok E) uri of
        None \<Rightarrow> Err (''invalid URI: '' @ uri)
      | Some u \<Rightarrow>
          if pScheme u \<noteq> ''pkcs11'' then Err (uri @ '': '' @ ErrInvalidURI)
          else (case ParseQuery (semicolons (pOpaque u)) of
                  (_, True) \<Rightarrow> Err (''invalid URI: '' @ uri)
                | (vs, False) \<Rightarrow> Ok vs))"

definition ParseTokenURI :: "prov_env \<Rightarrow> string \<Rightarrow> (string, tokenConfig) result" where
  "ParseTokenURI E uri =
     bind_result (pk11_attributes E uri) (\<lambda>vs.
       let c = empty_token\<lparr>Man := setIfPresent vs ''manufacturer'' [], Mod := setIfPresent vs ''model'' [],
                 Dir := setIfPresent vs ''module-path'' (setIfPresent vs ''module-name'' []),
                 Label := setIfPresent vs ''token'' [], Serial := setIfPresent vs ''serial'' [],
                 Pwd := setIfPresent vs ''pin-value'' []\<rparr>;
           pinSourceURI = setIfPresent vs ''pin-source'' []
       in if pinSourceURI = [] then Ok c
          else case url_parse (authority_ok E) pinSourceURI of
            None \<Rightarrow> Panic
          | Some pinURI \<Rightarrow>
              (let path = (if pOpaque pinURI \<noteq> [] \<and> pPath pinURI = [] then pOpaque pinURI else pPath pinURI)
               in if pScheme pinURI \<noteq> ''file'' \<or> path = [] then Err (uri @ '': '' @ ErrInvalidURI)
                  else case os_ReadFile E path of
                    Inl _ \<Rightarrow> Err (uri @ '': '' @ ErrInvalidURI)
                  | Inr pin \<Rightarrow> Ok (c\<lparr>Pwd := trim_space pin, Man := trim_space (trim_nul (Man c)), Mod := trim_space (Mod c)\<rparr>)))"

definition ParsePrivateKeyURI :: "prov_env \<Rightarrow> string \<Rightarrow> (string, keyURI) result" where
  "ParsePrivateKeyURI E uri =
     bind_result (pk11_attributes E uri) (\<lambda>vs.
       let c = \<lparr>kmanufacturer = setIfPresent vs ''manufacturer'' [], kmodel = setIfPresent vs ''model'' [],
                ktokenSerial = setIfPresent vs ''serial'' [], ktokenLabel = setIfPresent vs ''token'' [],
                kid = setIfPresent vs ''id'' []\<rparr>;
           objtype = setIfPresent vs ''type'' []
       in if objtype \<noteq> ''private'' \<or> ktokenSerial c = [] \<or> kid c = [] then Err (uri @ '': '' @ ErrInvalidPrivateKeyURI)
          else Ok (c\<lparr>kmanufacturer := trim_space (trim_nul (kmanufacturer c)), kmodel := trim_space (kmodel c)\<rparr>))"

section \<open>provider.go\<close>

text \<open>A provider is any value with a manufacturer, which the functions below are given.\<close>

record 'p Crypto =
  cr_provider :: "'p option"
  byManufacturer :: "(string, 'p) gomap"

definition Crypto_Add :: "('p \<Rightarrow> string) \<Rightarrow> 'p \<Rightarrow> 'p Crypto \<Rightarrow> (string, 'p Crypto) result" where
  "Crypto_Add man p c =
     (case mget (byManufacturer c) (man p) of
        Some _ \<Rightarrow> Err (''duplicate provider specified for manufacturer: '' @ man p)
      | None \<Rightarrow> Ok (c\<lparr>byManufacturer := mput (man p) p (byManufacturer c)\<rparr>))"

fun add_all :: "('p \<Rightarrow> string) \<Rightarrow> 'p list \<Rightarrow> 'p Crypto \<Rightarrow> (string, 'p Crypto) result" where
  "add_all man [] c = Ok c"
| "add_all man (p # ps) c = bind_result (Crypto_Add man p c) (add_all man ps)"

definition Crypto_New :: "('p \<Rightarrow> string) \<Rightarrow> 'p option \<Rightarrow> 'p list \<Rightarrow> (string, 'p Crypto) result" where
  "Crypto_New man d ps = add_all man ps \<lparr>cr_provider = d, byManufacturer = []\<rparr>"

definition Default :: "'p Crypto \<Rightarrow> 'p option" where
  "Default c = cr_provider c"

definition ByManufacturer :: "('p \<Rightarrow> string) \<Rightarrow> 'p Crypto \<Rightarrow> string \<Rightarrow> (string, 'p) result" where
  "ByManufacturer man c m =
     (case cr_provider c of
        Some d \<Rightarrow>
          if man d = m then Ok d
          else (case mget (byManufacturer c) m of
                  None \<Rightarrow> Err (''provider for manufacturer '' @ [CHR 0x22] @ m @ [CHR 0x22] @ '' not found'') | Some p \<Rightarrow> Ok p)
      | None \<Rightarrow> (case mget (byManufacturer c) m of
                  None \<Rightarrow> Err (''provider for manufacturer '' @ [CHR 0x22] @ m @ [CHR 0x22] @ '' not found'') | Some p \<Rightarrow> Ok p))"

section \<open>loader.go\<close>

type_synonym 'p loaders = "(string, tokenConfig \<Rightarrow> string + 'p) gomap"

definition Register :: "string \<Rightarrow> (tokenConfig \<Rightarrow> string + 'p) \<Rightarrow> 'p loaders \<Rightarrow> (string, 'p loaders) result" where
  "Register m l ls = (case mget ls m of Some _ \<Rightarrow> Err (''already registered: '' @ m) | None \<Rightarrow> Ok (mput m l ls))"

definition Unregister :: "string \<Rightarrow> 'p loaders \<Rightarrow> (string, (tokenConfig \<Rightarrow> string + 'p) \<times> 'p loaders) result" where
  "Unregister m ls = (case mget ls m of Some l \<Rightarrow> Ok (l, AList.delete m ls) | None \<Rightarrow> Err (''not registered: '' @ m))"

definition LoadProvider :: "prov_env \<Rightarrow> 'p loaders \<Rightarrow> string \<Rightarrow> (string, 'p) result" where
  "LoadProvider E ls loc =
     bind_result (LoadTokenConfig E loc) (\<lambda>tc.
       case mget ls (Man tc) of
         None \<Rightarrow> Err (''provider not registered: '' @ Man tc)
       | Some loader \<Rightarrow> (case loader tc of Inl e \<Rightarrow> Err e | Inr p \<Rightarrow> Ok p))"

fun load_configs :: "prov_env \<Rightarrow> ('p \<Rightarrow> string) \<Rightarrow> 'p loaders \<Rightarrow> string list \<Rightarrow> 'p Crypto \<Rightarrow> (string, 'p Crypto) result" where
  "load_configs E man ls [] c = Ok c"
| "load_configs E man ls (loc # locs) c =
     bind_result (LoadProvider E ls loc) (\<lambda>p. bind_result (Crypto_Add man p c) (load_configs E man ls locs))"

definition Load :: "prov_env \<Rightarrow> ('p \<Rightarrow> string) \<Rightarrow> 'p loaders \<Rightarrow> string \<Rightarrow> string list \<Rightarrow> (string, 'p Crypto) result" where
  "Load E man ls defaultConfig locs =
     bind_result (LoadProvider E ls defaultConfig) (\<lambda>p.
       bind_result (Crypto_New man (Some p) []) (\<lambda>c.
         bind_result (Crypto_Add man p c) (load_configs E man ls locs)))"

section \<open>utils.go\<close>

text \<open>Keys: those of the in-memory providers, of a key management service, and parsed ones.\<close>

record provImpl =
  impl_id :: string
  impl_label :: string
  impl_pvk :: pubkey

record Signer =
  sKeyID :: string
  sLabel :: string
  signingAlgorithms :: "string list"
  sPubKey :: pubkey

datatype privkey = ProvKey provImpl | KmsKey Signer | RawKey pubkey

record key_env =
  ParsePKCS8PrivateKey :: "string \<Rightarrow> pubkey option"
  ParsePKCS1PrivateKey :: "string \<Rightarrow> pubkey option"
  ParseECPrivateKey :: "string \<Rightarrow> pubkey option"
  GetKeyDERFromPEM :: "string \<Rightarrow> string + string"
  pem_next :: "string \<Rightarrow> ((string \<times> string) \<times> string) option"
  parse_leaf :: "string \<Rightarrow> string + string"

definition ParsePrivateKeyDER :: "key_env \<Rightarrow> string \<Rightarrow> (string, privkey) result" where
  "ParsePrivateKeyDER X der =
     (case (case ParsePKCS8PrivateKey X der of
              Some k \<Rightarrow> Some k
            | None \<Rightarrow> (case ParsePKCS1PrivateKey X der of Some k \<Rightarrow> Some k | None \<Rightarrow> ParseECPrivateKey X der)) of
        None \<Rightarrow> Err ''failed to parse key''
      | Some (RSAKey b n) \<Rightarrow> Ok (RawKey (RSAKey b n))
      | Some (ECDSAKey c n) \<Rightarrow> Ok (RawKey (ECDSAKey c n))
      | Some (OtherKey _) \<Rightarrow> Err ''failed to parse key'')"

definition ParsePrivateKeyPEM :: "key_env \<Rightarrow> string \<Rightarrow> (string, privkey) result" where
  "ParsePrivateKeyPEM X keyPEM =
     (case GetKeyDERFromPEM X keyPEM of Inl e \<Rightarrow> Err e | Inr der \<Rightarrow> ParsePrivateKeyDER X der)"

text \<open>\<open>LoadPrivateKey\<close>, with \<open>GetKey\<close> of the providers. A parsed key has no provider.\<close>

definition Crypto_LoadPrivateKey ::
    "prov_env \<Rightarrow> key_env \<Rightarrow> ('p \<Rightarrow> string) \<Rightarrow> ('p \<Rightarrow> string \<Rightarrow> string + privkey) \<Rightarrow> 'p Crypto \<Rightarrow> string \<Rightarrow>
     (string, 'p option \<times> privkey) result" where
  "Crypto_LoadPrivateKey E X man get c key =
     (if has_prefix key ''pkcs11'' then
        bind_result (ParsePrivateKeyURI E key) (\<lambda>u.
          bind_result (ByManufacturer man c (kmanufacturer u)) (\<lambda>p.
            case get p (kid u) of Inl e \<Rightarrow> Err e | Inr k \<Rightarrow> Ok (Some p, k)))
      else bind_result (ParsePrivateKeyPEM X key) (\<lambda>k. Ok (None, k)))"

text \<open>The loop over the PEM blocks of \<open>TLSKeyPair\<close>; it ends when no block is found.\<close>

partial_function (option) pem_blocks ::
    "key_env \<Rightarrow> string \<Rightarrow> string list \<Rightarrow> string list \<Rightarrow> (string list \<times> string list) option" where
  "pem_blocks X rest certs skipped =
     (case pem_next X rest of
        None \<Rightarrow> Some (certs, skipped)
      | Some ((typ, bytes), rest') \<Rightarrow>
          if typ = ''CERTIFICATE'' then pem_blocks X rest' (certs @ [bytes]) skipped
          else pem_blocks X rest' certs (skipped @ [typ]))"

record key_pair =
  kpCertificate :: "string list"
  kpLeaf :: string
  kpPrivateKey :: privkey

definition no_certificate :: "string list \<Rightarrow> string" where
  "no_certificate skipped =
     (case skipped of
        [] \<Rightarrow> ''tls: failed to find any PEM data in certificate input''
      | [t] \<Rightarrow>
          if has_suffix t ''PRIVATE KEY''
          then ''tls: failed to find certificate PEM data in certificate input, but did find a private key; PEM inputs may have been switched''
          else ''tls: failed to find \"CERTIFICATE\" PEM block in certificate input after skipping PEM blocks of the following types: ['' @ t @ '']''
      | ts \<Rightarrow> ''tls: failed to find \"CERTIFICATE\" PEM block in certificate input after skipping PEM blocks of the following types: ['' @ join '' '' ts @ '']'')"

definition TLSKeyPair ::
    "prov_env \<Rightarrow> key_env \<Rightarrow> ('p \<Rightarrow> string) \<Rightarrow> ('p \<Rightarrow> string \<Rightarrow> string + privkey) \<Rightarrow> 'p Crypto \<Rightarrow> string \<Rightarrow> string \<Rightarrow>
     (string, key_pair) result option" where
  "TLSKeyPair E X man get c certPEM keyPEM =
     map_option (\<lambda>(certs, skipped).
       case certs of
         [] \<Rightarrow> Err (no_certificate skipped)
       | raw # _ \<Rightarrow>
           (case parse_leaf X raw of
              Inl e \<Rightarrow> Err e
            | Inr leaf \<Rightarrow>
                bind_result (Crypto_LoadPrivateKey E X man get c keyPEM) (\<lambda>(_, k).
                  Ok \<lparr>kpCertificate = certs, kpLeaf = leaf, kpPrivateKey = k\<rparr>)))
       (pem_blocks X certPEM [] [])"

definition LoadTLSKeyPair ::
    "prov_env \<Rightarrow> key_env \<Rightarrow> ('p \<Rightarrow> string) \<Rightarrow> ('p \<Rightarrow> string \<Rightarrow> string + privkey) \<Rightarrow> 'p Crypto \<Rightarrow> string \<Rightarrow> string \<Rightarrow>
     (string, key_pair) result option" where
  "LoadTLSKeyPair E X man get c certFile keyFile =
     (case os_ReadFile E certFile of
        Inl e \<Rightarrow> Some (Err e)
      | Inr cert \<Rightarrow>
          (case os_ReadFile E keyFile of Inl e \<Rightarrow> Some (Err e) | Inr key \<Rightarrow> TLSKeyPair E X man get c cert key))"

section \<open>gcm.go\<close>

text \<open>AES-GCM: making a cipher from a key, the size of its nonce, sealing and opening. \<open>Seal(nonce, nonce, ..)\<close>
  appends to the nonce.\<close>

record aead =
  NewCipher :: "string \<Rightarrow> string option"
  NonceSize :: nat
  Seal :: "string \<Rightarrow> string \<Rightarrow> string \<Rightarrow> string"
  Open :: "string \<Rightarrow> string \<Rightarrow> string \<Rightarrow> string option"

definition GcmEncrypt :: "aead \<Rightarrow> (nat \<Rightarrow> string) \<Rightarrow> string \<Rightarrow> string \<Rightarrow> (string, string) result" where
  "GcmEncrypt A Random plaintext key =
     (case NewCipher A key of
        Some e \<Rightarrow> Err e
      | None \<Rightarrow> (let nonce = Random (NonceSize A) in Ok (nonce @ Seal A key nonce plaintext)))"

definition GcmDecrypt :: "aead \<Rightarrow> string \<Rightarrow> string \<Rightarrow> (string, string) result" where
  "GcmDecrypt A ciphertext key =
     (case NewCipher A key of
        Some e \<Rightarrow> Err e
      | None \<Rightarrow>
          if length ciphertext < NonceSize A then Err ''ciphertext too short''
          else (case Open A key (take (NonceSize A) ciphertext) (drop (NonceSize A) ciphertext) of
                  None \<Rightarrow> Err ''cipher: message authentication failed'' | Some p \<Rightarrow> Ok p))"

lemma gcm_roundtrip:
  assumes "NewCipher A key = None" and "\<And>n. length (Random n) = n"
    and "\<And>nonce p. length nonce = NonceSize A \<Longrightarrow> Open A key nonce (Seal A key nonce p) = Some p"
  shows "\<exists>c. GcmEncrypt A Random p key = Ok c \<and> GcmDecrypt A c key = Ok p"
  using assms by (simp add: GcmEncrypt_def GcmDecrypt_def Let_def)

end
