(* ===== verification/CryptoProviders.thy ===== *)
theory CryptoProviders
  imports CryptoProv
begin

text \<open>
  The crypto providers: exportable keys in memory (inmemcrypto) and the provider for tests (testprov), which
  exports URIs. Random bytes and key generation of the standard library are parts of the state or arguments.
  Provider state is passed explicitly.
\<close>

section \<open>guid.go\<close>

definition hex_digit :: "nat \<Rightarrow> char" where
  "hex_digit n = (if n < 10 then char_of (48 + n) else char_of (55 + n))"

definition hex_byte :: "byte \<Rightarrow> string" where
  "hex_byte b = [hex_digit (unat b div 16), hex_digit (unat b mod 16)]"

definition hex_bytes :: "byte list \<Rightarrow> string" where
  "hex_bytes bs = concat (map hex_byte bs)"

definition guid_text :: "byte list \<Rightarrow> string" where
  "guid_text b =
     hex_bytes (take 4 b) @ ''-'' @ hex_bytes (take 2 (drop 4 b)) @ ''-'' @ hex_bytes (take 2 (drop 6 b)) @ ''-'' @
     hex_bytes (take 2 (drop 8 b)) @ ''-'' @ hex_bytes (drop 10 b)"

section \<open>The interface of a provider\<close>

record 'p provider_ops =
  GenerateRSAKey :: "string \<Rightarrow> int \<Rightarrow> int \<Rightarrow> 'p \<Rightarrow> (string + privkey) \<times> 'p"
  GenerateECDSAKey :: "string \<Rightarrow> string \<Rightarrow> 'p \<Rightarrow> (string + privkey) \<times> 'p"
  IdentifyKey :: "privkey \<Rightarrow> string + (string \<times> string)"
  ExportKey :: "string \<Rightarrow> 'p \<Rightarrow> (string, string \<times> string option) result"
  GetKey :: "string \<Rightarrow> 'p \<Rightarrow> string + privkey"

section \<open>inmemcrypto/provider.go\<close>

text \<open>The map of keys, and the sources of randomness: the bytes of the next GUIDs and the results of
  \<open>rsa.GenerateKey\<close> and \<open>ecdsa.GenerateKey\<close>, by the number of draws made.\<close>

record inMemProv =
  keyIDToPvk :: "(string, provImpl) gomap"
  guid_bytes :: "nat \<Rightarrow> byte list"
  rsa_GenerateKey :: "nat \<Rightarrow> int \<Rightarrow> string + pubkey"
  ecdsa_GenerateKey :: "nat \<Rightarrow> string \<Rightarrow> string + pubkey"
  drawn :: nat

definition NewProvider :: "(nat \<Rightarrow> byte list) \<Rightarrow> (nat \<Rightarrow> int \<Rightarrow> string + pubkey) \<Rightarrow> (nat \<Rightarrow> string \<Rightarrow> string + pubkey) \<Rightarrow> inMemProv" where
  "NewProvider g r e = \<lparr>keyIDToPvk = [], guid_bytes = g, rsa_GenerateKey = r, ecdsa_GenerateKey = e, drawn = 0\<rparr>"

definition MustCreate :: "inMemProv \<Rightarrow> string \<times> inMemProv" where
  "MustCreate p = (guid_text (guid_bytes p (drawn p)), p\<lparr>drawn := drawn p + 1\<rparr>)"

definition registerKey :: "string \<Rightarrow> provImpl \<Rightarrow> inMemProv \<Rightarrow> inMemProv" where
  "registerKey keyID si p = p\<lparr>keyIDToPvk := mput keyID si (keyIDToPvk p)\<rparr>"

definition getKey :: "string \<Rightarrow> inMemProv \<Rightarrow> string + provImpl" where
  "getKey keyID p = (case mget (keyIDToPvk p) keyID of None \<Rightarrow> Inl (''key not found: '' @ keyID) | Some si \<Rightarrow> Inr si)"

text \<open>\<open>fmt.Sprintf("%x", s)\<close> of a text.\<close>

definition lower_hex :: "string \<Rightarrow> string" where
  "lower_hex s = map lower_char (hex_bytes (map of_char s))"

definition default_label :: "string \<Rightarrow> inMemProv \<Rightarrow> string \<times> inMemProv" where
  "default_label label p = (if length label = 0 then let (g, p') = MustCreate p in (lower_hex g, p') else (label, p))"

definition add_key :: "string \<Rightarrow> pubkey \<Rightarrow> inMemProv \<Rightarrow> privkey \<times> inMemProv" where
  "add_key label key p =
     (let (label', p1) = default_label label p;
          (i, p2) = MustCreate p1;
          si = \<lparr>impl_id = i, impl_label = label', impl_pvk = key\<rparr>
      in (ProvKey si, registerKey i si p2))"

definition inmem_GenerateRSAKey :: "string \<Rightarrow> int \<Rightarrow> int \<Rightarrow> inMemProv \<Rightarrow> (string + privkey) \<times> inMemProv" where
  "inmem_GenerateRSAKey label bits purpose p =
     (case rsa_GenerateKey p (drawn p) bits of
        Inl e \<Rightarrow> (Inl (''unable to generate key, bit size: '' @ itoa bits @ '': '' @ e), p)
      | Inr key \<Rightarrow> (let (k, p') = add_key label key p in (Inr k, p')))"

definition inmem_GenerateECDSAKey :: "string \<Rightarrow> string \<Rightarrow> inMemProv \<Rightarrow> (string + privkey) \<times> inMemProv" where
  "inmem_GenerateECDSAKey label curve p =
     (case ecdsa_GenerateKey p (drawn p) curve of
        Inl e \<Rightarrow> (Inl e, p)
      | Inr key \<Rightarrow> (let (k, p') = add_key label key p in (Inr k, p')))"

text \<open>The error of \<open>IdentifyKey\<close> also names the Go type of the key.\<close>

definition inmem_IdentifyKey :: "privkey \<Rightarrow> string + (string \<times> string)" where
  "inmem_IdentifyKey priv = (case priv of ProvKey si \<Rightarrow> Inr (impl_id si, impl_label si) | _ \<Rightarrow> Inl ''unsupported key'')"

definition inmem_GetKey :: "string \<Rightarrow> inMemProv \<Rightarrow> string + privkey" where
  "inmem_GetKey keyID p =
     (case getKey keyID p of Inl e \<Rightarrow> Inl (''key not found: '' @ keyID @ '': '' @ e) | Inr si \<Rightarrow> Inr (ProvKey si))"

text \<open>\<open>ExportKey\<close> with the DER encoders and PEM; an unexpected kind of key panics.\<close>

definition inmem_ExportKey ::
    "(pubkey \<Rightarrow> string) \<Rightarrow> (pubkey \<Rightarrow> string + string) \<Rightarrow> (string \<Rightarrow> string \<Rightarrow> string) \<Rightarrow> string \<Rightarrow> inMemProv \<Rightarrow>
     (string, string \<times> string option) result" where
  "inmem_ExportKey MarshalPKCS1 MarshalEC pem keyID p =
     (case getKey keyID p of
        Inl e \<Rightarrow> Err (''unable to get key: '' @ keyID @ '': '' @ e)
      | Inr si \<Rightarrow>
          (case impl_pvk si of
             RSAKey b n \<Rightarrow> Ok ([], Some (pem ''RSA PRIVATE KEY'' (MarshalPKCS1 (RSAKey b n))))
           | ECDSAKey c n \<Rightarrow>
               (case MarshalEC (ECDSAKey c n) of
                  Inl e \<Rightarrow> Err (''export EC key: '' @ keyID @ '': '' @ e)
                | Inr der \<Rightarrow> Ok ([], Some (pem ''EC PRIVATE KEY'' der)))
           | OtherKey _ \<Rightarrow> Panic))"

definition impl_Public :: "provImpl \<Rightarrow> pubkey" where
  "impl_Public s = impl_pvk s"

definition impl_Sign :: "(pubkey \<Rightarrow> string \<Rightarrow> string \<Rightarrow> string + string) \<Rightarrow> provImpl \<Rightarrow> string \<Rightarrow> string option \<Rightarrow> string + string" where
  "impl_Sign sign s dig opts =
     (let h = (case opts of None \<Rightarrow> ''SHA-256'' | Some h \<Rightarrow> h)
      in case impl_pvk s of OtherKey _ \<Rightarrow> Inl ''crypto.Signer is not supported'' | pvk \<Rightarrow> sign pvk dig h)"

definition inmem_ops ::
    "(pubkey \<Rightarrow> string) \<Rightarrow> (pubkey \<Rightarrow> string + string) \<Rightarrow> (string \<Rightarrow> string \<Rightarrow> string) \<Rightarrow> inMemProv provider_ops" where
  "inmem_ops m1 m2 pem =
     \<lparr>GenerateRSAKey = inmem_GenerateRSAKey, GenerateECDSAKey = inmem_GenerateECDSAKey, IdentifyKey = inmem_IdentifyKey,
      ExportKey = inmem_ExportKey m1 m2 pem, GetKey = inmem_GetKey\<rparr>"

section \<open>testprov/provider.go\<close>

text \<open>The provider for tests keeps keys in the same way; its texts and \<open>ExportKey\<close> differ.\<close>

definition test_Manufacturer :: string where "test_Manufacturer = ''testprov''"
definition test_Model :: string where "test_Model = ''inmem''"
definition test_Serial :: string where "test_Serial = ''20764350726''"

definition test_GetKey :: "string \<Rightarrow> inMemProv \<Rightarrow> string + privkey" where
  "test_GetKey keyID p =
     (case getKey keyID p of Inl e \<Rightarrow> Inl (''GetKey('' @ keyID @ ''): '' @ e) | Inr si \<Rightarrow> Inr (ProvKey si))"

definition test_GenerateRSAKey :: "string \<Rightarrow> int \<Rightarrow> int \<Rightarrow> inMemProv \<Rightarrow> (string + privkey) \<times> inMemProv" where
  "test_GenerateRSAKey label bits purpose p =
     (case rsa_GenerateKey p (drawn p) bits of
        Inl e \<Rightarrow> (Inl (''bitSize='' @ itoa bits @ '': '' @ e), p)
      | Inr key \<Rightarrow> (let (k, p') = add_key label key p in (Inr k, p')))"

definition key_uri :: "string \<Rightarrow> string \<Rightarrow> string \<Rightarrow> string \<Rightarrow> string \<Rightarrow> string" where
  "key_uri man model serial label keyID =
     ''pkcs11:manufacturer='' @ trim_space (trim_nul man) @ '';model='' @ trim_space model @ '';serial='' @ trim_space serial @
     '';token='' @ trim_space label @ '';id='' @ trim_space keyID @ '';type=private''"

definition test_ExportKey :: "string \<Rightarrow> inMemProv \<Rightarrow> (string, string \<times> string option) result" where
  "test_ExportKey keyID p =
     (case getKey keyID p of
        Inl e \<Rightarrow> Err (''keyID='' @ keyID @ '': '' @ e)
      | Inr si \<Rightarrow> Ok (key_uri test_Manufacturer test_Model test_Serial (impl_label si) keyID, None))"

definition test_ops :: "inMemProv provider_ops" where
  "test_ops =
     \<lparr>GenerateRSAKey = test_GenerateRSAKey, GenerateECDSAKey = inmem_GenerateECDSAKey, IdentifyKey = inmem_IdentifyKey,
      ExportKey = test_ExportKey, GetKey = test_GetKey\<rparr>"

end
