(* ===== verification/CryptoFacts.thy ===== *)
theory CryptoFacts
  imports CryptoProviders
begin

text \<open>
  Facts about the crypto providers: what a set of providers finds after loading, that URIs of keys parse back
  to the key they were exported for, and the contract of a provider, with the in-memory providers as instances.
\<close>

section \<open>URIs\<close>

definition attr_text :: "string \<times> string \<Rightarrow> string" where
  "attr_text kv = fst kv @ ''='' @ snd kv"

definition pk11_uri :: "(string \<times> string) list \<Rightarrow> string" where
  "pk11_uri kvs = ''pkcs11:'' @ join '';'' (map attr_text kvs)"

definition plain_attrs :: "(string \<times> string) list \<Rightarrow> bool" where
  "plain_attrs kvs = (kvs \<noteq> [] \<and> list_all (\<lambda>(k, v). k \<noteq> [] \<and> plain k \<and> plain v \<and> hd k \<noteq> CHR ''/'') kvs)"

lemma semicolons_plain: "CHR '';'' \<notin> set s \<Longrightarrow> semicolons s = s"
  by (induction s) (auto simp: semicolons_def)

lemma semicolons_join:
  "list_all (\<lambda>s. CHR '';'' \<notin> set s) ss \<Longrightarrow> semicolons (join '';'' ss) = join ''&'' ss"
proof (induction ss)
  case (Cons x ss)
  have "semicolons x = x" using Cons.prems by (intro semicolons_plain) simp
  then show ?case using Cons by (cases ss) (simp_all add: semicolons_def)
qed (simp add: semicolons_def)

lemma parse_parts_plain:
  "list_all (\<lambda>(k, v). k \<noteq> [] \<and> plain k \<and> plain v) kvs \<Longrightarrow> parse_parts (map attr_text kvs) = (kvs, False)"
proof (induction kvs)
  case (Cons kv kvs)
  obtain k v where kv: "kv = (k, v)" by fastforce
  then have "parse_pair (attr_text kv) = Some (Some (k, v))"
    using Cons.prems parse_pair_plain [of k v] by (simp add: attr_text_def)
  then show ?case using Cons kv by simp
qed simp

lemma plain_not: "plain s \<Longrightarrow> c \<in> set s \<Longrightarrow> plain_char c"
  by (simp add: plain_def list_all_iff)

lemma plain_attr_chars:
  assumes "plain k" and "plain v" and "c \<in> set (attr_text (k, v))"
  shows "c = CHR ''='' \<or> plain_char c"
  using assms by (auto simp: attr_text_def dest: plain_not)

lemma plain_attr_not:
  assumes "plain k" and "plain v"
  shows "CHR '';'' \<notin> set (attr_text (k, v))" "CHR ''&'' \<notin> set (attr_text (k, v))"
  using plain_attr_chars [OF assms, of "CHR '';''"] plain_attr_chars [OF assms, of "CHR ''&''"] by (auto simp: plain_char_def)

lemma attr_char_ok: "c = CHR ''='' \<or> plain_char c \<Longrightarrow> \<not> is_ctl c \<and> c \<noteq> CHR ''#'' \<and> c \<noteq> CHR ''?''"
  by (auto simp: plain_char_def is_ctl_def)

lemma set_join_subset: "set (join sep ss) \<subseteq> set sep \<union> (\<Union>s \<in> set ss. set s)"
  by (induction sep ss rule: join.induct) auto

lemma pk11_attributes_plain:
  assumes "plain_attrs kvs"
  shows "pk11_attributes E (pk11_uri kvs) = Ok kvs"
proof -
  let ?b = "join '';'' (map attr_text kvs)"
  have all: "list_all (\<lambda>(k, v). k \<noteq> [] \<and> plain k \<and> plain v) kvs" and ne: "map attr_text kvs \<noteq> []"
    using assms by (auto simp: plain_attrs_def list_all_iff)
  have "\<not> is_ctl c \<and> c \<noteq> CHR ''#'' \<and> c \<noteq> CHR ''?''" if "c \<in> set ?b" for c
  proof -
    from that set_join_subset [of "'';''" "map attr_text kvs"]
    consider "c = CHR '';''" | kv where "kv \<in> set kvs" "c \<in> set (attr_text kv)" by auto
    then show ?thesis
    proof cases
      case 1
      then show ?thesis by (simp add: is_ctl_def)
    next
      case (2 kv)
      obtain k v where "kv = (k, v)" by fastforce
      with 2 all have "plain k" "plain v" "c \<in> set (attr_text (k, v))" by (auto simp: list_all_iff)
      then show ?thesis using plain_attr_chars attr_char_ok by blast
    qed
  qed
  moreover obtain k v rest where kvs: "kvs = (k, v) # rest"
    using assms by (cases kvs) (auto simp: plain_attrs_def)
  moreover have "\<not> has_prefix ?b ''/''"
    using assms kvs by (cases k; cases rest) (auto simp: plain_attrs_def attr_text_def has_prefix_def)
  ultimately have "url_parse (authority_ok E) (''pkcs11'' @ CHR '':'' # ?b) = Some \<lparr>pScheme = ''pkcs11'', pOpaque = ?b, pPath = []\<rparr>"
    by (intro url_parse_opaque) (auto simp: scheme_word_def is_letter_def digit_of_def to_lower_def lower_char_def)
  moreover have "semicolons ?b = join ''&'' (map attr_text kvs)"
    using all plain_attr_not(1) by (intro semicolons_join) (auto simp: list_all_iff)
  moreover have "split_on (CHR ''&'') (join ''&'' (map attr_text kvs)) = map attr_text kvs"
    using all plain_attr_not(2) ne by (intro split_on_join) (auto simp: list_all_iff)
  ultimately show ?thesis
    by (simp add: pk11_attributes_def pk11_uri_def ParseQuery_def parse_parts_plain [OF all])
qed

lemma key_uri_attrs:
  "key_uri man model serial lab i = pk11_uri [(''manufacturer'', trim_space (trim_nul man)), (''model'', trim_space model),
     (''serial'', trim_space serial), (''token'', trim_space lab), (''id'', trim_space i), (''type'', ''private'')]"
  by (simp add: key_uri_def pk11_uri_def attr_text_def)

lemma ParsePrivateKeyURI_plain:
  assumes "plain_attrs kvs"
  shows "ParsePrivateKeyURI E (pk11_uri kvs) =
    (if Values_Get kvs ''type'' = ''private'' \<and> Values_Get kvs ''serial'' \<noteq> [] \<and> Values_Get kvs ''id'' \<noteq> []
     then Ok \<lparr>kmanufacturer = trim_space (trim_nul (Values_Get kvs ''manufacturer'')), kmodel = trim_space (Values_Get kvs ''model''),
              ktokenSerial = Values_Get kvs ''serial'', ktokenLabel = Values_Get kvs ''token'', kid = Values_Get kvs ''id''\<rparr>
     else Err (pk11_uri kvs @ '': '' @ ErrInvalidPrivateKeyURI))"
proof -
  have "setIfPresent kvs k [] = Values_Get kvs k" for k
    by (simp add: setIfPresent_def Let_def)
  then show ?thesis
    by (simp add: ParsePrivateKeyURI_def pk11_attributes_plain [OF assms] Let_def)
qed

section \<open>Identifiers\<close>

lemma dropWhile_none: "\<forall>c \<in> set s. \<not> P c \<Longrightarrow> dropWhile P s = s"
  by (cases s) simp_all

lemma trim_space_id: "list_all (\<lambda>c. \<not> is_space c) s \<Longrightarrow> trim_space s = s"
  by (simp add: trim_space_def list_all_iff dropWhile_none)

lemma set_trim_space: "set (trim_space s) \<subseteq> set s"
  unfolding trim_space_def set_rev using set_dropWhileD set_rev by (metis subsetI)

lemma plain_trim_space: "plain s \<Longrightarrow> plain (trim_space s)"
  using set_trim_space [of s] by (auto simp: plain_def list_all_iff)

definition id_char :: "char \<Rightarrow> bool" where
  "id_char c = (let n = (of_char c :: nat) in n = 45 \<or> (48 \<le> n \<and> n \<le> 57) \<or> (65 \<le> n \<and> n \<le> 70) \<or> (97 \<le> n \<and> n \<le> 102))"

lemma id_char_plain: "id_char c \<Longrightarrow> plain_char c \<and> \<not> is_space c"
  by (auto simp: id_char_def plain_char_def is_ctl_def is_space_def Let_def)

lemma hex_digit_id: "n < 16 \<Longrightarrow> id_char (hex_digit n)"
  by (auto simp: hex_digit_def id_char_def Let_def)

lemma hex_bytes_id: "list_all id_char (hex_bytes bs)"
proof -
  have "list_all id_char (hex_byte b)" for b
  proof -
    have "unat b < 256" using unsigned_less [of b] by simp
    then show ?thesis by (simp add: hex_byte_def hex_digit_id)
  qed
  then show ?thesis by (induction bs) (simp_all add: hex_bytes_def)
qed

lemma guid_id: "list_all id_char (guid_text b) \<and> guid_text b \<noteq> []"
  by (simp add: guid_text_def hex_bytes_id id_char_def)

lemma ids_plain: "list_all id_char s \<Longrightarrow> plain s \<and> trim_space s = s"
  using id_char_plain by (auto simp: plain_def list_all_iff intro!: trim_space_id)

lemma lower_hex_id: "list_all id_char (lower_hex s)"
proof -
  have "id_char (lower_char c)" if "id_char c" for c
    using that by (auto simp: id_char_def lower_char_def Let_def)
  then show ?thesis
    using hex_bytes_id [of "map of_char s"] by (auto simp: lower_hex_def list_all_iff)
qed

section \<open>The contract of a provider\<close>

text \<open>
  A generated key can be identified, is found under its identifier and keeps the label it was asked for; keys
  generated before are found as before. \<open>ok\<close> is what the provider relies on, \<open>room\<close> how long it can.
\<close>

definition key_registered :: "'p provider_ops \<Rightarrow> ('p \<Rightarrow> bool) \<Rightarrow> string \<Rightarrow> 'p \<Rightarrow> privkey \<Rightarrow> 'p \<Rightarrow> bool" where
  "key_registered G ok label p k p' \<longleftrightarrow>
     ok p' \<and> (\<exists>i lab. IdentifyKey G k = Inr (i, lab) \<and> GetKey G i p' = Inr k \<and> (label \<noteq> [] \<longrightarrow> lab = label)) \<and>
     (\<forall>j k0. GetKey G j p = Inr k0 \<longrightarrow> GetKey G j p' = Inr k0)"

locale key_provider =
  fixes G :: "'p provider_ops" and ok :: "'p \<Rightarrow> bool" and room :: "'p \<Rightarrow> bool"
  assumes rsa_key: "ok p \<Longrightarrow> GenerateRSAKey G label bits purpose p = (Inr k, p') \<Longrightarrow> room p' \<Longrightarrow> key_registered G ok label p k p'"
    and ecdsa_key: "ok p \<Longrightarrow> GenerateECDSAKey G label curve p = (Inr k, p') \<Longrightarrow> room p' \<Longrightarrow> key_registered G ok label p k p'"
begin

text \<open>Any number of keys generated one after the other are all found.\<close>

lemma keys_accumulate:
  assumes "ok p" and "key_registered G ok l p k p1" and "key_registered G ok l' p1 k' p2"
  shows "\<exists>i lab i' lab'. IdentifyKey G k = Inr (i, lab) \<and> GetKey G i p2 = Inr k \<and>
     IdentifyKey G k' = Inr (i', lab') \<and> GetKey G i' p2 = Inr k' \<and> ok p2"
  using assms unfolding key_registered_def by blast

end

text \<open>The in-memory providers rely on GUIDs that do not repeat within the first \<open>N\<close> draws.\<close>

definition inmem_room :: "nat \<Rightarrow> inMemProv \<Rightarrow> bool" where
  "inmem_room N p = (drawn p \<le> N)"

definition guid_at :: "inMemProv \<Rightarrow> nat \<Rightarrow> string" where
  "guid_at p n = guid_text (guid_bytes p n)"

definition inmem_ok :: "nat \<Rightarrow> inMemProv \<Rightarrow> bool" where
  "inmem_ok N p \<longleftrightarrow> inj_on (guid_at p) {..<N} \<and>
     (\<forall>i si. mget (keyIDToPvk p) i = Some si \<longrightarrow> impl_id si = i \<and> (\<exists>n < drawn p. i = guid_at p n))"

lemma add_key_registered:
  assumes ok: "inmem_ok N p" and add: "add_key label key p = (k, p')" and room: "inmem_room N p'"
  shows "inmem_ok N p' \<and>
    (\<exists>si. k = ProvKey si \<and> impl_pvk si = key \<and> (label \<noteq> [] \<longrightarrow> impl_label si = label) \<and>
       (label = [] \<longrightarrow> list_all id_char (impl_label si)) \<and>
       list_all id_char (impl_id si) \<and> impl_id si \<noteq> [] \<and>
       mget (keyIDToPvk p') = (mget (keyIDToPvk p))(impl_id si \<mapsto> si) \<and> mget (keyIDToPvk p) (impl_id si) = None)"
proof -
  let ?n = "if label = [] then drawn p + 1 else drawn p"
  obtain lab where p': "p' = p\<lparr>keyIDToPvk := mput (guid_at p ?n) \<lparr>impl_id = guid_at p ?n, impl_label = lab, impl_pvk = key\<rparr> (keyIDToPvk p),
       drawn := ?n + 1\<rparr>" and k: "k = ProvKey \<lparr>impl_id = guid_at p ?n, impl_label = lab, impl_pvk = key\<rparr>"
    and lab: "label \<noteq> [] \<Longrightarrow> lab = label" "label = [] \<Longrightarrow> list_all id_char lab"
    using add lower_hex_id
    by (cases "label = []") (auto simp: add_key_def default_label_def MustCreate_def registerKey_def guid_at_def Let_def)
  have guid_at': "guid_at p' = guid_at p"
    by (rule ext) (simp add: p' guid_at_def)
  have new: "mget (keyIDToPvk p) (guid_at p ?n) = None"
  proof (rule ccontr)
    assume "mget (keyIDToPvk p) (guid_at p ?n) \<noteq> None"
    then obtain m where m: "m < drawn p" "guid_at p ?n = guid_at p m"
      using ok by (auto simp: inmem_ok_def)
    have "inj_on (guid_at p) {..<N}" "?n < N"
      using ok room by (simp_all add: inmem_ok_def inmem_room_def p')
    from inj_onD [OF this(1) m(2)] this(2) m(1) show False
      by (simp split: if_splits)
  qed
  have "inmem_ok N p'"
    using ok unfolding inmem_ok_def guid_at' by (auto simp: p' less_Suc_eq)
  then show ?thesis
    using lab new guid_id by (auto simp: k p' guid_at_def)
qed

lemma getKey_mget: "getKey i p = Inr si \<longleftrightarrow> mget (keyIDToPvk p) i = Some si"
  by (simp add: getKey_def split: option.split)

lemma GetKey_mget:
  "inmem_GetKey i p = Inr k \<longleftrightarrow> (\<exists>si. k = ProvKey si \<and> mget (keyIDToPvk p) i = Some si)"
  "test_GetKey i p = Inr k \<longleftrightarrow> (\<exists>si. k = ProvKey si \<and> mget (keyIDToPvk p) i = Some si)"
  by (auto simp: inmem_GetKey_def test_GetKey_def getKey_def split: option.split)

interpretation inmem: key_provider "inmem_ops m1 m2 pem" "inmem_ok N" "inmem_room N"
proof unfold_locales
  fix p label bits purpose k p'
  assume ok: "inmem_ok N p" and room: "inmem_room N p'" and "GenerateRSAKey (inmem_ops m1 m2 pem) label bits purpose p = (Inr k, p')"
  then obtain key where "add_key label key p = (k, p')"
    by (auto simp: inmem_ops_def inmem_GenerateRSAKey_def split: sum.splits prod.splits)
  from add_key_registered [OF ok this room] show "key_registered (inmem_ops m1 m2 pem) (inmem_ok N) label p k p'"
    by (auto simp: key_registered_def inmem_ops_def inmem_IdentifyKey_def GetKey_mget)
next
  fix p label curve k p'
  assume ok: "inmem_ok N p" and room: "inmem_room N p'" and "GenerateECDSAKey (inmem_ops m1 m2 pem) label curve p = (Inr k, p')"
  then obtain key where "add_key label key p = (k, p')"
    by (auto simp: inmem_ops_def inmem_GenerateECDSAKey_def split: sum.splits prod.splits)
  from add_key_registered [OF ok this room] show "key_registered (inmem_ops m1 m2 pem) (inmem_ok N) label p k p'"
    by (auto simp: key_registered_def inmem_ops_def inmem_IdentifyKey_def GetKey_mget)
qed

interpretation test: key_provider test_ops "inmem_ok N" "inmem_room N"
proof unfold_locales
  fix p label bits purpose k p'
  assume ok: "inmem_ok N p" and room: "inmem_room N p'" and "GenerateRSAKey test_ops label bits purpose p = (Inr k, p')"
  then obtain key where "add_key label key p = (k, p')"
    by (auto simp: test_ops_def test_GenerateRSAKey_def split: sum.splits prod.splits)
  from add_key_registered [OF ok this room] show "key_registered test_ops (inmem_ok N) label p k p'"
    by (auto simp: key_registered_def test_ops_def inmem_IdentifyKey_def GetKey_mget)
next
  fix p label curve k p'
  assume ok: "inmem_ok N p" and room: "inmem_room N p'" and "GenerateECDSAKey test_ops label curve p = (Inr k, p')"
  then obtain key where "add_key label key p = (k, p')"
    by (auto simp: test_ops_def inmem_GenerateECDSAKey_def split: sum.splits prod.splits)
  from add_key_registered [OF ok this room] show "key_registered test_ops (inmem_ok N) label p k p'"
    by (auto simp: key_registered_def test_ops_def inmem_IdentifyKey_def GetKey_mget)
qed

section \<open>Exported keys\<close>

lemma trim_test_texts:
  "trim_space (trim_nul test_Manufacturer) = ''testprov''" "trim_space test_Model = ''inmem''" "trim_space test_Serial = ''20764350726''"
  "trim_space (trim_nul ''testprov'') = ''testprov''"
  by (simp_all add: trim_space_def trim_nul_def is_space_def test_Manufacturer_def test_Model_def test_Serial_def)

text \<open>Loading a URI with plain attributes whose manufacturer and identifier are as given.\<close>

lemma load_plain_uri:
  assumes "plain_attrs kvs" and "Values_Get kvs ''type'' = ''private''" and "Values_Get kvs ''serial'' \<noteq> []"
    and "Values_Get kvs ''manufacturer'' = ''testprov''" and "Values_Get kvs ''id'' = i" and "i \<noteq> []"
    and "ByManufacturer man c ''testprov'' = Ok p" and "mget (keyIDToPvk p) i = Some si"
  shows "Crypto_LoadPrivateKey E X man (\<lambda>p i. GetKey test_ops i p) c (pk11_uri kvs) = Ok (Some p, ProvKey si)"
proof -
  have "test_GetKey i p = Inr (ProvKey si)"
    using assms(8) by (simp add: GetKey_mget)
  moreover have "has_prefix (pk11_uri kvs) ''pkcs11''"
    by (simp add: pk11_uri_def has_prefix_def)
  ultimately show ?thesis
    using assms(2-7) trim_test_texts
    by (simp add: Crypto_LoadPrivateKey_def ParsePrivateKeyURI_plain [OF assms(1)] test_ops_def)
qed

lemma generated_test_key:
  assumes "inmem_ok N p"
    and "GenerateRSAKey test_ops label bits purpose p = (Inr k, p') \<or> GenerateECDSAKey test_ops label curve p = (Inr k, p')"
    and "inmem_room N p'"
  obtains si where "k = ProvKey si" and "label \<noteq> [] \<longrightarrow> impl_label si = label" and "label = [] \<longrightarrow> list_all id_char (impl_label si)"
    and "list_all id_char (impl_id si)" and "impl_id si \<noteq> []"
    and "mget (keyIDToPvk p') = (mget (keyIDToPvk p))(impl_id si \<mapsto> si)" and "mget (keyIDToPvk p) (impl_id si) = None"
proof -
  obtain key where "add_key label key p = (k, p')"
    using assms(2) by (auto simp: test_ops_def test_GenerateRSAKey_def inmem_GenerateECDSAKey_def split: sum.splits prod.splits)
  then show ?thesis
    using add_key_registered [OF assms(1) _ assms(3)] that by blast
qed

lemma test_ExportKey_uri:
  "mget (keyIDToPvk p) i = Some si \<Longrightarrow>
   ExportKey test_ops i p = Ok (pk11_uri [(''manufacturer'', ''testprov''), (''model'', ''inmem''), (''serial'', ''20764350726''),
     (''token'', trim_space (impl_label si)), (''id'', trim_space i), (''type'', ''private'')], None)"
  by (simp add: test_ops_def test_ExportKey_def getKey_def key_uri_attrs trim_test_texts)

text \<open>C9. An RSA or ECDSA key generated by the test provider comes back through its exported URI: exporting the key under its
  identifier and loading the URI from a set of providers that has the provider returns that provider and
  exactly that key, for every label without characters that have a meaning in a URI (and for no label).\<close>

theorem exported_key_loads:
  assumes ok: "inmem_ok N p" and room: "inmem_room N p'"
    and gen: "GenerateRSAKey test_ops label bits purpose p = (Inr k, p') \<or> GenerateECDSAKey test_ops label curve p = (Inr k, p')"
    and label: "plain label" and found: "ByManufacturer man c ''testprov'' = Ok p'"
  shows "\<exists>i lab uri. IdentifyKey test_ops k = Inr (i, lab) \<and> ExportKey test_ops i p' = Ok (uri, None) \<and>
    Crypto_LoadPrivateKey E X man (\<lambda>p i. GetKey test_ops i p) c uri = Ok (Some p', k)"
proof -
  obtain si where si: "k = ProvKey si" "label \<noteq> [] \<longrightarrow> impl_label si = label" "label = [] \<longrightarrow> list_all id_char (impl_label si)"
    "list_all id_char (impl_id si)" "impl_id si \<noteq> []" "mget (keyIDToPvk p') = (mget (keyIDToPvk p))(impl_id si \<mapsto> si)"
    using generated_test_key [OF ok gen room] by metis
  let ?kvs = "[(''manufacturer'', ''testprov''), (''model'', ''inmem''), (''serial'', ''20764350726''),
     (''token'', trim_space (impl_label si)), (''id'', trim_space (impl_id si)), (''type'', ''private'')]"
  have key: "mget (keyIDToPvk p') (impl_id si) = Some si" and i: "trim_space (impl_id si) = impl_id si" "plain (impl_id si)"
    using si(4,6) ids_plain by auto
  have "plain (trim_space (impl_label si))"
    using si(2,3) label ids_plain plain_trim_space by metis
  then have "plain_attrs ?kvs"
    using i by (simp add: plain_attrs_def) (simp add: plain_def plain_char_def is_ctl_def)
  then have "Crypto_LoadPrivateKey E X man (\<lambda>p i. GetKey test_ops i p) c (pk11_uri ?kvs) = Ok (Some p', ProvKey si)"
    using si(5) i by (intro load_plain_uri [OF _ _ _ _ _ _ found key]) (simp_all add: Values_Get_def)
  then show ?thesis
    using test_ExportKey_uri [OF key] si(1) by (auto simp: test_ops_def inmem_IdentifyKey_def)
qed

text \<open>C35. The URI is not escaped: a key generated with a label that holds \<open>;id=\<close> and the identifier of an
  existing key is exported as a URI that loads that other key.\<close>

theorem label_redirects_key:
  assumes ok: "inmem_ok N p" and room: "inmem_room N p'" and other: "mget (keyIDToPvk p) v = Some so"
    and gen: "GenerateRSAKey test_ops (''x;id='' @ v) bits purpose p = (Inr k, p')"
    and found: "ByManufacturer man c ''testprov'' = Ok p'"
  shows "\<exists>i lab uri. IdentifyKey test_ops k = Inr (i, lab) \<and> ExportKey test_ops i p' = Ok (uri, None) \<and>
    Crypto_LoadPrivateKey E X man (\<lambda>p i. GetKey test_ops i p) c uri = Ok (Some p', ProvKey so) \<and> ProvKey so \<noteq> k"
proof -
  obtain si where si: "k = ProvKey si" "impl_label si = ''x;id='' @ v"
    "list_all id_char (impl_id si)" "mget (keyIDToPvk p') = (mget (keyIDToPvk p))(impl_id si \<mapsto> si)"
    "mget (keyIDToPvk p) (impl_id si) = None"
    using generated_test_key [OF ok disjI1 [OF gen] room] by (metis append_is_Nil_conv list.distinct(1))
  obtain n where n: "impl_id so = v" "v = guid_text (guid_bytes p n)"
    using ok other unfolding inmem_ok_def guid_at_def by blast
  then have v: "impl_id so = v" "list_all id_char v" "v \<noteq> []"
    using guid_id by simp_all
  have key: "mget (keyIDToPvk p') (impl_id si) = Some si" and other': "mget (keyIDToPvk p') v = Some so"
    and ne: "impl_id si \<noteq> v"
    using si other by auto
  have label: "trim_space (''x;id='' @ v) = ''x;id='' @ v"
    using v(2) id_char_plain by (intro trim_space_id) (auto simp: list_all_iff is_space_def)
  let ?kvs = "[(''manufacturer'', ''testprov''), (''model'', ''inmem''), (''serial'', ''20764350726''),
     (''token'', ''x''), (''id'', v), (''id'', impl_id si), (''type'', ''private'')]"
  have i: "plain v" "plain (impl_id si)" "trim_space (impl_id si) = impl_id si"
    using si(3) v(2) ids_plain by auto
  have uri: "ExportKey test_ops (impl_id si) p' = Ok (pk11_uri ?kvs, None)"
    unfolding test_ExportKey_uri [OF key] by (simp add: si(2) label [simplified] i(3) pk11_uri_def attr_text_def)
  have "plain_attrs ?kvs"
    using i by (simp add: plain_attrs_def) (simp add: plain_def plain_char_def is_ctl_def)
  then have "Crypto_LoadPrivateKey E X man (\<lambda>p i. GetKey test_ops i p) c (pk11_uri ?kvs) = Ok (Some p', ProvKey so)"
    using v by (intro load_plain_uri [OF _ _ _ _ _ _ found other']) (simp_all add: Values_Get_def)
  then show ?thesis
    using uri si(1) v(1) ne by (auto simp: test_ops_def inmem_IdentifyKey_def)
qed

text \<open>A concrete provider: GUIDs from a counter, one key generated already.\<close>

definition demo_provider :: inMemProv where
  "demo_provider =
     NewProvider (\<lambda>n. replicate 15 0 @ [of_nat n]) (\<lambda>n bits. Inr (RSAKey (nat bits) n)) (\<lambda>n curve. Inr (ECDSAKey curve n))"

lemma demo_guid: "guid_bytes p = guid_bytes demo_provider \<Longrightarrow> inj_on (guid_at p) {..<4}"
proof -
  assume "guid_bytes p = guid_bytes demo_provider"
  then have last_of: "last (guid_at p n) = hex_digit (unat (of_nat n :: byte) mod 16)" for n
    by (simp add: guid_at_def guid_text_def demo_provider_def NewProvider_def hex_bytes_def hex_byte_def last_append)
  have "m = n" if "m < 4" "n < 4" "guid_at p m = guid_at p n" for m n
  proof -
    have "unat (of_nat k :: byte) mod 16 = k" if "k < 4" for k
      using that by (simp add: unat_of_nat)
    then have "hex_digit m = hex_digit n"
      using that last_of [of m] last_of [of n] by simp
    then have "(of_char (hex_digit m) :: nat) = of_char (hex_digit n)" by simp
    then show ?thesis
      using that(1,2) by (simp add: hex_digit_def)
  qed
  then show ?thesis by (simp add: inj_on_def)
qed

lemma demo_provider_ok: "inmem_ok 4 demo_provider"
  using demo_guid [of demo_provider] by (simp add: inmem_ok_def demo_provider_def NewProvider_def)

lemma demo_generates:
  assumes "guid_bytes p = guid_bytes demo_provider" and "rsa_GenerateKey p = rsa_GenerateKey demo_provider" and "label \<noteq> []"
  obtains k p' where "GenerateRSAKey test_ops label bits purpose p = (Inr k, p')" and "drawn p' = drawn p + 1"
    and "guid_bytes p' = guid_bytes demo_provider" and "rsa_GenerateKey p' = rsa_GenerateKey demo_provider"
  using that assms
  by (auto simp: test_ops_def test_GenerateRSAKey_def add_key_def default_label_def MustCreate_def registerKey_def
      demo_provider_def NewProvider_def Let_def)

theorem exported_key_loads_witness:
  "\<forall>E X. \<exists>k p' uri. GenerateRSAKey test_ops ''web'' 2048 1 demo_provider = (Inr k, p') \<and>
     Crypto_LoadPrivateKey E X (\<lambda>_. ''testprov'') (\<lambda>p i. GetKey test_ops i p) \<lparr>cr_provider = Some p', byManufacturer = []\<rparr> uri =
       Ok (Some p', k)"
proof -
  obtain k p' where gen: "GenerateRSAKey test_ops ''web'' 2048 1 demo_provider = (Inr k, p')" and d: "drawn p' = drawn demo_provider + 1"
    using demo_generates [of demo_provider "''web''"] by blast
  have "inmem_room 4 p'" "plain ''web''"
    "ByManufacturer (\<lambda>_. ''testprov'') \<lparr>cr_provider = Some p', byManufacturer = []\<rparr> ''testprov'' = Ok p'"
    using d by (simp_all add: inmem_room_def demo_provider_def NewProvider_def plain_def plain_char_def is_ctl_def ByManufacturer_def)
  from exported_key_loads [OF demo_provider_ok this(1) disjI1 [OF gen] this(2,3)] show ?thesis
    using gen by blast
qed

theorem label_redirects_key_witness:
  "\<forall>E X. \<exists>k1 p1 so k p' uri. GenerateRSAKey test_ops ''root'' 2048 1 demo_provider = (Inr k1, p1) \<and> k1 = ProvKey so \<and>
     GenerateRSAKey test_ops (''x;id='' @ impl_id so) 2048 1 p1 = (Inr k, p') \<and> k \<noteq> k1 \<and>
     Crypto_LoadPrivateKey E X (\<lambda>_. ''testprov'') (\<lambda>p i. GetKey test_ops i p) \<lparr>cr_provider = Some p', byManufacturer = []\<rparr> uri =
       Ok (Some p', k1)"
proof -
  obtain k1 p1 where gen1: "GenerateRSAKey test_ops ''root'' 2048 1 demo_provider = (Inr k1, p1)" and d1: "drawn p1 = drawn demo_provider + 1"
    and same: "guid_bytes p1 = guid_bytes demo_provider" "rsa_GenerateKey p1 = rsa_GenerateKey demo_provider"
    using demo_generates [of demo_provider "''root''"] by blast
  have room1: "inmem_room 4 p1"
    using d1 by (simp add: inmem_room_def demo_provider_def NewProvider_def)
  obtain so where so: "k1 = ProvKey so" "mget (keyIDToPvk p1) (impl_id so) = Some so"
    using generated_test_key [OF demo_provider_ok disjI1 [OF gen1] room1] by (metis fun_upd_same)
  have ok1: "inmem_ok 4 p1"
    using test.rsa_key [OF demo_provider_ok gen1 room1] by (simp add: key_registered_def)
  obtain k p' where gen: "GenerateRSAKey test_ops (''x;id='' @ impl_id so) 2048 1 p1 = (Inr k, p')" and d: "drawn p' = drawn p1 + 1"
    using demo_generates [OF same, of "''x;id='' @ impl_id so"] by blast
  have "inmem_room 4 p'"
    "ByManufacturer (\<lambda>_. ''testprov'') \<lparr>cr_provider = Some p', byManufacturer = []\<rparr> ''testprov'' = Ok p'"
    using d d1 by (simp_all add: inmem_room_def demo_provider_def NewProvider_def ByManufacturer_def)
  from label_redirects_key [OF ok1 this(1) so(2) gen this(2)] show ?thesis
    using gen1 gen so(1) by metis
qed

section \<open>The set of providers\<close>

lemma Crypto_Add_new:
  "mget (byManufacturer c) (man p) = None \<Longrightarrow> Crypto_Add man p c = Ok (c\<lparr>byManufacturer := mput (man p) p (byManufacturer c)\<rparr>)"
  by (simp add: Crypto_Add_def)

lemma add_all_distinct:
  "distinct (map man ps) \<Longrightarrow> \<forall>p \<in> set ps. mget (byManufacturer c) (man p) = None \<Longrightarrow>
   \<exists>c'. add_all man ps c = Ok c' \<and> cr_provider c' = cr_provider c \<and>
     (\<forall>m. mget (byManufacturer c') m = (case find (\<lambda>p. man p = m) ps of Some p \<Rightarrow> Some p | None \<Rightarrow> mget (byManufacturer c) m))"
proof (induction ps arbitrary: c)
  case (Cons p ps)
  let ?c = "c\<lparr>byManufacturer := mput (man p) p (byManufacturer c)\<rparr>"
  have "\<forall>q \<in> set ps. mget (byManufacturer ?c) (man q) = None"
    using Cons.prems by auto
  then obtain c' where c': "add_all man ps ?c = Ok c'" "cr_provider c' = cr_provider c"
    "\<And>m. mget (byManufacturer c') m = (case find (\<lambda>p. man p = m) ps of Some p \<Rightarrow> Some p | None \<Rightarrow> mget (byManufacturer ?c) m)"
    using Cons.IH [of ?c] Cons.prems(1) by auto
  have "find (\<lambda>q. man q = man p) ps = None"
    using Cons.prems(1) unfolding find_None_iff by (metis distinct.simps(2) image_eqI list.simps(9) set_map)
  then show ?case
    using c' Cons.prems(2) by (auto simp: Crypto_Add_new split: option.split)
qed simp

lemma add_all_duplicate:
  "\<not> (distinct (map man ps) \<and> (\<forall>p \<in> set ps. mget (byManufacturer c) (man p) = None)) \<Longrightarrow> \<exists>e. add_all man ps c = Err e"
proof (induction ps arbitrary: c)
  case (Cons p ps)
  show ?case
  proof (cases "mget (byManufacturer c) (man p)")
    case None
    let ?c = "c\<lparr>byManufacturer := mput (man p) p (byManufacturer c)\<rparr>"
    have "\<not> (distinct (map man ps) \<and> (\<forall>q \<in> set ps. mget (byManufacturer ?c) (man q) = None))"
      using Cons.prems None by (auto simp: image_iff split: if_splits)
    then show ?thesis
      using Cons.IH [of ?c] None by (simp add: Crypto_Add_new)
  qed (simp add: Crypto_Add_def)
qed simp

lemma load_configs_add_all:
  "list_all2 (\<lambda>loc p. LoadProvider E ls loc = Ok p) locs ps \<Longrightarrow> load_configs E man ls locs c = add_all man ps c"
proof (induction locs ps arbitrary: c rule: list_all2_induct)
  case (Cons loc locs p ps)
  then show ?case by (cases "Crypto_Add man p c") simp_all
qed simp

text \<open>Loading a set of providers from configurations that can each be loaded succeeds exactly if no two of
  them, the default one included, have the same manufacturer; then a lookup by manufacturer finds the provider
  loaded for it and nothing else, and the default is the first.\<close>

theorem Load_providers:
  assumes d: "LoadProvider E ls dflt = Ok p0" and ps: "list_all2 (\<lambda>loc p. LoadProvider E ls loc = Ok p) locs ps"
  shows "if distinct (map man (p0 # ps))
    then \<exists>c. Load E man ls dflt locs = Ok c \<and> Default c = Some p0 \<and>
      (\<forall>m. ByManufacturer man c m =
        (case find (\<lambda>p. man p = m) (p0 # ps) of
           Some p \<Rightarrow> Ok p | None \<Rightarrow> Err (''provider for manufacturer '' @ [CHR 0x22] @ m @ [CHR 0x22] @ '' not found'')))
    else \<exists>e. Load E man ls dflt locs = Err e"
proof -
  let ?c0 = "\<lparr>cr_provider = Some p0, byManufacturer = []\<rparr>"
  have load: "Load E man ls dflt locs = add_all man (p0 # ps) ?c0"
    using d load_configs_add_all [OF ps] by (simp add: Load_def Crypto_New_def Crypto_Add_def)
  show ?thesis
  proof (cases "distinct (map man (p0 # ps))")
    case True
    obtain c where "add_all man (p0 # ps) ?c0 = Ok c" "cr_provider c = Some p0"
      "\<And>m. mget (byManufacturer c) m = (case find (\<lambda>p. man p = m) (p0 # ps) of Some p \<Rightarrow> Some p | None \<Rightarrow> None)"
      using add_all_distinct [OF True, of ?c0] by (auto cong: option.case_cong)
    then show ?thesis
      using True load by (auto simp: Default_def ByManufacturer_def split: option.split)
  next
    case False
    then show ?thesis
      using load add_all_duplicate [of man "p0 # ps" ?c0] by auto
  qed
qed

definition demo_prov_env :: prov_env where
  "demo_prov_env =
     \<lparr>open_error = (\<lambda>_. None), decode_config = (\<lambda>f. Inr (empty_token\<lparr>Man := f, Pwd := ''file:pin.txt''\<rparr>)),
      os_Stat = (\<lambda>f. if f = ''/etc/pin.txt'' then RegularFile else NotExist ''no such file''),
      os_ReadFile = (\<lambda>f. if f = ''/etc/pin.txt'' then Inr ''1234'' else Inl ''no such file''),
      Getwd = ''/tmp'', authority_ok = (\<lambda>_. True)\<rparr>"

lemma demo_load:
  "f \<in> {''/etc/a'', ''/etc/b''} \<Longrightarrow>
   LoadProvider demo_prov_env [(''/etc/a'', \<lambda>tc. Inr (Man tc, Pwd tc)), (''/etc/b'', \<lambda>tc. Inr (Man tc, Pwd tc))] f = Ok (f, ''1234'')"
  by (auto simp: LoadProvider_def LoadTokenConfig_def demo_prov_env_def empty_token_def has_prefix_def File_def IsAbs_def Join_def
      Clean_def path_dir_def Let_def)

theorem Load_providers_witness:
  "\<exists>c. Load demo_prov_env fst [(''/etc/a'', \<lambda>tc. Inr (Man tc, Pwd tc)), (''/etc/b'', \<lambda>tc. Inr (Man tc, Pwd tc))] ''/etc/a'' [''/etc/b''] = Ok c \<and>
     ByManufacturer fst c ''/etc/b'' = Ok (''/etc/b'', ''1234'')"
  using Load_providers [OF demo_load, of "''/etc/a''" "[''/etc/b'']" "[(''/etc/b'', ''1234'')]" fst] demo_load [of "''/etc/b''"]
  by auto

text \<open>A pin source that is no URL is not an error: the parsed URL is used before the error is looked at.\<close>

lemma bad_pin_source_panics: "ParseTokenURI E (pk11_uri [(''manufacturer'', ''m''), (''pin-source'', '':'')]) = Panic"
proof -
  have "plain_attrs [(''manufacturer'', ''m''), (''pin-source'', '':'')]"
    by (simp add: plain_attrs_def plain_def plain_char_def is_ctl_def)
  moreover have "url_parse (authority_ok E) '':'' = None"
    by (simp add: url_parse_def cut_def is_ctl_def is_letter_def digit_of_def)
  ultimately show ?thesis
    by (simp add: ParseTokenURI_def pk11_attributes_plain setIfPresent_def Values_Get_def Let_def)
qed

text \<open>Without a pin source the manufacturer and model keep their blanks, which loading a key removes: such a
  provider is not found by the URIs of its keys.\<close>

lemma untrimmed_manufacturer:
  "ParseTokenURI E (pk11_uri [(''manufacturer'', ''m '')]) = Ok (empty_token\<lparr>Man := ''m ''\<rparr>)"
proof -
  have "plain_attrs [(''manufacturer'', ''m '')]"
    by (simp add: plain_attrs_def plain_def plain_char_def is_ctl_def)
  then show ?thesis
    by (simp add: ParseTokenURI_def pk11_attributes_plain setIfPresent_def Values_Get_def empty_token_def Let_def)
qed

end
