(* ===== verification/KeyRequest.thy ===== *)
theory KeyRequest
  imports CryptoFacts CertAuthorityFacts
begin

text \<open>
  Key requests and the creation of certificate requests (xpki/csr/keyreq.go, csrprov.go) over the interface
  of a crypto provider, and root certificates (xpki/authority/root.go).
\<close>

section \<open>keyreq.go\<close>

record keyRequest =
  krLabel :: string
  krAlgo :: string
  krSize :: int
  krPurpose :: int

definition SigningKey :: int where "SigningKey = 1"
definition EncryptionKey :: int where "EncryptionKey = 2"

definition NewKeyRequest :: "string \<Rightarrow> string \<Rightarrow> int \<Rightarrow> int \<Rightarrow> keyRequest" where
  "NewKeyRequest label algo keySize purpose = \<lparr>krLabel = label, krAlgo = algo, krSize = keySize, krPurpose = purpose\<rparr>"

definition upper_char :: "char \<Rightarrow> char" where
  "upper_char c = (let n = (of_char c :: nat) in if 97 \<le> n \<and> n \<le> 122 then char_of (n - 32) else c)"

definition to_upper :: "string \<Rightarrow> string" where
  "to_upper s = map upper_char s"

definition validateRSAKeyPairInfoHandler :: "int \<Rightarrow> string option" where
  "validateRSAKeyPairInfoHandler sz =
     (if sz < 2048 then Some (''RSA key is too weak: '' @ itoa sz)
      else if sz > 4096 then Some (''RSA key size too large: '' @ itoa sz) else None)"

definition validateECDSAKeyPairCurveInfoHandler :: "int \<Rightarrow> string option" where
  "validateECDSAKeyPairCurveInfoHandler sz =
     (if sz = 256 \<or> sz = 384 \<or> sz = 521 then None else Some (''invalid curve size: '' @ itoa sz))"

definition curve_of :: "int \<Rightarrow> string option" where
  "curve_of sz =
     (if sz = 256 then Some ''P-256'' else if sz = 384 then Some ''P-384'' else if sz = 521 then Some ''P-521'' else None)"

definition key_SigAlgo :: "string \<Rightarrow> int \<Rightarrow> sigalgo" where
  "key_SigAlgo algo sz =
     (if to_upper algo = ''RSA'' then
        (if sz \<ge> 4096 then SHA512WithRSA else if sz \<ge> 3072 then SHA384WithRSA
         else if sz \<ge> 2048 then SHA256WithRSA else SHA1WithRSA)
      else if to_upper algo = ''ECDSA'' then
        (if sz = 521 then ECDSAWithSHA512 else if sz = 384 then ECDSAWithSHA384
         else if sz = 256 then ECDSAWithSHA256 else ECDSAWithSHA1)
      else UnknownSignatureAlgorithm)"

definition keyRequest_SigAlgo :: "keyRequest \<Rightarrow> sigalgo" where
  "keyRequest_SigAlgo kr = key_SigAlgo (krAlgo kr) (krSize kr)"

definition with_message :: "string \<Rightarrow> (string + 'a) \<times> 'p \<Rightarrow> (string + 'a) \<times> 'p" where
  "with_message msg r = (case r of (Inl e, p) \<Rightarrow> (Inl (msg @ '': '' @ e), p) | _ \<Rightarrow> r)"

definition Generate :: "'p provider_ops \<Rightarrow> keyRequest \<Rightarrow> 'p \<Rightarrow> (string + privkey) \<times> 'p" where
  "Generate G kr p =
     (if to_upper (krAlgo kr) = ''RSA'' then
        (case validateRSAKeyPairInfoHandler (krSize kr) of
           Some e \<Rightarrow> (Inl (''validate RSA key: '' @ e), p)
         | None \<Rightarrow> with_message ''generate RSA key'' (GenerateRSAKey G (krLabel kr) (krSize kr) (krPurpose kr) p))
      else if to_upper (krAlgo kr) = ''ECDSA'' then
        (case validateECDSAKeyPairCurveInfoHandler (krSize kr) of
           Some e \<Rightarrow> (Inl (''validate ECDSA key: '' @ e), p)
         | None \<Rightarrow>
             (case curve_of (krSize kr) of
                None \<Rightarrow> (Inl ''invalid curve'', p)
              | Some curve \<Rightarrow> with_message ''generate ECDSA key'' (GenerateECDSAKey G (krLabel kr) curve p)))
      else (Inl (''invalid algorithm: '' @ krAlgo kr), p))"

section \<open>csrprov.go\<close>

text \<open>The public part of a key, and whether the value is a \<open>crypto.Signer\<close>.\<close>

fun public_of :: "privkey \<Rightarrow> pubkey" where
  "public_of (ProvKey si) = impl_Public si"
| "public_of (KmsKey s) = sPubKey s"
| "public_of (RawKey k) = k"

fun is_signer :: "privkey \<Rightarrow> bool" where
  "is_signer (RawKey (OtherKey _)) = False"
| "is_signer _ = True"

definition NewSigningCertificateRequest ::
    "string \<Rightarrow> string \<Rightarrow> int \<Rightarrow> string \<Rightarrow> X509Name list \<Rightarrow> string list option \<Rightarrow> keyRequest \<times> CertificateRequest" where
  "NewSigningCertificateRequest keyLabel algo keySize CN names san =
     (NewKeyRequest keyLabel algo keySize SigningKey,
      \<lparr>crCommonName = CN, crNames = names, crSerialNumber = [], crSAN = san\<rparr>)"

text \<open>The creation of a request and PEM.\<close>

record csr_lib =
  cl_pki :: pki
  CreateCertificateRequest :: "certificate \<Rightarrow> privkey \<Rightarrow> string + string"
  pem_Request :: "string \<Rightarrow> string"

definition request_template :: "pki \<Rightarrow> CertificateRequest \<Rightarrow> sigalgo \<Rightarrow> certificate" where
  "request_template P req alg =
     fold (add_SAN P) (case crSAN req of None \<Rightarrow> [] | Some ss \<Rightarrow> ss)
       (zero_certificate\<lparr>Subject := CertificateRequest_Name req, SignatureAlgorithm := alg\<rparr>)"

text \<open>\<open>GenerateKeyAndRequest\<close> gives the request, the key and its identifier. A URL that does not parse is nil
  in the template, which \<open>x509.CreateCertificateRequest\<close> dereferences.\<close>

definition GenerateKeyAndRequest ::
    "csr_lib \<Rightarrow> 'p provider_ops \<Rightarrow> keyRequest option \<Rightarrow> CertificateRequest \<Rightarrow> 'p \<Rightarrow>
     (string, string \<times> privkey \<times> string) result \<times> 'p" where
  "GenerateKeyAndRequest L G kro req p =
     (case kro of
        None \<Rightarrow> (Err ''invalid key request'', p)
      | Some kr \<Rightarrow>
          (case Generate G kr p of
             (Inl e, p') \<Rightarrow> (Err (''generate key: '' @ e), p')
           | (Inr priv, p') \<Rightarrow>
               (case IdentifyKey G priv of
                  Inl e \<Rightarrow> (Err (''identify key: '' @ e), p')
                | Inr (keyID, _) \<Rightarrow>
                    (let t = request_template (cl_pki L) req (keyRequest_SigAlgo kr)
                     in if None \<in> set (URIs t) then (Panic, p')
                        else case CreateCertificateRequest L t priv of
                          Inl e \<Rightarrow> (Err (''create CSR: '' @ e), p')
                        | Inr der \<Rightarrow> (Ok (pem_Request L der, priv, keyID), p')))))"

text \<open>The result of \<open>CreateRequestAndExportKey\<close>: request, key (bytes or URI), identifier and public key. For
  a key that is no signer \<open>errors.WithMessage\<close> is given a nil error and returns nil.\<close>

record exported =
  exCSR :: string
  exKey :: "string option"
  exKeyID :: string
  exPub :: "pubkey option"

definition CreateRequestAndExportKey ::
    "csr_lib \<Rightarrow> 'p provider_ops \<Rightarrow> keyRequest option \<Rightarrow> CertificateRequest \<Rightarrow> 'p \<Rightarrow> (string, exported) result \<times> 'p" where
  "CreateRequestAndExportKey L G kro req p =
     (case CertificateRequest_Validate req of
        Panic \<Rightarrow> (Panic, p)
      | Err e \<Rightarrow> (Err (''invalid request: '' @ e), p)
      | Ok _ \<Rightarrow>
          (case GenerateKeyAndRequest L G kro req p of
             (Panic, p') \<Rightarrow> (Panic, p')
           | (Err e, p') \<Rightarrow> (Err (''process request: '' @ e), p')
           | (Ok (csrPEM, priv, keyID), p') \<Rightarrow>
               if \<not> is_signer priv then (Ok \<lparr>exCSR = csrPEM, exKey = None, exKeyID = keyID, exPub = None\<rparr>, p')
               else (case ExportKey G keyID p' of
                       Panic \<Rightarrow> (Panic, p')
                     | Err e \<Rightarrow> (Err (''key URI: '' @ e), p')
                     | Ok (uri, keyBytes) \<Rightarrow>
                         (Ok \<lparr>exCSR = csrPEM, exKey = Some (case keyBytes of None \<Rightarrow> uri | Some b \<Rightarrow> b),
                              exKeyID = keyID, exPub = Some (public_of priv)\<rparr>, p'))))"

section \<open>root.go\<close>

text \<open>\<open>NewRoot\<close>; the conversion of the key to a signer panics where it is none.\<close>

definition root_issuer :: "ca_config \<Rightarrow> privkey \<Rightarrow> Issuer" where
  "root_issuer cfg gkey =
     \<lparr>icfg = \<lparr>Disabled = None, IssuerConfig.Label = [], CertFile = [], KeyFile = [], CABundleFile = [], RootBundleFile = [],
              AIA = (case Authority cfg of None \<Rightarrow> None | Some a \<Rightarrow> DefaultAIA a), issProfiles = Profiles cfg\<rparr>,
      ilabel = [], iskid = [], isigner = public_of gkey, isigAlgo = DefaultSigAlgo (public_of gkey), ibundle = None,
      icrlRenewal = 0, icrlExpiry = 0, iocspExpiry = 0, icrlURL = [], iaiaURL = [], iocspURL = [], icabundlePEM = [],
      ikeyHash = [], inameHash = []\<rparr>"

definition root_request :: "string \<Rightarrow> CertificateRequest \<Rightarrow> string \<Rightarrow> SignRequest" where
  "root_request profile req csrPEM =
     \<lparr>SAN = crSAN req, reqPEM = csrPEM,
      reqSubject = Some \<lparr>subjCommonName = crCommonName req, subjNames = crNames req, subjSerialNumber = []\<rparr>,
      reqProfile = profile, reqExtensions = [], reqNotBefore = 0, reqNotAfter = 0\<rparr>"

definition NewRoot ::
    "ca_env \<Rightarrow> csr_lib \<Rightarrow> 'p provider_ops \<Rightarrow> (string \<Rightarrow> string option) \<Rightarrow> time \<Rightarrow> string + 8 word list \<Rightarrow>
     string \<Rightarrow> ca_config \<Rightarrow> keyRequest option \<Rightarrow> CertificateRequest \<Rightarrow> 'p \<Rightarrow>
     (string, string \<times> string \<times> string) result \<times> 'p" where
  "NewRoot E L G compile now rnd profile cfg kro req p =
     (case CertificateRequest_Validate req of
        Panic \<Rightarrow> (Panic, p)
      | Err e \<Rightarrow> (Err (''invalid request: '' @ e), p)
      | Ok _ \<Rightarrow>
          (case Config_Validate compile cfg of
             Panic \<Rightarrow> (Panic, p)
           | Err e \<Rightarrow> (Err (''invalid configuration: '' @ e), p)
           | Ok cfg' \<Rightarrow>
               (case GenerateKeyAndRequest L G kro req p of
                  (Panic, p') \<Rightarrow> (Panic, p')
                | (Err e, p') \<Rightarrow> (Err (''process request: '' @ e), p')
                | (Ok (csrPEM, gkey, keyID), p') \<Rightarrow>
                    if \<not> is_signer gkey then (Panic, p')
                    else (case ExportKey G keyID p' of
                            Panic \<Rightarrow> (Panic, p')
                          | Err e \<Rightarrow> (Err (''failed to export key: '' @ e), p')
                          | Ok (uri, keyBytes) \<Rightarrow>
                              (case Sign E (root_issuer cfg' gkey) now rnd (root_request profile req csrPEM) of
                                 Panic \<Rightarrow> (Panic, p')
                               | Err e \<Rightarrow> (Err (''sign request: '' @ e), p')
                               | Ok (_, certPEM) \<Rightarrow>
                                   (Ok (certPEM, csrPEM, case keyBytes of None \<Rightarrow> uri | Some b \<Rightarrow> b), p'))))))"

section \<open>Sizes and signature algorithms\<close>

text \<open>What the standard library documents of key generation: the key has the size asked for.\<close>

definition exact_sizes :: "inMemProv \<Rightarrow> bool" where
  "exact_sizes p \<longleftrightarrow>
     (\<forall>n bits key. rsa_GenerateKey p n bits = Inr key \<longrightarrow> (\<exists>m. key = RSAKey (nat bits) m)) \<and>
     (\<forall>n curve key. ecdsa_GenerateKey p n curve = Inr key \<longrightarrow> (\<exists>m. key = ECDSAKey curve m))"

definition allowed_key :: "pubkey \<Rightarrow> bool" where
  "allowed_key k =
     (case k of RSAKey b _ \<Rightarrow> 2048 \<le> b \<and> b \<le> 4096 | ECDSAKey c _ \<Rightarrow> c \<in> {''P-256'', ''P-384'', ''P-521''} | OtherKey _ \<Rightarrow> False)"

lemma add_key_public: "add_key label key p = (k, p') \<Longrightarrow> public_of k = key"
  by (auto simp: add_key_def Let_def impl_Public_def split: prod.splits)

lemma with_message_Inr: "with_message msg r = (Inr k, p') \<longleftrightarrow> r = (Inr k, p')"
  by (cases r; cases "fst r") (auto simp: with_message_def)

lemma test_generates:
  "exact_sizes p \<Longrightarrow> GenerateRSAKey test_ops l bits pu p = (Inr k, p') \<Longrightarrow> \<exists>m. public_of k = RSAKey (nat bits) m"
  "exact_sizes p \<Longrightarrow> GenerateECDSAKey test_ops l curve p = (Inr k, p') \<Longrightarrow> \<exists>m. public_of k = ECDSAKey curve m"
  unfolding exact_sizes_def test_ops_def
  by (auto simp: test_GenerateRSAKey_def inmem_GenerateECDSAKey_def split: sum.splits prod.splits dest!: add_key_public)

text \<open>C13. A key request gives a key only in the supported sizes (RSA of 2048 to 4096 bits, the three NIST curves)
  whatever the case of the algorithm's name; the key can be found again under its identifier; and the
  signature algorithm written into the certificate request is the one an authority picks for that key,
  never one with SHA-1. Everything else is refused before the provider is called.\<close>

theorem Generate_allowed:
  assumes ok: "inmem_ok N p" and sizes: "exact_sizes p"
  shows "case Generate test_ops kr p of
      (Inr k, p') \<Rightarrow>
        allowed_key (public_of k) \<and> keyRequest_SigAlgo kr = DefaultSigAlgo (public_of k) \<and>
        keyRequest_SigAlgo kr \<notin> {SHA1WithRSA, ECDSAWithSHA1, UnknownSignatureAlgorithm} \<and>
        (inmem_room N p' \<longrightarrow> key_registered test_ops (inmem_ok N) (krLabel kr) p k p')
    | (Inl e, p') \<Rightarrow> p' = p"
proof (cases "Generate test_ops kr p")
  case (Pair r p')
  show ?thesis
  proof (cases r)
    case (Inl e)
    then have "p' = p"
      using Pair by (auto simp: Generate_def with_message_def test_ops_def test_GenerateRSAKey_def inmem_GenerateECDSAKey_def
          split: if_splits option.splits sum.splits prod.splits)
    then show ?thesis using Pair Inl by simp
  next
    case (Inr k)
    consider (rsa) "to_upper (krAlgo kr) = ''RSA''" "2048 \<le> krSize kr" "krSize kr \<le> 4096"
        "GenerateRSAKey test_ops (krLabel kr) (krSize kr) (krPurpose kr) p = (Inr k, p')"
      | (ec) curve where "to_upper (krAlgo kr) = ''ECDSA''" "curve_of (krSize kr) = Some curve"
        "GenerateECDSAKey test_ops (krLabel kr) curve p = (Inr k, p')"
      using Pair Inr
      by (auto simp: Generate_def with_message_Inr validateRSAKeyPairInfoHandler_def split: if_splits option.splits)
    then show ?thesis
    proof cases
      case rsa
      then obtain m where m: "public_of k = RSAKey (nat (krSize kr)) m"
        using test_generates(1) [OF sizes] by blast
      have "inmem_room N p' \<longrightarrow> key_registered test_ops (inmem_ok N) (krLabel kr) p k p'"
        using test.rsa_key [OF ok rsa(4)] by blast
      then show ?thesis
        using Pair Inr m rsa(1-3)
        by (auto simp: allowed_key_def keyRequest_SigAlgo_def key_SigAlgo_def DefaultSigAlgo_def nat_le_iff le_nat_iff)
    next
      case (ec curve)
      then obtain m where m: "public_of k = ECDSAKey curve m"
        using test_generates(2) [OF sizes] by blast
      have "inmem_room N p' \<longrightarrow> key_registered test_ops (inmem_ok N) (krLabel kr) p k p'"
        using test.ecdsa_key [OF ok ec(3)] by blast
      then show ?thesis
        using Pair Inr m ec(1,2)
        by (auto simp: allowed_key_def keyRequest_SigAlgo_def key_SigAlgo_def DefaultSigAlgo_def curve_of_def split: if_splits)
    qed
  qed
qed

lemma demo_exact: "exact_sizes demo_provider"
  by (simp add: exact_sizes_def demo_provider_def NewProvider_def)

theorem Generate_allowed_witness:
  "\<exists>k p'. Generate test_ops (NewKeyRequest ''web'' ''ecdsa'' 384 SigningKey) demo_provider = (Inr k, p') \<and>
     allowed_key (public_of k) \<and> DefaultSigAlgo (public_of k) = ECDSAWithSHA384"
proof -
  let ?kr = "NewKeyRequest ''web'' ''ecdsa'' 384 SigningKey"
  have up: "to_upper ''ecdsa'' = ''ECDSA''"
    by code_simp
  have "\<exists>k p'. Generate test_ops ?kr demo_provider = (Inr k, p')"
    by (simp add: Generate_def NewKeyRequest_def up validateECDSAKeyPairCurveInfoHandler_def curve_of_def with_message_def
        test_ops_def inmem_GenerateECDSAKey_def demo_provider_def NewProvider_def split: prod.split)
  then show ?thesis
    using Generate_allowed [OF demo_provider_ok demo_exact, of ?kr]
    by (auto simp: keyRequest_SigAlgo_def key_SigAlgo_def NewKeyRequest_def up)
qed

section \<open>Root certificates\<close>

lemma root_names: "issProfiles (icfg (root_issuer cfg k)) = Profiles cfg" "reqProfile (root_request profile req csr) = profile"
  "isigner (root_issuer cfg k) = public_of k" "ibundle (root_issuer cfg k) = None"
  by (simp_all add: root_issuer_def root_request_def)

text \<open>What the standard library documents of requests: \<open>CreateCertificateRequest\<close> makes a request for the subject of the template and
  the public key of the signer, and PEM and \<open>ParseCertificateRequest\<close> give it back.\<close>

definition sound_requests :: "pki \<Rightarrow> csr_lib \<Rightarrow> bool" where
  "sound_requests P L \<longleftrightarrow>
     (\<forall>t k der. CreateCertificateRequest L t k = Inr der \<longrightarrow>
        pem_Decode P (pem_Request L der) = Some (''CERTIFICATE REQUEST'', der) \<and>
        (\<exists>c. ParseCertificateRequest P der = Inr c \<and> csrSubject c = Subject t \<and> csrPublicKey c = public_of k))"

lemma parse_extensions_keeps:
  "parse_extensions P es t = Ok c \<Longrightarrow> Subject c = Subject t \<and> PublicKey c = PublicKey t"
  by (induction P es t rule: parse_extensions.induct) (auto split: if_splits sum.splits)

lemma SetSAN_subject:
  "Subject (SetSAN P sans t) = Subject t" "PublicKey (SetSAN P sans t) = PublicKey t"
  "SignatureAlgorithm (SetSAN P sans t) = SignatureAlgorithm t"
proof -
  have "Subject (fold (add_SAN P) ss u) = Subject u \<and> PublicKey (fold (add_SAN P) ss u) = PublicKey u \<and>
      SignatureAlgorithm (fold (add_SAN P) ss u) = SignatureAlgorithm u" for ss u
    by (induction ss arbitrary: u) (auto simp: add_SAN_def split: option.splits)
  then show "Subject (SetSAN P sans t) = Subject t" "PublicKey (SetSAN P sans t) = PublicKey t"
    "SignatureAlgorithm (SetSAN P sans t) = SignatureAlgorithm t"
    by (auto simp: SetSAN_def split: option.splits)
qed

text \<open>Key, signature algorithm and subject of the template come from the parsed request, the issuer and the subject asked for.\<close>

lemma build_template_subject:
  assumes "build_template E ca profile now rnd req = Ok t"
  obtains c where "ParsePEM (pk E) (reqPEM req) = Ok c" and "PublicKey t = PublicKey c" and "SignatureAlgorithm t = isigAlgo ca"
    and "Subject t = PopulateName (reqSubject req) (Subject (safe_template profile c))"
proof -
  obtain c bs t1 where c: "ParsePEM (pk E) (reqPEM req) = Ok c"
    and ext: "add_extensions profile (reqExtensions req) ((named_template E ca profile req c)\<lparr>SerialNumber := serial_of bs\<rparr>) = Ok t1"
    and fill: "fillTemplate E ca profile now (reqNotBefore req) (reqNotAfter req) t1 = Ok t"
    using build_template_Ok [OF assms] by metis
  let ?n = "named_template E ca profile req c"
  have n: "PublicKey ?n = PublicKey c" "SignatureAlgorithm ?n = isigAlgo ca"
    "Subject ?n = PopulateName (reqSubject req) (Subject (safe_template profile c))"
    by (simp_all add: named_template_def Let_def SetSAN_subject safe_template_def split: option.splits)
  have t1: "t1 = ?n\<lparr>SerialNumber := serial_of bs, ExtraExtensions := ExtraExtensions t1\<rparr>"
    using add_extensions_Ok(1) [OF ext] by simp
  have "PublicKey t1 = PublicKey ?n" "SignatureAlgorithm t1 = SignatureAlgorithm ?n" "Subject t1 = Subject ?n"
    by (subst t1, simp)+
  moreover have "PublicKey t = PublicKey t1" "SignatureAlgorithm t = SignatureAlgorithm t1" "Subject t = Subject t1"
    using fill by (elim fillTemplate_Ok, simp add: filled_def Let_def)+
  ultimately show ?thesis using that [OF c] n by simp
qed

text \<open>The subject of a root: the names of the request; its serial number only where the profile takes the subject of a request.\<close>

definition root_subject :: "CertProfile \<Rightarrow> CertificateRequest \<Rightarrow> pkix_name" where
  "root_subject pr req =
     (CertificateRequest_Name req)
       \<lparr>SerialNo := (case AllowedCSRFields pr of Some f \<Rightarrow> if afSubject f then crSerialNumber req else [] | None \<Rightarrow> crSerialNumber req)\<rparr>"

lemma append_names_Cons: "append_names (n # ns) nm = append_names ns (append_names [n] nm)"
  by (simp add: append_names_def)

lemma append_name_keeps:
  "append_names [n] (nm\<lparr>SerialNo := x\<rparr>) = (append_names [n] nm)\<lparr>SerialNo := x\<rparr>"
  "CommonName (append_names [n] nm) = CommonName nm" "SerialNo (append_names [n] nm) = SerialNo nm"
  by (simp_all add: append_names_def)

lemma append_names_keeps:
  "append_names ns (nm\<lparr>SerialNo := x\<rparr>) = (append_names ns nm)\<lparr>SerialNo := x\<rparr> \<and>
   CommonName (append_names ns nm) = CommonName nm \<and> SerialNo (append_names ns nm) = SerialNo nm"
proof (induction ns arbitrary: nm)
  case (Cons n ns)
  show ?case unfolding append_names_Cons [of n ns] append_name_keeps(1) using Cons append_name_keeps(2,3) by metis
qed (simp add: append_names_def)

lemma root_subject_eq:
  assumes "Subject c = CertificateRequest_Name req"
  shows "PopulateName (reqSubject (root_request profile req csr)) (Subject (safe_template pr c)) = root_subject pr req"
proof -
  let ?n = "CertificateRequest_Name req"
  have x: "X509Subject_Name \<lparr>subjCommonName = crCommonName req, subjNames = crNames req, subjSerialNumber = []\<rparr> = ?n\<lparr>SerialNo := []\<rparr>"
    using append_names_keeps [where ns = "crNames req" and nm = "empty_name\<lparr>CommonName := crCommonName req, SerialNo := crSerialNumber req\<rparr>" and x = "[]"]
    by (simp add: X509Subject_Name_def CertificateRequest_Name_def)
  have "CommonName ?n = crCommonName req" "SerialNo ?n = crSerialNumber req"
    by (simp_all add: CertificateRequest_Name_def append_names_keeps)
  then show ?thesis
    using assms
    by (cases ?n) (auto simp: PopulateName_def root_request_def x root_subject_def safe_template_def replaceSliceIfEmpty_def
        empty_name_def Let_def split: option.splits)
qed

lemma request_parsed:
  assumes "sound_requests (pk E) L" and "GenerateKeyAndRequest L G kro req p = (Ok (csrPEM, gkey, keyID), p')"
    and "ParsePEM (pk E) csrPEM = Ok c"
  shows "Subject c = CertificateRequest_Name req" and "PublicKey c = Some (public_of gkey)" and "\<exists>lab. IdentifyKey G gkey = Inr (keyID, lab)"
proof -
  obtain kr der lab where t: "CreateCertificateRequest L (request_template (cl_pki L) req (keyRequest_SigAlgo kr)) gkey = Inr der"
    and pem: "csrPEM = pem_Request L der" and i: "IdentifyKey G gkey = Inr (keyID, lab)"
    using assms(2) by (auto simp: GenerateKeyAndRequest_def Let_def split: option.splits prod.splits sum.splits if_splits)
  have sub: "Subject (request_template P req alg) = CertificateRequest_Name req" for P alg
    using SetSAN_subject(1) [of P "Some (case crSAN req of None \<Rightarrow> [] | Some ss \<Rightarrow> ss)"
        "zero_certificate\<lparr>Subject := CertificateRequest_Name req, SignatureAlgorithm := alg\<rparr>"]
    by (simp add: request_template_def SetSAN_def zero_certificate_def)
  obtain csr where d: "pem_Decode (pk E) csrPEM = Some (''CERTIFICATE REQUEST'', der)"
    and csr: "ParseCertificateRequest (pk E) der = Inr csr" "csrSubject csr = CertificateRequest_Name req" "csrPublicKey csr = public_of gkey"
    using assms(1) t unfolding sound_requests_def pem by (metis sub)
  have "csr_Parse (pk E) der = Ok c" using assms(3) d by (simp add: ParsePEM_def)
  then show "Subject c = CertificateRequest_Name req" "PublicKey c = Some (public_of gkey)"
    using csr by (auto simp: csr_Parse_def split: option.splits dest!: parse_extensions_keeps)
  show "\<exists>lab. IdentifyKey G gkey = Inr (keyID, lab)" using i by blast
qed

text \<open>C8. A root certificate that \<open>NewRoot\<close> returns is a self-signed CA certificate for the key that was generated and the subject of
  the request: it was made from a template with this public key and this subject that conforms to the named profile of the
  validated configuration, is a CA template and carries no alternative name, whatever was asked for; the template is its own
  parent and the generated key signs it, with the algorithm for that key. The request returned beside it was made
  by the same key, whose identifier is the one the key is exported under.\<close>

theorem NewRoot_self_signed:
  assumes "NewRoot E L G compile now (Inr bs) profile cfg kro req p = (Ok (certPEM, csrPEM, key), p')" and "length bs = 20"
    and "sound_requests (pk E) L"
  shows "\<exists>cfg' gkey keyID lab pr t der uri kb.
    Config_Validate compile cfg = Ok cfg' \<and> GenerateKeyAndRequest L G kro req p = (Ok (csrPEM, gkey, keyID), p') \<and>
    mget (Profiles cfg') (if profile = [] then ''default'' else profile) = Some pr \<and>
    conforms E pr now (root_request profile req csrPEM) t \<and> IsCA t \<and>
    PublicKey t = Some (public_of gkey) \<and> Subject t = root_subject pr req \<and> SignatureAlgorithm t = DefaultSigAlgo (public_of gkey) \<and>
    CreateCertificate E t t (public_of gkey) = Inr der \<and> certPEM = pem_Encode (xl E) ''CERTIFICATE'' der \<and>
    IdentifyKey G gkey = Inr (keyID, lab) \<and> ExportKey G keyID p' = Ok (uri, kb) \<and> key = (case kb of None \<Rightarrow> uri | Some b \<Rightarrow> b)"
proof -
  obtain cfg' gkey keyID crt uri kb where
    c: "Config_Validate compile cfg = Ok cfg'" and g: "GenerateKeyAndRequest L G kro req p = (Ok (csrPEM, gkey, keyID), p')"
    and x: "ExportKey G keyID p' = Ok (uri, kb)" "key = (case kb of None \<Rightarrow> uri | Some b \<Rightarrow> b)"
    and s: "Sign E (root_issuer cfg' gkey) now (Inr bs) (root_request profile req csrPEM) = Ok (crt, certPEM)"
    using assms(1) unfolding NewRoot_def
    by (auto split: result.splits prod.splits if_splits option.splits)
  obtain pr t where pr: "mget (Profiles cfg') (if profile = [] then ''default'' else profile) = Some pr"
    and t: "build_template E (root_issuer cfg' gkey) pr now (Inr bs) (root_request profile req csrPEM) = Ok t"
    and st: "sign_template E (root_issuer cfg' gkey) t = Ok certPEM"
    using s unfolding Sign_def root_names by (auto simp: Let_def bind_result_eq_Ok split: option.splits)
  obtain csrt where csrt: "ParsePEM (pk E) csrPEM = Ok csrt" and made: "PublicKey t = PublicKey csrt"
    "SignatureAlgorithm t = DefaultSigAlgo (public_of gkey)"
    "Subject t = PopulateName (reqSubject (root_request profile req csrPEM)) (Subject (safe_template pr csrt))"
    using t by (rule build_template_subject) (simp_all add: root_request_def root_issuer_def)
  note parsed = request_parsed [OF assms(3) g csrt]
  have sub: "Subject t = root_subject pr req" unfolding made by (rule root_subject_eq [OF parsed(1)])
  have conf: "conforms E pr now (root_request profile req csrPEM) t"
    using build_template_conforms [OF t assms(2)] .
  have ca: "IsCA t"
    using st by (auto simp: sign_template_def root_names split: if_splits)
  then have "t\<lparr>DNSNames := [], EmailAddresses := [], URIs := []\<rparr> = t"
    using conf by (cases t) (simp add: conforms_def)
  then obtain der where "CreateCertificate E t t (public_of gkey) = Inr der" "certPEM = pem_Encode (xl E) ''CERTIFICATE'' der"
    using st ca by (auto simp: sign_template_def root_names Let_def split: if_splits sum.splits)
  with conf ca c g pr x sub made(2) made(1) [unfolded parsed(2)] parsed(3) show ?thesis by blast
qed

text \<open>A concrete root: a CA profile, a request for the name \<open>ba\<close> and the provider above. A request is written as size and number of
  an RSA key, the number as so many letters, and the common name.\<close>

definition demo_csr_lib :: csr_lib where
  "demo_csr_lib = \<lparr>cl_pki = demo_pki, CreateCertificateRequest = (\<lambda>t k. Inr (CommonName (Subject t))), pem_Request = id\<rparr>"

definition demo_CreateRequest :: "certificate \<Rightarrow> privkey \<Rightarrow> string + string" where
  "demo_CreateRequest t k =
     (case public_of k of
        RSAKey b n \<Rightarrow>
          if Subject t = empty_name\<lparr>CommonName := CommonName (Subject t)\<rparr> \<and> (b = 2048 \<or> b = 4096)
          then Inr ((if b = 2048 then ''2048'' else ''4096'') @ replicate n CHR ''x'' @ CHR '':'' # CommonName (Subject t))
          else Inl ''subject''
      | _ \<Rightarrow> Inl ''key'')"

definition demo_ParseRequest :: "string \<Rightarrow> string + csr_info" where
  "demo_ParseRequest s =
     (let n = length (takeWhile (\<lambda>c. c = CHR ''x'') (drop 4 s))
      in Inr ((demo_csr (drop (n + 5) s))\<lparr>csrPublicKey := RSAKey (if take 4 s = ''2048'' then 2048 else 4096) n\<rparr>))"

definition root_lib :: csr_lib where
  "root_lib = \<lparr>cl_pki = demo_pki, CreateCertificateRequest = demo_CreateRequest, pem_Request = id\<rparr>"

definition root_env :: ca_env where
  "root_env = demo_env\<lparr>pk := demo_pki\<lparr>ParseCertificateRequest := demo_ParseRequest\<rparr>\<rparr>"

lemma root_requests: "sound_requests (pk root_env) root_lib"
proof -
  have "\<exists>c. demo_ParseRequest der = Inr c \<and> csrSubject c = Subject t \<and> csrPublicKey c = public_of k"
    if c: "demo_CreateRequest t k = Inr der" for t k der
  proof -
    obtain b n where k: "public_of k = RSAKey b n" using c by (auto simp: demo_CreateRequest_def split: pubkey.splits)
    let ?cn = "CommonName (Subject t)"
    have sub: "Subject t = empty_name\<lparr>CommonName := ?cn\<rparr>" and b: "b = 2048 \<or> b = 4096"
      and der: "der = (if b = 2048 then ''2048'' else ''4096'') @ replicate n CHR ''x'' @ CHR '':'' # ?cn"
      using c k by (auto simp: demo_CreateRequest_def split: if_splits)
    have "takeWhile (\<lambda>c. c = CHR ''x'') (replicate n CHR ''x'' @ CHR '':'' # ?cn) = replicate n CHR ''x''"
      by (subst takeWhile_append2) auto
    moreover have "drop 4 der = replicate n CHR ''x'' @ CHR '':'' # ?cn" "take 4 der = (if b = 2048 then ''2048'' else ''4096'')"
      by (simp_all add: der)
    moreover have "drop (n + 5) der = drop (n + 1) (drop 4 der)" by (simp add: add.commute)
    ultimately have "demo_ParseRequest der = Inr ((demo_csr ?cn)\<lparr>csrPublicKey := RSAKey b n\<rparr>)"
      using b by (auto simp: demo_ParseRequest_def Let_def)
    then show ?thesis using k sub by (simp add: demo_csr_def)
  qed
  then show ?thesis by (simp add: sound_requests_def root_env_def root_lib_def demo_env_def demo_pki_def)
qed

definition demo_root_config :: ca_config where
  "demo_root_config =
     \<lparr>Authority = None,
      Profiles = [(''ROOT'', DefaultCertProfile\<lparr>Usage := [''cert sign''], pCAConstraint := \<lparr>caIsCA = True, caMaxPathLen = 1\<rparr>\<rparr>)]\<rparr>"

definition demo_root_request :: CertificateRequest where
  "demo_root_request = \<lparr>crCommonName = ''ba'', crNames = [], crSerialNumber = [], crSAN = Some [''a.com'']\<rparr>"

definition demo_root ::
    "(string, string \<times> string \<times> string) result \<times> inMemProv" where
  "demo_root =
     NewRoot root_env root_lib test_ops (\<lambda>_. None) (90 * second) (Inr (replicate 20 255)) ''ROOT'' demo_root_config
       (Some (NewKeyRequest ''ca'' ''RSA'' 4096 SigningKey)) demo_root_request demo_provider"

lemma demo_root_made:
  "fst demo_root = Ok (''ba'', ''4096:ba'',
     ''pkcs11:manufacturer=testprov;model=inmem;serial=20764350726;token=ca;id=00000000-0000-0000-0000-000000000000;type=private'')"
  by code_simp

theorem NewRoot_self_signed_witness:
  "\<exists>gkey keyID pr t. GenerateKeyAndRequest root_lib test_ops (Some (NewKeyRequest ''ca'' ''RSA'' 4096 SigningKey)) demo_root_request demo_provider =
        (Ok (''4096:ba'', gkey, keyID), snd demo_root) \<and>
     IsCA t \<and> PublicKey t = Some (public_of gkey) \<and> Subject t = root_subject pr demo_root_request \<and>
     CreateCertificate root_env t t (public_of gkey) = Inr ''ba''"
proof -
  have root: "NewRoot root_env root_lib test_ops (\<lambda>_. None) (90 * second) (Inr (replicate 20 255)) ''ROOT'' demo_root_config
       (Some (NewKeyRequest ''ca'' ''RSA'' 4096 SigningKey)) demo_root_request demo_provider =
     (Ok (''ba'', ''4096:ba'',
       ''pkcs11:manufacturer=testprov;model=inmem;serial=20764350726;token=ca;id=00000000-0000-0000-0000-000000000000;type=private''),
      snd demo_root)"
    using demo_root_made unfolding demo_root_def by (metis prod.collapse)
  have "length (replicate 20 (255 :: 8 word)) = 20" by simp
  from NewRoot_self_signed [OF root this root_requests] obtain gkey keyID pr t der where
    g: "GenerateKeyAndRequest root_lib test_ops (Some (NewKeyRequest ''ca'' ''RSA'' 4096 SigningKey)) demo_root_request demo_provider =
        (Ok (''4096:ba'', gkey, keyID), snd demo_root)"
    and t: "IsCA t" "PublicKey t = Some (public_of gkey)" "Subject t = root_subject pr demo_root_request"
    and ca: "CreateCertificate root_env t t (public_of gkey) = Inr der" "''ba'' = pem_Encode (xl root_env) ''CERTIFICATE'' der"
    by blast
  have "der = ''ba''"
    using ca(2) by (simp add: root_env_def demo_env_def demo_x509_def)
  then show ?thesis
    using g t ca(1) by blast
qed

text \<open>A key that is no signer, and an alternative name that is no URL.\<close>

lemma non_signer_without_error:
  assumes "CertificateRequest_Validate req = Ok ()" and "GenerateKeyAndRequest L G kro req p = (Ok (csrPEM, priv, keyID), p')"
    and "\<not> is_signer priv"
  shows "CreateRequestAndExportKey L G kro req p =
    (Ok \<lparr>exCSR = csrPEM, exKey = None, exKeyID = keyID, exPub = None\<rparr>, p')"
  using assms by (simp add: CreateRequestAndExportKey_def)

lemma add_SAN_keeps: "u \<in> set (URIs t) \<Longrightarrow> u \<in> set (URIs (fold (add_SAN P) ss t))"
  by (induction ss arbitrary: t) (auto simp: add_SAN_def split: option.split)

lemma malformed_url_panics:
  assumes "Generate G kr p = (Inr priv, p')" and "IdentifyKey G priv = Inr (keyID, lab)"
    and "crSAN req = Some (san # ss)" and "contains_sub san ''://''" and "url_Parse (cl_pki L) san = None"
  shows "GenerateKeyAndRequest L G (Some kr) req p = (Panic, p')"
proof -
  have "None \<in> set (URIs (request_template (cl_pki L) req (keyRequest_SigAlgo kr)))"
    using assms(3-5) unfolding request_template_def
    by (simp add: add_SAN_keeps add_SAN_def)
  then show ?thesis
    using assms(1,2) by (simp add: GenerateKeyAndRequest_def Let_def)
qed

end
