(* ===== verification/Kms.thy ===== *)
theory Kms
  imports CryptoFacts
begin

text \<open>
  The provider for AWS KMS (xpki/cryptoprov/awskmscrypto/kmsprov.go, signer.go). The service is a record of its
  calls with a state of its own, which creating a key and scheduling a deletion change.
\<close>

record kms_metadata =
  mKeyId :: string
  mArn :: string
  mDescription :: string
  mKeyUsage :: string
  mOrigin :: string
  mKeyState :: string
  mCreationDate :: "time option"
  mSigningAlgorithms :: "string list"

record kms_create =
  ckSpec :: string
  ckUsage :: string
  ckDescription :: string

record 's KmsClient =
  CreateKey :: "kms_create \<Rightarrow> 's \<Rightarrow> (string + kms_metadata) \<times> 's"
  ListKeys :: "'s \<Rightarrow> string + string list"
  ScheduleKeyDeletion :: "string \<Rightarrow> 's \<Rightarrow> string option \<times> 's"
  DescribeKey :: "string \<Rightarrow> 's \<Rightarrow> string + kms_metadata"
  GetPublicKey :: "string \<Rightarrow> 's \<Rightarrow> string + (string \<times> string list)"
  kms_Sign :: "string \<Rightarrow> string \<Rightarrow> string \<Rightarrow> 's \<Rightarrow> string + string"

definition ProviderName :: string where "ProviderName = ''AWSKMS''"

section \<open>Attributes\<close>

text \<open>\<open>kmsAttr[1]\<close> of a part without an equals sign is out of range.\<close>

fun kms_attr_loop :: "string list \<Rightarrow> (string, string) gomap \<Rightarrow> (string, (string, string) gomap) result" where
  "kms_attr_loop [] m = Ok m"
| "kms_attr_loop (v # vs) m =
     (case split_on (CHR ''='') v of
        k # x # _ \<Rightarrow> kms_attr_loop vs (mput (trim_space k) (trim_space x) m)
      | _ \<Rightarrow> Panic)"

definition parseKmsAttributes :: "string \<Rightarrow> (string, (string, string) gomap) result" where
  "parseKmsAttributes attributes = kms_attr_loop (split_on (CHR '','') attributes) []"

record KmsProvider =
  ktc :: tokenConfig
  kendpoint :: string
  kregion :: string

text \<open>\<open>Init\<close>, with the error of the client's factory for the endpoint and region.\<close>

definition kms_Init :: "(string \<Rightarrow> string \<Rightarrow> string option) \<Rightarrow> tokenConfig \<Rightarrow> (string, KmsProvider) result" where
  "kms_Init factory_error tc =
     bind_result (parseKmsAttributes (Attrs tc)) (\<lambda>attrs.
       let endpoint = (case mget attrs ''Endpoint'' of None \<Rightarrow> [] | Some x \<Rightarrow> x);
           region = (case mget attrs ''Region'' of None \<Rightarrow> [] | Some x \<Rightarrow> x)
       in case factory_error endpoint region of
            Some e \<Rightarrow> Err (''failed to create KMS client: '' @ e)
          | None \<Rightarrow> Ok \<lparr>ktc = tc, kendpoint = endpoint, kregion = region\<rparr>)"

definition kms_Manufacturer :: "KmsProvider \<Rightarrow> string" where
  "kms_Manufacturer p = Man (ktc p)"

definition kms_Model :: "KmsProvider \<Rightarrow> string" where
  "kms_Model p = Mod (ktc p)"

section \<open>Keys\<close>

definition NewSigner :: "string \<Rightarrow> string \<Rightarrow> string list \<Rightarrow> pubkey \<Rightarrow> privkey" where
  "NewSigner keyID label algs pub = KmsKey \<lparr>sKeyID = keyID, sLabel = label, signingAlgorithms = algs, sPubKey = pub\<rparr>"

text \<open>The two steps after the key specification: create the key, fetch and parse its public part.\<close>

definition create_signer ::
    "'s KmsClient \<Rightarrow> (string \<Rightarrow> string + pubkey) \<Rightarrow> string \<Rightarrow> string \<Rightarrow> string \<Rightarrow> 's \<Rightarrow> (string + privkey) \<times> 's" where
  "create_signer K ParsePKIX spec usage label s =
     (case CreateKey K \<lparr>ckSpec = spec, ckUsage = usage, ckDescription = label\<rparr> s of
        (Inl e, s') \<Rightarrow> (Inl (''failed to create key with label: '' @ [CHR 0x22] @ label @ [CHR 0x22] @ '': '' @ e), s')
      | (Inr m, s') \<Rightarrow>
          (case GetPublicKey K (mKeyId m) s' of
             Inl e \<Rightarrow> (Inl (''failed to get public key, id='' @ mKeyId m @ '': '' @ e), s')
           | Inr (raw, _) \<Rightarrow>
               (case ParsePKIX raw of
                  Inl e \<Rightarrow> (Inl (''failed to parse public key, id='' @ mKeyId m @ '': '' @ e), s')
                | Inr pub \<Rightarrow> (Inr (NewSigner (mKeyId m) label (mSigningAlgorithms m) pub), s'))))"

definition kms_GenerateRSAKey ::
    "'s KmsClient \<Rightarrow> (string \<Rightarrow> string + pubkey) \<Rightarrow> string \<Rightarrow> int \<Rightarrow> int \<Rightarrow> 's \<Rightarrow> (string + privkey) \<times> 's" where
  "kms_GenerateRSAKey K ParsePKIX label bits purpose s =
     create_signer K ParsePKIX (''RSA_'' @ itoa bits) (if purpose = 2 then ''ENCRYPT_DECRYPT'' else ''SIGN_VERIFY'') label s"

definition kms_GenerateECDSAKey ::
    "'s KmsClient \<Rightarrow> (string \<Rightarrow> string + pubkey) \<Rightarrow> string \<Rightarrow> string \<Rightarrow> 's \<Rightarrow> (string + privkey) \<times> 's" where
  "kms_GenerateECDSAKey K ParsePKIX label curve s =
     (if curve = ''P-256'' then create_signer K ParsePKIX ''ECC_NIST_P256'' ''SIGN_VERIFY'' label s
      else if curve = ''P-384'' then create_signer K ParsePKIX ''ECC_NIST_P384'' ''SIGN_VERIFY'' label s
      else if curve = ''P-521'' then create_signer K ParsePKIX ''ECC_NIST_P521'' ''SIGN_VERIFY'' label s
      else (Inl ''unsupported curve'', s))"

definition kms_IdentifyKey :: "privkey \<Rightarrow> string + (string \<times> string)" where
  "kms_IdentifyKey priv = (case priv of KmsKey s \<Rightarrow> Inr (sKeyID s, sLabel s) | _ \<Rightarrow> Inl ''not supported key'')"

definition kms_GetKey :: "'s KmsClient \<Rightarrow> (string \<Rightarrow> string + pubkey) \<Rightarrow> string \<Rightarrow> 's \<Rightarrow> string + privkey" where
  "kms_GetKey K ParsePKIX keyID s =
     (case DescribeKey K keyID s of
        Inl e \<Rightarrow> Inl (''failed to describe key, id='' @ keyID @ '': '' @ e)
      | Inr m \<Rightarrow>
          (case GetPublicKey K keyID s of
             Inl e \<Rightarrow> Inl (''failed to get public key, id='' @ keyID @ '': '' @ e)
           | Inr (raw, algs) \<Rightarrow>
               (case ParsePKIX raw of
                  Inl e \<Rightarrow> Inl (''failed to parse public key, id='' @ keyID @ '': '' @ e)
                | Inr pub \<Rightarrow> Inr (NewSigner keyID (mDescription m) algs pub))))"

text \<open>Both results of \<open>ExportKey\<close> are the URI, which names the provider and not its manufacturer.\<close>

definition kms_ExportKey :: "'s KmsClient \<Rightarrow> string \<Rightarrow> 's \<Rightarrow> (string, string \<times> string option) result" where
  "kms_ExportKey K keyID s =
     (case DescribeKey K keyID s of
        Inl e \<Rightarrow> Err (''failed to describe key, id='' @ keyID @ '': '' @ e)
      | Inr m \<Rightarrow>
          (let uri = ''pkcs11:manufacturer='' @ ProviderName @ '';id='' @ keyID @ '';serial='' @ mArn m @ '';type=private''
           in Ok (uri, Some uri)))"

section \<open>Key management\<close>

text \<open>The rows given to the callback of \<open>EnumKeys\<close>; the callback returns an error or none, and the first
  error ends the enumeration. The result also has the rows it was called with.\<close>

type_synonym key_row = "string \<times> string \<times> string \<times> string \<times> string \<times> time option"

definition key_row :: "string \<Rightarrow> kms_metadata \<Rightarrow> key_row" where
  "key_row k m = (k, mDescription m, mKeyUsage m, mOrigin m, mKeyState m, mCreationDate m)"

fun enum_loop :: "'s KmsClient \<Rightarrow> 's \<Rightarrow> (key_row \<Rightarrow> string option) \<Rightarrow> string list \<Rightarrow> key_row list \<Rightarrow> key_row list \<times> string option" where
  "enum_loop K s f [] rows = (rows, None)"
| "enum_loop K s f (k # ks) rows =
     (case DescribeKey K k s of
        Inl e \<Rightarrow> (rows, Some (''failed to describe key, id='' @ k @ '': '' @ e))
      | Inr m \<Rightarrow>
          if mKeyState m = ''PendingDeletion'' then enum_loop K s f ks rows
          else (case f (key_row k m) of
                  Some e \<Rightarrow> (rows @ [key_row k m], Some e)
                | None \<Rightarrow> enum_loop K s f ks (rows @ [key_row k m])))"

definition EnumKeys :: "'s KmsClient \<Rightarrow> 's \<Rightarrow> (key_row \<Rightarrow> string option) \<Rightarrow> nat \<Rightarrow> string \<Rightarrow> key_row list \<times> string option" where
  "EnumKeys K s f slotID pfx =
     (case ListKeys K s of Inl e \<Rightarrow> ([], Some e) | Inr ks \<Rightarrow> enum_loop K s f ks [])"

definition EnumTokens :: "KmsProvider \<Rightarrow> bool \<Rightarrow> (nat \<times> string \<times> string \<times> string \<times> string \<times> string \<Rightarrow> string option) \<Rightarrow> string option" where
  "EnumTokens p currentSlotOnly f = f (0, [], [], kms_Manufacturer p, kms_Model p, [])"

definition DestroyKeyPairOnSlot :: "'s KmsClient \<Rightarrow> nat \<Rightarrow> string \<Rightarrow> 's \<Rightarrow> string option \<times> 's" where
  "DestroyKeyPairOnSlot K slotID keyID s =
     (case ScheduleKeyDeletion K keyID s of
        (Some e, s') \<Rightarrow> (Some (''failed to schedule key deletion: '' @ keyID @ '': '' @ e), s')
      | (None, s') \<Rightarrow> (None, s'))"

text \<open>What the callback of \<open>KeyInfo\<close> is called with.\<close>

definition kms_info_row ::
    "'s KmsClient \<Rightarrow> 's \<Rightarrow> (string \<Rightarrow> string) \<Rightarrow> string \<Rightarrow> bool \<Rightarrow>
     string + string \<times> string \<times> string \<times> string \<times> string \<times> string \<times> time option" where
  "kms_info_row K s base64 keyID includePublic =
     (case DescribeKey K keyID s of
        Inl e \<Rightarrow> Inl (''failed to describe key, id='' @ keyID @ '': '' @ e)
      | Inr m \<Rightarrow>
          (case (if includePublic then map_sum id (\<lambda>(raw, _). base64 raw) (GetPublicKey K keyID s) else Inr []) of
             Inl e \<Rightarrow> Inl (''failed to get public key, id='' @ keyID @ '': '' @ e)
           | Inr pubKey \<Rightarrow> Inr (keyID, mDescription m, mKeyUsage m, mOrigin m, mKeyState m, pubKey, None)))"

definition KeyInfo ::
    "'s KmsClient \<Rightarrow> 's \<Rightarrow> (string \<Rightarrow> string) \<Rightarrow> nat \<Rightarrow> string \<Rightarrow> bool \<Rightarrow>
     (string \<times> string \<times> string \<times> string \<times> string \<times> string \<times> time option \<Rightarrow> string option) \<Rightarrow> string option" where
  "KeyInfo K s base64 slotID keyID includePublic f =
     (case kms_info_row K s base64 keyID includePublic of Inl e \<Rightarrow> Some e | Inr row \<Rightarrow> f row)"

definition FindKeyPairOnSlot :: "nat \<Rightarrow> string \<Rightarrow> string \<Rightarrow> string + privkey" where
  "FindKeyPairOnSlot slotID keyID label = Inl ''unsupported command for this crypto provider''"

section \<open>signer.go\<close>

datatype sign_opts = PSS string | Hash string

text \<open>The name of the signing algorithm for a public key and options; nil options panic.\<close>

definition hash_of :: "sign_opts \<Rightarrow> string" where
  "hash_of opt = (case opt of PSS h \<Rightarrow> h | Hash h \<Rightarrow> h)"

definition kms_sigAlgo :: "pubkey \<Rightarrow> sign_opts option \<Rightarrow> (string, string) result" where
  "kms_sigAlgo pub opts =
     (case pub of
        OtherKey _ \<Rightarrow> Err ''unknown type of public key''
      | _ \<Rightarrow>
          (case opts of
             None \<Rightarrow> Panic
           | Some opt \<Rightarrow>
               (let base = (case pub of
                              RSAKey _ _ \<Rightarrow> ''RSASSA_'' @ (case opt of PSS _ \<Rightarrow> ''PSS_'' | Hash _ \<Rightarrow> ''PKCS1_V1_5_'')
                            | _ \<Rightarrow> ''ECDSA_'')
                in if hash_of opt = ''SHA-256'' then Ok (base @ ''SHA_256'')
                   else if hash_of opt = ''SHA-384'' then Ok (base @ ''SHA_384'')
                   else if hash_of opt = ''SHA-512'' then Ok (base @ ''SHA_512'')
                   else Err ''unsupported hash'')))"

definition Signer_Sign :: "'s KmsClient \<Rightarrow> 's \<Rightarrow> Signer \<Rightarrow> string \<Rightarrow> sign_opts option \<Rightarrow> (string, string) result" where
  "Signer_Sign K s sg dig opts =
     (case kms_sigAlgo (sPubKey sg) opts of
        Panic \<Rightarrow> Panic
      | Err e \<Rightarrow> Err (''unable to determine signature algorithm: '' @ e)
      | Ok alg \<Rightarrow>
          (case kms_Sign K (sKeyID sg) alg dig s of Inl e \<Rightarrow> Err (''unable to sign: '' @ e) | Inr x \<Rightarrow> Ok x))"

section \<open>Behaviour\<close>

text \<open>Attributes: a part without an equals sign panics, the empty text included.\<close>

lemma kms_attributes_panic:
  assumes "v \<in> set (split_on (CHR '','') attrs)" and "CHR ''='' \<notin> set v"
  shows "parseKmsAttributes attrs = Panic"
proof -
  have "kms_attr_loop vs m = Panic" if "v \<in> set vs" for vs m
    using that
  proof (induction vs arbitrary: m)
    case (Cons w ws)
    show ?case
    proof (cases "w = v")
      case True
      then show ?thesis using assms(2) by (simp add: split_on_no_sep)
    next
      case False
      then show ?thesis using Cons by (auto split: list.split)
    qed
  qed simp
  then show ?thesis using assms(1) by (simp add: parseKmsAttributes_def)
qed

lemma no_attributes_panic: "Attrs tc = [] \<Longrightarrow> kms_Init f tc = Panic"
  using kms_attributes_panic [of "[]" "[]"] by (simp add: kms_Init_def)

text \<open>The name of a signing algorithm is one of the service's nine, and determines padding and hash.\<close>

lemma kms_sigAlgo_names:
  assumes "kms_sigAlgo pub (Some opt) = Ok alg"
  shows "alg \<in> (\<lambda>(a, h). a @ h) ` ({''RSASSA_PSS_'', ''RSASSA_PKCS1_V1_5_'', ''ECDSA_''} \<times> {''SHA_256'', ''SHA_384'', ''SHA_512''})"
  using assms by (cases pub; cases opt) (auto simp: kms_sigAlgo_def hash_of_def Let_def split: if_splits)

text \<open>Enumeration: the prefix is not used.\<close>

lemma EnumKeys_ignores_prefix: "EnumKeys K s f slot pfx = EnumKeys K s f slot' pfx'"
  by (simp add: EnumKeys_def)

lemma enum_loop_rows:
  assumes "\<forall>k \<in> set ks. DescribeKey K k s = Inr (md k)" and "\<And>r. f r = None"
  shows "enum_loop K s f ks rows = (rows @ map (\<lambda>k. key_row k (md k)) (filter (\<lambda>k. mKeyState (md k) \<noteq> ''PendingDeletion'') ks), None)"
  using assms(1) by (induction ks arbitrary: rows) (simp_all add: assms(2))

text \<open>The URI of a key finds the provider only if its manufacturer is the name written into every URI.\<close>

lemma exported_uri_parses:
  assumes "DescribeKey K keyID s = Inr m" and "plain keyID" and "plain (mArn m)" and "keyID \<noteq> []" and "mArn m \<noteq> []"
  shows "\<exists>uri u. kms_ExportKey K keyID s = Ok (uri, Some uri) \<and> ParsePrivateKeyURI E uri = Ok u \<and>
    kmanufacturer u = ''AWSKMS'' \<and> kid u = keyID \<and> ktokenSerial u = mArn m"
proof -
  let ?kvs = "[(''manufacturer'', ''AWSKMS''), (''id'', keyID), (''serial'', mArn m), (''type'', ''private'')]"
  have "plain_attrs ?kvs"
    using assms(2,3) by (simp add: plain_attrs_def) (simp add: plain_def plain_char_def is_ctl_def)
  moreover have "kms_ExportKey K keyID s = Ok (pk11_uri ?kvs, Some (pk11_uri ?kvs))"
    by (simp add: kms_ExportKey_def assms(1) ProviderName_def pk11_uri_def attr_text_def Let_def)
  moreover have "trim_space (trim_nul ''AWSKMS'') = ''AWSKMS''"
    by (simp add: trim_space_def trim_nul_def is_space_def)
  ultimately show ?thesis
    using assms(4,5) by (simp add: ParsePrivateKeyURI_plain Values_Get_def)
qed

end
