(* ===== verification/Oids.thy ===== *)
theory Oids
  imports Csr
begin

text \<open>
  The package xpki/oid: object identifiers from text (oid.go), the hash, public key and signature algorithms with
  their identifiers and names (maphash.go, mappubkey.go, mapsig.go) and the registry (lookup.go). The registry
  holds values, not pointers.
\<close>

section \<open>oid.go\<close>

text \<open>One part of the ASN.1 notation: the text after the first parenthesis, without its last character.\<close>

definition asn1_part :: "string \<Rightarrow> (string, int) result" where
  "asn1_part part =
     (let start = (if CHR 0x28 \<in> set part then length (takeWhile (\<lambda>c. c \<noteq> CHR 0x28) part) + 1 else 0)
      in if part = [] \<or> length part - 1 < start then Panic
         else case atoi (take (length part - 1 - start) (drop start part)) of
                None \<Rightarrow> Err ''invalid syntax'' | Some i \<Rightarrow> Ok i)"

fun asn1_parts :: "string list \<Rightarrow> (string, OID) result" where
  "asn1_parts [] = Ok []"
| "asn1_parts (p # ps) = bind_result (asn1_part p) (\<lambda>i. bind_result (asn1_parts ps) (\<lambda>is. Ok (i # is)))"

definition NewObjectIdentifier :: "string \<Rightarrow> (string, OID) result" where
  "NewObjectIdentifier oid =
     (if length oid = 0 then Err ''zero length OBJECT IDENTIFIER''
      else if hd oid = CHR 0x7B then
        (if length oid < 2 then Panic else asn1_parts (split_on (CHR '' '') (butlast (tl oid))))
      else (case parse_segments (split_on (CHR ''.'') oid) of None \<Rightarrow> Err ''invalid syntax'' | Some is \<Rightarrow> Ok is))"

definition SignatureAlgorithmRSA :: OID where "SignatureAlgorithmRSA = [1, 2, 840, 113549, 1, 1, 1]"
definition SignatureAlgorithmECDSA :: OID where "SignatureAlgorithmECDSA = [1, 2, 840, 10045, 2, 1]"
definition DigestAlgorithmSHA1 :: OID where "DigestAlgorithmSHA1 = [1, 3, 14, 3, 2, 26]"
definition DigestAlgorithmMD5 :: OID where "DigestAlgorithmMD5 = [1, 2, 840, 113549, 2, 5]"
definition DigestAlgorithmSHA256 :: OID where "DigestAlgorithmSHA256 = [2, 16, 840, 1, 101, 3, 4, 2, 1]"
definition DigestAlgorithmSHA384 :: OID where "DigestAlgorithmSHA384 = [2, 16, 840, 1, 101, 3, 4, 2, 2]"
definition DigestAlgorithmSHA512 :: OID where "DigestAlgorithmSHA512 = [2, 16, 840, 1, 101, 3, 4, 2, 3]"
definition DigestAlgorithmSHA3x224 :: OID where "DigestAlgorithmSHA3x224 = [2, 16, 840, 1, 101, 3, 4, 2, 7]"

section \<open>Algorithms\<close>

datatype crypto_hash = NoHash | HMD5 | HSHA1 | HSHA224 | HSHA256 | HSHA384 | HSHA512 | HSHA3_224 | HSHA3_256 | HSHA3_384 | HSHA3_512

record HashAlgorithmInfo =
  hName :: string
  hOID :: OID
  hOidstr :: string
  hRegistration :: string
  hHash :: crypto_hash

datatype PublicKeyAlgorithm = UnknownPublicKeyAlgorithm | AlgoRSA | AlgoDSA | AlgoECDSA

record PublicKeyAlgorithmInfo =
  pName :: string
  pOID :: OID
  pOidstr :: string
  pRegistration :: string
  publey :: PublicKeyAlgorithm

record SignatureAlgorithmInfo =
  sName :: string
  sOID :: OID
  sOidstr :: string
  sRegistration :: string
  sX509 :: sigalgo
  sPublicKeyAlgorithm :: PublicKeyAlgorithmInfo
  sHashAlgorithm :: HashAlgorithmInfo

datatype info = HashInfo HashAlgorithmInfo | PubKeyInfo PublicKeyAlgorithmInfo | SigInfo SignatureAlgorithmInfo

text \<open>An interface value holds a value or a pointer; a type assertion tells them apart.\<close>

datatype entry = Val info | Ptr info

datatype AlgType = AlgUnknown | AlgHash | AlgPubKey | AlgSig

fun info_Name :: "info \<Rightarrow> string" where
  "info_Name (HashInfo h) = hName h"
| "info_Name (PubKeyInfo p) = pName p"
| "info_Name (SigInfo s) = sName s"

fun info_Type :: "info \<Rightarrow> AlgType" where
  "info_Type (HashInfo h) = AlgHash"
| "info_Type (PubKeyInfo p) = AlgPubKey"
| "info_Type (SigInfo s) = AlgSig"

fun info_OID :: "info \<Rightarrow> OID" where
  "info_OID (HashInfo h) = hOID h"
| "info_OID (PubKeyInfo p) = pOID p"
| "info_OID (SigInfo s) = sOID s"

fun info_Registration :: "info \<Rightarrow> string" where
  "info_Registration (HashInfo h) = hRegistration h"
| "info_Registration (PubKeyInfo p) = pRegistration p"
| "info_Registration (SigInfo s) = sRegistration s"

definition hash_HashFunc :: "HashAlgorithmInfo \<Rightarrow> crypto_hash" where
  "hash_HashFunc h = hHash h"

definition sig_HashFunc :: "SignatureAlgorithmInfo \<Rightarrow> crypto_hash" where
  "sig_HashFunc s = hash_HashFunc (sHashAlgorithm s)"

text \<open>\<open>String\<close>: the stored text, or the identifier's.\<close>

definition stored_or :: "string \<Rightarrow> OID \<Rightarrow> string" where
  "stored_or s oid = (if s = [] then OID_String oid else s)"

fun info_String :: "info \<Rightarrow> string" where
  "info_String (HashInfo h) = stored_or (hOidstr h) (hOID h)"
| "info_String (PubKeyInfo p) = stored_or (pOidstr p) (pOID p)"
| "info_String (SigInfo s) = stored_or (sOidstr s) (sOID s)"

definition SHA1_info :: HashAlgorithmInfo where
  "SHA1_info = \<lparr>hName = ''SHA1'', hOID = DigestAlgorithmSHA1, hOidstr = OID_String DigestAlgorithmSHA1,
     hRegistration = ''{iso(1) identified-organization(3) oiw(14) secsig(3) algorithm(2) 26}'', hHash = HSHA1\<rparr>"

definition SHA256_info :: HashAlgorithmInfo where
  "SHA256_info = \<lparr>hName = ''SHA256'', hOID = DigestAlgorithmSHA256, hOidstr = OID_String DigestAlgorithmSHA256,
     hRegistration = ''{joint-iso-itu-t(2) country(16) us(840) organization(1) gov(101) csor(3) nistalgorithm(4) hashalgs(2) 1}'', hHash = HSHA256\<rparr>"

definition SHA384_info :: HashAlgorithmInfo where
  "SHA384_info = \<lparr>hName = ''SHA384'', hOID = DigestAlgorithmSHA384, hOidstr = OID_String DigestAlgorithmSHA384,
     hRegistration = ''{joint-iso-itu-t(2) country(16) us(840) organization(1) gov(101) csor(3) nistalgorithm(4) hashalgs(2) 2}'', hHash = HSHA384\<rparr>"

definition SHA512_info :: HashAlgorithmInfo where
  "SHA512_info = \<lparr>hName = ''SHA512'', hOID = DigestAlgorithmSHA512, hOidstr = OID_String DigestAlgorithmSHA512,
     hRegistration = ''{joint-iso-itu-t(2) country(16) us(840) organization(1) gov(101) csor(3) nistalgorithm(4) hashalgs(2) 3}'', hHash = HSHA512\<rparr>"

definition SHA3x224_info :: HashAlgorithmInfo where
  "SHA3x224_info = \<lparr>hName = ''SHA3-224'', hOID = DigestAlgorithmSHA3x224, hOidstr = OID_String DigestAlgorithmSHA3x224,
     hRegistration = ''{joint-iso-itu-t(2) country(16) us(840) organization(1) gov(101) csor(3) nistalgorithm(4) hashalgs(2) 7}'', hHash = HSHA3_224\<rparr>"

definition SHA3x256_info :: HashAlgorithmInfo where
  "SHA3x256_info = \<lparr>hName = ''SHA3-256'', hOID = [2, 16, 840, 1, 101, 3, 4, 2, 8], hOidstr = [],
     hRegistration = ''{joint-iso-itu-t(2) country(16) us(840) organization(1) gov(101) csor(3) nistalgorithm(4) hashalgs(2) 8}'', hHash = HSHA3_256\<rparr>"

definition SHA3x384_info :: HashAlgorithmInfo where
  "SHA3x384_info = \<lparr>hName = ''SHA3-384'', hOID = [2, 16, 840, 1, 101, 3, 4, 2, 9], hOidstr = [],
     hRegistration = ''{joint-iso-itu-t(2) country(16) us(840) organization(1) gov(101) csor(3) nistalgorithm(4) hashalgs(2) 9}'', hHash = HSHA3_384\<rparr>"

definition SHA3x512_info :: HashAlgorithmInfo where
  "SHA3x512_info = \<lparr>hName = ''SHA3-512'', hOID = [2, 16, 840, 1, 101, 3, 4, 2, 10], hOidstr = [],
     hRegistration = ''{joint-iso-itu-t(2) country(16) us(840) organization(1) gov(101) csor(3) nistalgorithm(4) hashalgs(2) 10}'', hHash = HSHA3_512\<rparr>"

definition SHAKE128_info :: HashAlgorithmInfo where
  "SHAKE128_info = \<lparr>hName = ''SHAKE128'', hOID = [2, 16, 840, 1, 101, 3, 4, 2, 11], hOidstr = [],
     hRegistration = ''{joint-iso-itu-t(2) country(16) us(840) organization(1) gov(101) csor(3) nistalgorithm(4) hashalgs(2) 11}'', hHash = NoHash\<rparr>"

definition SHAKE256_info :: HashAlgorithmInfo where
  "SHAKE256_info = \<lparr>hName = ''SHAKE256'', hOID = [2, 16, 840, 1, 101, 3, 4, 2, 12], hOidstr = [],
     hRegistration = ''{joint-iso-itu-t(2) country(16) us(840) organization(1) gov(101) csor(3) nistalgorithm(4) hashalgs(2) 12}'', hHash = NoHash\<rparr>"

definition RSA_info :: PublicKeyAlgorithmInfo where
  "RSA_info = \<lparr>pName = ''RSA'', pOID = SignatureAlgorithmRSA, pOidstr = [],
     pRegistration = ''{iso(1) member-body(2) us(840) rsadsi(113549) pkcs(1) 1}'', publey = AlgoRSA\<rparr>"

definition ECDSA_info :: PublicKeyAlgorithmInfo where
  "ECDSA_info = \<lparr>pName = ''ECDSA'', pOID = SignatureAlgorithmECDSA, pOidstr = [],
     pRegistration = ''{iso(1) member-body(2) us(840) ansi-X9-62(10045) keyType(2) 1}'', publey = AlgoECDSA\<rparr>"

definition RSAWithSHA1_info :: SignatureAlgorithmInfo where
  "RSAWithSHA1_info = \<lparr>sName = ''RSA-SHA1'', sOID = [1, 2, 840, 113549, 1, 1, 5], sOidstr = [],
     sRegistration = ''{iso(1) member-body(2) us(840) rsadsi(113549) pkcs(1) pkcs-1(1) sha1-with-rsa-signature(5)}'',
     sX509 = SHA1WithRSA, sPublicKeyAlgorithm = RSA_info, sHashAlgorithm = SHA1_info\<rparr>"

definition RSAWithSHA256_info :: SignatureAlgorithmInfo where
  "RSAWithSHA256_info = \<lparr>sName = ''RSA-SHA256'', sOID = [1, 2, 840, 113549, 1, 1, 11], sOidstr = [],
     sRegistration = ''{iso(1) member-body(2) us(840) rsadsi(113549) pkcs(1) pkcs-1(1) RSAWithSHA256Encryption(11)}'',
     sX509 = SHA256WithRSA, sPublicKeyAlgorithm = RSA_info, sHashAlgorithm = SHA256_info\<rparr>"

definition RSAWithSHA384_info :: SignatureAlgorithmInfo where
  "RSAWithSHA384_info = \<lparr>sName = ''RSA-SHA384'', sOID = [1, 2, 840, 113549, 1, 1, 12], sOidstr = [],
     sRegistration = ''{iso(1) member-body(2) us(840) rsadsi(113549) pkcs(1) pkcs-1(1) RSAWithSHA384Encryption(12)}'',
     sX509 = SHA384WithRSA, sPublicKeyAlgorithm = RSA_info, sHashAlgorithm = SHA384_info\<rparr>"

definition RSAWithSHA512_info :: SignatureAlgorithmInfo where
  "RSAWithSHA512_info = \<lparr>sName = ''RSA-SHA512'', sOID = [1, 2, 840, 113549, 1, 1, 13], sOidstr = [],
     sRegistration = ''{iso(1) member-body(2) us(840) rsadsi(113549) pkcs(1) pkcs-1(1) RSAWithSHA384Encryption(13)}'',
     sX509 = SHA512WithRSA, sPublicKeyAlgorithm = RSA_info, sHashAlgorithm = SHA512_info\<rparr>"

definition ECDSAWithSHA1_info :: SignatureAlgorithmInfo where
  "ECDSAWithSHA1_info = \<lparr>sName = ''ECDSA-SHA1'', sOID = [1, 2, 840, 10045, 4, 1], sOidstr = [],
     sRegistration = ''{iso(1) member-body(2) us(840) ansi-x962(10045) signatures(4) ecdsa-with-SHA1(1)}'',
     sX509 = ECDSAWithSHA1, sPublicKeyAlgorithm = ECDSA_info, sHashAlgorithm = SHA1_info\<rparr>"

definition ECDSAWithSHA256_info :: SignatureAlgorithmInfo where
  "ECDSAWithSHA256_info = \<lparr>sName = ''ECDSA-SHA256'', sOID = [1, 2, 840, 10045, 4, 3, 2], sOidstr = [],
     sRegistration = ''{iso(1) member-body(2) us(840) ansi-X9-62(10045) signatures(4) ecdsa-with-SHA2(3) 2}'',
     sX509 = ECDSAWithSHA256, sPublicKeyAlgorithm = ECDSA_info, sHashAlgorithm = SHA256_info\<rparr>"

definition ECDSAWithSHA384_info :: SignatureAlgorithmInfo where
  "ECDSAWithSHA384_info = \<lparr>sName = ''ECDSA-SHA384'', sOID = [1, 2, 840, 10045, 4, 3, 3], sOidstr = [],
     sRegistration = ''{iso(1) member-body(2) us(840) ansi-X9-62(10045) signatures(4) ecdsa-with-SHA2(3) 3}'',
     sX509 = ECDSAWithSHA384, sPublicKeyAlgorithm = ECDSA_info, sHashAlgorithm = SHA384_info\<rparr>"

definition ECDSAWithSHA512_info :: SignatureAlgorithmInfo where
  "ECDSAWithSHA512_info = \<lparr>sName = ''ECDSA-SHA512'', sOID = [1, 2, 840, 10045, 4, 3, 4], sOidstr = [],
     sRegistration = ''{iso(1) member-body(2) us(840) ansi-X9-62(10045) signatures(4) ecdsa-with-SHA2(3) 4}'',
     sX509 = ECDSAWithSHA512, sPublicKeyAlgorithm = ECDSA_info, sHashAlgorithm = SHA512_info\<rparr>"

definition OIDStrToInfo :: "(string, entry) gomap" where
  "OIDStrToInfo =
    [(''1.2.840.113549.1.1.1'', Val (PubKeyInfo RSA_info)),
     (''1.2.840.10045.2.1'', Val (PubKeyInfo ECDSA_info)),
     (''1.3.14.3.2.26'', Val (HashInfo SHA1_info)),
     (''2.16.840.1.101.3.4.2.1'', Val (HashInfo SHA256_info)),
     (''2.16.840.1.101.3.4.2.2'', Val (HashInfo SHA384_info)),
     (''2.16.840.1.101.3.4.2.3'', Val (HashInfo SHA512_info)),
     (''2.16.840.1.101.3.4.2.7'', Val (HashInfo SHA3x224_info)),
     (''2.16.840.1.101.3.4.2.8'', Val (HashInfo SHA3x256_info)),
     (''2.16.840.1.101.3.4.2.9'', Val (HashInfo SHA3x384_info)),
     (''2.16.840.1.101.3.4.2.10'', Val (HashInfo SHA3x512_info)),
     (''2.16.840.1.101.3.4.2.11'', Val (HashInfo SHAKE128_info)),
     (''2.16.840.1.101.3.4.2.12'', Val (HashInfo SHAKE256_info)),
     (''1.2.840.113549.1.1.5'', Val (SigInfo RSAWithSHA1_info)),
     (''1.2.840.113549.1.1.11'', Val (SigInfo RSAWithSHA256_info)),
     (''1.2.840.113549.1.1.12'', Val (SigInfo RSAWithSHA384_info)),
     (''1.2.840.113549.1.1.13'', Val (SigInfo RSAWithSHA512_info)),
     (''1.2.840.10045.4.1'', Val (SigInfo ECDSAWithSHA1_info)),
     (''1.2.840.10045.4.3.2'', Val (SigInfo ECDSAWithSHA256_info)),
     (''1.2.840.10045.4.3.3'', Val (SigInfo ECDSAWithSHA384_info)),
     (''1.2.840.10045.4.3.4'', Val (SigInfo ECDSAWithSHA512_info))]"

definition AlgNameToInfo :: "(string, entry) gomap" where
  "AlgNameToInfo =
    [(''RSA'', Val (PubKeyInfo RSA_info)),
     (''ECDSA'', Val (PubKeyInfo ECDSA_info)),
     (''SHA1'', Val (HashInfo SHA1_info)),
     (''SHA256'', Val (HashInfo SHA256_info)),
     (''SHA384'', Val (HashInfo SHA384_info)),
     (''SHA512'', Val (HashInfo SHA512_info)),
     (''SHA3x224'', Val (HashInfo SHA3x224_info)),
     (''SHA3-224'', Val (HashInfo SHA3x224_info)),
     (''SHA3x256'', Val (HashInfo SHA3x256_info)),
     (''SHA3-256'', Val (HashInfo SHA3x256_info)),
     (''SHA3x384'', Val (HashInfo SHA3x384_info)),
     (''SHA3-384'', Val (HashInfo SHA3x384_info)),
     (''SHA3x512'', Val (HashInfo SHA3x512_info)),
     (''SHA3-512'', Val (HashInfo SHA3x512_info)),
     (''SHAKE128'', Val (HashInfo SHAKE128_info)),
     (''SHAKE-128'', Val (HashInfo SHAKE128_info)),
     (''SHAKE256'', Val (HashInfo SHAKE256_info)),
     (''SHAKE-256'', Val (HashInfo SHAKE256_info)),
     (''RSAWithSHA1'', Val (SigInfo RSAWithSHA1_info)),
     (''RSA-SHA1'', Val (SigInfo RSAWithSHA1_info)),
     (''RSA_SHA1'', Val (SigInfo RSAWithSHA1_info)),
     (''RSAWithSHA256'', Val (SigInfo RSAWithSHA256_info)),
     (''RSA-SHA256'', Val (SigInfo RSAWithSHA256_info)),
     (''RSA_SHA256'', Val (SigInfo RSAWithSHA256_info)),
     (''RSAWithSHA384'', Val (SigInfo RSAWithSHA384_info)),
     (''RSA-SHA384'', Val (SigInfo RSAWithSHA384_info)),
     (''RSA_SHA384'', Val (SigInfo RSAWithSHA384_info)),
     (''RSAWithSHA512'', Val (SigInfo RSAWithSHA512_info)),
     (''RSA-SHA512'', Val (SigInfo RSAWithSHA512_info)),
     (''RSA_SHA512'', Val (SigInfo RSAWithSHA512_info)),
     (''ECDSAWithSHA1'', Val (SigInfo ECDSAWithSHA1_info)),
     (''ECDSA-SHA1'', Val (SigInfo ECDSAWithSHA1_info)),
     (''ECDSA_SHA1'', Val (SigInfo ECDSAWithSHA1_info)),
     (''ECDSAWithSHA256'', Val (SigInfo ECDSAWithSHA256_info)),
     (''ECDSA-SHA256'', Val (SigInfo ECDSAWithSHA256_info)),
     (''ECDSA_SHA256'', Val (SigInfo ECDSAWithSHA256_info)),
     (''ECDSAWithSHA384'', Val (SigInfo ECDSAWithSHA384_info)),
     (''ECDSA-SHA384'', Val (SigInfo ECDSAWithSHA384_info)),
     (''ECDSA_SHA384'', Val (SigInfo ECDSAWithSHA384_info)),
     (''ECDSAWithSHA512'', Val (SigInfo ECDSAWithSHA512_info)),
     (''ECDSA-SHA512'', Val (SigInfo ECDSAWithSHA512_info)),
     (''ECDSA_SHA512'', Val (SigInfo ECDSAWithSHA512_info))]"


section \<open>lookup.go\<close>

definition LookupByOID :: "string \<Rightarrow> entry option" where
  "LookupByOID oid = (if length oid = 0 then None else mget OIDStrToInfo oid)"

definition LookupByName :: "string \<Rightarrow> entry option" where
  "LookupByName name = (if length name = 0 then None else mget AlgNameToInfo name)"

section \<open>maphash.go\<close>

definition HashAlgorithmByOID :: "string \<Rightarrow> (string, HashAlgorithmInfo) result" where
  "HashAlgorithmByOID oid =
     (case LookupByOID oid of Some (Val (HashInfo h)) \<Rightarrow> Ok h | _ \<Rightarrow> Err (''algorithm not found: '' @ oid))"

text \<open>The lookups by name of hash and public key algorithms assert a pointer type.\<close>

definition HashAlgorithmByName :: "string \<Rightarrow> (string, HashAlgorithmInfo) result" where
  "HashAlgorithmByName name =
     (case LookupByName name of Some (Ptr (HashInfo h)) \<Rightarrow> Ok h | _ \<Rightarrow> Err (''algorithm not found: '' @ name))"

text \<open>The key is given by its public part, for public and private keys alike.\<close>

definition HashAlgorithmForPublicKey :: "pubkey \<Rightarrow> HashAlgorithmInfo" where
  "HashAlgorithmForPublicKey pub =
     (case pub of
        ECDSAKey curve _ \<Rightarrow>
          if curve = ''P-256'' then SHA256_info else if curve = ''P-384'' then SHA384_info
          else if curve = ''P-521'' then SHA512_info else SHA256_info
      | RSAKey sz _ \<Rightarrow>
          if sz \<ge> 4096 then SHA512_info else if sz > 2048 then SHA384_info else if sz > 1024 then SHA256_info else SHA1_info
      | OtherKey _ \<Rightarrow> SHA256_info)"

definition HashAlgorithmByCrypto :: "crypto_hash \<Rightarrow> (string, HashAlgorithmInfo) result" where
  "HashAlgorithmByCrypto h =
     (case h of
        HSHA1 \<Rightarrow> Ok SHA1_info | HSHA256 \<Rightarrow> Ok SHA256_info | HSHA384 \<Rightarrow> Ok SHA384_info | HSHA512 \<Rightarrow> Ok SHA512_info
      | HSHA3_224 \<Rightarrow> Ok SHA3x224_info | HSHA3_256 \<Rightarrow> Ok SHA3x256_info | HSHA3_384 \<Rightarrow> Ok SHA3x384_info
      | HSHA3_512 \<Rightarrow> Ok SHA3x512_info | _ \<Rightarrow> Panic)"

definition DigestAlgorithmToHash :: "(string, crypto_hash) gomap" where
  "DigestAlgorithmToHash =
     [(OID_String DigestAlgorithmSHA1, HSHA1), (OID_String DigestAlgorithmMD5, HMD5), (OID_String DigestAlgorithmSHA256, HSHA256),
      (OID_String DigestAlgorithmSHA384, HSHA384), (OID_String DigestAlgorithmSHA512, HSHA512)]"

definition HashToDigestAlgorithm :: "(crypto_hash, OID) gomap" where
  "HashToDigestAlgorithm =
     [(HSHA1, DigestAlgorithmSHA1), (HMD5, DigestAlgorithmMD5), (HSHA256, DigestAlgorithmSHA256),
      (HSHA384, DigestAlgorithmSHA384), (HSHA512, DigestAlgorithmSHA512)]"

section \<open>mappubkey.go\<close>

definition PublicKeyAlgorithmToSignatureAlgorithm :: "(PublicKeyAlgorithm, OID) gomap" where
  "PublicKeyAlgorithmToSignatureAlgorithm = [(AlgoRSA, SignatureAlgorithmRSA), (AlgoECDSA, SignatureAlgorithmECDSA)]"

definition PublicKeyAlgorithmByOID :: "string \<Rightarrow> (string, PublicKeyAlgorithmInfo) result" where
  "PublicKeyAlgorithmByOID oid =
     (case LookupByOID oid of Some (Val (PubKeyInfo p)) \<Rightarrow> Ok p | _ \<Rightarrow> Err (''algorithm not found: '' @ oid))"

definition PublicKeyAlgorithmByName :: "string \<Rightarrow> (string, PublicKeyAlgorithmInfo) result" where
  "PublicKeyAlgorithmByName name =
     (case LookupByName name of Some (Ptr (PubKeyInfo p)) \<Rightarrow> Ok p | _ \<Rightarrow> Err (''algorithm not found: '' @ name))"

section \<open>mapsig.go\<close>

text \<open>The signature algorithms of \<open>crypto/x509\<close> that the tables name.\<close>

datatype x509_sig = Sig sigalgo | MD5WithRSA

definition SignatureAlgorithmToDigestAlgorithm :: "(x509_sig, OID) gomap" where
  "SignatureAlgorithmToDigestAlgorithm =
     [(Sig SHA1WithRSA, DigestAlgorithmSHA1), (MD5WithRSA, DigestAlgorithmMD5), (Sig SHA256WithRSA, DigestAlgorithmSHA256),
      (Sig SHA384WithRSA, DigestAlgorithmSHA384), (Sig SHA512WithRSA, DigestAlgorithmSHA512),
      (Sig ECDSAWithSHA1, DigestAlgorithmSHA1), (Sig ECDSAWithSHA256, DigestAlgorithmSHA256),
      (Sig ECDSAWithSHA384, DigestAlgorithmSHA384), (Sig ECDSAWithSHA512, DigestAlgorithmSHA512)]"

definition SignatureAlgorithmToSignatureAlgorithm :: "(x509_sig, OID) gomap" where
  "SignatureAlgorithmToSignatureAlgorithm =
     [(Sig SHA1WithRSA, SignatureAlgorithmRSA), (MD5WithRSA, SignatureAlgorithmRSA), (Sig SHA256WithRSA, SignatureAlgorithmRSA),
      (Sig SHA384WithRSA, SignatureAlgorithmRSA), (Sig SHA512WithRSA, SignatureAlgorithmRSA),
      (Sig ECDSAWithSHA1, SignatureAlgorithmECDSA), (Sig ECDSAWithSHA256, SignatureAlgorithmECDSA),
      (Sig ECDSAWithSHA384, SignatureAlgorithmECDSA), (Sig ECDSAWithSHA512, SignatureAlgorithmECDSA)]"

definition SignatureAlgorithms :: "(string, (string, x509_sig) gomap) gomap" where
  "SignatureAlgorithms =
     [(OID_String SignatureAlgorithmRSA,
       [(OID_String DigestAlgorithmSHA1, Sig SHA1WithRSA), (OID_String DigestAlgorithmMD5, MD5WithRSA),
        (OID_String DigestAlgorithmSHA256, Sig SHA256WithRSA), (OID_String DigestAlgorithmSHA384, Sig SHA384WithRSA),
        (OID_String DigestAlgorithmSHA512, Sig SHA512WithRSA)]),
      (OID_String SignatureAlgorithmECDSA,
       [(OID_String DigestAlgorithmSHA1, Sig ECDSAWithSHA1), (OID_String DigestAlgorithmSHA256, Sig ECDSAWithSHA256),
        (OID_String DigestAlgorithmSHA384, Sig ECDSAWithSHA384), (OID_String DigestAlgorithmSHA512, Sig ECDSAWithSHA512)])]"

definition SignatureAlgorithmByOID :: "string \<Rightarrow> (string, SignatureAlgorithmInfo) result" where
  "SignatureAlgorithmByOID oid =
     (case LookupByOID oid of Some (Val (SigInfo s)) \<Rightarrow> Ok s | _ \<Rightarrow> Err (''algorithm not found: '' @ oid))"

definition SignatureAlgorithmByName :: "string \<Rightarrow> (string, SignatureAlgorithmInfo) result" where
  "SignatureAlgorithmByName name =
     (case LookupByName name of Some (Val (SigInfo s)) \<Rightarrow> Ok s | _ \<Rightarrow> Err (''algorithm not found: '' @ name))"

text \<open>A key that is a signer is given by its public part, \<open>None\<close> is one that is no signer.\<close>

definition SignatureAlgorithmByKey :: "pubkey option \<Rightarrow> (string, PublicKeyAlgorithmInfo) result" where
  "SignatureAlgorithmByKey key =
     (case key of
        None \<Rightarrow> Err ''not supported: crypto.Signer''
      | Some (RSAKey _ _) \<Rightarrow> Ok RSA_info
      | Some (ECDSAKey _ _) \<Rightarrow> Ok ECDSA_info
      | Some (OtherKey _) \<Rightarrow> Err ''not supported crypto.Signer type'')"

definition SignatureAlgorithmByKeyAndHash :: "pubkey option \<Rightarrow> crypto_hash \<Rightarrow> (string, SignatureAlgorithmInfo) result" where
  "SignatureAlgorithmByKeyAndHash key h =
     (case key of
        None \<Rightarrow> Err ''not supported crypto.Signer''
      | Some (RSAKey _ _) \<Rightarrow>
          (case h of
             HSHA1 \<Rightarrow> Ok RSAWithSHA1_info | HSHA256 \<Rightarrow> Ok RSAWithSHA256_info | HSHA384 \<Rightarrow> Ok RSAWithSHA384_info
           | HSHA512 \<Rightarrow> Ok RSAWithSHA512_info | _ \<Rightarrow> Err ''not supported RSA'')
      | Some (ECDSAKey _ _) \<Rightarrow>
          (case h of
             HSHA1 \<Rightarrow> Ok ECDSAWithSHA1_info | HSHA256 \<Rightarrow> Ok ECDSAWithSHA256_info | HSHA384 \<Rightarrow> Ok ECDSAWithSHA384_info
           | HSHA512 \<Rightarrow> Ok ECDSAWithSHA512_info | _ \<Rightarrow> Err ''not supported ECDSA'')
      | Some (OtherKey _) \<Rightarrow> Err ''not supported crypto.Signer type'')"

definition SignatureAlgorithmByX509 :: "sigalgo \<Rightarrow> (string, SignatureAlgorithmInfo) result" where
  "SignatureAlgorithmByX509 sig =
     (case sig of
        SHA1WithRSA \<Rightarrow> Ok RSAWithSHA1_info | SHA256WithRSA \<Rightarrow> Ok RSAWithSHA256_info | SHA384WithRSA \<Rightarrow> Ok RSAWithSHA384_info
      | SHA512WithRSA \<Rightarrow> Ok RSAWithSHA512_info | ECDSAWithSHA1 \<Rightarrow> Ok ECDSAWithSHA1_info
      | ECDSAWithSHA256 \<Rightarrow> Ok ECDSAWithSHA256_info | ECDSAWithSHA384 \<Rightarrow> Ok ECDSAWithSHA384_info
      | ECDSAWithSHA512 \<Rightarrow> Ok ECDSAWithSHA512_info | UnknownSignatureAlgorithm \<Rightarrow> Panic)"

end
