(* ===== verification/OidFacts.thy ===== *)
theory OidFacts
  imports Oids CertFacts
begin

text \<open>
  Facts about the registry of algorithms: its tables agree with each other, with the texts of the identifiers
  and with the choice of a signature algorithm for a key.
\<close>

section \<open>Evaluation\<close>

text \<open>Decimal texts of the arcs that occur.\<close>

lemma digit_chars: "char_of (48 :: nat) = CHR ''0''" "char_of (49 :: nat) = CHR ''1''" "char_of (50 :: nat) = CHR ''2''"
  "char_of (51 :: nat) = CHR ''3''" "char_of (52 :: nat) = CHR ''4''" "char_of (53 :: nat) = CHR ''5''" "char_of (54 :: nat) = CHR ''6''"
  "char_of (55 :: nat) = CHR ''7''" "char_of (56 :: nat) = CHR ''8''" "char_of (57 :: nat) = CHR ''9''"
  by code_simp+

lemma itoa_texts:
  "itoa 1 = ''1''"
  "itoa 2 = ''2''"
  "itoa 3 = ''3''"
  "itoa 4 = ''4''"
  "itoa 5 = ''5''"
  "itoa 7 = ''7''"
  "itoa 8 = ''8''"
  "itoa 9 = ''9''"
  "itoa 10 = ''10''"
  "itoa 11 = ''11''"
  "itoa 12 = ''12''"
  "itoa 13 = ''13''"
  "itoa 14 = ''14''"
  "itoa 16 = ''16''"
  "itoa 26 = ''26''"
  "itoa 101 = ''101''"
  "itoa 840 = ''840''"
  "itoa 10045 = ''10045''"
  "itoa 113549 = ''113549''"
  by (simp_all add: itoa_def show_nat.simps digit_chars)

lemmas info_defs = SHA1_info_def SHA256_info_def SHA384_info_def SHA512_info_def SHA3x224_info_def
  SHA3x256_info_def SHA3x384_info_def SHA3x512_info_def SHAKE128_info_def SHAKE256_info_def
  RSA_info_def ECDSA_info_def RSAWithSHA1_info_def RSAWithSHA256_info_def RSAWithSHA384_info_def
  RSAWithSHA512_info_def ECDSAWithSHA1_info_def ECDSAWithSHA256_info_def ECDSAWithSHA384_info_def ECDSAWithSHA512_info_def
  SignatureAlgorithmRSA_def SignatureAlgorithmECDSA_def DigestAlgorithmSHA1_def DigestAlgorithmMD5_def DigestAlgorithmSHA256_def
  DigestAlgorithmSHA384_def DigestAlgorithmSHA512_def DigestAlgorithmSHA3x224_def

lemma NewObjectIdentifier_dotted:
  assumes "oid \<noteq> []" and "\<And>i. i \<in> set oid \<Longrightarrow> 0 \<le> i \<and> i < 2 ^ 63"
  shows "NewObjectIdentifier (OID_String oid) = Ok oid"
proof -
  have "parse_segments (split_on CHR ''.'' (OID_String oid)) = Some oid"
    using assms by (simp add: split_OID_String parse_segments_itoa)
  moreover obtain i js where oid: "oid = i # js" using assms(1) by (cases oid) auto
  moreover obtain c cs where c: "itoa i = c # cs" "is_digit c"
  proof -
    have "show_nat (nat i) \<noteq> []" by simp
    then obtain c cs where "show_nat (nat i) = c # cs" by (cases "show_nat (nat i)") auto
    moreover have "is_digit c" using show_nat_digits [of c "nat i"] calculation by simp
    ultimately show ?thesis using that assms(2) [of i] oid by (simp add: itoa_nonneg)
  qed
  moreover have "\<exists>r. OID_String oid = c # r"
    using c(1) oid by (cases js) (auto simp: OID_String_def)
  moreover have "c \<noteq> CHR 0x7B"
    using c(2) by (auto simp: is_digit_def digit_of_def)
  ultimately show ?thesis
    by (auto simp: NewObjectIdentifier_def)
qed

lemma info_names:
  "hName SHA1_info = ''SHA1''"
  "hName SHA256_info = ''SHA256''"
  "hName SHA384_info = ''SHA384''"
  "hName SHA512_info = ''SHA512''"
  "hName SHA3x224_info = ''SHA3-224''"
  "hName SHA3x256_info = ''SHA3-256''"
  "hName SHA3x384_info = ''SHA3-384''"
  "hName SHA3x512_info = ''SHA3-512''"
  "hName SHAKE128_info = ''SHAKE128''"
  "hName SHAKE256_info = ''SHAKE256''"
  "pName RSA_info = ''RSA''"
  "pName ECDSA_info = ''ECDSA''"
  "sName RSAWithSHA1_info = ''RSA-SHA1''"
  "sName RSAWithSHA256_info = ''RSA-SHA256''"
  "sName RSAWithSHA384_info = ''RSA-SHA384''"
  "sName RSAWithSHA512_info = ''RSA-SHA512''"
  "sName ECDSAWithSHA1_info = ''ECDSA-SHA1''"
  "sName ECDSAWithSHA256_info = ''ECDSA-SHA256''"
  "sName ECDSAWithSHA384_info = ''ECDSA-SHA384''"
  "sName ECDSAWithSHA512_info = ''ECDSA-SHA512''"
  by (simp_all add: info_defs)

lemma oid_texts:
  "OID_String SignatureAlgorithmRSA = ''1.2.840.113549.1.1.1''"
  "OID_String SignatureAlgorithmECDSA = ''1.2.840.10045.2.1''"
  "OID_String DigestAlgorithmSHA1 = ''1.3.14.3.2.26''"
  "OID_String DigestAlgorithmSHA256 = ''2.16.840.1.101.3.4.2.1''"
  "OID_String DigestAlgorithmSHA384 = ''2.16.840.1.101.3.4.2.2''"
  "OID_String DigestAlgorithmSHA512 = ''2.16.840.1.101.3.4.2.3''"
  "OID_String DigestAlgorithmSHA3x224 = ''2.16.840.1.101.3.4.2.7''"
  "OID_String DigestAlgorithmMD5 = ''1.2.840.113549.2.5''"
  by (simp_all add: OID_String_def itoa_texts info_defs)

lemma info_texts:
  "info_String (HashInfo SHA1_info) = ''1.3.14.3.2.26''"
  "info_String (HashInfo SHA256_info) = ''2.16.840.1.101.3.4.2.1''"
  "info_String (HashInfo SHA384_info) = ''2.16.840.1.101.3.4.2.2''"
  "info_String (HashInfo SHA512_info) = ''2.16.840.1.101.3.4.2.3''"
  "info_String (HashInfo SHA3x224_info) = ''2.16.840.1.101.3.4.2.7''"
  "info_String (HashInfo SHA3x256_info) = ''2.16.840.1.101.3.4.2.8''"
  "info_String (HashInfo SHA3x384_info) = ''2.16.840.1.101.3.4.2.9''"
  "info_String (HashInfo SHA3x512_info) = ''2.16.840.1.101.3.4.2.10''"
  "info_String (HashInfo SHAKE128_info) = ''2.16.840.1.101.3.4.2.11''"
  "info_String (HashInfo SHAKE256_info) = ''2.16.840.1.101.3.4.2.12''"
  "info_String (PubKeyInfo RSA_info) = ''1.2.840.113549.1.1.1''"
  "info_String (PubKeyInfo ECDSA_info) = ''1.2.840.10045.2.1''"
  "info_String (SigInfo RSAWithSHA1_info) = ''1.2.840.113549.1.1.5''"
  "info_String (SigInfo RSAWithSHA256_info) = ''1.2.840.113549.1.1.11''"
  "info_String (SigInfo RSAWithSHA384_info) = ''1.2.840.113549.1.1.12''"
  "info_String (SigInfo RSAWithSHA512_info) = ''1.2.840.113549.1.1.13''"
  "info_String (SigInfo ECDSAWithSHA1_info) = ''1.2.840.10045.4.1''"
  "info_String (SigInfo ECDSAWithSHA256_info) = ''1.2.840.10045.4.3.2''"
  "info_String (SigInfo ECDSAWithSHA384_info) = ''1.2.840.10045.4.3.3''"
  "info_String (SigInfo ECDSAWithSHA512_info) = ''1.2.840.10045.4.3.4''"
  by (simp_all add: stored_or_def OID_String_def itoa_texts info_defs)

section \<open>The registry\<close>

fun entry_info :: "entry \<Rightarrow> info" where
  "entry_info (Val i) = i"
| "entry_info (Ptr i) = i"

lemma registry_texts: "list_all (\<lambda>(k, e). info_String (entry_info e) = k) OIDStrToInfo"
  by (simp add: OIDStrToInfo_def info_texts del: info_String.simps)

lemma registry_names: "list_all (\<lambda>(k, e). LookupByName (info_Name (entry_info e)) = Some e) OIDStrToInfo"
  by (simp add: OIDStrToInfo_def LookupByName_def AlgNameToInfo_def info_names)

lemma registry_arcs:
  "list_all (\<lambda>(k, e). info_OID (entry_info e) \<noteq> [] \<and> list_all (\<lambda>i. 0 \<le> i \<and> i < 2 ^ 63) (info_OID (entry_info e)) \<and>
     k = OID_String (info_OID (entry_info e))) OIDStrToInfo"
  by (simp add: OIDStrToInfo_def OID_String_def itoa_texts) (simp add: info_defs itoa_texts)

lemma registry_distinct: "distinct (map fst OIDStrToInfo)" "distinct (map fst AlgNameToInfo)"
  by (simp_all add: OIDStrToInfo_def AlgNameToInfo_def)

lemma names_in_registry:
  "list_all (\<lambda>(n, e). LookupByOID (info_String (entry_info e)) = Some e) AlgNameToInfo"
  by (simp add: LookupByOID_def AlgNameToInfo_def OIDStrToInfo_def info_texts del: info_String.simps)

lemma names_are_values: "list_all (\<lambda>(n, e). \<exists>i. e = Val i) AlgNameToInfo"
  by (simp add: AlgNameToInfo_def)

text \<open>C27. The registry of algorithms is well formed: its keys are distinct, every entry is registered under the
  text of its own identifier, which parses back to that identifier, and under its own name; and every
  name leads to an entry that its identifier finds too.\<close>

theorem registry_well_formed:
  "distinct (map fst OIDStrToInfo) \<and> distinct (map fst AlgNameToInfo) \<and>
   (LookupByOID oid = Some e \<longrightarrow>
      info_String (entry_info e) = oid \<and> NewObjectIdentifier oid = Ok (info_OID (entry_info e)) \<and>
      LookupByName (info_Name (entry_info e)) = Some e) \<and>
   (LookupByName name = Some e' \<longrightarrow> LookupByOID (info_String (entry_info e')) = Some e')"
proof -
  have "info_String (entry_info e) = oid \<and> NewObjectIdentifier oid = Ok (info_OID (entry_info e)) \<and>
      LookupByName (info_Name (entry_info e)) = Some e" if "LookupByOID oid = Some e"
  proof -
    from that have "(oid, e) \<in> set OIDStrToInfo"
      by (auto simp: LookupByOID_def split: if_splits dest: map_of_SomeD)
    then have e: "info_String (entry_info e) = oid" "LookupByName (info_Name (entry_info e)) = Some e"
      "info_OID (entry_info e) \<noteq> []" "\<And>i. i \<in> set (info_OID (entry_info e)) \<Longrightarrow> 0 \<le> i \<and> i < 2 ^ 63"
      "oid = OID_String (info_OID (entry_info e))"
      using registry_texts registry_names registry_arcs by (force simp: list_all_iff)+
    then show ?thesis
      using NewObjectIdentifier_dotted [OF e(3,4)] by simp
  qed
  moreover have "LookupByOID (info_String (entry_info e')) = Some e'" if "LookupByName name = Some e'"
  proof -
    from that have "(name, e') \<in> set AlgNameToInfo"
      by (auto simp: LookupByName_def split: if_splits dest: map_of_SomeD)
    with names_in_registry show ?thesis by (auto simp: list_all_iff)
  qed
  ultimately show ?thesis
    using registry_distinct by blast
qed

theorem registry_well_formed_witness:
  "LookupByOID ''1.2.840.113549.1.1.11'' = Some (Val (SigInfo RSAWithSHA256_info)) \<and>
   LookupByName (info_Name (SigInfo RSAWithSHA256_info)) = Some (Val (SigInfo RSAWithSHA256_info))"
proof -
  have "LookupByOID ''1.2.840.113549.1.1.11'' = Some (Val (SigInfo RSAWithSHA256_info))"
    by (simp add: LookupByOID_def OIDStrToInfo_def)
  then show ?thesis
    using registry_well_formed [of "''1.2.840.113549.1.1.11''" "Val (SigInfo RSAWithSHA256_info)"] by simp
qed

section \<open>Signature algorithms\<close>

fun key_kind :: "pubkey \<Rightarrow> PublicKeyAlgorithmInfo option" where
  "key_kind (RSAKey _ _) = Some RSA_info"
| "key_kind (ECDSAKey _ _) = Some ECDSA_info"
| "key_kind (OtherKey _) = None"

text \<open>All tables agree on one signature algorithm.\<close>

definition tables_agree :: "sigalgo \<Rightarrow> SignatureAlgorithmInfo \<Rightarrow> bool" where
  "tables_agree sig s \<longleftrightarrow>
     SignatureAlgorithmByX509 sig = Ok s \<and> sX509 s = sig \<and>
     SignatureAlgorithmByOID (info_String (SigInfo s)) = Ok s \<and> SignatureAlgorithmByName (sName s) = Ok s \<and>
     mget SignatureAlgorithmToDigestAlgorithm (Sig sig) = Some (hOID (sHashAlgorithm s)) \<and>
     mget SignatureAlgorithmToSignatureAlgorithm (Sig sig) = Some (pOID (sPublicKeyAlgorithm s)) \<and>
     mget PublicKeyAlgorithmToSignatureAlgorithm (publey (sPublicKeyAlgorithm s)) = Some (pOID (sPublicKeyAlgorithm s)) \<and>
     mget HashToDigestAlgorithm (sig_HashFunc s) = Some (hOID (sHashAlgorithm s)) \<and>
     mget DigestAlgorithmToHash (OID_String (hOID (sHashAlgorithm s))) = Some (sig_HashFunc s) \<and>
     (case mget SignatureAlgorithms (OID_String (pOID (sPublicKeyAlgorithm s))) of
        None \<Rightarrow> False | Some m \<Rightarrow> mget m (OID_String (hOID (sHashAlgorithm s))) = Some (Sig sig)) \<and>
     HashAlgorithmByCrypto (sig_HashFunc s) = Ok (sHashAlgorithm s)"

lemma sig_parts:
  "sPublicKeyAlgorithm RSAWithSHA1_info = RSA_info" "sHashAlgorithm RSAWithSHA1_info = SHA1_info" "sX509 RSAWithSHA1_info = SHA1WithRSA"
  "sPublicKeyAlgorithm RSAWithSHA256_info = RSA_info" "sHashAlgorithm RSAWithSHA256_info = SHA256_info" "sX509 RSAWithSHA256_info = SHA256WithRSA"
  "sPublicKeyAlgorithm RSAWithSHA384_info = RSA_info" "sHashAlgorithm RSAWithSHA384_info = SHA384_info" "sX509 RSAWithSHA384_info = SHA384WithRSA"
  "sPublicKeyAlgorithm RSAWithSHA512_info = RSA_info" "sHashAlgorithm RSAWithSHA512_info = SHA512_info" "sX509 RSAWithSHA512_info = SHA512WithRSA"
  "sPublicKeyAlgorithm ECDSAWithSHA1_info = ECDSA_info" "sHashAlgorithm ECDSAWithSHA1_info = SHA1_info" "sX509 ECDSAWithSHA1_info = ECDSAWithSHA1"
  "sPublicKeyAlgorithm ECDSAWithSHA256_info = ECDSA_info" "sHashAlgorithm ECDSAWithSHA256_info = SHA256_info" "sX509 ECDSAWithSHA256_info = ECDSAWithSHA256"
  "sPublicKeyAlgorithm ECDSAWithSHA384_info = ECDSA_info" "sHashAlgorithm ECDSAWithSHA384_info = SHA384_info" "sX509 ECDSAWithSHA384_info = ECDSAWithSHA384"
  "sPublicKeyAlgorithm ECDSAWithSHA512_info = ECDSA_info" "sHashAlgorithm ECDSAWithSHA512_info = SHA512_info" "sX509 ECDSAWithSHA512_info = ECDSAWithSHA512"
  "hHash SHA1_info = HSHA1" "hHash SHA256_info = HSHA256" "hHash SHA384_info = HSHA384" "hHash SHA512_info = HSHA512"
  "hOID SHA1_info = DigestAlgorithmSHA1" "hOID SHA256_info = DigestAlgorithmSHA256" "hOID SHA384_info = DigestAlgorithmSHA384"
  "hOID SHA512_info = DigestAlgorithmSHA512" "pOID RSA_info = SignatureAlgorithmRSA" "pOID ECDSA_info = SignatureAlgorithmECDSA"
  "publey RSA_info = AlgoRSA" "publey ECDSA_info = AlgoECDSA" "sig_HashFunc s = hHash (sHashAlgorithm s)"
  by (simp_all add: info_defs sig_HashFunc_def hash_HashFunc_def)

lemma tables_agree_all:
  "tables_agree SHA1WithRSA RSAWithSHA1_info" "tables_agree SHA256WithRSA RSAWithSHA256_info"
  "tables_agree SHA384WithRSA RSAWithSHA384_info" "tables_agree SHA512WithRSA RSAWithSHA512_info"
  "tables_agree ECDSAWithSHA1 ECDSAWithSHA1_info" "tables_agree ECDSAWithSHA256 ECDSAWithSHA256_info"
  "tables_agree ECDSAWithSHA384 ECDSAWithSHA384_info" "tables_agree ECDSAWithSHA512 ECDSAWithSHA512_info"
  by (simp_all add: tables_agree_def SignatureAlgorithmByX509_def SignatureAlgorithmByOID_def SignatureAlgorithmByName_def
      LookupByOID_def LookupByName_def OIDStrToInfo_def AlgNameToInfo_def info_texts info_names sig_parts
      SignatureAlgorithmToDigestAlgorithm_def SignatureAlgorithmToSignatureAlgorithm_def SignatureAlgorithms_def oid_texts
      HashAlgorithmByCrypto_def PublicKeyAlgorithmToSignatureAlgorithm_def HashToDigestAlgorithm_def DigestAlgorithmToHash_def del: info_String.simps)

text \<open>The tables of signature algorithms agree: for every algorithm of \<open>crypto/x509\<close> but the unknown one there is
  one description, found by that algorithm, by its identifier, by its name and by a key of its kind with its
  hash; the maps from algorithms to digest and key identifiers and back give its parts. In particular the
  algorithm chosen for an RSA or ECDSA key by \<open>DefaultSigAlgo\<close> has a description for keys of that kind.\<close>

theorem signature_tables_agree:
  "(sig \<noteq> UnknownSignatureAlgorithm \<longrightarrow>
     (\<exists>s. tables_agree sig s \<and>
        (\<forall>key. key_kind key = Some (sPublicKeyAlgorithm s) \<longrightarrow>
           SignatureAlgorithmByKeyAndHash (Some key) (sig_HashFunc s) = Ok s))) \<and>
   (key_kind pub \<noteq> None \<longrightarrow>
     (\<exists>s. SignatureAlgorithmByX509 (DefaultSigAlgo pub) = Ok s \<and> key_kind pub = Some (sPublicKeyAlgorithm s)))"
proof -
  have kinds: "key_kind key = Some RSA_info \<longleftrightarrow> (\<exists>b n. key = RSAKey b n)" "key_kind key = Some ECDSA_info \<longleftrightarrow> (\<exists>c n. key = ECDSAKey c n)" for key
    by (cases key; simp add: RSA_info_def ECDSA_info_def)+
  have "\<exists>s. tables_agree sig s \<and> (\<forall>key. key_kind key = Some (sPublicKeyAlgorithm s) \<longrightarrow>
      SignatureAlgorithmByKeyAndHash (Some key) (sig_HashFunc s) = Ok s)" if "sig \<noteq> UnknownSignatureAlgorithm"
    using that tables_agree_all
    by (cases sig) (auto intro!: exI simp: kinds sig_parts SignatureAlgorithmByKeyAndHash_def)
  moreover have "\<exists>s. SignatureAlgorithmByX509 (DefaultSigAlgo pub) = Ok s \<and> key_kind pub = Some (sPublicKeyAlgorithm s)"
    if "key_kind pub \<noteq> None"
    using that by (cases pub) (auto simp: DefaultSigAlgo_def SignatureAlgorithmByX509_def sig_parts)
  ultimately show ?thesis by blast
qed

theorem signature_tables_agree_witness:
  "(\<exists>s. tables_agree ECDSAWithSHA384 s) \<and>
   (\<exists>s. SignatureAlgorithmByX509 (DefaultSigAlgo (RSAKey 2048 1)) = Ok s \<and> Some RSA_info = Some (sPublicKeyAlgorithm s))"
  using signature_tables_agree [of ECDSAWithSHA384 "RSAKey 2048 1"] by auto

text \<open>The lookups that assert a pointer type find nothing.\<close>

lemma by_name_never_finds:
  "HashAlgorithmByName name = Err (''algorithm not found: '' @ name)"
  "PublicKeyAlgorithmByName name = Err (''algorithm not found: '' @ name)"
proof -
  have "LookupByName name = None \<or> (\<exists>i. LookupByName name = Some (Val i))"
  proof (cases "LookupByName name")
    case (Some e)
    then have "(name, e) \<in> set AlgNameToInfo"
      by (auto simp: LookupByName_def split: if_splits dest: map_of_SomeD)
    with names_are_values Some show ?thesis by (auto simp: list_all_iff)
  qed simp
  then show "HashAlgorithmByName name = Err (''algorithm not found: '' @ name)"
    "PublicKeyAlgorithmByName name = Err (''algorithm not found: '' @ name)"
    by (auto simp: HashAlgorithmByName_def PublicKeyAlgorithmByName_def)
qed

text \<open>In the ASN.1 notation a bare number loses its last digit: registrations parse to another identifier, or not at all.\<close>

lemma registration_misparsed:
  "NewObjectIdentifier (hRegistration SHA1_info) = Ok [1, 3, 14, 3, 2, 2]" "hOID SHA1_info = [1, 3, 14, 3, 2, 26]"
  "NewObjectIdentifier (hRegistration SHA256_info) = Err ''invalid syntax''"
  "NewObjectIdentifier ''{'' = Panic" "NewObjectIdentifier ''{a(1)  b(2)}'' = Panic"
  by code_simp+

end
