(* ===== verification/Armor.thy ===== *)
theory Armor
  imports GoStrings
begin

unbundle bit_operations_syntax

text \<open>
  The package xpki/armor: reading OpenPGP ASCII armor. The input is a string of bytes, the decoded content a list of
  bytes as words. \<open>base64.StdEncoding.Decode\<close> is modelled for inputs without line breaks, which are removed before.
  Debug lines are left out.
\<close>

section \<open>The standard library\<close>

text \<open>\<open>bytes.Index\<close>.\<close>

fun index_sub :: "string \<Rightarrow> string \<Rightarrow> nat option" where
  "index_sub [] sub = (if sub = [] then Some 0 else None)"
| "index_sub (x # xs) sub = (if prefix sub (x # xs) then Some 0 else map_option Suc (index_sub xs sub))"

text \<open>\<open>bytes.TrimRight(s, " \t")\<close>.\<close>

definition is_blank :: "char \<Rightarrow> bool" where
  "is_blank c \<longleftrightarrow> c = CHR '' '' \<or> c = CHR 0x09"

definition trim_right_blank :: "string \<Rightarrow> string" where
  "trim_right_blank s = rev (dropWhile is_blank (rev s))"

definition b64_value :: "char \<Rightarrow> nat option" where
  "b64_value c =
     (let n = (of_char c :: nat)
      in if 65 \<le> n \<and> n \<le> 90 then Some (n - 65)
         else if 97 \<le> n \<and> n \<le> 122 then Some (n - 71)
         else if 48 \<le> n \<and> n \<le> 57 then Some (n + 4)
         else if n = 43 then Some 62 else if n = 47 then Some 63 else None)"

type_synonym bytes = "8 word list"

text \<open>Groups of four characters; the last may be padded.\<close>

fun b64_decode :: "string \<Rightarrow> bytes option" where
  "b64_decode [] = Some []"
| "b64_decode (c0 # c1 # c2 # c3 # cs) =
     (case (b64_value c0, b64_value c1) of
        (Some v0, Some v1) \<Rightarrow>
          if c2 = CHR ''='' then
            (if c3 = CHR ''='' \<and> cs = [] then Some [of_nat (v0 * 4 + v1 div 16)] else None)
          else (case b64_value c2 of
                  None \<Rightarrow> None
                | Some v2 \<Rightarrow>
                    if c3 = CHR ''='' then
                      (if cs = [] then Some [of_nat (v0 * 4 + v1 div 16), of_nat (v1 mod 16 * 16 + v2 div 4)] else None)
                    else (case b64_value c3 of
                            None \<Rightarrow> None
                          | Some v3 \<Rightarrow>
                              map_option (\<lambda>bs. of_nat (v0 * 4 + v1 div 16) # of_nat (v1 mod 16 * 16 + v2 div 4) #
                                of_nat (v2 mod 4 * 64 + v3) # bs) (b64_decode cs)))
      | _ \<Rightarrow> None)"
| "b64_decode _ = None"

section \<open>armor.go\<close>

record Block =
  bType :: string
  bHeaders :: "(string, string) gomap"
  bBytes :: bytes
  bCRC :: uint32

definition getLine :: "string \<Rightarrow> string \<times> string" where
  "getLine data =
     (let i = length (takeWhile (\<lambda>c. c \<noteq> CHR 0x0A) data)
      in if i = length data then (trim_right_blank data, [])
         else (let i' = (if i > 0 \<and> data ! (i - 1) = CHR 0x0D then i - 1 else i)
               in (trim_right_blank (take i' data), drop (i + 1) data)))"

definition is_layout :: "char \<Rightarrow> bool" where
  "is_layout b \<longleftrightarrow> b = CHR '' '' \<or> b = CHR 0x09 \<or> b = CHR 0x0D \<or> b = CHR 0x0A"

definition removeWhitespace :: "string \<Rightarrow> string" where
  "removeWhitespace data = filter (\<lambda>b. \<not> is_layout b) data"

definition pemStart :: string where "pemStart = CHR 0x0A # ''-----BEGIN ''"
definition pemEnd :: string where "pemEnd = CHR 0x0A # ''-----END ''"
definition pemEndOfLine :: string where "pemEndOfLine = ''-----''"

definition crc24Init :: uint32 where "crc24Init = 0xb704ce"
definition crc24Poly :: uint32 where "crc24Poly = 0x1864cfb"
definition crc24Mask :: uint32 where "crc24Mask = 0xffffff"

definition crc24_bit :: "uint32 \<Rightarrow> uint32" where
  "crc24_bit crc =
     (let crc' = push_bit 1 crc in if crc' AND 0x1000000 \<noteq> 0 then crc' XOR crc24Poly else crc')"

fun crc24 :: "uint32 \<Rightarrow> bytes \<Rightarrow> uint32" where
  "crc24 crc [] = crc"
| "crc24 crc (b # d) = crc24 ((crc24_bit ^^ 8) (crc XOR push_bit 16 (ucast b))) d"

text \<open>The text after the first line start that opens a block.\<close>

definition after_start :: "string \<Rightarrow> string option" where
  "after_start data =
     (if has_prefix data (tl pemStart) then Some (drop (length pemStart - 1) data)
      else map_option (\<lambda>i. drop (i + length pemStart) data) (index_sub data pemStart))"

text \<open>The header lines; \<open>None\<close> where the input ends.\<close>

lemma getLine_shorter: "data \<noteq> [] \<Longrightarrow> length (snd (getLine data)) < length data"
  by (auto simp: getLine_def Let_def)

function header_loop :: "string \<Rightarrow> (string, string) gomap \<Rightarrow> ((string, string) gomap \<times> string) option" where
  "header_loop rest hs =
     (if rest = [] then None
      else let line = fst (getLine rest); i = length (takeWhile (\<lambda>c. c \<noteq> CHR '':'') line)
           in if i = length line then Some (hs, rest)
              else header_loop (snd (getLine rest)) (mput (trim_space (take i line)) (trim_space (drop (i + 1) line)) hs))"
  by pat_completeness auto
termination
  by (relation "measure (\<lambda>(rest, hs). length rest)") (auto simp: getLine_shorter)

declare header_loop.simps [simp del]

text \<open>Where the closing line starts in the rest of a block and where the text after its opening starts.\<close>

definition end_indices :: "(string, string) gomap \<Rightarrow> string \<Rightarrow> (nat \<times> nat) option" where
  "end_indices hs rest =
     (if hs = [] \<and> has_prefix rest (tl pemEnd) then Some (0, length pemEnd - 1)
      else map_option (\<lambda>i. (i, i + length pemEnd)) (index_sub rest pemEnd))"

text \<open>The closing line: the same type, five dashes and nothing but white space.\<close>

definition closes :: "string \<Rightarrow> string \<Rightarrow> bool" where
  "closes typeLine endTrailer \<longleftrightarrow>
     (let n = length typeLine + length pemEndOfLine
      in n \<le> length endTrailer \<and> has_prefix (take n endTrailer) typeLine \<and> has_suffix (take n endTrailer) pemEndOfLine \<and>
         fst (getLine (drop n endTrailer)) = [])"

text \<open>Content and checksum of a block.\<close>

definition contents :: "string \<Rightarrow> (bytes \<times> uint32) option" where
  "contents body =
     (let base64Block = removeWhitespace body; blockLen = length base64Block
      in if blockLen < 5 \<or> base64Block ! (blockLen - 5) \<noteq> CHR ''='' then None
         else (case b64_decode (drop (blockLen - 4) base64Block) of
                 Some [e0, e1, e2] \<Rightarrow>
                   (let csum = push_bit 16 (ucast e0) OR push_bit 8 (ucast e1) OR ucast e2
                    in case b64_decode (removeWhitespace (take (blockLen - 5) base64Block)) of
                         None \<Rightarrow> None
                       | Some bs \<Rightarrow> if csum \<noteq> (crc24 crc24Init bs AND crc24Mask) then None else Some (bs, csum))
               | _ \<Rightarrow> None))"

text \<open>One attempt: no block starts, the headers reach the end of the input, the text from some position on has to be
  tried again, or there is a block.\<close>

datatype attempt = NoStart | EndOfInput | Retry string | Found Block string

definition attempt_at :: "string \<Rightarrow> attempt" where
  "attempt_at data =
     (case after_start data of
        None \<Rightarrow> NoStart
      | Some r \<Rightarrow>
          (let (typeLine, rest) = getLine r
           in if \<not> has_suffix typeLine pemEndOfLine then Retry rest
              else let typ = take (length typeLine - length pemEndOfLine) typeLine
                   in case header_loop rest [] of
                        None \<Rightarrow> EndOfInput
                      | Some (hs, rest) \<Rightarrow>
                          (case end_indices hs rest of
                             None \<Rightarrow> Retry rest
                           | Some (endIndex, endTrailerIndex) \<Rightarrow>
                               if \<not> closes typ (drop endTrailerIndex rest) then Retry rest
                               else (case contents (take endIndex rest) of
                                       None \<Rightarrow> Retry rest
                                     | Some (bs, csum) \<Rightarrow>
                                         Found \<lparr>bType = typ, bHeaders = hs, bBytes = bs, bCRC = csum\<rparr>
                                           (snd (getLine (drop (endIndex + length pemEnd - 1) rest)))))))"

text \<open>What is left is always a proper suffix of the input.\<close>

lemma getLine_suffix: "suffix (snd (getLine data)) data"
  by (auto simp: getLine_def Let_def suffix_drop)

lemma header_loop_suffix: "header_loop rest hs = Some (hs', rest') \<Longrightarrow> suffix rest' rest"
proof (induction rest hs rule: header_loop.induct)
  case (1 rest hs)
  then show ?case
    by (subst (asm) header_loop.simps)
      (auto simp: Let_def split: if_splits intro: suffix_order.trans [OF _ getLine_suffix])
qed

lemma index_sub_SomeD: "index_sub s sub = Some i \<Longrightarrow> prefix sub (drop i s)"
  by (induction s sub arbitrary: i rule: index_sub.induct) (auto split: if_splits)

lemma after_start_shorter: "after_start data = Some r \<Longrightarrow> length r < length data \<and> suffix r data"
proof -
  assume r: "after_start data = Some r"
  then obtain n where n: "r = drop n data" "n > 0"
    by (auto simp: after_start_def pemStart_def split: if_splits)
  moreover have "data \<noteq> []"
    using r by (auto simp: after_start_def has_prefix_def pemStart_def split: if_splits)
  ultimately show ?thesis by (simp add: suffix_drop)
qed

lemma attempt_at_shorter:
  "attempt_at data = Retry rest \<Longrightarrow> length rest < length data"
  "attempt_at data = Retry rest \<or> attempt_at data = Found b rest \<Longrightarrow> suffix rest data"
proof -
  have *: "length rest < length data \<and> suffix rest data"
    if found: "attempt_at data = Retry rest \<or> attempt_at data = Found b rest" for b
  proof -
    obtain r where r: "after_start data = Some r"
      using found by (cases "after_start data") (auto simp: attempt_at_def)
    have "suffix rest (snd (getLine r))"
      using found r header_loop_suffix
      by (auto simp: attempt_at_def Let_def split: option.splits if_splits prod.splits
          intro: suffix_order.trans [OF getLine_suffix suffix_order.trans [OF suffix_drop]])
    then have "suffix rest r" using getLine_suffix suffix_order.trans by blast
    with after_start_shorter [OF r] show ?thesis
      using suffix_length_le suffix_order.trans by fastforce
  qed
  show "attempt_at data = Retry rest \<Longrightarrow> length rest < length data" using * by blast
  show "attempt_at data = Retry rest \<or> attempt_at data = Found b rest \<Longrightarrow> suffix rest data" using * by blast
qed

text \<open>\<open>decodeError\<close> starts over and gives the whole input back where that fails.\<close>

function Decode :: "string \<Rightarrow> Block option \<times> string" where
  "Decode data =
     (case attempt_at data of
        Found b rest \<Rightarrow> (Some b, rest)
      | Retry rest \<Rightarrow> (case Decode rest of (None, _) \<Rightarrow> (None, data) | (Some b, r) \<Rightarrow> (Some b, r))
      | _ \<Rightarrow> (None, data))"
  by pat_completeness auto
termination
  by (relation "measure length") (auto simp: attempt_at_shorter)

declare Decode.simps [simp del]

end
