(* ===== verification/ArmorFacts.thy ===== *)
theory ArmorFacts
  imports Armor
begin

text \<open>
  Facts about ASCII armor: the checksum finds every change within three consecutive bytes, what \<open>Decode\<close> accepts
  has the checksum it carries, and a block written in the format of RFC 4880 is read back.
\<close>

section \<open>The checksum\<close>

text \<open>One step of the division is linear, keeps 24 bits and loses none of them.\<close>

lemma bit_double_word: "bit (c * 2 :: uint32) n \<longleftrightarrow> n < 32 \<and> n \<noteq> 0 \<and> bit c (n - 1)"
  using bit_double_iff [of c n] by (auto simp: mult.commute)

lemma bit_not_too_long: "bit (c :: uint32) n \<Longrightarrow> n < 32"
  using bit_imp_le_length [of c n] by simp

lemma crc24_bit_alt: "crc24_bit c = c * 2 XOR (if bit c 23 then crc24Poly else 0)"
proof -
  have "c * 2 AND 0x1000000 \<noteq> 0 \<longleftrightarrow> bit (c * 2) 24"
  proof -
    have "c * 2 AND 0x1000000 = c * 2 AND push_bit 24 1" by simp
    also have "\<dots> = push_bit 24 (of_bool (bit (c * 2) 24))"
      by (rule bit_eqI) (auto simp: bit_and_iff bit_push_bit_iff bit_1_iff bit_of_bool_iff simp del: push_bit_of_1)
    finally show ?thesis by simp
  qed
  then show ?thesis
    by (simp add: crc24_bit_def Let_def bit_double_word)
qed

lemma crc24_bit_xor: "crc24_bit (a XOR b) = crc24_bit a XOR crc24_bit b"
  by (rule bit_eqI) (auto simp: crc24_bit_alt bit_xor_iff bit_double_word)

lemma crc24_bits_xor: "(crc24_bit ^^ n) (a XOR b) = (crc24_bit ^^ n) a XOR (crc24_bit ^^ n) b"
  by (induction n) (simp_all add: crc24_bit_xor)

text \<open>Words of 24 bits.\<close>

definition bits24 :: "uint32 \<Rightarrow> bool" where
  "bits24 c \<longleftrightarrow> take_bit 24 c = c"

lemma bits24_iff: "bits24 c \<longleftrightarrow> (\<forall>n \<ge> 24. \<not> bit c n)"
  unfolding bits24_def bit_eq_iff bit_take_bit_iff using bit_not_too_long [of c] by (auto simp: not_less) (meson leD not_le_imp_less)+

lemma bits24_xor: "bits24 a \<Longrightarrow> bits24 b \<Longrightarrow> bits24 (a XOR b)"
  by (simp add: bits24_iff bit_xor_iff)

lemma poly_bits: "bit crc24Poly 0" "bit crc24Poly 24" "n > 24 \<Longrightarrow> \<not> bit crc24Poly n"
proof -
  show "bit crc24Poly 0" "bit crc24Poly 24" by (simp_all add: crc24Poly_def)
  have "take_bit 25 crc24Poly = crc24Poly" by (simp add: crc24Poly_def)
  then show "n > 24 \<Longrightarrow> \<not> bit crc24Poly n"
    by (metis bit_take_bit_iff not_less_eq numeral_eq_Suc pred_numeral_simps(3) semiring_norm(26) eval_nat_numeral(3))
qed

lemma crc24_bit_bits24:
  assumes "bits24 c" shows "bits24 (crc24_bit c)"
  unfolding bits24_iff
proof (intro allI impI)
  fix n :: nat assume "24 \<le> n"
  show "\<not> bit (crc24_bit c) n"
  proof (cases "n = 24")
    case True
    then show ?thesis by (simp add: crc24_bit_alt bit_xor_iff bit_double_word poly_bits)
  next
    case False
    with \<open>24 \<le> n\<close> have "n > 24" "n - 1 \<ge> 24" by auto
    then show ?thesis
      using assms by (simp add: bits24_iff crc24_bit_alt bit_xor_iff bit_double_word poly_bits)
  qed
qed

lemma crc24_bits_bits24: "bits24 c \<Longrightarrow> bits24 ((crc24_bit ^^ n) c)"
  by (induction n) (simp_all add: crc24_bit_bits24)

lemma crc24_bit_zero:
  assumes "bits24 c" and "crc24_bit c = 0" shows "c = 0"
proof -
  have "\<not> bit c 23"
    using assms(2) poly_bits(1) by (auto simp: crc24_bit_alt bit_double_word bit_xor_iff dest!: arg_cong [where f = "\<lambda>w. bit w 0"])
  with assms(2) have double: "c * 2 = 0" by (simp add: crc24_bit_alt)
  show ?thesis
  proof (rule bit_eqI)
    fix n
    have "\<not> bit (c * 2) (Suc n)" by (simp add: double)
    then show "bit c n \<longleftrightarrow> bit 0 n"
      using assms(1) by (auto simp: bit_double_word bits24_iff)
  qed
qed

lemma crc24_bits_inj:
  assumes "bits24 a" "bits24 b" "(crc24_bit ^^ n) a = (crc24_bit ^^ n) b" shows "a = b"
proof -
  have zero: "bits24 c \<Longrightarrow> (crc24_bit ^^ n) c = 0 \<Longrightarrow> c = 0" for c
  proof (induction n)
    case (Suc n)
    then have "(crc24_bit ^^ n) c = 0"
      using crc24_bit_zero [OF crc24_bits_bits24] by simp
    with Suc show ?case by blast
  qed simp
  have "(crc24_bit ^^ n) (a XOR b) = 0" by (simp only: crc24_bits_xor assms(3) xor_self_eq)
  with bits24_xor [OF assms(1,2)] have "a XOR b = 0" by (rule zero)
  then have "(a XOR b) XOR b = b" by simp
  then show ?thesis by (simp add: xor.assoc)
qed

text \<open>Without carries the steps are shifts.\<close>

lemma crc24_bits_shift: "(\<And>k. k \<ge> 24 - n \<Longrightarrow> \<not> bit c k) \<Longrightarrow> (crc24_bit ^^ n) c = push_bit n c"
proof (induction n)
  case (Suc n)
  have "(crc24_bit ^^ n) c = push_bit n c" using Suc by simp
  moreover have "\<not> bit (push_bit n c) 23"
    using Suc.prems [of "23 - n"] by (auto simp: bit_push_bit_iff)
  moreover have "(crc24_bit ^^ Suc n) c = crc24_bit ((crc24_bit ^^ n) c)" by simp
  ultimately have "(crc24_bit ^^ Suc n) c = push_bit n c * 2" by (simp only: crc24_bit_alt) simp
  then show ?case by (simp add: push_bit_double)
qed simp

definition crc24_byte :: "uint32 \<Rightarrow> 8 word \<Rightarrow> uint32" where
  "crc24_byte crc b = (crc24_bit ^^ 8) (crc XOR push_bit 16 (ucast b))"

lemma crc24_Cons: "crc24 crc (b # d) = crc24 (crc24_byte crc b) d"
  by (simp only: crc24.simps crc24_byte_def)

lemma crc24_append: "crc24 crc (d @ e) = crc24 (crc24 crc d) e"
  by (induction d arbitrary: crc) (simp_all del: crc24.simps(2) add: crc24_Cons)

lemma armor_byte_bits: "bit (ucast (b :: 8 word) :: uint32) n \<longleftrightarrow> bit b n" "bit (b :: 8 word) n \<Longrightarrow> n < 8"
  using bit_imp_le_length [of b n] by (auto simp: bit_ucast_iff)

lemma bits24_byte: "n \<le> 16 \<Longrightarrow> bits24 (push_bit n (ucast (b :: 8 word)))"
  by (auto simp: bits24_iff bit_push_bit_iff armor_byte_bits(1) dest: armor_byte_bits(2))

lemma crc24_byte_bits24: "bits24 c \<Longrightarrow> bits24 (crc24_byte c b)"
  unfolding crc24_byte_def by (intro crc24_bits_bits24 bits24_xor bits24_byte) simp_all

lemma crc24_bits24: "bits24 c \<Longrightarrow> bits24 (crc24 c d)"
  by (induction d arbitrary: c) (simp_all add: crc24_Cons crc24_byte_bits24 del: crc24.simps(2))

lemma xor_right_cancel: "a XOR c = b XOR c \<Longrightarrow> a = (b :: uint32)"
  by (drule arg_cong [where f = "\<lambda>w. w XOR c"]) (simp only: xor.assoc xor_self_eq xor.right_neutral)

lemma xor_zero_iff: "a XOR b = 0 \<longleftrightarrow> a = (b :: 'a :: len word)"
proof
  assume "a XOR b = 0"
  then have "(a XOR b) XOR b = b" by simp
  then show "a = b" by (simp only: xor.assoc xor_self_eq xor.right_neutral)
qed simp

lemma bits24_with_byte: "bits24 c \<Longrightarrow> bits24 (c XOR push_bit 16 (ucast (x :: 8 word)))"
  by (rule bits24_xor [OF _ bits24_byte]) simp_all

lemma crc24_byte_inj: "bits24 a \<Longrightarrow> bits24 b \<Longrightarrow> crc24_byte a x = crc24_byte b x \<Longrightarrow> a = b"
  unfolding crc24_byte_def
  by (rule xor_right_cancel [OF crc24_bits_inj [OF bits24_with_byte bits24_with_byte]])

lemma crc24_inj: "bits24 a \<Longrightarrow> bits24 b \<Longrightarrow> crc24 a d = crc24 b d \<Longrightarrow> a = b"
proof (induction d arbitrary: a b)
  case (Cons x d)
  have "crc24_byte a x = crc24_byte b x"
    by (rule Cons.IH [OF crc24_byte_bits24 [OF Cons.prems(1)] crc24_byte_bits24 [OF Cons.prems(2)]])
      (use Cons.prems(3) in \<open>simp only: crc24_Cons\<close>)
  with Cons.prems crc24_byte_inj show ?case by blast
qed simp

text \<open>A byte at one of the three positions of the register.\<close>

definition at_byte :: "nat \<Rightarrow> 8 word \<Rightarrow> uint32" where
  "at_byte n b = push_bit (8 * n) (ucast b)"

lemma bit_at_byte: "bit (at_byte n b) k \<longleftrightarrow> k < 32 \<and> 8 * n \<le> k \<and> bit b (k - 8 * n)"
  by (auto simp: at_byte_def bit_push_bit_iff armor_byte_bits(1))

lemma at_byte_xor: "at_byte n (a XOR b) = at_byte n a XOR at_byte n b"
  by (rule bit_eqI) (auto simp: bit_xor_iff bit_at_byte)

lemma bits24_at_byte: "n \<le> 2 \<Longrightarrow> bits24 (at_byte n b)"
  by (auto simp: bits24_iff bit_at_byte dest: armor_byte_bits(2))

lemma shift_at_byte: "n \<le> 1 \<Longrightarrow> (crc24_bit ^^ 8) (at_byte n b) = at_byte (Suc n) b"
proof -
  assume n: "n \<le> 1"
  have "\<not> bit (at_byte n b) k" if "k \<ge> 24 - 8" for k
    using that n by (auto simp: bit_at_byte dest: armor_byte_bits(2))
  then have "(crc24_bit ^^ 8) (at_byte n b) = push_bit 8 (at_byte n b)"
    by (rule crc24_bits_shift)
  then show ?thesis
    by (simp add: at_byte_def push_bit_push_bit add.commute)
qed

lemma crc24_byte_diff:
  "crc24_byte a x XOR crc24_byte b y = (crc24_bit ^^ 8) ((a XOR b) XOR at_byte 2 (x XOR y))"
proof -
  have "crc24_byte a x XOR crc24_byte b y = (crc24_bit ^^ 8) ((a XOR at_byte 2 x) XOR (b XOR at_byte 2 y))"
    by (simp add: crc24_byte_def at_byte_def crc24_bits_xor)
  also have "(a XOR at_byte 2 x) XOR (b XOR at_byte 2 y) = (a XOR b) XOR at_byte 2 (x XOR y)"
    by (simp only: at_byte_xor xor.assoc xor.left_commute)
  finally show ?thesis .
qed

lemma no_difference:
  assumes "at_byte 2 a1 = at_byte 1 a2 XOR at_byte 0 a3" shows "a1 = 0" "a2 = 0" "a3 = 0"
proof -
  have eq: "bit (at_byte 2 a1) k \<longleftrightarrow> bit (at_byte 1 a2) k \<noteq> bit (at_byte 0 a3) k" for k
    using arg_cong [OF assms, of "\<lambda>w. bit w k"] by (simp add: bit_xor_iff)
  have "\<not> bit a1 k" for k using eq [of "k + 16"] armor_byte_bits(2) [of a1 k] armor_byte_bits(2) [of a2 "k + 8"] armor_byte_bits(2) [of a3 "k + 16"]
    by (auto simp: bit_at_byte add.commute)
  moreover have "\<not> bit a2 k" for k using eq [of "k + 8"] armor_byte_bits(2) [of a2 k] armor_byte_bits(2) [of a3 "k + 8"]
    by (auto simp: bit_at_byte)
  moreover have "\<not> bit a3 k" for k using eq [of k] armor_byte_bits(2) [of a3 k]
    by (auto simp: bit_at_byte)
  ultimately show "a1 = 0" "a2 = 0" "a3 = 0"
    by (auto intro: bit_eqI)
qed

lemma three_bytes:
  assumes c: "bits24 c" and eq: "crc24 c [x1, x2, x3] = crc24 c [y1, y2, y3]"
  shows "x1 = y1 \<and> x2 = y2 \<and> x3 = y3"
proof -
  let ?T = "crc24_bit ^^ 8"
  define a1 a2 a3 where a: "a1 = x1 XOR y1" "a2 = x2 XOR y2" "a3 = x3 XOR y3"
  let ?d1 = "?T (at_byte 2 a1)"
  let ?d2 = "?T (?d1 XOR at_byte 2 a2)"
  have "crc24_byte (crc24_byte (crc24_byte c x1) x2) x3 XOR crc24_byte (crc24_byte (crc24_byte c y1) y2) y3 =
      ?T (?d2 XOR at_byte 2 a3)"
    by (simp only: crc24_byte_diff a xor_self_eq xor.left_neutral)
  moreover have "crc24_byte (crc24_byte (crc24_byte c x1) x2) x3 = crc24_byte (crc24_byte (crc24_byte c y1) y2) y3"
    using eq by (simp only: crc24_Cons crc24.simps(1))
  ultimately have zero: "?T (?d2 XOR at_byte 2 a3) = ?T 0"
    by (simp only: xor_self_eq) (simp add: crc24_bits_shift)
  have b1: "bits24 ?d1" and b2: "bits24 ?d2"
    using bits24_at_byte [of 2] by (simp_all only: order_refl crc24_bits_bits24 bits24_xor)
  have "?d2 XOR at_byte 2 a3 = 0"
    by (rule crc24_bits_inj [OF bits24_xor [OF b2 bits24_at_byte] _ zero]) (simp_all add: bits24_iff)
  then have "?d2 = at_byte 2 a3" by (intro xor_right_cancel [of ?d2 "at_byte 2 a3" "at_byte 2 a3"]) (simp only: xor_self_eq)
  also have "\<dots> = ?T (at_byte 1 a3)" using shift_at_byte [of 1 a3] by (simp add: numeral_2_eq_2)
  finally have "?d1 XOR at_byte 2 a2 = at_byte 1 a3"
    by (rule crc24_bits_inj [OF bits24_xor [OF b1 bits24_at_byte] bits24_at_byte, rotated 2]) simp_all
  then have "(?d1 XOR at_byte 2 a2) XOR at_byte 2 a2 = at_byte 1 a3 XOR at_byte 2 a2" by (rule arg_cong)
  then have "?d1 = at_byte 1 a3 XOR at_byte 2 a2" by (simp only: xor.assoc xor_self_eq xor.right_neutral)
  also have "\<dots> = at_byte 2 a2 XOR at_byte 1 a3" by (rule xor.commute)
  also have "\<dots> = ?T (at_byte 1 a2 XOR at_byte 0 a3)"
    using shift_at_byte [of 1 a2] shift_at_byte [of 0 a3] by (simp add: crc24_bits_xor numeral_2_eq_2)
  finally have "at_byte 2 a1 = at_byte 1 a2 XOR at_byte 0 a3"
    by (rule crc24_bits_inj [OF bits24_at_byte bits24_xor [OF bits24_at_byte bits24_at_byte], rotated 3]) simp_all
  from no_difference [OF this] show ?thesis by (simp add: a xor_zero_iff)
qed

lemma pad_three:
  assumes "length ys \<le> 3" obtains a b c where "ys @ replicate (3 - length ys) (0 :: 8 word) = [a, b, c]"
proof -
  have "\<exists>a b c. l = [a, b, c]" if "length l = 3" for l :: bytes
    using that by (auto simp: numeral_3_eq_3 length_Suc_conv)
  moreover have "length (ys @ replicate (3 - length ys) 0) = 3" using assms by simp
  ultimately show ?thesis using that by blast
qed

lemma crc24_detects_burst:
  assumes c: "bits24 c" and len: "length ys = length zs" "length ys \<le> 3"
    and eq: "crc24 c (xs @ ys @ us) = crc24 c (xs @ zs @ us)"
  shows "ys = zs"
proof -
  let ?c = "crc24 c xs" and ?pad = "replicate (3 - length ys) (0 :: 8 word)"
  have cx: "bits24 ?c" by (rule crc24_bits24 [OF c])
  have "crc24 ?c ys = crc24 ?c zs"
    by (rule crc24_inj [OF crc24_bits24 [OF cx] crc24_bits24 [OF cx], where d = us]) (use eq in \<open>simp only: crc24_append\<close>)
  then have "crc24 ?c (ys @ ?pad) = crc24 ?c (zs @ ?pad)" by (simp only: crc24_append)
  moreover obtain a1 a2 a3 where a: "ys @ ?pad = [a1, a2, a3]" using pad_three [OF len(2)] .
  moreover obtain b1 b2 b3 where b: "zs @ ?pad = [b1, b2, b3]" using pad_three [of zs] len by metis
  ultimately have "[a1, a2, a3] = [b1, b2, b3]" using three_bytes [OF cx] by (metis)
  with a b len(1) show ?thesis by (metis append_eq_append_conv)
qed

lemma crc24Init_bits24: "bits24 crc24Init"
  by (simp add: bits24_def crc24Init_def)

lemma crc24_masked: "crc24 crc24Init bs AND crc24Mask = crc24 crc24Init bs"
proof -
  have "crc24Mask = mask 24" by (simp add: crc24Mask_def mask_eq_exp_minus_1)
  then show ?thesis
    using crc24_bits24 [OF crc24Init_bits24, of bs] by (simp add: bits24_def take_bit_eq_mask)
qed

section \<open>What is accepted\<close>

lemma contents_checksum: "contents body = Some (bs, n) \<Longrightarrow> n = crc24 crc24Init bs"
  by (auto simp: contents_def Let_def crc24_masked split: if_splits option.splits list.splits)

lemma attempt_checksum: "attempt_at data = Found b rest \<Longrightarrow> bCRC b = crc24 crc24Init (bBytes b)"
  by (auto simp: attempt_at_def Let_def dest: contents_checksum split: option.splits if_splits prod.splits)

lemma Decode_accepts:
  "Decode data = (Some b, rest) \<Longrightarrow> bCRC b = crc24 crc24Init (bBytes b) \<and> suffix rest data"
proof (induction data rule: Decode.induct)
  case (1 data)
  show ?case
  proof (cases "attempt_at data")
    case (Retry r)
    with "1.prems" have "Decode r = (Some b, rest)"
      by (subst (asm) Decode.simps) (auto split: prod.splits option.splits)
    with "1.IH" [OF Retry] attempt_at_shorter(2) [of data r b] Retry show ?thesis
      using suffix_order.trans by blast
  next
    case (Found b' r)
    with "1.prems" have "b' = b" "r = rest" by (subst (asm) Decode.simps; simp)+
    with Found show ?thesis using attempt_checksum attempt_at_shorter(2) [of data r b'] by blast
  qed (use "1.prems" in \<open>subst (asm) Decode.simps, simp\<close>)+
qed

text \<open>C39. A block that is accepted has the checksum it carries, and what is left is the end of the input: a block
  whose content differs from that of another accepted block in at most three consecutive bytes carries another
  checksum. \<open>Decode\<close> returns for every input.\<close>

theorem corrupted_block_rejected:
  assumes "Decode data = (Some b, rest)" and "Decode data' = (Some b', rest')"
    and "bBytes b = xs @ ys @ us" and "bBytes b' = xs @ zs @ us" and "length ys = length zs" and "length ys \<le> 3"
    and "ys \<noteq> zs"
  shows "bCRC b \<noteq> bCRC b' \<and> bCRC b = crc24 crc24Init (bBytes b) \<and> suffix rest data"
proof -
  have "bCRC b = crc24 crc24Init (xs @ ys @ us)" "bCRC b' = crc24 crc24Init (xs @ zs @ us)" "suffix rest data"
    using Decode_accepts [OF assms(1)] Decode_accepts [OF assms(2)] assms(3,4) by simp_all
  moreover have "crc24 crc24Init (xs @ ys @ us) \<noteq> crc24 crc24Init (xs @ zs @ us)"
    using crc24_detects_burst [OF crc24Init_bits24 assms(5,6)] assms(7) by blast
  ultimately show ?thesis using assms(3) by simp
qed

section \<open>The format\<close>

definition b64_char :: "nat \<Rightarrow> char" where
  "b64_char v = char_of (if v < 26 then v + 65 else if v < 52 then v + 71 else if v < 62 then v - 4 else if v = 62 then 43 else 47)"

lemma b64_char_code:
  "v < 64 \<Longrightarrow> (of_char (b64_char v) :: nat) =
     (if v < 26 then v + 65 else if v < 52 then v + 71 else if v < 62 then v - 4 else if v = 62 then 43 else 47)"
  unfolding b64_char_def by (simp add: of_char_of)

lemma b64_value_char: "v < 64 \<Longrightarrow> b64_value (b64_char v) = Some v"
  by (auto simp: b64_value_def b64_char_code Let_def)

text \<open>Characters of a body: base 64, padding or layout.\<close>

definition b64_text_char :: "char \<Rightarrow> bool" where
  "b64_text_char c \<longleftrightarrow> b64_value c \<noteq> None \<or> c = CHR ''=''"

lemma special_chars:
  "\<not> b64_text_char CHR ''-''" "\<not> b64_text_char CHR '':''" "b64_value CHR ''='' = None"
  "b64_text_char c \<Longrightarrow> \<not> is_layout c"
  by (auto simp: b64_text_char_def b64_value_def is_layout_def)

fun b64_encode :: "bytes \<Rightarrow> string" where
  "b64_encode [] = []"
| "b64_encode [b0] = [b64_char (unat b0 div 4), b64_char (unat b0 mod 4 * 16), CHR ''='', CHR ''='']"
| "b64_encode [b0, b1] =
     [b64_char (unat b0 div 4), b64_char (unat b0 mod 4 * 16 + unat b1 div 16), b64_char (unat b1 mod 16 * 4), CHR ''='']"
| "b64_encode (b0 # b1 # b2 # bs) =
     b64_char (unat b0 div 4) # b64_char (unat b0 mod 4 * 16 + unat b1 div 16) #
     b64_char (unat b1 mod 16 * 4 + unat b2 div 64) # b64_char (unat b2 mod 64) # b64_encode bs"

lemma unat_byte: "unat (b :: 8 word) < 256"
  using unsigned_less [of b] by simp

text \<open>Digits in base 64.\<close>

lemma small_parts: "x < 256 \<Longrightarrow> x div 4 < (64 :: nat)" "x < 256 \<Longrightarrow> x div 16 < (16 :: nat)" "x < 256 \<Longrightarrow> x div 64 < (4 :: nat)"
  by (simp_all add: less_mult_imp_div_less)

lemma two_digits:
  "(y :: nat) < 16 \<Longrightarrow> (x * 16 + y) div 16 = x" "(y :: nat) < 16 \<Longrightarrow> (x * 16 + y) mod 16 = y"
  "(y :: nat) < 4 \<Longrightarrow> (x * 4 + y) div 4 = x" "(y :: nat) < 4 \<Longrightarrow> (x * 4 + y) mod 4 = y"
  by simp_all

lemma b64_parts:
  "unat (b :: 8 word) div 4 < 64" "unat b mod 4 * 16 + unat (b' :: 8 word) div 16 < 64" "unat b mod 4 * 16 < 64"
  "unat b mod 16 * 4 + unat b' div 64 < 64" "unat b mod 16 * 4 < 64" "unat b mod 64 < 64"
proof -
  have "unat b mod 4 < 4" "unat b mod 16 < 16" by simp_all
  moreover note small_parts [OF unat_byte [of b]] small_parts [OF unat_byte [of b']]
  ultimately show "unat b div 4 < 64" "unat b mod 4 * 16 + unat b' div 16 < 64" "unat b mod 4 * 16 < 64"
    "unat b mod 16 * 4 + unat b' div 64 < 64" "unat b mod 16 * 4 < 64" "unat b mod 64 < 64"
    by - (linarith, linarith, linarith, linarith, linarith, simp)
qed

lemma char_not_padding: "v < 64 \<Longrightarrow> b64_char v \<noteq> CHR ''=''"
  using b64_value_char special_chars(3) by fastforce

lemma b64_arith:
  "unat (b :: 8 word) div 4 * 4 + (unat b mod 4 * 16 + unat (b' :: 8 word) div 16) div 16 = unat b"
  "unat b div 4 * 4 + (unat b mod 4 * 16) div 16 = unat b"
  "(unat b mod 4 * 16 + unat b' div 16) mod 16 * 16 + (unat b' mod 16 * 4 + unat (b'' :: 8 word) div 64) div 4 = unat b'"
  "(unat b mod 4 * 16 + unat b' div 16) mod 16 * 16 + (unat b' mod 16 * 4) div 4 = unat b'"
  "(unat b' mod 16 * 4 + unat b'' div 64) mod 4 * 64 + unat b'' mod 64 = unat b''"
  using small_parts [OF unat_byte [of b']] small_parts [OF unat_byte [of b'']]
  by (simp_all only: two_digits div_mult_mod_eq) simp_all

lemma b64_decode_group:
  "v0 < 64 \<Longrightarrow> v1 < 64 \<Longrightarrow> b64_decode [b64_char v0, b64_char v1, CHR ''='', CHR ''=''] = Some [of_nat (v0 * 4 + v1 div 16)]"
  "v0 < 64 \<Longrightarrow> v1 < 64 \<Longrightarrow> v2 < 64 \<Longrightarrow> b64_decode [b64_char v0, b64_char v1, b64_char v2, CHR ''=''] =
     Some [of_nat (v0 * 4 + v1 div 16), of_nat (v1 mod 16 * 16 + v2 div 4)]"
  "v0 < 64 \<Longrightarrow> v1 < 64 \<Longrightarrow> v2 < 64 \<Longrightarrow> v3 < 64 \<Longrightarrow> b64_decode (b64_char v0 # b64_char v1 # b64_char v2 # b64_char v3 # cs) =
     map_option (\<lambda>bs. of_nat (v0 * 4 + v1 div 16) # of_nat (v1 mod 16 * 16 + v2 div 4) # of_nat (v2 mod 4 * 64 + v3) # bs) (b64_decode cs)"
  by (simp_all add: b64_value_char char_not_padding)

lemma b64_decode_encode: "b64_decode (b64_encode bs) = Some bs"
  by (induction bs rule: b64_encode.induct)
    (simp_all only: b64_encode.simps b64_decode_group b64_parts b64_arith of_nat_unat ucast_id b64_decode.simps(1) option.map)

lemma b64_encode_chars: "c \<in> set (b64_encode bs) \<Longrightarrow> b64_text_char c"
  by (induction bs rule: b64_encode.induct)
    (auto simp: b64_text_char_def b64_value_char b64_parts)

definition crc_bytes :: "uint32 \<Rightarrow> bytes" where
  "crc_bytes n = [ucast (drop_bit 16 n), ucast (drop_bit 8 n), ucast n]"

lemma low_byte_bit: "bit (ucast (m :: uint32) :: 8 word) k \<longleftrightarrow> k < 8 \<and> bit m k"
  by (auto simp: bit_ucast_iff)

lemma crc_bytes_value:
  assumes "bits24 n"
  shows "at_byte 2 (ucast (drop_bit 16 n)) OR at_byte 1 (ucast (drop_bit 8 n)) OR at_byte 0 (ucast n) = n"
proof (rule bit_eqI)
  fix k
  have "\<not> bit n k" if "k \<ge> 24" using that assms by (simp add: bits24_iff)
  then show "bit (at_byte 2 (ucast (drop_bit 16 n)) OR at_byte 1 (ucast (drop_bit 8 n)) OR at_byte 0 (ucast n)) k \<longleftrightarrow> bit n k"
    by (cases "k < 8"; cases "k < 16"; cases "k < 24") (auto simp: bit_or_iff bit_at_byte low_byte_bit bit_drop_bit_eq)
qed

section \<open>Reading a block back\<close>

text \<open>A body: the content in base 64 and the checksum, with layout anywhere.\<close>

definition body_of :: "bytes \<Rightarrow> string \<Rightarrow> bool" where
  "body_of bs body \<longleftrightarrow>
     removeWhitespace body = b64_encode bs @ CHR ''='' # b64_encode (crc_bytes (crc24 crc24Init bs))"

lemma removeWhitespace_idem: "removeWhitespace (b64_encode bs) = b64_encode bs"
  using b64_encode_chars special_chars(4) by (auto simp: removeWhitespace_def filter_id_conv)

lemma contents_body:
  assumes "body_of bs body" shows "contents body = Some (bs, crc24 crc24Init bs)"
proof -
  let ?n = "crc24 crc24Init bs"
  obtain c0 c1 c2 c3 where c: "b64_encode (crc_bytes ?n) = [c0, c1, c2, c3]" by (simp add: crc_bytes_def)
  have crc: "b64_decode [c0, c1, c2, c3] = Some [ucast (drop_bit 16 ?n), ucast (drop_bit 8 ?n), ucast ?n]"
    using b64_decode_encode [of "crc_bytes ?n"] unfolding c by (simp only: crc_bytes_def)
  have "push_bit 16 (ucast (ucast (drop_bit 16 ?n) :: 8 word)) OR push_bit 8 (ucast (ucast (drop_bit 8 ?n) :: 8 word)) OR
      ucast (ucast ?n :: 8 word) = ?n"
    using crc_bytes_value [OF crc24_bits24 [OF crc24Init_bits24, of bs]] by (simp only: at_byte_def) simp
  with assms show ?thesis
    by (simp add: contents_def body_of_def c crc removeWhitespace_idem b64_decode_encode crc24_masked nth_append
        del: b64_decode.simps)
qed

lemma body_chars:
  assumes "body_of bs body" and "c \<in> set body" shows "c \<noteq> CHR ''-''" "c \<noteq> CHR '':''"
proof -
  have "is_layout c \<or> c \<in> set (removeWhitespace body)" using assms(2) by (auto simp: removeWhitespace_def)
  then have "is_layout c \<or> b64_text_char c"
    using assms(1) b64_encode_chars by (auto simp: body_of_def b64_text_char_def)
  then show "c \<noteq> CHR ''-''" "c \<noteq> CHR '':''" using special_chars by (auto simp: is_layout_def)
qed

lemma body_not_Nil: "body_of bs body \<Longrightarrow> body \<noteq> []"
  by (auto simp: body_of_def removeWhitespace_def)

text \<open>Searching for a text that does not overlap itself.\<close>

lemma index_sub_first:
  assumes "x \<notin> set s" and "\<not> contains_sub p (x # s)" shows "index_sub (p @ x # s @ q) (x # s) = Some (length p)"
  using assms(2)
proof (induction p)
  case (Cons c p)
  have "\<not> prefix (x # s) ((c # p) @ x # s @ q)"
  proof
    assume pre: "prefix (x # s) ((c # p) @ x # s @ q)"
    with Cons.prems have "length (c # p) < length (x # s)"
      by (auto simp: not_less) (metis Cons.prems append_Cons contains_sub.simps(2) length_Cons prefix_append prefix_length_prefix prefixI not_less)
    then have "(x # s) ! length (c # p) = x"
      using pre by (auto simp: prefix_def nth_append) (metis append_Cons nth_append_length nth_append)
    with \<open>length (c # p) < length (x # s)\<close> assms(1) show False by auto
  qed
  with Cons show ?case by simp
qed simp

text \<open>Lines.\<close>

lemma getLine_append:
  assumes "CHR 0x0A \<notin> set xs" and "xs = [] \<or> \<not> is_space (last xs)"
  shows "getLine (xs @ CHR 0x0A # r) = (xs, r)"
proof -
  have "takeWhile (\<lambda>c. c \<noteq> CHR 0x0A) (xs @ CHR 0x0A # r) = xs"
    using assms(1) by (subst takeWhile_append2) auto
  moreover have "trim_right_blank xs = xs"
    using assms(2) by (cases xs rule: rev_cases) (auto simp: trim_right_blank_def is_blank_def is_space_def)
  moreover have "\<not> (length xs > 0 \<and> (xs @ CHR 0x0A # r) ! (length xs - 1) = CHR 0x0D)"
    using assms(2) by (cases xs rule: rev_cases) (auto simp: nth_append is_space_def)
  ultimately show ?thesis by (auto simp: getLine_def Let_def)
qed

lemma length_takeWhile_all: "length (takeWhile P xs) = length xs \<longleftrightarrow> (\<forall>x\<in>set xs. P x)"
  by (induction xs) auto

lemma getLine_line_chars: "set (fst (getLine d)) \<subseteq> set (takeWhile (\<lambda>c. c \<noteq> CHR 0x0A) d)"
proof -
  have trim: "set (trim_right_blank xs) \<subseteq> set xs" for xs
    by (metis rev_rev_ident set_dropWhileD set_rev subsetI trim_right_blank_def)
  let ?l = "takeWhile (\<lambda>c. c \<noteq> CHR 0x0A) d"
  have "take (length ?l) d = ?l" by (rule takeWhile_eq_take [symmetric])
  then have "set (take i d) \<subseteq> set ?l" if "i \<le> length ?l" for i
    using that set_take_subset_set_take [of i "length ?l" d] by simp
  from this [of "length ?l"] this [of "length ?l - 1"] trim show ?thesis
    by (auto simp: getLine_def Let_def trim_right_blank_def dest!: set_dropWhileD)
qed

definition plain_text :: "string \<Rightarrow> bool" where
  "plain_text s \<longleftrightarrow> s \<noteq> [] \<and> CHR 0x0A \<notin> set s \<and> \<not> is_space (hd s) \<and> \<not> is_space (last s)"

lemma trim_space_plain: "plain_text s \<Longrightarrow> trim_space s = s" "plain_text s \<Longrightarrow> trim_space (CHR '' '' # s) = s"
proof -
  assume s: "plain_text s"
  then have front: "dropWhile is_space s = s" by (cases s) (auto simp: plain_text_def)
  have rear: "dropWhile is_space (rev s) = rev s" using s by (cases s rule: rev_cases) (auto simp: plain_text_def)
  show "trim_space s = s" by (simp add: trim_space_def front rear)
  have "is_space (CHR '' '')" by (simp add: is_space_def)
  then show "trim_space (CHR '' '' # s) = s" by (simp add: trim_space_def front rear)
qed

definition header_line :: "string \<times> string \<Rightarrow> string" where
  "header_line h = fst h @ CHR '':'' # CHR '' '' # snd h @ [CHR 0x0A]"

definition plain_header :: "string \<times> string \<Rightarrow> bool" where
  "plain_header h \<longleftrightarrow> plain_text (fst h) \<and> CHR '':'' \<notin> set (fst h) \<and> plain_text (snd h)"

lemma header_step:
  assumes "plain_header (k, v)" shows "header_loop (header_line (k, v) @ r) hs = header_loop r (mput k v hs)"
proof -
  let ?line = "k @ CHR '':'' # CHR '' '' # v"
  have "getLine (?line @ CHR 0x0A # r) = (?line, r)"
    using assms by (intro getLine_append) (auto simp: plain_header_def plain_text_def)
  moreover have "takeWhile (\<lambda>c. c \<noteq> CHR '':'') ?line = k"
    using assms by (subst takeWhile_append2) (auto simp: plain_header_def)
  ultimately show ?thesis
    using assms by (subst header_loop.simps) (simp add: header_line_def plain_header_def trim_space_plain)
qed

lemma headers_read:
  "list_all plain_header hs \<Longrightarrow>
   header_loop (concat (map header_line hs) @ r) acc = header_loop r (fold (\<lambda>(k, v). mput k v) hs acc)"
  by (induction hs arbitrary: acc) (auto simp: header_step)

lemma mput_new: "k \<notin> fst ` set m \<Longrightarrow> mput k v m = m @ [(k, v)]"
  by (induction m) auto

lemma headers_kept: "distinct (map fst (acc @ hs)) \<Longrightarrow> fold (\<lambda>(k, v). mput k v) hs acc = acc @ hs"
proof (induction hs arbitrary: acc)
  case (Cons h hs)
  then show ?case
    by (cases h) (simp add: mput_new image_iff)
qed simp

lemma headers_end:
  assumes "body_of bs body" shows "header_loop (body @ CHR 0x0A # r) hs = Some (hs, body @ CHR 0x0A # r)"
proof -
  let ?d = "body @ CHR 0x0A # r"
  have "set (takeWhile (\<lambda>c. c \<noteq> CHR 0x0A) ?d) \<subseteq> set body"
    by (induction body) auto
  with getLine_line_chars [of ?d] body_chars(2) [OF assms] have "CHR '':'' \<notin> set (fst (getLine ?d))" by blast
  then show ?thesis
    by (subst header_loop.simps) (auto simp: Let_def length_takeWhile_all)
qed

text \<open>A block as RFC 4880 writes it.\<close>

definition armored :: "string \<Rightarrow> (string \<times> string) list \<Rightarrow> string \<Rightarrow> string" where
  "armored typ hs body =
     tl pemStart @ typ @ pemEndOfLine @ CHR 0x0A # concat (map header_line hs) @ body @ pemEnd @ typ @ pemEndOfLine @ [CHR 0x0A]"

text \<open>What may stand before it: lines none of which opens a block.\<close>

definition no_block_in :: "string \<Rightarrow> bool" where
  "no_block_in pre \<longleftrightarrow> pre = [] \<or> (\<exists>p. pre = p @ [CHR 0x0A] \<and> \<not> contains_sub (CHR 0x0A # p) pemStart)"

lemma after_start_found:
  assumes "no_block_in pre" shows "after_start (pre @ tl pemStart @ r) = Some r"
proof (cases "pre = []")
  case False
  then obtain p where p: "pre = p @ [CHR 0x0A]" "\<not> contains_sub (CHR 0x0A # p) pemStart"
    using assms by (auto simp: no_block_in_def)
  have "\<not> prefix (tl pemStart) (p @ pemStart @ r)"
  proof
    assume pre: "prefix (tl pemStart) (p @ pemStart @ r)"
    show False
    proof (cases "length (tl pemStart) \<le> length p")
      case True
      with pre have "prefix (tl pemStart) p" by (rule_tac prefix_length_prefix) auto
      then have "prefix pemStart (CHR 0x0A # p)" by (simp add: pemStart_def)
      with p(2) show False by simp
    next
      case False
      obtain zs where "p @ pemStart @ r = tl pemStart @ zs" using pre by (auto simp: prefix_def)
      with False have "(tl pemStart) ! length p = (p @ pemStart @ r) ! length p"
        by (metis not_le nth_append)
      also have "\<dots> = CHR 0x0A" by (simp add: pemStart_def nth_append)
      finally have "CHR 0x0A \<in> set (tl pemStart)" using False by (metis not_le nth_mem)
      then show False by (simp add: pemStart_def)
    qed
  qed
  moreover have "index_sub (p @ pemStart @ r) pemStart = Some (length p)"
    using index_sub_first [of "CHR 0x0A" "tl pemStart" p r] p(2) by (simp add: pemStart_def)
  moreover have "pre @ tl pemStart @ r = p @ pemStart @ r" by (simp add: p pemStart_def)
  ultimately show ?thesis by (simp only: after_start_def has_prefix_def) simp
qed (simp add: after_start_def has_prefix_def)

lemma end_found:
  assumes "body_of bs body"
  shows "end_indices hs (body @ pemEnd @ r) = Some (length body, length body + length pemEnd)"
proof -
  have "\<not> contains_sub body pemEnd"
    using body_chars(1) [OF assms] by (fastforce simp: contains_sub_iff pemEnd_def)
  then have "index_sub (body @ pemEnd @ r) pemEnd = Some (length body)"
    using index_sub_first [of "CHR 0x0A" "tl pemEnd" body r] by (simp add: pemEnd_def)
  moreover have "\<not> has_prefix (body @ pemEnd @ r) (tl pemEnd)"
    using body_not_Nil [OF assms] body_chars(1) [OF assms] by (cases body) (auto simp: has_prefix_def pemEnd_def)
  ultimately show ?thesis by (simp add: end_indices_def)
qed

lemma getLine_dashes:
  "CHR 0x0A \<notin> set xs \<Longrightarrow> getLine (xs @ pemEndOfLine @ CHR 0x0A # r) = (xs @ pemEndOfLine, r)"
  using getLine_append [of "xs @ pemEndOfLine" r] by (simp add: pemEndOfLine_def is_space_def)

lemma suffix_appended: "suffix s (t @ s)"
  by (simp add: suffix_def)

lemma closes_type: "closes typ (typ @ pemEndOfLine @ CHR 0x0A # r)"
  using getLine_append [of "[]" r] by (simp add: closes_def has_prefix_def has_suffix_def suffix_appended)

lemma block_read_back:
  assumes "no_block_in pre" and "CHR 0x0A \<notin> set typ" and "list_all plain_header hs" and "distinct (map fst hs)"
    and "body_of bs body"
  shows "Decode (pre @ armored typ hs body @ rest) =
    (Some \<lparr>bType = typ, bHeaders = hs, bBytes = bs, bCRC = crc24 crc24Init bs\<rparr>, rest)"
proof -
  let ?tail = "typ @ pemEndOfLine @ CHR 0x0A # rest"
  let ?r = "body @ pemEnd @ ?tail"
  have "after_start (pre @ armored typ hs body @ rest) = Some (typ @ pemEndOfLine @ CHR 0x0A # concat (map header_line hs) @ ?r)"
    using after_start_found [OF assms(1)] by (simp add: armored_def)
  moreover have "header_loop (concat (map header_line hs) @ ?r) [] = Some (hs, ?r)"
    using headers_read [OF assms(3), of ?r "[]"] headers_kept [of "[]" hs] assms(4) headers_end [OF assms(5), of "tl pemEnd @ ?tail"]
    by (simp add: pemEnd_def)
  moreover have "drop (length body + length pemEnd - 1) ?r = CHR '' '' # ?tail"
    by (simp add: pemEnd_def)
  moreover have "drop (length body + length pemEnd) ?r = ?tail" by simp
  moreover have "getLine (CHR '' '' # ?tail) = (CHR '' '' # typ @ pemEndOfLine, rest)"
    using getLine_dashes [of "CHR '' '' # typ" rest] assms(2) by simp
  ultimately have "attempt_at (pre @ armored typ hs body @ rest) =
      Found \<lparr>bType = typ, bHeaders = hs, bBytes = bs, bCRC = crc24 crc24Init bs\<rparr> rest"
    using getLine_dashes [OF assms(2)] end_found [OF assms(5)] contents_body [OF assms(5)] closes_type
    by (simp add: attempt_at_def has_suffix_def suffix_appended del: drop_append)
  then show ?thesis by (subst Decode.simps) simp
qed

text \<open>C38. A block in the armor format, with any layout of its body, with header lines of distinct names and after
  lines that open no block, is read back: its type, headers and content, and what follows it is what is left.\<close>

theorem armor_roundtrip:
  assumes "no_block_in pre" and "CHR 0x0A \<notin> set typ" and "list_all plain_header hs" and "distinct (map fst hs)"
    and "body_of bs body"
  shows "Decode (pre @ armored typ hs body @ rest) =
    (Some \<lparr>bType = typ, bHeaders = hs, bBytes = bs, bCRC = crc24 crc24Init bs\<rparr>, rest)"
  using assms by (rule block_read_back)

text \<open>A block of two bytes, one of them with a header; its checksum.\<close>

definition demo_body :: string where
  "demo_body = CHR 0x0A # ''AQI='' @ CHR 0x0A # CHR ''='' # b64_encode (crc_bytes (crc24 crc24Init [1, 2]))"

lemma demo_body: "body_of [1, 2] demo_body"
proof -
  have "removeWhitespace (CHR 0x0A # ''AQI='' @ CHR 0x0A # CHR ''='' # b64_encode bs) = ''AQI='' @ CHR ''='' # b64_encode bs" for bs
    using removeWhitespace_idem [of bs] by (simp add: removeWhitespace_def is_layout_def)
  moreover have "b64_encode [1, 2] = ''AQI=''" by code_simp
  ultimately show ?thesis by (simp only: body_of_def demo_body_def)
qed

theorem armor_roundtrip_witness:
  "Decode (''text'' @ [CHR 0x0A] @ armored ''PGP MESSAGE'' [(''Version'', ''1'')] demo_body @ ''more'') =
    (Some \<lparr>bType = ''PGP MESSAGE'', bHeaders = [(''Version'', ''1'')], bBytes = [1, 2], bCRC = crc24 crc24Init [1, 2]\<rparr>, ''more'')"
proof -
  have "no_block_in (''text'' @ [CHR 0x0A])"
    by (auto simp: no_block_in_def pemStart_def)
  from armor_roundtrip [OF this _ _ _ demo_body, of "''PGP MESSAGE''" "[(''Version'', ''1'')]" "''more''"]
  show ?thesis by (simp add: plain_header_def plain_text_def is_space_def)
qed

text \<open>Two blocks that differ in one byte are both accepted and carry different checksums.\<close>

definition one_byte_body :: "8 word \<Rightarrow> string" where
  "one_byte_body b = b64_encode [b] @ CHR ''='' # b64_encode (crc_bytes (crc24 crc24Init [b]))"

lemma one_byte_block:
  "Decode (armored ''M'' [] (one_byte_body b)) =
    (Some \<lparr>bType = ''M'', bHeaders = [], bBytes = [b], bCRC = crc24 crc24Init [b]\<rparr>, [])"
proof -
  have "body_of [b] (one_byte_body b)"
    using removeWhitespace_idem [of "[b]"] removeWhitespace_idem [of "crc_bytes (crc24 crc24Init [b])"]
    by (simp only: body_of_def one_byte_body_def removeWhitespace_def filter_append) (simp add: is_layout_def)
  from block_read_back [of "[]" "''M''" "[]", OF _ _ _ _ this, of "[]"] show ?thesis by (simp add: no_block_in_def)
qed

theorem corrupted_block_rejected_witness:
  "crc24 crc24Init [1] \<noteq> crc24 crc24Init [3]"
  using corrupted_block_rejected [OF one_byte_block [of 1] one_byte_block [of 3], of "[]" "[1]" "[]" "[3]"] by simp

text \<open>A preamble with a colon in its type looks like a header line: after a line that opens another block, such a block is not
  found, although it is read where it stands alone.\<close>

lemma colon_type_lost:
  "fst (Decode (tl pemStart @ ''X-----'' @ CHR 0x0A # armored ''A:B'' [] (one_byte_body 1))) = None"
  "fst (Decode (armored ''A:B'' [] (one_byte_body 1))) \<noteq> None"
  by code_simp+

end
