(* ===== verification/AuditTrail.thy ===== *)
theory AuditTrail
  imports FileUtil "HOL-Library.Sublist"
begin

text \<open>
  Audit events (audit/collector.go, audit/log/file.go): a collector keeps events until they are submitted with the index of the
  Raft log, or dropped, and the auditor that writes lines to a file. An auditor is a state with an operation that
  takes one event; the arguments of the call are the fields of the event.
\<close>

section \<open>collector.go\<close>

record eventInfo =
  evIdentity :: string
  evContextID :: string
  evSource :: string
  evEventType :: string
  evRaftIndex :: uint64
  evMessage :: string

definition SetRaftIndex :: "uint64 \<Rightarrow> eventInfo \<Rightarrow> eventInfo \<times> bool" where
  "SetRaftIndex i e = (if evRaftIndex e = 0 \<or> evRaftIndex e = i then (e\<lparr>evRaftIndex := i\<rparr>, True) else (e, False))"

definition withRaftIndex :: "eventInfo \<Rightarrow> uint64 \<Rightarrow> eventInfo" where
  "withRaftIndex e raftIndex =
     (if raftIndex = 0 then e
      else let (e', ok) = SetRaftIndex raftIndex e
           in if ok then e'
              else \<lparr>evIdentity = evIdentity e, evContextID = evContextID e, evSource = evSource e, evEventType = evEventType e,
                    evRaftIndex = raftIndex, evMessage = evMessage e\<rparr>)"

record 'd Collector =
  Destination :: 'd
  events :: "eventInfo list"

definition Collector_Audit :: "eventInfo \<Rightarrow> 'd Collector \<Rightarrow> 'd Collector" where
  "Collector_Audit e c = c\<lparr>events := events c @ [e]\<rparr>"

definition Submit :: "(eventInfo \<Rightarrow> 'd \<Rightarrow> 'd) \<Rightarrow> uint64 \<Rightarrow> 'd Collector \<Rightarrow> 'd Collector" where
  "Submit audit raftIndex c =
     \<lparr>Destination = fold (\<lambda>e. audit (withRaftIndex e raftIndex)) (events c) (Destination c), events = []\<rparr>"

definition Collector_Close :: "'d Collector \<Rightarrow> 'd Collector" where
  "Collector_Close c = c\<lparr>events := []\<rparr>"

section \<open>file.go\<close>

text \<open>The text of the file, and the times that the logger writes, by the number of the line.\<close>

record fileAuditor =
  fileName :: string
  fileText :: string
  fileLines :: nat
  stamp :: "nat \<Rightarrow> string"

definition log_New :: "(string \<Rightarrow> string option) \<Rightarrow> (nat \<Rightarrow> string) \<Rightarrow> string \<Rightarrow> string \<Rightarrow> (string, fileAuditor) result" where
  "log_New MkdirAll stamps fileprefix directory =
     (case MkdirAll directory of
        Some e \<Rightarrow> Err e
      | None \<Rightarrow> Ok \<lparr>fileName = Join directory fileprefix, fileText = [], fileLines = 0, stamp = stamps\<rparr>)"

definition event_text :: "eventInfo \<Rightarrow> string" where
  "event_text e =
     evSource e @ '':'' @ evEventType e @ '':'' @ evIdentity e @ '':'' @ evContextID e @ '':'' @ itoa (uint (evRaftIndex e)) @ '':'' @ evMessage e"

definition file_line :: "string \<Rightarrow> eventInfo \<Rightarrow> string" where
  "file_line t e = t @ '' '' @ event_text e @ [CHR 0x0A]"

definition file_Audit :: "eventInfo \<Rightarrow> fileAuditor \<Rightarrow> fileAuditor" where
  "file_Audit e f = f\<lparr>fileText := fileText f @ file_line (stamp f (fileLines f)) e, fileLines := fileLines f + 1\<rparr>"

section \<open>Auditors\<close>

text \<open>The interface \<open>Auditor\<close>: what was audited, in order, is kept.\<close>

locale auditor =
  fixes audit :: "eventInfo \<Rightarrow> 'd \<Rightarrow> 'd" and kept :: "'d \<Rightarrow> eventInfo list \<Rightarrow> bool"
  assumes keeps_audited: "kept d es \<Longrightarrow> kept (audit e d) (es @ [e])"
begin

lemma keeps_all: "kept d es \<Longrightarrow> kept (fold (\<lambda>e. audit (f e)) new d) (es @ map f new)"
proof (induction new arbitrary: d es)
  case (Cons e new)
  from Cons.IH [OF keeps_audited [OF Cons.prems]] show ?case by simp
qed simp

end

text \<open>A collector is an auditor; the file has the lines of the events.\<close>

interpretation collecting: auditor Collector_Audit "\<lambda>c es. events c = es"
  by unfold_locales (simp add: Collector_Audit_def)

definition has_lines :: "(nat \<Rightarrow> string) \<Rightarrow> fileAuditor \<Rightarrow> eventInfo list \<Rightarrow> bool" where
  "has_lines ts f es \<longleftrightarrow>
     stamp f = ts \<and> fileLines f = length es \<and> fileText f = concat (map (\<lambda>(n, e). file_line (ts n) e) (enumerate 0 es))"

interpretation in_file: auditor file_Audit "has_lines ts"
  by unfold_locales (auto simp: has_lines_def file_Audit_def enumerate_append_eq)

section \<open>Submitted events\<close>

text \<open>The index of the submission replaces that of the event unless it is 0.\<close>

lemma withRaftIndex_eq: "withRaftIndex e i = (if i = 0 then e else e\<lparr>evRaftIndex := i\<rparr>)"
  by (cases e) (auto simp: withRaftIndex_def SetRaftIndex_def)

datatype audit_op = OpAudit eventInfo | OpSubmit uint64 | OpClose

fun run_op :: "(eventInfo \<Rightarrow> 'd \<Rightarrow> 'd) \<Rightarrow> audit_op \<Rightarrow> 'd Collector \<Rightarrow> 'd Collector" where
  "run_op audit (OpAudit e) c = Collector_Audit e c"
| "run_op audit (OpSubmit i) c = Submit audit i c"
| "run_op audit OpClose c = Collector_Close c"

text \<open>What a sequence of operations delivers: at a submission the events audited since the last submission or close.\<close>

fun delivered :: "audit_op list \<Rightarrow> eventInfo list \<Rightarrow> eventInfo list" where
  "delivered [] waiting = []"
| "delivered (OpAudit e # ops) waiting = delivered ops (waiting @ [e])"
| "delivered (OpSubmit i # ops) waiting = map (\<lambda>e. if i = 0 then e else e\<lparr>evRaftIndex := i\<rparr>) waiting @ delivered ops []"
| "delivered (OpClose # ops) waiting = delivered ops []"

context auditor
begin

lemma submits_delivered:
  "kept (Destination c) es \<Longrightarrow> kept (Destination (fold (run_op audit) ops c)) (es @ delivered ops (events c))"
proof (induction ops arbitrary: c es)
  case (Cons op ops)
  show ?case
  proof (cases op)
    case (OpAudit e)
    then show ?thesis using Cons.IH [of "Collector_Audit e c" es] Cons.prems by (simp add: Collector_Audit_def)
  next
    case (OpSubmit i)
    have "kept (Destination (Submit audit i c)) (es @ map (\<lambda>e. withRaftIndex e i) (events c))"
      using keeps_all [OF Cons.prems] by (simp add: Submit_def)
    from Cons.IH [OF this] OpSubmit show ?thesis by (simp add: Submit_def withRaftIndex_eq)
  next
    case OpClose
    then show ?thesis using Cons.IH [of "Collector_Close c" es] Cons.prems by (simp add: Collector_Close_def)
  qed
qed simp

end

fun audited :: "audit_op list \<Rightarrow> eventInfo list" where
  "audited [] = []"
| "audited (OpAudit e # ops) = e # audited ops"
| "audited (_ # ops) = audited ops"

abbreviation unindexed :: "eventInfo \<Rightarrow> eventInfo" where
  "unindexed e \<equiv> e\<lparr>evRaftIndex := 0\<rparr>"

lemma delivered_subseq: "subseq (map unindexed (delivered ops waiting)) (map unindexed (waiting @ audited ops))"
proof (induction ops arbitrary: waiting)
  case (Cons op ops)
  show ?case
  proof (cases op)
    case (OpAudit e)
    then show ?thesis using Cons.IH [of "waiting @ [e]"] by simp
  next
    case (OpSubmit i)
    have "map (unindexed \<circ> (\<lambda>e. if i = 0 then e else e\<lparr>evRaftIndex := i\<rparr>)) waiting = map unindexed waiting" by simp
    then show ?thesis using Cons.IH [of "[]"] OpSubmit by (simp only: delivered.simps audited.simps map_append map_map subseq_append' append_Nil)
  next
    case OpClose
    then show ?thesis using Cons.IH [of "[]"] by (simp add: list_emb_append2)
  qed
qed simp

text \<open>C18. Whatever is done with a collector, its file gets exactly the lines of the events that were submitted, in the order
  they were audited, each at most once and under the index of its submission, and none of an event that was dropped.\<close>

theorem collector_writes_submitted:
  assumes "has_lines ts (Destination c) es" and "events c = []"
  shows "has_lines ts (Destination (fold (run_op file_Audit) ops c)) (es @ delivered ops []) \<and>
    subseq (map unindexed (delivered ops [])) (map unindexed (audited ops))"
  using in_file.submits_delivered [OF assms(1), of ops] delivered_subseq [of ops "[]"] assms(2) by simp

definition demo_event :: "string \<Rightarrow> eventInfo" where
  "demo_event m = \<lparr>evIdentity = ''bob'', evContextID = ''c1'', evSource = ''src'', evEventType = ''login'', evRaftIndex = 0, evMessage = m\<rparr>"

definition demo_file :: fileAuditor where
  "demo_file = \<lparr>fileName = ''/logs/audit'', fileText = [], fileLines = 0, stamp = (\<lambda>_. ''2021/01/01 00:00:00'')\<rparr>"

theorem collector_writes_submitted_witness:
  "has_lines (\<lambda>_. ''2021/01/01 00:00:00'')
     (Destination (fold (run_op file_Audit) [OpAudit (demo_event ''x''), OpClose, OpAudit (demo_event ''y''), OpSubmit 5] \<lparr>Destination = demo_file, events = []\<rparr>))
     [(demo_event ''y'')\<lparr>evRaftIndex := 5\<rparr>]"
proof -
  have "has_lines (\<lambda>_. ''2021/01/01 00:00:00'') demo_file []" by (simp add: has_lines_def demo_file_def)
  then show ?thesis
    using collector_writes_submitted [of "\<lambda>_. ''2021/01/01 00:00:00''" "\<lparr>Destination = demo_file, events = []\<rparr>" "[]"
      "[OpAudit (demo_event ''x''), OpClose, OpAudit (demo_event ''y''), OpSubmit 5]"] by simp
qed

section \<open>Forged lines\<close>

text \<open>A line end in the message of an event gives the text of two events.\<close>

lemma forged_line:
  assumes "stamp f n = stamp f (Suc n)" and "n = fileLines f"
  shows "fileText (file_Audit (e1\<lparr>evMessage := evMessage e1 @ [CHR 0x0A] @ stamp f n @ '' '' @ event_text e2\<rparr>) f) =
    fileText (file_Audit e2 (file_Audit e1 f))"
  using assms by (simp add: file_Audit_def file_line_def event_text_def)

end
