(* ===== verification/CsrProv.thy ===== *)
theory CsrProv
  imports KeyRequest
begin

text \<open>
  Certificate requests and signers on the cfssl library (xpki/csrprov: keyreq.go, cfssl.go, csr.go). What is called of cfssl is the
  record \<open>cfssl\<close>, over a type for the rest of its signing policy and one for its signers. The records of names, key
  requests and keys are those of xpki/csr, whose fields are the same.
\<close>

section \<open>keyreq.go\<close>

definition is_RSA :: "string \<Rightarrow> bool" where
  "is_RSA algo \<longleftrightarrow> algo = ''rsa'' \<or> algo = ''RSA''"

definition is_ECDSA :: "string \<Rightarrow> bool" where
  "is_ECDSA algo \<longleftrightarrow> algo = ''ecdsa'' \<or> algo = ''ECDSA''"

definition pv_validateRSA :: "int \<Rightarrow> string option" where
  "pv_validateRSA sz =
     (if sz < 2048 then Some (''RSA key is too weak: '' @ itoa sz)
      else if sz > 8192 then Some (''RSA key size too large: '' @ itoa sz) else None)"

definition pv_validateECDSA :: "int \<Rightarrow> string option" where
  "pv_validateECDSA sz = (if sz = 256 \<or> sz = 384 \<or> sz = 521 then None else Some (''invalid curve size: '' @ itoa sz))"

definition pv_SigAlgo :: "string \<Rightarrow> int \<Rightarrow> sigalgo" where
  "pv_SigAlgo algo sz =
     (if is_RSA algo then
        (if sz \<ge> 4096 then SHA512WithRSA else if sz \<ge> 3072 then SHA384WithRSA
         else if sz \<ge> 2048 then SHA256WithRSA else SHA1WithRSA)
      else if is_ECDSA algo then
        (if sz = 521 then ECDSAWithSHA512 else if sz = 384 then ECDSAWithSHA384
         else if sz = 256 then ECDSAWithSHA256 else ECDSAWithSHA1)
      else UnknownSignatureAlgorithm)"

definition pv_NewKeyRequest :: "string \<Rightarrow> string \<Rightarrow> int \<Rightarrow> int \<Rightarrow> keyRequest" where
  "pv_NewKeyRequest label algo keySize purpose = \<lparr>krLabel = label, krAlgo = algo, krSize = keySize, krPurpose = purpose\<rparr>"

definition pv_Generate :: "'p provider_ops \<Rightarrow> keyRequest \<Rightarrow> 'p \<Rightarrow> (string + privkey) \<times> 'p" where
  "pv_Generate G kr p =
     (if is_RSA (krAlgo kr) then
        (case pv_validateRSA (krSize kr) of
           Some e \<Rightarrow> (Inl (''validate RSA key: '' @ e), p)
         | None \<Rightarrow> with_message ''generate RSA key'' (GenerateRSAKey G (krLabel kr) (krSize kr) (krPurpose kr) p))
      else if is_ECDSA (krAlgo kr) then
        (case pv_validateECDSA (krSize kr) of
           Some e \<Rightarrow> (Inl (''validate ECDSA key: '' @ e), p)
         | None \<Rightarrow>
             (case curve_of (krSize kr) of
                None \<Rightarrow> (Inl ''invalid curve'', p)
              | Some curve \<Rightarrow> with_message ''generate ECDSA key'' (GenerateECDSAKey G (krLabel kr) curve p)))
      else (Inl (''invalid algorithm: '' @ krAlgo kr), p))"

section \<open>cfssl.go\<close>

record pv_CAConfig =
  caPathLength :: int
  caPathLenZero :: bool
  caExpiry :: string
  caBackdate :: string

record pv_request =
  pvCN :: string
  pvNames :: "X509Name list"
  pvHosts :: "string list"
  pvKey :: "keyRequest option"
  pvCA :: "pv_CAConfig option"
  pvSerialNumber :: string

text \<open>The default profile of a signing policy, as far as it is changed here.\<close>

record 'x signing =
  polExpiryString :: string
  polExpiry :: duration
  polBackdate :: duration
  polMaxPathLen :: int
  polMaxPathLenZero :: bool
  polRest :: 'x

record ('x, 'g) cfssl =
  CAPolicy :: "'x signing"
  ParseDuration :: "string \<Rightarrow> string + duration"
  cf_DefaultSigAlgo :: "privkey \<Rightarrow> sigalgo"
  cf_NewSigner :: "privkey \<Rightarrow> string option \<Rightarrow> sigalgo \<Rightarrow> 'x signing \<Rightarrow> string + 'g"
  cf_Sign :: "'g \<Rightarrow> string list \<Rightarrow> string \<Rightarrow> string \<Rightarrow> string + string"
  cf_ParseCertificatePEM :: "string \<Rightarrow> string + string"

definition pv_Name :: "pv_request \<Rightarrow> pkix_name" where
  "pv_Name cr = append_names (pvNames cr) (empty_name\<lparr>CommonName := pvCN cr, SerialNo := pvSerialNumber cr\<rparr>)"

definition ValidateCSR :: "pv_request \<Rightarrow> string option" where
  "ValidateCSR req =
     (if pvCN req \<noteq> [] then None
      else if pvNames req = [] then Some ''missing subject information''
      else case find isNameEmpty (pvNames req) of Some _ \<Rightarrow> Some ''empty name'' | None \<Rightarrow> None)"

definition set_expiry :: "('x, 'g) cfssl \<Rightarrow> string \<Rightarrow> 'x signing \<Rightarrow> string + 'x signing" where
  "set_expiry F s pol =
     (if s \<noteq> [] then map_sum id (\<lambda>d. pol\<lparr>polExpiryString := s, polExpiry := d\<rparr>) (ParseDuration F s) else Inr pol)"

definition set_backdate :: "('x, 'g) cfssl \<Rightarrow> string \<Rightarrow> 'x signing \<Rightarrow> string + 'x signing" where
  "set_backdate F s pol = (if s \<noteq> [] then map_sum id (\<lambda>d. pol\<lparr>polBackdate := d\<rparr>) (ParseDuration F s) else Inr pol)"

definition MakeCAPolicy :: "('x, 'g) cfssl \<Rightarrow> pv_request \<Rightarrow> string + 'x signing" where
  "MakeCAPolicy F req =
     (case pvCA req of
        None \<Rightarrow> Inr (CAPolicy F)
      | Some ca \<Rightarrow>
          (case set_expiry F (caExpiry ca) (CAPolicy F) of
             Inl e \<Rightarrow> Inl e
           | Inr pol1 \<Rightarrow>
               (case set_backdate F (caBackdate ca) pol1 of
                  Inl e \<Rightarrow> Inl e
                | Inr pol2 \<Rightarrow>
                    (let pol3 = pol2\<lparr>polMaxPathLen := caPathLength ca\<rparr>
                     in Inr (if caPathLength ca \<noteq> 0 \<and> caPathLenZero ca then pol3 else pol3\<lparr>polMaxPathLenZero := caPathLenZero ca\<rparr>)))))"

definition ParseCaFiles :: "('x, 'g) cfssl \<Rightarrow> (string \<Rightarrow> string + string) \<Rightarrow> string \<Rightarrow> string \<Rightarrow> string + string \<times> string" where
  "ParseCaFiles F read caFile caKeyFile =
     (case read caFile of
        Inl e \<Rightarrow> Inl (''load ca file: '' @ e)
      | Inr ca \<Rightarrow>
          (case read caKeyFile of
             Inl e \<Rightarrow> Inl (''load ca-key file: '' @ e)
           | Inr cakey \<Rightarrow>
               (case cf_ParseCertificatePEM F ca of Inl e \<Rightarrow> Inl (''parse ca file: '' @ e) | Inr c \<Rightarrow> Inr (cakey, c))))"

text \<open>The message for a key that does not sign has the name of its Go type, which is left out.\<close>

definition NewLocalCASignerFromPEM ::
    "('x, 'g) cfssl \<Rightarrow> (string \<Rightarrow> (string, 'q option \<times> privkey) result) \<Rightarrow> string \<Rightarrow> string \<Rightarrow> 'x signing option \<Rightarrow> (string, 'g \<times> privkey) result" where
  "NewLocalCASignerFromPEM F load ca caKey policy =
     (case policy of
        None \<Rightarrow> Err ''invalid parameter: policy''
      | Some pol \<Rightarrow>
          bind_result (load caKey) (\<lambda>(_, pvk).
            if \<not> is_signer pvk then Err ''loaded key does not support crypto.Signer''
            else case cf_ParseCertificatePEM F ca of
              Inl e \<Rightarrow> Err e
            | Inr parsedCa \<Rightarrow>
                (case cf_NewSigner F pvk (Some parsedCa) (cf_DefaultSigAlgo F pvk) pol of Inl e \<Rightarrow> Err e | Inr s \<Rightarrow> Ok (s, pvk))))"

definition NewLocalCASignerFromFile ::
    "('x, 'g) cfssl \<Rightarrow> (string \<Rightarrow> (string, 'q option \<times> privkey) result) \<Rightarrow> (string \<Rightarrow> string + string) \<Rightarrow> string \<Rightarrow> string \<Rightarrow>
     'x signing option \<Rightarrow> (string, 'g \<times> privkey) result" where
  "NewLocalCASignerFromFile F load read caFile caKeyFile policy =
     (case read caFile of
        Inl e \<Rightarrow> Err (''load ca file: '' @ e)
      | Inr ca \<Rightarrow>
          (case read caKeyFile of
             Inl e \<Rightarrow> Err (''load ca-key file: '' @ e)
           | Inr cakey \<Rightarrow> NewLocalCASignerFromPEM F load ca cakey policy))"

section \<open>csr.go\<close>

definition pv_NewSigningCertificateRequest ::
    "string \<Rightarrow> string \<Rightarrow> int \<Rightarrow> string \<Rightarrow> X509Name list \<Rightarrow> string list \<Rightarrow> pv_request" where
  "pv_NewSigningCertificateRequest keyLabel algo keySize CN names hosts =
     \<lparr>pvCN = CN, pvNames = names, pvHosts = hosts, pvKey = Some (pv_NewKeyRequest keyLabel algo keySize SigningKey), pvCA = None,
      pvSerialNumber = []\<rparr>"

text \<open>A host that is a mail address is taken as it is written.\<close>

definition add_host :: "pki \<Rightarrow> string \<Rightarrow> certificate \<Rightarrow> certificate" where
  "add_host P host t =
     (case net_ParseIP P host of
        Some ip \<Rightarrow> t\<lparr>IPAddresses := IPAddresses t @ [ip]\<rparr>
      | None \<Rightarrow>
          (case mail_ParseAddress P host of
             Some _ \<Rightarrow> t\<lparr>EmailAddresses := EmailAddresses t @ [host]\<rparr>
           | None \<Rightarrow> t\<lparr>DNSNames := DNSNames t @ [host]\<rparr>))"

definition pv_template :: "pki \<Rightarrow> pv_request \<Rightarrow> keyRequest \<Rightarrow> certificate" where
  "pv_template P req kr =
     fold (add_host P) (pvHosts req) (zero_certificate\<lparr>Subject := pv_Name req, SignatureAlgorithm := pv_SigAlgo (krAlgo kr) (krSize kr)\<rparr>)"

definition ParseCsrRequest ::
    "csr_lib \<Rightarrow> 'p provider_ops \<Rightarrow> pv_request \<Rightarrow> 'p \<Rightarrow> (string, string \<times> privkey \<times> string) result \<times> 'p" where
  "ParseCsrRequest L G req p =
     (case pvKey req of
        None \<Rightarrow> (Err ''invalid key request'', p)
      | Some kr \<Rightarrow>
          (case pv_Generate G kr p of
             (Inl e, p') \<Rightarrow> (Err (''generate key: '' @ e), p')
           | (Inr priv, p') \<Rightarrow>
               (case IdentifyKey G priv of
                  Inl e \<Rightarrow> (Err (''identify key: '' @ e), p')
                | Inr (keyID, label) \<Rightarrow>
                    (case CreateCertificateRequest L (pv_template (cl_pki L) req kr) priv of
                       Inl e \<Rightarrow> (Err (''generate csr: '' @ e), p')
                     | Inr der \<Rightarrow> (Ok (pem_Request L der, priv, keyID), p')))))"

text \<open>The results of \<open>ProcessCsrRequest\<close> without the public key. For a key that does not sign, the error is a message for no
  error, that is none.\<close>

definition ProcessCsrRequest ::
    "csr_lib \<Rightarrow> 'p provider_ops \<Rightarrow> pv_request \<Rightarrow> 'p \<Rightarrow> (string, string \<times> string option \<times> string) result \<times> 'p" where
  "ProcessCsrRequest L G req p =
     (case ValidateCSR req of
        Some e \<Rightarrow> (Err (''invalid request: '' @ e), p)
      | None \<Rightarrow>
          (case ParseCsrRequest L G req p of
             (Panic, p') \<Rightarrow> (Panic, p')
           | (Err e, p') \<Rightarrow> (Err (''process request: '' @ e), p')
           | (Ok (csrPEM, priv, keyID), p') \<Rightarrow>
               if \<not> is_signer priv then (Ok (csrPEM, None, keyID), p')
               else (case ExportKey G keyID p' of
                       Panic \<Rightarrow> (Panic, p')
                     | Err e \<Rightarrow> (Err (''key URI: '' @ e), p')
                     | Ok (uri, keyBytes) \<Rightarrow> (Ok (csrPEM, Some (case keyBytes of None \<Rightarrow> uri | Some b \<Rightarrow> b), keyID), p'))))"

definition pv_NewRoot ::
    "('x, 'g) cfssl \<Rightarrow> csr_lib \<Rightarrow> 'p provider_ops \<Rightarrow> pv_request \<Rightarrow> 'p \<Rightarrow> (string, string \<times> string \<times> string) result \<times> 'p" where
  "pv_NewRoot F L G req p =
     (case MakeCAPolicy F req of
        Inl e \<Rightarrow> (Err (''ca policy failed: '' @ e), p)
      | Inr policy \<Rightarrow>
          (case ValidateCSR req of
             Some e \<Rightarrow> (Err (''invalid request: '' @ e), p)
           | None \<Rightarrow>
               (case ParseCsrRequest L G req p of
                  (Panic, p') \<Rightarrow> (Panic, p')
                | (Err e, p') \<Rightarrow> (Err (''process request: '' @ e), p')
                | (Ok (csrPEM, gkey, keyID), p') \<Rightarrow>
                    if \<not> is_signer gkey then (Panic, p')
                    else (case ExportKey G keyID p' of
                            Panic \<Rightarrow> (Panic, p')
                          | Err e \<Rightarrow> (Err (''key URI: '' @ e), p')
                          | Ok (uri, keyBytes) \<Rightarrow>
                              (case cf_NewSigner F gkey None (cf_DefaultSigAlgo F gkey) policy of
                                 Inl e \<Rightarrow> (Err (''create signer: '' @ e), p')
                               | Inr s \<Rightarrow>
                                   (case cf_Sign F s (pvHosts req) csrPEM [] of
                                      Inl e \<Rightarrow> (Err e, p')
                                    | Inr cert \<Rightarrow> (Ok (cert, csrPEM, case keyBytes of None \<Rightarrow> uri | Some b \<Rightarrow> b), p')))))))"

section \<open>Behaviour\<close>

lemma MakeCAPolicy_path:
  assumes "MakeCAPolicy F req = Inr pol" and "pvCA req = Some ca"
  shows "polMaxPathLen pol = caPathLength ca \<and>
    polMaxPathLenZero pol = (if caPathLength ca \<noteq> 0 \<and> caPathLenZero ca then polMaxPathLenZero (CAPolicy F) else caPathLenZero ca) \<and>
    polRest pol = polRest (CAPolicy F)"
  using assms
  by (auto simp: MakeCAPolicy_def set_expiry_def set_backdate_def Let_def split: sum.splits if_splits)
    (auto simp: map_sum_def split: sum.splits)

text \<open>A root certificate is signed with the generated key under the policy made from the request; nothing is generated for a request
  without a subject or with a duration that does not parse.\<close>

lemma pv_NewRoot_signed:
  assumes "pv_NewRoot F L G req p = (Ok (cert, csrPEM, key), p')"
  shows "\<exists>pol gkey keyID s. MakeCAPolicy F req = Inr pol \<and> ValidateCSR req = None \<and>
    ParseCsrRequest L G req p = (Ok (csrPEM, gkey, keyID), p') \<and> cf_NewSigner F gkey None (cf_DefaultSigAlgo F gkey) pol = Inr s \<and>
    cf_Sign F s (pvHosts req) csrPEM [] = Inr cert"
  using assms by (auto simp: pv_NewRoot_def split: sum.splits option.splits result.splits prod.splits if_splits)

lemma pv_NewRoot_rejected:
  assumes "ValidateCSR req \<noteq> None \<or> (\<exists>e. MakeCAPolicy F req = Inl e)"
  shows "\<exists>e. pv_NewRoot F L G req p = (Err e, p)"
  using assms by (auto simp: pv_NewRoot_def split: sum.splits option.splits)

text \<open>The two packages for requests differ in the names of algorithms and in the largest key.\<close>

lemma csrprov_Generate:
  assumes "krAlgo kr \<in> {''rsa'', ''RSA'', ''ecdsa'', ''ECDSA''}" and "is_RSA (krAlgo kr) \<longrightarrow> krSize kr \<le> 4096"
  shows "pv_Generate G kr p = Generate G kr p"
proof -
  have "to_upper ''rsa'' = ''RSA''" "to_upper ''RSA'' = ''RSA''" "to_upper ''ecdsa'' = ''ECDSA''" "to_upper ''ECDSA'' = ''ECDSA''"
    by code_simp+
  then show ?thesis using assms
    by (auto simp: pv_Generate_def Generate_def is_RSA_def is_ECDSA_def pv_validateRSA_def validateRSAKeyPairInfoHandler_def
        pv_validateECDSA_def validateECDSAKeyPairCurveInfoHandler_def)
qed

end
