(* ===== verification/Ctl.thy ===== *)
theory Ctl
  imports GoStrings
begin

text \<open>
  Command line controls (ctl/ctl.go, ctl/filelist.go): the return code of a control, the actions registered with it, and the
  question for a confirmation. The parser of the command line is an argument. Standard input is the list of the blocks
  that reads return; what the writers got is text in the state. The last field is the state of everything else.
\<close>

section \<open>Controls and actions\<close>

datatype ReturnCode = RCOkay | RCFailed | RCUsage

record 's Ctl =
  rc :: ReturnCode
  outText :: string
  errText :: string
  stdin :: "string list"
  world :: 's

type_synonym ('s, 'a) action = "'s Ctl \<Rightarrow> ((string, 'a) result \<times> 's Ctl) option"

definition c_ret :: "'a \<Rightarrow> ('s, 'a) action" where
  "c_ret x c = Some (Ok x, c)"

definition c_fail :: "string \<Rightarrow> ('s, 'a) action" where
  "c_fail e c = Some (Err e, c)"

definition c_bind :: "('s, 'a) action \<Rightarrow> ('a \<Rightarrow> ('s, 'b) action) \<Rightarrow> ('s, 'b) action" where
  "c_bind m f c =
     (case m c of
        None \<Rightarrow> None
      | Some (Ok x, c') \<Rightarrow> f x c'
      | Some (Err e, c') \<Rightarrow> Some (Err e, c')
      | Some (Panic, c') \<Rightarrow> Some (Panic, c'))"

definition c_msg :: "string \<Rightarrow> ('s, 'a) action \<Rightarrow> ('s, 'a) action" where
  "c_msg msg m c = (case m c of Some (Err e, c') \<Rightarrow> Some (Err (msg @ '': '' @ e), c') | r \<Rightarrow> r)"

text \<open>A call that changes the rest of the state, and printing to the writer.\<close>

definition c_call :: "('s \<Rightarrow> ((string, 'a) result \<times> 's) option) \<Rightarrow> ('s, 'a) action" where
  "c_call f c = map_option (\<lambda>(r, s). (r, c\<lparr>world := s\<rparr>)) (f (world c))"

definition c_print :: "string \<Rightarrow> ('s, unit) action" where
  "c_print s c = Some (Ok (), c\<lparr>outText := outText c @ s\<rparr>)"

fun for_each :: "('i \<Rightarrow> ('s, unit) action) \<Rightarrow> 'i list \<Rightarrow> ('s, unit) action" where
  "for_each f [] = c_ret ()"
| "for_each f (x # xs) = c_bind (f x) (\<lambda>_. for_each f xs)"

definition newline :: string where "newline = [CHR 0x0A]"

section \<open>ctl.go\<close>

definition NewControl :: "'app option \<Rightarrow> string list \<Rightarrow> 's \<Rightarrow> (string, 's Ctl) result" where
  "NewControl app inp s =
     (case app of None \<Rightarrow> Panic | Some _ \<Rightarrow> Ok \<lparr>rc = RCOkay, outText = [], errText = [], stdin = inp, world = s\<rparr>)"

definition Fail :: "'s Ctl \<Rightarrow> 's Ctl" where
  "Fail c = c\<lparr>rc := RCFailed\<rparr>"

definition RegisterAction :: "('s, unit) action \<Rightarrow> ('s, unit) action" where
  "RegisterAction f c = (case f c of Some (Err e, c') \<Rightarrow> Some (Err e, Fail c') | r \<Rightarrow> r)"

text \<open>\<open>Parse\<close>: \<open>app\<close> is the parser, which runs the actions of the command it finds.\<close>

definition ctl_Parse :: "(string list \<Rightarrow> ('s, string) action) \<Rightarrow> string list \<Rightarrow> ('s, string) action" where
  "ctl_Parse app args c =
     (case args of
        [] \<Rightarrow> Some (Panic, c)
      | _ # rest \<Rightarrow>
          (case app rest c of
             Some (Err e, c') \<Rightarrow>
               Some (Ok [], c'\<lparr>rc := (if rc c' \<noteq> RCFailed then RCUsage else rc c'), errText := errText c' @ ''ERROR: '' @ e @ newline\<rparr>)
           | r \<Rightarrow> r))"

definition Ctl_Reset :: "'s Ctl \<Rightarrow> 's Ctl" where
  "Ctl_Reset c = c\<lparr>rc := RCOkay, outText := [], errText := []\<rparr>"

definition ctl_WriteJSON :: "('v \<Rightarrow> string + string) \<Rightarrow> 'v \<Rightarrow> ('s, unit) action" where
  "ctl_WriteJSON encode v = (case encode v of Inl e \<Rightarrow> c_fail (''failed to encode: '' @ e) | Inr json \<Rightarrow> c_print json)"

text \<open>\<open>ReadString\<close> of a buffered reader: blocks are read until the buffer has a line end. The result is the line with its end, the
  rest of the buffer and the blocks not read yet.\<close>

fun read_string :: "string \<Rightarrow> string list \<Rightarrow> (string \<times> string) option \<times> string list" where
  "read_string buf cs =
     (if CHR 0x0A \<in> set buf then
        (Some (takeWhile (\<lambda>c. c \<noteq> CHR 0x0A) buf @ newline, drop 1 (dropWhile (\<lambda>c. c \<noteq> CHR 0x0A) buf)), cs)
      else case cs of [] \<Rightarrow> (None, []) | c # cs' \<Rightarrow> read_string (buf @ c) cs')"

declare read_string.simps [simp del]

fun confirm_loop :: "string \<Rightarrow> nat \<Rightarrow> string \<Rightarrow> ('s, bool) action" where
  "confirm_loop s 0 buf = c_ret False"
| "confirm_loop s (Suc n) buf =
     c_bind (c_print (s @ '' [y/n]: '')) (\<lambda>_ c.
       case read_string buf (stdin c) of
         (None, cs) \<Rightarrow> Some (Err ''ReadString failed: [EOF]'', c\<lparr>stdin := cs\<rparr>)
       | (Some (response, buf'), cs) \<Rightarrow>
           (let answer = to_lower (trim_space response); c' = c\<lparr>stdin := cs\<rparr>
            in if answer = ''y'' \<or> answer = ''yes'' then Some (Ok True, c')
               else if answer = ''n'' \<or> answer = ''no'' then Some (Ok False, c')
               else confirm_loop s n buf' c'))"

text \<open>The buffer is new for every question; what is left in it afterwards is lost.\<close>

definition AskForConfirmation :: "string \<Rightarrow> ('s, bool) action" where
  "AskForConfirmation s = confirm_loop s 3 []"

section \<open>filelist.go\<close>

definition FilesList_Set :: "string \<Rightarrow> string list \<Rightarrow> string list" where
  "FilesList_Set v d = d @ [v]"

definition FilesList_IsCumulative :: "string list \<Rightarrow> bool" where
  "FilesList_IsCumulative d = True"

definition FilesList_String :: "string list \<Rightarrow> string" where
  "FilesList_String d = join '','' d"

section \<open>Confirmation\<close>

text \<open>What the text of the input answers, whatever the blocks it comes in.\<close>

fun answers :: "nat \<Rightarrow> string \<Rightarrow> (string, bool) result" where
  "answers 0 inp = Ok False"
| "answers (Suc n) inp =
     (if CHR 0x0A \<notin> set inp then Err ''ReadString failed: [EOF]''
      else let answer = to_lower (trim_space (takeWhile (\<lambda>c. c \<noteq> CHR 0x0A) inp @ newline))
           in if answer = ''y'' \<or> answer = ''yes'' then Ok True
              else if answer = ''n'' \<or> answer = ''no'' then Ok False
              else answers n (drop 1 (dropWhile (\<lambda>c. c \<noteq> CHR 0x0A) inp)))"

lemma read_string_spec:
  "read_string buf cs = (r, cs') \<Longrightarrow>
     (\<exists>n. cs' = drop n cs) \<and>
     (case r of
        None \<Rightarrow> CHR 0x0A \<notin> set (buf @ concat cs)
      | Some (line, buf') \<Rightarrow> CHR 0x0A \<in> set (buf @ concat cs) \<and> line = takeWhile (\<lambda>c. c \<noteq> CHR 0x0A) (buf @ concat cs) @ newline \<and>
          buf' @ concat cs' = drop 1 (dropWhile (\<lambda>c. c \<noteq> CHR 0x0A) (buf @ concat cs)))"
proof (induction cs arbitrary: buf)
  case Nil
  then show ?case by (subst (asm) read_string.simps) (auto split: if_splits)
next
  case (Cons c cs)
  show ?case
  proof (cases "CHR 0x0A \<in> set buf")
    case True
    then obtain x xs where d: "dropWhile (\<lambda>c. c \<noteq> CHR 0x0A) buf = x # xs" by (cases "dropWhile (\<lambda>c. c \<noteq> CHR 0x0A) buf") auto
    have "r = Some (takeWhile (\<lambda>c. c \<noteq> CHR 0x0A) buf @ newline, drop 1 (dropWhile (\<lambda>c. c \<noteq> CHR 0x0A) buf))" "cs' = drop 0 (c # cs)"
      using Cons.prems True by (subst (asm) read_string.simps, simp)+
    with True d show ?thesis by (auto simp: takeWhile_append1 dropWhile_append1 intro: exI [of _ 0])
  next
    case False
    with Cons.prems have "read_string (buf @ c) cs = (r, cs')" by (subst (asm) read_string.simps) simp
    from Cons.IH [OF this] obtain n where "cs' = drop (Suc n) (c # cs)" and "case r of
        None \<Rightarrow> CHR 0x0A \<notin> set (buf @ concat (c # cs))
      | Some (line, buf') \<Rightarrow> CHR 0x0A \<in> set (buf @ concat (c # cs)) \<and> line = takeWhile (\<lambda>c. c \<noteq> CHR 0x0A) (buf @ concat (c # cs)) @ newline \<and>
          buf' @ concat cs' = drop 1 (dropWhile (\<lambda>c. c \<noteq> CHR 0x0A) (buf @ concat (c # cs)))"
      by (auto split: option.splits)
    then show ?thesis by blast
  qed
qed

lemma confirm_loop_spec:
  "\<exists>k c'. confirm_loop s n buf c = Some (answers n (buf @ concat (stdin c)), c') \<and> stdin c' = drop k (stdin c) \<and>
     rc c' = rc c \<and> world c' = world c"
proof (induction n arbitrary: buf c)
  case 0
  show ?case by (rule exI [of _ 0]) (simp add: c_ret_def)
next
  case (Suc n)
  obtain r cs where r: "read_string buf (stdin c) = (r, cs)" by (cases "read_string buf (stdin c)") auto
  from read_string_spec [OF r] obtain k where k: "cs = drop k (stdin c)" by blast
  let ?c = "c\<lparr>outText := outText c @ s @ '' [y/n]: '', stdin := cs\<rparr>"
  show ?case
  proof (cases r)
    case None
    then show ?thesis using read_string_spec [OF r] r
      by (auto simp: c_bind_def c_print_def)
  next
    case (Some p)
    then obtain line buf' where p: "r = Some (line, buf')" by (cases p) auto
    note spec = read_string_spec [OF r, unfolded p]
    obtain j c' where j: "confirm_loop s n buf' ?c = Some (answers n (buf' @ concat cs), c')" "stdin c' = drop j cs" "rc c' = rc c" "world c' = world c"
      using Suc.IH [of buf' ?c] by auto
    show ?thesis using spec r p j k
      by (auto simp: c_bind_def c_print_def Let_def)
  qed
qed

text \<open>A question is answered by the text of the input alone, whatever blocks it comes in: by the first of three lines that
  is yes or no, negatively if there is none, and with an error at the end of the input. Nothing else changes.\<close>

theorem confirmation_by_text:
  "\<exists>k c'. AskForConfirmation s c = Some (answers 3 (concat (stdin c)), c') \<and> stdin c' = drop k (stdin c) \<and> rc c' = rc c \<and> world c' = world c"
  using confirm_loop_spec [of s 3 "[]" c] by (simp add: AskForConfirmation_def)

lemma third_answer_negative:
  "AskForConfirmation s (c\<lparr>stdin := [''sure'' @ newline, ''ok'' @ newline, ''yep'' @ newline, ''yes'' @ newline]\<rparr>) = Some (r, c') \<Longrightarrow> r = Ok False"
  using confirm_loop_spec [of s 3 "[]" "c\<lparr>stdin := [''sure'' @ newline, ''ok'' @ newline, ''yep'' @ newline, ''yes'' @ newline]\<rparr>"]
  by (simp add: AskForConfirmation_def numeral_3_eq_3 newline_def trim_space_def is_space_def to_lower_def lower_char_def Let_def)

section \<open>Return codes\<close>

text \<open>A command that fails sets the code of failure, an error of the parser that of usage; once a command failed, the code stays.\<close>

lemma Parse_codes:
  assumes "app rest c = Some (Err e, c')"
  shows "\<exists>c2. ctl_Parse app (a # rest) c = Some (Ok [], c2) \<and> rc c2 = (if rc c' = RCFailed then RCFailed else RCUsage)"
  using assms by (simp add: ctl_Parse_def)

lemma failed_action_code: "RegisterAction f c = Some (Err e, c') \<Longrightarrow> rc c' = RCFailed"
  by (auto simp: RegisterAction_def Fail_def split: option.splits result.splits)

lemma usage_after_failure:
  assumes "rc c = RCFailed" and "app rest c = Some (Err e, c)"
  shows "\<exists>c2. ctl_Parse app (a # rest) c = Some (Ok [], c2) \<and> rc c2 = RCFailed"
  using Parse_codes [of app rest c e c a] assms by auto

end
