(* ===== verification/Pkcs11.thy ===== *)
theory Pkcs11
  imports CryptoProviders Certutil Oids
begin

text \<open>
  The package xpki/crypto11, first part: the interface of a PKCS #11 module, the pool of sessions (sessions.go), random
  data and helpers (rand.go, common.go), the configuration (config.go), and finding, listing and destroying keys
  (keys.go, util.go). The module (github.com/miekg/pkcs11) is a record of its calls over a state of its own. A call
  of the package returns nothing (\<open>None\<close>) where it blocks for ever on a channel that no other goroutine uses. Bytes are
  strings. Trace lines are left out.
\<close>

section \<open>The module\<close>

datatype CKA = CKA_CLASS | CKA_KEY_TYPE | CKA_ID | CKA_LABEL | CKA_TOKEN | CKA_PRIVATE | CKA_SENSITIVE | CKA_EXTRACTABLE
  | CKA_SIGN | CKA_VERIFY | CKA_ENCRYPT | CKA_DECRYPT | CKA_MODULUS | CKA_MODULUS_BITS | CKA_PUBLIC_EXPONENT
  | CKA_ECDSA_PARAMS | CKA_EC_POINT | CKA_PRIME | CKA_SUBPRIME | CKA_BASE | CKA_VALUE

datatype cka_value = VUlong uint64 | VInt int | VBytes string | VBool bool

type_synonym cka_template = "(CKA \<times> cka_value) list"

datatype CKM = CKM_RSA_PKCS_KEY_PAIR_GEN | CKM_RSA_PKCS | CKM_RSA_PKCS_OAEP | CKM_RSA_PKCS_PSS
  | CKM_ECDSA_KEY_PAIR_GEN | CKM_ECDSA | CKM_DSA_KEY_PAIR_GEN | CKM_DSA

text \<open>Constants of the PKCS #11 standard.\<close>

definition CKO_PUBLIC_KEY :: uint64 where "CKO_PUBLIC_KEY = 2"
definition CKO_PRIVATE_KEY :: uint64 where "CKO_PRIVATE_KEY = 3"
definition CKK_RSA :: uint64 where "CKK_RSA = 0"
definition CKK_DSA :: uint64 where "CKK_DSA = 1"
definition CKK_ECDSA :: uint64 where "CKK_ECDSA = 3"

datatype ckr = CKR_CRYPTOKI_ALREADY_INITIALIZED | CKR_USER_ALREADY_LOGGED_IN | CKR string

record slot_info =
  siDescription :: string

record token_info =
  tiLabel :: string
  tiManufacturerID :: string
  tiModel :: string
  tiSerialNumber :: string
  tiLoginRequired :: bool

type_synonym session = uint64
type_synonym handle = uint64
type_synonym ('t, 'a) module_call = "'t \<Rightarrow> (string + 'a) \<times> 't"

record 't p11_ctx =
  c_Initialize :: "'t \<Rightarrow> ckr option \<times> 't"
  c_Destroy :: "'t \<Rightarrow> 't"
  c_Finalize :: "'t \<Rightarrow> 't"
  c_GetInfo :: "('t, string) module_call"
  c_GetSlotList :: "('t, uint64 list) module_call"
  c_GetSlotInfo :: "uint64 \<Rightarrow> ('t, slot_info) module_call"
  c_GetTokenInfo :: "uint64 \<Rightarrow> ('t, token_info) module_call"
  c_OpenSession :: "uint64 \<Rightarrow> bool \<Rightarrow> ('t, session) module_call"
  c_CloseSession :: "session \<Rightarrow> 't \<Rightarrow> 't"
  c_Login :: "session \<Rightarrow> string \<Rightarrow> 't \<Rightarrow> ckr option \<times> 't"
  c_FindObjectsInit :: "session \<Rightarrow> cka_template \<Rightarrow> ('t, unit) module_call"
  c_FindObjects :: "session \<Rightarrow> nat \<Rightarrow> ('t, handle list) module_call"
  c_FindObjectsFinal :: "session \<Rightarrow> 't \<Rightarrow> 't"
  c_GetAttributeValue :: "session \<Rightarrow> handle \<Rightarrow> CKA list \<Rightarrow> ('t, string list) module_call"
  c_GenerateKeyPair :: "session \<Rightarrow> CKM \<Rightarrow> cka_template \<Rightarrow> cka_template \<Rightarrow> ('t, handle \<times> handle) module_call"
  c_DestroyObject :: "session \<Rightarrow> handle \<Rightarrow> ('t, unit) module_call"
  c_GenerateRandom :: "session \<Rightarrow> nat \<Rightarrow> ('t, string) module_call"
  c_SignInit :: "session \<Rightarrow> CKM \<times> string \<Rightarrow> handle \<Rightarrow> ('t, unit) module_call"
  c_Sign :: "session \<Rightarrow> string \<Rightarrow> ('t, string) module_call"
  c_DecryptInit :: "session \<Rightarrow> CKM \<times> string \<Rightarrow> handle \<Rightarrow> ('t, unit) module_call"
  c_Decrypt :: "session \<Rightarrow> string \<Rightarrow> ('t, string) module_call"

section \<open>State and calls\<close>

record SlotTokenInfo =
  stId :: uint64
  stDescription :: string
  stLabel :: string
  stManufacturer :: string
  stModel :: string
  stSerial :: string
  stLoginRequired :: bool

text \<open>A session pool is the capacity of its channel and the sessions in it.\<close>

record 't PKCS11Lib =
  tok :: 't
  libConfig :: tokenConfig
  libSlot :: SlotTokenInfo
  sessionPools :: "(uint64, nat \<times> session list) gomap"
  ctxOpen :: bool

type_synonym ('t, 'a) p11_call = "'t PKCS11Lib \<Rightarrow> ((string, 'a) result \<times> 't PKCS11Lib) option"

definition p_ret :: "'a \<Rightarrow> ('t, 'a) p11_call" where
  "p_ret x l = Some (Ok x, l)"

definition p_res :: "(string, 'a) result \<Rightarrow> ('t, 'a) p11_call" where
  "p_res r l = Some (r, l)"

definition p_bind :: "('t, 'a) p11_call \<Rightarrow> ('a \<Rightarrow> ('t, 'b) p11_call) \<Rightarrow> ('t, 'b) p11_call" where
  "p_bind m f l =
     (case m l of
        None \<Rightarrow> None
      | Some (Ok x, l') \<Rightarrow> f x l'
      | Some (Err e, l') \<Rightarrow> Some (Err e, l')
      | Some (Panic, l') \<Rightarrow> Some (Panic, l'))"

text \<open>\<open>errors.WithMessage\<close>.\<close>

definition p_msg :: "string \<Rightarrow> ('t, 'a) p11_call \<Rightarrow> ('t, 'a) p11_call" where
  "p_msg text m l =
     (case m l of Some (Err e, l') \<Rightarrow> Some (Err (text @ '': '' @ e), l') | r \<Rightarrow> r)"

text \<open>An error handed on as a value.\<close>

definition p_try :: "('t, 'a) p11_call \<Rightarrow> ('t, string + 'a) p11_call" where
  "p_try m l =
     (case m l of
        None \<Rightarrow> None
      | Some (Ok x, l') \<Rightarrow> Some (Ok (Inr x), l')
      | Some (Err e, l') \<Rightarrow> Some (Ok (Inl e), l')
      | Some (Panic, l') \<Rightarrow> Some (Panic, l'))"

text \<open>A deferred call runs whatever the outcome is.\<close>

definition p_defer :: "('t \<Rightarrow> 't) \<Rightarrow> ('t, 'a) p11_call \<Rightarrow> ('t, 'a) p11_call" where
  "p_defer f m l = map_option (\<lambda>(r, l'). (r, l'\<lparr>tok := f (tok l')\<rparr>)) (m l)"

definition p_mod :: "('t, 'a) module_call \<Rightarrow> ('t, 'a) p11_call" where
  "p_mod c l =
     (case c (tok l) of (Inl e, t) \<Rightarrow> Some (Err e, l\<lparr>tok := t\<rparr>) | (Inr x, t) \<Rightarrow> Some (Ok x, l\<lparr>tok := t\<rparr>))"

section \<open>crypto11.go: errors\<close>

definition errTokenNotFound :: string where "errTokenNotFound = ''crypto11: could not find PKCS#11 token''"
definition errKeyNotFound :: string where "errKeyNotFound = ''crypto11: could not find PKCS#11 key''"
definition errCannotOpenPKCS11 :: string where "errCannotOpenPKCS11 = ''crypto11: could not open PKCS#11''"
definition errCannotGetRandomData :: string where "errCannotGetRandomData = ''crypto11: cannot get random data from PKCS#11''"
definition errUnsupportedKeyType :: string where "errUnsupportedKeyType = ''crypto11: unrecognized key type''"
definition errMalformedRSAKey :: string where "errMalformedRSAKey = ''crypto11/rsa: malformed RSA key''"
definition errUnsupportedRSAOptions :: string where "errUnsupportedRSAOptions = ''crypto11/rsa: unsupported RSA option value''"
definition errMalformedDER :: string where "errMalformedDER = ''crypto11: malformed DER message''"
definition errMalformedSignature :: string where "errMalformedSignature = ''crypto11: malformed signature''"
definition errUnsupportedEllipticCurve :: string where "errUnsupportedEllipticCurve = ''crypto11/ecdsa: unsupported elliptic curve''"
definition errMalformedPoint :: string where "errMalformedPoint = ''crypto11/ecdsa: malformed elliptic curve point''"

section \<open>sessions.go\<close>

definition maxSessionsChan :: nat where "maxSessionsChan = 1024"

definition NewSession :: "'t p11_ctx \<Rightarrow> uint64 \<Rightarrow> ('t, session) p11_call" where
  "NewSession C slot = p_mod (c_OpenSession C slot True)"

text \<open>The deferred send: for ever on a missing pool or a full one.\<close>

definition put_session :: "bool \<Rightarrow> uint64 \<Rightarrow> session \<Rightarrow> 't PKCS11Lib \<Rightarrow> 't PKCS11Lib option" where
  "put_session had slot s l =
     (if \<not> had then None
      else (case mget (sessionPools l) slot of
              None \<Rightarrow> None
            | Some (cap, ss) \<Rightarrow>
                if length ss < cap then Some (l\<lparr>sessionPools := mput slot (cap, ss @ [s]) (sessionPools l)\<rparr>) else None))"

definition get_session :: "'t p11_ctx \<Rightarrow> uint64 \<Rightarrow> ('t, session) p11_call" where
  "get_session C slot l =
     (case mget (sessionPools l) slot of
        Some (cap, s # ss) \<Rightarrow> Some (Ok s, l\<lparr>sessionPools := mput slot (cap, ss) (sessionPools l)\<rparr>)
      | _ \<Rightarrow> NewSession C slot l)"

definition withSession :: "'t p11_ctx \<Rightarrow> uint64 \<Rightarrow> (session \<Rightarrow> ('t, 'a) p11_call) \<Rightarrow> ('t, 'a) p11_call" where
  "withSession C slot f l =
     (case get_session C slot l of
        None \<Rightarrow> None
      | Some (Err e, l1) \<Rightarrow> Some (Err e, l1)
      | Some (Panic, l1) \<Rightarrow> Some (Panic, l1)
      | Some (Ok s, l1) \<Rightarrow>
          (case f s l1 of
             None \<Rightarrow> None
           | Some (r, l2) \<Rightarrow> map_option (\<lambda>l3. (r, l3)) (put_session (mget (sessionPools l) slot \<noteq> None) slot s l2)))"

definition setupSessions :: "uint64 \<Rightarrow> int \<Rightarrow> ('t, unit) p11_call" where
  "setupSessions slot max_sessions l =
     (let n = (if max_sessions \<le> 0 then maxSessionsChan else nat max_sessions)
      in case mget (sessionPools l) slot of
           None \<Rightarrow> Some (Ok (), l\<lparr>sessionPools := mput slot (n, []) (sessionPools l)\<rparr>)
         | Some _ \<Rightarrow> Some (Ok (), l))"

section \<open>common.go, rand.go\<close>

text \<open>The value of bytes, most and least significant first.\<close>

fun be_value :: "nat \<Rightarrow> string \<Rightarrow> nat" where
  "be_value acc [] = acc"
| "be_value acc (c # cs) = be_value (acc * 256 + of_char c) cs"

definition le_value :: "string \<Rightarrow> nat" where
  "le_value s = be_value 0 (rev s)"

text \<open>The eight bytes of an unsigned long on a 64-bit little-endian machine. Reading one takes eight bytes from the start
  of the slice, also where the slice is shorter: \<open>mem\<close> is what follows it in memory.\<close>

definition UlongToBytes :: "uint64 \<Rightarrow> string" where
  "UlongToBytes n = map (\<lambda>i. char_of (unat n div 256 ^ i)) [0..<8]"

definition BytesToUlong :: "string \<Rightarrow> string \<Rightarrow> (string, uint64) result" where
  "BytesToUlong mem bs = (if bs = [] then Panic else Ok (of_nat (le_value (take 8 (bs @ mem)))))"

definition concat_bytes :: "string list \<Rightarrow> string" where
  "concat_bytes slices = concat slices"

definition unmarshalBytes :: "string \<Rightarrow> (string, nat \<times> nat) result" where
  "unmarshalBytes sigBytes =
     (if length sigBytes = 0 \<or> length sigBytes mod 2 \<noteq> 0 then Err errMalformedSignature
      else let n = length sigBytes div 2 in Ok (be_value 0 (take n sigBytes), be_value 0 (drop n sigBytes)))"

text \<open>The world of a call besides the module: the clock (year to second), memory, addresses, the PKIX and PEM encoders,
  curve arithmetic. A curve is known by its name.\<close>

datatype p11_pub = RsaPub nat nat | EcPub string nat nat | DsaPub nat nat nat nat

record p11_env =
  utcNow :: "int list"
  memAfter :: string
  addressOf :: "string \<Rightarrow> uint64"
  unmarshalPoint :: "string \<Rightarrow> string \<Rightarrow> (nat \<times> nat) option"
  marshalPKIX :: "p11_pub \<Rightarrow> string + string"
  pemEncode :: "string \<Rightarrow> string \<Rightarrow> string"

definition GenRandom :: "'t p11_ctx \<Rightarrow> nat \<Rightarrow> ('t, string \<times> nat) p11_call" where
  "GenRandom C n l =
     p_bind (withSession C (stId (libSlot l)) (\<lambda>s. p_mod (c_GenerateRandom C s n)))
       (\<lambda>r. p_ret (take n (r @ replicate n (CHR 0x00)), length r)) l"

definition random_hex :: "'t p11_ctx \<Rightarrow> ('t, string) p11_call" where
  "random_hex C =
     p_bind (GenRandom C 32) (\<lambda>(raw, sz). if sz < 32 then p_res (Err errCannotGetRandomData) else p_ret (hex_encode raw))"

text \<open>\<open>%04d\<close> and \<open>%02d\<close>.\<close>

definition pad_int :: "nat \<Rightarrow> int \<Rightarrow> string" where
  "pad_int w i = (let s = itoa i in replicate (w - length s) (CHR ''0'') @ s)"

definition generateKeyLabel :: "p11_env \<Rightarrow> 't p11_ctx \<Rightarrow> ('t, string) p11_call" where
  "generateKeyLabel E C =
     p_bind (random_hex C) (\<lambda>h.
       p_ret (take 32 (concat (map2 pad_int [4, 2, 2, 2, 2, 2] (utcNow E)) @ ''_'' @ h)))"

definition generateKeyID :: "'t p11_ctx \<Rightarrow> ('t, string) p11_call" where
  "generateKeyID C = p_bind (random_hex C) (\<lambda>h. p_ret (take 32 h))"

end
