(* ===== verification/Pkcs11Keys.thy ===== *)
theory Pkcs11Keys
  imports Pkcs11
begin

text \<open>
  The package xpki/crypto11, second part: keys on the token. Searching (keys.go), RSA, ECDSA and DSA keys with their
  generation, export of public keys and use (rsa.go, ecdsa.go, dsa.go), the operations of a crypto provider (keys.go,
  util.go) and the configuration (config.go).
\<close>

section \<open>Encoding\<close>

fun be_bytes :: "nat \<Rightarrow> string" where
  "be_bytes n = (if n < 256 then [char_of n] else be_bytes (n div 256) @ [char_of (n mod 256)])"

declare be_bytes.simps [simp del]

text \<open>\<open>big.Int.Bytes\<close>.\<close>

definition int_bytes :: "nat \<Rightarrow> string" where
  "int_bytes n = (if n = 0 then [] else be_bytes n)"

definition der_length :: "nat \<Rightarrow> string" where
  "der_length n = (if n < 128 then [char_of n] else let bs = be_bytes n in char_of (128 + length bs) # bs)"

definition der_tlv :: "nat \<Rightarrow> string \<Rightarrow> string" where
  "der_tlv tag bs = char_of tag # der_length (length bs) @ bs"

definition der_integer :: "nat \<Rightarrow> string" where
  "der_integer n = (let bs = be_bytes n in der_tlv 2 (if (of_char (hd bs) :: nat) \<ge> 128 then CHR 0x00 # bs else bs))"

fun base128_high :: "nat \<Rightarrow> string" where
  "base128_high n = (if n < 128 then [char_of (n + 128)] else base128_high (n div 128) @ [char_of (n mod 128 + 128)])"

declare base128_high.simps [simp del]

definition base128 :: "nat \<Rightarrow> string" where
  "base128 n = (if n < 128 then [char_of n] else base128_high (n div 128) @ [char_of (n mod 128)])"

text \<open>\<open>asn1.Marshal\<close> of an object identifier of at least two arcs, and of a pair of integers.\<close>

fun der_oid :: "nat list \<Rightarrow> string" where
  "der_oid (a # b # arcs) = der_tlv 6 (base128 (a * 40 + b) @ concat (map base128 arcs))"
| "der_oid _ = []"

definition marshalDER :: "(nat \<times> nat) option \<Rightarrow> (string, string) result" where
  "marshalDER sig =
     (case sig of
        None \<Rightarrow> Err ''asn1: structure error: empty integer''
      | Some (r, s) \<Rightarrow> Ok (der_tlv 48 (der_integer r @ der_integer s)))"

text \<open>\<open>%q\<close> of ASCII text.\<close>

definition quote_char :: "char \<Rightarrow> string" where
  "quote_char c =
     (let n = (of_char c :: nat)
      in if n = 34 \<or> n = 92 then [CHR 0x5C, c]
         else if n = 7 then [CHR 0x5C, CHR ''a''] else if n = 8 then [CHR 0x5C, CHR ''b''] else if n = 9 then [CHR 0x5C, CHR ''t'']
         else if n = 10 then [CHR 0x5C, CHR ''n''] else if n = 11 then [CHR 0x5C, CHR ''v''] else if n = 12 then [CHR 0x5C, CHR ''f'']
         else if n = 13 then [CHR 0x5C, CHR ''r'']
         else if n < 32 \<or> n = 127 then [CHR 0x5C, CHR ''x''] @ hex_encode [c] else [c])"

definition go_quote :: "string \<Rightarrow> string" where
  "go_quote s = [CHR 0x22] @ concat (map quote_char s) @ [CHR 0x22]"

section \<open>Searching: keys.go\<close>

definition attr_at :: "string list \<Rightarrow> nat \<Rightarrow> ('t, string) p11_call" where
  "attr_at as i = (if i < length as then p_ret (as ! i) else p_res Panic)"

text \<open>\<open>-1\<close> stands for \<open>^uint(0)\<close>: any class, any type.\<close>

definition class_type :: "uint64 \<Rightarrow> uint64 \<Rightarrow> cka_template" where
  "class_type keyclass keytype =
     (if keyclass \<noteq> - 1 then [(CKA_CLASS, VUlong keyclass)] else []) @
     (if keytype \<noteq> - 1 then [(CKA_KEY_TYPE, VUlong keytype)] else [])"

definition find_template :: "string \<Rightarrow> string \<Rightarrow> uint64 \<Rightarrow> uint64 \<Rightarrow> cka_template" where
  "find_template keyID label keyclass keytype =
     class_type keyclass keytype @
     (if keyID \<noteq> [] then [(CKA_ID, VBytes keyID)] else []) @
     (if label \<noteq> [] then [(CKA_LABEL, VBytes label)] else [])"

definition find_objects :: "'t p11_ctx \<Rightarrow> session \<Rightarrow> cka_template \<Rightarrow> nat \<Rightarrow> ('t, handle list) p11_call" where
  "find_objects C s tmpl n =
     p_bind (p_mod (c_FindObjectsInit C s tmpl)) (\<lambda>_. p_defer (c_FindObjectsFinal C s) (p_mod (c_FindObjects C s n)))"

definition findKey :: "'t p11_ctx \<Rightarrow> session \<Rightarrow> string \<Rightarrow> string \<Rightarrow> uint64 \<Rightarrow> uint64 \<Rightarrow> ('t, handle) p11_call" where
  "findKey C s keyID label keyclass keytype =
     p_bind (find_objects C s (find_template keyID label keyclass keytype) 1) (\<lambda>handles.
       case handles of [] \<Rightarrow> p_res (Err errKeyNotFound) | h # _ \<Rightarrow> p_ret h)"

definition ListKeys :: "'t p11_ctx \<Rightarrow> session \<Rightarrow> uint64 \<Rightarrow> uint64 \<Rightarrow> ('t, handle list) p11_call" where
  "ListKeys C s keyclass keytype = find_objects C s (class_type keyclass keytype) 100"

definition FindKeys :: "'t p11_ctx \<Rightarrow> session \<Rightarrow> string \<Rightarrow> uint64 \<Rightarrow> uint64 \<Rightarrow> ('t, handle list) p11_call" where
  "FindKeys C s keylabel keyclass keytype =
     find_objects C s ((CKA_LABEL, VBytes keylabel) # class_type keyclass keytype) 100"

section \<open>Public keys\<close>

definition exportRSAPublicKey :: "'t p11_ctx \<Rightarrow> session \<Rightarrow> handle \<Rightarrow> ('t, p11_pub) p11_call" where
  "exportRSAPublicKey C s h =
     p_bind (p_mod (c_GetAttributeValue C s h [CKA_MODULUS, CKA_PUBLIC_EXPONENT])) (\<lambda>exported.
       p_bind (attr_at exported 0) (\<lambda>m. p_bind (attr_at exported 1) (\<lambda>e.
         let modulus = be_value 0 m; exponent = be_value 0 e
         in if exponent \<ge> 2 ^ 32 then p_res (Err errMalformedRSAKey)
            else if exponent < 1 then p_res (Err errMalformedRSAKey)
            else if exponent < 2 then p_res (Err errMalformedRSAKey)
            else p_ret (RsaPub modulus exponent))))"

definition exportDSAPublicKey :: "'t p11_ctx \<Rightarrow> session \<Rightarrow> handle \<Rightarrow> ('t, p11_pub) p11_call" where
  "exportDSAPublicKey C s h =
     p_bind (p_mod (c_GetAttributeValue C s h [CKA_PRIME, CKA_SUBPRIME, CKA_BASE, CKA_VALUE])) (\<lambda>exported.
       p_bind (attr_at exported 0) (\<lambda>p. p_bind (attr_at exported 1) (\<lambda>q. p_bind (attr_at exported 2) (\<lambda>g.
         p_bind (attr_at exported 3) (\<lambda>x. p_ret (DsaPub (be_value 0 p) (be_value 0 q) (be_value 0 g) (be_value 0 x)))))))"

text \<open>The curves: identifier and whether \<open>crypto/elliptic\<close> has it.\<close>

definition wellKnownCurves :: "(string, string \<times> bool) gomap" where
  "wellKnownCurves =
     [(''P-192'', der_oid [1, 2, 840, 10045, 3, 1, 1], False),
      (''P-224'', der_oid [1, 3, 132, 0, 33], True),
      (''P-256'', der_oid [1, 2, 840, 10045, 3, 1, 7], True),
      (''P-384'', der_oid [1, 3, 132, 0, 34], True),
      (''P-521'', der_oid [1, 3, 132, 0, 35], True),
      (''K-163'', der_oid [1, 3, 132, 0, 1], False),
      (''K-233'', der_oid [1, 3, 132, 0, 26], False),
      (''K-283'', der_oid [1, 3, 132, 0, 16], False),
      (''K-409'', der_oid [1, 3, 132, 0, 36], False),
      (''K-571'', der_oid [1, 3, 132, 0, 38], False),
      (''B-163'', der_oid [1, 3, 132, 0, 15], False),
      (''B-233'', der_oid [1, 3, 132, 0, 27], False),
      (''B-283'', der_oid [1, 3, 132, 0, 17], False),
      (''B-409'', der_oid [1, 3, 132, 0, 37], False),
      (''B-571'', der_oid [1, 3, 132, 0, 39], False)]"

definition marshalEcParams :: "string \<Rightarrow> (string, string) result" where
  "marshalEcParams c =
     (case mget wellKnownCurves c of Some (oid, _) \<Rightarrow> Ok oid | None \<Rightarrow> Err errUnsupportedEllipticCurve)"

fun curve_loop :: "string \<Rightarrow> (string, string \<times> bool) gomap \<Rightarrow> (string, string) result" where
  "curve_loop b [] = Err errUnsupportedEllipticCurve"
| "curve_loop b ((name, oid, known) # cs) =
     (if b = oid then (if known then Ok name else Err errUnsupportedEllipticCurve) else curve_loop b cs)"

definition unmarshalEcParams :: "string \<Rightarrow> (string, string) result" where
  "unmarshalEcParams b = curve_loop b wellKnownCurves"

text \<open>An octet string: the length in one byte, or in up to two bytes that follow it.\<close>

definition octet_length :: "string \<Rightarrow> (string, nat \<times> nat) result" where
  "octet_length b =
     (if length b < 2 then Panic
      else let b1 = (of_char (b ! 1) :: nat)
           in if b1 < 128 then Ok (b1, 2)
              else let ll = b1 mod 128
                   in if ll > 2 then Err errMalformedDER
                      else if length b < 2 + ll then Panic
                      else Ok (be_value 0 (take ll (drop 2 b)), ll + 2))"

definition unmarshalEcPoint :: "p11_env \<Rightarrow> string \<Rightarrow> string \<Rightarrow> (string, nat \<times> nat) result" where
  "unmarshalEcPoint E b c =
     (if length b < 1 then Panic
      else if b ! 0 \<noteq> CHR 0x04 then Err errMalformedDER
      else bind_result (octet_length b) (\<lambda>(n, r).
        if r + n > length b then Err errMalformedDER
        else (case unmarshalPoint E c (drop r b) of None \<Rightarrow> Err errMalformedPoint | Some xy \<Rightarrow> Ok xy)))"

definition exportECDSAPublicKey :: "p11_env \<Rightarrow> 't p11_ctx \<Rightarrow> session \<Rightarrow> handle \<Rightarrow> ('t, p11_pub) p11_call" where
  "exportECDSAPublicKey E C s h =
     p_bind (p_mod (c_GetAttributeValue C s h [CKA_ECDSA_PARAMS, CKA_EC_POINT])) (\<lambda>as.
       p_bind (attr_at as 0) (\<lambda>params.
         p_bind (p_res (unmarshalEcParams params)) (\<lambda>curve.
           p_bind (attr_at as 1) (\<lambda>pt.
             p_bind (p_res (unmarshalEcPoint E pt curve)) (\<lambda>(x, y). p_ret (EcPub curve x y))))))"

section \<open>Private keys\<close>

record PKCS11Object =
  objHandle :: handle
  objSlot :: uint64

datatype p11_priv = P11RSA PKCS11Object p11_pub | P11ECDSA PKCS11Object p11_pub | P11DSA PKCS11Object p11_pub

fun p11_object :: "p11_priv \<Rightarrow> PKCS11Object" where
  "p11_object (P11RSA ob _) = ob"
| "p11_object (P11ECDSA ob _) = ob"
| "p11_object (P11DSA ob _) = ob"

fun p11_Public :: "p11_priv \<Rightarrow> p11_pub" where
  "p11_Public (P11RSA _ pub) = pub"
| "p11_Public (P11ECDSA _ pub) = pub"
| "p11_Public (P11DSA _ pub) = pub"

definition FindKeyPairOnSession ::
    "p11_env \<Rightarrow> 't p11_ctx \<Rightarrow> session \<Rightarrow> uint64 \<Rightarrow> string \<Rightarrow> string \<Rightarrow> ('t, p11_priv) p11_call" where
  "FindKeyPairOnSession E C s slot keyID label =
     p_bind (findKey C s keyID label CKO_PRIVATE_KEY (- 1)) (\<lambda>privHandle.
       p_bind (p_mod (c_GetAttributeValue C s privHandle [CKA_KEY_TYPE])) (\<lambda>as.
         p_bind (attr_at as 0) (\<lambda>v.
           p_bind (p_res (BytesToUlong (memAfter E) v)) (\<lambda>keyType.
             p_bind (findKey C s keyID label CKO_PUBLIC_KEY keyType) (\<lambda>pubHandle.
               let ob = \<lparr>objHandle = privHandle, objSlot = slot\<rparr>
               in if keyType = CKK_DSA then
                    p_bind (p_msg ''exportDSAPublicKey'' (exportDSAPublicKey C s pubHandle)) (\<lambda>pub. p_ret (P11DSA ob pub))
                  else if keyType = CKK_RSA then
                    p_bind (p_msg ''exportRSAPublicKey'' (exportRSAPublicKey C s pubHandle)) (\<lambda>pub. p_ret (P11RSA ob pub))
                  else if keyType = CKK_ECDSA then
                    p_bind (p_msg ''exportECDSAPublicKey'' (exportECDSAPublicKey E C s pubHandle)) (\<lambda>pub. p_ret (P11ECDSA ob pub))
                  else p_res (Err (''key type: '' @ itoa (uint keyType) @ '': '' @ errUnsupportedKeyType)))))))"

definition p11_FindKeyPairOnSlot :: "p11_env \<Rightarrow> 't p11_ctx \<Rightarrow> uint64 \<Rightarrow> string \<Rightarrow> string \<Rightarrow> ('t, p11_priv) p11_call" where
  "p11_FindKeyPairOnSlot E C slot keyID label =
     p_bind (setupSessions slot 0) (\<lambda>_. withSession C slot (\<lambda>s. FindKeyPairOnSession E C s slot keyID label))"

definition FindKeyPair :: "p11_env \<Rightarrow> 't p11_ctx \<Rightarrow> string \<Rightarrow> string \<Rightarrow> ('t, p11_priv) p11_call" where
  "FindKeyPair E C keyID label l = p11_FindKeyPairOnSlot E C (stId (libSlot l)) keyID label l"

section \<open>Generating keys\<close>

definition Identify :: "'t p11_ctx \<Rightarrow> PKCS11Object \<Rightarrow> ('t, string \<times> string) p11_call" where
  "Identify C ob =
     withSession C (objSlot ob) (\<lambda>s.
       p_bind (p_mod (c_GetAttributeValue C s (objHandle ob) [CKA_ID, CKA_LABEL])) (\<lambda>as.
         p_bind (attr_at as 0) (\<lambda>i. p_bind (attr_at as 1) (\<lambda>lab. p_ret (i, lab)))))"

definition label_or :: "p11_env \<Rightarrow> 't p11_ctx \<Rightarrow> string \<Rightarrow> ('t, string) p11_call" where
  "label_or E C label = (if label = [] then generateKeyLabel E C else p_ret label)"

definition id_or :: "'t p11_ctx \<Rightarrow> string \<Rightarrow> ('t, string) p11_call" where
  "id_or C i = (if i = [] then generateKeyID C else p_ret i)"

definition rsa_public_template :: "string \<Rightarrow> string \<Rightarrow> int \<Rightarrow> int \<Rightarrow> cka_template" where
  "rsa_public_template i label bits purpose =
     [(CKA_CLASS, VUlong CKO_PUBLIC_KEY), (CKA_KEY_TYPE, VUlong CKK_RSA), (CKA_TOKEN, VBool True),
      (CKA_PUBLIC_EXPONENT, VBytes [CHR 0x01, CHR 0x00, CHR 0x01]), (CKA_MODULUS_BITS, VInt bits),
      (CKA_LABEL, VBytes label), (CKA_ID, VBytes i)] @
     (if purpose = 1 then [(CKA_VERIFY, VBool True)] else if purpose = 2 then [(CKA_ENCRYPT, VBool True)] else [])"

definition rsa_private_template :: "string \<Rightarrow> string \<Rightarrow> int \<Rightarrow> cka_template" where
  "rsa_private_template i label purpose =
     [(CKA_CLASS, VUlong CKO_PRIVATE_KEY), (CKA_TOKEN, VBool True), (CKA_PRIVATE, VBool True),
      (CKA_SENSITIVE, VBool True), (CKA_EXTRACTABLE, VBool False), (CKA_LABEL, VBytes label), (CKA_ID, VBytes i)] @
     (if purpose = 1 then [(CKA_SIGN, VBool True)] else if purpose = 2 then [(CKA_DECRYPT, VBool True)] else [])"

definition GenerateRSAKeyPairOnSession ::
    "p11_env \<Rightarrow> 't p11_ctx \<Rightarrow> session \<Rightarrow> uint64 \<Rightarrow> string \<Rightarrow> string \<Rightarrow> int \<Rightarrow> int \<Rightarrow> ('t, p11_priv) p11_call" where
  "GenerateRSAKeyPairOnSession E C s slot i label bits purpose =
     p_bind (label_or E C label) (\<lambda>label. p_bind (id_or C i) (\<lambda>i.
       p_bind (p_mod (c_GenerateKeyPair C s CKM_RSA_PKCS_KEY_PAIR_GEN (rsa_public_template i label bits purpose)
           (rsa_private_template i label purpose))) (\<lambda>(pubHandle, privHandle).
         p_bind (exportRSAPublicKey C s pubHandle) (\<lambda>pub.
           p_ret (P11RSA \<lparr>objHandle = privHandle, objSlot = slot\<rparr> pub)))))"

definition GenerateRSAKeyPairOnSlot ::
    "p11_env \<Rightarrow> 't p11_ctx \<Rightarrow> uint64 \<Rightarrow> string \<Rightarrow> string \<Rightarrow> int \<Rightarrow> int \<Rightarrow> ('t, p11_priv) p11_call" where
  "GenerateRSAKeyPairOnSlot E C slot i label bits purpose =
     p_bind (setupSessions slot 0) (\<lambda>_.
       withSession C slot (\<lambda>s. GenerateRSAKeyPairOnSession E C s slot i label bits purpose))"

definition GenerateRSAKeyPairWithLabel :: "p11_env \<Rightarrow> 't p11_ctx \<Rightarrow> string \<Rightarrow> int \<Rightarrow> int \<Rightarrow> ('t, p11_priv) p11_call" where
  "GenerateRSAKeyPairWithLabel E C label bits purpose l =
     GenerateRSAKeyPairOnSlot E C (stId (libSlot l)) [] label bits purpose l"

definition GenerateRSAKeyPair :: "p11_env \<Rightarrow> 't p11_ctx \<Rightarrow> int \<Rightarrow> int \<Rightarrow> ('t, p11_priv) p11_call" where
  "GenerateRSAKeyPair E C bits purpose l = GenerateRSAKeyPairOnSlot E C (stId (libSlot l)) [] [] bits purpose l"

definition ec_public_template :: "string \<Rightarrow> string \<Rightarrow> string \<Rightarrow> cka_template" where
  "ec_public_template i label params =
     [(CKA_CLASS, VUlong CKO_PUBLIC_KEY), (CKA_KEY_TYPE, VUlong CKK_ECDSA), (CKA_TOKEN, VBool True), (CKA_VERIFY, VBool True),
      (CKA_LABEL, VBytes label), (CKA_ID, VBytes i), (CKA_ECDSA_PARAMS, VBytes params)]"

definition ec_private_template :: "string \<Rightarrow> string \<Rightarrow> cka_template" where
  "ec_private_template i label =
     [(CKA_CLASS, VUlong CKO_PRIVATE_KEY), (CKA_TOKEN, VBool True), (CKA_SIGN, VBool True), (CKA_PRIVATE, VBool True),
      (CKA_SENSITIVE, VBool True), (CKA_EXTRACTABLE, VBool False), (CKA_LABEL, VBytes label), (CKA_ID, VBytes i)]"

definition GenerateECDSAKeyPairOnSession ::
    "p11_env \<Rightarrow> 't p11_ctx \<Rightarrow> session \<Rightarrow> uint64 \<Rightarrow> string \<Rightarrow> string \<Rightarrow> string \<Rightarrow> ('t, p11_priv) p11_call" where
  "GenerateECDSAKeyPairOnSession E C s slot i label curve =
     p_bind (label_or E C label) (\<lambda>label. p_bind (id_or C i) (\<lambda>i.
       p_bind (p_res (marshalEcParams curve)) (\<lambda>params.
         p_bind (p_mod (c_GenerateKeyPair C s CKM_ECDSA_KEY_PAIR_GEN (ec_public_template i label params)
             (ec_private_template i label))) (\<lambda>(pubHandle, privHandle).
           p_bind (exportECDSAPublicKey E C s pubHandle) (\<lambda>pub.
             p_ret (P11ECDSA \<lparr>objHandle = privHandle, objSlot = slot\<rparr> pub))))))"

definition GenerateECDSAKeyPairOnSlot ::
    "p11_env \<Rightarrow> 't p11_ctx \<Rightarrow> uint64 \<Rightarrow> string \<Rightarrow> string \<Rightarrow> string \<Rightarrow> ('t, p11_priv) p11_call" where
  "GenerateECDSAKeyPairOnSlot E C slot i label curve =
     p_bind (setupSessions slot 0) (\<lambda>_. withSession C slot (\<lambda>s. GenerateECDSAKeyPairOnSession E C s slot i label curve))"

definition GenerateECDSAKeyPairWithLabel :: "p11_env \<Rightarrow> 't p11_ctx \<Rightarrow> string \<Rightarrow> string \<Rightarrow> ('t, p11_priv) p11_call" where
  "GenerateECDSAKeyPairWithLabel E C label curve l =
     GenerateECDSAKeyPairOnSlot E C (stId (libSlot l)) [] label curve l"

definition GenerateECDSAKeyPair :: "p11_env \<Rightarrow> 't p11_ctx \<Rightarrow> string \<Rightarrow> ('t, p11_priv) p11_call" where
  "GenerateECDSAKeyPair E C curve l = GenerateECDSAKeyPairOnSlot E C (stId (libSlot l)) [] [] curve l"

text \<open>For DSA keys only a missing label or identifier is generated, \<open>None\<close> here; an empty one is kept.\<close>

definition dsa_public_template :: "string \<Rightarrow> string \<Rightarrow> nat \<times> nat \<times> nat \<Rightarrow> cka_template" where
  "dsa_public_template i label params =
     (let (p, q, g) = params
      in [(CKA_CLASS, VUlong CKO_PUBLIC_KEY), (CKA_KEY_TYPE, VUlong CKK_DSA), (CKA_TOKEN, VBool True), (CKA_VERIFY, VBool True),
          (CKA_PRIME, VBytes (int_bytes p)), (CKA_SUBPRIME, VBytes (int_bytes q)), (CKA_BASE, VBytes (int_bytes g)),
          (CKA_LABEL, VBytes label), (CKA_ID, VBytes i)])"

definition dsa_private_template :: "string \<Rightarrow> string \<Rightarrow> cka_template" where
  "dsa_private_template i label =
     [(CKA_TOKEN, VBool True), (CKA_SIGN, VBool True), (CKA_SENSITIVE, VBool True), (CKA_EXTRACTABLE, VBool False),
      (CKA_LABEL, VBytes label), (CKA_ID, VBytes i)]"

definition GenerateDSAKeyPairOnSession ::
    "p11_env \<Rightarrow> 't p11_ctx \<Rightarrow> session \<Rightarrow> uint64 \<Rightarrow> string option \<Rightarrow> string option \<Rightarrow> nat \<times> nat \<times> nat \<Rightarrow> ('t, p11_priv) p11_call" where
  "GenerateDSAKeyPairOnSession E C s slot i label params =
     p_bind (case label of None \<Rightarrow> generateKeyLabel E C | Some x \<Rightarrow> p_ret x) (\<lambda>label.
       p_bind (case i of None \<Rightarrow> generateKeyID C | Some x \<Rightarrow> p_ret x) (\<lambda>i.
         p_bind (p_mod (c_GenerateKeyPair C s CKM_DSA_KEY_PAIR_GEN (dsa_public_template i label params)
             (dsa_private_template i label))) (\<lambda>(pubHandle, privHandle).
           p_bind (exportDSAPublicKey C s pubHandle) (\<lambda>pub.
             p_ret (P11DSA \<lparr>objHandle = privHandle, objSlot = slot\<rparr> pub)))))"

definition GenerateDSAKeyPairOnSlot ::
    "p11_env \<Rightarrow> 't p11_ctx \<Rightarrow> uint64 \<Rightarrow> string option \<Rightarrow> string option \<Rightarrow> nat \<times> nat \<times> nat \<Rightarrow> ('t, p11_priv) p11_call" where
  "GenerateDSAKeyPairOnSlot E C slot i label params =
     p_bind (setupSessions slot 0) (\<lambda>_. withSession C slot (\<lambda>s. GenerateDSAKeyPairOnSession E C s slot i label params))"

definition GenerateDSAKeyPair :: "p11_env \<Rightarrow> 't p11_ctx \<Rightarrow> nat \<times> nat \<times> nat \<Rightarrow> ('t, p11_priv) p11_call" where
  "GenerateDSAKeyPair E C params l = GenerateDSAKeyPairOnSlot E C (stId (libSlot l)) None None params l"

section \<open>Using keys\<close>

text \<open>Hash and mask generation mechanisms of the standard with the length of the hash.\<close>

definition hashToPKCS11 :: "crypto_hash \<Rightarrow> (string, uint64 \<times> uint64 \<times> uint64) result" where
  "hashToPKCS11 h =
     (case h of
        HSHA1 \<Rightarrow> Ok (0x220, 1, 20) | HSHA224 \<Rightarrow> Ok (0x255, 5, 28) | HSHA256 \<Rightarrow> Ok (0x250, 2, 32)
      | HSHA384 \<Rightarrow> Ok (0x260, 3, 48) | HSHA512 \<Rightarrow> Ok (0x270, 4, 64)
      | _ \<Rightarrow> Err errUnsupportedRSAOptions)"

definition pkcs1Prefix :: "(crypto_hash, string) gomap" where
  "pkcs1Prefix =
     [(HSHA1, map char_of [0x30, 0x21, 0x30, 0x09, 0x06, 0x05, 0x2b, 0x0e, 0x03, 0x02, 0x1a, 0x05, 0x00, 0x04, 0x14 :: nat]),
      (HSHA224, map char_of [0x30, 0x2d, 0x30, 0x0d, 0x06, 0x09, 0x60, 0x86, 0x48, 0x01, 0x65, 0x03, 0x04, 0x02, 0x04, 0x05, 0x00, 0x04, 0x1c :: nat]),
      (HSHA256, map char_of [0x30, 0x31, 0x30, 0x0d, 0x06, 0x09, 0x60, 0x86, 0x48, 0x01, 0x65, 0x03, 0x04, 0x02, 0x01, 0x05, 0x00, 0x04, 0x20 :: nat]),
      (HSHA384, map char_of [0x30, 0x41, 0x30, 0x0d, 0x06, 0x09, 0x60, 0x86, 0x48, 0x01, 0x65, 0x03, 0x04, 0x02, 0x02, 0x05, 0x00, 0x04, 0x30 :: nat]),
      (HSHA512, map char_of [0x30, 0x51, 0x30, 0x0d, 0x06, 0x09, 0x60, 0x86, 0x48, 0x01, 0x65, 0x03, 0x04, 0x02, 0x03, 0x05, 0x00, 0x04, 0x40 :: nat])]"

text \<open>\<open>rsa.PSSSaltLengthAuto\<close> is 0, \<open>rsa.PSSSaltLengthEqualsHash\<close> is -1.\<close>

datatype sign_opts = PSSOptions crypto_hash int | HashOptions crypto_hash
datatype decrypt_opts = NoOptions | PKCS1v15DecryptOptions int | OAEPOptions crypto_hash string | OtherOptions

definition sign_with :: "'t p11_ctx \<Rightarrow> session \<Rightarrow> CKM \<times> string \<Rightarrow> handle \<Rightarrow> string \<Rightarrow> ('t, string) p11_call" where
  "sign_with C s mech h dgst = p_bind (p_mod (c_SignInit C s mech h)) (\<lambda>_. p_mod (c_Sign C s dgst))"

definition salt_length :: "int \<Rightarrow> uint64 \<Rightarrow> (string, uint64) result" where
  "salt_length n hLen =
     (if n = 0 then Err errUnsupportedRSAOptions else if n = - 1 then Ok hLen else Ok (of_int n))"

definition signPSS :: "'t p11_ctx \<Rightarrow> session \<Rightarrow> handle \<Rightarrow> string \<Rightarrow> crypto_hash \<Rightarrow> int \<Rightarrow> ('t, string) p11_call" where
  "signPSS C s h dgst hash saltLength =
     p_bind (p_res (hashToPKCS11 hash)) (\<lambda>(hMech, mgf, hLen).
       p_bind (p_res (salt_length saltLength hLen)) (\<lambda>sLen.
         sign_with C s (CKM_RSA_PKCS_PSS, concat_bytes [UlongToBytes hMech, UlongToBytes mgf, UlongToBytes sLen]) h dgst))"

definition digest_info :: "crypto_hash \<Rightarrow> string \<Rightarrow> string" where
  "digest_info hash dgst = (case mget pkcs1Prefix hash of Some oid \<Rightarrow> oid @ dgst | None \<Rightarrow> dgst)"

definition signPKCS1v15 :: "'t p11_ctx \<Rightarrow> session \<Rightarrow> handle \<Rightarrow> string \<Rightarrow> crypto_hash \<Rightarrow> ('t, string) p11_call" where
  "signPKCS1v15 C s h dgst hash = sign_with C s (CKM_RSA_PKCS, []) h (digest_info hash dgst)"

definition rsa_Sign :: "'t p11_ctx \<Rightarrow> PKCS11Object \<Rightarrow> string \<Rightarrow> sign_opts \<Rightarrow> ('t, string) p11_call" where
  "rsa_Sign C ob dgst opts l =
     withSession C (stId (libSlot l)) (\<lambda>s.
       case opts of
         PSSOptions hash n \<Rightarrow> signPSS C s (objHandle ob) dgst hash n
       | HashOptions hash \<Rightarrow> signPKCS1v15 C s (objHandle ob) dgst hash) l"

definition dsaGeneric :: "'t p11_ctx \<Rightarrow> uint64 \<Rightarrow> handle \<Rightarrow> CKM \<Rightarrow> string \<Rightarrow> ('t, string) p11_call" where
  "dsaGeneric C slot key mechanism dgst =
     p_bind (withSession C slot (\<lambda>s. sign_with C s (mechanism, []) key dgst)) (\<lambda>sigBytes.
       p_res (marshalDER (case unmarshalBytes sigBytes of Ok rs \<Rightarrow> Some rs | _ \<Rightarrow> None)))"

fun p11_Sign :: "'t p11_ctx \<Rightarrow> p11_priv \<Rightarrow> string \<Rightarrow> sign_opts \<Rightarrow> ('t, string) p11_call" where
  "p11_Sign C (P11RSA ob _) dgst opts l = rsa_Sign C ob dgst opts l"
| "p11_Sign C (P11ECDSA ob _) dgst opts l = dsaGeneric C (stId (libSlot l)) (objHandle ob) CKM_ECDSA dgst l"
| "p11_Sign C (P11DSA ob _) dgst opts l = dsaGeneric C (stId (libSlot l)) (objHandle ob) CKM_DSA dgst l"

definition decryptPKCS1v15 :: "'t p11_ctx \<Rightarrow> session \<Rightarrow> handle \<Rightarrow> string \<Rightarrow> int \<Rightarrow> ('t, string) p11_call" where
  "decryptPKCS1v15 C s h ciphertext sessionKeyLen =
     (if sessionKeyLen \<noteq> 0 then p_res (Err errUnsupportedRSAOptions)
      else p_bind (p_mod (c_DecryptInit C s (CKM_RSA_PKCS, []) h)) (\<lambda>_. p_mod (c_Decrypt C s ciphertext)))"

definition decryptOAEP :: "p11_env \<Rightarrow> 't p11_ctx \<Rightarrow> session \<Rightarrow> handle \<Rightarrow> string \<Rightarrow> crypto_hash \<Rightarrow> string \<Rightarrow> ('t, string) p11_call" where
  "decryptOAEP E C s h ciphertext hash label =
     p_bind (p_res (hashToPKCS11 hash)) (\<lambda>(hMech, mgf, _).
       let (sourceData, sourceDataLen) = (if label \<noteq> [] then (addressOf E label, of_nat (length label)) else (0, 0));
           parameters = concat_bytes [UlongToBytes hMech, UlongToBytes mgf, UlongToBytes 1, UlongToBytes sourceData, UlongToBytes sourceDataLen]
       in p_bind (p_mod (c_DecryptInit C s (CKM_RSA_PKCS_OAEP, parameters) h)) (\<lambda>_. p_mod (c_Decrypt C s ciphertext)))"

definition rsa_Decrypt :: "p11_env \<Rightarrow> 't p11_ctx \<Rightarrow> PKCS11Object \<Rightarrow> string \<Rightarrow> decrypt_opts \<Rightarrow> ('t, string) p11_call" where
  "rsa_Decrypt E C ob ciphertext options l =
     withSession C (stId (libSlot l)) (\<lambda>s.
       case options of
         NoOptions \<Rightarrow> decryptPKCS1v15 C s (objHandle ob) ciphertext 0
       | PKCS1v15DecryptOptions n \<Rightarrow> decryptPKCS1v15 C s (objHandle ob) ciphertext n
       | OAEPOptions hash label \<Rightarrow> decryptOAEP E C s (objHandle ob) ciphertext hash label
       | OtherOptions \<Rightarrow> p_res (Err errUnsupportedRSAOptions)) l"

definition rsa_Validate :: "p11_pub \<Rightarrow> (string, unit) result" where
  "rsa_Validate pub =
     (case pub of RsaPub _ e \<Rightarrow> if e < 2 then Err errMalformedRSAKey else Ok () | _ \<Rightarrow> Panic)"

section \<open>The operations of a provider: keys.go\<close>

record privateKeyGen =
  genId :: string
  genLabel :: string
  genKey :: p11_priv

text \<open>A \<open>crypto.PrivateKey\<close>: a key of this package, one with identifier and label, an RSA or ECDSA key of the standard library
  by its public part, or another type.\<close>

datatype any_key = TokenKey p11_priv | GenKey privateKeyGen | StdKey p11_pub | OtherKeyType

definition p11_GenerateRSAKey :: "p11_env \<Rightarrow> 't p11_ctx \<Rightarrow> string \<Rightarrow> int \<Rightarrow> int \<Rightarrow> ('t, any_key) p11_call" where
  "p11_GenerateRSAKey E C label bits purpose =
     p_bind (GenerateRSAKeyPairWithLabel E C label bits purpose) (\<lambda>priv.
       p_bind (Identify C (p11_object priv)) (\<lambda>(i, lab). p_ret (GenKey \<lparr>genId = i, genLabel = lab, genKey = priv\<rparr>)))"

definition p11_GenerateECDSAKey :: "p11_env \<Rightarrow> 't p11_ctx \<Rightarrow> string \<Rightarrow> string \<Rightarrow> ('t, any_key) p11_call" where
  "p11_GenerateECDSAKey E C label curve =
     p_bind (GenerateECDSAKeyPairWithLabel E C label curve) (\<lambda>priv.
       p_bind (Identify C (p11_object priv)) (\<lambda>(i, lab). p_ret (GenKey \<lparr>genId = i, genLabel = lab, genKey = priv\<rparr>)))"

definition p11_IdentifyKey :: "'t p11_ctx \<Rightarrow> any_key \<Rightarrow> ('t, string \<times> string) p11_call" where
  "p11_IdentifyKey C key =
     (case key of
        GenKey g \<Rightarrow> p_ret (genId g, genLabel g)
      | TokenKey k \<Rightarrow> Identify C (p11_object k)
      | _ \<Rightarrow> p_res (Err errUnsupportedKeyType))"

definition ConvertToPublic :: "any_key \<Rightarrow> (string, p11_pub) result" where
  "ConvertToPublic key =
     (case key of StdKey pub \<Rightarrow> Ok pub | TokenKey k \<Rightarrow> Ok (p11_Public k) | _ \<Rightarrow> Err errUnsupportedKeyType)"

definition p11_GetKey :: "p11_env \<Rightarrow> 't p11_ctx \<Rightarrow> string \<Rightarrow> ('t, any_key) p11_call" where
  "p11_GetKey E C keyID =
     p_bind (p_msg (''unable to find key '' @ go_quote keyID) (FindKeyPair E C keyID [])) (\<lambda>k. p_ret (TokenKey k))"

definition p11_ExportKey :: "p11_env \<Rightarrow> 't p11_ctx \<Rightarrow> string \<Rightarrow> ('t, string \<times> string option) p11_call" where
  "p11_ExportKey E C keyID =
     p_bind (p_msg ''module info'' (p_mod (c_GetInfo C))) (\<lambda>man.
       p_bind (p_msg (''unable to find key '' @ go_quote keyID) (FindKeyPair E C keyID [])) (\<lambda>_.
         \<lambda>l. p_bind (p_msg ''token info'' (p_mod (c_GetTokenInfo C (stId (libSlot l))))) (\<lambda>ti.
           p_ret (key_uri man (tiModel ti) (tiSerialNumber ti) (tiLabel ti) keyID, None)) l))"

definition gen_Sign :: "'t p11_ctx \<Rightarrow> privateKeyGen \<Rightarrow> string \<Rightarrow> sign_opts \<Rightarrow> ('t, string) p11_call" where
  "gen_Sign C g dgst opts = p11_Sign C (genKey g) dgst opts"

definition gen_Decrypt :: "p11_env \<Rightarrow> 't p11_ctx \<Rightarrow> privateKeyGen \<Rightarrow> string \<Rightarrow> decrypt_opts \<Rightarrow> ('t, string) p11_call" where
  "gen_Decrypt E C g ciphertext opts =
     (case genKey g of P11RSA ob _ \<Rightarrow> rsa_Decrypt E C ob ciphertext opts | _ \<Rightarrow> p_res (Err errUnsupportedKeyType))"

section \<open>util.go\<close>

fun tokens_loop :: "'t p11_ctx \<Rightarrow> uint64 list \<Rightarrow> 't \<Rightarrow> (string + SlotTokenInfo list) \<times> 't" where
  "tokens_loop C [] t = (Inr [], t)"
| "tokens_loop C (slotID # slots) t =
     (case c_GetSlotInfo C slotID t of
        (Inl e, t1) \<Rightarrow> (Inl (''GetSlotInfo: '' @ itoa (uint slotID) @ '': '' @ e), t1)
      | (Inr si, t1) \<Rightarrow>
          (case c_GetTokenInfo C slotID t1 of
             (Inl e, t2) \<Rightarrow> tokens_loop C slots t2
           | (Inr ti, t2) \<Rightarrow>
               (case tokens_loop C slots t2 of
                  (Inl e, t3) \<Rightarrow> (Inl e, t3)
                | (Inr ls, t3) \<Rightarrow>
                    (Inr (if tiSerialNumber ti \<noteq> [] \<or> tiLabel ti \<noteq> [] then
                            \<lparr>stId = slotID, stDescription = siDescription si, stLabel = tiLabel ti,
                             stManufacturer = trim_space (tiManufacturerID ti), stModel = trim_space (tiModel ti),
                             stSerial = tiSerialNumber ti, stLoginRequired = tiLoginRequired ti\<rparr> # ls
                          else ls), t3))))"

definition TokensInfo :: "'t p11_ctx \<Rightarrow> ('t, SlotTokenInfo list) module_call" where
  "TokensInfo C t = (case c_GetSlotList C t of (Inl e, t1) \<Rightarrow> (Inl e, t1) | (Inr slots, t1) \<Rightarrow> tokens_loop C slots t1)"

text \<open>The callbacks are called in order until one fails; the calls made are returned with the error.\<close>

fun report :: "('i \<Rightarrow> string option) \<Rightarrow> 'i list \<Rightarrow> 'i list \<times> string option" where
  "report cb [] = ([], None)"
| "report cb (x # xs) =
     (case cb x of Some e \<Rightarrow> ([x], Some e) | None \<Rightarrow> let (ys, e) = report cb xs in (x # ys, e))"

definition p11_EnumTokens ::
    "'t p11_ctx \<Rightarrow> bool \<Rightarrow> (SlotTokenInfo \<Rightarrow> string option) \<Rightarrow> ('t, SlotTokenInfo list \<times> string option) p11_call" where
  "p11_EnumTokens C currentSlotOnly cb l =
     (if currentSlotOnly then p_ret (report cb [libSlot l]) l
      else p_bind (p_mod (TokensInfo C)) (\<lambda>ls. p_ret (report cb ls)) l)"

definition KeyTypeNames :: "(uint64, string) gomap" where
  "KeyTypeNames = [(0, ''RSA''), (1, ''DSA''), (2, ''DH''), (3, ''ECDSA'')]"

definition ObjectClassNames :: "(uint64, string) gomap" where
  "ObjectClassNames = [(0, ''Data''), (1, ''Certificate''), (2, ''Public key''), (3, ''Private key''), (4, ''Secret key'')]"

definition name_or_empty :: "(uint64, string) gomap \<Rightarrow> uint64 \<Rightarrow> string" where
  "name_or_empty m n = (case mget m n of None \<Rightarrow> [] | Some x \<Rightarrow> x)"

record key_info =
  kiId :: string
  kiLabel :: string
  kiType :: string
  kiClass :: string
  kiPublic :: string

definition key_info_of :: "p11_env \<Rightarrow> string list \<Rightarrow> ('t, key_info) p11_call" where
  "key_info_of E as =
     p_bind (attr_at as 0) (\<lambda>i. p_bind (attr_at as 1) (\<lambda>lab. p_bind (attr_at as 2) (\<lambda>typ. p_bind (attr_at as 3) (\<lambda>cls.
       p_bind (p_res (BytesToUlong (memAfter E) typ)) (\<lambda>t. p_bind (p_res (BytesToUlong (memAfter E) cls)) (\<lambda>c.
         p_ret \<lparr>kiId = i, kiLabel = lab, kiType = name_or_empty KeyTypeNames t, kiClass = name_or_empty ObjectClassNames c,
           kiPublic = []\<rparr>))))))"

definition key_attributes :: "'t p11_ctx \<Rightarrow> session \<Rightarrow> handle \<Rightarrow> ('t, string list) p11_call" where
  "key_attributes C s h =
     p_msg ''GetAttributeValue on key'' (p_mod (c_GetAttributeValue C s h [CKA_ID, CKA_LABEL, CKA_KEY_TYPE, CKA_CLASS]))"

text \<open>The keys that the callback was called with, and the error that ended the enumeration. Type and class are only looked at for keys
  with the prefix.\<close>

fun enum_keys_loop ::
    "p11_env \<Rightarrow> 't p11_ctx \<Rightarrow> session \<Rightarrow> string \<Rightarrow> (key_info \<Rightarrow> string option) \<Rightarrow> handle list \<Rightarrow> key_info list \<Rightarrow>
     ('t, key_info list \<times> string option) p11_call" where
  "enum_keys_loop E C s pre cb [] done_keys = p_ret (done_keys, None)"
| "enum_keys_loop E C s pre cb (h # hs) done_keys =
     p_bind (p_try (key_attributes C s h)) (\<lambda>r.
       case r of
         Inl e \<Rightarrow> p_ret (done_keys, Some e)
       | Inr as \<Rightarrow>
           p_bind (attr_at as 1) (\<lambda>lab.
             if pre \<noteq> [] \<and> \<not> has_prefix lab pre then enum_keys_loop E C s pre cb hs done_keys
             else p_bind (key_info_of E as) (\<lambda>ki.
               case cb ki of
                 Some e \<Rightarrow> p_ret (done_keys @ [ki], Some e)
               | None \<Rightarrow> enum_keys_loop E C s pre cb hs (done_keys @ [ki]))))"

definition on_slot :: "'t p11_ctx \<Rightarrow> uint64 \<Rightarrow> bool \<Rightarrow> (session \<Rightarrow> ('t, 'a) p11_call) \<Rightarrow> ('t, 'a) p11_call" where
  "on_slot C slot rw f =
     p_bind (p_msg (''OpenSession on slot '' @ itoa (uint slot)) (p_mod (c_OpenSession C slot rw))) (\<lambda>s.
       p_defer (c_CloseSession C s) (f s))"

definition p11_EnumKeys ::
    "p11_env \<Rightarrow> 't p11_ctx \<Rightarrow> uint64 \<Rightarrow> string \<Rightarrow> (key_info \<Rightarrow> string option) \<Rightarrow> ('t, key_info list \<times> string option) p11_call" where
  "p11_EnumKeys E C slot pre cb =
     on_slot C slot False (\<lambda>s. p_bind (ListKeys C s CKO_PRIVATE_KEY (- 1)) (\<lambda>keys. enum_keys_loop E C s pre cb keys []))"

text \<open>A handle that was not found is 0.\<close>

definition found_or_zero :: "('t, handle) p11_call \<Rightarrow> ('t, handle) p11_call" where
  "found_or_zero m = p_bind (p_try m) (\<lambda>r. p_ret (case r of Inl _ \<Rightarrow> 0 | Inr h \<Rightarrow> h))"

definition destroy_if :: "'t p11_ctx \<Rightarrow> session \<Rightarrow> handle \<Rightarrow> ('t, unit) p11_call" where
  "destroy_if C s h = (if h \<noteq> 0 then p_mod (c_DestroyObject C s h) else p_ret ())"

definition p11_DestroyKeyPairOnSlot :: "'t p11_ctx \<Rightarrow> uint64 \<Rightarrow> string \<Rightarrow> ('t, unit) p11_call" where
  "p11_DestroyKeyPairOnSlot C slot keyID =
     on_slot C slot True (\<lambda>s.
       p_bind (found_or_zero (findKey C s keyID [] CKO_PRIVATE_KEY (- 1))) (\<lambda>privHandle.
         p_bind (found_or_zero (findKey C s keyID [] CKO_PUBLIC_KEY (- 1))) (\<lambda>pubHandle.
           p_bind (destroy_if C s privHandle) (\<lambda>_. destroy_if C s pubHandle))))"

definition EncodePublicKeyToPEM :: "p11_env \<Rightarrow> p11_pub \<Rightarrow> (string, string) result" where
  "EncodePublicKeyToPEM E pub =
     (case marshalPKIX E pub of Inl e \<Rightarrow> Err e | Inr der \<Rightarrow> Ok (pemEncode E ''PUBLIC KEY'' der))"

definition getPublicKeyPEM :: "p11_env \<Rightarrow> 't p11_ctx \<Rightarrow> uint64 \<Rightarrow> string \<Rightarrow> ('t, string) p11_call" where
  "getPublicKeyPEM E C slot keyID =
     p_bind (p_msg (''reason=FindKeyPairOnSlot, slotID='' @ itoa (uint slot) @ '', uriID='' @ keyID)
         (p11_FindKeyPairOnSlot E C slot keyID [])) (\<lambda>priv.
       p_bind (p_res (ConvertToPublic (TokenKey priv))) (\<lambda>pub. p_res (EncodePublicKeyToPEM E pub)))"

definition p11_KeyInfo ::
    "p11_env \<Rightarrow> 't p11_ctx \<Rightarrow> uint64 \<Rightarrow> string \<Rightarrow> bool \<Rightarrow> (key_info \<Rightarrow> string option) \<Rightarrow> ('t, key_info) p11_call" where
  "p11_KeyInfo E C slot keyID includePublic cb =
     on_slot C slot True (\<lambda>s.
       p_bind (found_or_zero (findKey C s keyID [] CKO_PRIVATE_KEY (- 1))) (\<lambda>privHandle.
         p_bind (key_attributes C s privHandle) (\<lambda>as.
           p_bind (attr_at as 0) (\<lambda>i.
             p_bind (if includePublic
                     then p_msg (''reason='' @ [CHR 0x27] @ ''failed on GetPublicKey'' @ [CHR 0x27] @ '', slotID='' @ itoa (uint slot) @ '', keyID='' @ go_quote i)
                            (getPublicKeyPEM E C slot i)
                     else p_ret []) (\<lambda>pub.
               p_bind (key_info_of E as) (\<lambda>ki.
                 let ki' = ki\<lparr>kiPublic := pub\<rparr>
                 in case cb ki' of Some e \<Rightarrow> p_res (Err e) | None \<Rightarrow> p_ret ki'))))))"

section \<open>config.go\<close>

text \<open>A pin \<open>file:...\<close> is read from the rest of the text without the leading characters \<open>f\<close>, \<open>i\<close>, \<open>l\<close>, \<open>e\<close> and colon.\<close>

definition p11_LoadTokenConfig :: "prov_env \<Rightarrow> string \<Rightarrow> (string, tokenConfig) result" where
  "p11_LoadTokenConfig E filename =
     (case open_error E filename of
        Some e \<Rightarrow> Err e
      | None \<Rightarrow>
          (case decode_config E filename of
             Inl e \<Rightarrow> Err e
           | Inr tc \<Rightarrow>
               if has_prefix (Pwd tc) ''file:'' then
                 (case os_ReadFile E (dropWhile (\<lambda>c. c \<in> set ''file:'') (Pwd tc)) of
                    Inl e \<Rightarrow> Err e | Inr pb \<Rightarrow> Ok (tc\<lparr>Pwd := pb\<rparr>))
               else Ok tc))"

definition login_if :: "'t p11_ctx \<Rightarrow> bool \<Rightarrow> string \<Rightarrow> session \<Rightarrow> ('t, unit) p11_call" where
  "login_if C required pin s l =
     (if required then
        (case c_Login C s pin (tok l) of
           (Some (CKR e), t) \<Rightarrow> Some (Err (''login into PKCS#11 token: '' @ e), l\<lparr>tok := t\<rparr>)
         | (Some CKR_CRYPTOKI_ALREADY_INITIALIZED, t) \<Rightarrow> Some (Err ''login into PKCS#11 token: CKR_CRYPTOKI_ALREADY_INITIALIZED'', l\<lparr>tok := t\<rparr>)
         | (_, t) \<Rightarrow> Some (Ok (), l\<lparr>tok := t\<rparr>))
      else Some (Ok (), l))"

definition find_slot :: "tokenConfig \<Rightarrow> SlotTokenInfo list \<Rightarrow> SlotTokenInfo option" where
  "find_slot cfg slots = find (\<lambda>sl. stSerial sl = Serial cfg \<or> stLabel sl = Label cfg) slots"

definition p11_Init :: "(string \<Rightarrow> bool) \<Rightarrow> 't p11_ctx \<Rightarrow> tokenConfig \<Rightarrow> 't \<Rightarrow> ((string, 't PKCS11Lib) result \<times> 't) option" where
  "p11_Init loads C cfg t =
     (if \<not> loads (Dir cfg) then Some (Err (Dir cfg @ '': '' @ errCannotOpenPKCS11), t)
      else let (ie, t1) = c_Initialize C t
           in case ie of
                Some (CKR e) \<Rightarrow> Some (Err (''initialize PKCS#11 library: '' @ Dir cfg @ '': '' @ e), t1)
              | Some CKR_USER_ALREADY_LOGGED_IN \<Rightarrow>
                  Some (Err (''initialize PKCS#11 library: '' @ Dir cfg @ '': CKR_USER_ALREADY_LOGGED_IN''), t1)
              | _ \<Rightarrow>
                  (case TokensInfo C t1 of
                     (Inl e, t2) \<Rightarrow> Some (Err (''TokensInfo failed: '' @ e), t2)
                   | (Inr slots, t2) \<Rightarrow>
                       (case find_slot cfg slots of
                          None \<Rightarrow> Some (Err errTokenNotFound, t2)
                        | Some slot \<Rightarrow>
                            (case withSession C (stId slot) (login_if C (stLoginRequired slot) (Pwd cfg))
                                \<lparr>tok = t2, libConfig = cfg, libSlot = slot, sessionPools = [(stId slot, maxSessionsChan, [])],
                                 ctxOpen = True\<rparr> of
                               None \<Rightarrow> None
                             | Some (Ok _, l) \<Rightarrow> Some (Ok l, tok l)
                             | Some (Err e, l) \<Rightarrow> Some (Err (''open PKCS#11 session: '' @ e), tok l)
                             | Some (Panic, l) \<Rightarrow> Some (Panic, tok l)))))"

definition ConfigureFromFile ::
    "prov_env \<Rightarrow> (string \<Rightarrow> bool) \<Rightarrow> 't p11_ctx \<Rightarrow> string \<Rightarrow> 't \<Rightarrow> ((string, 't PKCS11Lib) result \<times> 't) option" where
  "ConfigureFromFile E loads C loc t =
     (case p11_LoadTokenConfig E loc of
        Panic \<Rightarrow> Some (Panic, t)
      | Err e \<Rightarrow> Some (Err (''load p11 config: '' @ go_quote loc @ '': '' @ e), t)
      | Ok cfg \<Rightarrow>
          (case p11_Init loads C cfg t of
             Some (Err e, t') \<Rightarrow> Some (Err (''initialize p11 config: '' @ go_quote loc @ '': '' @ e), t')
           | r \<Rightarrow> r))"

definition lib_Manufacturer :: "'t PKCS11Lib \<Rightarrow> string" where
  "lib_Manufacturer l = Man (libConfig l)"

definition lib_Model :: "'t PKCS11Lib \<Rightarrow> string" where
  "lib_Model l = Mod (libConfig l)"

definition p11_CurrentSlotID :: "'t PKCS11Lib \<Rightarrow> uint64" where
  "p11_CurrentSlotID l = stId (libSlot l)"

definition p11_Close :: "'t p11_ctx \<Rightarrow> 't PKCS11Lib \<Rightarrow> 't PKCS11Lib" where
  "p11_Close C l = (if ctxOpen l then l\<lparr>tok := c_Finalize C (c_Destroy C (tok l)), ctxOpen := False\<rparr> else l)"

end
