(* ===== verification/Pkcs11Facts.thy ===== *)
theory Pkcs11Facts
  imports Pkcs11Keys
begin

text \<open>
  Facts about the keys of xpki/crypto11 that hold for every PKCS #11 module: encodings of numbers, curves and points are
  read back, exported RSA keys have a proper exponent, what is handed to the module for signing.
\<close>

section \<open>Numbers\<close>

lemma be_value_acc: "be_value acc xs = acc * 256 ^ length xs + be_value 0 xs"
proof (induction xs arbitrary: acc)
  case (Cons c cs)
  have "be_value acc (c # cs) = (acc * 256 + of_char c) * 256 ^ length cs + be_value 0 cs"
    by (simp add: Cons [of "acc * 256 + of_char c"])
  moreover have "be_value 0 (c # cs) = of_char c * 256 ^ length cs + be_value 0 cs"
    by (simp add: Cons [of "of_char c"])
  ultimately show ?case by (simp add: algebra_simps)
qed simp

lemma be_value_snoc: "be_value acc (xs @ [c]) = be_value acc xs * 256 + of_char c"
  by (induction xs arbitrary: acc) simp_all

lemma be_value_bytes: "be_value 0 (be_bytes n) = n"
proof (induction n rule: be_bytes.induct)
  case (1 n)
  then show ?case by (subst be_bytes.simps) (auto simp: be_value_snoc of_char_of)
qed

lemma le_value_digits: "be_value 0 (rev (map (\<lambda>i. char_of (n div 256 ^ i)) [0..<k])) = n mod 256 ^ k"
proof (induction k)
  case (Suc k)
  have "be_value 0 (rev (map (\<lambda>i. char_of (n div 256 ^ i)) [0..<Suc k])) =
      (n div 256 ^ k mod 256) * 256 ^ k + be_value 0 (rev (map (\<lambda>i. char_of (n div 256 ^ i)) [0..<k]))"
    by (simp add: be_value_acc [of "n div 256 ^ k mod 256"] of_char_of)
  also have "\<dots> = n mod 256 ^ Suc k"
    by (simp only: Suc power_Suc2 mod_mult2_eq) (simp add: mult.commute)
  finally show ?case .
qed simp

lemma ulong_roundtrip: "BytesToUlong mem (UlongToBytes n) = Ok n"
proof -
  have "unat n < 256 ^ 8" using unsigned_less [of n] by simp
  then have "le_value (UlongToBytes n) = unat n"
    by (simp only: le_value_def UlongToBytes_def le_value_digits mod_less)
  moreover have "length (UlongToBytes n) = 8" "UlongToBytes n \<noteq> []" by (simp_all add: UlongToBytes_def)
  ultimately show ?thesis by (simp add: BytesToUlong_def)
qed

section \<open>Curves and points\<close>

lemma curve_oids_distinct: "distinct (map (fst \<circ> snd) wellKnownCurves)"
  by (simp add: wellKnownCurves_def der_tlv_def der_length_def base128_def base128_high.simps char_of_eq_iff)

lemma curve_loop_member:
  "distinct (map (fst \<circ> snd) cs) \<Longrightarrow> (name, oid, known) \<in> set cs \<Longrightarrow>
   curve_loop oid cs = (if known then Ok name else Err errUnsupportedEllipticCurve)"
  by (induction oid cs rule: curve_loop.induct) (auto simp: image_iff)

lemma curve_loop_other: "b \<notin> (fst \<circ> snd) ` set cs \<Longrightarrow> curve_loop b cs = Err errUnsupportedEllipticCurve"
  by (induction b cs rule: curve_loop.induct) auto

definition go_curves :: "string list" where
  "go_curves = [''P-224'', ''P-256'', ''P-384'', ''P-521'']"

lemma known_curves: "(name, oid, known) \<in> set wellKnownCurves \<Longrightarrow> known \<longleftrightarrow> name \<in> set go_curves"
  by (auto simp: wellKnownCurves_def go_curves_def)

lemma ec_params_roundtrip:
  assumes "marshalEcParams c = Ok b"
  shows "unmarshalEcParams b = (if c \<in> set go_curves then Ok c else Err errUnsupportedEllipticCurve)"
proof -
  obtain known where "mget wellKnownCurves c = Some (b, known)"
    using assms by (auto simp: marshalEcParams_def split: option.splits)
  then have "(c, b, known) \<in> set wellKnownCurves" by (rule map_of_SomeD)
  with curve_loop_member [OF curve_oids_distinct this] known_curves [OF this] show ?thesis
    by (simp add: unmarshalEcParams_def)
qed

text \<open>The order in which Go visits the table is of no importance.\<close>

lemma curve_order_irrelevant:
  assumes "mset cs = mset wellKnownCurves" shows "curve_loop b cs = unmarshalEcParams b"
proof (cases "\<exists>name known. (name, b, known) \<in> set wellKnownCurves")
  case True
  then obtain name known where m: "(name, b, known) \<in> set wellKnownCurves" by blast
  have "(name, b, known) \<in> set cs" using m assms by (metis set_mset_mset)
  moreover have "distinct (map (fst \<circ> snd) cs)"
    using mset_eq_imp_distinct_iff [of "map (fst \<circ> snd) cs" "map (fst \<circ> snd) wellKnownCurves"] assms curve_oids_distinct
    by simp
  ultimately have "curve_loop b cs = (if known then Ok name else Err errUnsupportedEllipticCurve)"
    by (rule curve_loop_member [rotated])
  then show ?thesis
    using curve_loop_member [OF curve_oids_distinct m] by (simp add: unmarshalEcParams_def)
next
  case False
  moreover have "set cs = set wellKnownCurves" using assms by (metis set_mset_mset)
  ultimately have "b \<notin> (fst \<circ> snd) ` set cs" "b \<notin> (fst \<circ> snd) ` set wellKnownCurves" by force+
  then show ?thesis by (simp add: curve_loop_other unmarshalEcParams_def)
qed

lemma two_bytes: "256 \<le> n \<Longrightarrow> n < 65536 \<Longrightarrow> be_bytes n = [char_of (n div 256), char_of (n mod 256)]"
  by (subst be_bytes.simps) (simp add: be_bytes.simps [of "n div 256"] less_mult_imp_div_less)

lemma octet_length_der:
  assumes "length pt < 65536"
  shows "\<exists>r. octet_length (der_tlv 4 pt) = Ok (length pt, r) \<and> drop r (der_tlv 4 pt) = pt \<and> r + length pt = length (der_tlv 4 pt)"
proof -
  consider "length pt < 128" | "128 \<le> length pt" "length pt < 256" | "256 \<le> length pt" by linarith
  then show ?thesis
  proof cases
    case 1
    then show ?thesis by (simp add: octet_length_def der_tlv_def der_length_def of_char_of)
  next
    case 2
    then have "be_bytes (length pt) = [char_of (length pt)]" by (simp add: be_bytes.simps)
    with 2 show ?thesis by (simp add: octet_length_def der_tlv_def der_length_def of_char_of)
  next
    case 3
    with assms have "be_bytes (length pt) = [char_of (length pt div 256), char_of (length pt mod 256)]"
      by (intro two_bytes)
    moreover have "length pt div 256 < 256" using assms by (simp add: less_mult_imp_div_less)
    ultimately show ?thesis
      using 3 by (simp add: octet_length_def der_tlv_def der_length_def of_char_of)
  qed
qed

lemma octet_tag: "char_of (4 :: nat) = CHR 0x04"
  by code_simp

lemma ec_point_roundtrip:
  "length pt < 65536 \<Longrightarrow> unmarshalPoint E c pt = Some xy \<Longrightarrow> unmarshalEcPoint E (der_tlv 4 pt) c = Ok xy"
proof -
  assume "length pt < 65536" and pt: "unmarshalPoint E c pt = Some xy"
  then obtain r where "octet_length (der_tlv 4 pt) = Ok (length pt, r)" "drop r (der_tlv 4 pt) = pt" "r + length pt = length (der_tlv 4 pt)"
    using octet_length_der by blast
  moreover have "der_tlv 4 pt ! 0 = CHR 0x04" "length (der_tlv 4 pt) \<noteq> 0"
    by (simp_all add: der_tlv_def octet_tag)
  ultimately show ?thesis using pt by (simp add: unmarshalEcPoint_def)
qed

section \<open>Exported keys\<close>

lemma p_bind_simps [simp]:
  "p_bind (p_ret x) f l = f x l" "p_bind (p_res (Ok x)) f l = f x l" "p_bind (p_res (Err e)) f l = Some (Err e, l)"
  "p_bind (p_res Panic) f l = Some (Panic, l)"
  by (simp_all add: p_bind_def p_ret_def p_res_def)

lemma p_bind_mod:
  "c (tok l) = (Inr x, t) \<Longrightarrow> p_bind (p_mod c) f l = f x (l\<lparr>tok := t\<rparr>)"
  "c (tok l) = (Inl e, t) \<Longrightarrow> p_bind (p_mod c) f l = Some (Err e, l\<lparr>tok := t\<rparr>)"
  by (simp_all add: p_bind_def p_mod_def)

lemma p_bind_Ok: "p_bind m f l = Some (Ok y, l2) \<longleftrightarrow> (\<exists>x l1. m l = Some (Ok x, l1) \<and> f x l1 = Some (Ok y, l2))"
  by (auto simp: p_bind_def split: option.splits prod.splits result.splits)

lemma p_ret_Ok: "p_ret x l = Some (Ok y, l') \<longleftrightarrow> y = x \<and> l' = l" "p_res r l = Some (Ok y, l') \<longleftrightarrow> r = Ok y \<and> l' = l"
  "p_res (Err e) l = Some (Ok y, l') \<longleftrightarrow> False" "p_res Panic l = Some (Ok y, l') \<longleftrightarrow> False"
  by (auto simp: p_ret_def p_res_def)

lemma p_mod_Ok: "p_mod c l = Some (Ok x, l') \<longleftrightarrow> (\<exists>t. c (tok l) = (Inr x, t) \<and> l' = l\<lparr>tok := t\<rparr>)"
  by (auto simp: p_mod_def split: prod.splits sum.splits)

lemma p_msg_Ok [simp]: "p_msg text m l = Some (Ok x, l') \<longleftrightarrow> m l = Some (Ok x, l')"
  by (auto simp: p_msg_def split: option.splits prod.splits result.splits)

lemma attr_at_Ok: "attr_at as i l = Some (Ok v, l') \<longleftrightarrow> i < length as \<and> v = as ! i \<and> l' = l"
  by (auto simp: attr_at_def p_ret_Ok)

lemmas p_Ok = p_bind_Ok p_ret_Ok p_mod_Ok attr_at_Ok

text \<open>C40. The public key of an ECDSA key on the token is exported as it was generated: the parameters written for a curve of the
  standard library are read back to that curve, in whatever order the table is visited, and the point of any length a
  curve needs is taken out of its octet string.\<close>

theorem ecdsa_public_exported:
  assumes "c \<in> set go_curves" and "marshalEcParams c = Ok params" and "length pt < 65536" and "unmarshalPoint E c pt = Some (x, y)"
    and "c_GetAttributeValue C s h [CKA_ECDSA_PARAMS, CKA_EC_POINT] (tok l) = (Inr [params, der_tlv 4 pt], t)"
    and "mset cs = mset wellKnownCurves"
  shows "exportECDSAPublicKey E C s h l = Some (Ok (EcPub c x y), l\<lparr>tok := t\<rparr>) \<and> curve_loop params cs = Ok c"
proof -
  have "unmarshalEcParams params = Ok c" using ec_params_roundtrip [OF assms(2)] assms(1) by simp
  moreover have "unmarshalEcPoint E (der_tlv 4 pt) c = Ok (x, y)" using ec_point_roundtrip assms(3,4) by blast
  ultimately show ?thesis
    using assms(5) curve_order_irrelevant [OF assms(6)]
    by (simp add: exportECDSAPublicKey_def p_bind_mod attr_at_def) (simp add: p_ret_def)
qed

text \<open>A token that answers every request for attributes with the parameters of P-256 and one point.\<close>

definition point_env :: p11_env where
  "point_env = \<lparr>utcNow = [], memAfter = [], addressOf = (\<lambda>_. 0), unmarshalPoint = (\<lambda>_ pt. if pt = ''xy'' then Some (1, 2) else None),
     marshalPKIX = (\<lambda>_. Inl []), pemEncode = (\<lambda>_ d. d)\<rparr>"

lemma p256_params: "\<exists>params. marshalEcParams ''P-256'' = Ok params"
  by (simp add: marshalEcParams_def wellKnownCurves_def)

theorem ecdsa_public_exported_witness:
  "\<forall>C :: unit p11_ctx. \<forall>l. \<exists>params.
     exportECDSAPublicKey point_env (C\<lparr>c_GetAttributeValue := (\<lambda>s h as t. (Inr [params, der_tlv 4 ''xy''], t))\<rparr>) 0 0 l =
       Some (Ok (EcPub ''P-256'' 1 2), l)"
proof (intro allI)
  fix C :: "unit p11_ctx" and l :: "unit PKCS11Lib"
  obtain params where params: "marshalEcParams ''P-256'' = Ok params" using p256_params by blast
  let ?C = "C\<lparr>c_GetAttributeValue := (\<lambda>s h as t. (Inr [params, der_tlv 4 ''xy''], t))\<rparr>"
  have "exportECDSAPublicKey point_env ?C 0 0 l = Some (Ok (EcPub ''P-256'' 1 2), l\<lparr>tok := tok l\<rparr>)"
    using ecdsa_public_exported [where C = ?C and s = 0 and h = 0 and l = l and E = point_env and pt = "''xy''" and x = 1 and y = 2
      and cs = wellKnownCurves and t = "tok l", OF _ params] by (simp add: go_curves_def point_env_def)
  then show "\<exists>params. exportECDSAPublicKey point_env (C\<lparr>c_GetAttributeValue := (\<lambda>s h as t. (Inr [params, der_tlv 4 ''xy''], t))\<rparr>) 0 0 l =
       Some (Ok (EcPub ''P-256'' 1 2), l)"
    by (intro exI [of _ params]) (cases l, simp)
qed

text \<open>An exported RSA key has an exponent of at most 32 bits and at least 2, so it validates.\<close>

lemma rsa_exported_exponent:
  assumes "exportRSAPublicKey C s h l = Some (Ok pub, l')"
  shows "\<exists>n e. pub = RsaPub n e \<and> 2 \<le> e \<and> e < 2 ^ 32 \<and> rsa_Validate pub = Ok ()"
  using assms
  by (auto simp: exportRSAPublicKey_def p_Ok Let_def rsa_Validate_def split: if_splits)

section \<open>Signing\<close>

text \<open>For an RSA signature the module is given the digest with its prefix, but for a hash that is not in the table the bare
  digest; the slot of the key is not looked at.\<close>

lemma unknown_hash_bare_digest: "signPKCS1v15 C s h dgst HMD5 = sign_with C s (CKM_RSA_PKCS, []) h dgst"
  by (simp add: signPKCS1v15_def digest_info_def pkcs1Prefix_def)

lemma signing_ignores_slot: "rsa_Sign C (ob\<lparr>objSlot := slot\<rparr>) dgst opts = rsa_Sign C ob dgst opts"
  by (cases opts) (simp_all add: rsa_Sign_def fun_eq_iff)

text \<open>A signature of odd length is not reported as malformed but as an empty integer.\<close>

lemma malformed_signature_error:
  assumes "withSession C slot (\<lambda>s. sign_with C s (m, []) key dgst) l = Some (Ok sigBytes, l')" and "length sigBytes mod 2 \<noteq> 0"
  shows "dsaGeneric C slot key m dgst l = Some (Err ''asn1: structure error: empty integer'', l')"
  using assms by (simp add: dsaGeneric_def p_bind_def unmarshalBytes_def marshalDER_def p_res_def)

text \<open>A pin file whose name starts with a letter of \<open>file\<close> is looked up under another name.\<close>

lemma pin_file_name_cut:
  "open_error E f = None \<Longrightarrow> decode_config E f = Inr (empty_token\<lparr>Pwd := ''file:life.pin''\<rparr>) \<Longrightarrow>
   os_ReadFile E ''.pin'' = Inl e \<Longrightarrow> p11_LoadTokenConfig E f = Err e"
  by (simp add: p11_LoadTokenConfig_def has_prefix_def)

text \<open>A token without label is found by a configuration without label, whatever its serial number is.\<close>

lemma unlabelled_token_matches: "stLabel sl = [] \<Longrightarrow> Label cfg = [] \<Longrightarrow> find_slot cfg (sl # slots) = Some sl"
  by (simp add: find_slot_def)

end
