(* ===== verification/SessionPool.thy ===== *)
theory SessionPool
  imports Pkcs11
begin

text \<open>
  The session pool of xpki/crypto11/sessions.go under concurrency: any number of goroutines run operations with a session,
  also one inside another. The select, which takes a session from the channel or finds it empty, and the opening of a session
  after it are separate steps; so are the end of an operation and the deferred send. Every operation has its sessions for
  itself, and the send never blocks as long as no more operations are in progress at a time than the channel holds, those
  included that are still opening a session; counting only the sessions in use is not enough.
\<close>

section \<open>The protocol\<close>

type_synonym thread = nat

record 's pool_sys =
  pool :: "'s list"
  held :: "thread \<Rightarrow> 's list"
  asking :: "thread set"
  ending :: "thread \<Rightarrow> bool"
  opened :: "'s set"

definition empty_pool :: "'s pool_sys" where
  "empty_pool = \<lparr>pool = [], held = (\<lambda>_. []), asking = {}, ending = (\<lambda>_. False), opened = {}\<rparr>"

text \<open>A goroutine that runs its own code, inside an operation or not, and is neither opening a session nor giving one back.\<close>

definition running :: "'s pool_sys \<Rightarrow> thread \<Rightarrow> bool" where
  "running s t \<longleftrightarrow> t \<notin> asking s \<and> \<not> ending s t"

inductive pool_step :: "nat \<Rightarrow> 's pool_sys \<Rightarrow> 's pool_sys \<Rightarrow> bool" for cap where
  receive: "pool s = x # xs \<Longrightarrow> running s t \<Longrightarrow>
    pool_step cap s (s\<lparr>pool := xs, held := (held s)(t := x # held s t)\<rparr>)"
| none_free: "pool s = [] \<Longrightarrow> running s t \<Longrightarrow> pool_step cap s (s\<lparr>asking := insert t (asking s)\<rparr>)"
| new_session: "t \<in> asking s \<Longrightarrow> x \<notin> opened s \<Longrightarrow>
    pool_step cap s (s\<lparr>held := (held s)(t := x # held s t), asking := asking s - {t}, opened := insert x (opened s)\<rparr>)"
| open_fails: "t \<in> asking s \<Longrightarrow> pool_step cap s (s\<lparr>asking := asking s - {t}\<rparr>)"
| finish: "held s t \<noteq> [] \<Longrightarrow> running s t \<Longrightarrow> pool_step cap s (s\<lparr>ending := (ending s)(t := True)\<rparr>)"
| send: "held s t = x # xs \<Longrightarrow> ending s t \<Longrightarrow> length (pool s) < cap \<Longrightarrow>
    pool_step cap s (s\<lparr>pool := pool s @ [x], held := (held s)(t := xs), ending := (ending s)(t := False)\<rparr>)"

inductive_cases pool_stepE: "pool_step cap s s'"

definition in_use :: "'s pool_sys \<Rightarrow> 's set" where
  "in_use s = (\<Union>t. set (held s t))"

text \<open>The operations in progress: those with a session, and those that found the channel empty and have none yet.\<close>

definition in_progress :: "'s pool_sys \<Rightarrow> nat" where
  "in_progress s = card (in_use s) + card (asking s)"

text \<open>Runs all of whose states satisfy \<open>Q\<close>.\<close>

inductive pool_run :: "nat \<Rightarrow> ('s pool_sys \<Rightarrow> bool) \<Rightarrow> 's pool_sys \<Rightarrow> bool" for cap Q where
  start: "pool_run cap Q empty_pool"
| step: "pool_run cap Q s \<Longrightarrow> pool_step cap s s' \<Longrightarrow> Q s' \<Longrightarrow> pool_run cap Q s'"

section \<open>The invariant\<close>

definition pool_inv :: "'s pool_sys \<Rightarrow> bool" where
  "pool_inv s \<longleftrightarrow>
     distinct (pool s) \<and> (\<forall>t. distinct (held s t)) \<and> (\<forall>t t'. t \<noteq> t' \<longrightarrow> set (held s t) \<inter> set (held s t') = {}) \<and>
     set (pool s) \<inter> in_use s = {} \<and> opened s = set (pool s) \<union> in_use s \<and> finite (in_use s) \<and> finite (asking s) \<and>
     (\<forall>t. ending s t \<longrightarrow> held s t \<noteq> [])"

lemma in_use_iff: "x \<in> in_use s \<longleftrightarrow> (\<exists>t. x \<in> set (held s t))"
  by (simp add: in_use_def)

lemma in_use_flags [simp]: "in_use (s\<lparr>ending := e\<rparr>) = in_use s" "in_use (s\<lparr>asking := b\<rparr>) = in_use s"
  by (simp_all add: in_use_def)

lemma inv_receive:
  assumes inv: "pool_inv s" and p: "pool s = x # xs" and t: "running s t"
  shows "pool_inv (s\<lparr>pool := xs, held := (held s)(t := x # held s t)\<rparr>)" (is "pool_inv ?s")
proof -
  have use: "in_use ?s = insert x (in_use s)" by (auto simp: in_use_iff split: if_splits)
  have "x \<notin> in_use s" using inv p by (auto simp: pool_inv_def)
  then have new: "x \<notin> set (held s t')" for t' by (auto simp: in_use_iff)
  show ?thesis
    unfolding pool_inv_def use using inv p new t by (auto simp: pool_inv_def)
qed

lemma inv_new_session:
  assumes inv: "pool_inv s" and t: "t \<in> asking s" and x: "x \<notin> opened s"
  shows "pool_inv (s\<lparr>held := (held s)(t := x # held s t), asking := asking s - {t}, opened := insert x (opened s)\<rparr>)"
    (is "pool_inv ?s")
proof -
  have use: "in_use ?s = insert x (in_use s)" by (auto simp: in_use_iff split: if_splits)
  have new: "x \<notin> set (held s t')" for t' using x inv in_use_iff [of x s] by (auto simp: pool_inv_def)
  have fin: "finite (asking ?s)" using inv by (simp add: pool_inv_def)
  have "x \<notin> set (pool s)" "set (pool s) \<inter> in_use s = {}" "opened s = set (pool s) \<union> in_use s"
    using inv x by (auto simp: pool_inv_def)
  then show ?thesis
    unfolding pool_inv_def use using fin inv new by (auto simp: pool_inv_def)
qed

lemma inv_send:
  assumes inv: "pool_inv s" and h: "held s t = x # xs"
  shows "pool_inv (s\<lparr>pool := pool s @ [x], held := (held s)(t := xs), ending := (ending s)(t := False)\<rparr>)" (is "pool_inv ?s")
proof -
  have own: "x \<notin> set (held s t')" if "t' \<noteq> t" for t'
    using inv h that by (fastforce simp: pool_inv_def)
  have x: "x \<notin> set xs" using inv h by (metis distinct.simps(2) pool_inv_def)
  have use: "in_use ?s = in_use s - {x}"
  proof (rule set_eqI)
    fix y
    have "(\<exists>t'. y \<in> set (((held s)(t := xs)) t')) \<longleftrightarrow> y \<in> set xs \<or> (\<exists>t'. t' \<noteq> t \<and> y \<in> set (held s t'))"
      by (metis fun_upd_other fun_upd_same)
    moreover have "(\<exists>t'. y \<in> set (held s t')) \<longleftrightarrow> y = x \<or> y \<in> set xs \<or> (\<exists>t'. t' \<noteq> t \<and> y \<in> set (held s t'))"
      by (metis h set_ConsD list.set_intros)
    ultimately show "y \<in> in_use ?s \<longleftrightarrow> y \<in> in_use s - {x}" using own x by (auto simp: in_use_iff)
  qed
  have "x \<in> in_use s" using h by (auto simp: in_use_iff intro: exI [of _ t])
  moreover have "distinct xs" using inv h by (metis distinct.simps(2) pool_inv_def)
  moreover have apart: "set xs \<inter> set (held s t') = {}" "set (held s t') \<inter> set xs = {}" if "t' \<noteq> t" for t'
    using inv h that by (fastforce simp: pool_inv_def)+
  ultimately show ?thesis
    unfolding pool_inv_def use using inv h by (simp add: pool_inv_def) (use apart in \<open>auto simp: insert_absorb\<close>)
qed

lemma pool_step_inv:
  assumes "pool_step cap s s'" and "pool_inv s"
  shows "pool_inv s'"
  using assms
proof (cases rule: pool_step.cases)
  case (none_free t)
  then show ?thesis using assms(2) by (simp add: pool_inv_def)
next
  case (open_fails t)
  then show ?thesis using assms(2) by (simp add: pool_inv_def)
next
  case (finish t)
  then show ?thesis using assms(2) by (auto simp: pool_inv_def)
qed (auto intro: inv_receive inv_new_session inv_send)

lemma pool_run_inv: "pool_run cap Q s \<Longrightarrow> pool_inv s"
proof (induction rule: pool_run.induct)
  case start
  show ?case by (simp add: pool_inv_def empty_pool_def in_use_def)
qed (rule pool_step_inv)

text \<open>A session is opened only by an operation that found every session in use, so the sessions that exist and those that are being
  opened are never more than the operations that were in progress at one time.\<close>

lemma pool_run_opened:
  assumes "pool_run cap (\<lambda>s. in_progress s \<le> N) s"
  shows "card (opened s) + card (asking s) \<le> N"
  using assms
proof (induction rule: pool_run.induct)
  case start
  show ?case by (simp add: empty_pool_def)
next
  case (step s s')
  note inv = pool_run_inv [OF step.hyps(1)]
  from step.hyps(2) show ?case
  proof (cases rule: pool_step.cases)
    case (none_free t)
    then have "opened s' = in_use s'" using inv by (simp add: pool_inv_def)
    then show ?thesis using step.hyps(3) by (simp add: in_progress_def)
  next
    case (new_session t x)
    have "finite (asking s)" "finite (opened s)" using inv by (simp_all add: pool_inv_def)
    then have "card (asking s) = Suc (card (asking s - {t}))"
      using new_session card.remove [of "asking s" t] by simp
    then show ?thesis using new_session \<open>finite (opened s)\<close> step.IH by simp
  next
    case (open_fails t)
    have "card (asking s - {t}) \<le> card (asking s)"
      using inv by (intro card_mono) (auto simp: pool_inv_def)
    then show ?thesis using open_fails step.IH by simp
  qed (use step.IH in simp_all)
qed

text \<open>C17. In every interleaving an operation has its session for itself: no session is held by two goroutines, twice by one, or
  is in the pool while it is held. As long as at most \<open>N\<close> operations are in progress at a time, those included that are
  opening a session, at most \<open>N\<close> sessions exist, and where that is no more than the pool holds an operation that ends can give
  its session back.\<close>

theorem sessions_exclusive:
  assumes run: "pool_run cap Q s"
  shows "(x \<in> set (held s t) \<and> x \<in> set (held s t') \<longrightarrow> t = t') \<and> distinct (held s t) \<and>
    (x \<in> set (held s t) \<longrightarrow> x \<notin> set (pool s)) \<and>
    (Q = (\<lambda>s. in_progress s \<le> N) \<longrightarrow> card (opened s) \<le> N \<and>
      (N \<le> cap \<and> ending s t \<longrightarrow> (\<exists>s'. pool_step cap s s' \<and> held s' t = tl (held s t) \<and> \<not> ending s' t)))"
proof -
  note inv = pool_run_inv [OF run]
  have "\<exists>s'. pool_step cap s s' \<and> held s' t = tl (held s t) \<and> \<not> ending s' t"
    if N: "card (opened s) \<le> N" and cap: "N \<le> cap" and e: "ending s t"
  proof -
    obtain y ys where y: "held s t = y # ys" using inv e by (cases "held s t") (auto simp: pool_inv_def)
    then have "y \<in> in_use s" by (auto simp: in_use_iff intro: exI [of _ t])
    then have "y \<in> opened s" "y \<notin> set (pool s)" "set (pool s) \<subseteq> opened s" "finite (opened s)" "distinct (pool s)"
      using inv by (auto simp: pool_inv_def)
    then have "length (pool s) < card (opened s)"
      by (metis distinct_card psubsetI psubset_card_mono)
    with N cap have "length (pool s) < cap" by simp
    from send [OF y e this] show ?thesis by (auto simp: y)
  qed
  moreover have "card (opened s) \<le> N" if "Q = (\<lambda>s. in_progress s \<le> N)"
    using pool_run_opened [of cap N s] run that by simp
  moreover have "t = t'" if "x \<in> set (held s t)" "x \<in> set (held s t')" using inv that by (fastforce simp: pool_inv_def)
  moreover have "x \<notin> set (pool s)" if "x \<in> set (held s t)"
    using inv that in_use_iff [of x s] by (auto simp: pool_inv_def)
  ultimately show ?thesis using inv by (auto simp: pool_inv_def)
qed

section \<open>One operation too many\<close>

text \<open>\<open>n\<close> goroutines have opened a session each, \<open>j\<close> of them have given it back, and where \<open>b\<close> holds goroutine \<open>n\<close> found the channel
  empty meanwhile.\<close>

definition returned :: "bool \<Rightarrow> nat \<Rightarrow> nat \<Rightarrow> nat pool_sys" where
  "returned b n j =
     \<lparr>pool = [0..<j], held = (\<lambda>t. if j \<le> t \<and> t < n then [t] else []), asking = (if b then {n} else {}), ending = (\<lambda>_. False),
      opened = {..<n}\<rparr>"

lemma in_use_returned: "in_use (returned b n j) = {j..<n}"
  by (auto simp: in_use_iff returned_def split: if_splits)

text \<open>The bounds on runs that the example satisfies: any that allow \<open>n\<close> sessions in use and one goroutine more.\<close>

definition allows :: "nat \<Rightarrow> (nat pool_sys \<Rightarrow> bool) \<Rightarrow> bool" where
  "allows n Q \<longleftrightarrow> (\<forall>s. card (in_use s) + card (asking s) \<le> Suc n \<and> card (in_use s) \<le> n \<longrightarrow> Q s)"

lemma in_progress_returned: "in_progress (returned b n j) = n - j + (if b then 1 else 0)"
  by (simp add: in_progress_def in_use_returned) (simp add: returned_def)

lemma run_returned:
  assumes Q: "allows m Q" and run: "pool_run cap Q s" and n: "n - j \<le> m"
  shows "pool_step cap s (returned b n j) \<Longrightarrow> pool_run cap Q (returned b n j)"
    and "pool_step cap s ((returned b n j)\<lparr>ending := e\<rparr>) \<Longrightarrow> pool_run cap Q ((returned b n j)\<lparr>ending := e\<rparr>)"
proof -
  have "in_progress (returned b n j) \<le> Suc m" using n by (simp add: in_progress_returned)
  then have "Q (returned b n j)" and "Q ((returned b n j)\<lparr>ending := e\<rparr>)"
    using Q n by (simp_all add: allows_def in_progress_def in_use_returned)
  then show "pool_step cap s (returned b n j) \<Longrightarrow> pool_run cap Q (returned b n j)"
    and "pool_step cap s ((returned b n j)\<lparr>ending := e\<rparr>) \<Longrightarrow> pool_run cap Q ((returned b n j)\<lparr>ending := e\<rparr>)"
    using pool_run.step [where Q = Q, OF run] by blast+
qed

lemma goroutine_finds_none:
  "pool_step cap (returned False n 0) (returned True n 0)"
proof -
  have "pool_step cap (returned False n 0) ((returned False n 0)\<lparr>asking := insert n (asking (returned False n 0))\<rparr>)"
    by (rule none_free) (simp_all add: returned_def running_def)
  also have "(returned False n 0)\<lparr>asking := insert n (asking (returned False n 0))\<rparr> = returned True n 0"
    by (auto simp: returned_def fun_eq_iff)
  finally show ?thesis .
qed

lemma goroutine_opens: "j \<le> n \<Longrightarrow> pool_step cap (returned True n j) (returned False (Suc n) j)"
proof -
  let ?s = "returned True n j"
  assume "j \<le> n"
  have "pool_step cap ?s (?s\<lparr>held := (held ?s)(n := n # held ?s n), asking := asking ?s - {n}, opened := insert n (opened ?s)\<rparr>)"
    by (rule new_session) (simp_all add: returned_def)
  also have "?s\<lparr>held := (held ?s)(n := n # held ?s n), asking := asking ?s - {n}, opened := insert n (opened ?s)\<rparr> =
      returned False (Suc n) j"
    using \<open>j \<le> n\<close> by (auto simp: returned_def fun_eq_iff)
  finally show ?thesis .
qed

lemma all_opened: "allows m Q \<Longrightarrow> n \<le> m \<Longrightarrow> pool_run cap Q (returned False n 0)"
proof (induction n)
  case 0
  have "returned False 0 0 = empty_pool" by (auto simp: returned_def empty_pool_def)
  then show ?case using start by simp
next
  case (Suc n)
  then have "pool_run cap Q (returned False n 0)" by simp
  then have "pool_run cap Q (returned True n 0)"
    by (rule run_returned(1) [OF Suc.prems(1) _ _ goroutine_finds_none]) (use Suc.prems(2) in simp)
  then show ?case
    by (rule run_returned(1) [OF Suc.prems(1) _ _ goroutine_opens]) (use Suc.prems(2) in simp_all)
qed

lemma some_returned:
  assumes Q: "allows m Q" and n: "n \<le> m" and run: "pool_run cap Q (returned b n 0)"
  shows "j \<le> cap \<Longrightarrow> j \<le> n \<Longrightarrow> pool_run cap Q (returned b n j)"
proof (induction j)
  case (Suc j)
  let ?s = "returned b n j" and ?e = "(returned b n j)\<lparr>ending := (ending (returned b n j))(j := True)\<rparr>"
  have "pool_step cap ?s ?e" using Suc.prems by (intro finish) (simp_all add: returned_def running_def)
  then have "pool_run cap Q ?e"
    by (rule run_returned(2) [OF Q, rotated 2]) (use Suc n in simp_all)
  moreover have "pool_step cap ?e (?e\<lparr>pool := pool ?e @ [j], held := (held ?e)(j := []), ending := (ending ?e)(j := False)\<rparr>)"
    using Suc.prems by (intro send) (simp_all add: returned_def)
  moreover have "?e\<lparr>pool := pool ?e @ [j], held := (held ?e)(j := []), ending := (ending ?e)(j := False)\<rparr> = returned b n (Suc j)"
    using Suc.prems by (auto simp: returned_def fun_eq_iff)
  ultimately show ?case
    using run_returned(1) [OF Q, of cap ?e n "Suc j" b] n by simp
qed (use run in simp)

text \<open>A goroutine that finds the channel empty opens a session also when the sessions in use come back before it does. So even with
  never more sessions in use than the channel holds, a goroutine at the end of its operation can be left waiting while no
  other goroutine runs one.\<close>

lemma send_blocks:
  assumes cap: "0 < cap"
  shows "\<exists>s :: nat pool_sys. pool_run cap (\<lambda>s. card (in_use s) \<le> cap \<and> in_progress s \<le> Suc cap) s \<and> ending s cap \<and>
    length (pool s) = cap \<and> (\<forall>t. t \<noteq> cap \<longrightarrow> held s t = []) \<and> (\<forall>s'. pool_step cap s s' \<longrightarrow> ending s' cap)"
proof -
  define Q where "Q = (\<lambda>s :: nat pool_sys. card (in_use s) \<le> cap \<and> in_progress s \<le> Suc cap)"
  have Q: "allows cap Q" by (simp add: allows_def Q_def in_progress_def)
  let ?s = "returned False (Suc cap) cap" and ?e = "(returned False (Suc cap) cap)\<lparr>ending := (\<lambda>t. t = cap)\<rparr>"
  have "pool_run cap Q (returned False cap 0)" by (rule all_opened [OF Q]) simp
  then have "pool_run cap Q (returned True cap 0)"
    using run_returned(1) [OF Q _ _ goroutine_finds_none] by simp
  from some_returned [OF Q order_refl this order_refl order_refl] have "pool_run cap Q (returned True cap cap)" .
  then have run: "pool_run cap Q ?s"
    by (rule run_returned(1) [OF Q _ _ goroutine_opens]) (use cap in simp_all)
  have "pool_step cap ?s (?s\<lparr>ending := (ending ?s)(cap := True)\<rparr>)" by (rule finish) (simp_all add: returned_def running_def)
  moreover have "?s\<lparr>ending := (ending ?s)(cap := True)\<rparr> = ?e" by (auto simp: returned_def fun_eq_iff)
  ultimately have "pool_run cap Q ?e"
    using run_returned(2) [OF Q run, of "Suc cap" cap _ False] cap by simp
  moreover have "ending s' cap" if "pool_step cap ?e s'" for s'
    using that by (cases rule: pool_step.cases) (auto simp: returned_def running_def split: if_splits)
  ultimately show ?thesis unfolding Q_def by (intro exI [of _ ?e]) (auto simp: returned_def)
qed

text \<open>Two goroutines with a session each, one of them at its end.\<close>

lemma demo_run:
  "pool_run 1024 (\<lambda>s. in_progress s \<le> 3) ((returned False 2 0)\<lparr>ending := (ending (returned False 2 0))(0 := True)\<rparr>)"
proof (rule pool_run.step)
  show "pool_run 1024 (\<lambda>s. in_progress s \<le> 3) (returned False 2 0)"
    by (rule all_opened [of 2]) (simp_all add: allows_def in_progress_def)
  show "pool_step 1024 (returned False 2 0) ((returned False 2 0)\<lparr>ending := (ending (returned False 2 0))(0 := True)\<rparr>)"
    by (rule finish) (simp_all add: returned_def running_def)
qed (use in_progress_returned [of False 2 0] in \<open>simp add: in_progress_def\<close>)

theorem sessions_exclusive_witness:
  "\<exists>s'. pool_step 1024 ((returned False 2 0)\<lparr>ending := (ending (returned False 2 0))(0 := True)\<rparr>) s' \<and> held s' 0 = [] \<and> \<not> ending s' 0"
  using sessions_exclusive [OF demo_run, of 0 0 0 3] by (auto simp: returned_def)

text \<open>Without a pool for its slot \<open>withSession\<close> does not return, whatever its operation does: it is documented to panic.\<close>

lemma missing_pool_blocks:
  assumes "mget (sessionPools l) slot = None" and "c_OpenSession C slot True (tok l) = (Inr s, t)"
  shows "withSession C slot f l = None"
  using assms by (simp add: withSession_def get_session_def NewSession_def p_mod_def put_session_def split: option.split prod.split)

end
