(* ===== verification/TokenContract.thy ===== *)
theory TokenContract
  imports Pkcs11Facts SessionPool
begin

text \<open>
  What xpki/crypto11 promises on a token that does what the PKCS #11 standard says: a key that was generated is found again by
  its identifier. The contract of a module is stated over a view of its state: the objects on each slot and the slot of each
  open session. Keys that are destroyed or used through the wrong slot are shown on a small token of this kind.
\<close>

section \<open>The contract of a module\<close>

type_synonym cka_attrs = "(CKA \<times> string) list"

record 't view =
  objs :: "'t \<Rightarrow> uint64 \<Rightarrow> (handle \<times> cka_attrs) list"
  slotOf :: "'t \<Rightarrow> session \<Rightarrow> uint64 option"

fun attr_bytes :: "cka_value \<Rightarrow> string" where
  "attr_bytes (VUlong n) = UlongToBytes n"
| "attr_bytes (VInt i) = UlongToBytes (of_int i)"
| "attr_bytes (VBytes b) = b"
| "attr_bytes (VBool b) = [if b then CHR 0x01 else CHR 0x00]"

definition has_attrs :: "cka_template \<Rightarrow> cka_attrs \<Rightarrow> bool" where
  "has_attrs tmpl a = list_all (\<lambda>(k, v). map_of a k = Some (attr_bytes v)) tmpl"

fun key_type_of :: "CKM \<Rightarrow> uint64" where
  "key_type_of CKM_RSA_PKCS_KEY_PAIR_GEN = CKK_RSA"
| "key_type_of CKM_ECDSA_KEY_PAIR_GEN = CKK_ECDSA"
| "key_type_of CKM_DSA_KEY_PAIR_GEN = CKK_DSA"
| "key_type_of _ = - 1"

definition keeps :: "'t view \<Rightarrow> ('t, 'a) module_call \<Rightarrow> bool" where
  "keeps V c \<longleftrightarrow> (\<forall>t r t'. c t = (r, t') \<longrightarrow> objs V t' = objs V t \<and> slotOf V t' = slotOf V t)"

text \<open>A new session belongs to its slot; searching finds the objects with all attributes of the template, in order; attributes are
  those of the object; a new pair has the attributes of its templates and new handles; nothing else changes.\<close>

definition opens_sessions :: "'t view \<Rightarrow> 't p11_ctx \<Rightarrow> bool" where
  "opens_sessions V C \<longleftrightarrow>
     (\<forall>slot rw t r t'. c_OpenSession C slot rw t = (r, t') \<longrightarrow> objs V t' = objs V t \<and>
        (case r of Inl _ \<Rightarrow> slotOf V t' = slotOf V t
         | Inr s \<Rightarrow> slotOf V t s = None \<and> slotOf V t' = (slotOf V t)(s \<mapsto> slot)))"

definition finds_objects :: "'t view \<Rightarrow> 't p11_ctx \<Rightarrow> bool" where
  "finds_objects V C \<longleftrightarrow>
     (\<forall>s tmpl. keeps V (c_FindObjectsInit C s tmpl)) \<and> (\<forall>s n. keeps V (c_FindObjects C s n)) \<and>
     (\<forall>s t. objs V (c_FindObjectsFinal C s t) = objs V t \<and> slotOf V (c_FindObjectsFinal C s t) = slotOf V t) \<and>
     (\<forall>s slot tmpl n t. slotOf V t s = Some slot \<longrightarrow>
        (\<exists>t1 t2. c_FindObjectsInit C s tmpl t = (Inr (), t1) \<and>
           c_FindObjects C s n t1 = (Inr (take n (map fst (filter (\<lambda>ob. has_attrs tmpl (snd ob)) (objs V t slot)))), t2)))"

definition reads_attributes :: "'t view \<Rightarrow> 't p11_ctx \<Rightarrow> bool" where
  "reads_attributes V C \<longleftrightarrow>
     (\<forall>s h ks. keeps V (c_GetAttributeValue C s h ks)) \<and>
     (\<forall>s slot h a ks vs t. slotOf V t s = Some slot \<and> map_of (objs V t slot) h = Some a \<longrightarrow>
        ((\<exists>t'. c_GetAttributeValue C s h ks t = (Inr vs, t')) \<longleftrightarrow> map (map_of a) ks = map Some vs))"

definition generates_pairs :: "'t view \<Rightarrow> 't p11_ctx \<Rightarrow> bool" where
  "generates_pairs V C \<longleftrightarrow>
     (\<forall>s slot m pt vt t ph vh t'. slotOf V t s = Some slot \<and> c_GenerateKeyPair C s m pt vt t = (Inr (ph, vh), t') \<longrightarrow>
        slotOf V t' = slotOf V t \<and> ph \<noteq> vh \<and> ph \<notin> fst ` set (objs V t slot) \<and> vh \<notin> fst ` set (objs V t slot) \<and>
        (\<exists>pa va. objs V t' = (objs V t)(slot := objs V t slot @ [(ph, pa), (vh, va)]) \<and> has_attrs pt pa \<and> has_attrs vt va \<and>
           map_of va CKA_KEY_TYPE = Some (UlongToBytes (key_type_of m))))"

definition honest_token :: "'t view \<Rightarrow> 't p11_ctx \<Rightarrow> bool" where
  "honest_token V C \<longleftrightarrow>
     opens_sessions V C \<and> finds_objects V C \<and> reads_attributes V C \<and> generates_pairs V C \<and> (\<forall>s n. keeps V (c_GenerateRandom C s n))"

section \<open>Calls that leave the objects alone\<close>

definition pools_ok :: "'t view \<Rightarrow> 't PKCS11Lib \<Rightarrow> bool" where
  "pools_ok V l \<longleftrightarrow>
     (\<forall>slot cap ss. mget (sessionPools l) slot = Some (cap, ss) \<longrightarrow>
        0 < cap \<and> length ss \<le> cap \<and> (\<forall>s \<in> set ss. slotOf V (tok l) s = Some slot))"

definition tame :: "'t view \<Rightarrow> 't PKCS11Lib \<Rightarrow> 't PKCS11Lib \<Rightarrow> bool" where
  "tame V l l' \<longleftrightarrow> pools_ok V l' \<and> slotOf V (tok l) \<subseteq>\<^sub>m slotOf V (tok l') \<and> libSlot l' = libSlot l"

definition calm :: "'t view \<Rightarrow> ('t, 'a) p11_call \<Rightarrow> bool" where
  "calm V m \<longleftrightarrow> (\<forall>l r l'. pools_ok V l \<longrightarrow> m l = Some (r, l') \<longrightarrow> tame V l l' \<and> objs V (tok l') = objs V (tok l))"

lemma tame_trans: "tame V l l1 \<Longrightarrow> tame V l1 l2 \<Longrightarrow> tame V l l2"
  unfolding tame_def by (auto intro: map_le_trans)

lemma calmD: "calm V m \<Longrightarrow> pools_ok V l \<Longrightarrow> m l = Some (r, l') \<Longrightarrow> tame V l l' \<and> objs V (tok l') = objs V (tok l)"
  by (simp add: calm_def)

lemma calm_const: "calm V (p_ret x)" "calm V (p_res r)"
  by (auto simp: calm_def p_ret_def p_res_def tame_def)

lemma calm_bind:
  assumes "calm V m" and "\<And>x. calm V (f x)" shows "calm V (p_bind m f)"
  unfolding calm_def
proof (intro allI impI)
  fix l r l' assume l: "pools_ok V l" and run: "p_bind m f l = Some (r, l')"
  then obtain r1 l1 where m: "m l = Some (r1, l1)" by (auto simp: p_bind_def split: option.splits)
  from calmD [OF assms(1) l m] have 1: "tame V l l1" "objs V (tok l1) = objs V (tok l)" by simp_all
  show "tame V l l' \<and> objs V (tok l') = objs V (tok l)"
  proof (cases r1)
    case (Ok x)
    with run m have "f x l1 = Some (r, l')" by (simp add: p_bind_def)
    with calmD [OF assms(2)] 1 have "tame V l1 l'" "objs V (tok l') = objs V (tok l1)" by (auto simp: tame_def)
    with 1 show ?thesis using tame_trans by metis
  qed (use run m 1 in \<open>auto simp: p_bind_def\<close>)
qed

lemma calm_mod: "keeps V c \<Longrightarrow> calm V (p_mod c)"
  unfolding calm_def keeps_def
  by (auto simp: p_mod_def tame_def pools_ok_def split: prod.splits sum.splits)

lemma calm_defer:
  assumes "calm V m" and "\<And>t. objs V (f t) = objs V t \<and> slotOf V (f t) = slotOf V t" shows "calm V (p_defer f m)"
  unfolding calm_def
proof (intro allI impI)
  fix l r l' assume l: "pools_ok V l" and "p_defer f m l = Some (r, l')"
  then obtain l1 where m: "m l = Some (r, l1)" and l': "l' = l1\<lparr>tok := f (tok l1)\<rparr>"
    by (auto simp: p_defer_def)
  from calmD [OF assms(1) l m] show "tame V l l' \<and> objs V (tok l') = objs V (tok l)"
    by (simp add: l' assms(2) tame_def pools_ok_def)
qed

lemma calm_if: "(b \<Longrightarrow> calm V m) \<Longrightarrow> (\<not> b \<Longrightarrow> calm V n) \<Longrightarrow> calm V (if b then m else n)"
  by simp

lemma calm_attr: "calm V (attr_at as i)"
  by (simp add: attr_at_def calm_const)

lemma calm_setup: "calm V (setupSessions slot n)"
  by (auto simp: calm_def setupSessions_def tame_def pools_ok_def maxSessionsChan_def Let_def split: option.splits if_splits)

section \<open>Sessions\<close>

lemma get_session_tame:
  assumes h: "opens_sessions V C" and l: "pools_ok V l" and get: "get_session C slot l = Some (r, l1)"
  shows "tame V l l1 \<and> objs V (tok l1) = objs V (tok l) \<and> (\<forall>s. r = Ok s \<longrightarrow> slotOf V (tok l1) s = Some slot)"
proof (cases "\<exists>cap s ss. mget (sessionPools l) slot = Some (cap, s # ss)")
  case True
  then obtain cap s ss where p: "mget (sessionPools l) slot = Some (cap, s # ss)" by blast
  then have "r = Ok s" "l1 = l\<lparr>sessionPools := mput slot (cap, ss) (sessionPools l)\<rparr>"
    using get by (simp_all add: get_session_def)
  moreover have "0 < cap \<and> length (s # ss) \<le> cap \<and> (\<forall>x \<in> set (s # ss). slotOf V (tok l) x = Some slot)"
    using l p unfolding pools_ok_def by blast
  ultimately show ?thesis using l by (auto simp: tame_def pools_ok_def split: if_splits)
next
  case False
  then have "get_session C slot l = NewSession C slot l"
    by (auto simp: get_session_def split: option.split prod.split list.split)
  with get obtain r' t where r': "c_OpenSession C slot True (tok l) = (r', t)" and l1: "l1 = l\<lparr>tok := t\<rparr>"
    and r: "r = (case r' of Inl e \<Rightarrow> Err e | Inr s \<Rightarrow> Ok s)"
    by (auto simp: NewSession_def p_mod_def split: prod.splits sum.splits)
  have "objs V t = objs V (tok l)" "slotOf V (tok l) \<subseteq>\<^sub>m slotOf V t" "\<And>s. r' = Inr s \<Longrightarrow> slotOf V t s = Some slot"
    using h [unfolded opens_sessions_def, rule_format, OF r'] by (cases r'; auto simp: map_le_def)+
  moreover from this(2) l have "pools_ok V l1" by (auto simp: l1 pools_ok_def map_le_def) (metis domI)
  ultimately show ?thesis by (auto simp: l1 r tame_def split: sum.splits)
qed

lemma put_session_tame:
  assumes "pools_ok V l" and "slotOf V (tok l) s = Some slot" and "put_session had slot s l = Some l'"
  shows "tame V l l' \<and> tok l' = tok l \<and> (\<exists>cap ss. mget (sessionPools l') slot = Some (cap, ss @ [s]))"
  using assms by (auto simp: put_session_def tame_def pools_ok_def split: option.splits if_splits)

text \<open>A session is taken, used and put back.\<close>

lemma withSession_cases:
  assumes h: "opens_sessions V C" and l: "pools_ok V l" and run: "withSession C slot f l = Some (r, l3)"
  obtains (failed) "\<not> is_Ok r" "tame V l l3" "objs V (tok l3) = objs V (tok l)"
  | (used) s l1 l2 where "tame V l l1" "objs V (tok l1) = objs V (tok l)" "slotOf V (tok l1) s = Some slot" "f s l1 = Some (r, l2)"
    "put_session (mget (sessionPools l) slot \<noteq> None) slot s l2 = Some l3"
proof (cases "get_session C slot l")
  case (Some rl)
  then obtain r1 l1 where get: "get_session C slot l = Some (r1, l1)" by (cases rl) auto
  note g = get_session_tame [OF h l get]
  show ?thesis
  proof (cases r1)
    case (Ok s)
    with run get obtain r2 l2 where "f s l1 = Some (r2, l2)" "put_session (mget (sessionPools l) slot \<noteq> None) slot s l2 = Some l3" "r2 = r"
      by (auto simp: withSession_def split: option.splits)
    with g Ok show ?thesis using used by blast
  qed (use run get g failed in \<open>auto simp: withSession_def\<close>)
qed (use run in \<open>simp add: withSession_def\<close>)

lemma withSession_post:
  assumes h: "opens_sessions V C" and l: "pools_ok V l" and run: "withSession C slot f l = Some (r, l3)" and ok: "is_Ok r"
  obtains s l1 l2 where "tame V l l1" "objs V (tok l1) = objs V (tok l)" "slotOf V (tok l1) s = Some slot" "f s l1 = Some (r, l2)"
    "tame V l1 l2 \<Longrightarrow> tame V l l3 \<and> tok l3 = tok l2 \<and> (\<exists>cap ss. mget (sessionPools l3) slot = Some (cap, ss @ [s]))"
  using h l run
proof (cases rule: withSession_cases)
  case (used s l1 l2)
  have "tame V l l3 \<and> tok l3 = tok l2 \<and> (\<exists>cap ss. mget (sessionPools l3) slot = Some (cap, ss @ [s]))" if t: "tame V l1 l2"
  proof -
    have "slotOf V (tok l2) s = Some slot" using t used(3) by (auto simp: tame_def map_le_def dom_def)
    then have "tame V l2 l3 \<and> tok l3 = tok l2 \<and> (\<exists>cap ss. mget (sessionPools l3) slot = Some (cap, ss @ [s]))"
      using t used(5) by (intro put_session_tame) (auto simp: tame_def)
    with used(1) t show ?thesis using tame_trans by blast
  qed
  with used(1-4) that show ?thesis by blast
qed (use ok in simp)

lemma calm_withSession:
  assumes h: "opens_sessions V C" and f: "\<And>s. calm V (f s)" shows "calm V (withSession C slot f)"
  unfolding calm_def
proof (intro allI impI)
  fix l r l3 assume l: "pools_ok V l" and run: "withSession C slot f l = Some (r, l3)"
  show "tame V l l3 \<and> objs V (tok l3) = objs V (tok l)"
    using h l run
  proof (cases rule: withSession_cases)
    case (used s l1 l2)
    have 2: "tame V l1 l2" "objs V (tok l2) = objs V (tok l1)" using calmD [OF f _ used(4)] used(1) by (auto simp: tame_def)
    have "slotOf V (tok l2) s = Some slot" using 2(1) used(3) by (auto simp: tame_def map_le_def dom_def)
    with put_session_tame [OF _ this used(5)] 2 used(1,2) show ?thesis by (auto simp: tame_def intro: map_le_trans)
  qed simp
qed

section \<open>Generated keys\<close>

lemma honest_parts:
  assumes "honest_token V C"
  shows "opens_sessions V C" "finds_objects V C" "reads_attributes V C" "generates_pairs V C" "keeps V (c_GenerateRandom C s n)"
  using assms by (simp_all add: honest_token_def)

lemma calm_random: "honest_token V C \<Longrightarrow> calm V (random_hex C)"
proof -
  assume h: "honest_token V C"
  have "calm V (GenRandom C n)" for n
    unfolding calm_def
  proof (intro allI impI)
    fix l r l' assume l: "pools_ok V l" and run: "GenRandom C n l = Some (r, l')"
    have "calm V (withSession C (stId (libSlot l)) (\<lambda>s. p_mod (c_GenerateRandom C s n)))"
      by (intro calm_withSession calm_mod honest_parts(1,5) [OF h])
    from calmD [OF calm_bind [OF this calm_const(1)] l run [unfolded GenRandom_def]]
    show "tame V l l' \<and> objs V (tok l') = objs V (tok l)" .
  qed
  then show ?thesis
    unfolding random_hex_def by (intro calm_bind) (auto intro: calm_const split: prod.splits)
qed

lemma calm_names: "honest_token V C \<Longrightarrow> calm V (label_or E C label)" "honest_token V C \<Longrightarrow> calm V (id_or C i)"
  unfolding label_or_def id_or_def generateKeyLabel_def generateKeyID_def
  by (intro calm_if calm_bind calm_const calm_random; assumption)+

lemma calm_attributes: "honest_token V C \<Longrightarrow> calm V (p_mod (c_GetAttributeValue C s h ks))"
  by (rule calm_mod) (simp add: honest_token_def reads_attributes_def)

lemma calm_exportRSA: "honest_token V C \<Longrightarrow> calm V (exportRSAPublicKey C s h)"
  unfolding exportRSAPublicKey_def Let_def
  by (intro calm_bind calm_attributes calm_attr calm_if calm_const; assumption)

lemma hex_encode_length: "length (hex_encode s) = 2 * length s"
  by (induction s) simp_all

lemma generateKeyID_nonempty:
  assumes "generateKeyID C l = Some (Ok i, l')" shows "i \<noteq> []"
proof -
  obtain r where "i = take 32 (hex_encode (take 32 (r @ replicate 32 (CHR 0x00))))"
    using assms by (auto simp: generateKeyID_def random_hex_def p_Ok GenRandom_def split: prod.splits if_splits)
  then have "length i = 32" by (simp add: hex_encode_length)
  then show ?thesis by auto
qed

lemma map_of_pair:
  assumes "ph \<notin> fst ` set xs" "vh \<notin> fst ` set xs" "ph \<noteq> vh"
  shows "map_of (xs @ [(ph, pa), (vh, va)]) ph = Some pa" "map_of (xs @ [(ph, pa), (vh, va)]) vh = Some va"
  using assms by (induction xs) auto

text \<open>What a call has added when it returned a key.\<close>

definition pair_added :: "'t view \<Rightarrow> uint64 \<Rightarrow> 't \<Rightarrow> string \<Rightarrow> string \<Rightarrow> p11_priv \<Rightarrow> 't \<Rightarrow> bool" where
  "pair_added V slot t i label priv t' \<longleftrightarrow>
     (\<exists>ph pa vh va m e bits purpose.
        priv = P11RSA \<lparr>objHandle = vh, objSlot = slot\<rparr> (RsaPub (be_value 0 m) (be_value 0 e)) \<and>
        2 \<le> be_value 0 e \<and> be_value 0 e < 2 ^ 32 \<and>
        objs V t' = (objs V t)(slot := objs V t slot @ [(ph, pa), (vh, va)]) \<and>
        ph \<noteq> vh \<and> ph \<notin> fst ` set (objs V t slot) \<and> vh \<notin> fst ` set (objs V t slot) \<and>
        has_attrs (rsa_public_template i label bits purpose) pa \<and> has_attrs (rsa_private_template i label purpose) va \<and>
        map_of va CKA_KEY_TYPE = Some (UlongToBytes CKK_RSA) \<and>
        map_of pa CKA_MODULUS = Some m \<and> map_of pa CKA_PUBLIC_EXPONENT = Some e)"

lemma generated_on_session:
  assumes h: "honest_token V C" and l: "pools_ok V l" and s: "slotOf V (tok l) s = Some slot"
    and gen: "GenerateRSAKeyPairOnSession E C s slot [] label bits purpose l = Some (Ok priv, l')"
  shows "\<exists>i label'. i \<noteq> [] \<and> tame V l l' \<and> pair_added V slot (tok l) i label' priv (tok l')"
proof -
  obtain label' i l1 l2 ph vh l3 pub where
    lab: "label_or E C label l = Some (Ok label', l1)" and i: "id_or C [] l1 = Some (Ok i, l2)"
    and g: "p_mod (c_GenerateKeyPair C s CKM_RSA_PKCS_KEY_PAIR_GEN (rsa_public_template i label' bits purpose)
           (rsa_private_template i label' purpose)) l2 = Some (Ok (ph, vh), l3)"
    and e: "exportRSAPublicKey C s ph l3 = Some (Ok pub, l')" and priv: "priv = P11RSA \<lparr>objHandle = vh, objSlot = slot\<rparr> pub"
    using gen by (auto simp: GenerateRSAKeyPairOnSession_def p_bind_Ok p_ret_Ok split: prod.splits)
  have 1: "tame V l l1" "objs V (tok l1) = objs V (tok l)" using calmD [OF calm_names(1) [OF h] l lab] by simp_all
  then have 2: "tame V l1 l2" "objs V (tok l2) = objs V (tok l)"
    using calmD [OF calm_names(2) [OF h] _ i] by (auto simp: tame_def)
  have inz: "i \<noteq> []" using i generateKeyID_nonempty by (auto simp: id_or_def)
  have s2: "slotOf V (tok l2) s = Some slot" using 1 2 s by (auto simp: tame_def map_le_def dom_def)
  obtain t where t: "c_GenerateKeyPair C s CKM_RSA_PKCS_KEY_PAIR_GEN (rsa_public_template i label' bits purpose)
           (rsa_private_template i label' purpose) (tok l2) = (Inr (ph, vh), t)" "l3 = l2\<lparr>tok := t\<rparr>"
    using g by (auto simp: p_mod_Ok)
  obtain pa va where slots: "slotOf V t = slotOf V (tok l2)"
    and new: "ph \<noteq> vh" "ph \<notin> fst ` set (objs V (tok l2) slot)" "vh \<notin> fst ` set (objs V (tok l2) slot)"
    and ob: "objs V t = (objs V (tok l2))(slot := objs V (tok l2) slot @ [(ph, pa), (vh, va)])"
    and at: "has_attrs (rsa_public_template i label' bits purpose) pa" "has_attrs (rsa_private_template i label' purpose) va"
      "map_of va CKA_KEY_TYPE = Some (UlongToBytes CKK_RSA)"
    using honest_parts(4) [OF h] s2 t(1) unfolding generates_pairs_def by (metis (no_types, lifting) key_type_of.simps(1))
  have 3: "pools_ok V l3" using 2(1) slots by (auto simp: t(2) tame_def pools_ok_def)
  have 4: "tame V l3 l'" "objs V (tok l') = objs V t" using calmD [OF calm_exportRSA [OF h] 3 e] by (simp_all add: t(2))
  obtain m ex t4 where rd: "c_GetAttributeValue C s ph [CKA_MODULUS, CKA_PUBLIC_EXPONENT] t = (Inr [m, ex], t4)"
    and pub: "pub = RsaPub (be_value 0 m) (be_value 0 ex)" "2 \<le> be_value 0 ex" "be_value 0 ex < 2 ^ 32"
  proof -
    obtain vs t4 where vs: "c_GetAttributeValue C s ph [CKA_MODULUS, CKA_PUBLIC_EXPONENT] t = (Inr vs, t4)" "1 < length vs"
      "pub = RsaPub (be_value 0 (vs ! 0)) (be_value 0 (vs ! 1))" "2 \<le> be_value 0 (vs ! 1)" "be_value 0 (vs ! 1) < 2 ^ 32"
      using e by (auto simp: exportRSAPublicKey_def p_Ok Let_def t(2) split: if_splits)
    have "map_of (objs V t slot) ph = Some pa" using map_of_pair(1) [OF new(2,3,1)] ob by simp
    then have "map (map_of pa) [CKA_MODULUS, CKA_PUBLIC_EXPONENT] = map Some vs"
      using honest_parts(3) [OF h] vs(1) s2 slots unfolding reads_attributes_def by (metis (no_types, lifting))
    then obtain m ex where "vs = [m, ex]" by (auto simp: map_eq_Cons_conv Cons_eq_map_conv)
    with vs that show ?thesis by simp
  qed
  have "map_of (objs V t slot) ph = Some pa" using map_of_pair(1) [OF new(2,3,1)] ob by simp
  then have "map (map_of pa) [CKA_MODULUS, CKA_PUBLIC_EXPONENT] = map Some [m, ex]"
    using honest_parts(3) [OF h] rd s2 slots unfolding reads_attributes_def by (metis (no_types, lifting))
  moreover have "tame V l l'"
    using 1(1) 2(1) 4(1) slots 3 by (auto simp: tame_def t(2) intro: map_le_trans)
  ultimately show ?thesis
    unfolding pair_added_def using inz pub new ob at 2(2) 4(2) priv by (auto intro!: exI)
qed

lemma has_attrs_iff: "has_attrs tmpl a \<longleftrightarrow> (\<forall>k v. (k, v) \<in> set tmpl \<longrightarrow> map_of a k = Some (attr_bytes v))"
  by (auto simp: has_attrs_def list_all_iff)

lemma pair_attrs:
  assumes "has_attrs (rsa_public_template i label bits purpose) pa" "has_attrs (rsa_private_template i label purpose) va"
  shows "map_of pa CKA_CLASS = Some (UlongToBytes CKO_PUBLIC_KEY)" "map_of pa CKA_KEY_TYPE = Some (UlongToBytes CKK_RSA)"
    "map_of pa CKA_ID = Some i" "map_of va CKA_CLASS = Some (UlongToBytes CKO_PRIVATE_KEY)" "map_of va CKA_ID = Some i"
    "map_of va CKA_LABEL = Some label"
  using assms by (simp_all add: has_attrs_def rsa_public_template_def rsa_private_template_def)

lemma ulong_inj: "UlongToBytes m = UlongToBytes n \<longleftrightarrow> m = n"
  using ulong_roundtrip by (metis result.inject(1))

text \<open>A key generated by the operation of the provider.\<close>

lemma generated_key:
  assumes h: "honest_token V C" and l: "pools_ok V l"
    and gen: "p11_GenerateRSAKey E C label bits purpose l = Some (Ok (GenKey g), l')"
  shows "\<exists>label' s cap ss. genId g \<noteq> [] \<and> tame V l l' \<and>
    pair_added V (stId (libSlot l)) (tok l) (genId g) label' (genKey g) (tok l') \<and>
    mget (sessionPools l') (stId (libSlot l)) = Some (cap, ss @ [s])"
proof -
  let ?slot = "stId (libSlot l)"
  obtain priv l1 i lab where gk: "GenerateRSAKeyPairWithLabel E C label bits purpose l = Some (Ok priv, l1)"
    and idf: "Identify C (p11_object priv) l1 = Some (Ok (i, lab), l')"
    and g: "g = \<lparr>genId = i, genLabel = lab, genKey = priv\<rparr>"
    using gen by (auto simp: p11_GenerateRSAKey_def p_bind_Ok p_ret_Ok)
  obtain l0 where set: "setupSessions ?slot 0 l = Some (Ok (), l0)"
    and w: "withSession C ?slot (\<lambda>s. GenerateRSAKeyPairOnSession E C s ?slot [] label bits purpose) l0 = Some (Ok priv, l1)"
    using gk by (auto simp: GenerateRSAKeyPairWithLabel_def GenerateRSAKeyPairOnSlot_def p_bind_Ok)
  have 0: "tame V l l0" "objs V (tok l0) = objs V (tok l)" using calmD [OF calm_setup l set] by simp_all
  then have l0: "pools_ok V l0" by (simp add: tame_def)
  obtain s a b where a: "tame V l0 a" "objs V (tok a) = objs V (tok l0)" "slotOf V (tok a) s = Some ?slot"
    and run: "GenerateRSAKeyPairOnSession E C s ?slot [] label bits purpose a = Some (Ok priv, b)"
    and fin: "tame V a b \<Longrightarrow> tame V l0 l1 \<and> tok l1 = tok b \<and> (\<exists>cap ss. mget (sessionPools l1) ?slot = Some (cap, ss @ [s]))"
    by (rule withSession_post [OF honest_parts(1) [OF h] l0 w]) auto
  have "pools_ok V a" using a(1) by (simp add: tame_def)
  then obtain i' label' where i': "i' \<noteq> []" "tame V a b" "pair_added V ?slot (tok a) i' label' priv (tok b)"
    using generated_on_session [OF h _ a(3) run] by blast
  then have 1: "tame V l0 l1" "tok l1 = tok b" using fin by auto
  then have l1: "pools_ok V l1" by (simp add: tame_def)
  have added: "pair_added V ?slot (tok l) i' label' priv (tok l1)"
    using i'(3) a(2) 0(2) 1(2) by (simp add: pair_added_def)
  then obtain ph pa vh va where ob: "p11_object priv = \<lparr>objHandle = vh, objSlot = ?slot\<rparr>"
    and objs: "objs V (tok l1) ?slot = objs V (tok l) ?slot @ [(ph, pa), (vh, va)]"
    and new: "ph \<noteq> vh" "ph \<notin> fst ` set (objs V (tok l) ?slot)" "vh \<notin> fst ` set (objs V (tok l) ?slot)"
    and va: "map_of va CKA_ID = Some i'" "map_of va CKA_LABEL = Some label'"
    unfolding pair_added_def using pair_attrs(5,6) by fastforce
  obtain s2 a2 b2 where a2: "tame V l1 a2" "objs V (tok a2) = objs V (tok l1)" "slotOf V (tok a2) s2 = Some ?slot"
    and rd: "p_bind (p_mod (c_GetAttributeValue C s2 vh [CKA_ID, CKA_LABEL])) (\<lambda>as.
         p_bind (attr_at as 0) (\<lambda>i. p_bind (attr_at as 1) (\<lambda>lab. p_ret (i, lab)))) a2 = Some (Ok (i, lab), b2)"
    and fin2: "tame V a2 b2 \<Longrightarrow> tame V l1 l' \<and> tok l' = tok b2 \<and> (\<exists>cap ss. mget (sessionPools l') ?slot = Some (cap, ss @ [s2]))"
    using idf unfolding Identify_def ob by (auto elim!: withSession_post [OF honest_parts(1) [OF h] l1])
  have "calm V (p_bind (p_mod (c_GetAttributeValue C s2 vh [CKA_ID, CKA_LABEL])) (\<lambda>as.
         p_bind (attr_at as 0) (\<lambda>i. p_bind (attr_at as 1) (\<lambda>lab. p_ret (i, lab)))))"
    by (intro calm_bind calm_attributes [OF h] calm_attr calm_const)
  from calmD [OF this _ rd] a2(1) have 2: "tame V a2 b2" "objs V (tok b2) = objs V (tok a2)" by (auto simp: tame_def)
  obtain vs t where vs: "c_GetAttributeValue C s2 vh [CKA_ID, CKA_LABEL] (tok a2) = (Inr vs, t)" "0 < length vs" "i = vs ! 0"
    using rd by (auto simp: p_Ok)
  have "map_of (objs V (tok a2) ?slot) vh = Some va" using map_of_pair(2) [OF new(2,3,1)] a2(2) objs by simp
  then have "map (map_of va) [CKA_ID, CKA_LABEL] = map Some vs"
    using honest_parts(3) [OF h] vs(1) a2(3) unfolding reads_attributes_def by (metis (no_types, lifting))
  then have "i = i'" using vs va by auto
  moreover have "objs V (tok l') = objs V (tok l1)" using fin2 [OF 2(1)] 2(2) a2(2) by simp
  then have "pair_added V ?slot (tok l) i' label' priv (tok l')" using added by (simp add: pair_added_def)
  moreover have "tame V l l'" using 0(1) 1(1) fin2 [OF 2(1)] tame_trans by blast
  ultimately show ?thesis using i'(1) fin2 [OF 2(1)] by (auto simp: g)
qed

section \<open>Finding a key\<close>

definition quiet :: "'t view \<Rightarrow> 't PKCS11Lib \<Rightarrow> 't PKCS11Lib \<Rightarrow> bool" where
  "quiet V l l' \<longleftrightarrow> objs V (tok l') = objs V (tok l) \<and> slotOf V (tok l') = slotOf V (tok l) \<and>
     sessionPools l' = sessionPools l \<and> libSlot l' = libSlot l"

lemma find_objects_run:
  assumes h: "honest_token V C" and s: "slotOf V (tok l) s = Some slot"
  shows "\<exists>l'. find_objects C s tmpl n l =
    Some (Ok (take n (map fst (filter (\<lambda>ob. has_attrs tmpl (snd ob)) (objs V (tok l) slot)))), l') \<and> quiet V l l'"
proof -
  note f = honest_parts(2) [OF h, unfolded finds_objects_def]
  obtain t1 t2 where 1: "c_FindObjectsInit C s tmpl (tok l) = (Inr (), t1)"
    and 2: "c_FindObjects C s n t1 = (Inr (take n (map fst (filter (\<lambda>ob. has_attrs tmpl (snd ob)) (objs V (tok l) slot)))), t2)"
    using f s by metis
  have "objs V t1 = objs V (tok l)" "slotOf V t1 = slotOf V (tok l)" "objs V t2 = objs V t1" "slotOf V t2 = slotOf V t1"
    using f 1 2 unfolding keeps_def by blast+
  with f 1 show ?thesis
    by (simp add: find_objects_def p_bind_mod p_defer_def) (simp add: p_mod_def 2 quiet_def)
qed

lemma findKey_run:
  assumes h: "honest_token V C" and s: "slotOf V (tok l) s = Some slot"
    and first: "filter (\<lambda>ob. has_attrs (find_template i lab cls ty) (snd ob)) (objs V (tok l) slot) = ob # obs"
  shows "\<exists>l'. findKey C s i lab cls ty l = Some (Ok (fst ob), l') \<and> quiet V l l'"
  using find_objects_run [OF h s, of "find_template i lab cls ty" 1] first
  by (auto simp: findKey_def p_bind_def p_ret_def)

lemma attributes_run:
  assumes h: "honest_token V C" and s: "slotOf V (tok l) s = Some slot" and a: "map_of (objs V (tok l) slot) hn = Some a"
    and vs: "map (map_of a) ks = map Some vs"
  shows "\<exists>t. c_GetAttributeValue C s hn ks (tok l) = (Inr vs, t) \<and> quiet V l (l\<lparr>tok := t\<rparr>)"
proof -
  obtain t where t: "c_GetAttributeValue C s hn ks (tok l) = (Inr vs, t)"
    using honest_parts(3) [OF h] s a vs unfolding reads_attributes_def by blast
  moreover have "objs V t = objs V (tok l)" "slotOf V t = slotOf V (tok l)"
    using honest_parts(3) [OF h] t unfolding reads_attributes_def keeps_def by blast+
  ultimately show ?thesis by (simp add: quiet_def)
qed

lemma quiet_trans: "quiet V l l1 \<Longrightarrow> quiet V l1 l2 \<Longrightarrow> quiet V l l2"
  by (simp add: quiet_def)

lemma key_constants:
  "CKO_PRIVATE_KEY \<noteq> - 1" "CKO_PUBLIC_KEY \<noteq> - 1" "CKK_RSA \<noteq> - 1" "CKO_PUBLIC_KEY \<noteq> CKO_PRIVATE_KEY"
  "CKK_RSA \<noteq> CKK_DSA" "CKO_PRIVATE_KEY \<noteq> CKO_PUBLIC_KEY"
  by (simp_all add: CKO_PRIVATE_KEY_def CKO_PUBLIC_KEY_def CKK_RSA_def CKK_DSA_def)

lemma find_pair:
  assumes fresh: "\<forall>ob \<in> set obs. map_of (snd ob) CKA_ID \<noteq> Some i" and i: "i \<noteq> []"
    and pa: "map_of pa CKA_CLASS = Some (UlongToBytes CKO_PUBLIC_KEY)" "map_of pa CKA_KEY_TYPE = Some (UlongToBytes CKK_RSA)" "map_of pa CKA_ID = Some i"
    and va: "map_of va CKA_CLASS = Some (UlongToBytes CKO_PRIVATE_KEY)" "map_of va CKA_ID = Some i"
  shows "filter (\<lambda>ob. has_attrs (find_template i [] CKO_PRIVATE_KEY (- 1)) (snd ob)) (obs @ [(ph, pa), (vh, va)]) = [(vh, va)]"
    "filter (\<lambda>ob. has_attrs (find_template i [] CKO_PUBLIC_KEY CKK_RSA) (snd ob)) (obs @ [(ph, pa), (vh, va)]) = [(ph, pa)]"
proof -
  have "\<not> has_attrs (find_template i [] cls ty) (snd ob)" if "ob \<in> set obs" for ob cls ty
    using fresh i that by (auto simp: has_attrs_def find_template_def)
  then have none: "filter (\<lambda>ob. has_attrs (find_template i [] cls ty) (snd ob)) obs = []" for cls ty
    by (auto simp: filter_empty_conv)
  show "filter (\<lambda>ob. has_attrs (find_template i [] CKO_PRIVATE_KEY (- 1)) (snd ob)) (obs @ [(ph, pa), (vh, va)]) = [(vh, va)]"
    "filter (\<lambda>ob. has_attrs (find_template i [] CKO_PUBLIC_KEY CKK_RSA) (snd ob)) (obs @ [(ph, pa), (vh, va)]) = [(ph, pa)]"
    using pa va i key_constants by (simp_all add: none) (simp_all add: has_attrs_def find_template_def class_type_def ulong_inj)
qed

lemma pair_found_on_session:
  assumes h: "honest_token V C" and s: "slotOf V (tok l) s = Some slot" and i: "i \<noteq> []"
    and added: "pair_added V slot t0 i label priv (tok l)" and fresh: "\<forall>ob \<in> set (objs V t0 slot). map_of (snd ob) CKA_ID \<noteq> Some i"
  shows "\<exists>l'. FindKeyPairOnSession E C s slot i [] l = Some (Ok priv, l') \<and> quiet V l l'"
proof -
  obtain ph pa vh va m e bits purpose where
    priv: "priv = P11RSA \<lparr>objHandle = vh, objSlot = slot\<rparr> (RsaPub (be_value 0 m) (be_value 0 e))"
    and e: "2 \<le> be_value 0 e" "be_value 0 e < 2 ^ 32"
    and ob: "objs V (tok l) slot = objs V t0 slot @ [(ph, pa), (vh, va)]"
    and new: "ph \<noteq> vh" "ph \<notin> fst ` set (objs V t0 slot)" "vh \<notin> fst ` set (objs V t0 slot)"
    and at: "has_attrs (rsa_public_template i label bits purpose) pa" "has_attrs (rsa_private_template i label purpose) va"
    and ty: "map_of va CKA_KEY_TYPE = Some (UlongToBytes CKK_RSA)"
    and me: "map_of pa CKA_MODULUS = Some m" "map_of pa CKA_PUBLIC_EXPONENT = Some e"
    using added unfolding pair_added_def by auto
  note found = find_pair [OF fresh i pair_attrs(1-5) [OF at], of ph vh]
  obtain l1 where 1: "findKey C s i [] CKO_PRIVATE_KEY (- 1) l = Some (Ok vh, l1)" "quiet V l l1"
    using findKey_run [OF h s] found(1) ob by (metis fst_conv)
  have s1: "slotOf V (tok l1) s = Some slot" and ob1: "objs V (tok l1) slot = objs V t0 slot @ [(ph, pa), (vh, va)]"
    using 1(2) s ob by (simp_all add: quiet_def)
  obtain t where t: "c_GetAttributeValue C s vh [CKA_KEY_TYPE] (tok l1) = (Inr [UlongToBytes CKK_RSA], t)" and 2: "quiet V l1 (l1\<lparr>tok := t\<rparr>)"
    using attributes_run [OF h s1, of vh va "[CKA_KEY_TYPE]" "[UlongToBytes CKK_RSA]"] ty ob1 map_of_pair(2) [OF new(2,3,1)] by auto
  let ?l2 = "l1\<lparr>tok := t\<rparr>"
  have s2: "slotOf V (tok ?l2) s = Some slot" and ob2: "objs V (tok ?l2) slot = objs V t0 slot @ [(ph, pa), (vh, va)]"
    using 2 s1 ob1 by (simp_all add: quiet_def)
  obtain l3 where 3: "findKey C s i [] CKO_PUBLIC_KEY CKK_RSA ?l2 = Some (Ok ph, l3)" "quiet V ?l2 l3"
    using findKey_run [OF h s2] found(2) ob2 by (metis fst_conv)
  have s3: "slotOf V (tok l3) s = Some slot" and ob3: "objs V (tok l3) slot = objs V t0 slot @ [(ph, pa), (vh, va)]"
    using 3(2) s2 ob2 by (simp_all add: quiet_def)
  obtain t4 where t4: "c_GetAttributeValue C s ph [CKA_MODULUS, CKA_PUBLIC_EXPONENT] (tok l3) = (Inr [m, e], t4)" and 4: "quiet V l3 (l3\<lparr>tok := t4\<rparr>)"
    using attributes_run [OF h s3, of ph pa "[CKA_MODULUS, CKA_PUBLIC_EXPONENT]" "[m, e]"] me ob3 map_of_pair(1) [OF new(2,3,1)] by auto
  have "exportRSAPublicKey C s ph l3 = Some (Ok (RsaPub (be_value 0 m) (be_value 0 e)), l3\<lparr>tok := t4\<rparr>)"
    using e t4 by (simp add: exportRSAPublicKey_def p_bind_mod attr_at_def) (simp add: p_ret_def)
  then have "p_msg x (exportRSAPublicKey C s ph) l3 = Some (Ok (RsaPub (be_value 0 m) (be_value 0 e)), l3\<lparr>tok := t4\<rparr>)" for x
    by (simp add: p_msg_def)
  then have "FindKeyPairOnSession E C s slot i [] l = Some (Ok priv, l3\<lparr>tok := t4\<rparr>)"
    using t key_constants
    by (simp add: FindKeyPairOnSession_def p_bind_def [of "findKey C s i [] CKO_PRIVATE_KEY (- 1)"] 1(1) p_bind_mod attr_at_def
        ulong_roundtrip p_bind_def [of "findKey C s i [] CKO_PUBLIC_KEY CKK_RSA"] 3(1) Let_def p_bind_def [of "p_msg _ _"] priv)
      (simp add: p_ret_def p_msg_def)
  moreover have "quiet V l (l3\<lparr>tok := t4\<rparr>)" using 1(2) 2 3(2) 4 quiet_trans by blast
  ultimately show ?thesis by blast
qed

text \<open>C10. On a token that does what PKCS #11 says, an RSA key generated by the provider is found again by its identifier, as the
  same object with the same public key, provided no object of the slot had that identifier before; its exponent is
  proper, so the key validates.\<close>

theorem generated_key_found:
  assumes h: "honest_token V C" and l: "pools_ok V l"
    and gen: "p11_GenerateRSAKey E C label bits purpose l = Some (Ok (GenKey g), l')"
    and fresh: "\<forall>ob \<in> set (objs V (tok l) (stId (libSlot l))). map_of (snd ob) CKA_ID \<noteq> Some (genId g)"
  shows "(\<exists>l2. p11_GetKey E' C (genId g) l' = Some (Ok (TokenKey (genKey g)), l2)) \<and> rsa_Validate (p11_Public (genKey g)) = Ok ()"
proof -
  let ?slot = "stId (libSlot l)"
  obtain label' s cap ss where i: "genId g \<noteq> []" and t: "tame V l l'"
    and added: "pair_added V ?slot (tok l) (genId g) label' (genKey g) (tok l')"
    and pool: "mget (sessionPools l') ?slot = Some (cap, ss @ [s])"
    using generated_key [OF h l gen] by blast
  obtain s0 ss0 where ss0: "ss @ [s] = s0 # ss0" by (cases "ss @ [s]") auto
  have ok: "pools_ok V l'" and slot: "libSlot l' = libSlot l" using t by (simp_all add: tame_def)
  then have s0: "slotOf V (tok l') s0 = Some ?slot" "length ss0 < cap" "0 < cap"
    using pool ss0 unfolding pools_ok_def by (metis list.set_intros(1), metis Suc_le_lessD length_Cons, metis)
  let ?l1 = "l'\<lparr>sessionPools := mput ?slot (cap, ss0) (sessionPools l')\<rparr>"
  have get: "get_session C ?slot l' = Some (Ok s0, ?l1)" using pool ss0 by (simp add: get_session_def)
  have "pair_added V ?slot (tok l) (genId g) label' (genKey g) (tok ?l1)" using added by simp
  then obtain l2 where l2: "FindKeyPairOnSession E' C s0 ?slot (genId g) [] ?l1 = Some (Ok (genKey g), l2)" "quiet V ?l1 l2"
    using pair_found_on_session [OF h _ i _ fresh, of ?l1 s0] s0(1) by fastforce
  have "\<exists>l3. put_session True ?slot s0 l2 = Some l3"
    using l2(2) s0(2) by (simp add: put_session_def quiet_def)
  then obtain l3 where "withSession C ?slot (\<lambda>s. FindKeyPairOnSession E' C s ?slot (genId g) []) l' = Some (Ok (genKey g), l3)"
    using get l2 pool by (auto simp: withSession_def)
  moreover have "setupSessions ?slot 0 l' = Some (Ok (), l')" using pool by (simp add: setupSessions_def Let_def)
  ultimately have "FindKeyPair E' C (genId g) [] l' = Some (Ok (genKey g), l3)"
    using slot by (simp add: FindKeyPair_def p11_FindKeyPairOnSlot_def p_bind_def)
  then have "p11_GetKey E' C (genId g) l' = Some (Ok (TokenKey (genKey g)), l3)"
    by (simp add: p11_GetKey_def p_bind_def p_msg_def p_ret_def)
  moreover have "rsa_Validate (p11_Public (genKey g)) = Ok ()"
    using added by (auto simp: pair_added_def rsa_Validate_def)
  ultimately show ?thesis by blast
qed

end
