(* ===== verification/SoftToken.thy ===== *)
theory SoftToken
  imports TokenContract
begin

text \<open>
  A token in memory that keeps the contract of \<open>TokenContract\<close>, and on it the behaviour of xpki/crypto11 where it is not what the
  comments say: an empty identifier destroys the first key of the slot, and a key of another slot signs with a key of
  the current one.
\<close>

section \<open>The token\<close>

record soft =
  softObjs :: "uint64 \<Rightarrow> (handle \<times> cka_attrs) list"
  softSlot :: "session \<Rightarrow> uint64 option"
  softNext :: uint64
  softHandle :: uint64
  softFound :: "handle list"
  softKey :: "string option"

definition soft_open :: "uint64 \<Rightarrow> (soft, session) module_call" where
  "soft_open slot t =
     (if softSlot t (softNext t) \<noteq> None then (Inl ''no session'', t)
      else (Inr (softNext t), t\<lparr>softSlot := (softSlot t)(softNext t \<mapsto> slot), softNext := softNext t + 1\<rparr>))"

definition soft_search :: "session \<Rightarrow> cka_template \<Rightarrow> (soft, unit) module_call" where
  "soft_search s tmpl t =
     (case softSlot t s of
        None \<Rightarrow> (Inl ''session closed'', t)
      | Some slot \<Rightarrow> (Inr (), t\<lparr>softFound := map fst (filter (\<lambda>ob. has_attrs tmpl (snd ob)) (softObjs t slot))\<rparr>))"

definition soft_attributes :: "session \<Rightarrow> handle \<Rightarrow> CKA list \<Rightarrow> (soft, string list) module_call" where
  "soft_attributes s h ks t =
     (case softSlot t s of
        None \<Rightarrow> (Inl ''session closed'', t)
      | Some slot \<Rightarrow>
          (case map_of (softObjs t slot) h of
             None \<Rightarrow> (Inl ''no object'', t)
           | Some a \<Rightarrow> (case those (map (map_of a) ks) of None \<Rightarrow> (Inl ''no attribute'', t) | Some vs \<Rightarrow> (Inr vs, t))))"

definition from_template :: "cka_template \<Rightarrow> cka_attrs" where
  "from_template tmpl = map (\<lambda>(k, v). (k, attr_bytes v)) tmpl"

definition soft_generate :: "session \<Rightarrow> CKM \<Rightarrow> cka_template \<Rightarrow> cka_template \<Rightarrow> (soft, handle \<times> handle) module_call" where
  "soft_generate s m pt vt t =
     (case softSlot t s of
        None \<Rightarrow> (Inl ''session closed'', t)
      | Some slot \<Rightarrow>
          (let ph = softHandle t; vh = softHandle t + 1
           in if \<not> distinct (map fst pt) \<or> \<not> distinct (map fst vt) \<or> CKA_KEY_TYPE \<in> set (map fst vt) \<or>
                ph \<in> set (map fst (softObjs t slot)) \<or> vh \<in> set (map fst (softObjs t slot)) then (Inl ''bad template'', t)
              else (Inr (ph, vh),
                t\<lparr>softObjs := (softObjs t)(slot := softObjs t slot @ [(ph, from_template pt @ [(CKA_MODULUS, ''N'')]),
                     (vh, (CKA_KEY_TYPE, UlongToBytes (key_type_of m)) # from_template vt)]),
                  softHandle := softHandle t + 2\<rparr>)))"

definition soft_destroy :: "session \<Rightarrow> handle \<Rightarrow> (soft, unit) module_call" where
  "soft_destroy s h t =
     (case softSlot t s of
        None \<Rightarrow> (Inl ''session closed'', t)
      | Some slot \<Rightarrow> (Inr (), t\<lparr>softObjs := (softObjs t)(slot := filter (\<lambda>ob. fst ob \<noteq> h) (softObjs t slot))\<rparr>))"

text \<open>A signature is the identifier of the key and the text.\<close>

definition soft_sign_init :: "session \<Rightarrow> handle \<Rightarrow> (soft, unit) module_call" where
  "soft_sign_init s h t =
     (case softSlot t s of
        None \<Rightarrow> (Inl ''session closed'', t)
      | Some slot \<Rightarrow>
          (case map_of (softObjs t slot) h of
             None \<Rightarrow> (Inl ''no object'', t) | Some a \<Rightarrow> (Inr (), t\<lparr>softKey := map_of a CKA_ID\<rparr>)))"

definition soft_ctx :: "soft p11_ctx" where
  "soft_ctx =
     \<lparr>c_Initialize = (\<lambda>t. (None, t)), c_Destroy = (\<lambda>t. t), c_Finalize = (\<lambda>t. t), c_GetInfo = (\<lambda>t. (Inr ''soft'', t)),
      c_GetSlotList = (\<lambda>t. (Inr [0], t)), c_GetSlotInfo = (\<lambda>_ t. (Inr \<lparr>siDescription = ''slot''\<rparr>, t)),
      c_GetTokenInfo = (\<lambda>_ t. (Inr \<lparr>tiLabel = ''token'', tiManufacturerID = ''soft'', tiModel = ''m'', tiSerialNumber = ''1'',
        tiLoginRequired = False\<rparr>, t)),
      c_OpenSession = (\<lambda>slot rw. soft_open slot), c_CloseSession = (\<lambda>s t. t\<lparr>softSlot := (softSlot t)(s := None)\<rparr>),
      c_Login = (\<lambda>_ _ t. (None, t)), c_FindObjectsInit = soft_search,
      c_FindObjects = (\<lambda>s n t. (Inr (take n (softFound t)), t)), c_FindObjectsFinal = (\<lambda>s t. t\<lparr>softFound := []\<rparr>),
      c_GetAttributeValue = soft_attributes, c_GenerateKeyPair = soft_generate, c_DestroyObject = soft_destroy,
      c_GenerateRandom = (\<lambda>s n t. (Inr (replicate n (CHR ''r'')), t)), c_SignInit = (\<lambda>s m h. soft_sign_init s h),
      c_Sign = (\<lambda>s d t. (case softKey t of None \<Rightarrow> Inl ''no key'' | Some i \<Rightarrow> Inr (i @ d), t)),
      c_DecryptInit = (\<lambda>s m h t. (Inl ''not supported'', t)), c_Decrypt = (\<lambda>s d t. (Inl ''not supported'', t))\<rparr>"

definition soft_view :: "soft view" where
  "soft_view = \<lparr>objs = softObjs, slotOf = softSlot\<rparr>"

section \<open>It keeps the contract\<close>

lemma those_eq_Some: "those xs = Some ys \<longleftrightarrow> xs = map Some ys"
  by (induction xs arbitrary: ys) (auto split: option.splits)

lemma those_map_Some [simp]: "those (map Some ys) = Some ys"
  by (simp add: those_eq_Some)

lemma from_template_attrs: "distinct (map fst tmpl) \<Longrightarrow> has_attrs tmpl (from_template tmpl @ extra)"
proof -
  assume d: "distinct (map fst tmpl)"
  have "map_of (from_template tmpl @ extra) k = Some (attr_bytes v)" if "(k, v) \<in> set tmpl" for k v
  proof -
    have "map_of (from_template tmpl) k = Some (attr_bytes v)"
      using d that by (intro map_of_is_SomeI) (force simp: from_template_def comp_def case_prod_unfold)+
    then show ?thesis by (simp add: map_add_def)
  qed
  then show ?thesis by (auto simp: has_attrs_iff)
qed

lemma has_attrs_Cons: "k \<notin> set (map fst tmpl) \<Longrightarrow> has_attrs tmpl ((k, v) # a) \<longleftrightarrow> has_attrs tmpl a"
  unfolding has_attrs_def list_all_iff by (intro ball_cong refl) force

lemma soft_pair_attrs:
  assumes "distinct (map fst pt)" "distinct (map fst vt)" "CKA_KEY_TYPE \<notin> fst ` set vt"
  shows "has_attrs pt (from_template pt @ [x])" "has_attrs vt ((CKA_KEY_TYPE, y) # from_template vt)"
  using assms from_template_attrs [of pt "[x]"] from_template_attrs [of vt "[]"] by (simp_all add: has_attrs_Cons)

lemma soft_keeps:
  "keeps soft_view (c_FindObjectsInit soft_ctx s tmpl)" "keeps soft_view (c_FindObjects soft_ctx s n)"
  "keeps soft_view (c_GetAttributeValue soft_ctx s h ks)" "keeps soft_view (c_GenerateRandom soft_ctx s n)"
  by (auto simp: keeps_def soft_ctx_def soft_view_def soft_search_def soft_attributes_def split: option.splits)

lemma soft_honest: "honest_token soft_view soft_ctx"
proof -
  have "opens_sessions soft_view soft_ctx"
    by (auto simp: opens_sessions_def soft_ctx_def soft_view_def soft_open_def split: sum.splits if_splits)
  moreover have "finds_objects soft_view soft_ctx"
    unfolding finds_objects_def using soft_keeps(1,2) by (auto simp: soft_ctx_def soft_view_def soft_search_def)
  moreover have "reads_attributes soft_view soft_ctx"
    unfolding reads_attributes_def using soft_keeps(3)
    by (auto simp: soft_ctx_def soft_view_def soft_attributes_def those_eq_Some split: option.splits)
  moreover have "generates_pairs soft_view soft_ctx"
    unfolding generates_pairs_def
    by (auto simp: soft_ctx_def soft_view_def soft_generate_def Let_def soft_pair_attrs split: option.splits if_splits intro!: exI)
  ultimately show ?thesis using soft_keeps(4) by (simp add: honest_token_def)
qed

section \<open>Examples\<close>

definition soft_empty :: soft where
  "soft_empty = \<lparr>softObjs = (\<lambda>_. []), softSlot = (\<lambda>_. None), softNext = 1, softHandle = 1, softFound = [], softKey = None\<rparr>"

definition soft_slot :: "uint64 \<Rightarrow> SlotTokenInfo" where
  "soft_slot n = \<lparr>stId = n, stDescription = [], stLabel = [], stManufacturer = [], stModel = [], stSerial = [], stLoginRequired = False\<rparr>"

definition soft_lib :: "soft PKCS11Lib" where
  "soft_lib = \<lparr>tok = soft_empty, libConfig = empty_token, libSlot = soft_slot 0, sessionPools = [], ctxOpen = True\<rparr>"

lemmas soft_run = soft_ctx_def soft_lib_def soft_empty_def soft_slot_def soft_open_def soft_search_def soft_attributes_def
  soft_generate_def soft_destroy_def soft_sign_init_def withSession_def get_session_def put_session_def NewSession_def
  setupSessions_def maxSessionsChan_def p_bind_def p_mod_def p_ret_def p_res_def p_msg_def p_try_def p_defer_def attr_at_def

lemma soft_generation:
  "\<exists>g l'. p11_GenerateRSAKey point_env soft_ctx ''key'' 2048 1 soft_lib = Some (Ok (GenKey g), l') \<and> genLabel g = ''key''"
  by (simp add: soft_run p11_GenerateRSAKey_def GenerateRSAKeyPairWithLabel_def GenerateRSAKeyPairOnSlot_def GenerateRSAKeyPairOnSession_def
      label_or_def id_or_def generateKeyID_def random_hex_def GenRandom_def rsa_public_template_def rsa_private_template_def
      from_template_def exportRSAPublicKey_def Identify_def Let_def)

theorem generated_key_found_witness:
  "\<exists>g l' l2. p11_GenerateRSAKey point_env soft_ctx ''key'' 2048 1 soft_lib = Some (Ok (GenKey g), l') \<and>
     p11_GetKey point_env soft_ctx (genId g) l' = Some (Ok (TokenKey (genKey g)), l2)"
proof -
  obtain g l' where gen: "p11_GenerateRSAKey point_env soft_ctx ''key'' 2048 1 soft_lib = Some (Ok (GenKey g), l')"
    using soft_generation by blast
  moreover have "pools_ok soft_view soft_lib" by (simp add: pools_ok_def soft_lib_def)
  moreover have "\<forall>ob \<in> set (objs soft_view (tok soft_lib) (stId (libSlot soft_lib))). map_of (snd ob) CKA_ID \<noteq> Some (genId g)"
    by (simp add: soft_view_def soft_lib_def soft_empty_def)
  ultimately have "\<exists>l2. p11_GetKey point_env soft_ctx (genId g) l' = Some (Ok (TokenKey (genKey g)), l2)"
    using generated_key_found [OF soft_honest] by blast
  with gen show ?thesis by blast
qed

text \<open>Two slots: the first with two pairs, the second with one whose private key has a handle that the first slot has too.\<close>

definition soft_object :: "uint64 \<Rightarrow> string \<Rightarrow> cka_attrs" where
  "soft_object cls i = [(CKA_CLASS, UlongToBytes cls), (CKA_KEY_TYPE, UlongToBytes CKK_RSA), (CKA_ID, i)]"

definition soft_pairs :: "soft PKCS11Lib" where
  "soft_pairs = soft_lib\<lparr>tok := soft_empty\<lparr>softObjs := (\<lambda>slot.
       if slot = 0 then [(1, soft_object CKO_PUBLIC_KEY ''a''), (2, soft_object CKO_PRIVATE_KEY ''a''),
         (3, soft_object CKO_PUBLIC_KEY ''b''), (4, soft_object CKO_PRIVATE_KEY ''b'')]
       else [(1, soft_object CKO_PUBLIC_KEY ''z''), (2, soft_object CKO_PRIVATE_KEY ''z'')])\<rparr>,
     sessionPools := [(0, 1024, [])]\<rparr>"

text \<open>To destroy the pair with the empty identifier destroys the first pair of the slot.\<close>

lemma empty_id_destroys_first:
  "map_option (\<lambda>(r, l'). (r, map fst (softObjs (tok l') 0))) (p11_DestroyKeyPairOnSlot soft_ctx 0 [] soft_pairs) = Some (Ok (), [3, 4])"
  using key_constants
  by (simp add: soft_run soft_pairs_def p11_DestroyKeyPairOnSlot_def on_slot_def found_or_zero_def findKey_def find_objects_def
      find_template_def class_type_def has_attrs_def soft_object_def ulong_inj destroy_if_def)

text \<open>The key \<open>z\<close> of slot 1 signs as the key \<open>a\<close> of slot 0.\<close>

lemma foreign_slot_signs_default:
  "map_option fst (p11_Sign soft_ctx (P11RSA \<lparr>objHandle = 2, objSlot = 1\<rparr> pub) ''d'' (HashOptions HMD5) soft_pairs) = Some (Ok ''ad'')"
  by (simp add: soft_run soft_pairs_def rsa_Sign_def signPKCS1v15_def digest_info_def pkcs1Prefix_def sign_with_def soft_object_def)

end
