(* ===== verification/Hsm.thy ===== *)
theory Hsm
  imports Ctl Kms SoftToken
begin

text \<open>
  The commands on keys of a provider (cmd/dollypki/hsm: slots.go, lskey.go, keyinfo.go, rmkey.go) over the interface
  \<open>KeyManager\<close> of xpki/cryptoprov/provider.go, and the two providers that implement it: a PKCS #11 library and AWS KMS.
  An enumeration gives the rows its callback was called with and the error that ended it.
\<close>

section \<open>The interface\<close>

record slot_row =
  slId :: uint64
  slDescription :: string
  slLabel :: string
  slManufacturer :: string
  slModel :: string
  slSerial :: string

record key_line =
  klId :: string
  klLabel :: string
  klType :: string
  klClass :: string
  klVersion :: string
  klCreated :: "time option"

type_synonym ('s, 'a) km_call = "'s \<Rightarrow> ((string, 'a) result \<times> 's) option"

record 's key_manager =
  km_tokens :: "bool \<Rightarrow> ('s, slot_row list) km_call"
  km_keys :: "uint64 \<Rightarrow> string \<Rightarrow> ('s, key_line list \<times> string option) km_call"
  km_destroy :: "uint64 \<Rightarrow> string \<Rightarrow> ('s, unit) km_call"
  km_info :: "uint64 \<Rightarrow> string \<Rightarrow> bool \<Rightarrow> ('s, key_line \<times> string) km_call"

definition km_map :: "('a \<Rightarrow> 'b) \<Rightarrow> ((string, 'a) result \<times> 's) option \<Rightarrow> ((string, 'b) result \<times> 's) option" where
  "km_map f = map_option (\<lambda>(r, s). (case r of Ok x \<Rightarrow> Ok (f x) | Err e \<Rightarrow> Err e | Panic \<Rightarrow> Panic, s))"

text \<open>The slots of a PKCS #11 library and its keys, which have no version and no time.\<close>

definition p11_slot_row :: "SlotTokenInfo \<Rightarrow> slot_row" where
  "p11_slot_row t =
     \<lparr>slId = stId t, slDescription = stDescription t, slLabel = stLabel t, slManufacturer = stManufacturer t, slModel = stModel t,
      slSerial = stSerial t\<rparr>"

definition p11_key_line :: "key_info \<Rightarrow> key_line" where
  "p11_key_line ki =
     \<lparr>klId = kiId ki, klLabel = kiLabel ki, klType = kiType ki, klClass = kiClass ki, klVersion = [], klCreated = None\<rparr>"

definition p11_manager :: "p11_env \<Rightarrow> 't p11_ctx \<Rightarrow> 't PKCS11Lib key_manager" where
  "p11_manager E C =
     \<lparr>km_tokens = (\<lambda>cur l. km_map (\<lambda>(ts, _). map p11_slot_row ts) (p11_EnumTokens C cur (\<lambda>_. None) l)),
      km_keys = (\<lambda>slot pre l. km_map (\<lambda>(ks, e). (map p11_key_line ks, e)) (p11_EnumKeys E C slot pre (\<lambda>_. None) l)),
      km_destroy = p11_DestroyKeyPairOnSlot C,
      km_info = (\<lambda>slot i pub l. km_map (\<lambda>ki. (p11_key_line ki, kiPublic ki)) (p11_KeyInfo E C slot i pub (\<lambda>_. None) l))\<rparr>"

text \<open>AWS KMS: one slot, the identifier of the key is all that names it.\<close>

definition kms_key_line :: "Kms.key_row \<Rightarrow> key_line" where
  "kms_key_line row = (let (i, lab, usage, origin, state, created) = row
     in \<lparr>klId = i, klLabel = lab, klType = usage, klClass = origin, klVersion = state, klCreated = created\<rparr>)"

definition kms_manager :: "'s KmsClient \<Rightarrow> KmsProvider \<Rightarrow> (string \<Rightarrow> string) \<Rightarrow> 's key_manager" where
  "kms_manager K p base64 =
     \<lparr>km_tokens = (\<lambda>cur s. Some (Ok [\<lparr>slId = 0, slDescription = [], slLabel = [], slManufacturer = kms_Manufacturer p,
        slModel = kms_Model p, slSerial = []\<rparr>], s)),
      km_keys = (\<lambda>slot pre s. let (rows, e) = Kms.EnumKeys K s (\<lambda>_. None) (unat slot) pre in Some (Ok (map kms_key_line rows, e), s)),
      km_destroy = (\<lambda>slot i s. case Kms.DestroyKeyPairOnSlot K (unat slot) i s of (None, s') \<Rightarrow> Some (Ok (), s') | (Some e, s') \<Rightarrow> Some (Err e, s')),
      km_info = (\<lambda>slot i pub s. case kms_info_row K s base64 i pub of
        Inl e \<Rightarrow> Some (Err e, s)
      | Inr (i, lab, usage, origin, state, pubKey, created) \<Rightarrow> Some (Ok (kms_key_line (i, lab, usage, origin, state, created), pubKey), s))\<rparr>"

section \<open>Flags\<close>

definition str_flag :: "string option \<Rightarrow> string" where
  "str_flag f = (case f of None \<Rightarrow> [] | Some s \<Rightarrow> s)"

definition bool_flag :: "bool option \<Rightarrow> bool" where
  "bool_flag f = (case f of None \<Rightarrow> False | Some b \<Rightarrow> b)"

record RmKeyFlags =
  rmToken :: "string option"
  rmSerial :: "string option"
  rmID :: "string option"
  rmPrefix :: "string option"
  rmForce :: "bool option"

definition ensureRmKeyFlags :: "RmKeyFlags \<Rightarrow> RmKeyFlags" where
  "ensureRmKeyFlags f =
     \<lparr>rmToken = Some (str_flag (rmToken f)), rmSerial = Some (str_flag (rmSerial f)), rmID = Some (str_flag (rmID f)),
      rmPrefix = Some (str_flag (rmPrefix f)), rmForce = Some (bool_flag (rmForce f))\<rparr>"

record LsKeyFlags =
  lsToken :: "string option"
  lsSerial :: "string option"
  lsPrefix :: "string option"

definition ensureLsKeyFlags :: "LsKeyFlags \<Rightarrow> LsKeyFlags" where
  "ensureLsKeyFlags f =
     \<lparr>lsToken = Some (str_flag (lsToken f)), lsSerial = Some (str_flag (lsSerial f)), lsPrefix = Some (str_flag (lsPrefix f))\<rparr>"

record KeyInfoFlags =
  infoToken :: "string option"
  infoSerial :: "string option"
  infoID :: "string option"
  infoPublic :: "bool option"

definition ensureKeyInfoFlags :: "KeyInfoFlags \<Rightarrow> KeyInfoFlags" where
  "ensureKeyInfoFlags f =
     \<lparr>infoToken = Some (str_flag (infoToken f)), infoSerial = Some (str_flag (infoSerial f)), infoID = Some (str_flag (infoID f)),
      infoPublic = Some (bool_flag (infoPublic f))\<rparr>"

definition no_filter :: string where "no_filter = ''--@--''"

definition filter_of :: "string \<Rightarrow> string" where
  "filter_of s = (if s = [] then no_filter else s)"

definition unsupported_provider :: string where
  "unsupported_provider = ''unsupported command for this crypto provider''"

section \<open>slots.go, lskey.go, keyinfo.go\<close>

definition slot_text :: "slot_row \<Rightarrow> string" where
  "slot_text r =
     ''Slot: '' @ itoa (uint (slId r)) @ newline @ ''  Description:  '' @ slDescription r @ newline @
     ''  Token serial: '' @ slSerial r @ newline"

definition label_text :: "slot_row \<Rightarrow> string" where
  "label_text r = ''  Token label:  '' @ slLabel r @ newline"

definition Slots :: "'s key_manager option \<Rightarrow> ('s, unit) action" where
  "Slots km =
     (case km of
        None \<Rightarrow> c_fail unsupported_provider
      | Some K \<Rightarrow> c_msg ''unable to list slots''
          (c_bind (c_call (km_tokens K False)) (for_each (\<lambda>r. c_print (slot_text r @ label_text r)))))"

text \<open>The lines of a key with its number; \<open>pub\<close> has the lines of the public key.\<close>

definition key_text :: "(time \<Rightarrow> string) \<Rightarrow> nat \<Rightarrow> key_line \<Rightarrow> string \<Rightarrow> string" where
  "key_text rfc3339 n k pub =
     ''['' @ itoa (int n) @ '']'' @ newline @ ''  Id:    '' @ klId k @ newline @ ''  Label: '' @ klLabel k @ newline @
     ''  Type:  '' @ klType k @ newline @ ''  Class: '' @ klClass k @ newline @ ''  Version: '' @ klVersion k @ newline @ pub @
     (case klCreated k of None \<Rightarrow> [] | Some t \<Rightarrow> ''  Created: '' @ rfc3339 t @ newline)"

definition keys_slot :: "'s key_manager \<Rightarrow> (time \<Rightarrow> string) \<Rightarrow> LsKeyFlags \<Rightarrow> bool \<Rightarrow> slot_row \<Rightarrow> ('s, unit) action" where
  "keys_slot K rfc3339 flags isDefaultSlot r =
     (if isDefaultSlot \<or> slSerial r = filter_of (str_flag (lsSerial flags)) \<or> slLabel r = filter_of (str_flag (lsToken flags)) then
        c_bind (c_print (slot_text r @ label_text r)) (\<lambda>_.
          let pre = str_flag (lsPrefix flags); failed = ''failed to list keys on slot '' @ itoa (uint (slId r))
          in c_bind (c_msg failed (c_call (km_keys K (slId r) pre))) (\<lambda>(rows, e).
               c_bind (c_print (concat (map (\<lambda>(n, k). key_text rfc3339 n k []) (enumerate 1 rows)))) (\<lambda>_.
                 case e of
                   Some e \<Rightarrow> c_fail (failed @ '': '' @ e)
                 | None \<Rightarrow> if pre \<noteq> [] \<and> rows = [] then c_print (''no keys found with prefix: '' @ pre @ newline) else c_ret ())))
      else c_ret ())"

definition Keys :: "'s key_manager option \<Rightarrow> (time \<Rightarrow> string) \<Rightarrow> LsKeyFlags \<Rightarrow> ('s, unit) action" where
  "Keys km rfc3339 p =
     (let flags = ensureLsKeyFlags p
      in case km of
           None \<Rightarrow> c_fail unsupported_provider
         | Some K \<Rightarrow>
             (let isDefaultSlot = (str_flag (lsSerial flags) = [] \<and> str_flag (lsToken flags) = [])
              in c_bind (c_call (km_tokens K isDefaultSlot)) (for_each (keys_slot K rfc3339 flags isDefaultSlot))))"

definition info_slot :: "'s key_manager \<Rightarrow> (time \<Rightarrow> string) \<Rightarrow> KeyInfoFlags \<Rightarrow> slot_row \<Rightarrow> ('s, unit) action" where
  "info_slot K rfc3339 flags r =
     c_bind (c_print (slot_text r)) (\<lambda>_ c.
       case c_call (km_info K (slId r) (str_flag (infoID flags)) (bool_flag (infoPublic flags))) c of
         Some (Ok (k, pub), c') \<Rightarrow> c_print (key_text rfc3339 1 k (''  Public key: '' @ newline @ pub @ newline)) c'
       | Some (Err e, c') \<Rightarrow>
           c_print (''failed to get key info on slot '' @ itoa (uint (slId r)) @ '', keyID '' @ str_flag (infoID flags) @ '': '' @ e @ newline) c'
       | Some (Panic, c') \<Rightarrow> Some (Panic, c')
       | None \<Rightarrow> None)"

text \<open>An error of the enumeration of slots is dropped.\<close>

definition c_KeyInfo :: "'s key_manager option \<Rightarrow> (time \<Rightarrow> string) \<Rightarrow> KeyInfoFlags \<Rightarrow> ('s, unit) action" where
  "c_KeyInfo km rfc3339 p =
     (let flags = ensureKeyInfoFlags p
      in case km of
           None \<Rightarrow> c_fail unsupported_provider
         | Some K \<Rightarrow>
             (let isDefaultSlot = (str_flag (infoSerial flags) = []); filterSerial = filter_of (str_flag (infoSerial flags));
                  none = c_print (''no slots found with serial: '' @ filterSerial @ newline)
              in (\<lambda>c. case c_call (km_tokens K isDefaultSlot) c of
                   None \<Rightarrow> None
                 | Some (Panic, c') \<Rightarrow> Some (Panic, c')
                 | Some (Err e, c') \<Rightarrow> none c'
                 | Some (Ok rows, c') \<Rightarrow>
                     (let shown = filter (\<lambda>r. isDefaultSlot \<or> slSerial r = filterSerial) rows
                      in if shown = [] then none c' else for_each (info_slot K rfc3339 flags) shown c'))))"

section \<open>rmkey.go\<close>

definition destroyKey :: "'s key_manager \<Rightarrow> uint64 \<Rightarrow> string \<Rightarrow> ('s, unit) action" where
  "destroyKey K slotID keyID =
     c_bind (c_msg (''unable to destroy key '' @ go_quote keyID @ '' on slot '' @ itoa (uint slotID)) (c_call (km_destroy K slotID keyID)))
       (\<lambda>_. c_print (''destroyed key: '' @ keyID @ newline))"

definition destroyKeys :: "'s key_manager \<Rightarrow> uint64 \<Rightarrow> string list \<Rightarrow> ('s, unit) action" where
  "destroyKeys K slotID keys = for_each (destroyKey K slotID) keys"

definition rm_question :: string where
  "rm_question = ''WARNING: Destroyed keys can not be recovered. Type Y to continue or N to cancel.''"

definition rm_prefix :: "'s key_manager \<Rightarrow> bool \<Rightarrow> uint64 \<Rightarrow> string \<Rightarrow> ('s, unit) action" where
  "rm_prefix K force slotID pre =
     (let failed = ''failed to list keys on slot '' @ itoa (uint slotID)
      in c_bind (c_msg failed (c_call (km_keys K slotID pre))) (\<lambda>(rows, e).
           case e of
             Some e \<Rightarrow> c_fail (failed @ '': '' @ e)
           | None \<Rightarrow>
               (let keysToDestroy = map klId rows
                in if keysToDestroy = [] then c_print (''no keys found with prefix: '' @ pre @ newline)
                   else c_bind (c_print (''found '' @ itoa (int (length keysToDestroy)) @ '' key(s) with prefix: '' @ pre @ newline @
                             concat (map (\<lambda>i. ''key: '' @ i @ newline) keysToDestroy))) (\<lambda>_.
                     if force then destroyKeys K slotID keysToDestroy
                     else c_bind (c_msg ''unable to get a confirmation to destroy keys'' (AskForConfirmation rm_question)) (\<lambda>isConfirmed.
                       if \<not> isConfirmed then c_ret () else destroyKeys K slotID keysToDestroy)))))"

definition rm_slot :: "'s key_manager \<Rightarrow> RmKeyFlags \<Rightarrow> bool \<Rightarrow> slot_row \<Rightarrow> ('s, unit) action" where
  "rm_slot K flags isDefaultSlot r =
     (let i = str_flag (rmID flags); pre = str_flag (rmPrefix flags)
      in if isDefaultSlot \<or> slSerial r = filter_of (str_flag (rmSerial flags)) then
           if pre = [] \<and> i = [] then c_fail ''either of --prefix and --id must be specified''
           else if pre \<noteq> [] \<and> i \<noteq> [] then c_fail ''--prefix and --id should not be specified together''
           else if i \<noteq> [] then destroyKey K (slId r) i
           else rm_prefix K (bool_flag (rmForce flags)) (slId r) pre
         else c_ret ())"

definition RmKey :: "'s key_manager option \<Rightarrow> RmKeyFlags \<Rightarrow> ('s, unit) action" where
  "RmKey km p =
     (let flags = ensureRmKeyFlags p
      in case km of
           None \<Rightarrow> c_fail unsupported_provider
         | Some K \<Rightarrow>
             (let isDefaultSlot = (str_flag (rmSerial flags) = [])
              in c_bind (c_call (km_tokens K isDefaultSlot)) (for_each (rm_slot K flags isDefaultSlot))))"

end
