(* ===== verification/HsmFacts.thy ===== *)
theory HsmFacts
  imports Hsm
begin

text \<open>
  What the commands on keys destroy: only keys that were named, or listed for the prefix and confirmed. Whether the listed keys are
  those with the prefix is up to the provider: those of a PKCS #11 token are, AWS KMS lists all keys.
\<close>

section \<open>Actions that keep an invariant\<close>

definition preserves :: "('s Ctl \<Rightarrow> bool) \<Rightarrow> ('s, 'a) action \<Rightarrow> bool" where
  "preserves Q m \<longleftrightarrow> (\<forall>c r c'. Q c \<longrightarrow> m c = Some (r, c') \<longrightarrow> Q c')"

lemma preservesD: "preserves Q m \<Longrightarrow> Q c \<Longrightarrow> m c = Some (r, c') \<Longrightarrow> Q c'"
  by (auto simp: preserves_def)

lemma preserves_ret: "preserves Q (c_ret x)" "preserves Q (c_fail e)"
  by (simp_all add: preserves_def c_ret_def c_fail_def)

lemma preserves_bind:
  assumes "preserves Q m" and "\<And>x c c'. Q c \<Longrightarrow> m c = Some (Ok x, c') \<Longrightarrow> preserves Q (f x)"
  shows "preserves Q (c_bind m f)"
  unfolding preserves_def
proof (intro allI impI)
  fix c r c' assume q: "Q c" and run: "c_bind m f c = Some (r, c')"
  then obtain r1 c1 where m: "m c = Some (r1, c1)" by (auto simp: c_bind_def split: option.splits)
  with q assms(1) have q1: "Q c1" by (auto simp: preserves_def)
  show "Q c'"
  proof (cases r1)
    case (Ok x)
    with run m have "f x c1 = Some (r, c')" by (simp add: c_bind_def)
    with assms(2) [OF q, of x c1] m Ok q1 show ?thesis by (auto simp: preserves_def)
  qed (use run m q1 in \<open>auto simp: c_bind_def\<close>)
qed

lemma preserves_msg: "preserves Q m \<Longrightarrow> preserves Q (c_msg s m)"
  unfolding preserves_def by (auto simp: c_msg_def split: option.splits prod.splits result.splits)

lemma c_msg_Ok: "c_msg s m c = Some (Ok x, c') \<longleftrightarrow> m c = Some (Ok x, c')"
  by (auto simp: c_msg_def split: option.splits prod.splits result.splits)

lemma preserves_each: "(\<And>x. x \<in> set xs \<Longrightarrow> preserves Q (f x)) \<Longrightarrow> preserves Q (for_each f xs)"
  by (induction xs) (auto intro!: preserves_bind simp: preserves_ret)

section \<open>What is destroyed\<close>

text \<open>A provider that keeps a record of the requests to destroy a key.\<close>

definition spied :: "'s key_manager \<Rightarrow> ('s \<times> (uint64 \<times> string) list) key_manager" where
  "spied K =
     \<lparr>km_tokens = (\<lambda>cur (s, ds). map_option (\<lambda>(r, s'). (r, (s', ds))) (km_tokens K cur s)),
      km_keys = (\<lambda>slot pre (s, ds). map_option (\<lambda>(r, s'). (r, (s', ds))) (km_keys K slot pre s)),
      km_destroy = (\<lambda>slot i (s, ds). map_option (\<lambda>(r, s'). (r, (s', ds @ [(slot, i)]))) (km_destroy K slot i s)),
      km_info = (\<lambda>slot i pub (s, ds). map_option (\<lambda>(r, s'). (r, (s', ds))) (km_info K slot i pub s))\<rparr>"

definition listed :: "'s key_manager \<Rightarrow> uint64 \<Rightarrow> string \<Rightarrow> string \<Rightarrow> bool" where
  "listed K slot pre i \<longleftrightarrow> (\<exists>s rows s'. km_keys K slot pre s = Some (Ok (rows, None), s') \<and> i \<in> klId ` set rows)"

text \<open>The user agreed, with the input that was left at some point.\<close>

definition agreed :: "string list \<Rightarrow> bool" where
  "agreed inp \<longleftrightarrow> (\<exists>n. answers 3 (concat (drop n inp)) = Ok True)"

definition may_destroy :: "'s key_manager \<Rightarrow> RmKeyFlags \<Rightarrow> string list \<Rightarrow> uint64 \<Rightarrow> string \<Rightarrow> bool" where
  "may_destroy K p inp slot i \<longleftrightarrow>
     str_flag (rmPrefix p) = [] \<and> i = str_flag (rmID p) \<and> i \<noteq> [] \<or>
     str_flag (rmID p) = [] \<and> str_flag (rmPrefix p) \<noteq> [] \<and> listed K slot (str_flag (rmPrefix p)) i \<and> (bool_flag (rmForce p) \<or> agreed inp)"

definition careful :: "'s key_manager \<Rightarrow> RmKeyFlags \<Rightarrow> string list \<Rightarrow> ('s \<times> (uint64 \<times> string) list) Ctl \<Rightarrow> bool" where
  "careful K p inp c \<longleftrightarrow> (\<exists>n. stdin c = drop n inp) \<and> (\<forall>(slot, i) \<in> set (snd (world c)). may_destroy K p inp slot i)"

lemma careful_print: "preserves (careful K p inp) (c_print s)"
  by (auto simp: preserves_def c_print_def careful_def)

lemma careful_calls:
  "preserves (careful K p inp) (c_call (km_tokens (spied K) cur))"
  "preserves (careful K p inp) (c_call (km_keys (spied K) slot pre))"
  by (auto simp: preserves_def c_call_def spied_def careful_def split: prod.splits)

lemma careful_destroy:
  assumes "may_destroy K p inp slot i" shows "preserves (careful K p inp) (destroyKey (spied K) slot i)"
proof -
  have "preserves (careful K p inp) (c_call (km_destroy (spied K) slot i))"
    using assms by (auto simp: preserves_def c_call_def spied_def careful_def split: prod.splits)
  then show ?thesis unfolding destroyKey_def by (intro preserves_bind preserves_msg careful_print)
qed

lemma careful_destroys:
  "(\<And>i. i \<in> set ids \<Longrightarrow> may_destroy K p inp slot i) \<Longrightarrow> preserves (careful K p inp) (destroyKeys (spied K) slot ids)"
  unfolding destroyKeys_def by (intro preserves_each careful_destroy)

lemma careful_question: "preserves (careful K p inp) (AskForConfirmation q)"
  unfolding preserves_def
proof (intro allI impI)
  fix c r c' assume "careful K p inp c" and "AskForConfirmation q c = Some (r, c')"
  with confirm_loop_spec [of q 3 "[]" c] show "careful K p inp c'"
    by (auto simp: AskForConfirmation_def careful_def)
qed

lemma agreed_question:
  assumes "careful K p inp c" and "AskForConfirmation q c = Some (Ok True, c')" shows "agreed inp"
proof -
  obtain n where "stdin c = drop n inp" using assms(1) by (auto simp: careful_def)
  with confirm_loop_spec [of q 3 "[]" c] assms(2) show ?thesis by (auto simp: AskForConfirmation_def agreed_def)
qed

lemma spied_keys:
  "c_call (km_keys (spied K) slot pre) c = Some (Ok (rows, None), c') \<Longrightarrow> i \<in> klId ` set rows \<Longrightarrow> listed K slot pre i"
  by (auto simp: c_call_def spied_def listed_def split: prod.splits)

lemma careful_confirmed:
  assumes "\<And>i. i \<in> set ids \<Longrightarrow> force \<or> agreed inp \<Longrightarrow> may_destroy K p inp slot i"
  shows "preserves (careful K p inp)
    (if force then destroyKeys (spied K) slot ids
     else c_bind (c_msg m (AskForConfirmation q)) (\<lambda>ok. if \<not> ok then c_ret () else destroyKeys (spied K) slot ids))"
proof (cases force)
  case True
  with assms show ?thesis by (simp add: careful_destroys)
next
  case False
  have "preserves (careful K p inp) (if \<not> ok then c_ret () else destroyKeys (spied K) slot ids)"
    if "careful K p inp c" "c_msg m (AskForConfirmation q) c = Some (Ok ok, c')" for ok c c'
  proof (cases ok)
    case True
    with that have "agreed inp" using agreed_question by (auto simp: c_msg_Ok)
    with assms True show ?thesis by (simp add: careful_destroys)
  qed (simp add: preserves_ret)
  then have "preserves (careful K p inp)
    (c_bind (c_msg m (AskForConfirmation q)) (\<lambda>ok. if \<not> ok then c_ret () else destroyKeys (spied K) slot ids))"
    by (intro preserves_bind preserves_msg careful_question)
  with False show ?thesis by simp
qed

lemma careful_prefix:
  assumes f: "str_flag (rmID p) = []" "str_flag (rmPrefix p) \<noteq> []"
  shows "preserves (careful K p inp) (rm_prefix (spied K) (bool_flag (rmForce p)) slot (str_flag (rmPrefix p)))"
proof -
  let ?pre = "str_flag (rmPrefix p)"
  have may: "may_destroy K p inp slot i"
    if "c_call (km_keys (spied K) slot ?pre) c = Some (Ok (rows, None), c')" "i \<in> set (map klId rows)" "bool_flag (rmForce p) \<or> agreed inp" for c rows c' i
    using f that spied_keys [OF that(1)] by (auto simp: may_destroy_def)
  show ?thesis
    unfolding rm_prefix_def Let_def
  proof (intro preserves_bind preserves_msg careful_calls)
    fix x c c' assume run: "c_msg (''failed to list keys on slot '' @ itoa (uint slot)) (c_call (km_keys (spied K) slot ?pre)) c = Some (Ok x, c')"
    obtain rows e where x: "x = (rows, e)" by fastforce
    let ?Q = "careful K p inp"
    have "preserves ?Q (if bool_flag (rmForce p) then destroyKeys (spied K) slot (map klId rows)
        else c_bind (c_msg m (AskForConfirmation q)) (\<lambda>ok. if \<not> ok then c_ret () else destroyKeys (spied K) slot (map klId rows)))"
      if "e = None" for m q
      using run may [of c rows c'] that by (intro careful_confirmed) (auto simp: x c_msg_Ok)
    then show "preserves ?Q (case x of (rows, e) \<Rightarrow> case e of
        Some e \<Rightarrow> c_fail ((''failed to list keys on slot '' @ itoa (uint slot)) @ '': '' @ e)
      | None \<Rightarrow>
          if map klId rows = [] then c_print (''no keys found with prefix: '' @ ?pre @ newline)
          else c_bind (c_print (''found '' @ itoa (int (length (map klId rows))) @ '' key(s) with prefix: '' @ ?pre @ newline @
                  concat (map (\<lambda>i. ''key: '' @ i @ newline) (map klId rows)))) (\<lambda>_.
            if bool_flag (rmForce p) then destroyKeys (spied K) slot (map klId rows)
            else c_bind (c_msg ''unable to get a confirmation to destroy keys'' (AskForConfirmation rm_question)) (\<lambda>isConfirmed.
              if \<not> isConfirmed then c_ret () else destroyKeys (spied K) slot (map klId rows))))"
      unfolding x by (cases e) (simp_all add: preserves_ret careful_print preserves_bind del: map_map)
  qed
qed

lemma ensured_flags:
  "str_flag (rmID (ensureRmKeyFlags p)) = str_flag (rmID p)" "str_flag (rmPrefix (ensureRmKeyFlags p)) = str_flag (rmPrefix p)"
  "bool_flag (rmForce (ensureRmKeyFlags p)) = bool_flag (rmForce p)" "str_flag (rmSerial (ensureRmKeyFlags p)) = str_flag (rmSerial p)"
  by (simp_all add: ensureRmKeyFlags_def str_flag_def bool_flag_def)

lemma careful_slot: "preserves (careful K p inp) (rm_slot (spied K) (ensureRmKeyFlags p) d r)"
  unfolding rm_slot_def Let_def ensured_flags
  by (auto intro!: preserves_ret careful_destroy careful_prefix simp: may_destroy_def)

lemma RmKey_careful: "preserves (careful K p inp) (RmKey (Some (spied K)) p)"
  unfolding RmKey_def Let_def by (simp add: preserves_bind preserves_each careful_calls careful_slot)

text \<open>C11. The command that removes keys asks the provider to destroy a key only if its identifier was given, or if it was listed
  for the given prefix and the command was forced or the user agreed; never with both or neither of identifier and
  prefix.\<close>

theorem rmkey_destroys_confirmed:
  assumes "world c = (s, [])" and "RmKey (Some (spied K)) p c = Some (r, c')" and "(slot, i) \<in> set (snd (world c'))"
  shows "may_destroy K p (stdin c) slot i"
proof -
  have "careful K p (stdin c) c" using assms(1) by (auto simp: careful_def intro: exI [of _ 0])
  with assms(2) have "careful K p (stdin c) c'" using preservesD [OF RmKey_careful] by blast
  with assms(3) show ?thesis by (auto simp: careful_def)
qed

text \<open>The witness: one key is listed and the user agrees after an answer that is not understood.\<close>

definition one_key :: "unit key_manager" where
  "one_key =
     \<lparr>km_tokens = (\<lambda>cur s. Some (Ok [\<lparr>slId = 7, slDescription = [], slLabel = [], slManufacturer = [], slModel = [], slSerial = []\<rparr>], s)),
      km_keys = (\<lambda>slot pre s. Some (Ok ([\<lparr>klId = ''k1'', klLabel = pre, klType = [], klClass = [], klVersion = [], klCreated = None\<rparr>], None), s)),
      km_destroy = (\<lambda>slot i s. Some (Ok (), s)),
      km_info = (\<lambda>slot i pub s. Some (Err [], s))\<rparr>"

definition rm_prefix_flags :: "string \<Rightarrow> bool \<Rightarrow> RmKeyFlags" where
  "rm_prefix_flags pre force = \<lparr>rmToken = None, rmSerial = None, rmID = None, rmPrefix = Some pre, rmForce = Some force\<rparr>"

definition asking :: "string list \<Rightarrow> 's \<Rightarrow> 's Ctl" where
  "asking inp s = \<lparr>rc = RCOkay, outText = [], errText = [], stdin = inp, world = s\<rparr>"

lemma one_key_destroyed:
  "map_option (snd \<circ> world \<circ> snd) (RmKey (Some (spied one_key)) (rm_prefix_flags ''tmp'' False) (asking [''o'', ''k'' @ newline, ''Yes'' @ newline] ((), []))) =
     Some [(7, ''k1'')]"
  by code_simp

theorem rmkey_destroys_confirmed_witness:
  "may_destroy one_key (rm_prefix_flags ''tmp'' False) [''o'', ''k'' @ newline, ''Yes'' @ newline] 7 ''k1''"
proof -
  let ?c = "asking [''o'', ''k'' @ newline, ''Yes'' @ newline] ((), []) :: (unit \<times> (uint64 \<times> string) list) Ctl"
  obtain r c' where "RmKey (Some (spied one_key)) (rm_prefix_flags ''tmp'' False) ?c = Some (r, c')" "snd (world c') = [(7, ''k1'')]"
    using one_key_destroyed by auto
  then have "may_destroy one_key (rm_prefix_flags ''tmp'' False) (stdin ?c) 7 ''k1''"
    by (intro rmkey_destroys_confirmed [of ?c "()"]) (auto simp: asking_def)
  then show ?thesis by (simp add: asking_def)
qed

section \<open>Keys of a token\<close>

lemma key_info_label: "key_info_of E as l = Some (Ok ki, l') \<Longrightarrow> kiLabel ki = as ! 1"
  by (auto simp: key_info_of_def p_Ok)

lemma p_try_Ok: "p_try m l = Some (Ok r, l') \<longleftrightarrow> (case r of Inl e \<Rightarrow> m l = Some (Err e, l') | Inr x \<Rightarrow> m l = Some (Ok x, l'))"
  by (auto simp: p_try_def split: option.splits prod.splits result.splits sum.splits)

lemma enum_keys_prefix:
  "enum_keys_loop E C s pre cb hs ks l = Some (Ok (rows, e), l') \<Longrightarrow> pre \<noteq> [] \<Longrightarrow> (\<And>ki. ki \<in> set ks \<Longrightarrow> has_prefix (kiLabel ki) pre) \<Longrightarrow>
   ki \<in> set rows \<Longrightarrow> has_prefix (kiLabel ki) pre"
proof (induction hs arbitrary: ks l)
  case Nil
  then show ?case by (simp add: p_ret_Ok)
next
  case (Cons h hs)
  from Cons.prems(1) obtain r l1 where r: "p_try (key_attributes C s h) l = Some (Ok r, l1)" and
    run: "(case r of Inl e \<Rightarrow> p_ret (ks, Some e)
       | Inr as \<Rightarrow> p_bind (attr_at as (Suc 0)) (\<lambda>lab.
             if pre \<noteq> [] \<and> \<not> has_prefix lab pre then enum_keys_loop E C s pre cb hs ks
             else p_bind (key_info_of E as) (\<lambda>ki.
               case cb ki of Some e \<Rightarrow> p_ret (ks @ [ki], Some e) | None \<Rightarrow> enum_keys_loop E C s pre cb hs (ks @ [ki])))) l1 = Some (Ok (rows, e), l')"
    by (auto simp: p_bind_Ok)
  show ?case
  proof (cases r)
    case (Inl e')
    with run Cons.prems(3,4) show ?thesis by (auto simp: p_ret_Ok)
  next
    case (Inr as)
    show ?thesis
    proof (cases "has_prefix (as ! 1) pre")
      case False
      then have "enum_keys_loop E C s pre cb hs ks l1 = Some (Ok (rows, e), l')"
        using run Inr Cons.prems(2) by (auto simp: p_bind_Ok attr_at_Ok)
      then show ?thesis using Cons.IH Cons.prems(2-4) by blast
    next
      case True
      then obtain ki' l2 where ki': "key_info_of E as l1 = Some (Ok ki', l2)" and
        rest: "(case cb ki' of Some e \<Rightarrow> p_ret (ks @ [ki'], Some e) | None \<Rightarrow> enum_keys_loop E C s pre cb hs (ks @ [ki'])) l2 = Some (Ok (rows, e), l')"
        using run Inr by (auto simp: p_bind_Ok attr_at_Ok)
      have all: "has_prefix (kiLabel k) pre" if "k \<in> set (ks @ [ki'])" for k
        using that Cons.prems(3) True key_info_label [OF ki'] by auto
      show ?thesis
      proof (cases "cb ki'")
        case None
        with rest have "enum_keys_loop E C s pre cb hs (ks @ [ki']) l2 = Some (Ok (rows, e), l')" by simp
        from Cons.IH [OF this Cons.prems(2) all Cons.prems(4)] show ?thesis .
      next
        case (Some e')
        with rest Cons.prems(4) all show ?thesis by (auto simp: p_ret_Ok)
      qed
    qed
  qed
qed

lemma km_map_Ok: "km_map f r = Some (Ok y, s) \<longleftrightarrow> (\<exists>x. r = Some (Ok x, s) \<and> y = f x)"
  by (cases r) (auto simp: km_map_def split: result.splits)

text \<open>On a PKCS #11 token the listed keys have the prefix.\<close>

lemma token_lists_prefix:
  assumes "km_keys (p11_manager E C) slot pre l = Some (Ok (rows, None), l')" and "pre \<noteq> []" and "k \<in> set rows"
  shows "has_prefix (klLabel k) pre"
proof -
  obtain infos where run: "p11_EnumKeys E C slot pre (\<lambda>_. None) l = Some (Ok (infos, None), l')" and rows: "rows = map p11_key_line infos"
    using assms(1) by (auto simp: p11_manager_def km_map_Ok)
  obtain s hs l1 l2 where "enum_keys_loop E C s pre (\<lambda>_. None) hs [] l1 = Some (Ok (infos, None), l2)"
    using run by (auto simp: p11_EnumKeys_def on_slot_def p_bind_Ok p_defer_def)
  then have "has_prefix (kiLabel ki) pre" if "ki \<in> set infos" for ki
    using enum_keys_prefix [OF _ assms(2) _ that] by (metis empty_iff list.set(1))
  then show ?thesis using assms(3) by (auto simp: rows p11_key_line_def)
qed

section \<open>Other keys are destroyed\<close>

text \<open>The flag for the token has no effect.\<close>

lemma rmkey_ignores_token: "RmKey (km :: 'a key_manager option) (p\<lparr>rmToken := t\<rparr>) = RmKey km p"
proof -
  have "rm_slot K (ensureRmKeyFlags (p\<lparr>rmToken := t\<rparr>)) = rm_slot K (ensureRmKeyFlags p)" for K :: "'a key_manager"
    by (rule ext)+ (simp add: rm_slot_def ensured_flags Let_def)
  then show ?thesis by (cases km) (simp_all add: RmKey_def Let_def ensured_flags)
qed

text \<open>With AWS KMS every key is destroyed, whatever the prefix is.\<close>

lemma destroys_all:
  assumes "\<And>k s. \<exists>s'. ScheduleKeyDeletion K k s = (None, s')"
  shows "\<exists>c'. destroyKeys (spied (kms_manager K P b)) slot ks c = Some (Ok (), c') \<and> snd (world c') = snd (world c) @ map (Pair slot) ks"
proof (induction ks arbitrary: c)
  case Nil
  show ?case by (simp add: destroyKeys_def c_ret_def)
next
  case (Cons k ks)
  obtain s' where s': "ScheduleKeyDeletion K k (fst (world c)) = (None, s')" using assms by blast
  let ?c = "c\<lparr>world := (s', snd (world c) @ [(slot, k)]), outText := outText c @ ''destroyed key: '' @ k @ newline\<rparr>"
  have "destroyKey (spied (kms_manager K P b)) slot k c = Some (Ok (), ?c)"
    using s' by (cases "world c")
      (simp add: destroyKey_def c_bind_def c_msg_def c_call_def c_print_def spied_def kms_manager_def Kms.DestroyKeyPairOnSlot_def)
  then show ?case using Cons.IH [of ?c] by (auto simp: destroyKeys_def c_bind_def)
qed

lemma kms_prefix_destroys_all:
  assumes "KmsClient.ListKeys K s = Inr ks" and "\<forall>k \<in> set ks. DescribeKey K k s = Inr (md k) \<and> mKeyState (md k) \<noteq> ''PendingDeletion''"
    and del: "\<And>k s. \<exists>s'. ScheduleKeyDeletion K k s = (None, s')" and "pre \<noteq> []"
  shows "\<exists>c'. RmKey (Some (spied (kms_manager K P b))) (rm_prefix_flags pre True) (asking inp (s, [])) = Some (Ok (), c') \<and>
    snd (world c') = map (Pair 0) ks"
proof -
  have "filter (\<lambda>k. mKeyState (md k) \<noteq> ''PendingDeletion'') ks = ks" using assms(2) by (simp add: filter_id_conv)
  then have rows: "Kms.EnumKeys K s (\<lambda>_. None) (unat slot) pre = (map (\<lambda>k. key_row k (md k)) ks, None)" for slot :: uint64
    using assms(1,2) enum_loop_rows [of ks K s md "\<lambda>_. None" "[]"] by (simp add: Kms.EnumKeys_def)
  have ids: "map (klId \<circ> (kms_key_line \<circ> (\<lambda>k. key_row k (md k)))) ks = ks"
    by (rule map_idI) (simp add: kms_key_line_def key_row_def)
  let ?c = "asking inp (s, [])\<lparr>outText := (''found '' @ itoa (int (length ks)) @ '' key(s) with prefix: '' @ pre @ newline @
    concat (map (\<lambda>i. ''key: '' @ i @ newline) ks))\<rparr>"
  obtain c' where c': "destroyKeys (spied (kms_manager K P b)) 0 ks ?c = Some (Ok (), c')" "snd (world c') = map (Pair 0) ks"
    using destroys_all [OF del, of P b 0 ks ?c] by (auto simp: asking_def)
  have tokens: "km_tokens (spied (kms_manager K P b)) cur (s, []) = Some (Ok [\<lparr>slId = 0, slDescription = [], slLabel = [],
      slManufacturer = kms_Manufacturer P, slModel = kms_Model P, slSerial = []\<rparr>], (s, []))" for cur
    by (simp add: spied_def kms_manager_def)
  have keys: "km_keys (spied (kms_manager K P b)) slot pre (s, []) = Some (Ok (map (kms_key_line \<circ> (\<lambda>k. key_row k (md k))) ks, None), (s, []))" for slot
    by (simp add: spied_def kms_manager_def rows)
  show ?thesis using c' assms(4)
    by (cases "ks = []")
      (simp_all add: RmKey_def Let_def ensureRmKeyFlags_def rm_prefix_flags_def str_flag_def bool_flag_def rm_slot_def rm_prefix_def
        asking_def tokens keys ids c_bind_def c_msg_def c_call_def c_print_def c_ret_def)
qed

text \<open>A key of a token that has the prefix and no identifier: the first pair of the slot is destroyed in its place.\<close>

definition soft_unnamed :: "soft PKCS11Lib" where
  "soft_unnamed = soft_pairs\<lparr>tok := tok soft_pairs\<lparr>softObjs := (\<lambda>_.
     [(1, soft_object CKO_PUBLIC_KEY ''a'' @ [(CKA_LABEL, ''prod'')]), (2, soft_object CKO_PRIVATE_KEY ''a'' @ [(CKA_LABEL, ''prod'')]),
      (3, soft_object CKO_PRIVATE_KEY [] @ [(CKA_LABEL, ''tmp1'')])])\<rparr>\<rparr>"

lemma prefix_destroys_other_key:
  "map_option (\<lambda>(r, c). (r, map fst (softObjs (tok (world c)) 0)))
     (RmKey (Some (p11_manager point_env soft_ctx)) (rm_prefix_flags ''tmp'' True) (asking [] soft_unnamed)) = Some (Ok (), [3])"
  using key_constants
  by (simp add: soft_run soft_pairs_def soft_unnamed_def p11_manager_def km_map_def asking_def rm_prefix_flags_def
      RmKey_def ensureRmKeyFlags_def str_flag_def bool_flag_def rm_slot_def rm_prefix_def destroyKeys_def destroyKey_def Let_def
      c_bind_def c_msg_def c_call_def c_print_def c_ret_def p11_EnumTokens_def p11_EnumKeys_def p11_slot_row_def p11_key_line_def
      Pkcs11Keys.ListKeys_def key_attributes_def key_info_of_def ulong_roundtrip has_prefix_def name_or_empty_def
      p11_DestroyKeyPairOnSlot_def on_slot_def found_or_zero_def findKey_def find_objects_def
      find_template_def class_type_def has_attrs_def soft_object_def ulong_inj destroy_if_def)

end
