(* ===== verification/CsrCmd.thy ===== *)
theory CsrCmd
  imports CsrProv HsmFacts
begin

text \<open>
  The commands that make keys and certificates (cmd/dollypki: cli/cli.go, csr/genkey.go, csr/gencert.go, csr/signcert.go and
  hsm/genkey.go). The rest of the state of a control is the crypto provider, the files, the files that can not be
  written and what cfssl prints to standard output by itself. The default provider, which \<open>Load\<close> always sets, is taken
  to be there; without it the commands that need it panic.
\<close>

section \<open>cli.go\<close>

record 'p pki_world =
  wCrypto :: "'p Crypto option"
  wFiles :: "(string, string) gomap"
  wReadOnly :: "string list"
  wStdout :: string

record ('x, 'g, 'p) pki_env =
  pe_cf :: "('x, 'g) cfssl"
  pe_lib :: csr_lib
  pe_ops :: "'p provider_ops"
  pe_prov :: prov_env
  pe_keys :: key_env
  pe_man :: "'p \<Rightarrow> string"
  pe_loaders :: "'p loaders"
  pe_LoadFile :: "(string \<Rightarrow> string + string) \<Rightarrow> string \<Rightarrow> string + 'x signing option"
  pe_Valid :: "'x signing \<Rightarrow> bool"
  pe_SplitHosts :: "string \<Rightarrow> string list"
  pe_unmarshal :: "string \<Rightarrow> pv_request \<Rightarrow> string + pv_request"
  pe_json :: "(string \<times> string) list \<Rightarrow> string"
  pe_PrintCert :: "string option \<Rightarrow> string option \<Rightarrow> string option \<Rightarrow> string"
  pe_guid :: "byte list"
  pe_now :: "int list"

type_synonym ('p, 'a) pki_action = "('p pki_world, 'a) action"

definition os_Read :: "'p pki_world \<Rightarrow> string \<Rightarrow> string + string" where
  "os_Read w fn =
     (case mget (wFiles w) fn of None \<Rightarrow> Inl (''open '' @ fn @ '': no such file or directory'') | Some b \<Rightarrow> Inr b)"

definition cli_CryptoProv :: "('p, 'p Crypto) pki_action" where
  "cli_CryptoProv c = Some (case wCrypto (world c) of None \<Rightarrow> Panic | Some cr \<Rightarrow> Ok cr, c)"

definition EnsureCryptoProvider :: "('x, 'g, 'p) pki_env \<Rightarrow> string \<Rightarrow> ('p, unit) pki_action" where
  "EnsureCryptoProvider N hsmConfig c =
     (if wCrypto (world c) \<noteq> None then Some (Ok (), c)
      else if hsmConfig = [] then Some (Err ''use --hsm-cfg flag to specify config file'', c)
      else case Load (pe_prov N) (pe_man N) (pe_loaders N) hsmConfig [] of
        Err e \<Rightarrow> Some (Err (''unable to initialize crypto providers: '' @ e), c)
      | Panic \<Rightarrow> Some (Panic, c)
      | Ok cr \<Rightarrow> Some (Ok (), c\<lparr>world := (world c)\<lparr>wCrypto := Some cr\<rparr>\<rparr>))"

definition WithCryptoProvider :: "'p Crypto \<Rightarrow> 'p pki_world Ctl \<Rightarrow> 'p pki_world Ctl" where
  "WithCryptoProvider cr c = c\<lparr>world := (world c)\<lparr>wCrypto := Some cr\<rparr>\<rparr>"

definition ReadStdin :: "string \<Rightarrow> ('p, string) pki_action" where
  "ReadStdin fn c =
     (if fn = [] then Some (Err ''empty file name'', c)
      else if fn = ''-'' then Some (Ok (concat (stdin c)), c\<lparr>stdin := []\<rparr>)
      else case os_Read (world c) fn of Inl e \<Rightarrow> Some (Err e, c) | Inr b \<Rightarrow> Some (Ok b, c))"

definition WriteFile :: "string \<Rightarrow> string \<Rightarrow> ('p, unit) pki_action" where
  "WriteFile fn b c =
     (if fn \<in> set (wReadOnly (world c)) then Some (Err (''open '' @ fn @ '': permission denied''), c)
      else Some (Ok (), c\<lparr>world := (world c)\<lparr>wFiles := mput fn b (wFiles (world c))\<rparr>\<rparr>))"

definition opt_field :: "string \<Rightarrow> string option \<Rightarrow> (string \<times> string) list" where
  "opt_field name v = (case v of None \<Rightarrow> [] | Some b \<Rightarrow> [(name, b)])"

text \<open>The fields are encoded in the order of their names.\<close>

definition cli_PrintCert :: "('x, 'g, 'p) pki_env \<Rightarrow> string option \<Rightarrow> string option \<Rightarrow> string option \<Rightarrow> ('p, unit) pki_action" where
  "cli_PrintCert N key csrBytes cert =
     c_print (pe_json N (opt_field ''cert'' cert @ opt_field ''csr'' csrBytes @ opt_field ''key'' key) @ newline)"

text \<open>\<open>cfsslcli.PrintCert\<close> writes to standard output, not to the writer of the control.\<close>

definition cfssl_PrintCert :: "('x, 'g, 'p) pki_env \<Rightarrow> string option \<Rightarrow> string option \<Rightarrow> string option \<Rightarrow> ('p, unit) pki_action" where
  "cfssl_PrintCert N key csrBytes cert c =
     Some (Ok (), c\<lparr>world := (world c)\<lparr>wStdout := wStdout (world c) @ pe_PrintCert N key csrBytes cert\<rparr>\<rparr>)"

text \<open>A call of the default provider, which may change it.\<close>

definition c_provider :: "('p \<Rightarrow> (string, 'a) result \<times> 'p) \<Rightarrow> ('p, 'a) pki_action" where
  "c_provider f c =
     (case wCrypto (world c) of
        None \<Rightarrow> Some (Panic, c)
      | Some cr \<Rightarrow>
          (case Default cr of
             None \<Rightarrow> Some (Panic, c)
           | Some p \<Rightarrow> (let (r, p') = f p in Some (r, c\<lparr>world := (world c)\<lparr>wCrypto := Some (cr\<lparr>cr_provider := Some p'\<rparr>)\<rparr>\<rparr>))))"

definition prefixKeyLabel :: "('x, 'g, 'p) pki_env \<Rightarrow> string \<Rightarrow> string" where
  "prefixKeyLabel N label =
     (if has_suffix label ''*''
      then butlast label @ ''_'' @ concat (map2 pad_int [4, 2, 2, 2, 2, 2] (pe_now N)) @ ''_'' @ hex_encode (take 4 (guid_text (pe_guid N)))
      else label)"

definition or_empty :: "string option \<Rightarrow> string" where
  "or_empty b = (case b of None \<Rightarrow> [] | Some x \<Rightarrow> x)"

definition write_all :: "(string \<times> string) list \<Rightarrow> ('p, unit) pki_action" where
  "write_all = for_each (\<lambda>(fn, b). WriteFile fn b)"

section \<open>hsm/genkey.go\<close>

record HsmGenKeyFlags =
  hgAlgo :: "string option"
  hgSize :: "int option"
  hgPurpose :: "string option"
  hgLabel :: "string option"
  hgOutput :: "string option"
  hgForce :: "bool option"

definition purpose_of :: "string \<Rightarrow> int option" where
  "purpose_of s =
     (if s \<in> {''s'', ''sign'', ''signing''} then Some 1 else if s \<in> {''e'', ''encrypt'', ''encryption''} then Some 2 else None)"

text \<open>The key is generated, identified and exported.\<close>

definition generate_exported :: "'p provider_ops \<Rightarrow> keyRequest \<Rightarrow> 'p \<Rightarrow> (string, string) result \<times> 'p" where
  "generate_exported G kr p =
     (case pv_Generate G kr p of
        (Inl e, p') \<Rightarrow> (Err e, p')
      | (Inr prv, p') \<Rightarrow>
          (case IdentifyKey G prv of
             Inl e \<Rightarrow> (Err e, p')
           | Inr (keyID, _) \<Rightarrow>
               (case ExportKey G keyID p' of
                  Panic \<Rightarrow> (Panic, p')
                | Err e \<Rightarrow> (Err e, p')
                | Ok (uri, key) \<Rightarrow> (Ok (case key of None \<Rightarrow> uri | Some b \<Rightarrow> b), p'))))"

definition hsm_GenKey :: "('x, 'g, 'p) pki_env \<Rightarrow> HsmGenKeyFlags \<Rightarrow> ('p, unit) pki_action" where
  "hsm_GenKey N p =
     (let output = str_flag (hgOutput p)
      in c_bind cli_CryptoProv (\<lambda>_ c.
           if \<not> bool_flag (hgForce p) \<and> output \<noteq> [] \<and> mget (wFiles (world c)) output \<noteq> None
           then Some (Err (go_quote output @ '' file exists, specify --force flag to override''), c)
           else case purpose_of (str_flag (hgPurpose p)) of
             None \<Rightarrow> Some (Err (''unsupported purpose: '' @ go_quote (str_flag (hgPurpose p))), c)
           | Some purpose \<Rightarrow>
               (let kr = pv_NewKeyRequest (prefixKeyLabel N (str_flag (hgLabel p))) (str_flag (hgAlgo p))
                           (case hgSize p of None \<Rightarrow> 0 | Some n \<Rightarrow> n) purpose
                in c_bind (c_provider (generate_exported (pe_ops N) kr)) (\<lambda>key.
                     if output = [] then cfssl_PrintCert N (Some key) None None else WriteFile output key) c)))"

section \<open>csr/genkey.go\<close>

record CsrGenKeyFlags =
  cgInitca :: "bool option"
  cgCsrProfile :: "string option"
  cgLabel :: "string option"
  cgOutput :: "string option"

definition initial_request :: "('x, 'g, 'p) pki_env \<Rightarrow> string \<Rightarrow> pv_request" where
  "initial_request N label =
     \<lparr>pvCN = [], pvNames = [], pvHosts = [], pvKey = Some (pv_NewKeyRequest (prefixKeyLabel N label) ''ECDSA'' 256 1), pvCA = None,
      pvSerialNumber = []\<rparr>"

definition read_request :: "('x, 'g, 'p) pki_env \<Rightarrow> string \<Rightarrow> string \<Rightarrow> ('p, pv_request) pki_action" where
  "read_request N csrProfile label =
     c_bind (c_msg ''read CSR profile'' (ReadStdin csrProfile)) (\<lambda>csrf.
       case pe_unmarshal N csrf (initial_request N label) of Inl e \<Rightarrow> c_fail (''invalid CSR: '' @ e) | Inr req \<Rightarrow> c_ret req)"

definition csr_GenKey :: "('x, 'g, 'p) pki_env \<Rightarrow> CsrGenKeyFlags \<Rightarrow> ('p, unit) pki_action" where
  "csr_GenKey N p =
     (let baseName = str_flag (cgOutput p)
      in c_bind cli_CryptoProv (\<lambda>_.
           c_bind (read_request N (str_flag (cgCsrProfile p)) (str_flag (cgLabel p))) (\<lambda>req.
             if bool_flag (cgInitca p) then
               c_bind (c_msg ''init CA'' (c_provider (pv_NewRoot (pe_cf N) (pe_lib N) (pe_ops N) req))) (\<lambda>(cert, csrPEM, key).
                 if baseName = [] then cfssl_PrintCert N (Some key) (Some csrPEM) (Some cert)
                 else write_all [(baseName @ ''.pem'', cert), (baseName @ ''.csr'', csrPEM), (baseName @ ''-key.pem'', key)])
             else if pvCA req \<noteq> None then c_fail ''CA section only permitted with --initca option''
             else
               c_bind (c_msg ''ProcessCsrRequest'' (c_provider (ProcessCsrRequest (pe_lib N) (pe_ops N) req))) (\<lambda>(csrPEM, key, _).
                 if baseName = [] then cli_PrintCert N key (Some csrPEM) None
                 else write_all [(baseName @ ''.csr'', csrPEM), (baseName @ ''-key.pem'', or_empty key)]))))"

section \<open>csr/gencert.go, csr/signcert.go\<close>

record GenCertFlags =
  gcCA :: "string option"
  gcCAKey :: "string option"
  gcCAConfig :: "string option"
  gcCsrProfile :: "string option"
  gcLabel :: "string option"
  gcHostname :: "string option"
  gcProfile :: "string option"
  gcOutput :: "string option"

definition load_policy :: "('x, 'g, 'p) pki_env \<Rightarrow> string \<Rightarrow> ('p, 'x signing) pki_action" where
  "load_policy N caConfig c =
     (case pe_LoadFile N (os_Read (world c)) caConfig of
        Inl e \<Rightarrow> Some (Err (''ca-config: '' @ e), c)
      | Inr None \<Rightarrow> Some (Err ''missing signing policy in ca-config'', c)
      | Inr (Some pol) \<Rightarrow> if \<not> pe_Valid N pol then Some (Err ''invalid signing policy in ca-config'', c) else Some (Ok pol, c))"

definition local_signer :: "('x, 'g, 'p) pki_env \<Rightarrow> 'p Crypto \<Rightarrow> string \<Rightarrow> string \<Rightarrow> 'x signing \<Rightarrow> ('p, 'g \<times> privkey) pki_action" where
  "local_signer N cr ca caKey pol c =
     Some (NewLocalCASignerFromFile (pe_cf N) (Crypto_LoadPrivateKey (pe_prov N) (pe_keys N) (pe_man N) (\<lambda>p i. GetKey (pe_ops N) i p) cr)
       (os_Read (world c)) ca caKey (Some pol), c)"

text \<open>The error of \<open>Sign\<close> is not looked at; the certificate is nil then.\<close>

definition signed_cert :: "('x, 'g, 'p) pki_env \<Rightarrow> 'g \<Rightarrow> string \<Rightarrow> string \<Rightarrow> string \<Rightarrow> string option" where
  "signed_cert N s hostname csrPEM profile =
     (case cf_Sign (pe_cf N) s (pe_SplitHosts N hostname) csrPEM profile of Inl e \<Rightarrow> None | Inr cert \<Rightarrow> Some cert)"

definition issue_cert :: "('x, 'g, 'p) pki_env \<Rightarrow> GenCertFlags \<Rightarrow> pv_request \<Rightarrow> 'g \<Rightarrow> ('p, unit) pki_action" where
  "issue_cert N p req s =
     (let baseName = str_flag (gcOutput p)
      in c_bind (c_msg ''ProcessRequest'' (c_provider (ProcessCsrRequest (pe_lib N) (pe_ops N) req))) (\<lambda>(csrPEM, key, _).
           let cert = signed_cert N s (str_flag (gcHostname p)) csrPEM (str_flag (gcProfile p))
           in if baseName = [] then cli_PrintCert N key (Some csrPEM) cert
              else write_all [(baseName @ ''.pem'', or_empty cert), (baseName @ ''.csr'', csrPEM), (baseName @ ''-key.pem'', or_empty key)]))"

definition check_authority :: "('x, 'g, 'p) pki_env \<Rightarrow> GenCertFlags \<Rightarrow> 'p Crypto \<Rightarrow> pv_request \<Rightarrow> ('p, unit) pki_action" where
  "check_authority N p cr req =
     (if pvCA req \<noteq> None then c_fail ''CA section only permitted with --initca option, use genkey comand instead''
      else c_bind (load_policy N (str_flag (gcCAConfig p))) (\<lambda>pol.
        c_bind (c_msg ''create signer'' (local_signer N cr (str_flag (gcCA p)) (str_flag (gcCAKey p)) pol)) (\<lambda>(s, _). issue_cert N p req s)))"

definition GenCert :: "('x, 'g, 'p) pki_env \<Rightarrow> GenCertFlags \<Rightarrow> ('p, unit) pki_action" where
  "GenCert N p =
     c_bind cli_CryptoProv (\<lambda>cr.
       if str_flag (gcCA p) = [] \<or> str_flag (gcCAKey p) = [] then c_fail ''CA certificate and key are required''
       else c_bind (read_request N (str_flag (gcCsrProfile p)) (str_flag (gcLabel p))) (check_authority N p cr))"

record SignCertFlags =
  scCA :: "string option"
  scCAKey :: "string option"
  scCAConfig :: "string option"
  scCsr :: "string option"
  scHostname :: "string option"
  scProfile :: "string option"
  scOutput :: "string option"

definition SignCert :: "('x, 'g, 'p) pki_env \<Rightarrow> SignCertFlags \<Rightarrow> ('p, unit) pki_action" where
  "SignCert N p =
     (let ca = str_flag (scCA p); caKey = str_flag (scCAKey p); baseName = str_flag (scOutput p)
      in if ca = [] \<or> caKey = [] then c_fail ''CA certificate and key are required''
         else c_bind (c_msg ''read CSR'' (ReadStdin (str_flag (scCsr p)))) (\<lambda>csrPEM.
           c_bind (load_policy N (str_flag (scCAConfig p))) (\<lambda>pol.
             c_bind cli_CryptoProv (\<lambda>cr.
               c_bind (c_msg ''create signer'' (local_signer N cr ca caKey pol)) (\<lambda>(s, _).
                 let cert = signed_cert N s (str_flag (scHostname p)) csrPEM (str_flag (scProfile p))
                 in if baseName = [] then cli_PrintCert N None None cert
                    else write_all [(baseName @ ''.pem'', or_empty cert), (baseName @ ''.csr'', csrPEM)])))))"

section \<open>Nothing is changed before everything is checked\<close>

text \<open>If the state is changed at the end and not by the first step, the first step succeeded.\<close>

lemma checked_step:
  assumes "c_bind m f c = Some (r, c')" and "\<And>r c1. m c = Some (r, c1) \<Longrightarrow> world c1 = world c" and "world c' \<noteq> world c"
  obtains x c1 where "m c = Some (Ok x, c1)" and "world c1 = world c" and "f x c1 = Some (r, c')"
  using assms by (auto simp: c_bind_def split: option.splits prod.splits result.splits)

lemma c_msg_world: "(\<And>r c1. m c = Some (r, c1) \<Longrightarrow> world c1 = world c) \<Longrightarrow> c_msg s m c = Some (r, c') \<Longrightarrow> world c' = world c"
  by (auto simp: c_msg_def split: option.splits prod.splits result.splits)

lemma ReadStdin_world: "ReadStdin fn c = Some (r, c') \<Longrightarrow> world c' = world c"
  by (auto simp: ReadStdin_def split: if_splits sum.splits)

lemma read_request_world:
  assumes "read_request N f l c = Some (r, c')" shows "world c' = world c"
proof (rule ccontr)
  assume changed: "world c' \<noteq> world c"
  have msg: "c_msg s (ReadStdin f) c = Some (r, c1) \<Longrightarrow> world c1 = world c" for s r c1
    by (rule c_msg_world [OF ReadStdin_world])
  obtain x c1 where "world c1 = world c" and "(case pe_unmarshal N x (initial_request N l) of
      Inl e \<Rightarrow> c_fail (''invalid CSR: '' @ e) | Inr req \<Rightarrow> c_ret req) c1 = Some (r, c')"
    by (rule checked_step [OF assms [unfolded read_request_def] msg changed])
  with changed show False by (auto simp: c_fail_def c_ret_def split: sum.splits)
qed

lemma read_request_Ok:
  "read_request N f l c = Some (Ok req, c') \<Longrightarrow> \<exists>csrf. pe_unmarshal N csrf (initial_request N l) = Inr req"
  by (auto simp: read_request_def c_bind_def c_fail_def c_ret_def split: option.splits prod.splits result.splits sum.splits)

lemma load_policy_world: "load_policy N f c = Some (r, c') \<Longrightarrow> world c' = world c"
  by (auto simp: load_policy_def split: sum.splits option.splits if_splits)

lemma load_policy_Ok:
  "load_policy N f c = Some (Ok pol, c') \<Longrightarrow> pe_LoadFile N (os_Read (world c)) f = Inr (Some pol) \<and> pe_Valid N pol"
  by (auto simp: load_policy_def split: sum.splits option.splits if_splits)

lemma signer_world: "c_msg s (local_signer N cr ca k pol) c = Some (r, c') \<Longrightarrow> world c' = world c"
  by (rule c_msg_world) (auto simp: local_signer_def)

text \<open>A provider is not changed for a request that is not valid.\<close>

lemma issue_cert_valid:
  assumes "issue_cert N p req s c = Some (r, c')" and "world c' \<noteq> world c" shows "ValidateCSR req = None"
proof (rule ccontr)
  assume bad: "ValidateCSR req \<noteq> None"
  have "c_provider (ProcessCsrRequest (pe_lib N) (pe_ops N) req) c = Some (r1, c1) \<Longrightarrow> world c1 = world c \<and> (\<forall>x. r1 \<noteq> Ok x)" for r1 c1
    using bad by (cases "world c") (auto simp: c_provider_def ProcessCsrRequest_def Default_def split: option.splits)
  then have msg: "c_msg m (c_provider (ProcessCsrRequest (pe_lib N) (pe_ops N) req)) c = Some (r1, c1) \<Longrightarrow> world c1 = world c \<and> (\<forall>x. r1 \<noteq> Ok x)" for m r1 c1
    by (auto simp: c_msg_def split: option.splits prod.splits result.splits)
  then have world: "c_msg m (c_provider (ProcessCsrRequest (pe_lib N) (pe_ops N) req)) c = Some (r1, c1) \<Longrightarrow> world c1 = world c" for m r1 c1
    by blast
  show False
    by (rule checked_step [OF assms(1) [unfolded issue_cert_def Let_def] world assms(2)]) (auto dest: msg)
qed

text \<open>C12. The command that makes a certificate changes nothing, neither keys nor files, unless the request is valid and has no section for
  an authority, the configuration has a valid signing policy, and a signer was made from the files of the authority.\<close>

theorem gencert_checks_first:
  assumes run: "GenCert N p c = Some (r, c')" and changed: "world c' \<noteq> world c"
  shows "\<exists>cr csrf req pol s k. wCrypto (world c) = Some cr \<and>
    pe_unmarshal N csrf (initial_request N (str_flag (gcLabel p))) = Inr req \<and> pvCA req = None \<and> ValidateCSR req = None \<and>
    pe_LoadFile N (os_Read (world c)) (str_flag (gcCAConfig p)) = Inr (Some pol) \<and> pe_Valid N pol \<and>
    NewLocalCASignerFromFile (pe_cf N) (Crypto_LoadPrivateKey (pe_prov N) (pe_keys N) (pe_man N) (\<lambda>p i. GetKey (pe_ops N) i p) cr)
      (os_Read (world c)) (str_flag (gcCA p)) (str_flag (gcCAKey p)) (Some pol) = Ok (s, k)"
proof -
  let ?ca = "str_flag (gcCA p)" and ?key = "str_flag (gcCAKey p)" and ?read = "read_request N (str_flag (gcCsrProfile p)) (str_flag (gcLabel p))"
  obtain cr where cr: "wCrypto (world c) = Some cr" and run1: "c_bind ?read (check_authority N p cr) c = Some (r, c')"
    using run changed unfolding GenCert_def
    by (auto simp: c_bind_def [of cli_CryptoProv] cli_CryptoProv_def c_fail_def split: option.splits if_splits)
  obtain req c1 where req: "?read c = Some (Ok req, c1)" and w1: "world c1 = world c" and run2: "check_authority N p cr req c1 = Some (r, c')"
    by (rule checked_step [OF run1 read_request_world changed])
  have ca: "pvCA req = None" and run3: "c_bind (load_policy N (str_flag (gcCAConfig p))) (\<lambda>pol.
      c_bind (c_msg ''create signer'' (local_signer N cr ?ca ?key pol)) (\<lambda>(s, _). issue_cert N p req s)) c1 = Some (r, c')"
    using run2 changed w1 by (auto simp: check_authority_def c_fail_def split: if_splits)
  have changed1: "world c' \<noteq> world c1" using changed w1 by simp
  obtain pol c2 where pol: "load_policy N (str_flag (gcCAConfig p)) c1 = Some (Ok pol, c2)" and w2: "world c2 = world c1"
    and run4: "c_bind (c_msg ''create signer'' (local_signer N cr ?ca ?key pol)) (\<lambda>(s, _). issue_cert N p req s) c2 = Some (r, c')"
    by (rule checked_step [OF run3 load_policy_world changed1])
  have changed2: "world c' \<noteq> world c2" using changed w1 w2 by simp
  obtain sk c3 where sk: "c_msg ''create signer'' (local_signer N cr ?ca ?key pol) c2 = Some (Ok sk, c3)" and w3: "world c3 = world c2"
    and run5: "(case sk of (s, _) \<Rightarrow> issue_cert N p req s) c3 = Some (r, c')"
    by (rule checked_step [OF run4 signer_world changed2])
  obtain s k where pair: "sk = (s, k)" by fastforce
  have "ValidateCSR req = None" using issue_cert_valid [of N p req s c3 r c'] run5 changed w1 w2 w3 by (simp add: pair)
  moreover have "NewLocalCASignerFromFile (pe_cf N) (Crypto_LoadPrivateKey (pe_prov N) (pe_keys N) (pe_man N) (\<lambda>p i. GetKey (pe_ops N) i p) cr)
      (os_Read (world c)) ?ca ?key (Some pol) = Ok (s, k)"
    using sk w1 w2 by (auto simp: pair c_msg_Ok local_signer_def)
  ultimately show ?thesis using cr ca read_request_Ok [OF req] load_policy_Ok [OF pol] w1 by auto
qed

text \<open>A concrete run: a provider that counts its keys, and an authority whose signer refuses to sign.\<close>

definition counting_ops :: "nat provider_ops" where
  "counting_ops =
     \<lparr>GenerateRSAKey = (\<lambda>l b u p. (Inl ''no RSA'', p)), GenerateECDSAKey = (\<lambda>l c p. (Inr (RawKey (ECDSAKey c p)), p + 1)),
      IdentifyKey = (\<lambda>k. Inr (''id'', ''label'')), ExportKey = (\<lambda>i p. Ok (''uri'', None)), GetKey = (\<lambda>i p. Inl ''no key'')\<rparr>"

definition refusing_cfssl :: "(unit, unit) cfssl" where
  "refusing_cfssl =
     \<lparr>CAPolicy = \<lparr>polExpiryString = [], polExpiry = 0, polBackdate = 0, polMaxPathLen = 0, polMaxPathLenZero = False, polRest = ()\<rparr>,
      ParseDuration = (\<lambda>_. Inl ''bad duration''), cf_DefaultSigAlgo = (\<lambda>_. ECDSAWithSHA256), cf_NewSigner = (\<lambda>k c a pol. Inr ()),
      cf_Sign = (\<lambda>s hosts csr profile. Inl ''refused''), cf_ParseCertificatePEM = (\<lambda>b. Inr b)\<rparr>"

definition demo_keys :: key_env where
  "demo_keys =
     \<lparr>ParsePKCS8PrivateKey = (\<lambda>_. Some (ECDSAKey ''P-256'' 0)), ParsePKCS1PrivateKey = (\<lambda>_. None), ParseECPrivateKey = (\<lambda>_. None),
      GetKeyDERFromPEM = (\<lambda>b. Inr b), pem_next = (\<lambda>_. None), parse_leaf = (\<lambda>_. Inl [])\<rparr>"

definition demo_pki_env :: "(unit, unit, nat) pki_env" where
  "demo_pki_env =
     \<lparr>pe_cf = refusing_cfssl, pe_lib = demo_csr_lib, pe_ops = counting_ops, pe_prov = demo_prov_env, pe_keys = demo_keys, pe_man = (\<lambda>_. ''count''),
      pe_loaders = [], pe_LoadFile = (\<lambda>read fn. case read fn of Inl e \<Rightarrow> Inl e | Inr _ \<Rightarrow> Inr (Some (CAPolicy refusing_cfssl))),
      pe_Valid = (\<lambda>_. True), pe_SplitHosts = (\<lambda>h. [h]), pe_unmarshal = (\<lambda>b req. Inr (req\<lparr>pvCN := b\<rparr>)), pe_json = (\<lambda>_. []),
      pe_PrintCert = (\<lambda>_ _ _. []), pe_guid = replicate 16 0, pe_now = [2021, 1, 2, 3, 4, 5]\<rparr>"

definition demo_control :: "nat pki_world Ctl" where
  "demo_control =
     asking [] \<lparr>wCrypto = Some \<lparr>cr_provider = Some 0, byManufacturer = []\<rparr>,
       wFiles = [(''ca'', ''C''), (''key'', ''K''), (''cfg'', ''{}''), (''req'', ''host'')], wReadOnly = [], wStdout = []\<rparr>"

definition demo_cert_flags :: GenCertFlags where
  "demo_cert_flags =
     \<lparr>gcCA = Some ''ca'', gcCAKey = Some ''key'', gcCAConfig = Some ''cfg'', gcCsrProfile = Some ''req'', gcLabel = Some ''web*'',
      gcHostname = None, gcProfile = None, gcOutput = Some ''out''\<rparr>"

text \<open>The key is generated and its files are written though nothing was signed.\<close>

lemma refused_cert_written:
  "map_option (\<lambda>(r, c). (r, rc c, map_option cr_provider (wCrypto (world c)), map (mget (wFiles (world c))) [''out.pem'', ''out.csr'', ''out-key.pem'']))
     (RegisterAction (GenCert demo_pki_env demo_cert_flags) demo_control) =
   Some (Ok (), RCOkay, Some (Some 1), [Some [], Some ''host'', Some ''uri''])"
  by code_simp

lemma demo_cert_run: "\<exists>c'. GenCert demo_pki_env demo_cert_flags demo_control = Some (Ok (), c') \<and> map_option cr_provider (wCrypto (world c')) = Some (Some 1)"
  using refused_cert_written by (auto simp: RegisterAction_def split: option.splits prod.splits result.splits)

theorem gencert_checks_first_witness:
  "\<exists>csrf req pol. pe_unmarshal demo_pki_env csrf (initial_request demo_pki_env ''web*'') = Inr req \<and> ValidateCSR req = None \<and>
     pe_LoadFile demo_pki_env (os_Read (world demo_control)) ''cfg'' = Inr (Some pol)"
proof -
  obtain c' where run: "GenCert demo_pki_env demo_cert_flags demo_control = Some (Ok (), c')"
    and p: "map_option cr_provider (wCrypto (world c')) = Some (Some 1)" using demo_cert_run by blast
  have "map_option cr_provider (wCrypto (world demo_control)) = Some (Some 0)" by (simp add: demo_control_def asking_def)
  with p have "world c' \<noteq> world demo_control" by auto
  from gencert_checks_first [OF run this] show ?thesis by (auto simp: demo_cert_flags_def str_flag_def)
qed

section \<open>Errors of signing\<close>

text \<open>An error of the signer is lost: the command succeeds and the file of the certificate is empty.\<close>

lemma signcert_error_lost:
  assumes flags: "str_flag (scCA p) \<noteq> []" "str_flag (scCAKey p) \<noteq> []" "str_flag (scOutput p) = ''out''"
    and req: "ReadStdin (str_flag (scCsr p)) c = Some (Ok csrPEM, c)"
    and pol: "load_policy N (str_flag (scCAConfig p)) c = Some (Ok pol, c)"
    and cr: "wCrypto (world c) = Some cr" and s: "local_signer N cr (str_flag (scCA p)) (str_flag (scCAKey p)) pol c = Some (Ok (s, k), c)"
    and err: "cf_Sign (pe_cf N) s (pe_SplitHosts N (str_flag (scHostname p))) csrPEM (str_flag (scProfile p)) = Inl e"
    and "wReadOnly (world c) = []"
  shows "\<exists>c'. SignCert N p c = Some (Ok (), c') \<and> mget (wFiles (world c')) ''out.pem'' = Some []"
  using assms
  by (simp add: SignCert_def Let_def c_bind_def c_msg_def cli_CryptoProv_def signed_cert_def or_empty_def write_all_def WriteFile_def c_ret_def)

end
