(* ===== verification/Spec2Isabelle.thy ===== *)
theory Spec2Isabelle
  imports AuthzPolicy TaskSchedule Scheduler RetriableFacts MetricsFacts MetricSinkFacts Throttle
    CertFacts CertAuthorityFacts XlogFacts LogRotate RestLifecycle TlsConfig FileUtil KeyRequest Kms OidFacts ArmorFacts AuditTrail CsrCmd
begin

text \<open>
  A verification of the dolly library, a set of Go packages for services: HTTP servers and clients,
  authorization, logging, metrics, scheduled tasks, certificates and crypto providers.

  \<^bold>\<open>The program and its parts.\<close> A service is an \<open>HTTPServer\<close> (src/rest/server.go). A request passes
  the request metrics, the request log, the context handler that finds the caller's identity, the
  authorization handler and the readiness check (src/xhttp, src/xhttp/identity, src/xhttp/authz,
  src/rest/ready) before the router calls a handler of a service; errors are answered by src/xhttp/httperror and
  src/xhttp/marshal. The server listens with TLS settings whose key pair is reloaded when its files change
  (src/rest/tlsconfig), and runs a scheduler of tasks (src/tasks). Services call each other by the retrying client
  (src/xhttp/retriable). All parts log by src/xlog and count by src/metrics. The packages under src/xpki make
  certificate requests, sign certificates by profile (csr, authority, certutil, oid), keep keys in crypto
  providers (cryptoprov) or on tokens (crypto11) and read armored blocks (armor); the command dollypki (src/cmd, src/ctl)
  manages keys and makes certificates with them. Smaller packages: src/algorithms, src/netutil, src/fileutil.

  \<^bold>\<open>Conventions.\<close> \<open>Prelude\<close> has the result type of a Go call (\<open>Ok\<close>, \<open>Err\<close> or \<open>Panic\<close>), fixed-width
  integers as words, maps as association lists (\<open>gomap\<close>, in the order of insertion; where Go's iteration order
  matters the order is an argument or the keys are sorted as in the source), and shared lemmas. \<open>GoStrings\<close> and
  \<open>GoUrl\<close> are the parts of \<open>strings\<close>, \<open>strconv\<close>, \<open>fmt\<close> and \<open>net/url\<close> that the sources call. Strings are lists
  of bytes. Definitions have the name of the function they model; where two packages use one name the package
  is the prefix. A struct is a record, an operation on it returns the updated record. What the sources import
  from elsewhere (network, file system, clock, random bytes, radix tree, router, regular expressions, DER and PEM
  codecs, JSON) is an argument or a record of functions, and theorems that need something of it say so as a
  hypothesis. Concurrent code is an inductive step relation in which every step is what runs under one lock
  or one channel operation, and its theorems are about all reachable states.

  \<^bold>\<open>Theories, sources and what is shown.\<close>

  \<^item> \<open>Slices\<close> (src/algorithms/slices, math): equality, search and mapping helpers; \<open>sort_interface\<close> is the
    contract of a Go sort interface, interpreted for \<open>Uint64s\<close> here and for the scheduler in \<open>Scheduler\<close>.
  \<^item> \<open>Identity\<close>, \<open>Authz\<close>, \<open>AuthzPolicy\<close> (src/xhttp/identity, src/xhttp/authz): the tree of path nodes with its
    operations, the check of a request and the gRPC interceptor. A provider refines the policy written in its
    configuration (locale \<open>path_policy\<close>), guests reach only what \<open>AllowAny\<close> opens, the order of configuration does not matter.
  \<^item> \<open>HttpError\<close> (src/xhttp/httperror), \<open>Xhttp\<close> (src/xhttp, src/xhttp/marshal), \<open>RestServer\<close>, \<open>RestFacts\<close>,
    \<open>RestLifecycle\<close> (src/rest): the chain of handlers and the life of a server. Each handler of the chain
    keeps the contract \<open>http_handler\<close>, by sublocales of \<open>wrapped_handler\<close>; the authorization handler (\<open>authz_ServeHTTP\<close>,
    src/xhttp/authz) calls its delegate exactly for allowed requests and answers 401 else; no request reaches a service unless it
    is allowed and the server is ready; every response carries host and correlation id; in every interleaving
    of starting, serving and stopping the server is ready only after its start handlers ran, each once.
  \<^item> \<open>Netutil\<close> (src/netutil): parsing of addresses and the private ranges, local address, node information.
  \<^item> \<open>Tasks\<close>, \<open>TaskSchedule\<close>, \<open>Scheduler\<close> (src/tasks): schedules and their parser, the next run of daily,
    weekly and periodic tasks over a time zone whose clock may be changed (locale \<open>civil_zone\<close>; \<open>steady_zone\<close> for
    weekly tasks) and what goes wrong when it is, mutual exclusion of \<open>Run\<close>, the
    tasks a scheduler picks (locale \<open>sort_contract\<close>), its start and stop protocol.
  \<^item> \<open>Retriable\<close>, \<open>RetriableFacts\<close> (src/xhttp/retriable): policies, the retry loop and the loop over hosts. With a
    bounded policy (locale \<open>retry_budget\<close>) a call returns on every network, with bounded attempts and sleep and
    with the whole body in each attempt; which answer a call over several hosts returns.
  \<^item> \<open>Metrics\<close>, \<open>MetricsFacts\<close>, \<open>MetricSinks\<close>, \<open>MetricSinkFacts\<close> (src/metrics): keys, labels, filters and the sinks. What
    reaches a sink; the datagrams of the statsd sink in every interleaving; aggregates and intervals of the
    in-memory sink (locale \<open>sampled_map\<close>).
  \<^item> \<open>Throttle\<close> (src/algorithms/throttle): at most one pass per period in every interleaving.
  \<^item> \<open>Xlog\<close>, \<open>XlogFacts\<close>, \<open>LogRotate\<close> (src/xlog): levels, loggers and formatters, the channel writer. What a logging
    call writes; round trip of level settings; loggers that share an array; the writer loses nothing it
    accepted before the call of \<open>Stop\<close> that stopped it, and what is lost at \<open>Close\<close> without a channel.
  \<^item> \<open>ReloadProtocol\<close>, \<open>Reloaders\<close>, \<open>TlsConfig\<close> (src/rest/tlsconfig, src/fileutil/reloader): one protocol of a lock, a
    ticker and \<open>Close\<close> (locale \<open>reload_object\<close>), interpreted for both reloaders: handshakes get a pair in
    every interleaving, and the interleaving in which \<open>Close\<close> never returns; the transport follows a reload.
  \<^item> \<open>FileUtil\<close> (src/fileutil): values kept in files and variables, files, folders and names.
  \<^item> \<open>Csr\<close>, \<open>Certutil\<close>, \<open>CertFacts\<close>, \<open>CertAuthority\<close>, \<open>CertAuthorityFacts\<close> (src/xpki/csr, certutil, authority): requests,
    PEM chains, profiles and issuers. What is signed conforms to the profile, and nothing of a request
    that the profile does not allow has an influence.
  \<^item> \<open>Oids\<close>, \<open>OidFacts\<close> (src/xpki/oid): identifiers and the tables of algorithms, which are well formed and agree.
  \<^item> \<open>CryptoProv\<close>, \<open>CryptoProviders\<close>, \<open>CryptoFacts\<close>, \<open>Kms\<close>, \<open>KeyRequest\<close> (src/xpki/cryptoprov, csr/keyreq.go,
    csr/csrprov.go, authority/root.go): token configurations, PKCS #11 URIs, the set of providers and the
    providers in memory, for tests and for AWS KMS. The contract \<open>key_provider\<close> is interpreted for both
    providers in memory and carries key requests; a root certificate has the generated key and the subject asked for.
  \<^item> \<open>Pkcs11\<close>, \<open>Pkcs11Keys\<close>, \<open>Pkcs11Facts\<close>, \<open>SessionPool\<close>, \<open>TokenContract\<close>, \<open>SoftToken\<close> (src/xpki/crypto11): the provider on a PKCS #11
    module, whose calls are the record \<open>p11_ctx\<close> over any state of a token; a call that blocks for ever is \<open>None\<close>.
    In every interleaving an operation has its session for itself, and how many operations at a time let none block; public keys come back from their encodings; on
    a token that keeps the standard a generated key is found again. \<open>SoftToken\<close> is a token in memory that keeps
    it, on which keys of another slot and empty identifiers are seen to go wrong.
  \<^item> \<open>Armor\<close>, \<open>ArmorFacts\<close> (src/xpki/armor): the reader of ASCII armor. Blocks are read back in any layout, with headers
    and leading text; a block changed within three bytes does not pass the checksum.
  \<^item> \<open>AuditTrail\<close> (src/audit): the collector of events and the auditor that writes a file, as instances of the locale \<open>auditor\<close>. The file
    gets exactly the submitted events.
  \<^item> \<open>Ctl\<close> (src/ctl), \<open>Hsm\<close>, \<open>HsmFacts\<close> (src/cmd/dollypki/hsm), \<open>CsrProv\<close> (src/xpki/csrprov) and \<open>CsrCmd\<close> (src/cmd/dollypki/cli and csr,
    hsm/genkey.go): commands as actions on a control, over the providers of \<open>Pkcs11Keys\<close>, \<open>Kms\<close> and \<open>CryptoProviders\<close>. Keys are
    removed only if named or listed and confirmed, which with a provider that ignores the prefix are all keys; a certificate
    is made only after everything that can be checked before was checked.

  \<^bold>\<open>Loops.\<close> Loops over lists are structural recursion; scanners have a termination proof by the rest
  of the input. Three loops may not end: the retry loop of \<open>Client.Do\<close>, the PEM loops of \<open>ParseChainFromPEM\<close> and
  \<open>TLSKeyPair\<close> are partial functions to \<open>option\<close>, shown to return under the default policy resp. for a
  decoder that consumes its input; no fuel is used.

  \<^bold>\<open>Limits of the model.\<close> Floating point values are abstract. Texts of errors made by \<open>net/url\<close> and
  names of Go types in messages are left out. A formatter that panics on an unknown level has written half a
  line before, which is left out. Log lines of the reloaders and of the providers are left out. Response headers
  are looked at when the response is complete, not when the status is written. Data races on shared slices
  are modelled where a store is shared (\<open>XlogFacts\<close>, \<open>MetricsFacts\<close>), elsewhere slices are values. \<open>StartHTTP\<close> is one step:
  its goroutine runs after the heartbeat task and the audit event, which the source starts after it. The certificates parsed before
  a malformed block, which \<open>ParseChainFromPEM\<close> returns beside its error, are left out.

  \<^bold>\<open>Not modelled.\<close> OpenPGP keyrings (src/xpki/gpg) convert between the types of a third-party package; the registration of
  flags with the parser of command lines (src/ctl/proxy.go, src/cmd/dollypki/pkg); helpers for tests (src/testify); the signal
  handler of the in-memory sink; the gauges of src/metrics/util/certexpiration.go.
\<close>

end
